(* ===== verification/Gateway_Prelude.thy ===== *)
theory Gateway_Prelude
  imports Complex_Main "HOL-Library.AList" "HOL-Library.Sublist" "HOL-Library.List_Lexorder"
    "HOL-Library.Char_ord" "HOL-Library.Product_Lexorder"
begin

text \<open>
  Shared automation of the development: the collections of hints the component theories
  declare their lemmas into, and generic lemmas on lists and on the insertion-ordered
  association lists that stand for Python dictionaries.
\<close>

named_theorems emits_intro \<open>rules for the requests a computation may send\<close>
named_theorems yields_intro \<open>rules for the values a computation may return\<close>
named_theorems ioeval \<open>equations that run an effectful computation one step\<close>
named_theorems dict_simps \<open>lookups in updated dictionaries\<close>

section \<open>Lists\<close>

text \<open>Order-preserving removal of duplicates, first occurrence kept.\<close>

fun dedup_from :: "'a list \<Rightarrow> 'a list \<Rightarrow> 'a list" where
  "dedup_from seen [] = []"
| "dedup_from seen (x # xs) =
     (if x \<in> set seen then dedup_from seen xs else x # dedup_from (seen @ [x]) xs)"

lemma set_dedup_from [simp]: "set (dedup_from seen xs) = set xs - set seen"
  by (induction seen xs rule: dedup_from.induct) auto

lemma distinct_dedup_from [simp]: "distinct (dedup_from seen xs)"
  by (induction seen xs rule: dedup_from.induct) auto

lemma dedup_from_id: "distinct xs \<Longrightarrow> set xs \<inter> set seen = {} \<Longrightarrow> dedup_from seen xs = xs"
  by (induction seen xs rule: dedup_from.induct) auto

lemma length_dedup_from: "length (dedup_from seen xs) \<le> length xs"
proof (induction seen xs rule: dedup_from.induct)
  case (2 seen x xs)
  then show ?case by (cases "x \<in> set seen") (simp_all add: le_SucI)
qed simp

lemma dedup_from_cong: "set seen = set seen' \<Longrightarrow> dedup_from seen xs = dedup_from seen' xs"
proof (induction xs arbitrary: seen seen')
  case (Cons x xs)
  have "set (seen @ [x]) = set (seen' @ [x])" using Cons.prems by simp
  then have "dedup_from (seen @ [x]) xs = dedup_from (seen' @ [x]) xs" by (rule Cons.IH)
  moreover have "dedup_from seen xs = dedup_from seen' xs" using Cons by blast
  ultimately show ?case using Cons.prems by simp
qed simp

lemma in_map_filter: "y \<in> set (List.map_filter f xs) \<longleftrightarrow> (\<exists>x \<in> set xs. f x = Some y)"
  by (induction xs) (auto simp: map_filter_simps split: option.splits)

lemma map_filter_append: "List.map_filter f (xs @ ys) = List.map_filter f xs @ List.map_filter f ys"
  by (simp add: List.map_filter_def)

text \<open>Invariants of a left fold, and what a fold of additions adds up to.\<close>

lemma foldl_invariant: "P s \<Longrightarrow> (\<And>s x. P s \<Longrightarrow> P (f s x)) \<Longrightarrow> P (foldl f s xs)"
  by (induction xs arbitrary: s) simp_all

lemma foldl_union:
  "(\<And>s x. g (f s x) = g s \<union> h x) \<Longrightarrow> g (foldl f s xs) = g s \<union> (\<Union>x \<in> set xs. h x)"
  by (induction xs arbitrary: s) auto

lemma count_filter_le: "length (filter P xs) + length (filter (\<lambda>x. \<not> P x) xs) = length xs"
  by (induction xs) auto

lemma dropWhile_hd: "dropWhile P xs = y # ys \<Longrightarrow> \<not> P y"
  by (induction xs) (auto split: if_splits)

lemma dropWhile_id_iff: "dropWhile P xs = xs \<longleftrightarrow> xs = [] \<or> \<not> P (hd xs)"
proof (cases xs)
  case (Cons a list)
  then show ?thesis
    using length_dropWhile_le [of P list]
    by (metis Suc_n_not_le_n dropWhile.simps(2) length_Cons list.sel(1) list.simps(3))
qed simp

lemma take_prefix: "prefix (take n xs) xs"
  by (simp add: take_is_prefix)

section \<open>Insertion-ordered dictionaries\<close>

text \<open>
  \<open>AList.update\<close> is Python's item assignment: it replaces the value in place when the key
  is present and appends the pair otherwise, so the order of insertion is kept.
\<close>

abbreviation dict_set :: "'k \<Rightarrow> 'v \<Rightarrow> ('k \<times> 'v) list \<Rightarrow> ('k \<times> 'v) list" where
  "dict_set \<equiv> AList.update"

abbreviation dict_pop :: "'k \<Rightarrow> ('k \<times> 'v) list \<Rightarrow> ('k \<times> 'v) list" where
  "dict_pop k d \<equiv> filter (\<lambda>p. fst p \<noteq> k) d"

definition dict_merge :: "('k \<times> 'v) list \<Rightarrow> ('k \<times> 'v) list \<Rightarrow> ('k \<times> 'v) list" where
  "dict_merge base extra = foldl (\<lambda>d p. dict_set (fst p) (snd p) d) base extra"

lemma map_of_dict_set [dict_simps, simp]:
  "map_of (dict_set k v d) k' = (if k' = k then Some v else map_of d k')"
  by (simp add: update_conv)

lemma map_of_dict_pop [dict_simps, simp]:
  "map_of (dict_pop k d) k' = (if k' = k then None else map_of d k')"
  by (induction d) auto

lemma dict_merge_Nil [simp]: "dict_merge d [] = d"
  by (simp add: dict_merge_def)

lemma dict_merge_Cons [simp]: "dict_merge d (p # e) = dict_merge (dict_set (fst p) (snd p) d) e"
  by (simp add: dict_merge_def)

lemma dict_merge_append: "dict_merge d (e @ e') = dict_merge (dict_merge d e) e'"
  by (simp add: dict_merge_def)

lemma map_of_dict_merge [dict_simps]:
  "distinct (map fst e) \<Longrightarrow>
   map_of (dict_merge d e) k = (case map_of e k of Some v \<Rightarrow> Some v | None \<Rightarrow> map_of d k)"
proof (induction e arbitrary: d)
  case (Cons p e)
  have none: "map_of e (fst p) = None"
    using Cons.prems by (auto simp: map_of_eq_None_iff)
  show ?case
    using Cons none by (cases p) (auto split: option.splits)
qed simp

lemma map_of_dict_merge_notin:
  "k \<notin> fst ` set e \<Longrightarrow> map_of (dict_merge d e) k = map_of d k"
  by (induction e arbitrary: d) auto

lemma set_dict_set_fst: "fst ` set (dict_set k v d) = insert k (fst ` set d)"
  by (induction d) auto

lemma distinct_dict_set [simp]: "distinct (map fst d) \<Longrightarrow> distinct (map fst (dict_set k v d))"
  by (rule distinct_update)

lemma distinct_dict_merge: "distinct (map fst d) \<Longrightarrow> distinct (map fst (dict_merge d e))"
  by (induction e arbitrary: d) simp_all

lemma distinct_dict_pop: "distinct (map fst d) \<Longrightarrow> distinct (map fst (dict_pop k d))"
  by (induction d) auto

lemma length_dict_set:
  "length (dict_set k v d) = (if k \<in> fst ` set d then length d else Suc (length d))"
  by (induction d) auto

section \<open>Grouping: a dictionary of lists, filled with \<open>setdefault\<close> and \<open>append\<close>\<close>

definition group_add :: "('k \<times> 'v list) list \<Rightarrow> 'k \<times> 'v \<Rightarrow> ('k \<times> 'v list) list" where
  "group_add d p = dict_set (fst p) ((case map_of d (fst p) of None \<Rightarrow> [] | Some vs \<Rightarrow> vs) @ [snd p]) d"

definition grouped :: "('k \<times> 'v) list \<Rightarrow> ('k \<times> 'v list) list" where
  "grouped ps = foldl group_add [] ps"

lemma map_of_fold_group:
  "map_of (foldl group_add d ps) k =
     (let vs = map snd (filter (\<lambda>p. fst p = k) ps)
      in if vs = [] then map_of d k
         else Some ((case map_of d k of None \<Rightarrow> [] | Some ws \<Rightarrow> ws) @ vs))"
proof (induction ps arbitrary: d)
  case (Cons p ps)
  then show ?case by (auto simp: group_add_def Let_def split: option.splits)
qed simp

lemma map_of_grouped:
  "map_of (grouped ps) k = (let vs = map snd (filter (\<lambda>p. fst p = k) ps) in if vs = [] then None else Some vs)"
  by (simp add: grouped_def map_of_fold_group Let_def)

lemma distinct_grouped: "distinct (map fst (grouped ps))"
  unfolding grouped_def by (intro foldl_invariant [where P = "\<lambda>d. distinct (map fst d)"]) (simp_all add: group_add_def)

lemma in_grouped: "(k, vs) \<in> set (grouped ps) \<longleftrightarrow> vs = map snd (filter (\<lambda>p. fst p = k) ps) \<and> vs \<noteq> []"
  using map_of_eq_Some_iff [OF distinct_grouped, of ps k vs]
  by (auto simp: map_of_grouped Let_def split: if_splits)

section \<open>Sums as results that may fail\<close>

definition sum_bind :: "'e + 'a \<Rightarrow> ('a \<Rightarrow> 'e + 'b) \<Rightarrow> 'e + 'b" where
  "sum_bind r f = (case r of Inl e \<Rightarrow> Inl e | Inr x \<Rightarrow> f x)"

lemma sum_bind_simps [simp]:
  "sum_bind (Inl e) f = Inl e" "sum_bind (Inr x) f = f x"
  by (simp_all add: sum_bind_def)

lemma sum_bind_Inr_iff: "sum_bind r f = Inr y \<longleftrightarrow> (\<exists>x. r = Inr x \<and> f x = Inr y)"
  by (cases r) auto

fun sum_map_list :: "('a \<Rightarrow> 'e + 'b) \<Rightarrow> 'a list \<Rightarrow> 'e + 'b list" where
  "sum_map_list f [] = Inr []"
| "sum_map_list f (x # xs) =
     sum_bind (f x) (\<lambda>y. sum_bind (sum_map_list f xs) (\<lambda>ys. Inr (y # ys)))"

section \<open>Normalisers\<close>

text \<open>
  A function that brings a value into an accepted form and leaves accepted values alone. The
  gateway has several (segments of an id, statements, clamped values); that normalising twice
  changes nothing, and that the fixed points are the accepted values, is proved once here.
\<close>

locale normaliser =
  fixes norm :: "'a \<Rightarrow> 'a" and accepted :: "'a \<Rightarrow> bool"
  assumes norm_accepted: "accepted (norm x)"
    and accepted_fixed: "accepted x \<Longrightarrow> norm x = x"
begin

lemma norm_norm: "norm (norm x) = norm x"
  by (rule accepted_fixed) (rule norm_accepted)

lemma fixed_iff: "norm x = x \<longleftrightarrow> accepted x"
  using norm_accepted accepted_fixed by metis

lemma range_norm: "range norm = {x. accepted x}"
proof (rule set_eqI)
  fix x show "x \<in> range norm \<longleftrightarrow> x \<in> {x. accepted x}"
    using norm_accepted accepted_fixed by (metis mem_Collect_eq rangeE rangeI)
qed

end

section \<open>Keyed stores\<close>

text \<open>
  The contract of a store of values that carry their own key and of which some are hidden (an
  expired entry is treated as absent), as far as its clients rely on it. The invariant is the
  provider's and every operation keeps it.
\<close>

locale keyed_store =
  fixes inv :: "'s \<Rightarrow> bool"
    and lookup :: "'s \<Rightarrow> 'k \<Rightarrow> 'v option"
    and key_of :: "'v \<Rightarrow> 'k"
    and put :: "'v \<Rightarrow> 's \<Rightarrow> 's"
    and drop_key :: "'k \<Rightarrow> 's \<Rightarrow> 's"
    and visible :: "'v \<Rightarrow> bool"
  assumes inv_put: "inv s \<Longrightarrow> inv (put v s)"
    and inv_drop: "inv s \<Longrightarrow> inv (drop_key k s)"
    and lookup_put: "inv s \<Longrightarrow> lookup (put v s) k =
        (if k = key_of v then (if visible v then Some v else None) else lookup s k)"
    and lookup_drop: "inv s \<Longrightarrow> lookup (drop_key k s) k' = (if k' = k then None else lookup s k')"
begin

lemma put_twice: "inv s \<Longrightarrow> key_of v = key_of w \<Longrightarrow> lookup (put v (put w s)) = lookup (put v s)"
  by (simp add: fun_eq_iff lookup_put inv_put)

lemma put_commute:
  "inv s \<Longrightarrow> key_of v \<noteq> key_of w \<Longrightarrow> lookup (put v (put w s)) = lookup (put w (put v s))"
  by (simp add: fun_eq_iff lookup_put inv_put)

lemma drop_put: "inv s \<Longrightarrow> lookup (drop_key (key_of v) (put v s)) = lookup (drop_key (key_of v) s)"
  by (simp add: fun_eq_iff lookup_put lookup_drop inv_put)

lemma inv_put_all: "inv s \<Longrightarrow> inv (fold put vs s)"
  by (induction vs arbitrary: s) (auto simp: inv_put)

lemma put_all:
  "inv s \<Longrightarrow> lookup (fold put vs s) k =
     (case find (\<lambda>v. key_of v = k) (rev vs) of
        None \<Rightarrow> lookup s k
      | Some v \<Rightarrow> if visible v then Some v else None)"
proof (induction vs rule: rev_induct)
  case (snoc v vs)
  then show ?case by (auto simp: lookup_put inv_put_all)
qed simp

end

end
