(* ===== verification/Py_Text.thy ===== *)
theory Py_Text
  imports Gateway_Prelude
begin

text \<open>
  The operations of Python's \<open>str\<close> that the gateway uses. A text is a list of characters
  and a character is one code point below 256 (Latin-1): \<open>length\<close>, slicing and comparison
  then mean what they mean in Python. The two glyphs above that range which occur in message
  literals of the source, the em dash and the horizontal ellipsis, are written as the single
  characters 0x97 and 0x85, so that lengths agree.
\<close>

definition em_dash :: string where
  "em_dash = [CHR 0x97]"

definition ellipsis_mark :: string where
  "ellipsis_mark = [CHR 0x85]"

section \<open>Character classes\<close>

definition code :: "char \<Rightarrow> nat" where
  "code c = of_char c"

text \<open>\<open>str.isspace\<close>, which is also what \<open>\s\<close> matches in a text pattern.\<close>

definition py_space :: "char \<Rightarrow> bool" where
  "py_space c \<longleftrightarrow> (9 \<le> code c \<and> code c \<le> 13) \<or> (28 \<le> code c \<and> code c \<le> 32) \<or> code c = 160"

definition is_digit :: "char \<Rightarrow> bool" where
  "is_digit c \<longleftrightarrow> 48 \<le> code c \<and> code c \<le> 57"

definition is_upper_ascii :: "char \<Rightarrow> bool" where
  "is_upper_ascii c \<longleftrightarrow> 65 \<le> code c \<and> code c \<le> 90"

definition is_lower_ascii :: "char \<Rightarrow> bool" where
  "is_lower_ascii c \<longleftrightarrow> 97 \<le> code c \<and> code c \<le> 122"

definition is_alpha_ascii :: "char \<Rightarrow> bool" where
  "is_alpha_ascii c \<longleftrightarrow> is_upper_ascii c \<or> is_lower_ascii c"

text \<open>\<open>\w\<close> on Latin-1: letters, decimal and other numeric characters, underscore.\<close>

definition is_word :: "char \<Rightarrow> bool" where
  "is_word c \<longleftrightarrow> is_digit c \<or> is_alpha_ascii c \<or> c = CHR ''_''
     \<or> code c \<in> {170, 178, 179, 181, 185, 186, 188, 189, 190}
     \<or> (192 \<le> code c \<and> code c \<noteq> 215 \<and> code c \<noteq> 247)"

definition lower_char :: "char \<Rightarrow> char" where
  "lower_char c =
     (if is_upper_ascii c \<or> (192 \<le> code c \<and> code c \<le> 222 \<and> code c \<noteq> 215)
      then char_of (code c + 32) else c)"

definition lower :: "string \<Rightarrow> string" where
  "lower s = map lower_char s"

lemma lower_char_idem [simp]: "lower_char (lower_char c) = lower_char c"
proof (cases "is_upper_ascii c \<or> (192 \<le> code c \<and> code c \<le> 222 \<and> code c \<noteq> 215)")
  case True
  then have "code c + 32 < 256" by (auto simp: is_upper_ascii_def)
  then have "code (char_of (code c + 32)) = code c + 32" by (simp add: code_def)
  with True show ?thesis by (auto simp: lower_char_def is_upper_ascii_def)
next
  case False
  then have "lower_char c = c" by (simp only: lower_char_def if_False)
  then show ?thesis by simp
qed

lemma lower_lower [simp]: "lower (lower s) = lower s"
  by (simp add: lower_def)

lemma lower_append [simp]: "lower (a @ b) = lower a @ lower b"
  by (simp add: lower_def)

lemma length_lower [simp]: "length (lower s) = length s"
  by (simp add: lower_def)

text \<open>
  \<open>str.upper\<close>; the three characters whose upper case is not one Latin-1 character are
  \<open>\<szlig>\<close> (0xDF, expands to SS) and 0xB5, 0xFF, which leave the range and are kept.
\<close>

definition upper_char :: "char \<Rightarrow> string" where
  "upper_char c =
     (if is_lower_ascii c \<or> (224 \<le> code c \<and> code c \<le> 254 \<and> code c \<noteq> 247)
      then [char_of (code c - 32)] else if code c = 223 then ''SS'' else [c])"

definition upper :: "string \<Rightarrow> string" where
  "upper s = concat (map upper_char s)"

section \<open>Slicing\<close>

text \<open>\<open>s[:n]\<close> and \<open>s[n:]\<close>: a negative bound counts from the end.\<close>

definition py_take :: "int \<Rightarrow> 'a list \<Rightarrow> 'a list" where
  "py_take n xs = (if n < 0 then take (length xs - nat (- n)) xs else take (nat n) xs)"

definition py_drop :: "int \<Rightarrow> 'a list \<Rightarrow> 'a list" where
  "py_drop n xs = (if n < 0 then drop (length xs - nat (- n)) xs else drop (nat n) xs)"

section \<open>Stripping\<close>

definition strip_left_by :: "(char \<Rightarrow> bool) \<Rightarrow> string \<Rightarrow> string" where
  "strip_left_by p s = dropWhile p s"

definition strip_right_by :: "(char \<Rightarrow> bool) \<Rightarrow> string \<Rightarrow> string" where
  "strip_right_by p s = rev (dropWhile p (rev s))"

definition strip_by :: "(char \<Rightarrow> bool) \<Rightarrow> string \<Rightarrow> string" where
  "strip_by p s = strip_right_by p (strip_left_by p s)"

abbreviation lstrip :: "string \<Rightarrow> string" where "lstrip \<equiv> strip_left_by py_space"
abbreviation rstrip :: "string \<Rightarrow> string" where "rstrip \<equiv> strip_right_by py_space"
abbreviation strip :: "string \<Rightarrow> string" where "strip \<equiv> strip_by py_space"

lemma set_strip_left_by: "set (strip_left_by p s) \<subseteq> set s"
  by (auto simp: strip_left_by_def dest: set_dropWhileD)

lemma set_strip_right_by: "set (strip_right_by p s) \<subseteq> set s"
  by (auto simp: strip_right_by_def dest: set_dropWhileD)

lemma set_strip_by: "set (strip_by p s) \<subseteq> set s"
  unfolding strip_by_def using set_strip_left_by set_strip_right_by by fast

lemma length_strip_left_by: "length (strip_left_by p s) \<le> length s"
  by (simp add: strip_left_by_def length_dropWhile_le)

lemma length_strip_right_by: "length (strip_right_by p s) \<le> length s"
  using length_dropWhile_le [of p "rev s"] by (simp add: strip_right_by_def)

lemma length_strip_by: "length (strip_by p s) \<le> length s"
  unfolding strip_by_def using length_strip_left_by length_strip_right_by le_trans by blast

lemma strip_right_by_prefix: "prefix (strip_right_by p s) s"
proof -
  have "suffix (dropWhile p (rev s)) (rev s)"
    by (metis suffix_dropWhile)
  then show ?thesis
    by (simp add: strip_right_by_def suffix_to_prefix)
qed

lemma strip_left_by_Nil_iff: "strip_left_by p s = [] \<longleftrightarrow> (\<forall>c \<in> set s. p c)"
  by (simp add: strip_left_by_def)

lemma strip_right_by_Nil_iff: "strip_right_by p s = [] \<longleftrightarrow> (\<forall>c \<in> set s. p c)"
  by (simp add: strip_right_by_def)

lemma hd_strip_left_by: "strip_left_by p s \<noteq> [] \<Longrightarrow> \<not> p (hd (strip_left_by p s))"
  by (simp add: strip_left_by_def hd_dropWhile)

lemma last_strip_right_by: "strip_right_by p s \<noteq> [] \<Longrightarrow> \<not> p (last (strip_right_by p s))"
  by (simp add: strip_right_by_def hd_dropWhile last_rev)

lemma hd_strip_right_by:
  "strip_right_by p s \<noteq> [] \<Longrightarrow> hd (strip_right_by p s) = hd s"
  by (metis hd_append2 prefix_def strip_right_by_prefix)

lemma strip_left_by_id: "s = [] \<or> \<not> p (hd s) \<Longrightarrow> strip_left_by p s = s"
  by (simp add: strip_left_by_def dropWhile_id_iff)

lemma strip_right_by_id: "s = [] \<or> \<not> p (last s) \<Longrightarrow> strip_right_by p s = s"
  by (cases s rule: rev_cases) (simp_all add: strip_right_by_def)

lemma strip_by_id: "s = [] \<or> (\<not> p (hd s) \<and> \<not> p (last s)) \<Longrightarrow> strip_by p s = s"
  by (auto simp: strip_by_def strip_left_by_id strip_right_by_id)

lemma strip_by_ends:
  assumes "strip_by p s \<noteq> []"
  shows "\<not> p (hd (strip_by p s))" and "\<not> p (last (strip_by p s))"
proof -
  have "strip_left_by p s \<noteq> []"
    using assms by (auto simp: strip_by_def strip_right_by_def)
  with assms show "\<not> p (hd (strip_by p s))"
    by (simp add: strip_by_def hd_strip_right_by hd_strip_left_by)
  from assms show "\<not> p (last (strip_by p s))"
    by (simp add: strip_by_def last_strip_right_by)
qed

lemma strip_by_idem [simp]: "strip_by p (strip_by p s) = strip_by p s"
  using strip_by_id [of "strip_by p s" p] strip_by_ends [of p s] by blast

section \<open>Searching, splitting, joining, replacing\<close>

definition contains :: "string \<Rightarrow> string \<Rightarrow> bool" where
  "contains needle hay \<longleftrightarrow> sublist needle hay"

lemma contains_iff: "contains n h \<longleftrightarrow> (\<exists>a b. h = a @ n @ b)"
  by (simp add: contains_def sublist_def)

lemma contains_append1 [simp]: "contains n h \<Longrightarrow> contains n (h @ t)"
  by (metis append.assoc contains_iff)

lemma contains_append2 [simp]: "contains n h \<Longrightarrow> contains n (t @ h)"
  by (metis append.assoc contains_iff)

lemma contains_self [simp]: "contains n n" "contains n (n @ t)" "contains n (t @ n)"
  by (auto simp: contains_iff) (metis append_Nil append_Nil2)+

abbreviation starts_with :: "string \<Rightarrow> string \<Rightarrow> bool" where
  "starts_with s p \<equiv> prefix p s"

abbreviation ends_with :: "string \<Rightarrow> string \<Rightarrow> bool" where
  "ends_with s p \<equiv> suffix p s"

text \<open>\<open>s.split(sep)\<close> for a non-empty separator, scanning left to right.\<close>

function split_go :: "string \<Rightarrow> string \<Rightarrow> string \<Rightarrow> string list" where
  "split_go sep acc s =
     (if sep \<noteq> [] \<and> prefix sep s then rev acc # split_go sep [] (drop (length sep) s)
      else case s of [] \<Rightarrow> [rev acc] | c # cs \<Rightarrow> split_go sep (c # acc) cs)"
  by pat_completeness auto
termination
proof (relation "measure (\<lambda>(sep, acc, s). length s)", goal_cases)
  case (2 sep acc s)
  then show ?case by (cases s; cases sep) auto
qed auto

declare split_go.simps [simp del]

definition split_on :: "string \<Rightarrow> string \<Rightarrow> string list" where
  "split_on sep s = split_go sep [] s"

fun join :: "string \<Rightarrow> string list \<Rightarrow> string" where
  "join sep [] = []"
| "join sep [x] = x"
| "join sep (x # y # xs) = x @ sep @ join sep (y # xs)"

lemma join_Cons: "xs \<noteq> [] \<Longrightarrow> join sep (x # xs) = x @ sep @ join sep xs"
  by (cases xs) auto

lemma split_go_not_Nil [simp]: "split_go sep acc s \<noteq> []"
  by (induction sep acc s rule: split_go.induct)
    (subst split_go.simps, auto split: list.splits)

lemma join_split_go: "sep \<noteq> [] \<Longrightarrow> join sep (split_go sep acc s) = rev acc @ s"
proof (induction sep acc s rule: split_go.induct)
  case (1 sep acc s)
  show ?case
  proof (cases "prefix sep s")
    case True
    then obtain t where s: "s = sep @ t" by (auto simp: prefix_def)
    from "1.IH"(1) True \<open>sep \<noteq> []\<close>
    have "join sep (split_go sep [] (drop (length sep) s)) = drop (length sep) s" by simp
    with True s \<open>sep \<noteq> []\<close> show ?thesis
      by (subst split_go.simps) (simp add: join_Cons)
  next
    case False
    then show ?thesis
      using "1.IH"(2) \<open>sep \<noteq> []\<close> by (subst split_go.simps) (auto split: list.splits)
  qed
qed

lemma join_split_on: "sep \<noteq> [] \<Longrightarrow> join sep (split_on sep s) = s"
  by (simp add: split_on_def join_split_go)

text \<open>A run of characters none of which starts the separator is read into the accumulator.\<close>

lemma split_go_skip:
  "sep \<noteq> [] \<Longrightarrow> \<forall>c \<in> set w. c \<noteq> hd sep \<Longrightarrow> split_go sep acc (w @ s) = split_go sep (rev w @ acc) s"
proof (induction w arbitrary: acc)
  case (Cons c w)
  have "\<not> prefix sep (c # w @ s)"
    using Cons.prems by (cases sep) auto
  then have "split_go sep acc ((c # w) @ s) = split_go sep (c # acc) (w @ s)"
    by (subst split_go.simps) simp
  also have "\<dots> = split_go sep (rev (c # w) @ acc) s"
    using Cons by simp
  finally show ?case .
qed simp

lemma split_go_sep: "sep \<noteq> [] \<Longrightarrow> split_go sep acc (sep @ s) = rev acc # split_go sep [] s"
  by (subst split_go.simps) simp

lemma split_go_end: "sep \<noteq> [] \<Longrightarrow> split_go sep acc [] = [rev acc]"
  by (subst split_go.simps) (cases sep; simp)

lemma split_on_join:
  assumes "sep \<noteq> []" and "xs \<noteq> []" and "\<forall>x \<in> set xs. \<forall>c \<in> set x. c \<noteq> hd sep"
  shows "split_on sep (join sep xs) = xs"
  using assms(2,3)
proof (induction xs rule: list_nonempty_induct)
  case (single x)
  then show ?case
    using split_go_skip [of sep x "[]" "[]"] assms(1) by (simp add: split_on_def split_go_end)
next
  case (cons x xs)
  have "split_go sep [] (x @ sep @ join sep xs) = x # split_go sep [] (join sep xs)"
    using cons.prems assms(1)
    by (subst split_go_skip) (simp_all add: split_go_sep)
  with cons show ?case by (simp add: split_on_def join_Cons)
qed

text \<open>\<open>s.split()\<close>: maximal runs without white space.\<close>

fun words_go :: "string \<Rightarrow> string \<Rightarrow> string list" where
  "words_go acc [] = (if acc = [] then [] else [rev acc])"
| "words_go acc (c # cs) =
     (if py_space c then (if acc = [] then words_go [] cs else rev acc # words_go [] cs)
      else words_go (c # acc) cs)"

definition words :: "string \<Rightarrow> string list" where
  "words s = words_go [] s"

text \<open>\<open>s.replace(old, new)\<close> for a non-empty \<open>old\<close>.\<close>

definition replace_all :: "string \<Rightarrow> string \<Rightarrow> string \<Rightarrow> string" where
  "replace_all old new s = join new (split_on old s)"

text \<open>\<open>s.partition(sep)\<close>.\<close>

fun partition_go :: "string \<Rightarrow> string \<Rightarrow> string \<Rightarrow> string \<times> string \<times> string" where
  "partition_go sep acc [] = (if sep = [] then ([], [], []) else (rev acc, [], []))"
| "partition_go sep acc (c # cs) =
     (if prefix sep (c # cs) then (rev acc, sep, drop (length sep) (c # cs))
      else partition_go sep (c # acc) cs)"

definition partition_on :: "string \<Rightarrow> string \<Rightarrow> string \<times> string \<times> string" where
  "partition_on sep s = partition_go sep [] s"

text \<open>\<open>s.splitlines()\<close> on Latin-1; a carriage return directly before a line feed ends one line.\<close>

definition line_break :: "char \<Rightarrow> bool" where
  "line_break c \<longleftrightarrow> (10 \<le> code c \<and> code c \<le> 13) \<or> code c \<in> {28, 29, 30}"

fun lines_go :: "string \<Rightarrow> string \<Rightarrow> string list" where
  "lines_go acc [] = (if acc = [] then [] else [rev acc])"
| "lines_go acc (c # cs) =
     (if line_break c
      then rev acc # (if code c = 13 \<and> cs \<noteq> [] \<and> code (hd cs) = 10
                      then lines_go [] (tl cs) else lines_go [] cs)
      else lines_go (c # acc) cs)"

definition split_lines :: "string \<Rightarrow> string list" where
  "split_lines s = lines_go [] s"

section \<open>Numbers as text\<close>

definition digit_char :: "nat \<Rightarrow> char" where
  "digit_char d = char_of (48 + d)"

definition digit_value :: "char \<Rightarrow> nat" where
  "digit_value c = code c - 48"

fun show_nat :: "nat \<Rightarrow> string" where
  "show_nat n = (if n < 10 then [digit_char n] else show_nat (n div 10) @ [digit_char (n mod 10)])"

declare show_nat.simps [simp del]

definition show_int :: "int \<Rightarrow> string" where
  "show_int i = (if i < 0 then ''-'' @ show_nat (nat (- i)) else show_nat (nat i))"

text \<open>
  The same digits by recursion on an integer, whose arithmetic is binary: the equations that
  evaluation uses. A case on the test keeps the untaken branch unevaluated.
\<close>

function show_digits :: "int \<Rightarrow> string" where
  "show_digits i = (case i < 10 of True \<Rightarrow> [digit_char (nat i)]
                     | False \<Rightarrow> show_digits (i div 10) @ [digit_char (nat (i mod 10))])"
  by pat_completeness auto
termination by (relation "measure nat") auto

declare show_digits.simps [simp del]

lemma show_digits_nat: "show_digits (int n) = show_nat n"
proof (induction n rule: less_induct)
  case (less n)
  show ?case
  proof (cases "n < 10")
    case True
    then show ?thesis by (subst show_digits.simps, subst show_nat.simps) simp
  next
    case False
    then have "show_digits (int (n div 10)) = show_nat (n div 10)" by (intro less) simp
    then show ?thesis
      using False by (subst show_digits.simps, subst show_nat.simps) (simp add: zdiv_int nat_mod_distrib)
  qed
qed

lemma show_int_code [code]:
  "show_int i = (case i < 0 of True \<Rightarrow> ''-'' @ show_digits (- i) | False \<Rightarrow> show_digits i)"
  using show_digits_nat [of "nat i"] show_digits_nat [of "nat (- i)"]
  by (cases "i < 0") (simp_all add: show_int_def)

lemma show_nat_code [code]: "show_nat n = show_digits (int n)" by (simp add: show_digits_nat)

definition read_digits :: "string \<Rightarrow> nat" where
  "read_digits s = foldl (\<lambda>n c. 10 * n + digit_value c) 0 s"

lemma digit_chars:
  "digit_char 0 = CHR ''0''" "digit_char 1 = CHR ''1''" "digit_char (Suc 0) = CHR ''1''"
  "digit_char 2 = CHR ''2''"
  "digit_char 3 = CHR ''3''" "digit_char 4 = CHR ''4''" "digit_char 5 = CHR ''5''"
  "digit_char 6 = CHR ''6''" "digit_char 7 = CHR ''7''" "digit_char 8 = CHR ''8''"
  "digit_char 9 = CHR ''9''"
  by code_simp+

lemmas show_number = show_int_def show_nat.simps digit_chars

lemma code_digit_char: "d < 10 \<Longrightarrow> code (digit_char d) = 48 + d"
  by (simp add: code_def digit_char_def of_char_of)

lemma digit_value_char [simp]: "d < 10 \<Longrightarrow> digit_value (digit_char d) = d"
  by (simp add: digit_value_def code_digit_char)

lemma is_digit_char: "d < 10 \<Longrightarrow> is_digit (digit_char d)"
  by (simp add: is_digit_def code_digit_char)

lemma show_nat_digits: "\<forall>c \<in> set (show_nat n). is_digit c"
proof (induction n rule: show_nat.induct)
  case (1 n)
  then show ?case by (subst show_nat.simps) (auto simp: is_digit_char)
qed

lemma show_nat_not_Nil [simp]: "show_nat n \<noteq> []"
  by (subst show_nat.simps) simp

lemma read_digits_snoc: "read_digits (s @ [c]) = 10 * read_digits s + digit_value c"
  by (simp add: read_digits_def)

lemma read_show_nat [simp]: "read_digits (show_nat n) = n"
proof (induction n rule: show_nat.induct)
  case (1 n)
  show ?case
  proof (cases "n < 10")
    case True
    then show ?thesis by (subst show_nat.simps) (simp add: read_digits_def)
  next
    case False
    with 1 show ?thesis
      by (subst show_nat.simps) (simp add: read_digits_snoc)
  qed
qed

text \<open>\<open>int(text)\<close> for a text of an optional sign, digits and single underscores between digits.\<close>

fun digits_ok :: "bool \<Rightarrow> string \<Rightarrow> bool" where
  "digits_ok after_digit [] = after_digit"
| "digits_ok after_digit (c # cs) =
     (if is_digit c then digits_ok True cs
      else c = CHR ''_'' \<and> after_digit \<and> digits_ok False cs)"

definition read_unsigned :: "string \<Rightarrow> nat option" where
  "read_unsigned s =
     (if digits_ok False s then Some (read_digits (filter is_digit s)) else None)"

definition read_int :: "string \<Rightarrow> int option" where
  "read_int s =
     (case strip s of
        [] \<Rightarrow> None
      | c # cs \<Rightarrow>
          if c = CHR ''-'' then map_option (\<lambda>n. - int n) (read_unsigned cs)
          else if c = CHR ''+'' then map_option int (read_unsigned cs)
          else map_option int (read_unsigned (c # cs)))"

lemma digits_ok_all: "\<forall>c \<in> set s. is_digit c \<Longrightarrow> digits_ok b s \<longleftrightarrow> b \<or> s \<noteq> []"
  by (induction s arbitrary: b) auto

lemma read_unsigned_digits:
  "s \<noteq> [] \<Longrightarrow> \<forall>c \<in> set s. is_digit c \<Longrightarrow> read_unsigned s = Some (read_digits s)"
  by (simp add: read_unsigned_def digits_ok_all)

lemma is_digit_not_space: "is_digit c \<Longrightarrow> \<not> py_space c"
  by (auto simp: is_digit_def py_space_def)

lemma is_digit_not_sign: "is_digit c \<Longrightarrow> c \<noteq> CHR ''-'' \<and> c \<noteq> CHR ''+''"
  by (auto simp: is_digit_def code_def)

lemma strip_digits: "s \<noteq> [] \<Longrightarrow> \<forall>c \<in> set s. is_digit c \<Longrightarrow> strip s = s"
  using is_digit_not_space by (intro strip_by_id) auto

lemma read_show_int [simp]: "read_int (show_int i) = Some i"
proof (cases "i < 0")
  case True
  let ?d = "show_nat (nat (- i))"
  have d: "?d \<noteq> []" "\<forall>c \<in> set ?d. is_digit c" by (simp_all add: show_nat_digits)
  have "strip (CHR ''-'' # ?d) = CHR ''-'' # ?d"
    using d is_digit_not_space by (intro strip_by_id) (auto simp: py_space_def code_def)
  with True d show ?thesis
    by (simp add: show_int_def read_int_def read_unsigned_digits)
next
  case False
  let ?d = "show_nat (nat i)"
  have d: "?d \<noteq> []" "\<forall>c \<in> set ?d. is_digit c" by (simp_all add: show_nat_digits)
  obtain c cs where dc: "?d = c # cs" using d(1) by (cases ?d) auto
  with d have "c \<noteq> CHR ''-''" "c \<noteq> CHR ''+''" using is_digit_not_sign by auto
  moreover have "read_unsigned (c # cs) = Some (nat i)"
    using read_unsigned_digits [of ?d] d dc by (metis read_show_nat)
  moreover have "strip (c # cs) = c # cs"
    using strip_digits [of ?d] d dc by simp
  ultimately show ?thesis
    using False dc by (simp add: show_int_def read_int_def)
qed

end
