(* ===== verification/Py_Regex.thy ===== *)
theory Py_Regex
  imports Py_Text
begin

text \<open>
  Python's \<open>re\<close> as far as the gateway uses it: a backtracking matcher over the constructs
  that occur in its patterns. A run is the list of ways a pattern can match at a position, in
  the order the engine tries them, so the first element is the match Python reports. A
  position keeps the text before it (reversed) and the text after it, because word
  boundaries and look-behinds read both sides, and the groups captured so far.
\<close>

datatype re =
    Cls "char \<Rightarrow> bool"
  | Eps
  | Seq re re
  | Alt re re
  | Star re
  | Opt re
  | Cap nat re
  | Bol
  | Eol
  | WordB
  | NotAhead re
  | NotBehind "char \<Rightarrow> bool"

type_synonym position = "string \<times> string \<times> (nat \<times> string) list"

text \<open>A greedy repetition whose passes each consume something; the bound is the rest's length.\<close>

fun star_run :: "nat \<Rightarrow> (position \<Rightarrow> position list) \<Rightarrow> position \<Rightarrow> position list" where
  "star_run 0 f st = [st]"
| "star_run (Suc n) f st =
     concat (map (star_run n f)
       (filter (\<lambda>st'. length (fst (snd st')) < length (fst (snd st))) (f st))) @ [st]"

definition at_word_boundary :: "string \<Rightarrow> string \<Rightarrow> bool" where
  "at_word_boundary pre post \<longleftrightarrow>
     (pre \<noteq> [] \<and> is_word (hd pre)) \<noteq> (post \<noteq> [] \<and> is_word (hd post))"

fun re_run :: "re \<Rightarrow> position \<Rightarrow> position list" where
  "re_run (Cls p) (pre, post, g) =
     (case post of [] \<Rightarrow> [] | c # cs \<Rightarrow> if p c then [(c # pre, cs, g)] else [])"
| "re_run Eps st = [st]"
| "re_run (Seq a b) st = concat (map (re_run b) (re_run a st))"
| "re_run (Alt a b) st = re_run a st @ re_run b st"
| "re_run (Star a) st = star_run (length (fst (snd st))) (re_run a) st"
| "re_run (Opt a) st = re_run a st @ [st]"
| "re_run (Cap n a) st =
     map (\<lambda>(pre', post', g').
            (pre', post', (n, rev (take (length pre' - length (fst st)) pre')) # g'))
       (re_run a st)"
| "re_run Bol (pre, post, g) = (if pre = [] then [(pre, post, g)] else [])"
| "re_run Eol (pre, post, g) =
     (if post = [] \<or> post = [CHR 0x0A] then [(pre, post, g)] else [])"
| "re_run WordB (pre, post, g) = (if at_word_boundary pre post then [(pre, post, g)] else [])"
| "re_run (NotAhead a) st = (if re_run a st = [] then [st] else [])"
| "re_run (NotBehind p) (pre, post, g) =
     (if pre \<noteq> [] \<and> p (hd pre) then [] else [(pre, post, g)])"

section \<open>Abbreviations for the pattern syntax\<close>

definition Plus :: "re \<Rightarrow> re" where
  "Plus r = Seq r (Star r)"

fun seqs :: "re list \<Rightarrow> re" where
  "seqs [] = Eps"
| "seqs [r] = r"
| "seqs (r # s # rs) = Seq r (seqs (s # rs))"

fun alts :: "re list \<Rightarrow> re" where
  "alts [] = NotAhead Eps"
| "alts [r] = r"
| "alts (r # s # rs) = Alt r (alts (s # rs))"

definition lit :: "string \<Rightarrow> re" where
  "lit s = seqs (map (\<lambda>x. Cls (\<lambda>c. c = x)) s)"

text \<open>A literal under the flag \<open>IGNORECASE\<close>; the argument is written in lower case.\<close>

definition ilit :: "string \<Rightarrow> re" where
  "ilit s = seqs (map (\<lambda>x. Cls (\<lambda>c. lower_char c = x)) s)"

abbreviation Space :: re where "Space \<equiv> Cls py_space"
abbreviation Digit :: re where "Digit \<equiv> Cls is_digit"

section \<open>Matching, searching, iterating, replacing, splitting\<close>

text \<open>A match: the text before it, the matched text, its groups and the text after it.\<close>

type_synonym re_match = "string \<times> string \<times> (nat \<times> string) list \<times> string"

definition match_at :: "re \<Rightarrow> string \<Rightarrow> string \<Rightarrow> re_match option" where
  "match_at r pre post =
     (case re_run r (pre, post, []) of
        [] \<Rightarrow> None
      | (pre', post', g) # _ \<Rightarrow>
          Some (rev pre, take (length post - length post') post, g, post'))"

definition re_match :: "re \<Rightarrow> string \<Rightarrow> re_match option" where
  "re_match r s = match_at r [] s"

fun search_from :: "re \<Rightarrow> string \<Rightarrow> string \<Rightarrow> re_match option" where
  "search_from r pre post =
     (case match_at r pre post of
        Some m \<Rightarrow> Some m
      | None \<Rightarrow> (case post of [] \<Rightarrow> None | c # cs \<Rightarrow> search_from r (c # pre) cs))"

declare search_from.simps [simp del]

definition re_search :: "re \<Rightarrow> string \<Rightarrow> re_match option" where
  "re_search r s = search_from r [] s"

definition match_text :: "re_match \<Rightarrow> string" where
  "match_text m = fst (snd m)"

definition match_start :: "re_match \<Rightarrow> nat" where
  "match_start m = length (fst m)"

definition match_end :: "re_match \<Rightarrow> nat" where
  "match_end m = length (fst m) + length (match_text m)"

definition match_group :: "nat \<Rightarrow> re_match \<Rightarrow> string option" where
  "match_group n m = map_of (fst (snd (snd m))) n"

text \<open>
  \<open>finditer\<close> for a pattern that always consumes: after a match the scan goes on at its end.
\<close>

function find_from :: "re \<Rightarrow> string \<Rightarrow> string \<Rightarrow> re_match list" where
  "find_from r pre post =
     (case match_at r pre post of
        Some (b, t, g, post') \<Rightarrow>
          if length post' < length post
          then (b, t, g, post') # find_from r (rev t @ pre) post'
          else (case post of [] \<Rightarrow> [] | c # cs \<Rightarrow> find_from r (c # pre) cs)
      | None \<Rightarrow> (case post of [] \<Rightarrow> [] | c # cs \<Rightarrow> find_from r (c # pre) cs))"
  by pat_completeness auto
termination by (relation "measure (\<lambda>(r, pre, post). length post)") auto

declare find_from.simps [simp del]

definition re_finditer :: "re \<Rightarrow> string \<Rightarrow> re_match list" where
  "re_finditer r s = find_from r [] s"

text \<open>\<open>findall\<close> of a pattern without groups.\<close>

definition re_findall :: "re \<Rightarrow> string \<Rightarrow> string list" where
  "re_findall r s = map match_text (re_finditer r s)"

fun cut_at :: "nat \<Rightarrow> string \<Rightarrow> re_match list \<Rightarrow> string list" where
  "cut_at off s [] = [drop off s]"
| "cut_at off s (m # ms) =
     take (match_start m - off) (drop off s) # cut_at (match_end m) s ms"

text \<open>\<open>re.split\<close> of a pattern without groups, and \<open>re.sub\<close> with a literal replacement.\<close>

definition re_split :: "re \<Rightarrow> string \<Rightarrow> string list" where
  "re_split r s = cut_at 0 s (re_finditer r s)"

definition re_sub :: "re \<Rightarrow> string \<Rightarrow> string \<Rightarrow> string" where
  "re_sub r new s = join new (re_split r s)"

section \<open>A run only moves forward\<close>

definition forward :: "position \<Rightarrow> position \<Rightarrow> bool" where
  "forward st st' \<longleftrightarrow> (\<exists>w. fst st' = rev w @ fst st \<and> fst (snd st) = w @ fst (snd st'))"

lemma forward_refl [simp]: "forward st st"
  by (auto simp: forward_def)

lemma forward_trans:
  assumes "forward a b" and "forward b c" shows "forward a c"
proof -
  obtain v where v: "fst b = rev v @ fst a" "fst (snd a) = v @ fst (snd b)"
    using assms(1) by (auto simp: forward_def)
  obtain w where w: "fst c = rev w @ fst b" "fst (snd b) = w @ fst (snd c)"
    using assms(2) by (auto simp: forward_def)
  have "fst c = rev (v @ w) @ fst a \<and> fst (snd a) = (v @ w) @ fst (snd c)"
    using v w by simp
  then show ?thesis unfolding forward_def by blast
qed

lemma star_run_forward:
  assumes "\<And>st st'. st' \<in> set (f st) \<Longrightarrow> forward st st'" and "st' \<in> set (star_run n f st)"
  shows "forward st st'"
  using assms(2)
proof (induction n arbitrary: st)
  case (Suc n)
  from Suc.prems have "st' = st \<or> (\<exists>mid \<in> set (f st). st' \<in> set (star_run n f mid))"
    by auto
  then show ?case
  proof
    assume "\<exists>mid \<in> set (f st). st' \<in> set (star_run n f mid)"
    then obtain mid where "mid \<in> set (f st)" "st' \<in> set (star_run n f mid)" by blast
    then show ?thesis using assms(1) Suc.IH forward_trans by blast
  qed simp
qed simp

lemma re_run_forward: "st' \<in> set (re_run r st) \<Longrightarrow> forward st st'"
proof (induction r arbitrary: st st')
  case (Cls p)
  then show ?case
    by (cases st rule: prod_cases3) (auto simp: forward_def split: list.splits if_splits)
next
  case (Seq a b)
  then obtain mid where "mid \<in> set (re_run a st)" "st' \<in> set (re_run b mid)"
    by (auto simp del: split_paired_Ex)
  then show ?case using Seq.IH forward_trans by blast
next
  case (Star a)
  then show ?case using star_run_forward [of "re_run a" st'] by (simp del: star_run.simps)
next
  case (Cap n a)
  then obtain pre' post' g' where "(pre', post', g') \<in> set (re_run a st)"
    and st': "fst st' = pre'" "fst (snd st') = post'" by auto
  with Cap.IH [of "(pre', post', g')" st] show ?case by (simp add: forward_def)
next
  case Bol
  then show ?case by (cases st rule: prod_cases3) (auto split: if_splits)
next
  case Eol
  then show ?case by (cases st rule: prod_cases3) (auto split: if_splits)
next
  case WordB
  then show ?case by (cases st rule: prod_cases3) (auto split: if_splits)
next
  case (NotBehind p)
  then show ?case by (cases st rule: prod_cases3) (auto split: if_splits)
qed (auto split: if_splits)

text \<open>A match cuts the text in three.\<close>

lemma match_at_SomeD:
  assumes "match_at r pre post = Some (b, t, g, post')"
  shows "b = rev pre" and "post = t @ post'"
    and "(rev t @ pre, post', g) \<in> set (re_run r (pre, post, []))"
proof -
  obtain pre1 rest where run: "re_run r (pre, post, []) = (pre1, post', g) # rest"
    and t: "b = rev pre" "t = take (length post - length post') post"
    using assms by (auto simp: match_at_def split: list.splits)
  from run have "forward (pre, post, []) (pre1, post', g)"
    by (intro re_run_forward [of _ r]) simp
  then obtain w where w: "pre1 = rev w @ pre" "post = w @ post'"
    by (auto simp: forward_def)
  with t have "t = w" by simp
  with t w run show "b = rev pre" "post = t @ post'"
    "(rev t @ pre, post', g) \<in> set (re_run r (pre, post, []))" by auto
qed

lemma re_match_SomeD: "re_match r s = Some (b, t, g, rest) \<Longrightarrow> b = [] \<and> s = t @ rest"
  unfolding re_match_def using match_at_SomeD by fastforce

lemma match_at_None_iff: "match_at r pre post = None \<longleftrightarrow> re_run r (pre, post, []) = []"
  by (auto simp: match_at_def split: list.splits)

lemma search_from_Nil: "search_from r pre [] = match_at r pre []"
  by (subst search_from.simps) (simp split: option.splits)

lemma search_from_Cons:
  "search_from r pre (c # cs) =
     (case match_at r pre (c # cs) of Some m \<Rightarrow> Some m | None \<Rightarrow> search_from r (c # pre) cs)"
  by (subst search_from.simps) (simp only: list.case)

lemma search_from_None_iff:
  "search_from r pre post = None \<longleftrightarrow>
     (\<forall>w rest. post = w @ rest \<longrightarrow> re_run r (rev w @ pre, rest, []) = [])"
proof (induction post arbitrary: pre)
  case Nil
  then show ?case
    by (auto simp: search_from_Nil match_at_None_iff)
next
  case (Cons c cs)
  show ?case (is "?l = ?r")
  proof
    assume l: ?l
    then have here: "match_at r pre (c # cs) = None"
      by (simp add: search_from_Cons split: option.splits)
    with l have "search_from r (c # pre) cs = None"
      by (simp add: search_from_Cons)
    then have later: "\<forall>w rest. cs = w @ rest \<longrightarrow> re_run r (rev w @ c # pre, rest, []) = []"
      using Cons.IH by simp
    show ?r
    proof (intro allI impI)
      fix w rest assume eq: "c # cs = w @ rest"
      show "re_run r (rev w @ pre, rest, []) = []"
        using eq here later by (cases w) (auto simp: match_at_None_iff)
    qed
  next
    assume r: ?r
    have "re_run r (rev [] @ pre, c # cs, []) = []" using r by (metis append_Nil)
    then have here: "match_at r pre (c # cs) = None" by (simp add: match_at_None_iff)
    have "\<forall>w rest. cs = w @ rest \<longrightarrow> re_run r (rev w @ c # pre, rest, []) = []"
    proof (intro allI impI)
      fix w rest assume "cs = w @ rest"
      then have "c # cs = (c # w) @ rest" by simp
      then have "re_run r (rev (c # w) @ pre, rest, []) = []" using r by blast
      then show "re_run r (rev w @ c # pre, rest, []) = []" by simp
    qed
    then have "search_from r (c # pre) cs = None" using Cons.IH by simp
    with here show ?l by (simp add: search_from_Cons)
  qed
qed

lemma re_search_None_iff:
  "re_search r s = None \<longleftrightarrow>
     (\<forall>w rest. s = w @ rest \<longrightarrow> re_run r (rev w, rest, []) = [])"
  by (simp add: re_search_def search_from_None_iff)

lemma re_search_Some_iff:
  "re_search r s \<noteq> None \<longleftrightarrow>
     (\<exists>w rest. s = w @ rest \<and> re_run r (rev w, rest, []) \<noteq> [])"
  by (simp add: re_search_None_iff)

lemma search_from_SomeD:
  "search_from r pre post = Some (b, t, g, rest) \<Longrightarrow> rev pre @ post = b @ t @ rest"
proof (induction post arbitrary: pre)
  case Nil
  then show ?case by (auto simp: search_from_Nil dest: match_at_SomeD)
next
  case (Cons c cs)
  show ?case
  proof (cases "match_at r pre (c # cs)")
    case None
    then show ?thesis using Cons.IH [of "c # pre"] Cons.prems by (simp add: search_from_Cons)
  next
    case (Some m)
    then show ?thesis
      using Cons.prems match_at_SomeD [of r pre "c # cs" b t g rest]
      by (simp add: search_from_Cons)
  qed
qed

lemma re_search_SomeD: "re_search r s = Some (b, t, g, rest) \<Longrightarrow> s = b @ t @ rest"
  using search_from_SomeD [of r "[]" s] by (simp add: re_search_def)

section \<open>Runs of classes and literals\<close>

lemma re_run_seqs_Cons: "rs \<noteq> [] \<Longrightarrow> re_run (seqs (r # rs)) st = re_run (Seq r (seqs rs)) st"
  by (cases rs) auto

lemma re_run_lit:
  "re_run (lit w) (pre, post, g) =
     (if prefix w post then [(rev w @ pre, drop (length w) post, g)] else [])"
proof (induction w arbitrary: pre post)
  case (Cons c w)
  show ?case
    using Cons.IH by (cases w; cases post) (auto simp: lit_def re_run_seqs_Cons)
qed (simp add: lit_def)

lemma re_run_ilit:
  "re_run (ilit w) (pre, post, g) =
     (if prefix w (lower post) then [(rev (take (length w) post) @ pre, drop (length w) post, g)]
      else [])"
proof (induction w arbitrary: pre post)
  case (Cons c w)
  show ?case
    using Cons.IH by (cases w; cases post) (auto simp: ilit_def lower_def re_run_seqs_Cons)
qed (simp add: ilit_def)

text \<open>A greedy class repetition first takes the longest run of the class.\<close>

lemma star_run_class:
  "length post \<le> n \<Longrightarrow>
   star_run n (re_run (Cls p)) (pre, post, g) \<noteq> [] \<and>
   hd (star_run n (re_run (Cls p)) (pre, post, g)) =
     (rev (takeWhile p post) @ pre, dropWhile p post, g)"
proof (induction n arbitrary: pre post)
  case (Suc n)
  show ?case
  proof (cases post)
    case (Cons c cs)
    then show ?thesis using Suc.IH [of cs "c # pre"] Suc.prems by auto
  qed simp
qed simp

lemma re_run_star_class:
  "re_run (Star (Cls p)) (pre, post, g) \<noteq> []"
  "hd (re_run (Star (Cls p)) (pre, post, g)) = (rev (takeWhile p post) @ pre, dropWhile p post, g)"
  using star_run_class [of post "length post" p pre g] by simp_all

lemma re_run_plus_class:
  "re_run (Plus (Cls p)) (pre, post, g) =
     (if post \<noteq> [] \<and> p (hd post) then re_run (Star (Cls p)) (hd post # pre, tl post, g) else [])"
  by (cases post) (auto simp: Plus_def)

lemma match_plus_class:
  "match_at (Plus (Cls p)) pre post =
     (if post \<noteq> [] \<and> p (hd post)
      then Some (rev pre, takeWhile p post, [], dropWhile p post) else None)"
proof (cases "post \<noteq> [] \<and> p (hd post)")
  case True
  then obtain c cs where post: "post = c # cs" "p c" by (cases post) auto
  have "re_run (Plus (Cls p)) (pre, post, []) = re_run (Star (Cls p)) (c # pre, cs, [])"
    by (simp only: re_run_plus_class) (simp add: post)
  moreover obtain tail where "re_run (Star (Cls p)) (c # pre, cs, []) =
      (rev (takeWhile p cs) @ c # pre, dropWhile p cs, []) # tail"
    using re_run_star_class [of p "c # pre" cs "[]"] by (metis list.collapse)
  moreover have "take (Suc (length cs) - length (dropWhile p cs)) (c # cs) = c # takeWhile p cs"
  proof -
    have "length cs = length (takeWhile p cs) + length (dropWhile p cs)"
      by (metis length_append takeWhile_dropWhile_id)
    then have n: "Suc (length cs) - length (dropWhile p cs) = Suc (length (takeWhile p cs))"
      by simp
    show ?thesis unfolding n take_Suc_Cons by (metis takeWhile_eq_take)
  qed
  ultimately show ?thesis using post by (simp add: match_at_def)
next
  case False
  then show ?thesis by (auto simp: match_at_None_iff re_run_plus_class)
qed

section \<open>Replacing runs of a class\<close>

lemma find_from_class:
  "find_from (Plus (Cls p)) pre [] = []"
  "p c \<Longrightarrow> find_from (Plus (Cls p)) pre (c # cs) =
     (rev pre, c # takeWhile p cs, [], dropWhile p cs)
       # find_from (Plus (Cls p)) (rev (c # takeWhile p cs) @ pre) (dropWhile p cs)"
  "\<not> p c \<Longrightarrow> find_from (Plus (Cls p)) pre (c # cs) = find_from (Plus (Cls p)) (c # pre) cs"
  by (subst find_from.simps, simp add: match_plus_class less_Suc_eq_le length_dropWhile_le)+

lemma find_from_class_none:
  "\<forall>c \<in> set post. \<not> p c \<Longrightarrow> find_from (Plus (Cls p)) pre post = []"
  by (induction post arbitrary: pre) (simp_all add: find_from_class)

text \<open>Every piece between the matches is free of the class, given that the pending text is.\<close>

lemma cut_class_clean:
  assumes "off \<le> length pre" and "\<forall>c \<in> set (drop off (rev pre)). \<not> p c"
    and "x \<in> set (cut_at off (rev pre @ post) (find_from (Plus (Cls p)) pre post))"
  shows "\<forall>c \<in> set x. \<not> p c"
  using assms
proof (induction "length post" arbitrary: pre post off rule: less_induct)
  case less
  show ?case
  proof (cases post)
    case Nil
    then show ?thesis using less.prems by (simp add: find_from_class)
  next
    case (Cons c cs)
    show ?thesis
    proof (cases "p c")
      case False
      have "\<forall>d \<in> set (drop off (rev (c # pre))). \<not> p d"
        using less.prems(1,2) False by simp
      moreover have "off \<le> length (c # pre)" using less.prems(1) by simp
      moreover have "x \<in> set (cut_at off (rev (c # pre) @ cs) (find_from (Plus (Cls p)) (c # pre) cs))"
        using less.prems(3) unfolding Cons find_from_class(3) [where p = p and c = c, OF False] by simp
      moreover have "length cs < length post" using Cons by simp
      ultimately show ?thesis using less.hyps by blast
    next
      case True
      let ?t = "c # takeWhile p cs"
      let ?pre = "rev ?t @ pre" and ?post = "dropWhile p cs"
      have whole: "rev pre @ post = rev ?pre @ ?post" using Cons by simp
      have len: "length ?post < length post"
        using Cons by (simp add: less_Suc_eq_le length_dropWhile_le)
      have "x = drop off (rev pre) \<or>
            x \<in> set (cut_at (length ?pre) (rev ?pre @ ?post) (find_from (Plus (Cls p)) ?pre ?post))"
      proof -
        have "find_from (Plus (Cls p)) pre post =
            (rev pre, ?t, [], ?post) # find_from (Plus (Cls p)) ?pre ?post"
          unfolding Cons by (rule find_from_class(2) [where p = p and c = c, OF True])
        then have "cut_at off (rev pre @ post) (find_from (Plus (Cls p)) pre post) =
            take (length pre - off) (drop off (rev pre @ post))
              # cut_at (length ?pre) (rev pre @ post) (find_from (Plus (Cls p)) ?pre ?post)"
          by (simp add: match_start_def match_end_def match_text_def add.commute)
        moreover have "take (length pre - off) (drop off (rev pre @ post)) = drop off (rev pre)"
          using less.prems(1) by simp
        ultimately show ?thesis using less.prems(3) whole by auto
      qed
      then show ?thesis
      proof
        assume "x = drop off (rev pre)"
        with less.prems(2) show ?thesis by blast
      next
        assume x: "x \<in> set (cut_at (length ?pre) (rev ?pre @ ?post) (find_from (Plus (Cls p)) ?pre ?post))"
        have "drop (length ?pre) (rev ?pre) = []" by simp
        then have clean: "\<forall>d \<in> set (drop (length ?pre) (rev ?pre)). \<not> p d"
          by (metis empty_iff list.set(1))
        show ?thesis by (rule less.hyps [OF len order_refl clean x])
      qed
    qed
  qed
qed

lemma re_split_class_clean:
  "x \<in> set (re_split (Plus (Cls p)) s) \<Longrightarrow> c \<in> set x \<Longrightarrow> \<not> p c"
  using cut_class_clean [of 0 "[]" p x s] by (simp add: re_split_def re_finditer_def)

lemma set_join: "set (join sep xs) \<subseteq> set sep \<union> \<Union> (set ` set xs)"
  by (induction sep xs rule: join.induct) auto

lemma re_sub_class_clean:
  assumes "\<forall>c \<in> set new. \<not> p c"
  shows "\<forall>c \<in> set (re_sub (Plus (Cls p)) new s). \<not> p c"
proof
  fix c assume "c \<in> set (re_sub (Plus (Cls p)) new s)"
  then have "c \<in> set new \<or> (\<exists>x \<in> set (re_split (Plus (Cls p)) s). c \<in> set x)"
    using set_join unfolding re_sub_def by fastforce
  then show "\<not> p c" using assms re_split_class_clean by blast
qed

lemma re_sub_class_id: "\<forall>c \<in> set s. \<not> p c \<Longrightarrow> re_sub (Plus (Cls p)) new s = s"
  by (simp add: re_sub_def re_split_def re_finditer_def find_from_class_none)

section \<open>A text that is one run of a class\<close>

lemma star_class_runs:
  "(pre', post', g') \<in> set (star_run n (re_run (Cls p)) (pre, post, g)) \<Longrightarrow>
   \<exists>w. pre' = rev w @ pre \<and> post = w @ post' \<and> g' = g \<and> (\<forall>c \<in> set w. p c)"
proof (induction n arbitrary: pre post)
  case (Suc n)
  then show ?case
    by (cases post) (fastforce split: if_splits)+
qed simp

lemma plus_class_runs:
  assumes "(pre', post', g') \<in> set (re_run (Plus (Cls p)) (pre, post, g))"
  shows "\<exists>w. w \<noteq> [] \<and> pre' = rev w @ pre \<and> post = w @ post' \<and> g' = g \<and> (\<forall>c \<in> set w. p c)"
proof -
  obtain c cs where post: "post = c # cs" "p c"
    and run: "(pre', post', g') \<in> set (star_run (length cs) (re_run (Cls p)) (c # pre, cs, g))"
    using assms by (cases post) (auto simp: Plus_def split: if_splits)
  obtain w where "pre' = rev w @ c # pre" "cs = w @ post'" "g' = g" "\<forall>d \<in> set w. p d"
    using star_class_runs [OF run] by blast
  with post show ?thesis by (intro exI [of _ "c # w"]) simp
qed

lemma plus_class_full:
  assumes "w \<noteq> []" and "\<forall>c \<in> set w. p c" and "post = [] \<or> \<not> p (hd post)"
  shows "(rev w @ pre, post, g) \<in> set (re_run (Plus (Cls p)) (pre, w @ post, g))"
proof -
  obtain c cs where w: "w = c # cs" using assms(1) by (cases w) auto
  have "takeWhile p (cs @ post) = cs" "dropWhile p (cs @ post) = post"
    using assms(2,3) w by (cases post; simp add: takeWhile_append dropWhile_append3)+
  then have "hd (re_run (Star (Cls p)) (c # pre, cs @ post, g)) = (rev cs @ c # pre, post, g)"
    using re_run_star_class(2) [of p "c # pre" "cs @ post" g] by simp
  then have "(rev cs @ c # pre, post, g) \<in> set (re_run (Star (Cls p)) (c # pre, cs @ post, g))"
    using re_run_star_class(1) [of p "c # pre" "cs @ post" g] by (metis hd_in_set)
  then show ?thesis using w assms(2) by (simp add: re_run_plus_class)
qed

text \<open>\<open>^[...]+$\<close>: the end of the pattern also matches before a final newline.\<close>

lemma whole_class_runs:
  "re_match (seqs [Bol, Plus (Cls p), Eol]) name \<noteq> None \<longleftrightarrow>
     (\<exists>st \<in> set (re_run (Plus (Cls p)) ([], name, [])). re_run Eol st \<noteq> [])"
proof -
  have "re_run (seqs [Bol, Plus (Cls p), Eol]) ([], name, [])
      = concat (map (re_run Eol) (re_run (Plus (Cls p)) ([], name, [])))"
    by simp
  then show ?thesis
    by (simp only: re_match_def match_at_None_iff concat_eq_Nil_conv set_map ball_simps bex_simps)
qed

lemma whole_class_match:
  assumes newline: "\<not> p (CHR 0x0A)"
  shows "re_match (seqs [Bol, Plus (Cls p), Eol]) name \<noteq> None \<longleftrightarrow>
     (\<exists>w. w \<noteq> [] \<and> (\<forall>c \<in> set w. p c) \<and> (name = w \<or> name = w @ [CHR 0x0A]))" (is "?l \<longleftrightarrow> ?r")
proof
  assume ?l
  then obtain st where st: "st \<in> set (re_run (Plus (Cls p)) ([], name, []))"
    "re_run Eol st \<noteq> []" unfolding whole_class_runs by blast
  obtain pre' post' g' where st_eq: "st = (pre', post', g')" by (cases st rule: prod_cases3)
  have "post' = [] \<or> post' = [CHR 0x0A]" using st(2) unfolding st_eq by (simp split: if_splits)
  moreover obtain w where "w \<noteq> []" "name = w @ post'" "\<forall>c \<in> set w. p c"
    using plus_class_runs [OF st(1) [unfolded st_eq]] by blast
  ultimately show ?r by auto
next
  assume ?r
  then obtain w post where w: "w \<noteq> []" "\<forall>c \<in> set w. p c" "name = w @ post"
    "post = [] \<or> post = [CHR 0x0A]" by auto
  then have "(rev w @ [], post, []) \<in> set (re_run (Plus (Cls p)) ([], w @ post, []))"
    using newline by (intro plus_class_full) auto
  moreover have "re_run Eol (rev w @ [], post, []) \<noteq> []" using w(4) by auto
  ultimately show ?l unfolding whole_class_runs w(3) by blast
qed

text \<open>Every match of a class run is a run of the class.\<close>

lemma findall_class:
  "\<forall>m \<in> set (find_from (Plus (Cls p)) pre post).
     match_text m \<noteq> [] \<and> (\<forall>c \<in> set (match_text m). p c)"
proof (induction "length post" arbitrary: pre post rule: less_induct)
  case less
  show ?case
  proof (cases post)
    case (Cons c cs)
    show ?thesis
    proof (cases "p c")
      case True
      have "length (dropWhile p cs) < length post"
        using Cons by (simp add: less_Suc_eq_le length_dropWhile_le)
      then show ?thesis
        using less.hyps [of "dropWhile p cs"] True Cons find_from_class(2) [where p = p and c = c, OF True]
        by (auto simp: match_text_def dest: set_takeWhileD)
    next
      case False
      then show ?thesis using less.hyps [of cs] Cons find_from_class(3) [where p = p and c = c, OF False]
        by simp
    qed
  qed (simp add: find_from_class)
qed

section \<open>Least width of a match\<close>

fun min_width :: "re \<Rightarrow> nat" where
  "min_width (Cls p) = 1"
| "min_width (Seq a b) = min_width a + min_width b"
| "min_width (Alt a b) = min (min_width a) (min_width b)"
| "min_width (Cap n a) = min_width a"
| "min_width _ = 0"

lemma re_run_width:
  "st' \<in> set (re_run r st) \<Longrightarrow> length (fst (snd st')) + min_width r \<le> length (fst (snd st))"
proof (induction r arbitrary: st st')
  case (Cls p)
  then show ?case by (cases st rule: prod_cases3) (auto split: list.splits if_splits)
next
  case (Seq a b)
  then obtain mid where "mid \<in> set (re_run a st)" "st' \<in> set (re_run b mid)"
    by (auto simp del: split_paired_Ex)
  with Seq.IH have "length (fst (snd mid)) + min_width a \<le> length (fst (snd st))"
    and "length (fst (snd st')) + min_width b \<le> length (fst (snd mid))" by blast+
  then show ?case by simp
next
  case (Alt a b)
  from Alt.prems have "st' \<in> set (re_run a st) \<or> st' \<in> set (re_run b st)" by simp
  with Alt.IH have "length (fst (snd st')) + min_width a \<le> length (fst (snd st))
      \<or> length (fst (snd st')) + min_width b \<le> length (fst (snd st))" by blast
  then show ?case by auto
next
  case (Cap n a)
  then obtain pre' post' g' where "(pre', post', g') \<in> set (re_run a st)"
    and "fst (snd st') = post'" by auto
  with Cap.IH [of "(pre', post', g')" st] show ?case by simp
next
  case (Star a)
  from re_run_forward [OF Star.prems] show ?case
    by (auto simp: forward_def simp del: re_run.simps)
qed (auto simp: forward_def dest!: re_run_forward)

lemma match_at_width: "match_at r pre post = Some (b, t, g, post') \<Longrightarrow> min_width r \<le> length t"
  using match_at_SomeD(2,3) [of r pre post b t g post']
    re_run_width [of "(rev t @ pre, post', g)" r "(pre, post, [])"] by simp

section \<open>A literal word between word boundaries\<close>

definition word_re :: "string \<Rightarrow> re" where
  "word_re w = seqs [WordB, ilit w, WordB]"

definition word_at :: "string \<Rightarrow> string \<Rightarrow> string \<Rightarrow> string \<Rightarrow> bool" where
  "word_at w a m b \<longleftrightarrow> lower m = w \<and> at_word_boundary (rev a) (m @ b)
     \<and> at_word_boundary (rev (a @ m)) b"

lemma re_run_word:
  "re_run (word_re w) (rev a, rest, []) \<noteq> [] \<longleftrightarrow> (\<exists>m b. rest = m @ b \<and> word_at w a m b)"
proof -
  have "re_run (word_re w) (rev a, rest, []) \<noteq> [] \<longleftrightarrow>
      at_word_boundary (rev a) rest \<and> prefix w (lower rest)
      \<and> at_word_boundary (rev (take (length w) rest) @ rev a) (drop (length w) rest)"
    by (auto simp: word_re_def re_run_ilit)
  also have "\<dots> \<longleftrightarrow> (\<exists>m b. rest = m @ b \<and> word_at w a m b)" (is "?l \<longleftrightarrow> ?r")
  proof
    assume l: ?l
    have "lower (take (length w) rest) = take (length w) (lower rest)"
      by (simp add: lower_def take_map)
    also have "\<dots> = w" using l by (auto simp: prefix_def)
    finally have "word_at w a (take (length w) rest) (drop (length w) rest)"
      using l by (simp add: word_at_def)
    then show ?r by (metis append_take_drop_id)
  next
    assume ?r
    then obtain m b where mb: "rest = m @ b" "word_at w a m b" by blast
    then have "length w = length m" by (auto simp: word_at_def)
    with mb show ?l by (simp add: word_at_def)
  qed
  finally show ?thesis .
qed

lemma search_word:
  "re_search (word_re w) s \<noteq> None \<longleftrightarrow> (\<exists>a m b. s = a @ m @ b \<and> word_at w a m b)"
proof
  assume "re_search (word_re w) s \<noteq> None"
  then obtain a rest where "s = a @ rest" "re_run (word_re w) (rev a, rest, []) \<noteq> []"
    by (auto simp: re_search_Some_iff simp del: not_None_eq)
  then show "\<exists>a m b. s = a @ m @ b \<and> word_at w a m b" using re_run_word by metis
next
  assume "\<exists>a m b. s = a @ m @ b \<and> word_at w a m b"
  then obtain a m b where "s = a @ (m @ b)" "word_at w a m b" by auto
  then show "re_search (word_re w) s \<noteq> None"
    unfolding re_search_Some_iff using re_run_word by metis
qed

text \<open>Appending a character that is neither part of the word nor a word character changes nothing.\<close>

lemma boundary_snoc: "\<not> is_word x \<Longrightarrow> at_word_boundary a (b @ [x]) = at_word_boundary a b"
  by (cases b) (auto simp: at_word_boundary_def)

lemma search_word_snoc:
  assumes "w \<noteq> []" and "\<not> is_word x" and "lower_char x \<notin> set w"
  shows "re_search (word_re w) (s @ [x]) \<noteq> None \<longleftrightarrow> re_search (word_re w) s \<noteq> None"
  unfolding search_word
proof
  assume "\<exists>a m b. s @ [x] = a @ m @ b \<and> word_at w a m b"
  then obtain a m b where amb: "s @ [x] = a @ m @ b" "word_at w a m b" by blast
  have "b \<noteq> []"
  proof
    assume "b = []"
    have "m \<noteq> []" using amb(2) assms(1) by (auto simp: word_at_def lower_def)
    then have "last m = x" using amb(1) \<open>b = []\<close> by (metis append_Nil2 last_append last_snoc)
    then have "x \<in> set m" using \<open>m \<noteq> []\<close> by auto
    then have "lower_char x \<in> set w" using amb(2) by (auto simp: word_at_def lower_def)
    then show False using assms(3) by simp
  qed
  then obtain b' where b': "b = b' @ [x]"
    using amb(1) by (metis append_butlast_last_id append_is_Nil_conv last_appendR last_snoc)
  then have "s = a @ m @ b'" using amb(1) by simp
  moreover have "word_at w a m b'"
    using amb(2) b' boundary_snoc [OF assms(2), of "rev a" "m @ b'"]
      boundary_snoc [OF assms(2), of "rev (a @ m)" b'] by (simp add: word_at_def)
  ultimately show "\<exists>a m b. s = a @ m @ b \<and> word_at w a m b" by blast
next
  assume "\<exists>a m b. s = a @ m @ b \<and> word_at w a m b"
  then obtain a m b where amb: "s = a @ m @ b" "word_at w a m b" by blast
  have "word_at w a m (b @ [x])"
    using amb(2) boundary_snoc [OF assms(2), of "rev a" "m @ b"]
      boundary_snoc [OF assms(2), of "rev (a @ m)" b] by (simp add: word_at_def)
  then show "\<exists>a m b. s @ [x] = a @ m @ b \<and> word_at w a m b" using amb(1) by auto
qed

section \<open>The characters a match may hold\<close>

fun re_chars :: "re \<Rightarrow> char set" where
  "re_chars (Cls p) = Collect p"
| "re_chars (Seq a b) = re_chars a \<union> re_chars b"
| "re_chars (Alt a b) = re_chars a \<union> re_chars b"
| "re_chars (Star a) = re_chars a"
| "re_chars (Opt a) = re_chars a"
| "re_chars (Cap n a) = re_chars a"
| "re_chars _ = {}"

definition consumes :: "char set \<Rightarrow> position \<Rightarrow> position \<Rightarrow> bool" where
  "consumes C st st' \<longleftrightarrow>
     (\<exists>w. fst st' = rev w @ fst st \<and> fst (snd st) = w @ fst (snd st') \<and> set w \<subseteq> C)"

lemma consumes_refl [simp]: "consumes C st st"
  by (auto simp: consumes_def)

lemma consumes_trans:
  assumes "consumes C a b" and "consumes D b c" shows "consumes (C \<union> D) a c"
proof -
  obtain v where "fst b = rev v @ fst a" "fst (snd a) = v @ fst (snd b)" "set v \<subseteq> C"
    using assms(1) by (auto simp: consumes_def)
  moreover obtain w where "fst c = rev w @ fst b" "fst (snd b) = w @ fst (snd c)" "set w \<subseteq> D"
    using assms(2) by (auto simp: consumes_def)
  ultimately have "fst c = rev (v @ w) @ fst a \<and> fst (snd a) = (v @ w) @ fst (snd c)
      \<and> set (v @ w) \<subseteq> C \<union> D" by auto
  then show ?thesis unfolding consumes_def by blast
qed

lemma consumes_mono: "consumes C a b \<Longrightarrow> C \<subseteq> D \<Longrightarrow> consumes D a b"
  unfolding consumes_def by blast

lemma star_run_consumes:
  assumes "\<And>st st'. st' \<in> set (f st) \<Longrightarrow> consumes C st st'" and "st' \<in> set (star_run n f st)"
  shows "consumes C st st'"
  using assms(2)
proof (induction n arbitrary: st)
  case (Suc n)
  from Suc.prems have "st' = st \<or> (\<exists>mid \<in> set (f st). st' \<in> set (star_run n f mid))"
    by auto
  then show ?case
  proof
    assume "\<exists>mid \<in> set (f st). st' \<in> set (star_run n f mid)"
    then obtain mid where "consumes C st mid" "consumes C mid st'" using assms(1) Suc.IH by blast
    then show ?thesis using consumes_trans [of C st mid C st'] by simp
  qed simp
qed simp

lemma re_run_consumes: "st' \<in> set (re_run r st) \<Longrightarrow> consumes (re_chars r) st st'"
proof (induction r arbitrary: st st')
  case (Cls p)
  then show ?case
    by (cases st rule: prod_cases3) (auto simp: consumes_def split: list.splits if_splits)
next
  case (Seq a b)
  then obtain mid where "mid \<in> set (re_run a st)" "st' \<in> set (re_run b mid)"
    by (auto simp del: split_paired_Ex)
  then show ?case using Seq.IH consumes_trans by (metis re_chars.simps(2))
next
  case (Alt a b)
  from Alt.prems have "st' \<in> set (re_run a st) \<or> st' \<in> set (re_run b st)" by simp
  then have "consumes (re_chars a) st st' \<or> consumes (re_chars b) st st'" using Alt.IH by blast
  then show ?case using consumes_mono by (metis Un_upper1 Un_upper2 re_chars.simps(3))
next
  case (Star a)
  then show ?case using star_run_consumes [of "re_run a" "re_chars a" st'] by (simp del: star_run.simps)
next
  case (Cap n a)
  then obtain pre' post' g' where "(pre', post', g') \<in> set (re_run a st)"
    and st': "fst st' = pre'" "fst (snd st') = post'" by auto
  with Cap.IH [of "(pre', post', g')" st] show ?case by (simp add: consumes_def)
next
  case Bol
  then show ?case by (cases st rule: prod_cases3) (auto split: if_splits)
next
  case Eol
  then show ?case by (cases st rule: prod_cases3) (auto split: if_splits)
next
  case WordB
  then show ?case by (cases st rule: prod_cases3) (auto split: if_splits)
next
  case (NotBehind p)
  then show ?case by (cases st rule: prod_cases3) (auto split: if_splits)
qed (auto split: if_splits)

lemma match_at_chars: "match_at r pre post = Some (b, t, g, post') \<Longrightarrow> set t \<subseteq> re_chars r"
  using match_at_SomeD(2,3) [of r pre post b t g post'] re_run_consumes [of "(rev t @ pre, post', g)" r]
  by (fastforce simp: consumes_def)

lemma find_from_cases:
  assumes "m \<in> set (find_from r pre post)"
  shows "(\<exists>b t g post'. match_at r pre post = Some (b, t, g, post') \<and> length post' < length post
            \<and> (m = (b, t, g, post') \<or> m \<in> set (find_from r (rev t @ pre) post')))
         \<or> (\<exists>c cs. post = c # cs \<and> m \<in> set (find_from r (c # pre) cs))"
  using assms by (subst (asm) find_from.simps) (auto split: option.splits list.splits if_splits)

lemma find_from_chars: "m \<in> set (find_from r pre post) \<Longrightarrow> set (match_text m) \<subseteq> re_chars r"
proof (induction "length post" arbitrary: pre post rule: less_induct)
  case less
  from find_from_cases [OF less.prems] show ?case
  proof
    assume "\<exists>b t g post'. match_at r pre post = Some (b, t, g, post') \<and> length post' < length post
            \<and> (m = (b, t, g, post') \<or> m \<in> set (find_from r (rev t @ pre) post'))"
    then obtain b t g post' where at: "match_at r pre post = Some (b, t, g, post')"
      and len: "length post' < length post"
      and m: "m = (b, t, g, post') \<or> m \<in> set (find_from r (rev t @ pre) post')" by blast
    show ?thesis using m match_at_chars [OF at] less.hyps [OF len] by (auto simp: match_text_def)
  next
    assume "\<exists>c cs. post = c # cs \<and> m \<in> set (find_from r (c # pre) cs)"
    then obtain c cs where c: "post = c # cs" and m: "m \<in> set (find_from r (c # pre) cs)" by blast
    have "length cs < length post" using c by simp
    then show ?thesis using m by (rule less.hyps)
  qed
qed

lemma re_findall_chars: "w \<in> set (re_findall r s) \<Longrightarrow> set w \<subseteq> re_chars r"
proof -
  assume "w \<in> set (re_findall r s)"
  then have "w \<in> match_text ` set (find_from r [] s)"
    by (simp add: re_findall_def re_finditer_def)
  then show ?thesis
  proof
    fix m assume w: "w = match_text m" and "m \<in> set (find_from r [] s)"
    from this(2) show ?thesis unfolding w by (rule find_from_chars)
  qed
qed

end
