(* ===== verification/Py_Value.thy ===== *)
theory Py_Value
  imports Py_Regex
begin

text \<open>
  The dynamic values the gateway handles: everything it reads from the cluster or from a tool
  call is a decoded JSON value. Python's \<open>int\<close> is \<open>int\<close>, its \<open>float\<close> is a rational (the finite
  doubles; rounding is not modelled), a \<open>dict\<close> is an association list in insertion order.
\<close>

datatype json =
    JNull
  | JBool bool
  | JInt int
  | JReal rat
  | JStr string
  | JList "json list"
  | JDict "(string \<times> json) list"

type_synonym dict = "(string \<times> json) list"

section \<open>Reading values\<close>

text \<open>\<open>d.get(key)\<close> on a dictionary, and \<open>v.get(key) if isinstance(v, dict)\<close> on any value.\<close>

definition dget :: "string \<Rightarrow> dict \<Rightarrow> json" where
  "dget k d = (case map_of d k of Some v \<Rightarrow> v | None \<Rightarrow> JNull)"

definition dget_or :: "string \<Rightarrow> json \<Rightarrow> dict \<Rightarrow> json" where
  "dget_or k dflt d = (case map_of d k of Some v \<Rightarrow> v | None \<Rightarrow> dflt)"

fun jget :: "string \<Rightarrow> json \<Rightarrow> json" where
  "jget k (JDict d) = dget k d"
| "jget k _ = JNull"

fun truthy :: "json \<Rightarrow> bool" where
  "truthy JNull = False"
| "truthy (JBool b) = b"
| "truthy (JInt i) = (i \<noteq> 0)"
| "truthy (JReal r) = (r \<noteq> 0)"
| "truthy (JStr s) = (s \<noteq> [])"
| "truthy (JList xs) = (xs \<noteq> [])"
| "truthy (JDict d) = (d \<noteq> [])"

definition py_or :: "json \<Rightarrow> json \<Rightarrow> json" where
  "py_or a b = (if truthy a then a else b)"

fun as_str :: "json \<Rightarrow> string option" where
  "as_str (JStr s) = Some s"
| "as_str _ = None"

text \<open>\<open>isinstance(v, int)\<close>: a \<open>bool\<close> is an \<open>int\<close> in Python.\<close>

fun as_int :: "json \<Rightarrow> int option" where
  "as_int (JInt i) = Some i"
| "as_int (JBool b) = Some (if b then 1 else 0)"
| "as_int _ = None"

fun as_number :: "json \<Rightarrow> rat option" where
  "as_number (JReal r) = Some r"
| "as_number (JInt i) = Some (of_int i)"
| "as_number (JBool b) = Some (if b then 1 else 0)"
| "as_number _ = None"

fun as_list :: "json \<Rightarrow> json list option" where
  "as_list (JList xs) = Some xs"
| "as_list _ = None"

fun as_dict :: "json \<Rightarrow> dict option" where
  "as_dict (JDict d) = Some d"
| "as_dict _ = None"

fun is_dict :: "json \<Rightarrow> bool" where
  "is_dict (JDict _) = True"
| "is_dict _ = False"

text \<open>A value that can be a key of a dictionary or an element of a set; a text or \<open>None\<close>.\<close>

definition hashable :: "json \<Rightarrow> bool" where
  "hashable v = (case v of JList _ \<Rightarrow> False | JDict _ \<Rightarrow> False | _ \<Rightarrow> True)"

definition opt_str :: "string option \<Rightarrow> json" where
  "opt_str v = (case v of None \<Rightarrow> JNull | Some s \<Rightarrow> JStr s)"

definition list_or_empty :: "json \<Rightarrow> json list" where
  "list_or_empty v = (case v of JList xs \<Rightarrow> xs | _ \<Rightarrow> [])"

definition dict_or_empty :: "json \<Rightarrow> dict" where
  "dict_or_empty v = (case v of JDict d \<Rightarrow> d | _ \<Rightarrow> [])"

text \<open>
  The elements a \<open>for\<close> loop visits in \<open>v or []\<close>: the keys of a dictionary, the characters of a
  text; a number cannot be iterated over.
\<close>

definition iter_or_empty :: "json \<Rightarrow> json list option" where
  "iter_or_empty v =
     (if \<not> truthy v then Some []
      else case v of
        JList xs \<Rightarrow> Some xs
      | JStr s \<Rightarrow> Some (map (\<lambda>c. JStr [c]) s)
      | JDict d \<Rightarrow> Some (map (\<lambda>p. JStr (fst p)) d)
      | _ \<Rightarrow> None)"

definition dicts_of :: "json list \<Rightarrow> dict list" where
  "dicts_of xs = List.map_filter as_dict xs"

lemma set_dicts_of: "set (dicts_of xs) = {d. JDict d \<in> set xs}"
proof -
  have "as_dict x = Some d \<longleftrightarrow> x = JDict d" for x d by (cases x) auto
  then show ?thesis by (auto simp: dicts_of_def in_map_filter)
qed

lemma dget_set [simp, dict_simps]: "dget k (dict_set k' v d) = (if k = k' then v else dget k d)"
  by (simp add: dget_def)

lemma dget_pop [simp, dict_simps]: "dget k (dict_pop k' d) = (if k = k' then JNull else dget k d)"
  by (simp add: dget_def)

lemma dget_Nil [simp]: "dget k [] = JNull"
  by (simp add: dget_def)

lemma dget_Cons [simp]: "dget k ((k', v) # d) = (if k = k' then v else dget k d)"
  by (simp add: dget_def)

lemma dget_merge [dict_simps]:
  assumes "distinct (map fst e)"
  shows "dget k (dict_merge d e) = (if k \<in> fst ` set e then dget k e else dget k d)"
proof (cases "map_of e k")
  case None
  then have "k \<notin> fst ` set e" by (simp add: map_of_eq_None_iff)
  then show ?thesis using None assms by (simp add: dget_def map_of_dict_merge)
next
  case (Some v)
  then have "k \<in> fst ` set e" by (metis map_of_eq_None_iff option.distinct(1))
  then show ?thesis using Some assms by (simp add: dget_def map_of_dict_merge)
qed

lemma dget_merge_notin: "k \<notin> fst ` set e \<Longrightarrow> dget k (dict_merge d e) = dget k d"
  by (simp add: dget_def map_of_dict_merge_notin)

section \<open>Rendering values\<close>

definition hex_digit :: "nat \<Rightarrow> char" where
  "hex_digit n = (if n < 10 then char_of (48 + n) else char_of (87 + n))"

definition hex2 :: "nat \<Rightarrow> string" where
  "hex2 n = [hex_digit (n div 16), hex_digit (n mod 16)]"

text \<open>\<open>repr\<close> of a string: single quotes unless it holds one and no double quote.\<close>

definition repr_char :: "char \<Rightarrow> char \<Rightarrow> string" where
  "repr_char q c =
     (if c = CHR 0x5C then [CHR 0x5C, CHR 0x5C]
      else if c = q then [CHR 0x5C, q]
      else if code c = 10 then [CHR 0x5C, CHR ''n'']
      else if code c = 13 then [CHR 0x5C, CHR ''r'']
      else if code c = 9 then [CHR 0x5C, CHR ''t'']
      else if code c < 32 \<or> code c = 127 \<or> code c = 160 \<or> code c = 173
        \<or> (128 \<le> code c \<and> code c < 160 \<and> code c \<noteq> 133 \<and> code c \<noteq> 151)
      then [CHR 0x5C, CHR ''x''] @ hex2 (code c)
      else [c])"

definition repr_str :: "string \<Rightarrow> string" where
  "repr_str s =
     (let q = (if CHR 0x27 \<in> set s \<and> CHR 0x22 \<notin> set s then CHR 0x22 else CHR 0x27)
      in [q] @ concat (map (repr_char q) s) @ [q])"

text \<open>
  \<open>repr\<close> of a float: an integral value shows one zero decimal, any other its decimal
  expansion, cut after seventeen places (the range in which Python switches to an exponent is
  not modelled).
\<close>

fun decimals :: "nat \<Rightarrow> rat \<Rightarrow> string" where
  "decimals 0 r = []"
| "decimals (Suc n) r =
     (if r = 0 then [] else digit_char (nat \<lfloor>r * 10\<rfloor>) # decimals n (r * 10 - of_int \<lfloor>r * 10\<rfloor>))"

definition show_real :: "rat \<Rightarrow> string" where
  "show_real r =
     (let a = \<bar>r\<bar>; w = \<lfloor>a\<rfloor>; f = a - of_int w
      in (if r < 0 then ''-'' else []) @ show_int w @ ''.''
         @ (if f = 0 then ''0'' else decimals 17 f))"

fun py_repr :: "json \<Rightarrow> string" where
  "py_repr JNull = ''None''"
| "py_repr (JBool b) = (if b then ''True'' else ''False'')"
| "py_repr (JInt i) = show_int i"
| "py_repr (JReal r) = show_real r"
| "py_repr (JStr s) = repr_str s"
| "py_repr (JList xs) = ''['' @ join '', '' (map py_repr xs) @ '']''"
| "py_repr (JDict d) =
     ''{'' @ join '', '' (map (\<lambda>p. repr_str (fst p) @ '': '' @ py_repr (snd p)) d) @ ''}''"

fun py_str :: "json \<Rightarrow> string" where
  "py_str (JStr s) = s"
| "py_str v = py_repr v"

fun type_name :: "json \<Rightarrow> string" where
  "type_name JNull = ''NoneType''"
| "type_name (JBool _) = ''bool''"
| "type_name (JInt _) = ''int''"
| "type_name (JReal _) = ''float''"
| "type_name (JStr _) = ''str''"
| "type_name (JList _) = ''list''"
| "type_name (JDict _) = ''dict''"

section \<open>JSON text\<close>

text \<open>
  \<open>json.dumps\<close> with its default settings (ASCII output, separators with one blank). The two
  glyphs outside Latin-1 escape to the code points they stand for.
\<close>

definition json_char :: "char \<Rightarrow> string" where
  "json_char c =
     (if c = CHR 0x22 then [CHR 0x5C, CHR 0x22]
      else if c = CHR 0x5C then [CHR 0x5C, CHR 0x5C]
      else if code c = 10 then [CHR 0x5C, CHR ''n'']
      else if code c = 13 then [CHR 0x5C, CHR ''r'']
      else if code c = 9 then [CHR 0x5C, CHR ''t'']
      else if code c = 8 then [CHR 0x5C, CHR ''b'']
      else if code c = 12 then [CHR 0x5C, CHR ''f'']
      else if code c = 133 then [CHR 0x5C] @ ''u2026''
      else if code c = 151 then [CHR 0x5C] @ ''u2014''
      else if code c < 32 \<or> 126 < code c then [CHR 0x5C] @ ''u00'' @ hex2 (code c)
      else [c])"

definition json_quote :: "string \<Rightarrow> string" where
  "json_quote s = [CHR 0x22] @ concat (map json_char s) @ [CHR 0x22]"

fun json_dumps :: "json \<Rightarrow> string" where
  "json_dumps JNull = ''null''"
| "json_dumps (JBool b) = (if b then ''true'' else ''false'')"
| "json_dumps (JInt i) = show_int i"
| "json_dumps (JReal r) = show_real r"
| "json_dumps (JStr s) = json_quote s"
| "json_dumps (JList xs) = ''['' @ join '', '' (map json_dumps xs) @ '']''"
| "json_dumps (JDict d) =
     ''{'' @ join '', '' (map (\<lambda>p. json_quote (fst p) @ '': '' @ json_dumps (snd p)) d) @ ''}''"

lemma json_quote_ends: "\<exists>w. json_quote s = [CHR 0x22] @ w @ [CHR 0x22]"
  by (simp add: json_quote_def)

text \<open>A quoted text never contains a bare quote: each one inside follows a backslash.\<close>

lemma json_char_quote: "json_char c = [d] \<Longrightarrow> d \<noteq> CHR 0x22 \<and> d \<noteq> CHR 0x5C"
  by (auto simp: json_char_def split: if_splits)

end
