(* ===== verification/Gateway_Errors.thy ===== *)
theory Gateway_Errors
  imports Py_Value
begin

text \<open>
  The error taxonomy of \<open>errors.py\<close> and the result every tool returns
  (\<open>tools/__init__.py\<close>). A \<open>gateway_error\<close> is a raised \<open>GatewayError\<close>; \<open>exn\<close> adds the other
  Python exceptions the modelled code can raise, by class name.
\<close>

datatype error_type =
    TIMEOUT | READONLY_VIOLATION | SYNTAX_ERROR | SEMANTIC_ERROR | SIZE_LIMIT | PLAN_REJECTED
  | INVALID_PARAMETER | NOT_FOUND | FORBIDDEN | NOT_READY | EXPIRED | INTERNAL

fun error_name :: "error_type \<Rightarrow> string" where
  "error_name TIMEOUT = ''TIMEOUT''"
| "error_name READONLY_VIOLATION = ''READONLY_VIOLATION''"
| "error_name SYNTAX_ERROR = ''SYNTAX_ERROR''"
| "error_name SEMANTIC_ERROR = ''SEMANTIC_ERROR''"
| "error_name SIZE_LIMIT = ''SIZE_LIMIT''"
| "error_name PLAN_REJECTED = ''PLAN_REJECTED''"
| "error_name INVALID_PARAMETER = ''INVALID_PARAMETER''"
| "error_name NOT_FOUND = ''NOT_FOUND''"
| "error_name FORBIDDEN = ''FORBIDDEN''"
| "error_name NOT_READY = ''NOT_READY''"
| "error_name EXPIRED = ''EXPIRED''"
| "error_name INTERNAL = ''INTERNAL''"

definition retryable_types :: "error_type list" where
  "retryable_types = [TIMEOUT, PLAN_REJECTED, NOT_READY]"

definition is_retryable :: "error_type \<Rightarrow> bool" where
  "is_retryable t \<longleftrightarrow> t \<in> set retryable_types"

text \<open>
  The message and the cluster's code come from decoded JSON on one path, so they are values;
  an absent code is \<open>JNull\<close>.
\<close>

record gateway_error =
  ge_type :: error_type
  ge_message :: json
  ge_code :: json

abbreviation gerr :: "error_type \<Rightarrow> string \<Rightarrow> gateway_error" where
  "gerr t msg \<equiv> \<lparr>ge_type = t, ge_message = JStr msg, ge_code = JNull\<rparr>"

definition to_structured :: "gateway_error \<Rightarrow> dict" where
  "to_structured e =
     [(''status'', JStr ''error''), (''errorType'', JStr (error_name (ge_type e))),
      (''errorMessage'', ge_message e), (''retryable'', JBool (is_retryable (ge_type e)))]
     @ (if ge_code e \<noteq> JNull then [(''asterixCode'', ge_code e)] else [])"

record tool_result =
  tr_text :: string
  tr_structured :: dict
  tr_is_error :: bool

definition tool_error :: "gateway_error \<Rightarrow> tool_result" where
  "tool_error e =
     \<lparr>tr_text = error_name (ge_type e) @ '': '' @ py_str (ge_message e),
      tr_structured = to_structured e, tr_is_error = True\<rparr>"

definition tool_ok :: "string \<Rightarrow> dict \<Rightarrow> tool_result" where
  "tool_ok text structured = \<lparr>tr_text = text, tr_structured = structured, tr_is_error = False\<rparr>"

datatype exn = GatewayExc gateway_error | PyExc string

section \<open>Classifying the cluster's errors\<close>

definition asx_code_map :: "(string \<times> error_type) list" where
  "asx_code_map =
     [(''ASX1063'', READONLY_VIOLATION), (''ASX1001'', SYNTAX_ERROR), (''ASX1002'', SYNTAX_ERROR)]"

definition classify_message :: "string \<Rightarrow> error_type" where
  "classify_message message =
     (let lowered = lower message in
      if contains ''readonly'' lowered \<or> contains ''read-only'' lowered
        \<or> contains ''read only'' lowered then READONLY_VIOLATION
      else if contains ''timeout'' lowered \<or> contains ''timed out'' lowered then TIMEOUT
      else if contains ''syntax error'' lowered \<or> contains ''parse error'' lowered then SYNTAX_ERROR
      else if contains ''type mismatch'' lowered \<or> contains ''cannot find'' lowered
        \<or> contains ''unknown'' lowered then SEMANTIC_ERROR
      else INTERNAL)"

text \<open>
  The function is called with whatever the envelope holds: a truthy list or dictionary as code
  cannot be looked up (it is not hashable), and only a text has \<open>lower\<close>.
\<close>

definition classify_cc_error :: "json \<Rightarrow> json \<Rightarrow> exn + gateway_error" where
  "classify_cc_error asterix_code message =
     (let by_message =
        (case message of
           JStr m \<Rightarrow> Inr \<lparr>ge_type = classify_message m, ge_message = message, ge_code = asterix_code\<rparr>
         | _ \<Rightarrow> Inl (PyExc ''AttributeError''))
      in if \<not> truthy asterix_code then by_message
         else case asterix_code of
           JList _ \<Rightarrow> Inl (PyExc ''TypeError'')
         | JDict _ \<Rightarrow> Inl (PyExc ''TypeError'')
         | JStr asx \<Rightarrow>
             (case map_of asx_code_map asx of
                Some t \<Rightarrow> Inr \<lparr>ge_type = t, ge_message = message, ge_code = asterix_code\<rparr>
              | None \<Rightarrow> by_message)
         | _ \<Rightarrow> by_message)"

lemma classify_message_lower [simp]: "classify_message (lower m) = classify_message m"
  by (simp add: classify_message_def)

lemma to_structured_type: "map_of (to_structured e) ''errorType'' = Some (JStr (error_name (ge_type e)))"
  by (simp add: to_structured_def)

lemma error_name_inj: "error_name a = error_name b \<longleftrightarrow> a = b"
  by (cases a; cases b) simp_all

end
