(* ===== verification/Gateway_Config.thy ===== *)
theory Gateway_Config
  imports Gateway_Errors
begin

text \<open>
  The gateway's configuration (\<open>config.py\<close>): the settings the modelled code reads, their
  defaults, the bounds the field declarations put on them, and the session id a launch gets.
\<close>

datatype auth_mode = Auth_None | Auth_Bearer | Auth_OAuth
datatype transport = Stdio | Http
datatype artifact_format = Fmt_Json | Fmt_Txt

record settings =
  cc_base_url :: string
  cc_shared_secret :: "string option"
  agent_session_id :: string
  memory_enabled :: bool
  memory_write_enabled :: bool
  session_log_dir :: "string option"
  session_log_max_bytes :: int
  auto_maintenance_enabled :: bool
  distill_interval_s :: rat
  max_time_ms :: int
  max_bytes_per_query :: int
  request_timeout_s :: rat
  sync_permits :: int
  async_permits :: int
  max_concurrent_waits :: int
  permits_per_principal :: int
  event_retention_days :: rat
  dataverse_allowlist :: "(string \<times> string list) list option"
  session_idle_timeout_s :: rat
  max_wait_ms :: int
  wait_poll_interval_ms :: int
  audit_log_ttl_s :: rat
  max_rows_to_llm :: int
  max_bytes_to_llm :: int
  max_field_chars :: int
  artifacts_enabled :: bool
  artifacts_dir :: string
  artifacts_ttl_s :: rat
  artifacts_format :: artifact_format
  artifacts_base_url :: string
  transport_kind :: transport
  http_host :: string
  http_port :: int
  http_path :: string
  http_allowed_hosts :: "string list"
  http_allowed_origins :: "string list"
  auth_mode_of :: auth_mode
  api_key :: "string option"
  oauth_issuer :: string
  oauth_audience :: string
  oauth_jwks_uri :: string
  oauth_required_scopes :: "string list"
  oauth_algorithms :: "string list"

definition min_api_key_length :: nat where
  "min_api_key_length = 16"

definition health_path :: string where
  "health_path = ''/health''"

definition artifacts_path_prefix :: string where
  "artifacts_path_prefix = ''/artifacts''"

definition default_settings :: settings where
  "default_settings =
     \<lparr>cc_base_url = ''http://localhost:19002'', cc_shared_secret = None,
      agent_session_id = ''local-session'', memory_enabled = True, memory_write_enabled = False,
      session_log_dir = None, session_log_max_bytes = 33554432,
      auto_maintenance_enabled = True, distill_interval_s = 0,
      max_time_ms = 30000, max_bytes_per_query = 10485760, request_timeout_s = 35,
      sync_permits = 3, async_permits = 2, max_concurrent_waits = 16, permits_per_principal = 2,
      event_retention_days = 30, dataverse_allowlist = None, session_idle_timeout_s = 1800,
      max_wait_ms = 10000, wait_poll_interval_ms = 250, audit_log_ttl_s = 900,
      max_rows_to_llm = 200, max_bytes_to_llm = 262144, max_field_chars = 500,
      artifacts_enabled = True, artifacts_dir = [], artifacts_ttl_s = 3600,
      artifacts_format = Fmt_Json, artifacts_base_url = [],
      transport_kind = Stdio, http_host = ''127.0.0.1'', http_port = 19200, http_path = ''/mcp'',
      http_allowed_hosts = [], http_allowed_origins = [], auth_mode_of = Auth_None, api_key = None,
      oauth_issuer = [], oauth_audience = [], oauth_jwks_uri = [], oauth_required_scopes = [],
      oauth_algorithms = [''RS256'']\<rparr>"

text \<open>The bounds (\<open>ge\<close>, \<open>gt\<close>, \<open>le\<close>) of the field declarations; settings outside are refused.\<close>

definition settings_ok :: "settings \<Rightarrow> bool" where
  "settings_ok s \<longleftrightarrow>
     1 \<le> session_log_max_bytes s \<and> 0 \<le> distill_interval_s s \<and> 1 \<le> max_time_ms s
     \<and> 1 \<le> max_bytes_per_query s \<and> 0 < request_timeout_s s
     \<and> 1 \<le> sync_permits s \<and> 1 \<le> async_permits s \<and> 1 \<le> max_concurrent_waits s
     \<and> 1 \<le> permits_per_principal s \<and> 0 < event_retention_days s
     \<and> 0 \<le> session_idle_timeout_s s \<and> 1 \<le> max_wait_ms s \<and> 1 \<le> wait_poll_interval_ms s
     \<and> 0 < audit_log_ttl_s s \<and> 1 \<le> max_rows_to_llm s \<and> 1 \<le> max_bytes_to_llm s
     \<and> 1 \<le> max_field_chars s \<and> 0 < artifacts_ttl_s s \<and> 1 \<le> http_port s \<and> http_port s \<le> 65535"

text \<open>
  \<open>load_settings\<close>: \<open>configured\<close> is what the environment gives, \<open>uuid_hex\<close> the fresh uuid's
  hexadecimal digits.
\<close>

definition load_settings :: "settings \<Rightarrow> string \<Rightarrow> settings" where
  "load_settings configured uuid_hex =
     configured\<lparr>agent_session_id := agent_session_id configured @ ''-'' @ take 6 uuid_hex\<rparr>"

lemma default_settings_ok: "settings_ok default_settings"
  by (simp add: settings_ok_def default_settings_def)

lemma load_settings_ok [simp]: "settings_ok (load_settings s u) = settings_ok s"
  by (simp add: settings_ok_def load_settings_def)

end
