(* ===== verification/Gateway_IO.thy ===== *)
theory Gateway_IO
  imports Gateway_Config
begin

text \<open>
  Effects. The only effect of the modelled code that leaves the process is an HTTP request to
  the cluster controller, so a computation is a function from the requests sent so far to a
  result (a raised exception or a value) and the requests sent after it. What the cluster
  answers is a parameter: a function of the whole history, so nothing is assumed of it.
\<close>

datatype request =
    QueryPost "(string \<times> string) list" "(string \<times> string) list"
  | GetPath string "(string \<times> string) list" "(string \<times> string) list"
  | DeletePath string "(string \<times> string) list" "(string \<times> string) list"

text \<open>A body is its length in bytes and what \<open>json.loads\<close> makes of it (or its complaint).\<close>

record http_body =
  body_length :: nat
  body_json :: "string + json"

datatype http_reply =
    Response nat http_body
  | Timeout string
  | Stale string
  | OtherHttp string

type_synonym trace = "request list"
type_synonym 'a io = "trace \<Rightarrow> (exn + 'a) \<times> trace"
type_synonym network = "trace \<Rightarrow> http_reply"

definition io_return :: "'a \<Rightarrow> 'a io" where
  "io_return x = (\<lambda>t. (Inr x, t))"

definition io_raise :: "exn \<Rightarrow> 'a io" where
  "io_raise e = (\<lambda>t. (Inl e, t))"

definition io_lift :: "exn + 'a \<Rightarrow> 'a io" where
  "io_lift r = (\<lambda>t. (r, t))"

definition io_bind :: "'a io \<Rightarrow> ('a \<Rightarrow> 'b io) \<Rightarrow> 'b io" where
  "io_bind m f = (\<lambda>t. case m t of (Inl e, t') \<Rightarrow> (Inl e, t') | (Inr x, t') \<Rightarrow> f x t')"

text \<open>\<open>except GatewayError as err\<close>, and \<open>except Exception\<close>.\<close>

definition io_catch :: "'a io \<Rightarrow> (gateway_error \<Rightarrow> 'a io) \<Rightarrow> 'a io" where
  "io_catch m h = (\<lambda>t. case m t of (Inl (GatewayExc e), t') \<Rightarrow> h e t' | r \<Rightarrow> r)"

definition io_catch_all :: "'a io \<Rightarrow> (exn \<Rightarrow> 'a io) \<Rightarrow> 'a io" where
  "io_catch_all m h = (\<lambda>t. case m t of (Inl e, t') \<Rightarrow> h e t' | (Inr x, t') \<Rightarrow> (Inr x, t'))"

definition io_send :: "network \<Rightarrow> request \<Rightarrow> http_reply io" where
  "io_send net r = (\<lambda>t. (Inr (net (t @ [r])), t @ [r]))"

abbreviation io_fail :: "error_type \<Rightarrow> string \<Rightarrow> 'a io" where
  "io_fail t msg \<equiv> io_raise (GatewayExc (gerr t msg))"

fun io_map_list :: "('a \<Rightarrow> 'b io) \<Rightarrow> 'a list \<Rightarrow> 'b list io" where
  "io_map_list f [] = io_return []"
| "io_map_list f (x # xs) =
     io_bind (f x) (\<lambda>y. io_bind (io_map_list f xs) (\<lambda>ys. io_return (y # ys)))"

fun io_fold :: "('s \<Rightarrow> 'a \<Rightarrow> 's io) \<Rightarrow> 's \<Rightarrow> 'a list \<Rightarrow> 's io" where
  "io_fold f s [] = io_return s"
| "io_fold f s (x # xs) = io_bind (f s x) (\<lambda>s'. io_fold f s' xs)"

section \<open>Running a computation one step\<close>

lemma io_run [ioeval, simp]:
  "io_return x t = (Inr x, t)"
  "io_raise e t = (Inl e, t)"
  "io_lift r t = (r, t)"
  "io_send net q t = (Inr (net (t @ [q])), t @ [q])"
  by (simp_all add: io_return_def io_raise_def io_lift_def io_send_def)

lemma io_bind_Inr [ioeval]: "m t = (Inr x, t') \<Longrightarrow> io_bind m f t = f x t'"
  by (simp add: io_bind_def)

lemma io_bind_Inl [ioeval]: "m t = (Inl e, t') \<Longrightarrow> io_bind m f t = (Inl e, t')"
  by (simp add: io_bind_def)

lemma io_bind_simps [ioeval, simp]:
  "io_bind (io_return x) f = f x"
  "io_bind (io_raise e) f = io_raise e"
  "io_bind (io_lift (Inr x)) f = f x"
  "io_bind (io_lift (Inl e)) f = io_raise e"
  by (simp_all add: io_bind_def fun_eq_iff)

lemma io_catch_simps [ioeval, simp]:
  "io_catch (io_return x) h = io_return x"
  "io_catch (io_raise (GatewayExc e)) h = h e"
  "io_catch (io_raise (PyExc p)) h = io_raise (PyExc p)"
  by (simp_all add: io_catch_def fun_eq_iff)

lemma io_bind_assoc: "io_bind (io_bind m f) g = io_bind m (\<lambda>x. io_bind (f x) g)"
  by (auto simp: io_bind_def fun_eq_iff split: prod.splits sum.splits)

lemma io_bind_InrE:
  assumes "io_bind m f t = (Inr y, t')"
  obtains x u where "m t = (Inr x, u)" and "f x u = (Inr y, t')"
  using assms by (auto simp: io_bind_def split: prod.splits sum.splits)

section \<open>The requests a computation may send\<close>

text \<open>\<open>emits P m\<close>: whatever the history and the answers, \<open>m\<close> only appends requests that satisfy P.\<close>

definition emits :: "(request \<Rightarrow> bool) \<Rightarrow> 'a io \<Rightarrow> bool" where
  "emits P m \<longleftrightarrow> (\<forall>t. \<exists>sent. snd (m t) = t @ sent \<and> (\<forall>r \<in> set sent. P r))"

lemma emitsD: "emits P m \<Longrightarrow> \<exists>sent. snd (m t) = t @ sent \<and> (\<forall>r \<in> set sent. P r)"
  by (simp add: emits_def)

lemma emitsE:
  assumes "emits P m" and "m t = (r, t')"
  obtains sent where "t' = t @ sent" and "\<forall>q \<in> set sent. P q"
  using emitsD [OF assms(1), of t] assms(2) by auto

lemma emits_return [emits_intro]: "emits P (io_return x)"
  and emits_raise [emits_intro]: "emits P (io_raise e)"
  and emits_lift [emits_intro]: "emits P (io_lift r)"
  by (simp_all add: emits_def)

lemma emits_send [emits_intro]: "P r \<Longrightarrow> emits P (io_send net r)"
  by (simp add: emits_def)

lemma emits_bind [emits_intro]:
  assumes "emits P m" and "\<And>x. emits P (f x)"
  shows "emits P (io_bind m f)"
  unfolding emits_def
proof
  fix t
  obtain r u where m: "m t = (r, u)" by (cases "m t") auto
  obtain s1 where s1: "u = t @ s1" "\<forall>q \<in> set s1. P q" using emitsE [OF assms(1) m] .
  show "\<exists>sent. snd (io_bind m f t) = t @ sent \<and> (\<forall>q \<in> set sent. P q)"
  proof (cases r)
    case (Inl e)
    then show ?thesis using m s1 by (simp add: io_bind_def)
  next
    case (Inr x)
    obtain s2 where "snd (f x u) = u @ s2" "\<forall>q \<in> set s2. P q"
      using emitsD [OF assms(2)] by blast
    then have "snd (io_bind m f t) = t @ (s1 @ s2) \<and> (\<forall>q \<in> set (s1 @ s2). P q)"
      using m s1 Inr by (auto simp: io_bind_def)
    then show ?thesis by blast
  qed
qed

lemma emits_catch_all:
  assumes "emits P m" and "\<And>e. emits P (h e)"
  shows "emits P (io_catch_all m h)"
  unfolding emits_def
proof
  fix t
  obtain r u where m: "m t = (r, u)" by (cases "m t") auto
  obtain s1 where s1: "u = t @ s1" "\<forall>q \<in> set s1. P q" using emitsE [OF assms(1) m] .
  show "\<exists>sent. snd (io_catch_all m h t) = t @ sent \<and> (\<forall>q \<in> set sent. P q)"
  proof (cases r)
    case (Inr x)
    then show ?thesis using m s1 by (simp add: io_catch_all_def)
  next
    case (Inl e)
    obtain s2 where "snd (h e u) = u @ s2" "\<forall>q \<in> set s2. P q"
      using emitsD [OF assms(2)] by blast
    then have "snd (io_catch_all m h t) = t @ (s1 @ s2) \<and> (\<forall>q \<in> set (s1 @ s2). P q)"
      using m s1 Inl by (auto simp: io_catch_all_def)
    then show ?thesis by blast
  qed
qed

declare emits_catch_all [emits_intro]

lemma io_catch_as_all:
  "io_catch m h = io_catch_all m (\<lambda>e. case e of GatewayExc g \<Rightarrow> h g | PyExc p \<Rightarrow> io_raise (PyExc p))"
  by (auto simp: io_catch_def io_catch_all_def fun_eq_iff split: prod.splits sum.splits exn.splits)

lemma emits_catch [emits_intro]:
  assumes "emits P m" and "\<And>e. emits P (h e)"
  shows "emits P (io_catch m h)"
  unfolding io_catch_as_all
  by (rule emits_catch_all) (auto intro: assms emits_raise split: exn.splits)

lemma emits_if [emits_intro]:
  "(b \<Longrightarrow> emits P m) \<Longrightarrow> (\<not> b \<Longrightarrow> emits P n) \<Longrightarrow> emits P (if b then m else n)"
  by simp

lemma emits_option [emits_intro]:
  "(x = None \<Longrightarrow> emits P m) \<Longrightarrow> (\<And>y. x = Some y \<Longrightarrow> emits P (f y)) \<Longrightarrow>
   emits P (case x of None \<Rightarrow> m | Some y \<Rightarrow> f y)"
  by (cases x) auto

lemma emits_sum [emits_intro]:
  "(\<And>e. x = Inl e \<Longrightarrow> emits P (f e)) \<Longrightarrow> (\<And>y. x = Inr y \<Longrightarrow> emits P (g y)) \<Longrightarrow>
   emits P (case x of Inl e \<Rightarrow> f e | Inr y \<Rightarrow> g y)"
  by (cases x) auto

lemma emits_prod [emits_intro]:
  "(\<And>a b. x = (a, b) \<Longrightarrow> emits P (f a b)) \<Longrightarrow> emits P (case x of (a, b) \<Rightarrow> f a b)"
  by (cases x) auto

lemma emits_list [emits_intro]:
  "(x = [] \<Longrightarrow> emits P m) \<Longrightarrow> (\<And>y ys. x = y # ys \<Longrightarrow> emits P (f y ys)) \<Longrightarrow>
   emits P (case x of [] \<Rightarrow> m | y # ys \<Rightarrow> f y ys)"
  by (cases x) auto

lemma emits_let [emits_intro]: "(\<And>y. y = x \<Longrightarrow> emits P (f y)) \<Longrightarrow> emits P (let y = x in f y)"
  by simp

lemma emits_map_list [emits_intro]: "(\<And>x. emits P (f x)) \<Longrightarrow> emits P (io_map_list f xs)"
  by (induction xs) (auto intro!: emits_intro)

lemma emits_fold [emits_intro]: "(\<And>s x. emits P (f s x)) \<Longrightarrow> emits P (io_fold f s xs)"
  by (induction xs arbitrary: s) (auto intro!: emits_intro)

lemma emits_mono: "emits P m \<Longrightarrow> (\<And>r. P r \<Longrightarrow> Q r) \<Longrightarrow> emits Q m"
  unfolding emits_def by meson

text \<open>No request at all.\<close>

lemma emits_none_iff: "emits (\<lambda>_. False) m \<longleftrightarrow> (\<forall>t. snd (m t) = t)"
  by (simp add: emits_def)

section \<open>Requests and what was sent before them\<close>

text \<open>
  \<open>traced P m t\<close>: from the history t on, each request that \<open>m\<close> sends satisfies P together with the
  history before it. Since the answers are a function of the history, P can say what an earlier
  request of the same run was answered.
\<close>

definition sent_ok :: "(trace \<Rightarrow> request \<Rightarrow> bool) \<Rightarrow> trace \<Rightarrow> request list \<Rightarrow> bool" where
  "sent_ok P h qs \<longleftrightarrow> (\<forall>i < length qs. P (h @ take i qs) (qs ! i))"

definition traced :: "(trace \<Rightarrow> request \<Rightarrow> bool) \<Rightarrow> 'a io \<Rightarrow> trace \<Rightarrow> bool" where
  "traced P m t \<longleftrightarrow> (\<exists>sent. snd (m t) = t @ sent \<and> sent_ok P t sent)"

lemma sent_ok_append: "sent_ok P h as \<Longrightarrow> sent_ok P (h @ as) bs \<Longrightarrow> sent_ok P h (as @ bs)"
  unfolding sent_ok_def
proof (intro allI impI)
  fix i
  assume as: "\<forall>i < length as. P (h @ take i as) (as ! i)" and bs: "\<forall>i < length bs. P ((h @ as) @ take i bs) (bs ! i)"
    and i: "i < length (as @ bs)"
  show "P (h @ take i (as @ bs)) ((as @ bs) ! i)"
  proof (cases "i < length as")
    case False
    then have "P ((h @ as) @ take (i - length as) bs) (bs ! (i - length as))" using bs i by simp
    with False show ?thesis by (simp add: nth_append)
  qed (use as in \<open>simp add: nth_append\<close>)
qed

lemma sent_ok_take: "sent_ok P h qs \<Longrightarrow> sent_ok P h (take n qs)"
  by (auto simp: sent_ok_def min_absorb1)

lemma tracedE:
  assumes "traced P m t" and "m t = (r, u)"
  obtains sent where "u = t @ sent" and "sent_ok P t sent"
  using assms by (auto simp: traced_def)

lemma traced_return: "traced P (io_return x) t"
  and traced_raise: "traced P (io_raise e) t"
  and traced_lift: "traced P (io_lift r) t"
  by (simp_all add: traced_def sent_ok_def)

lemma traced_emits:
  assumes "emits Q m" and "\<And>h q. prefix t h \<Longrightarrow> Q q \<Longrightarrow> P h q"
  shows "traced P m t"
proof -
  obtain sent where "snd (m t) = t @ sent" "\<forall>q \<in> set sent. Q q" using emitsD [OF assms(1)] by blast
  then show ?thesis using assms(2) by (auto simp: traced_def sent_ok_def)
qed

lemma traced_mono: "traced P m t \<Longrightarrow> (\<And>h q. P h q \<Longrightarrow> Q h q) \<Longrightarrow> traced Q m t"
  unfolding traced_def sent_ok_def by blast

lemma traced_bind:
  assumes "traced P m t" and "\<And>x u. m t = (Inr x, u) \<Longrightarrow> prefix t u \<Longrightarrow> traced P (f x) u"
  shows "traced P (io_bind m f) t"
proof (cases "m t")
  case (Pair r u)
  obtain s1 where s1: "u = t @ s1" "sent_ok P t s1" using tracedE [OF assms(1) Pair] .
  show ?thesis
  proof (cases r)
    case (Inl e)
    then show ?thesis using Pair s1 by (auto simp: traced_def io_bind_def)
  next
    case (Inr x)
    obtain s2 where "snd (f x u) = u @ s2" "sent_ok P u s2"
      using assms(2) [of x u] Pair Inr s1(1) by (auto simp: traced_def)
    then show ?thesis
      using Pair Inr s1 sent_ok_append [of P t s1 s2] by (auto simp: traced_def io_bind_def)
  qed
qed

lemma traced_catch_all:
  assumes "traced P m t" and "\<And>e u. prefix t u \<Longrightarrow> traced P (h e) u"
  shows "traced P (io_catch_all m h) t"
proof (cases "m t")
  case (Pair r u)
  obtain s1 where s1: "u = t @ s1" "sent_ok P t s1" using tracedE [OF assms(1) Pair] .
  show ?thesis
  proof (cases r)
    case (Inr x)
    then show ?thesis using Pair s1 by (auto simp: traced_def io_catch_all_def)
  next
    case (Inl e)
    obtain s2 where "snd (h e u) = u @ s2" "sent_ok P u s2"
      using assms(2) [of u e] s1(1) by (auto simp: traced_def)
    then show ?thesis
      using Pair Inl s1 sent_ok_append [of P t s1 s2] by (auto simp: traced_def io_catch_all_def)
  qed
qed

lemma traced_catch:
  assumes "traced P m t" and "\<And>e u. prefix t u \<Longrightarrow> traced P (h e) u"
  shows "traced P (io_catch m h) t"
  unfolding io_catch_as_all
  by (rule traced_catch_all) (auto intro: assms traced_raise split: exn.splits)

lemma traced_fold:
  "(\<And>s x u. x \<in> set xs \<Longrightarrow> prefix t u \<Longrightarrow> traced P (f s x) u) \<Longrightarrow> traced P (io_fold f s xs) t"
proof (induction xs arbitrary: s t)
  case (Cons x xs)
  have "traced P (io_fold f s' xs) u" if "prefix t u" for s' u
    using Cons.prems that by (intro Cons.IH) (auto intro: prefix_order.trans)
  then show ?case unfolding io_fold.simps using Cons.prems by (intro traced_bind) simp_all
qed (simp only: io_fold.simps traced_return)

section \<open>The values a computation may return\<close>

text \<open>\<open>yields Q m\<close>: whatever the history and the answers, a value \<open>m\<close> returns satisfies Q.\<close>

definition yields :: "('a \<Rightarrow> bool) \<Rightarrow> 'a io \<Rightarrow> bool" where
  "yields Q m \<longleftrightarrow> (\<forall>t x. fst (m t) = Inr x \<longrightarrow> Q x)"

lemma yieldsD: "yields Q m \<Longrightarrow> m t = (Inr x, t') \<Longrightarrow> Q x"
  by (metis fst_conv yields_def)

lemma yields_return [yields_intro]: "Q x \<Longrightarrow> yields Q (io_return x)"
  and yields_raise [yields_intro]: "yields Q (io_raise e)"
  and yields_lift [yields_intro]: "(\<And>x. r = Inr x \<Longrightarrow> Q x) \<Longrightarrow> yields Q (io_lift r)"
  by (simp_all add: yields_def)

lemma yields_any: "yields (\<lambda>_. True) m"
  by (simp add: yields_def)

lemma yields_bind [yields_intro]:
  assumes "yields R m" and "\<And>x. R x \<Longrightarrow> yields Q (f x)"
  shows "yields Q (io_bind m f)"
  unfolding yields_def
proof (intro allI impI)
  fix t y assume y: "fst (io_bind m f t) = Inr y"
  obtain r u where m: "m t = (r, u)" by (cases "m t") auto
  show "Q y"
  proof (cases r)
    case (Inl e)
    then show ?thesis using m y by (simp add: io_bind_def)
  next
    case (Inr x)
    have "yields Q (f x)" using yieldsD [OF assms(1) m [unfolded Inr]] by (rule assms(2))
    moreover have "f x u = (Inr y, snd (f x u))"
      using m y Inr by (cases "f x u") (simp add: io_bind_def)
    ultimately show ?thesis by (rule yieldsD)
  qed
qed

lemma yields_bind_any: "(\<And>x. yields Q (f x)) \<Longrightarrow> yields Q (io_bind m f)"
  by (rule yields_bind [OF yields_any])

lemma yields_catch_all [yields_intro]:
  assumes "yields Q m" and "\<And>e. yields Q (h e)"
  shows "yields Q (io_catch_all m h)"
  unfolding yields_def
proof (intro allI impI)
  fix t y assume y: "fst (io_catch_all m h t) = Inr y"
  obtain r u where m: "m t = (r, u)" by (cases "m t") auto
  show "Q y"
  proof (cases r)
    case (Inl e)
    have "h e u = (Inr y, snd (h e u))"
      using m y Inl by (cases "h e u") (simp add: io_catch_all_def)
    then show ?thesis by (rule yieldsD [OF assms(2)])
  next
    case (Inr x)
    then show ?thesis using yieldsD [OF assms(1), of t x u] m y by (simp add: io_catch_all_def)
  qed
qed

lemma yields_catch [yields_intro]:
  "yields Q m \<Longrightarrow> (\<And>e. yields Q (h e)) \<Longrightarrow> yields Q (io_catch m h)"
  unfolding io_catch_as_all
  by (rule yields_catch_all) (auto intro: yields_raise split: exn.splits)

lemma yields_if [yields_intro]:
  "(b \<Longrightarrow> yields Q m) \<Longrightarrow> (\<not> b \<Longrightarrow> yields Q n) \<Longrightarrow> yields Q (if b then m else n)"
  by simp

lemma yields_option [yields_intro]:
  "(x = None \<Longrightarrow> yields Q m) \<Longrightarrow> (\<And>y. x = Some y \<Longrightarrow> yields Q (f y)) \<Longrightarrow>
   yields Q (case x of None \<Rightarrow> m | Some y \<Rightarrow> f y)"
  by (cases x) auto

lemma yields_let [yields_intro]: "(\<And>y. y = x \<Longrightarrow> yields Q (f y)) \<Longrightarrow> yields Q (let y = x in f y)"
  by simp

lemma yields_mono: "yields R m \<Longrightarrow> (\<And>x. R x \<Longrightarrow> Q x) \<Longrightarrow> yields Q m"
  unfolding yields_def by blast

end
