(* ===== verification/Memory_Store.thy ===== *)
theory Memory_Store
  imports Gateway_IO
begin

text \<open>
  Where memory rows live and who may read them (\<open>memory_store.py\<close>): the only module that
  names the datasets, the tag every written row gets and the predicate every read carries.
\<close>

definition self_dataverse :: string where
  "self_dataverse = ''AgentMemory''"

definition memory_dataset :: string where
  "memory_dataset = ''AgentMemory.Memory''"

definition session_event_dataset :: string where
  "session_event_dataset = ''AgentMemory.SessionEvent''"

definition memory_write_prefixes :: "string list" where
  "memory_write_prefixes =
     [''INSERT INTO AgentMemory.Memory'', ''UPSERT INTO AgentMemory.Memory'',
      ''INSERT INTO AgentMemory.SessionEvent'', ''UPSERT INTO AgentMemory.SessionEvent'']"

definition bootstrap_statements :: "string list" where
  "bootstrap_statements =
     [''CREATE DATAVERSE AgentMemory IF NOT EXISTS;'',
      ''CREATE TYPE AgentMemory.MemoryType IF NOT EXISTS AS OPEN { id: string };'',
      ''CREATE DATASET AgentMemory.Memory(MemoryType) IF NOT EXISTS PRIMARY KEY id;'',
      ''CREATE INDEX memSubject IF NOT EXISTS ON AgentMemory.Memory(subject: string?) ENFORCED;'',
      ''CREATE INDEX memText IF NOT EXISTS ON AgentMemory.Memory(`text`: string?) TYPE FULLTEXT ENFORCED;'',
      ''CREATE INDEX memPrincipal IF NOT EXISTS ON AgentMemory.Memory(principal: string?) ENFORCED;'',
      ''CREATE TYPE AgentMemory.SessionEventType IF NOT EXISTS AS OPEN { id: string };'',
      ''CREATE DATASET AgentMemory.SessionEvent(SessionEventType) IF NOT EXISTS PRIMARY KEY id;'',
      ''CREATE INDEX evtPrincipal IF NOT EXISTS ON AgentMemory.SessionEvent(principal: string?) ENFORCED;'']"

definition principal_field :: string where
  "principal_field = ''principal''"

definition principal_parameter :: string where
  "principal_parameter = ''$principal''"

definition global_principal :: string where
  "global_principal = ''*''"

definition unowned_memory_query :: string where
  "unowned_memory_query =
     ''SELECT VALUE m FROM '' @ memory_dataset @ '' m WHERE m.'' @ principal_field @ '' IS UNKNOWN;''"

definition unowned_event_query :: string where
  "unowned_event_query =
     ''SELECT VALUE e FROM '' @ session_event_dataset @ '' e WHERE e.'' @ principal_field
       @ '' IS UNKNOWN;''"

definition tag :: "dict \<Rightarrow> string \<Rightarrow> dict" where
  "tag row who = dict_set principal_field (JStr who) row"

definition scope_clause :: "string \<Rightarrow> string" where
  "scope_clause alias =
     (let field = alias @ ''.'' @ principal_field
      in ''('' @ field @ '' = '' @ principal_parameter @ '' OR '' @ field @ '' = '' @ [CHR 0x22]
         @ global_principal @ [CHR 0x22] @ '')'')"

definition memory_write_statement :: "string \<Rightarrow> bool" where
  "memory_write_statement statement \<longleftrightarrow>
     (\<exists>p \<in> set memory_write_prefixes. starts_with (lstrip statement) p)
     \<or> statement \<in> set bootstrap_statements"

lemma tag_principal [simp]: "dget principal_field (tag row p) = JStr p"
  by (simp add: tag_def)

lemma tag_other [simp]: "k \<noteq> principal_field \<Longrightarrow> dget k (tag row p) = dget k row"
  by (simp add: tag_def)

lemma tag_tag [simp]: "tag (tag row p) q = tag row q"
  by (induction row) (auto simp: tag_def)

lemma scope_clause_scoped: "contains principal_parameter (scope_clause alias)"
proof -
  have "\<exists>a b. scope_clause alias = a @ principal_parameter @ b"
    unfolding scope_clause_def Let_def by (metis append.assoc)
  then show ?thesis by (simp add: contains_iff)
qed

end
