(* ===== verification/CC_Client.thy ===== *)
theory CC_Client
  imports Memory_Store
begin

text \<open>
  The HTTP client for the cluster controller (\<open>cc_client.py\<close>). A client is the settings, the
  network and the tenant it is bound to; its operations build the request, send it, check the
  size of the reply and read the envelope. The pieces of \<open>egress.py\<close> it calls
  (\<open>format_timeout\<close>, \<open>enforce_byte_ceiling\<close>) stand here.
\<close>

record cc_client =
  cc_settings :: settings
  cc_http :: network
  cc_principal :: "string option"

definition for_principal :: "cc_client \<Rightarrow> string \<Rightarrow> cc_client" where
  "for_principal c who = \<lparr>cc_settings = cc_settings c, cc_http = cc_http c, cc_principal = Some who\<rparr>"

section \<open>Egress layers 1 and 2\<close>

definition format_timeout :: "int \<Rightarrow> exn + string" where
  "format_timeout ms =
     (if ms \<le> 0 then Inl (PyExc ''ValueError'') else Inr (show_int ms @ ''ms''))"

definition size_limit_message :: "nat \<Rightarrow> int \<Rightarrow> string" where
  "size_limit_message n most =
     ''Response of '' @ show_nat n @ '' bytes exceeds the gateway ceiling of '' @ show_int most
     @ '' bytes. Add or tighten a LIMIT clause, project fewer fields, or push the analysis into SQL++ (GROUP BY / aggregates).''"

definition enforce_byte_ceiling :: "http_body \<Rightarrow> int \<Rightarrow> exn + http_body" where
  "enforce_byte_ceiling body max_bytes =
     (if max_bytes \<le> 0 then Inl (PyExc ''ValueError'')
      else if max_bytes < int (body_length body)
      then Inl (GatewayExc (gerr SIZE_LIMIT (size_limit_message (body_length body) max_bytes)))
      else Inr body)"

section \<open>Building the form\<close>

definition bool_param :: "bool \<Rightarrow> string" where
  "bool_param b = (if b then ''true'' else ''false'')"

definition scalar_param :: "json \<Rightarrow> string" where
  "scalar_param v = (case v of JBool b \<Rightarrow> bool_param b | _ \<Rightarrow> py_str v)"

text \<open>The keyword arguments of the query calls, with the defaults of \<open>execute\<close>.\<close>

record query_args =
  qa_ccid :: string
  qa_dataverse :: "string option"
  qa_signature :: bool
  qa_profile :: bool
  qa_max_warnings :: int
  qa_compiler :: dict
  qa_statement_params :: dict
  qa_mode :: "string option"
  qa_compile_only :: bool
  qa_emit_plan :: bool
  qa_emit_unoptimized :: bool
  qa_emit_job :: bool

definition query_defaults :: "string \<Rightarrow> query_args" where
  "query_defaults ccid =
     \<lparr>qa_ccid = ccid, qa_dataverse = None, qa_signature = False, qa_profile = False,
      qa_max_warnings = 5, qa_compiler = [], qa_statement_params = [], qa_mode = None,
      qa_compile_only = False, qa_emit_plan = False, qa_emit_unoptimized = False,
      qa_emit_job = False\<rparr>"

type_synonym form = "(string \<times> string) list"

definition text_given :: "string option \<Rightarrow> bool" where
  "text_given v \<longleftrightarrow> (case v of None \<Rightarrow> False | Some s \<Rightarrow> s \<noteq> [])"

text \<open>The fields before the two the gateway enforces, in the order they are assigned.\<close>

definition set_if :: "bool \<Rightarrow> string \<Rightarrow> string \<Rightarrow> form \<Rightarrow> form" where
  "set_if b k v form = (if b then dict_set k v form else form)"

definition base_fields :: "string \<Rightarrow> query_args \<Rightarrow> form" where
  "base_fields statement a =
     [(''statement'', statement), (''client_context_id'', qa_ccid a),
      (''signature'', bool_param (qa_signature a)),
      (''max-warnings'', show_int (qa_max_warnings a))]"

definition option_fields :: "query_args \<Rightarrow> form \<Rightarrow> form" where
  "option_fields a form =
     (let form = set_if (text_given (qa_dataverse a)) ''dataverse'' (the (qa_dataverse a)) form;
          form = set_if (qa_profile a) ''profile'' ''timings'' form;
          form = set_if (text_given (qa_mode a)) ''mode'' (the (qa_mode a)) form;
          form = set_if (qa_compile_only a) ''compile-only'' ''true'' form;
          form = set_if (qa_emit_plan a) ''optimized-logical-plan'' ''true'' form;
          form = set_if (qa_emit_plan a) ''plan-format'' ''clean_json'' form;
          form = set_if (qa_emit_unoptimized a) ''logical-plan'' ''true'' form;
          form = set_if (qa_emit_unoptimized a) ''plan-format'' ''clean_json'' form;
          form = set_if (qa_emit_job a) ''job'' ''true'' form
      in set_if (qa_emit_job a) ''hyracks-job-format'' ''json'' form)"

definition query_form_fields :: "string \<Rightarrow> query_args \<Rightarrow> form" where
  "query_form_fields statement a =
     (let form = option_fields a (base_fields statement a);
          form = foldl (\<lambda>f p. dict_set (fst p) (scalar_param (snd p)) f) form (qa_compiler a)
      in foldl (\<lambda>f p. dict_set (''$'' @ fst p) (json_dumps (snd p)) f) form
           (qa_statement_params a))"

definition build_query_form :: "cc_client \<Rightarrow> string \<Rightarrow> query_args \<Rightarrow> exn + form" where
  "build_query_form c statement a =
     sum_bind (format_timeout (max_time_ms (cc_settings c)))
       (\<lambda>t. Inr (dict_set ''timeout'' t (dict_set ''readonly'' ''true'' (query_form_fields statement a))))"

definition headers :: "cc_client \<Rightarrow> (string \<times> string) list" where
  "headers c =
     (''Accept'', ''application/json'') #
     (case cc_shared_secret (cc_settings c) of
        None \<Rightarrow> []
      | Some secret \<Rightarrow> if secret = [] then [] else [(''X-Gateway-Secret'', secret)])"

section \<open>Reading replies\<close>

definition parse_json_body :: "http_body \<Rightarrow> exn + dict" where
  "parse_json_body body =
     (case body_json body of
        Inl msg \<Rightarrow> Inl (GatewayExc (gerr INTERNAL (''AsterixDB returned a non-JSON response: '' @ msg)))
      | Inr (JDict d) \<Rightarrow> Inr d
      | Inr v \<Rightarrow> Inl (GatewayExc (gerr INTERNAL
          (''Expected a JSON object from AsterixDB, got '' @ type_name v @ ''.''))))"

definition parse_json_array_body :: "http_body \<Rightarrow> exn + json list" where
  "parse_json_array_body body =
     (case body_json body of
        Inl msg \<Rightarrow> Inl (GatewayExc (gerr INTERNAL (''AsterixDB returned a non-JSON response: '' @ msg)))
      | Inr (JList xs) \<Rightarrow> Inr xs
      | Inr v \<Rightarrow> Inl (GatewayExc (gerr INTERNAL
          (''Expected a JSON array from AsterixDB, got '' @ type_name v @ ''.''))))"

text \<open>\<open>_raise_on_envelope_errors\<close>: the first entry of a non-empty \<open>errors\<close> field is classified.\<close>

definition unspecified_error :: json where
  "unspecified_error = JStr ''AsterixDB returned an unspecified error.''"

definition check_envelope_errors :: "dict \<Rightarrow> exn + unit" where
  "check_envelope_errors envelope =
     (let errors = dget ''errors'' envelope in
      if \<not> truthy errors then Inr ()
      else
        let first = (case errors of JList (x # _) \<Rightarrow> x | _ \<Rightarrow> JDict []);
            asx = jget ''code'' first;
            message = py_or (jget ''msg'' first) unspecified_error
        in sum_bind (classify_cc_error asx message) (\<lambda>e. Inl (GatewayExc e)))"

definition check_envelope :: "dict \<Rightarrow> exn + unit" where
  "check_envelope envelope =
     sum_bind (check_envelope_errors envelope)
       (\<lambda>_. let status = lower (py_str (dget_or ''status'' (JStr []) envelope))
            in if status \<noteq> [] \<and> status \<noteq> ''success''
               then Inl (GatewayExc (gerr INTERNAL
                      (''AsterixDB returned non-success status '' @ repr_str status
                       @ '' with no error detail.'')))
               else Inr ())"

section \<open>The transport\<close>

definition reset_message :: "cc_client \<Rightarrow> string \<Rightarrow> string" where
  "reset_message c exc =
     ''Connection to AsterixDB at '' @ cc_base_url (cc_settings c)
     @ '' was reset and could not be re-established (the cluster may be restarting): '' @ exc"

definition unreachable_message :: "cc_client \<Rightarrow> string \<Rightarrow> string" where
  "unreachable_message c exc =
     ''Failed to reach AsterixDB at '' @ cc_base_url (cc_settings c) @ '': '' @ exc"

definition no_response_message :: "cc_client \<Rightarrow> string" where
  "no_response_message c =
     ''AsterixDB did not respond within '' @ show_real (request_timeout_s (cc_settings c)) @ ''s.''"

definition post_once :: "cc_client \<Rightarrow> form \<Rightarrow> http_reply io" where
  "post_once c form = io_send (cc_http c) (QueryPost form (headers c))"

text \<open>
  One retry after a stale connection; any failure of the retry, a timeout included, is an
  internal error.
\<close>

definition post_query :: "cc_client \<Rightarrow> form \<Rightarrow> dict io" where
  "post_query c form =
     io_bind
       (io_bind (post_once c form) (\<lambda>reply.
          case reply of
            Response status body \<Rightarrow> io_return body
          | Stale _ \<Rightarrow>
              io_bind (post_once c form) (\<lambda>again.
                case again of
                  Response status body \<Rightarrow> io_return body
                | Stale exc \<Rightarrow> io_fail INTERNAL (reset_message c exc)
                | OtherHttp exc \<Rightarrow> io_fail INTERNAL (reset_message c exc)
                | Timeout exc \<Rightarrow> io_fail INTERNAL (reset_message c exc))
          | Timeout _ \<Rightarrow> io_fail TIMEOUT (no_response_message c)
          | OtherHttp exc \<Rightarrow> io_fail INTERNAL (unreachable_message c exc)))
       (\<lambda>body. io_lift
          (sum_bind (enforce_byte_ceiling body (max_bytes_per_query (cc_settings c)))
             parse_json_body))"

definition get_body :: "cc_client \<Rightarrow> string \<Rightarrow> (string \<times> string) list \<Rightarrow> http_body io" where
  "get_body c path params =
     io_bind (io_send (cc_http c) (GetPath path params (headers c))) (\<lambda>reply.
       case reply of
         Response status body \<Rightarrow>
           io_lift (enforce_byte_ceiling body (max_bytes_per_query (cc_settings c)))
       | Timeout _ \<Rightarrow> io_fail TIMEOUT (''AsterixDB admin endpoint '' @ path @ '' timed out.'')
       | Stale exc \<Rightarrow>
           io_fail INTERNAL (''Failed to reach AsterixDB admin endpoint '' @ path @ '': '' @ exc)
       | OtherHttp exc \<Rightarrow>
           io_fail INTERNAL (''Failed to reach AsterixDB admin endpoint '' @ path @ '': '' @ exc))"

definition get_json :: "cc_client \<Rightarrow> string \<Rightarrow> dict io" where
  "get_json c path = io_bind (get_body c path []) (\<lambda>b. io_lift (parse_json_body b))"

definition get_json_array :: "cc_client \<Rightarrow> string \<Rightarrow> (string \<times> string) list \<Rightarrow> json list io" where
  "get_json_array c path params =
     io_bind (get_body c path params) (\<lambda>b. io_lift (parse_json_array_body b))"

section \<open>The operations\<close>

definition execute :: "cc_client \<Rightarrow> string \<Rightarrow> query_args \<Rightarrow> dict io" where
  "execute c statement a =
     io_bind (io_lift (build_query_form c statement a)) (\<lambda>form.
     io_bind (post_query c form) (\<lambda>envelope.
     io_bind (io_lift (check_envelope envelope)) (\<lambda>_. io_return envelope)))"

definition owned_by :: "dict \<Rightarrow> string \<Rightarrow> dict" where
  "owned_by params who =
     (case dget ''row'' params of
        JDict row \<Rightarrow> dict_set ''row'' (JDict (tag row who)) params
      | _ \<Rightarrow> params)"

definition memory_disabled_message :: string where
  "memory_disabled_message =
     ''Memory writes are disabled. Set ASTERIXDB_MCP_MEMORY_WRITE_ENABLED=true to allow the memory_write tool to persist notes.''"

definition memory_statement_message :: string where
  "memory_statement_message =
     ''Only INSERT/UPSERT statements targeting the AgentMemory store (or its exact bootstrap DDL) are permitted on the memory write path.''"

definition unbound_write_message :: string where
  "unbound_write_message = ''Refusing to write memory from a client that is not bound to a tenant.''"

definition unbound_read_message :: string where
  "unbound_read_message = ''Refusing to read memory from a client that is not bound to a tenant.''"

definition unscoped_read_message :: string where
  "unscoped_read_message =
     ''Refusing to run a memory query that does not filter on $principal; it would read every tenant's rows.''"

definition execute_memory_write :: "cc_client \<Rightarrow> string \<Rightarrow> string \<Rightarrow> dict \<Rightarrow> dict io" where
  "execute_memory_write c statement ccid params =
     (if \<not> memory_write_enabled (cc_settings c) then io_fail FORBIDDEN memory_disabled_message
      else if \<not> memory_write_statement statement then io_fail FORBIDDEN memory_statement_message
      else case cc_principal c of
        None \<Rightarrow> io_fail INTERNAL unbound_write_message
      | Some who \<Rightarrow>
          io_bind (io_lift (build_query_form c statement
                     ((query_defaults ccid)\<lparr>qa_statement_params := owned_by params who\<rparr>))) (\<lambda>form.
          io_bind (post_query c (dict_set ''readonly'' ''false'' form)) (\<lambda>envelope.
          io_bind (io_lift (check_envelope envelope)) (\<lambda>_. io_return envelope))))"

definition execute_memory_read :: "cc_client \<Rightarrow> string \<Rightarrow> string \<Rightarrow> dict \<Rightarrow> dict io" where
  "execute_memory_read c statement ccid params =
     (case cc_principal c of
        None \<Rightarrow> io_fail INTERNAL unbound_read_message
      | Some who \<Rightarrow>
          if \<not> contains principal_parameter statement then io_fail INTERNAL unscoped_read_message
          else execute c statement
                 ((query_defaults ccid)\<lparr>qa_statement_params := dict_set principal_field (JStr who) params\<rparr>))"

definition submit_async :: "cc_client \<Rightarrow> string \<Rightarrow> query_args \<Rightarrow> dict io" where
  "submit_async c statement a =
     io_bind (io_lift (build_query_form c statement
        (a\<lparr>qa_signature := False, qa_profile := False, qa_max_warnings := 5, qa_mode := Some ''async'',
           qa_compile_only := False, qa_emit_plan := False, qa_emit_unoptimized := False,
           qa_emit_job := False\<rparr>))) (\<lambda>form.
     io_bind (post_query c form) (\<lambda>envelope.
     io_bind (io_lift (check_envelope_errors envelope)) (\<lambda>_. io_return envelope)))"

definition compile_query :: "cc_client \<Rightarrow> string \<Rightarrow> query_args \<Rightarrow> dict io" where
  "compile_query c statement a =
     io_bind (io_lift (build_query_form c statement
        (a\<lparr>qa_profile := False, qa_max_warnings := 5, qa_compiler := [], qa_mode := None,
           qa_compile_only := True\<rparr>))) (\<lambda>form. post_query c form)"

definition poll_status :: "cc_client \<Rightarrow> string \<Rightarrow> dict io" where
  "poll_status c handle = get_json c handle"

definition fetch_result :: "cc_client \<Rightarrow> string \<Rightarrow> dict io" where
  "fetch_result c handle = get_json c handle"

definition cancel :: "cc_client \<Rightarrow> string \<Rightarrow> bool io" where
  "cancel c ccid =
     io_bind (io_send (cc_http c)
       (DeletePath ''/admin/requests/running'' [(''client_context_id'', ccid)] (headers c))) (\<lambda>reply.
       case reply of
         Timeout _ \<Rightarrow> io_fail TIMEOUT ''Cancel request timed out.''
       | Stale exc \<Rightarrow> io_fail INTERNAL (''Failed to reach AsterixDB to cancel request: '' @ exc)
       | OtherHttp exc \<Rightarrow> io_fail INTERNAL (''Failed to reach AsterixDB to cancel request: '' @ exc)
       | Response status body \<Rightarrow>
           if status = 200 then io_return True
           else if status = 404 then io_fail NOT_FOUND
             (''No running request found for clientContextID '' @ repr_str ccid
              @ ''. It may have already finished or been cancelled.'')
           else if status = 403 then io_fail FORBIDDEN
             (''The request for clientContextID '' @ repr_str ccid @ '' exists but cannot be cancelled.'')
           else io_fail INTERNAL (''Cancel returned unexpected status '' @ show_nat status @ ''.''))"

definition admin_version :: "cc_client \<Rightarrow> dict io" where
  "admin_version c = get_json c ''/admin/version''"

definition admin_cluster :: "cc_client \<Rightarrow> dict io" where
  "admin_cluster c = get_json c ''/admin/cluster''"

definition admin_node_detail :: "cc_client \<Rightarrow> string \<Rightarrow> dict io" where
  "admin_node_detail c node_id = get_json c (''/admin/cluster/node'' @ ''/'' @ node_id)"

definition admin_diagnostics :: "cc_client \<Rightarrow> dict io" where
  "admin_diagnostics c = get_json c ''/admin/diagnostics''"

definition admin_running_requests :: "cc_client \<Rightarrow> bool \<Rightarrow> json list io" where
  "admin_running_requests c redact =
     get_json_array c ''/admin/requests/running'' (if redact then [(''redact'', ''true'')] else [])"

section \<open>The form\<close>

lemma fold_set_merge:
  "foldl (\<lambda>f p. dict_set (g (fst p)) (h (snd p)) f) d ps
     = dict_merge d (map (\<lambda>p. (g (fst p), h (snd p))) ps)"
  by (induction ps arbitrary: d) simp_all

lemma build_query_form_enforced:
  assumes "build_query_form c statement a = Inr form"
  shows "map_of form ''readonly'' = Some ''true''"
    and "map_of form ''timeout'' = Some (show_int (max_time_ms (cc_settings c)) @ ''ms'')"
    and "\<And>k. k \<noteq> ''readonly'' \<Longrightarrow> k \<noteq> ''timeout'' \<Longrightarrow>
           map_of form k = map_of (query_form_fields statement a) k"
  using assms by (auto simp: build_query_form_def format_timeout_def split: if_splits)

text \<open>The fields that do not come from the caller's parameters.\<close>

definition reserved_fields :: "string list" where
  "reserved_fields =
     [''statement'', ''client_context_id'', ''signature'', ''max-warnings'', ''dataverse'',
      ''profile'', ''mode'', ''compile-only'', ''optimized-logical-plan'', ''plan-format'',
      ''logical-plan'', ''job'', ''hyracks-job-format'', ''readonly'', ''timeout'']"

lemma dollar_not_reserved: "''$'' @ k \<notin> set reserved_fields"
  by (simp add: reserved_fields_def)

lemma map_of_statement_params:
  "map_of (dict_merge d (map (\<lambda>p. (''$'' @ fst p, h (snd p))) ps)) k = map_of d k"
  if "hd k \<noteq> CHR ''$''"
  using that by (intro map_of_dict_merge_notin) auto

lemma map_of_map_dollar:
  "map_of (map (\<lambda>p. (''$'' @ fst p, h (snd p))) ps) (''$'' @ k) = map_option h (map_of ps k)"
  by (induction ps) auto

lemma map_of_statement_param:
  assumes "distinct (map fst ps)" and "map_of ps k = Some v"
  shows "map_of (dict_merge d (map (\<lambda>p. (''$'' @ fst p, h (snd p))) ps)) (''$'' @ k) = Some (h v)"
proof -
  have "distinct (map fst (map (\<lambda>p. (''$'' @ fst p, h (snd p))) ps))"
    using assms(1) by (simp add: o_def distinct_map) (auto simp: inj_on_def)
  moreover have "map_of (map (\<lambda>p. (''$'' @ fst p, h (snd p))) ps) (''$'' @ k) = Some (h v)"
    using assms(2) by (simp only: map_of_map_dollar) simp
  ultimately show ?thesis by (simp only: map_of_dict_merge option.case)
qed

lemma map_of_set_if [simp]:
  "map_of (set_if b k v form) k' = (if b \<and> k' = k then Some v else map_of form k')"
  by (simp add: set_if_def)

lemma option_fields_statement:
  "map_of (option_fields a form) ''statement'' = map_of form ''statement''"
  by (simp add: option_fields_def Let_def)

lemma query_form_statement:
  "qa_compiler a = [] \<Longrightarrow> map_of (query_form_fields statement a) ''statement'' = Some statement"
  unfolding query_form_fields_def Let_def fold_set_merge
  by (subst map_of_statement_params) (simp_all add: option_fields_statement base_fields_def)

lemma query_form_param:
  "distinct (map fst (qa_statement_params a)) \<Longrightarrow> map_of (qa_statement_params a) k = Some v \<Longrightarrow>
   map_of (query_form_fields statement a) (''$'' @ k) = Some (json_dumps v)"
  unfolding query_form_fields_def Let_def fold_set_merge by (rule map_of_statement_param)

section \<open>Which requests an operation sends\<close>

definition read_only :: "request \<Rightarrow> bool" where
  "read_only r = (case r of
     QueryPost form _ \<Rightarrow> map_of form ''readonly'' = Some ''true''
   | GetPath _ _ _ \<Rightarrow> True
   | DeletePath _ _ _ \<Rightarrow> False)"

lemma read_only_simps [simp]:
  "read_only (QueryPost form h) \<longleftrightarrow> map_of form ''readonly'' = Some ''true''"
  "read_only (GetPath path params h)"
  "\<not> read_only (DeletePath path params h)"
  by (simp_all add: read_only_def)

lemma emits_post_query [emits_intro]: "P (QueryPost form (headers c)) \<Longrightarrow> emits P (post_query c form)"
  unfolding post_query_def post_once_def
  by (auto intro!: emits_intro split: http_reply.splits)

lemma emits_lift_bind:
  "(\<And>x. r = Inr x \<Longrightarrow> emits P (f x)) \<Longrightarrow> emits P (io_bind (io_lift r) f)"
  by (cases r) (auto intro: emits_intro)

lemma emits_get_body [emits_intro]:
  "P (GetPath path params (headers c)) \<Longrightarrow> emits P (get_body c path params)"
  unfolding get_body_def by (auto intro!: emits_intro split: http_reply.splits)

lemma emits_get_json [emits_intro]: "P (GetPath path [] (headers c)) \<Longrightarrow> emits P (get_json c path)"
  unfolding get_json_def by (auto intro!: emits_intro)

lemma emits_get_json_array [emits_intro]:
  "P (GetPath path params (headers c)) \<Longrightarrow> emits P (get_json_array c path params)"
  unfolding get_json_array_def by (auto intro!: emits_intro)

lemma execute_read_only [emits_intro]: "emits read_only (execute c statement a)"
  unfolding execute_def
  by (rule emits_lift_bind) (auto intro!: emits_intro simp: build_query_form_enforced)

lemma submit_async_read_only [emits_intro]: "emits read_only (submit_async c statement a)"
  unfolding submit_async_def
  by (rule emits_lift_bind) (auto intro!: emits_intro simp: build_query_form_enforced)

lemma compile_query_read_only [emits_intro]: "emits read_only (compile_query c statement a)"
  unfolding compile_query_def
  by (rule emits_lift_bind) (auto intro!: emits_intro simp: build_query_form_enforced)

lemma admin_read_only [emits_intro]:
  "emits read_only (poll_status c handle)" "emits read_only (fetch_result c handle)"
  "emits read_only (admin_version c)" "emits read_only (admin_cluster c)"
  "emits read_only (admin_node_detail c node_id)" "emits read_only (admin_diagnostics c)"
  "emits read_only (admin_running_requests c redact)"
  unfolding poll_status_def fetch_result_def admin_version_def admin_cluster_def
    admin_node_detail_def admin_diagnostics_def admin_running_requests_def
  by (auto intro!: emits_intro)

text \<open>A cancellation is no read: its one request deletes the running request of the given id.\<close>

definition cancel_request :: "cc_client \<Rightarrow> string \<Rightarrow> request" where
  "cancel_request c ccid = DeletePath ''/admin/requests/running'' [(''client_context_id'', ccid)] (headers c)"

lemma cancel_emits_delete: "emits (\<lambda>r. r = cancel_request c ccid) (cancel c ccid)"
  unfolding cancel_def cancel_request_def by (auto intro!: emits_intro split: http_reply.splits)

text \<open>A statement that is run to be read, with whatever parameters.\<close>

definition catalog_request :: "cc_client \<Rightarrow> string \<Rightarrow> request \<Rightarrow> bool" where
  "catalog_request c statement r \<longleftrightarrow>
     (\<exists>form. r = QueryPost form (headers c) \<and> map_of form ''statement'' = Some statement
        \<and> map_of form ''readonly'' = Some ''true'')"

lemma execute_plain:
  "qa_compiler a = [] \<Longrightarrow> emits (catalog_request c statement) (execute c statement a)"
  unfolding execute_def
  by (rule emits_lift_bind, intro emits_bind emits_lift emits_return emits_post_query)
    (auto simp: catalog_request_def build_query_form_enforced query_form_statement)

lemma catalog_request_reads: "catalog_request c st r \<Longrightarrow> read_only r"
  by (auto simp: catalog_request_def)

text \<open>A compilation asks for a plan only: nothing it sends is executed.\<close>

definition compile_request :: "cc_client \<Rightarrow> string \<Rightarrow> request \<Rightarrow> bool" where
  "compile_request c statement r \<longleftrightarrow>
     (\<exists>form. r = QueryPost form (headers c) \<and> map_of form ''statement'' = Some statement
        \<and> map_of form ''readonly'' = Some ''true'' \<and> map_of form ''compile-only'' = Some ''true'')"

lemma query_form_compile_only:
  "qa_compiler a = [] \<Longrightarrow> qa_compile_only a \<Longrightarrow>
   map_of (query_form_fields statement a) ''compile-only'' = Some ''true''"
  unfolding query_form_fields_def Let_def fold_set_merge
  by (subst map_of_statement_params) (simp_all add: option_fields_def Let_def)

lemma compile_query_emits [emits_intro]: "emits (compile_request c statement) (compile_query c statement a)"
  unfolding compile_query_def compile_request_def
  by (rule emits_lift_bind, rule emits_post_query)
    (simp add: build_query_form_enforced query_form_statement query_form_compile_only)

lemma compile_request_read_only: "compile_request c statement r \<Longrightarrow> read_only r"
  by (auto simp: compile_request_def)

text \<open>What a memory read and a memory write may send, on behalf of which tenant.\<close>

definition scoped_read :: "string \<Rightarrow> request \<Rightarrow> bool" where
  "scoped_read who r = (case r of
     QueryPost form _ \<Rightarrow>
       map_of form ''readonly'' = Some ''true''
       \<and> map_of form ''$principal'' = Some (json_dumps (JStr who))
       \<and> (\<exists>statement. map_of form ''statement'' = Some statement
              \<and> contains principal_parameter statement)
   | _ \<Rightarrow> False)"

definition memory_write_request :: "string \<Rightarrow> request \<Rightarrow> bool" where
  "memory_write_request who r = (case r of
     QueryPost form _ \<Rightarrow>
       (\<exists>statement. map_of form ''statement'' = Some statement \<and> memory_write_statement statement)
   | _ \<Rightarrow> False)"

lemma scoped_read_is_read_only: "scoped_read who r \<Longrightarrow> read_only r"
  by (cases r) (auto simp: scoped_read_def)

text \<open>Keys of the form are never repeated.\<close>

lemma distinct_set_if [simp]: "distinct (map fst form) \<Longrightarrow> distinct (map fst (set_if b k v form))"
  by (simp add: set_if_def)

lemma distinct_query_form_fields: "distinct (map fst (query_form_fields statement a))"
proof -
  have "distinct (map fst (option_fields a (base_fields statement a)))"
    by (simp add: option_fields_def Let_def base_fields_def)
  then show ?thesis
    unfolding query_form_fields_def Let_def fold_set_merge
    by (simp only: distinct_dict_merge fold_set_merge [where g = "\<lambda>k. k"])
qed

lemma build_query_form_ok:
  "1 \<le> max_time_ms (cc_settings c) \<Longrightarrow> build_query_form c statement a =
     Inr (dict_set ''timeout'' (show_int (max_time_ms (cc_settings c)) @ ''ms'')
            (dict_set ''readonly'' ''true'' (query_form_fields statement a)))"
  by (simp add: build_query_form_def format_timeout_def)

section \<open>Properties of the client\<close>

text \<open>A client over a network that always answers an empty object, for concrete instances.\<close>

definition quiet_client :: "settings \<Rightarrow> string option \<Rightarrow> cc_client" where
  "quiet_client s who =
     \<lparr>cc_settings = s,
      cc_http = (\<lambda>_. Response 200 \<lparr>body_length = 2, body_json = Inr (JDict [])\<rparr>),
      cc_principal = who\<rparr>"

text \<open>The same over a network that always answers the given envelope.\<close>

definition answering_client :: "settings \<Rightarrow> string option \<Rightarrow> dict \<Rightarrow> cc_client" where
  "answering_client s who envelope =
     \<lparr>cc_settings = s,
      cc_http = (\<lambda>_. Response 200 \<lparr>body_length = 2, body_json = Inr (JDict envelope)\<rparr>),
      cc_principal = who\<rparr>"

text \<open>
  Every query form the gateway builds carries \<open>readonly=true\<close> and the configured timeout,
  whatever compiler or statement parameters the caller passes, and no field occurs twice.
\<close>

theorem form_fields_enforced:
  assumes "1 \<le> max_time_ms (cc_settings c)"
  shows "\<exists>form. build_query_form c statement a = Inr form
           \<and> map_of form ''readonly'' = Some ''true''
           \<and> map_of form ''timeout'' = Some (show_int (max_time_ms (cc_settings c)) @ ''ms'')
           \<and> distinct (map fst form)"
  using build_query_form_ok [OF assms]
  by (simp add: distinct_query_form_fields)

theorem form_fields_enforced_witness:
  "\<exists>form. build_query_form (quiet_client default_settings None) ''SELECT 1;''
        ((query_defaults ''id'')\<lparr>qa_compiler := [(''readonly'', JStr ''false''), (''timeout'', JStr ''9h'')]\<rparr>)
        = Inr form \<and> map_of form ''readonly'' = Some ''true'' \<and> map_of form ''timeout'' = Some ''30000ms''"
proof -
  have "show_int 30000 = ''30000''" by (simp add: show_number)
  then show ?thesis
    using form_fields_enforced [of "quiet_client default_settings None" "''SELECT 1;''"
        "(query_defaults ''id'')\<lparr>qa_compiler := [(''readonly'', JStr ''false''), (''timeout'', JStr ''9h'')]\<rparr>"]
    by (auto simp: quiet_client_def default_settings_def)
qed

text \<open>The one request a memory write sends: the given statement, allowed, for the own tenant.\<close>

definition own_write :: "cc_client \<Rightarrow> string \<Rightarrow> dict \<Rightarrow> request \<Rightarrow> bool" where
  "own_write c statement params r \<longleftrightarrow>
     (\<exists>who form. r = QueryPost form (headers c)
        \<and> memory_write_enabled (cc_settings c) \<and> memory_write_statement statement
        \<and> cc_principal c = Some who
        \<and> map_of form ''readonly'' = Some ''false'' \<and> map_of form ''statement'' = Some statement
        \<and> (\<forall>row. distinct (map fst params) \<and> dget ''row'' params = JDict row \<longrightarrow>
              map_of form ''$row'' = Some (json_dumps (JDict (tag row who)))))"

lemma memory_write_own: "emits (own_write c statement params) (execute_memory_write c statement ccid params)"
proof (cases "memory_write_enabled (cc_settings c) \<and> memory_write_statement statement")
  case False
  then show ?thesis by (auto simp: execute_memory_write_def intro: emits_raise)
next
  case guards: True
  show ?thesis
  proof (cases "cc_principal c")
    case None
    with guards show ?thesis by (simp add: execute_memory_write_def emits_raise)
  next
    case (Some who)
    let ?a = "(query_defaults ccid)\<lparr>qa_statement_params := owned_by params who\<rparr>"
    have row: "map_of form ''$row'' = Some (json_dumps (JDict (tag row who)))"
      if "build_query_form c statement ?a = Inr form" "distinct (map fst params)"
        "dget ''row'' params = JDict row" for form row
    proof -
      have "owned_by params who = dict_set ''row'' (JDict (tag row who)) params"
        using that(3) by (simp add: owned_by_def)
      then have "map_of (query_form_fields statement ?a) (''$'' @ ''row'')
          = Some (json_dumps (JDict (tag row who)))"
        using that(2) by (intro query_form_param) simp_all
      then show ?thesis using build_query_form_enforced(3) [OF that(1), of "''$row''"] by simp
    qed
    have st: "map_of form ''statement'' = Some statement"
      if "build_query_form c statement ?a = Inr form" for form
      using build_query_form_enforced(3) [OF that, of "''statement''"] query_form_statement [of ?a statement]
      by (simp add: query_defaults_def)
    show ?thesis
      using guards Some st row unfolding execute_memory_write_def own_write_def
      by (auto intro!: emits_lift_bind emits_bind emits_post_query emits_lift emits_return)
  qed
qed

text \<open>
  C2. The memory write path is the only exception, and a guarded one: each request it sends is
  a \<open>readonly=false\<close> post of exactly the given statement, sent only when memory writes are
  enabled, the statement is an insert or upsert into the store (or its bootstrap DDL), and the
  client is bound to a tenant, whose name is stamped on the bound row.
\<close>

theorem memory_write_guarded:
  "emits (\<lambda>r. \<exists>who form. r = QueryPost form (headers c)
        \<and> memory_write_enabled (cc_settings c) \<and> memory_write_statement statement
        \<and> cc_principal c = Some who
        \<and> map_of form ''readonly'' = Some ''false'' \<and> map_of form ''statement'' = Some statement
        \<and> (\<forall>row. distinct (map fst params) \<and> dget ''row'' params = JDict row \<longrightarrow>
              map_of form ''$row'' = Some (json_dumps (JDict (tag row who)))))
     (execute_memory_write c statement ccid params)"
  using memory_write_own unfolding own_write_def .

theorem memory_write_guarded_witness:
  "\<exists>form h. snd (execute_memory_write
       (quiet_client (default_settings\<lparr>memory_write_enabled := True\<rparr>) (Some ''alice''))
       ''UPSERT INTO AgentMemory.Memory ($row);'' ''id''
       [(''row'', JDict [(''id'', JStr ''n''), (''principal'', JStr ''bob'')])] []) = [QueryPost form h]
     \<and> map_of form ''$row'' = Some (json_dumps (JDict [(''id'', JStr ''n''), (''principal'', JStr ''alice'')]))"
proof -
  let ?c = "quiet_client (default_settings\<lparr>memory_write_enabled := True\<rparr>) (Some ''alice'')"
  let ?s = "''UPSERT INTO AgentMemory.Memory ($row);''"
  let ?p = "[(''row'', JDict [(''id'', JStr ''n''), (''principal'', JStr ''bob'')])]"
  have st: "memory_write_statement ?s" by code_simp
  have "\<exists>r. snd (execute_memory_write ?c ?s ''id'' ?p []) = [r]"
    using st by (simp add: execute_memory_write_def quiet_client_def default_settings_def
        build_query_form_def format_timeout_def post_query_def post_once_def io_bind_def
        enforce_byte_ceiling_def parse_json_body_def check_envelope_def check_envelope_errors_def
        dget_or_def Let_def lower_def)
  then obtain r where r: "snd (execute_memory_write ?c ?s ''id'' ?p []) = [r]" ..
  show ?thesis
    using emitsD [OF memory_write_guarded [of ?c ?s ?p "''id''"], of "[]"] r
    by (auto simp: quiet_client_def tag_def principal_field_def)
qed

text \<open>The one request a memory read sends: the given statement, read-only, for the own tenant.\<close>

definition own_read :: "cc_client \<Rightarrow> string \<Rightarrow> request \<Rightarrow> bool" where
  "own_read c statement r \<longleftrightarrow>
     (\<exists>who form. cc_principal c = Some who \<and> r = QueryPost form (headers c)
        \<and> contains principal_parameter statement
        \<and> map_of form ''statement'' = Some statement
        \<and> map_of form ''readonly'' = Some ''true''
        \<and> map_of form ''$principal'' = Some (json_dumps (JStr who)))"

lemma own_read_scoped: "own_read c statement r \<Longrightarrow> \<exists>who. cc_principal c = Some who \<and> scoped_read who r"
  by (auto simp: own_read_def scoped_read_def)

lemma own_read_is_read_only: "own_read c statement r \<Longrightarrow> read_only r"
  by (auto simp: own_read_def)

lemma memory_read_own [emits_intro]:
  assumes "distinct (map fst params)" and P: "\<And>r. own_read c statement r \<Longrightarrow> P r"
  shows "emits P (execute_memory_read c statement ccid params)"
proof (cases "cc_principal c")
  case None
  then show ?thesis by (simp add: execute_memory_read_def emits_raise)
next
  case (Some who)
  let ?a = "(query_defaults ccid)\<lparr>qa_statement_params := dict_set principal_field (JStr who) params\<rparr>"
  have own: "own_read c statement (QueryPost form (headers c))"
    if "build_query_form c statement ?a = Inr form" "contains principal_parameter statement" for form
  proof -
    have "map_of (query_form_fields statement ?a) (''$'' @ principal_field) = Some (json_dumps (JStr who))"
      using assms by (intro query_form_param) simp_all
    then have "map_of form ''$principal'' = Some (json_dumps (JStr who))"
      using build_query_form_enforced(3) [OF that(1), of "''$principal''"]
      by (simp add: principal_field_def)
    moreover have "map_of form ''statement'' = Some statement"
      using build_query_form_enforced(3) [OF that(1), of "''statement''"]
        query_form_statement [of ?a statement] by (simp add: query_defaults_def)
    ultimately show ?thesis
      using build_query_form_enforced(1) [OF that(1)] that(2) Some by (simp add: own_read_def)
  qed
  show ?thesis
    using Some P own unfolding execute_memory_read_def execute_def
    by (auto intro!: emits_if emits_raise emits_lift_bind emits_bind emits_post_query emits_lift
        emits_return)
qed

text \<open>
  C3. Tenant isolation of memory reads: every request a memory read sends is read-only, its
  statement refers to the tenant parameter, and that parameter is bound to the client's own
  tenant even when the caller passes a value for it. An unbound client sends nothing.
\<close>

theorem memory_read_scoped:
  assumes "distinct (map fst params)"
  shows "emits (\<lambda>r. \<exists>who. cc_principal c = Some who \<and> scoped_read who r)
           (execute_memory_read c statement ccid params)"
  using assms by (rule memory_read_own) (rule own_read_scoped)

theorem memory_read_scoped_witness:
  "\<exists>r. snd (execute_memory_read (quiet_client default_settings (Some ''alice''))
             ''SELECT VALUE m FROM AgentMemory.Memory m WHERE m.principal = $principal;'' ''id''
             [(''principal'', JStr ''bob'')] []) = [r] \<and> scoped_read ''alice'' r"
proof -
  let ?c = "quiet_client default_settings (Some ''alice'')"
  let ?s = "''SELECT VALUE m FROM AgentMemory.Memory m WHERE m.principal = $principal;''"
  let ?p = "[(''principal'', JStr ''bob'')]"
  have st: "contains principal_parameter ?s" by code_simp
  have "\<exists>r. snd (execute_memory_read ?c ?s ''id'' ?p []) = [r]"
    using st by (simp add: execute_memory_read_def execute_def quiet_client_def default_settings_def
        build_query_form_def format_timeout_def post_query_def post_once_def io_bind_def
        enforce_byte_ceiling_def parse_json_body_def check_envelope_def check_envelope_errors_def
        dget_or_def Let_def lower_def)
  then obtain r where r: "snd (execute_memory_read ?c ?s ''id'' ?p []) = [r]" ..
  then show ?thesis
    using emitsD [OF memory_read_scoped [of ?p ?c ?s "''id''"], of "[]"]
    by (auto simp: quiet_client_def)
qed

text \<open>
  A query is posted once, and a second time exactly when the first attempt ended in a stale
  connection; the second post is the same request. Nothing else is sent, however the cluster
  answers.
\<close>

theorem post_query_at_most_twice:
  "let q = QueryPost form (headers c); again = (\<exists>exc. cc_http c (sent @ [q]) = Stale exc)
   in snd (post_query c form sent) = sent @ (if again then [q, q] else [q])"
  by (auto simp: Let_def post_query_def post_once_def io_bind_def split: http_reply.splits)

text \<open>
  A reply that a query call returns as a success has been checked: it fits the byte ceiling,
  is a JSON object, reports no error and carries no status other than success; in every other
  case the call raises.
\<close>

definition envelope_ok :: "dict \<Rightarrow> bool" where
  "envelope_ok env \<longleftrightarrow> \<not> truthy (dget ''errors'' env)
     \<and> (\<forall>v. map_of env ''status'' = Some v \<longrightarrow> lower (py_str v) \<in> {[], ''success''})"

lemma check_envelope_iff: "check_envelope env = Inr u \<longleftrightarrow> envelope_ok env"
proof -
  have "check_envelope_errors env = Inr () \<longleftrightarrow> \<not> truthy (dget ''errors'' env)"
    by (auto simp: check_envelope_errors_def Let_def sum_bind_Inr_iff)
  then show ?thesis
    by (cases "map_of env ''status''")
      (auto simp: check_envelope_def sum_bind_Inr_iff envelope_ok_def Let_def dget_or_def lower_def)
qed

lemma post_query_reply:
  assumes "post_query c form sent = (Inr env, sent')"
  shows "\<exists>status body. cc_http c sent' = Response status body
           \<and> int (body_length body) \<le> max_bytes_per_query (cc_settings c)
           \<and> body_json body = Inr (JDict env)"
proof -
  have fit: "int (body_length body) \<le> max_bytes_per_query (cc_settings c)
      \<and> body_json body = Inr (JDict env)"
    if "sum_bind (enforce_byte_ceiling body (max_bytes_per_query (cc_settings c))) parse_json_body = Inr env"
    for body
    using that by (auto simp: sum_bind_Inr_iff enforce_byte_ceiling_def parse_json_body_def
        split: if_splits sum.splits json.splits)
  show ?thesis
    using assms fit
    by (auto simp: post_query_def post_once_def io_bind_def split: http_reply.splits sum.splits)
qed

theorem execute_success_checked:
  assumes "execute c statement a sent = (Inr env, sent')"
  shows "\<exists>status body. cc_http c sent' = Response status body
           \<and> int (body_length body) \<le> max_bytes_per_query (cc_settings c)
           \<and> body_json body = Inr (JDict env) \<and> envelope_ok env"
proof -
  obtain form where "post_query c form sent = (Inr env, sent')" "check_envelope env = Inr ()"
    using assms unfolding execute_def
    by (auto elim!: io_bind_InrE)
  then show ?thesis using post_query_reply check_envelope_iff by fastforce
qed

theorem execute_success_checked_witness:
  "\<exists>status body. cc_http (quiet_client default_settings None) [] = Response status body
     \<and> body_json body = Inr (JDict []) \<and> envelope_ok []"
proof -
  let ?c = "quiet_client default_settings None"
  have "\<exists>sent'. execute ?c ''SELECT 1;'' (query_defaults ''id'') [] = (Inr [], sent')"
    by (simp add: execute_def quiet_client_def default_settings_def
        build_query_form_def format_timeout_def post_query_def post_once_def io_bind_def
        enforce_byte_ceiling_def parse_json_body_def check_envelope_def check_envelope_errors_def
        dget_or_def Let_def lower_def)
  then obtain sent' where "execute ?c ''SELECT 1;'' (query_defaults ''id'') [] = (Inr [], sent')" ..
  from execute_success_checked [OF this] show ?thesis by (auto simp: quiet_client_def)
qed

end
