(* ===== verification/Context_Id.thy ===== *)
theory Context_Id
  imports Gateway_Errors
begin

text \<open>
  The namespaced client context id (\<open>context_id.py\<close>): \<open>session::tag::uuid\<close>, each segment
  sanitised so that the delimiter cannot occur inside one. The fresh uuid is an argument.
\<close>

definition segment_delimiter :: string where
  "segment_delimiter = ''::''"

definition max_user_tag_length :: nat where
  "max_user_tag_length = 64"

definition empty_segment_placeholder :: string where
  "empty_segment_placeholder = ''_''"

definition unsafe_char :: "char \<Rightarrow> bool" where
  "unsafe_char c \<longleftrightarrow> c = CHR '':'' \<or> py_space c"

definition unsafe_segment_chars :: re where
  "unsafe_segment_chars = Plus (Cls unsafe_char)"

abbreviation is_dash :: "char \<Rightarrow> bool" where
  "is_dash c \<equiv> c = CHR ''-''"

definition sanitize_segment :: "string \<Rightarrow> nat option \<Rightarrow> string" where
  "sanitize_segment raw max_length =
     (let cleaned = strip_by is_dash (re_sub unsafe_segment_chars ''-'' (strip raw));
          cleaned = (case max_length of
                       None \<Rightarrow> cleaned
                     | Some n \<Rightarrow> strip_by is_dash (take n cleaned))
      in if cleaned = [] then empty_segment_placeholder else cleaned)"

definition make_client_context_id :: "string \<Rightarrow> string option \<Rightarrow> string \<Rightarrow> string" where
  "make_client_context_id agent_session_id user_tag new_uuid =
     (let session_segment = sanitize_segment agent_session_id None;
          tag_segment = sanitize_segment (case user_tag of None \<Rightarrow> [] | Some t \<Rightarrow> t)
                          (Some max_user_tag_length);
          uuid_segment = sanitize_segment new_uuid None
      in join segment_delimiter [session_segment, tag_segment, uuid_segment])"

definition parse_client_context_id :: "string \<Rightarrow> exn + (string \<times> string \<times> string)" where
  "parse_client_context_id client_context_id =
     (case split_on segment_delimiter client_context_id of
        [session, tag, tail] \<Rightarrow> Inr (session, tag, tail)
      | _ \<Rightarrow> Inl (PyExc ''ValueError''))"

section \<open>What a sanitised segment looks like\<close>

definition segment_ok :: "string \<Rightarrow> bool" where
  "segment_ok s \<longleftrightarrow>
     s \<noteq> [] \<and> (\<forall>c \<in> set s. \<not> unsafe_char c) \<and> \<not> is_dash (hd s) \<and> \<not> is_dash (last s)"

lemma dash_safe [simp]: "\<not> unsafe_char (CHR ''-'')"
  by (simp add: unsafe_char_def py_space_def code_def)

lemma placeholder_ok: "segment_ok empty_segment_placeholder"
  by (simp add: segment_ok_def empty_segment_placeholder_def unsafe_char_def py_space_def code_def)

lemma sub_unsafe_clean: "\<forall>c \<in> set (re_sub unsafe_segment_chars ''-'' s). \<not> unsafe_char c"
  unfolding unsafe_segment_chars_def by (rule re_sub_class_clean) simp

lemma strip_by_segment_ok:
  "\<forall>c \<in> set s. \<not> unsafe_char c \<Longrightarrow> strip_by is_dash s \<noteq> [] \<Longrightarrow> segment_ok (strip_by is_dash s)"
  using strip_by_ends [of is_dash s] set_strip_by [of is_dash s] by (auto simp: segment_ok_def)

lemma sanitize_segment_cases:
  "sanitize_segment raw max_length = empty_segment_placeholder \<or>
   (\<exists>w. (\<forall>c \<in> set w. \<not> unsafe_char c) \<and> strip_by is_dash w \<noteq> [] \<and>
        (\<forall>n. max_length = Some n \<longrightarrow> length w \<le> n) \<and>
        sanitize_segment raw max_length = strip_by is_dash w)"
proof -
  let ?w = "re_sub unsafe_segment_chars ''-'' (strip raw)"
  have w: "\<forall>c \<in> set ?w. \<not> unsafe_char c" by (rule sub_unsafe_clean)
  show ?thesis
  proof (cases max_length)
    case None
    then show ?thesis using w by (auto simp: sanitize_segment_def Let_def)
  next
    case (Some n)
    let ?v = "take n (strip_by is_dash ?w)"
    have "\<forall>c \<in> set ?v. \<not> unsafe_char c"
      using w set_strip_by [of is_dash ?w] by (meson in_set_takeD subsetD)
    moreover have "length ?v \<le> n" by simp
    ultimately show ?thesis using Some by (auto simp: sanitize_segment_def Let_def)
  qed
qed

lemma sanitize_segment_ok: "segment_ok (sanitize_segment raw max_length)"
  using sanitize_segment_cases [of raw max_length] placeholder_ok strip_by_segment_ok by metis

lemma sanitize_segment_length:
  "1 \<le> n \<Longrightarrow> length (sanitize_segment raw (Some n)) \<le> n"
  using sanitize_segment_cases [of raw "Some n"] length_strip_by [of is_dash]
  by (auto simp: empty_segment_placeholder_def) (meson le_trans)

lemma sanitize_segment_fixed:
  assumes "segment_ok s" and "\<forall>n. max_length = Some n \<longrightarrow> length s \<le> n"
  shows "sanitize_segment s max_length = s"
proof -
  have "strip s = s"
    using assms(1) by (intro strip_by_id) (auto simp: segment_ok_def unsafe_char_def)
  moreover have "re_sub unsafe_segment_chars ''-'' s = s"
    using assms(1) unfolding unsafe_segment_chars_def segment_ok_def by (intro re_sub_class_id) simp
  moreover have "strip_by is_dash s = s"
    using assms(1) by (intro strip_by_id) (simp add: segment_ok_def)
  ultimately show ?thesis
    using assms by (cases max_length) (auto simp: sanitize_segment_def segment_ok_def)
qed

interpretation id_segment: normaliser "\<lambda>s. sanitize_segment s None" segment_ok
  by unfold_locales (simp_all add: sanitize_segment_ok sanitize_segment_fixed)

interpretation tag_segment: normaliser
  "\<lambda>s. sanitize_segment s (Some max_user_tag_length)"
  "\<lambda>s. segment_ok s \<and> length s \<le> max_user_tag_length"
  by unfold_locales
    (simp_all add: sanitize_segment_ok sanitize_segment_fixed sanitize_segment_length
       max_user_tag_length_def)

lemma segment_no_delimiter: "segment_ok s \<Longrightarrow> \<forall>c \<in> set s. c \<noteq> hd segment_delimiter"
  by (auto simp: segment_ok_def segment_delimiter_def unsafe_char_def)

lemma parse_join:
  assumes "segment_ok a" "segment_ok b" "segment_ok c"
  shows "parse_client_context_id (join segment_delimiter [a, b, c]) = Inr (a, b, c)"
proof -
  have "split_on segment_delimiter (join segment_delimiter [a, b, c]) = [a, b, c]"
    using assms segment_no_delimiter
    by (intro split_on_join) (simp_all add: segment_delimiter_def del: join.simps)
  then show ?thesis by (simp add: parse_client_context_id_def)
qed

lemma parse_made:
  "parse_client_context_id (make_client_context_id sess user_tag new_uuid)
     = Inr (sanitize_segment sess None,
            sanitize_segment (case user_tag of None \<Rightarrow> [] | Some t \<Rightarrow> t) (Some max_user_tag_length),
            sanitize_segment new_uuid None)"
  by (simp add: make_client_context_id_def Let_def parse_join sanitize_segment_ok del: join.simps)

text \<open>
  C21. Context ids round-trip: whatever the session id, tag and uuid are, the id that is built
  from them splits into exactly the three sanitised segments, each of them non-empty, free of
  colons and white space and without dashes at its ends, the tag at most 64 characters long. A
  part that has this shape already is its own segment, so what the caller passes is what comes
  back; an absent tag comes back as the placeholder; and building an id from the segments gives
  the same id again.
\<close>

theorem context_id_roundtrip:
  "\<exists>session tag uuid.
     parse_client_context_id (make_client_context_id sess user_tag new_uuid)
       = Inr (session, tag, uuid)
     \<and> session = sanitize_segment sess None \<and> uuid = sanitize_segment new_uuid None
     \<and> tag = sanitize_segment (case user_tag of None \<Rightarrow> [] | Some t \<Rightarrow> t) (Some 64)
     \<and> segment_ok session \<and> segment_ok tag \<and> segment_ok uuid
     \<and> length tag \<le> 64
     \<and> (segment_ok sess \<longrightarrow> session = sess) \<and> (segment_ok new_uuid \<longrightarrow> uuid = new_uuid)
     \<and> (\<forall>t. user_tag = Some t \<and> segment_ok t \<and> length t \<le> 64 \<longrightarrow> tag = t)
     \<and> (user_tag = None \<longrightarrow> tag = ''_'')
     \<and> make_client_context_id session (Some tag) uuid
         = make_client_context_id sess user_tag new_uuid"
proof -
  let ?t = "sanitize_segment (case user_tag of None \<Rightarrow> [] | Some t \<Rightarrow> t) (Some 64)"
  have limit: "max_user_tag_length = 64" by (simp add: max_user_tag_length_def)
  have parsed: "parse_client_context_id (make_client_context_id sess user_tag new_uuid)
      = Inr (sanitize_segment sess None, ?t, sanitize_segment new_uuid None)"
    using parse_made [of sess user_tag new_uuid] by (simp only: limit)
  have short: "length ?t \<le> 64" using sanitize_segment_length by simp
  have again: "make_client_context_id (sanitize_segment sess None) (Some ?t)
      (sanitize_segment new_uuid None) = make_client_context_id sess user_tag new_uuid"
    using tag_segment.norm_norm id_segment.norm_norm by (simp add: make_client_context_id_def limit)
  have kept: "?t = t" if "user_tag = Some t \<and> segment_ok t \<and> length t \<le> 64" for t
    using that sanitize_segment_fixed [of t "Some 64"] by simp
  have absent: "?t = ''_''" if "user_tag = None" unfolding that by code_simp
  show ?thesis
    using parsed short again kept absent sanitize_segment_ok sanitize_segment_fixed [of _ None]
    by (intro exI [of _ "sanitize_segment sess None"] exI [of _ ?t] exI [of _ "sanitize_segment new_uuid None"]) simp
qed

lemma context_id_roundtrip_witness:
  "parse_client_context_id (make_client_context_id ''s1'' (Some ''report'') ''u'') = Inr (''s1'', ''report'', ''u'')
   \<and> (\<exists>session uuid. parse_client_context_id (make_client_context_id ''s1'' None ''u'') = Inr (session, ''_'', uuid))"
proof -
  have "segment_ok ''s1''" "segment_ok ''report''" "segment_ok ''u''" by code_simp+
  then show ?thesis
    using context_id_roundtrip [of "''s1''" "Some ''report''" "''u''"] context_id_roundtrip [of "''s1''" None "''u''"]
    by auto
qed

end
