(* ===== verification/Statement_Guard.thy ===== *)
theory Statement_Guard
  imports Gateway_Errors
begin

text \<open>
  The syntactic pre-flight of a statement (\<open>statement_guard.py\<close>): leading SET clauses are
  dropped, a missing LIMIT is appended to a SELECT ... FROM, and calls of three aggregates that
  the engine does not have are refused with a hint.
\<close>

definition not_semicolon :: "char \<Rightarrow> bool" where
  "not_semicolon c \<longleftrightarrow> c \<noteq> CHR '';''"

definition is_semicolon :: "char \<Rightarrow> bool" where
  "is_semicolon c \<longleftrightarrow> c = CHR '';''"

definition set_prefix_re :: re where
  "set_prefix_re =
     seqs [Bol, Star Space, ilit ''set'', Plus Space, Plus (Cls not_semicolon), Cls is_semicolon,
           Star Space]"

definition limit_re :: re where "limit_re = word_re ''limit''"
definition from_re :: re where "from_re = word_re ''from''"

lemma re_match_shorter:
  "re_match r s = Some (b, t, g, rest) \<Longrightarrow> 0 < min_width r \<Longrightarrow> length rest < length s"
  using match_at_width [of r "[]" s b t g rest] re_match_SomeD [of r s b t g rest]
  by (auto simp: re_match_def)

lemma set_prefix_width: "0 < min_width set_prefix_re"
  by (simp add: set_prefix_re_def)

text \<open>The loop: as long as a SET clause leads, cut it and the white space after it.\<close>

function strip_sets :: "string \<Rightarrow> string" where
  "strip_sets core =
     (case re_match set_prefix_re core of
        None \<Rightarrow> core
      | Some (_, _, _, rest) \<Rightarrow> strip_sets (lstrip rest))"
  by pat_completeness auto
termination
proof (relation "measure length", goal_cases)
  case (2 core x b y t z g rest)
  then have "length rest < length core"
    using re_match_shorter set_prefix_width by metis
  then show ?case
    using length_strip_left_by [of py_space rest] by simp
qed simp

declare strip_sets.simps [simp del]

definition strip_set_prefix :: "string \<Rightarrow> string" where
  "strip_set_prefix statement = strip_sets (strip statement)"

text \<open>The core of a statement: without SET clauses and without one closing semicolon.\<close>

definition statement_core :: "string \<Rightarrow> string" where
  "statement_core statement =
     (let core = rstrip (strip_set_prefix statement)
      in if ends_with core '';'' then rstrip (butlast core) else core)"

definition normalize_statement :: "string \<Rightarrow> int \<Rightarrow> string" where
  "normalize_statement statement default_limit =
     (let core = statement_core statement
      in if core = [] then statement
         else (if lower (take 6 core) = ''select'' \<and> re_search from_re core \<noteq> None
                 \<and> re_search limit_re core = None
               then core @ '' LIMIT '' @ show_int default_limit else core) @ '';'')"

definition unsupported_functions :: "(string \<times> string) list" where
  "unsupported_functions =
     [(''STDEV'', ''STDDEV_SAMP (sample) or STDDEV_POP (population)''),
      (''STDDEV'', ''STDDEV_SAMP (sample) or STDDEV_POP (population)''),
      (''VARIANCE'', ''VAR_SAMP (sample) or VAR_POP (population)'')]"

definition is_open_paren :: "char \<Rightarrow> bool" where
  "is_open_paren c \<longleftrightarrow> c = CHR ''(''"

definition unsupported_re :: "string \<Rightarrow> re" where
  "unsupported_re name = seqs [WordB, ilit (lower name), Star Space, Cls is_open_paren]"

definition unsupported_message :: "string \<Rightarrow> string \<Rightarrow> string" where
  "unsupported_message name advice =
     name @ ''(...) is not an AsterixDB function. Use '' @ advice
     @ '' instead, and do not nest an aggregate inside another aggregate in the same SELECT.''"

fun first_unsupported :: "string \<Rightarrow> (string \<times> string) list \<Rightarrow> gateway_error option" where
  "first_unsupported statement [] = None"
| "first_unsupported statement ((name, advice) # rest) =
     (if re_search (unsupported_re name) statement \<noteq> None
      then Some (gerr INVALID_PARAMETER (unsupported_message name advice))
      else first_unsupported statement rest)"

definition check_unsupported_functions :: "string \<Rightarrow> gateway_error option" where
  "check_unsupported_functions statement = first_unsupported statement unsupported_functions"

section \<open>SET clauses\<close>

definition no_set_prefix :: "string \<Rightarrow> bool" where
  "no_set_prefix s \<longleftrightarrow> strip s = s \<and> re_match set_prefix_re s = None"

lemma strip_fixed_iff: "strip s = s \<longleftrightarrow> s = [] \<or> \<not> py_space (hd s) \<and> \<not> py_space (last s)"
  using strip_by_ends [of py_space s] strip_by_id [of s py_space] by metis

lemma lstrip_suffix_fixed:
  assumes "strip (t @ rest) = t @ rest"
  shows "strip (lstrip rest) = lstrip rest"
proof (cases "lstrip rest = []")
  case False
  then have "rest \<noteq> []" by (auto simp: strip_left_by_def)
  have "last (lstrip rest) = last rest"
    using False by (metis last_appendR strip_left_by_def takeWhile_dropWhile_id)
  also have "\<dots> = last (t @ rest)" using \<open>rest \<noteq> []\<close> by simp
  finally have "\<not> py_space (last (lstrip rest))"
    using assms \<open>rest \<noteq> []\<close> by (metis append_is_Nil_conv strip_fixed_iff)
  then show ?thesis using hd_strip_left_by [OF False] strip_fixed_iff by blast
next
  case True
  then show ?thesis
    by (simp only: True) (simp add: strip_by_def strip_left_by_def strip_right_by_def)
qed

lemma strip_sets_clean: "strip core = core \<Longrightarrow> no_set_prefix (strip_sets core)"
proof (induction core rule: strip_sets.induct)
  case (1 core)
  show ?case
  proof (cases "re_match set_prefix_re core")
    case None
    then show ?thesis using 1 by (subst strip_sets.simps) (simp add: no_set_prefix_def)
  next
    case (Some m)
    obtain b t g rest where m: "m = (b, t, g, rest)" by (cases m) auto
    have "core = t @ rest" using Some m re_match_SomeD by blast
    then have "strip (lstrip rest) = lstrip rest" using 1(2) lstrip_suffix_fixed by metis
    then have "no_set_prefix (strip_sets (lstrip rest))" using 1(1) Some m by blast
    then show ?thesis using Some m by (subst strip_sets.simps) simp
  qed
qed

lemma strip_sets_suffix: "suffix (strip_sets core) core"
proof (induction core rule: strip_sets.induct)
  case (1 core)
  show ?case
  proof (cases "re_match set_prefix_re core")
    case None
    then show ?thesis by (subst strip_sets.simps) simp
  next
    case (Some m)
    obtain b t g rest where m: "m = (b, t, g, rest)" by (cases m) auto
    have "suffix rest core" using Some m re_match_SomeD by (metis suffixI)
    moreover have "suffix (lstrip rest) rest" by (simp add: strip_left_by_def suffix_dropWhile)
    ultimately have "suffix (strip_sets (lstrip rest)) core"
      using 1 Some m suffix_order.trans by metis
    then show ?thesis using Some m by (subst strip_sets.simps) simp
  qed
qed

interpretation set_stripper: normaliser strip_set_prefix no_set_prefix
proof
  show "no_set_prefix (strip_set_prefix s)" for s
    unfolding strip_set_prefix_def by (rule strip_sets_clean) simp
  show "strip_set_prefix s = s" if "no_set_prefix s" for s
    using that unfolding strip_set_prefix_def no_set_prefix_def
    by (subst strip_sets.simps) simp
qed

text \<open>
  Stripping SET clauses ends with a statement that no SET clause leads and that has no
  outer white space; it is a suffix of the trimmed input, and a statement already in that form
  is returned unchanged, so stripping twice is stripping once.
\<close>

theorem strip_set_prefix_complete:
  "no_set_prefix (strip_set_prefix s) \<and> suffix (strip_set_prefix s) (strip s)
   \<and> strip_set_prefix (strip_set_prefix s) = strip_set_prefix s
   \<and> (strip_set_prefix s = s \<longleftrightarrow> no_set_prefix s)"
proof -
  have "suffix (strip_set_prefix s) (strip s)"
    unfolding strip_set_prefix_def by (rule strip_sets_suffix)
  then show ?thesis
    using set_stripper.norm_accepted set_stripper.norm_norm set_stripper.fixed_iff by blast
qed

section \<open>Appending a LIMIT\<close>

lemma limit_found_after_append: "re_search limit_re (core @ '' LIMIT '' @ digits) \<noteq> None"
proof -
  have "lower ''LIMIT'' = ''limit''" by code_simp
  then have "word_at ''limit'' (core @ '' '') ''LIMIT'' ('' '' @ digits)"
    by (simp add: word_at_def at_word_boundary_def is_word_def is_digit_def is_alpha_ascii_def
        is_upper_ascii_def is_lower_ascii_def code_def)
  moreover have "core @ '' LIMIT '' @ digits = (core @ '' '') @ ''LIMIT'' @ ('' '' @ digits)" by simp
  ultimately show ?thesis unfolding limit_re_def search_word by blast
qed

lemma semicolon_not_word: "\<not> is_word (CHR '';'')" "lower_char (CHR '';'') = CHR '';''"
  by (simp_all add: is_word_def is_digit_def is_alpha_ascii_def is_upper_ascii_def
      is_lower_ascii_def lower_char_def code_def)

lemma limit_found_semicolon: "re_search limit_re (s @ '';'') \<noteq> None \<longleftrightarrow> re_search limit_re s \<noteq> None"
  unfolding limit_re_def by (rule search_word_snoc) (simp_all add: semicolon_not_word)

lemma from_found_semicolon: "re_search from_re (s @ '';'') \<noteq> None \<longleftrightarrow> re_search from_re s \<noteq> None"
  unfolding from_re_def by (rule search_word_snoc) (simp_all add: semicolon_not_word)

lemma select_head:
  assumes "lower (take 6 (core @ rest)) = ''select''" and "rest = CHR '';'' # r"
  shows "lower (take 6 core) = ''select''"
proof (cases "6 \<le> length core")
  case True
  then show ?thesis using assms by simp
next
  case False
  then obtain k where k: "6 - length core = Suc k" by (cases "6 - length core") auto
  have "CHR '';'' \<in> set (take 6 (core @ rest))" using False assms(2) k by simp
  then have "lower_char (CHR '';'') \<in> set (lower (take 6 (core @ rest)))"
    unfolding lower_def set_map by (rule imageI)
  then have "CHR '';'' \<in> set ''select''"
    using assms(1) by (simp only: semicolon_not_word)
  then show ?thesis by simp
qed

text \<open>
  C22. A normalised statement is bounded: unless nothing was left to normalise (then the input is
  returned as it is), the result is the core of the statement, possibly with \<open>LIMIT n\<close>
  appended, closed by one semicolon, and if it is a SELECT with a FROM it contains the word
  LIMIT.
\<close>

theorem normalize_statement_limited:
  "let core = statement_core statement; out = normalize_statement statement n
   in (core = [] \<longrightarrow> out = statement)
      \<and> (core \<noteq> [] \<longrightarrow>
           (out = core @ '';'' \<or> out = core @ '' LIMIT '' @ show_int n @ '';'')
           \<and> (lower (take 6 out) = ''select'' \<and> re_search from_re out \<noteq> None \<longrightarrow>
                re_search limit_re out \<noteq> None))"
proof -
  let ?core = "statement_core statement"
  let ?add = "lower (take 6 ?core) = ''select'' \<and> re_search from_re ?core \<noteq> None
                 \<and> re_search limit_re ?core = None"
  show ?thesis
  proof (cases "?core = [] \<or> ?add")
    case True
    have "re_search limit_re ((?core @ '' LIMIT '' @ show_int n) @ '';'') \<noteq> None"
      unfolding limit_found_semicolon by (rule limit_found_after_append)
    with True show ?thesis by (auto simp: normalize_statement_def Let_def)
  next
    case False
    then have out: "normalize_statement statement n = ?core @ '';''"
      by (simp add: normalize_statement_def Let_def)
    have "re_search limit_re (?core @ '';'') \<noteq> None"
      if "lower (take 6 (?core @ '';'')) = ''select''" "re_search from_re (?core @ '';'') \<noteq> None"
    proof -
      have "lower (take 6 ?core) = ''select''" using that(1) by (rule select_head) simp
      moreover have "re_search from_re ?core \<noteq> None" using that(2) unfolding from_found_semicolon .
      ultimately show ?thesis unfolding limit_found_semicolon using False by simp
    qed
    then show ?thesis unfolding Let_def out using False by blast
  qed
qed

theorem normalize_statement_limited_witness:
  "normalize_statement ''SET x 1; SELECT a FROM t'' 100 = ''SELECT a FROM t LIMIT 100;''
   \<and> re_search limit_re (normalize_statement ''SET x 1; SELECT a FROM t'' 100) \<noteq> None"
proof -
  have core: "statement_core ''SET x 1; SELECT a FROM t'' = ''SELECT a FROM t''"
    by code_simp
  have add: "lower (take 6 ''SELECT a FROM t'') = ''select''"
    "re_search from_re ''SELECT a FROM t'' \<noteq> None" "re_search limit_re ''SELECT a FROM t'' = None"
    by code_simp+
  have out: "normalize_statement ''SET x 1; SELECT a FROM t'' 100 = ''SELECT a FROM t LIMIT 100;''"
    using add by (simp add: normalize_statement_def core show_number)
  have sel: "lower (take 6 ''SELECT a FROM t LIMIT 100;'') = ''select''"
    "re_search from_re ''SELECT a FROM t LIMIT 100;'' \<noteq> None"
    by code_simp+
  show ?thesis
    using normalize_statement_limited [of "''SET x 1; SELECT a FROM t''" 100] sel
    unfolding Let_def core out by simp
qed

end
