(* ===== verification/Naming.thy ===== *)
theory Naming
  imports Gateway_Errors
begin

text \<open>
  Catalog names (\<open>naming.py\<close>): quoting an identifier after an allowlist check, and resolving a
  misspelled name against the catalog, with \<open>difflib.get_close_matches\<close> of the standard library
  for the suggestions (its junk heuristic, which only concerns texts of 200 characters and
  more, is not modelled).
\<close>

definition ident_char :: "char \<Rightarrow> bool" where
  "ident_char c \<longleftrightarrow> is_alpha_ascii c \<or> is_digit c \<or> c = CHR ''_''"

definition ident_re :: re where
  "ident_re = seqs [Bol, Plus (Cls ident_char), Eol]"

definition identifier_message :: "string \<Rightarrow> string" where
  "identifier_message name =
     ''Identifier '' @ repr_str name @ '' contains characters outside [A-Za-z0-9_].''"

definition quote_identifier :: "string \<Rightarrow> exn + string" where
  "quote_identifier name =
     (if re_match ident_re name = None
      then Inl (GatewayExc (gerr INVALID_PARAMETER (identifier_message name)))
      else Inr (''`'' @ name @ ''`''))"

section \<open>Close matches\<close>

text \<open>Length of the longest common prefix of two texts.\<close>

fun common_prefix :: "string \<Rightarrow> string \<Rightarrow> nat" where
  "common_prefix (x # xs) (y # ys) = (if x = y then Suc (common_prefix xs ys) else 0)"
| "common_prefix _ _ = 0"

text \<open>
  \<open>SequenceMatcher.find_longest_match\<close>: the longest common block, the earliest in the first
  text and then the earliest in the second, as (start in a, start in b, length).
\<close>

definition all_blocks :: "string \<Rightarrow> string \<Rightarrow> (nat \<times> nat \<times> nat) list" where
  "all_blocks a b =
     concat (map (\<lambda>i. map (\<lambda>j. (i, j, common_prefix (drop i a) (drop j b))) [0..<length b])
               [0..<length a])"

fun best_block :: "nat \<times> nat \<times> nat \<Rightarrow> (nat \<times> nat \<times> nat) list \<Rightarrow> nat \<times> nat \<times> nat" where
  "best_block best [] = best"
| "best_block best (m # ms) =
     best_block (if snd (snd best) < snd (snd m) then m else best) ms"

definition longest_match :: "string \<Rightarrow> string \<Rightarrow> nat \<times> nat \<times> nat" where
  "longest_match a b = best_block (0, 0, 0) (all_blocks a b)"

text \<open>The total length of the matching blocks; the first text's length bounds the recursion.\<close>

fun matched_length :: "nat \<Rightarrow> string \<Rightarrow> string \<Rightarrow> nat" where
  "matched_length 0 a b = 0"
| "matched_length (Suc fuel) a b =
     (case longest_match a b of (i, j, k) \<Rightarrow>
        if k = 0 then 0
        else k + matched_length fuel (take i a) (take j b)
               + matched_length fuel (drop (i + k) a) (drop (j + k) b))"

definition sequence_ratio :: "string \<Rightarrow> string \<Rightarrow> rat" where
  "sequence_ratio a b =
     (if length a + length b = 0 then 1
      else of_nat (2 * matched_length (Suc (length a)) a b) / of_nat (length a + length b))"

text \<open>
  The candidates at or above the cutoff, best first (ties by the text, larger first, as
  \<open>heapq.nlargest\<close> orders the pairs).
\<close>

definition close_matches :: "string \<Rightarrow> string list \<Rightarrow> nat \<Rightarrow> rat \<Rightarrow> string list" where
  "close_matches word possibilities n cutoff =
     map snd (take n (rev (sort
       (filter (\<lambda>p. cutoff \<le> fst p) (map (\<lambda>x. (sequence_ratio x word, x)) possibilities)))))"

section \<open>Resolving a name\<close>

definition max_suggestions :: nat where
  "max_suggestions = 5"

definition fuzzy_cutoff :: rat where
  "fuzzy_cutoff = 1 / 2"

definition by_lower :: "string list \<Rightarrow> (string \<times> string) list" where
  "by_lower candidates = foldl (\<lambda>d c. dict_set (lower c) c d) [] candidates"

definition resolve :: "string \<Rightarrow> string list \<Rightarrow> string option \<times> string list" where
  "resolve name candidates =
     (if name \<in> set candidates then (Some name, [])
      else case map_of (by_lower candidates) (lower name) of
        Some hit \<Rightarrow> (Some hit, [])
      | None \<Rightarrow> (None, close_matches name candidates max_suggestions fuzzy_cutoff))"

section \<open>Properties\<close>

lemma by_lower_snoc: "by_lower (cs @ [c]) = dict_set (lower c) c (by_lower cs)"
  by (simp add: by_lower_def)

lemma by_lower_Some:
  "map_of (by_lower cs) l = Some hit \<Longrightarrow> hit \<in> set cs \<and> lower hit = l"
proof (induction cs arbitrary: hit rule: rev_induct)
  case (snoc c cs)
  then show ?case by (auto simp: by_lower_snoc split: if_splits)
qed (simp add: by_lower_def)

lemma by_lower_None: "map_of (by_lower cs) l = None \<longleftrightarrow> (\<forall>c \<in> set cs. lower c \<noteq> l)"
  by (induction cs rule: rev_induct) (auto simp: by_lower_snoc by_lower_def [of "[]"])

lemma set_close_matches: "set (close_matches w cs n cutoff) \<subseteq> set cs"
  by (auto simp: close_matches_def dest!: in_set_takeD)

lemma length_close_matches: "length (close_matches w cs n cutoff) \<le> n"
  by (simp add: close_matches_def)

text \<open>
  Resolving a name never invents one: a canonical name is a catalog name equal to the
  request up to case (the request itself when it is listed), it is found whenever the catalog
  has such a name, and then nothing is suggested; otherwise there are at most five suggestions,
  all from the catalog.
\<close>

theorem resolve_sound:
  "let (canonical, suggestions) = resolve name candidates
   in (case canonical of
         Some c \<Rightarrow> c \<in> set candidates \<and> lower c = lower name \<and> suggestions = []
           \<and> (name \<in> set candidates \<longrightarrow> c = name)
       | None \<Rightarrow> (\<forall>c \<in> set candidates. lower c \<noteq> lower name)
           \<and> set suggestions \<subseteq> set candidates \<and> length suggestions \<le> 5)"
proof (cases "name \<in> set candidates")
  case True
  then show ?thesis by (simp add: resolve_def)
next
  case False
  show ?thesis
  proof (cases "map_of (by_lower candidates) (lower name)")
    case None
    then show ?thesis
      using False set_close_matches length_close_matches [of name candidates max_suggestions]
        by_lower_None [of candidates "lower name"]
      by (simp add: resolve_def max_suggestions_def)
  next
    case (Some hit)
    then show ?thesis using False by_lower_Some by (simp add: resolve_def)
  qed
qed

theorem resolve_sound_witness:
  "resolve ''customers'' [''Orders'', ''Customers''] = (Some ''Customers'', [])
   \<and> ''Customers'' \<in> set [''Orders'', ''Customers'']"
proof -
  have r: "resolve ''customers'' [''Orders'', ''Customers''] = (Some ''Customers'', [])"
    by code_simp
  show ?thesis
    using resolve_sound [of "''customers''" "[''Orders'', ''Customers'']"] unfolding r by simp
qed

text \<open>Two catalog names that differ only in case: the later one wins, uniqueness is not required.\<close>

lemma resolve_ambiguous_case: "resolve ''ab'' [''AB'', ''Ab''] = (Some ''Ab'', [])"
  by code_simp

text \<open>What an accepted identifier looks like: the pattern's end also matches before a newline.\<close>

lemma newline_not_ident: "\<not> ident_char (CHR 0x0A)"
  by (simp add: ident_char_def is_alpha_ascii_def is_upper_ascii_def is_lower_ascii_def
      is_digit_def code_def)

lemma ident_match_iff:
  "re_match ident_re name \<noteq> None \<longleftrightarrow>
     (\<exists>w. w \<noteq> [] \<and> (\<forall>c \<in> set w. ident_char c) \<and> (name = w \<or> name = w @ [CHR 0x0A]))"
  unfolding ident_re_def by (rule whole_class_match) (rule newline_not_ident)

text \<open>
  Quoting cannot be escaped: a name is quoted exactly when it is a non-empty run of ASCII
  letters, digits and underscores, or such a run and one final newline; the text between the
  backticks never holds a backtick.
\<close>

theorem quote_identifier_safe:
  "(\<exists>q. quote_identifier name = Inr q) \<longleftrightarrow>
     (\<exists>w. w \<noteq> [] \<and> (\<forall>c \<in> set w. ident_char c) \<and> (name = w \<or> name = w @ [CHR 0x0A]))"
  unfolding ident_match_iff [symmetric] quote_identifier_def by auto

theorem quote_identifier_safe_witness: "\<exists>q. quote_identifier ''ab_1'' = Inr q"
proof -
  have "\<forall>c \<in> set ''ab_1''. ident_char c"
    by (simp add: ident_char_def is_alpha_ascii_def is_upper_ascii_def is_lower_ascii_def
        is_digit_def code_def)
  then show ?thesis unfolding quote_identifier_safe by (intro exI [of _ "''ab_1''"]) simp
qed

lemma quote_identifier_newline: "quote_identifier ''ab\<newline>'' = Inr ''`ab\<newline>`''"
  by code_simp

end
