(* ===== verification/Egress.thy ===== *)
theory Egress
  imports CC_Client
begin

text \<open>
  What reaches the model (\<open>egress.py\<close>, layer 4): clamping of long fields, the row window and
  the byte budget, and the tighter caps for flagged columnar scans.
\<close>

definition truncation_hint :: string where
  "truncation_hint =
     ''Result was truncated to protect the context window. To see more: tighten the WHERE clause, project only the columns you need, aggregate in SQL++ (GROUP BY), or use submit_async_query and page through fetch_query_result with offset/limit.''"

definition minimized_caps :: "int \<Rightarrow> int \<Rightarrow> int \<times> int" where
  "minimized_caps max_rows max_bytes = (min max_rows 10, min max_bytes (16 * 1024))"

definition row_bytes :: "json \<Rightarrow> int" where
  "row_bytes row = int (length (json_dumps row))"

fun take_window :: "int \<Rightarrow> json list \<Rightarrow> int \<Rightarrow> json list \<Rightarrow> json list \<times> int" where
  "take_window max_bytes delivered bytes [] = (delivered, bytes)"
| "take_window max_bytes delivered bytes (row # rows) =
     (if delivered \<noteq> [] \<and> max_bytes < bytes + row_bytes row then (delivered, bytes)
      else take_window max_bytes (delivered @ [row]) (bytes + row_bytes row) rows)"

definition truncate_for_llm :: "json list \<Rightarrow> int \<Rightarrow> int \<Rightarrow> json list \<times> dict" where
  "truncate_for_llm rows max_rows max_bytes =
     (let total_rows = length rows;
          (delivered, bytes) = take_window max_bytes [] 0 (take (nat (max max_rows 0)) rows);
          truncated = (length delivered < total_rows);
          meta = [(''totalRows'', JInt (int total_rows)),
                  (''deliveredRows'', JInt (int (length delivered))),
                  (''deliveredBytes'', JInt bytes), (''truncated'', JBool truncated)]
      in (delivered, meta @ (if truncated then [(''nextStepHint'', JStr truncation_hint)] else [])))"

definition clamp_string :: "int \<Rightarrow> string \<Rightarrow> string" where
  "clamp_string most s =
     (if int (length s) \<le> most then s
      else py_take most s @ ellipsis_mark @ ''[clamped, '' @ show_nat (length s) @ '' chars]'')"

fun clamp_long_values :: "int \<Rightarrow> json \<Rightarrow> json" where
  "clamp_long_values most (JStr s) = JStr (clamp_string most s)"
| "clamp_long_values most (JDict d) =
     JDict (map (\<lambda>p. (fst p, clamp_long_values most (snd p))) d)"
| "clamp_long_values most (JList xs) = JList (map (clamp_long_values most) xs)"
| "clamp_long_values most v = v"

definition bound_rows_for_llm :: "json list \<Rightarrow> int \<Rightarrow> int \<Rightarrow> int \<Rightarrow> json list \<times> dict" where
  "bound_rows_for_llm rows max_rows max_bytes most =
     truncate_for_llm (map (clamp_long_values most) rows) max_rows max_bytes"

section \<open>The window\<close>

lemma take_window_spec:
  assumes "take_window mb del b rows = (out, bytes)"
  shows "\<exists>kept rest. rows = kept @ rest \<and> out = del @ kept
           \<and> bytes = b + sum_list (map row_bytes kept)
           \<and> (bytes \<le> mb \<or> kept = [] \<or> (del = [] \<and> length kept = 1))
           \<and> (rest \<noteq> [] \<longrightarrow> out \<noteq> [] \<and> mb < bytes + row_bytes (hd rest))"
  using assms
proof (induction rows arbitrary: del b)
  case (Cons r rows)
  show ?case
  proof (cases "del \<noteq> [] \<and> mb < b + row_bytes r")
    case True
    with Cons.prems have "out = del" "bytes = b" by auto
    with True show ?thesis by (intro exI [of _ "[]"] exI [of _ "r # rows"]) simp
  next
    case False
    with Cons.prems have "take_window mb (del @ [r]) (b + row_bytes r) rows = (out, bytes)"
      by (simp split: if_splits)
    from Cons.IH [OF this] obtain kept rest where kr:
      "rows = kept @ rest" "out = (del @ [r]) @ kept"
      "bytes = (b + row_bytes r) + sum_list (map row_bytes kept)"
      "bytes \<le> mb \<or> kept = [] \<or> (del @ [r] = [] \<and> length kept = 1)"
      "rest \<noteq> [] \<longrightarrow> out \<noteq> [] \<and> mb < bytes + row_bytes (hd rest)"
      by blast
    have "bytes \<le> mb \<or> r # kept = [] \<or> (del = [] \<and> length (r # kept) = 1)"
      using kr(3,4) False by (cases kept) auto
    with kr show ?thesis
      by (intro exI [of _ "r # kept"] exI [of _ rest]) simp
  qed
qed simp

definition window_ok :: "json list \<Rightarrow> int \<Rightarrow> int \<Rightarrow> json list \<Rightarrow> int \<Rightarrow> bool" where
  "window_ok rows max_rows max_bytes out bytes \<longleftrightarrow>
     prefix out rows \<and> int (length out) \<le> max max_rows 0
     \<and> bytes = sum_list (map row_bytes out) \<and> (bytes \<le> max_bytes \<or> length out \<le> 1)
     \<and> (rows \<noteq> [] \<and> 0 < max_rows \<longrightarrow> out \<noteq> [])
     \<and> (length out < length rows \<and> int (length out) < max_rows \<longrightarrow>
          max_bytes < bytes + row_bytes (rows ! length out))"

lemma truncate_window:
  "let (out, meta) = truncate_for_llm rows max_rows max_bytes
   in \<exists>bytes. window_ok rows max_rows max_bytes out bytes
        \<and> dget ''totalRows'' meta = JInt (int (length rows))
        \<and> dget ''deliveredRows'' meta = JInt (int (length out))
        \<and> dget ''deliveredBytes'' meta = JInt bytes
        \<and> dget ''truncated'' meta = JBool (out \<noteq> rows)"
proof -
  let ?w = "take (nat (max max_rows 0)) rows"
  obtain out bytes where tw: "take_window max_bytes [] 0 ?w = (out, bytes)" by fastforce
  obtain rest where kr: "?w = out @ rest" "bytes = sum_list (map row_bytes out)"
    "bytes \<le> max_bytes \<or> length out \<le> 1"
    "rest \<noteq> [] \<longrightarrow> out \<noteq> [] \<and> max_bytes < bytes + row_bytes (hd rest)"
    using take_window_spec [OF tw] by auto
  have pre: "prefix out rows" using kr(1) by (metis prefixI prefix_order.trans take_is_prefix)
  have len: "int (length out) \<le> max max_rows 0"
  proof -
    have "length out \<le> length ?w" unfolding kr(1) by simp
    moreover have "length ?w \<le> nat (max max_rows 0)" by simp
    ultimately show ?thesis by linarith
  qed
  have nonempty: "out \<noteq> []" if "rows \<noteq> []" "0 < max_rows"
  proof
    assume "out = []"
    then have "rest \<noteq> []" using kr(1) that by (cases rows) auto
    then show False using kr(4) \<open>out = []\<close> by blast
  qed
  have next_row: "max_bytes < bytes + row_bytes (rows ! length out)"
    if "length out < length rows" "int (length out) < max_rows"
  proof -
    have "length out < length ?w" using that by simp
    then have "rest \<noteq> []" using kr(1) by auto
    moreover from this have "hd rest = ?w ! length out" using kr(1) by (simp add: hd_conv_nth nth_append)
    ultimately show ?thesis using kr(4) that by simp
  qed
  have cut: "(length out < length rows) = (out \<noteq> rows)"
    using pre by (metis less_irrefl_nat not_equal_is_parallel prefix_length_le prefix_length_less
        prefix_order.le_neq_trans)
  have ok: "window_ok rows max_rows max_bytes out bytes"
    using pre len kr(2,3) nonempty next_row by (simp add: window_ok_def)
  show ?thesis
    using tw ok cut by (auto simp: truncate_for_llm_def Let_def)
qed

text \<open>
  C20. The window handed to the model is a prefix of the rows, within the row cap, within the
  byte budget unless it is a single row, never empty when there are rows and a positive cap,
  and cut short before the cap only where the next row would overflow the budget; the metadata
  states its size, its bytes and whether anything was left out.
\<close>

theorem truncate_for_llm_window:
  "let (out, meta) = truncate_for_llm rows max_rows max_bytes
   in \<exists>bytes. window_ok rows max_rows max_bytes out bytes
        \<and> dget ''totalRows'' meta = JInt (int (length rows))
        \<and> dget ''deliveredRows'' meta = JInt (int (length out))
        \<and> dget ''deliveredBytes'' meta = JInt bytes
        \<and> dget ''truncated'' meta = JBool (out \<noteq> rows)"
  by (rule truncate_window)

section \<open>Clamping\<close>

text \<open>The string leaves of a value, in order, and the value with its strings blanked out.\<close>

fun leaf_strings :: "json \<Rightarrow> string list" where
  "leaf_strings (JStr s) = [s]"
| "leaf_strings (JDict d) = concat (map (\<lambda>p. leaf_strings (snd p)) d)"
| "leaf_strings (JList xs) = concat (map leaf_strings xs)"
| "leaf_strings _ = []"

fun json_shape :: "json \<Rightarrow> json" where
  "json_shape (JStr s) = JStr []"
| "json_shape (JDict d) = JDict (map (\<lambda>p. (fst p, json_shape (snd p))) d)"
| "json_shape (JList xs) = JList (map json_shape xs)"
| "json_shape v = v"

lemma length_show_nat_le: "length (show_nat n) \<le> Suc n"
proof (induction n rule: show_nat.induct)
  case (1 n)
  then show ?case by (subst show_nat.simps) auto
qed

lemma leaf_strings_clamp: "leaf_strings (clamp_long_values m v) = map (clamp_string m) (leaf_strings v)"
proof (induction m v rule: clamp_long_values.induct)
  case (2 m d)
  then have "map (\<lambda>p. leaf_strings (clamp_long_values m (snd p))) d
      = map (\<lambda>p. map (clamp_string m) (leaf_strings (snd p))) d"
    by (intro map_cong refl) auto
  then show ?case
    by (simp only: clamp_long_values.simps leaf_strings.simps map_map o_def snd_conv map_concat)
next
  case (3 m xs)
  then have "map (\<lambda>x. leaf_strings (clamp_long_values m x)) xs
      = map (\<lambda>x. map (clamp_string m) (leaf_strings x)) xs"
    by (intro map_cong refl) auto
  then show ?case
    by (simp only: clamp_long_values.simps leaf_strings.simps map_map o_def map_concat)
qed simp_all

lemma json_shape_clamp: "json_shape (clamp_long_values m v) = json_shape v"
  by (induction m v rule: clamp_long_values.induct) auto

text \<open>
  Clamping changes string leaves only: keys, order, numbers and nesting stay, every string
  within the limit is kept as it is, and a longer one is cut to its first \<open>m\<close> characters and
  a marker that states the original length.
\<close>

theorem clamp_only_long_strings:
  assumes "0 \<le> m"
  shows "json_shape (clamp_long_values m v) = json_shape v
    \<and> leaf_strings (clamp_long_values m v) = map (clamp_string m) (leaf_strings v)
    \<and> (\<forall>s. (int (length s) \<le> m \<longrightarrow> clamp_string m s = s)
         \<and> (m < int (length s) \<longrightarrow>
              take (nat m) (clamp_string m s) = take (nat m) s
              \<and> drop (nat m) (clamp_string m s)
                  = ellipsis_mark @ ''[clamped, '' @ show_nat (length s) @ '' chars]''))"
  using assms json_shape_clamp leaf_strings_clamp
  by (auto simp: clamp_string_def py_take_def)

theorem clamp_only_long_strings_witness:
  "leaf_strings (clamp_long_values 3 (JDict [(''k'', JList [JStr ''abcdef'', JInt 4])]))
     = [''abc'' @ ellipsis_mark @ ''[clamped, 6 chars]'']"
proof -
  have "digit_char (Suc (Suc (Suc (Suc (Suc (Suc 0)))))) = CHR ''6''" by code_simp
  then show ?thesis
    using clamp_only_long_strings [of 3 "JDict [(''k'', JList [JStr ''abcdef'', JInt 4])]"]
    by (simp add: clamp_string_def py_take_def show_number)
qed

end
