(* ===== verification/Compiler_Params.thy ===== *)
theory Compiler_Params
  imports Gateway_Errors
begin

text \<open>
  The allowlist of compiler parameters and their validation (\<open>compiler_params.py\<close>). An accepted
  object maps each key to the canonical text forwarded to the cluster.
\<close>

datatype param_kind = BOOLEAN | INTEGER | BYTES

fun kind_name :: "param_kind \<Rightarrow> string" where
  "kind_name BOOLEAN = ''boolean''"
| "kind_name INTEGER = ''integer''"
| "kind_name BYTES = ''bytes''"

record param_spec =
  ps_kind :: param_kind
  ps_description :: string
  ps_minimum :: "int option"
  ps_maximum :: "int option"

definition memory_spec :: "string \<Rightarrow> param_spec" where
  "memory_spec operator =
     \<lparr>ps_kind = BYTES,
      ps_description = ''Memory budget in bytes for a '' @ operator @ '' operator instance in a partition.'',
      ps_minimum = Some (512 * 1024), ps_maximum = Some (2 * 1024 * 1024 * 1024)\<rparr>"

definition flag_spec :: "string \<Rightarrow> param_spec" where
  "flag_spec description =
     \<lparr>ps_kind = BOOLEAN, ps_description = description, ps_minimum = None, ps_maximum = None\<rparr>"

definition allowlist :: "(string \<times> param_spec) list" where
  "allowlist =
     [(''compiler.parallelism'',
       \<lparr>ps_kind = INTEGER,
        ps_description = ''Query execution parallelism. 0 uses the storage parallelism; a positive value pins the number of parallel partitions.'',
        ps_minimum = Some 0, ps_maximum = Some 4096\<rparr>),
      (''compiler.sortmemory'', memory_spec ''sort''),
      (''compiler.joinmemory'', memory_spec ''join''),
      (''compiler.groupmemory'', memory_spec ''group-by''),
      (''compiler.windowmemory'', memory_spec ''window''),
      (''compiler.cbo'', flag_spec ''Enable cost-based optimization.''),
      (''compiler.forcejoinorder'',
       flag_spec ''Force the join order to follow the order written in the query.''),
      (''compiler.index.covering'', flag_spec ''Enable index-only (covering index) plans.''),
      (''compiler.arrayindex'', flag_spec ''Enable use of array indexes in queries.''),
      (''compiler.column.filter'', flag_spec ''Enable use of columnar min/max filters.''),
      (''compiler.sort.parallel'', flag_spec ''Enable full parallel sort.'')]"

abbreviation invalid :: "string \<Rightarrow> exn" where
  "invalid msg \<equiv> GatewayExc (gerr INVALID_PARAMETER msg)"

definition unknown_param_message :: "string \<Rightarrow> string" where
  "unknown_param_message key =
     ''Unknown compiler parameter '' @ repr_str key @ ''. Allowed keys: ''
     @ join '', '' (sort (map fst allowlist))
     @ ''. See the asterixdb://config-parameters resource for types and ranges.''"

definition expects_message :: "string \<Rightarrow> string \<Rightarrow> json \<Rightarrow> string" where
  "expects_message key what v =
     ''Compiler parameter '' @ repr_str key @ '' expects '' @ what @ '', got '' @ py_repr v @ ''.''"

definition validate_boolean :: "string \<Rightarrow> json \<Rightarrow> exn + string" where
  "validate_boolean key v =
     (case v of
        JBool b \<Rightarrow> Inr (if b then ''true'' else ''false'')
      | JStr s \<Rightarrow>
          if lower (strip s) \<in> {''true'', ''false''} then Inr (lower (strip s))
          else Inl (invalid (expects_message key ''a boolean'' v))
      | _ \<Rightarrow> Inl (invalid (expects_message key ''a boolean'' v)))"

definition coerce_int :: "string \<Rightarrow> json \<Rightarrow> param_kind \<Rightarrow> exn + int" where
  "coerce_int key v kind =
     (case v of
        JBool _ \<Rightarrow> Inl (invalid (''Compiler parameter '' @ repr_str key @ '' expects ''
                            @ kind_name kind @ '', got a boolean.''))
      | JInt i \<Rightarrow> Inr i
      | JStr s \<Rightarrow>
          (case read_int (strip s) of
             Some i \<Rightarrow> Inr i
           | None \<Rightarrow> Inl (invalid (expects_message key (kind_name kind) v)))
      | _ \<Rightarrow> Inl (invalid (expects_message key (kind_name kind) v)))"

definition below :: "int \<Rightarrow> int option \<Rightarrow> bool" where
  "below n bound = (case bound of None \<Rightarrow> False | Some m \<Rightarrow> n < m)"

definition above :: "int \<Rightarrow> int option \<Rightarrow> bool" where
  "above n bound = (case bound of None \<Rightarrow> False | Some m \<Rightarrow> m < n)"

definition range_message :: "string \<Rightarrow> string \<Rightarrow> int \<Rightarrow> int \<Rightarrow> string" where
  "range_message key rel bound number =
     ''Compiler parameter '' @ repr_str key @ '' must be '' @ rel @ '' '' @ show_int bound
     @ '', got '' @ show_int number @ ''.''"

definition validate_numeric :: "string \<Rightarrow> json \<Rightarrow> param_spec \<Rightarrow> exn + string" where
  "validate_numeric key v spec =
     sum_bind (coerce_int key v (ps_kind spec)) (\<lambda>number.
       if below number (ps_minimum spec)
       then Inl (invalid (range_message key ''>='' (the (ps_minimum spec)) number))
       else if above number (ps_maximum spec)
       then Inl (invalid (range_message key ''<='' (the (ps_maximum spec)) number))
       else Inr (show_int number))"

definition validate_value :: "string \<Rightarrow> json \<Rightarrow> param_spec \<Rightarrow> exn + string" where
  "validate_value key v spec =
     (if ps_kind spec = BOOLEAN then validate_boolean key v else validate_numeric key v spec)"

fun validate_go :: "(string \<times> string) list \<Rightarrow> dict \<Rightarrow> exn + (string \<times> string) list" where
  "validate_go validated [] = Inr validated"
| "validate_go validated ((key, v) # rest) =
     (case map_of allowlist key of
        None \<Rightarrow> Inl (invalid (unknown_param_message key))
      | Some spec \<Rightarrow>
          sum_bind (validate_value key v spec) (\<lambda>s. validate_go (dict_set key s validated) rest))"

definition validate_compiler_parameters :: "dict \<Rightarrow> exn + (string \<times> string) list" where
  "validate_compiler_parameters params = validate_go [] params"

definition describe_allowlist :: "dict list" where
  "describe_allowlist =
     map (\<lambda>(key, spec).
        [(''name'', JStr key), (''kind'', JStr (kind_name (ps_kind spec))),
         (''description'', JStr (ps_description spec))]
        @ (case ps_minimum spec of None \<Rightarrow> [] | Some m \<Rightarrow> [(''minimum'', JInt m)])
        @ (case ps_maximum spec of None \<Rightarrow> [] | Some m \<Rightarrow> [(''maximum'', JInt m)])) allowlist"

section \<open>Accepted parameters\<close>

definition canonical_value :: "param_spec \<Rightarrow> string \<Rightarrow> bool" where
  "canonical_value spec s \<longleftrightarrow>
     (if ps_kind spec = BOOLEAN then s = ''true'' \<or> s = ''false''
      else \<exists>n. s = show_int n \<and> \<not> below n (ps_minimum spec) \<and> \<not> above n (ps_maximum spec))"

definition canonical_param :: "string \<times> string \<Rightarrow> bool" where
  "canonical_param p \<longleftrightarrow> (\<exists>spec. map_of allowlist (fst p) = Some spec \<and> canonical_value spec (snd p))"

lemma validate_value_canonical: "validate_value key v spec = Inr s \<Longrightarrow> canonical_value spec s"
  by (auto simp: validate_value_def validate_boolean_def validate_numeric_def canonical_value_def
      sum_bind_Inr_iff split: if_splits json.splits)

lemma lower_strip_flags: "lower (strip ''true'') = ''true''" "lower (strip ''false'') = ''false''"
  by code_simp+

lemma read_int_strip [simp]: "read_int (strip s) = read_int s"
  by (simp add: read_int_def)

lemma validate_value_fixed: "canonical_value spec s \<Longrightarrow> validate_value key (JStr s) spec = Inr s"
  by (auto simp: validate_value_def validate_boolean_def validate_numeric_def canonical_value_def
      coerce_int_def lower_strip_flags split: if_splits)

lemma set_dict_set_sub: "set (dict_set k v d) \<subseteq> insert (k, v) (set d)"
  by (induction d) auto

lemma validate_go_canonical:
  "validate_go acc params = Inr out \<Longrightarrow> (\<forall>p \<in> set acc. canonical_param p) \<Longrightarrow>
   (\<forall>p \<in> set out. canonical_param p)"
proof (induction acc params rule: validate_go.induct)
  case (2 acc key v rest)
  from "2.prems"(1) obtain spec s where spec: "map_of allowlist key = Some spec"
    and s: "validate_value key v spec = Inr s" "validate_go (dict_set key s acc) rest = Inr out"
    by (auto simp: sum_bind_Inr_iff split: option.splits)
  have "canonical_param (key, s)"
    using spec validate_value_canonical [OF s(1)] by (simp add: canonical_param_def)
  then have "\<forall>p \<in> set (dict_set key s acc). canonical_param p"
    using "2.prems"(2) set_dict_set_sub by fastforce
  then show ?case using "2.IH" [OF spec] s(2) by blast
qed simp

lemma validate_go_keys:
  "validate_go acc params = Inr out \<Longrightarrow> fst ` set out = fst ` set acc \<union> fst ` set params"
proof (induction acc params rule: validate_go.induct)
  case (2 acc key v rest)
  from "2.prems" obtain spec s where spec: "map_of allowlist key = Some spec"
    and s: "validate_go (dict_set key s acc) rest = Inr out"
    by (auto simp: sum_bind_Inr_iff split: option.splits)
  show ?case using "2.IH" [OF spec s] by (simp add: set_dict_set_fst)
qed simp

lemma dict_set_append: "k \<notin> fst ` set d \<Longrightarrow> dict_set k v d = d @ [(k, v)]"
  by (induction d) auto

lemma validate_go_fixed:
  "distinct (map fst (acc @ ps)) \<Longrightarrow> (\<forall>p \<in> set ps. canonical_param p) \<Longrightarrow>
   validate_go acc (map (\<lambda>p. (fst p, JStr (snd p))) ps) = Inr (acc @ ps)"
proof (induction ps arbitrary: acc)
  case (Cons p ps)
  obtain spec where spec: "map_of allowlist (fst p) = Some spec" "canonical_value spec (snd p)"
    using Cons.prems(2) by (auto simp: canonical_param_def)
  have "validate_go (acc @ [p]) (map (\<lambda>p. (fst p, JStr (snd p))) ps) = Inr ((acc @ [p]) @ ps)"
    using Cons.prems by (intro Cons.IH) auto
  then show ?case
    using Cons.prems spec by (simp add: validate_value_fixed dict_set_append)
qed simp

lemma distinct_validate_go:
  "validate_go acc params = Inr out \<Longrightarrow> distinct (map fst acc) \<Longrightarrow> distinct (map fst out)"
  by (induction acc params rule: validate_go.induct)
    (auto simp: sum_bind_Inr_iff split: option.splits)

text \<open>
  What validation accepts is safe to forward: every key is on the allowlist and was asked
  for, none is dropped, every value is the canonical text of a flag or of an integer within the
  bounds of its key, and validating the forwarded object again returns it unchanged.
\<close>

theorem validated_params_canonical:
  assumes "validate_compiler_parameters params = Inr out"
  shows "(\<forall>p \<in> set out. canonical_param p) \<and> fst ` set out = fst ` set params
    \<and> validate_compiler_parameters (map (\<lambda>p. (fst p, JStr (snd p))) out) = Inr out"
proof -
  have can: "\<forall>p \<in> set out. canonical_param p"
    using assms validate_go_canonical by (fastforce simp: validate_compiler_parameters_def)
  have "distinct (map fst out)"
    using assms distinct_validate_go by (fastforce simp: validate_compiler_parameters_def)
  then have "validate_go [] (map (\<lambda>p. (fst p, JStr (snd p))) out) = Inr ([] @ out)"
    using can by (intro validate_go_fixed) simp_all
  then show ?thesis
    using can assms validate_go_keys [of "[]" params out]
    by (simp add: validate_compiler_parameters_def)
qed

theorem validated_params_canonical_witness:
  "validate_compiler_parameters [(''compiler.cbo'', JStr '' TRUE ''), (''compiler.parallelism'', JInt 8)]
     = Inr [(''compiler.cbo'', ''true''), (''compiler.parallelism'', ''8'')]
   \<and> canonical_param (''compiler.parallelism'', ''8'')"
proof -
  have flag: "lower (strip '' TRUE '') = ''true''" by code_simp
  have v: "validate_compiler_parameters
      [(''compiler.cbo'', JStr '' TRUE ''), (''compiler.parallelism'', JInt 8)]
      = Inr [(''compiler.cbo'', ''true''), (''compiler.parallelism'', ''8'')]"
    by (simp add: validate_compiler_parameters_def allowlist_def validate_value_def flag_spec_def
        validate_boolean_def validate_numeric_def coerce_int_def below_def above_def flag show_number)
  show ?thesis using validated_params_canonical [OF v] v by simp
qed

end
