(* ===== verification/Permits.thy ===== *)
theory Permits
  imports Gateway_Config "HOL-Library.Multiset"
begin

text \<open>
  The concurrency permit pools (\<open>permits.py\<close>): a fixed capacity, a share per tenant, refusal
  instead of queueing. A pool in use is a state machine: a body enters with a permit or is
  refused, and a running body leaves and gives its permit back; the asyncio lock makes each of
  these one atomic step.
\<close>

record permit_pool =
  pp_capacity :: int
  pp_name :: string
  pp_share :: int
  pp_in_use :: int
  pp_held :: "(string \<times> int) list"

definition new_pool :: "int \<Rightarrow> string \<Rightarrow> int option \<Rightarrow> exn + permit_pool" where
  "new_pool capacity name per_principal =
     (if capacity < 1 then Inl (PyExc ''ValueError'')
      else Inr \<lparr>pp_capacity = capacity, pp_name = name,
                pp_share = (case per_principal of
                              None \<Rightarrow> capacity
                            | Some n \<Rightarrow> if n = 0 then capacity else min n capacity),
                pp_in_use = 0, pp_held = []\<rparr>)"

definition unattributed_principal :: string where
  "unattributed_principal = ''unattributed''"

definition permit_holder :: "string option \<Rightarrow> string" where
  "permit_holder who = (case who of None \<Rightarrow> unattributed_principal
     | Some w \<Rightarrow> if w = [] then unattributed_principal else w)"

definition held_by :: "permit_pool \<Rightarrow> string \<Rightarrow> int" where
  "held_by p who = (case map_of (pp_held p) who of None \<Rightarrow> 0 | Some n \<Rightarrow> n)"

definition at_capacity_message :: "permit_pool \<Rightarrow> string" where
  "at_capacity_message p =
     ''The gateway is at capacity for '' @ pp_name p @ '' work ('' @ show_int (pp_capacity p)
     @ '' concurrent). Retry shortly.''"

definition at_share_message :: "permit_pool \<Rightarrow> string" where
  "at_share_message p =
     ''This client is at its share of '' @ pp_name p @ '' work ('' @ show_int (pp_share p)
     @ '' concurrent). Retry shortly, or let the queries already in flight finish first.''"

definition take_permit :: "permit_pool \<Rightarrow> string \<Rightarrow> gateway_error + permit_pool" where
  "take_permit p who =
     (if pp_capacity p \<le> pp_in_use p then Inl (gerr NOT_READY (at_capacity_message p))
      else if pp_share p \<le> held_by p who then Inl (gerr NOT_READY (at_share_message p))
      else Inr (p\<lparr>pp_in_use := pp_in_use p + 1,
                  pp_held := dict_set who (held_by p who + 1) (pp_held p)\<rparr>))"

definition give_back :: "permit_pool \<Rightarrow> string \<Rightarrow> permit_pool" where
  "give_back p who =
     (let remaining = (case map_of (pp_held p) who of None \<Rightarrow> 1 | Some n \<Rightarrow> n) - 1
      in p\<lparr>pp_in_use := pp_in_use p - 1,
           pp_held := (if 0 < remaining then dict_set who remaining (pp_held p)
                       else dict_pop who (pp_held p))\<rparr>)"

definition available :: "permit_pool \<Rightarrow> int" where
  "available p = pp_capacity p - pp_in_use p"

definition tracked_principals :: "permit_pool \<Rightarrow> nat" where
  "tracked_principals p = length (pp_held p)"

record permit_pools =
  pools_sync :: permit_pool
  pools_async :: permit_pool
  pools_waits :: permit_pool

definition pools_from_settings :: "settings \<Rightarrow> exn + permit_pools" where
  "pools_from_settings s =
     (let share = Some (permits_per_principal s) in
      sum_bind (new_pool (sync_permits s) ''synchronous query'' share) (\<lambda>a.
      sum_bind (new_pool (async_permits s) ''asynchronous query'' share) (\<lambda>b.
      sum_bind (new_pool (max_concurrent_waits s) ''result wait'' share) (\<lambda>c.
        Inr \<lparr>pools_sync = a, pools_async = b, pools_waits = c\<rparr>))))"

section \<open>A pool in use\<close>

text \<open>The state: the pool and the holders of the bodies now running under a permit.\<close>

datatype permit_event = Enter string | Refused string | Leave string

inductive permit_step ::
  "permit_pool \<times> string multiset \<Rightarrow> permit_event \<Rightarrow> permit_pool \<times> string multiset \<Rightarrow> bool" where
  enter: "take_permit p who = Inr p' \<Longrightarrow> permit_step (p, running) (Enter who) (p', add_mset who running)"
| refused: "take_permit p who = Inl e \<Longrightarrow> permit_step (p, running) (Refused who) (p, running)"
| leave: "who \<in># running \<Longrightarrow> permit_step (p, running) (Leave who) (give_back p who, running - {#who#})"

inductive permit_reachable :: "permit_pool \<Rightarrow> permit_pool \<times> string multiset \<Rightarrow> bool" for p0 where
  start: "permit_reachable p0 (p0, {#})"
| more: "permit_reachable p0 st \<Longrightarrow> permit_step st ev st' \<Longrightarrow> permit_reachable p0 st'"

inductive_cases permit_stepE: "permit_step st ev st'"

definition permits_ok :: "permit_pool \<Rightarrow> permit_pool \<times> string multiset \<Rightarrow> bool" where
  "permits_ok p0 st \<longleftrightarrow>
     (let p = fst st; running = snd st in
      pp_capacity p = pp_capacity p0 \<and> pp_share p = pp_share p0 \<and> pp_name p = pp_name p0
      \<and> pp_in_use p = int (size running) \<and> pp_in_use p \<le> pp_capacity p
      \<and> distinct (map fst (pp_held p))
      \<and> (\<forall>who. map_of (pp_held p) who
               = (if who \<in># running then Some (int (count running who)) else None))
      \<and> (\<forall>who \<in># running. int (count running who) \<le> pp_share p0))"

lemma held_by_ok: "permits_ok p0 (p, running) \<Longrightarrow> held_by p who = int (count running who)"
  by (auto simp: permits_ok_def held_by_def not_in_iff)

lemma new_pool_ok: "new_pool capacity name per = Inr p \<Longrightarrow> permits_ok p (p, {#})"
  by (auto simp: new_pool_def permits_ok_def split: if_splits)

lemma take_permit_ok:
  assumes ok: "permits_ok p0 (p, running)" and t: "take_permit p who = Inr p'"
  shows "permits_ok p0 (p', add_mset who running)"
proof -
  have held: "held_by p who = int (count running who)" using held_by_ok [OF ok] .
  have t': "pp_in_use p < pp_capacity p" "int (count running who) < pp_share p"
    "p' = p\<lparr>pp_in_use := pp_in_use p + 1, pp_held := dict_set who (int (count running who) + 1) (pp_held p)\<rparr>"
    using t held by (auto simp: take_permit_def split: if_splits)
  have maps: "\<And>w. map_of (pp_held p) w = (if w \<in># running then Some (int (count running w)) else None)"
    using ok by (simp add: permits_ok_def)
  show ?thesis using ok t' by (auto simp: permits_ok_def maps)
qed

lemma give_back_ok:
  assumes ok: "permits_ok p0 (p, running)" and mem: "who \<in># running"
  shows "permits_ok p0 (give_back p who, running - {#who#})"
proof -
  let ?r = "running - {#who#}"
  have maps: "\<And>w. map_of (pp_held p) w = (if w \<in># running then Some (int (count running w)) else None)"
    and dist: "distinct (map fst (pp_held p))"
    using ok by (simp_all add: permits_ok_def)
  have pos: "0 < count running who" using mem by simp
  have cnt: "count ?r w = (if w = who then count running who - 1 else count running w)" for w
    by simp
  have mem': "w \<in># ?r \<longleftrightarrow> (if w = who then 1 < count running who else w \<in># running)" for w
    unfolding count_greater_zero_iff [symmetric] cnt by auto
  have held: "pp_held (give_back p who) =
      (if 1 < count running who then dict_set who (int (count running who) - 1) (pp_held p)
       else dict_pop who (pp_held p))"
    using mem pos by (simp add: give_back_def Let_def maps)
  have maps': "map_of (pp_held (give_back p who)) w = (if w \<in># ?r then Some (int (count ?r w)) else None)" for w
    unfolding held mem' cnt using pos by (simp add: maps of_nat_diff)
  have dist': "distinct (map fst (pp_held (give_back p who)))"
    unfolding held using dist by (simp add: distinct_dict_pop)
  have "int (size ?r) = int (size running) - 1"
    using mem by (simp add: size_Diff_singleton) (metis Suc_pred mem of_nat_Suc nonempty_has_size
      empty_not_add_mset multi_member_split add_diff_cancel_left' plus_1_eq_Suc)
  moreover have "int (count ?r w) \<le> pp_share p0" if "w \<in># ?r" for w
  proof -
    have "w \<in># running" using that by (metis in_diffD)
    then have "int (count running w) \<le> pp_share p0" using ok by (simp add: permits_ok_def)
    moreover have "count ?r w \<le> count running w" by simp
    ultimately show ?thesis by linarith
  qed
  ultimately show ?thesis
    using ok maps' dist' unfolding permits_ok_def by (simp add: give_back_def Let_def)
qed

lemma permit_step_ok: "permit_step st ev st' \<Longrightarrow> permits_ok p0 st \<Longrightarrow> permits_ok p0 st'"
  by (induction rule: permit_step.cases) (auto intro: take_permit_ok give_back_ok)

text \<open>
  C12. Whatever bodies enter, are refused and leave, in any order, a pool never runs more bodies
  than its capacity, no tenant holds more than its share, the counters agree with the bodies
  that are really running, and only tenants that hold a permit are tracked.
\<close>

theorem permits_invariant:
  assumes "new_pool capacity name per = Inr p0" and "permit_reachable p0 (p, running)"
  shows "int (size running) \<le> capacity
    \<and> (\<forall>who \<in># running. int (count running who) \<le> pp_share p0)
    \<and> pp_in_use p = int (size running) \<and> available p = capacity - int (size running)
    \<and> (\<forall>who. held_by p who = int (count running who))
    \<and> tracked_principals p = card (set_mset running)"
proof -
  have reach: "permits_ok p0 st" if "permit_reachable p0 st" for st
    using that by induction (auto intro: new_pool_ok [OF assms(1)] permit_step_ok)
  have ok: "permits_ok p0 (p, running)" using assms(2) reach by blast
  have cap: "pp_capacity p0 = capacity" using assms(1) by (auto simp: new_pool_def split: if_splits)
  have "fst ` set (pp_held p) = set_mset running"
  proof (rule set_eqI)
    fix w
    have "w \<in> fst ` set (pp_held p) \<longleftrightarrow> map_of (pp_held p) w \<noteq> None"
      by (simp add: map_of_eq_None_iff)
    also have "\<dots> \<longleftrightarrow> w \<in># running" using ok by (simp add: permits_ok_def)
    finally show "w \<in> fst ` set (pp_held p) \<longleftrightarrow> w \<in> set_mset running" .
  qed
  moreover have "distinct (map fst (pp_held p))" using ok by (simp add: permits_ok_def)
  ultimately have "tracked_principals p = card (set_mset running)"
    unfolding tracked_principals_def by (metis distinct_card length_map set_map)
  then show ?thesis
    using ok cap held_by_ok [OF ok] by (simp add: permits_ok_def available_def)
qed

lemma permit_reachable_ok:
  "permit_reachable p0 st \<Longrightarrow> new_pool capacity name per = Inr p0 \<Longrightarrow> permits_ok p0 st"
  by (induction rule: permit_reachable.induct) (auto intro: new_pool_ok permit_step_ok)

theorem permits_invariant_witness:
  "\<exists>p0 p. new_pool 3 ''q'' (Some 2) = Inr p0 \<and> permit_reachable p0 (p, {#''a'', ''a''#})
     \<and> int (size {#''a'', ''a''#}) \<le> (3 :: int) \<and> tracked_principals p = 1"
proof -
  let ?p0 = "\<lparr>pp_capacity = 3, pp_name = ''q'', pp_share = 2, pp_in_use = 0, pp_held = []\<rparr>"
  let ?p1 = "?p0\<lparr>pp_in_use := 1, pp_held := [(''a'', 1)]\<rparr>"
  let ?p2 = "?p0\<lparr>pp_in_use := 2, pp_held := [(''a'', 2)]\<rparr>"
  have n: "new_pool 3 ''q'' (Some 2) = Inr ?p0" by (simp add: new_pool_def)
  have "take_permit ?p0 ''a'' = Inr ?p1" "take_permit ?p1 ''a'' = Inr ?p2"
    by (simp_all add: take_permit_def held_by_def)
  then have r: "permit_reachable ?p0 (?p2, {#''a'', ''a''#})"
    by (blast intro: permit_reachable.intros permit_step.enter)
  show ?thesis using permits_invariant [OF n r] n r by fastforce
qed

text \<open>
  C13. Admission is decided by the two limits alone: in any reachable state a tenant is refused
  exactly when the pool is full or the tenant is at its share, every refusal is the retryable
  NOT_READY, and in a pool whose share is positive and below the capacity a tenant running alone
  can never shut another one out (in a pool whose share is the whole capacity it can).
\<close>

theorem permits_admission:
  assumes "new_pool capacity name per = Inr p0" and "permit_reachable p0 (p, running)"
  shows "((\<exists>e. take_permit p who = Inl e) \<longleftrightarrow>
            int (size running) = capacity \<or> pp_share p0 \<le> int (count running who))
    \<and> (\<forall>e. take_permit p who = Inl e \<longrightarrow> ge_type e = NOT_READY \<and> is_retryable (ge_type e))
    \<and> (\<forall>other. 0 < pp_share p0 \<and> pp_share p0 < capacity \<and> set_mset running \<subseteq> {other} \<and> who \<noteq> other
         \<longrightarrow> (\<exists>p'. take_permit p who = Inr p'))"
proof -
  have ok: "permits_ok p0 (p, running)" using permit_reachable_ok assms by blast
  have cap: "pp_capacity p0 = capacity" using assms(1) by (auto simp: new_pool_def split: if_splits)
  have refuse: "(\<exists>e. take_permit p who = Inl e) \<longleftrightarrow>
      int (size running) = capacity \<or> pp_share p0 \<le> int (count running who)"
    using ok cap held_by_ok [OF ok, of who] by (auto simp: take_permit_def permits_ok_def)
  have "\<exists>p'. take_permit p who = Inr p'"
    if h: "0 < pp_share p0" "pp_share p0 < capacity" "set_mset running \<subseteq> {other}" "who \<noteq> other" for other
  proof -
    have zero: "count running who = 0" using h(3,4) by (auto simp: count_eq_zero_iff)
    have "size running = count running other"
    proof (cases "other \<in># running")
      case True
      then have "set_mset running = {other}" using h(3) by auto
      then show ?thesis by (simp add: size_multiset_overloaded_eq)
    next
      case False
      then have "running = {#}" using h(3) by (metis multiset_nonemptyE singletonD subsetD)
      then show ?thesis by simp
    qed
    moreover have "int (count running other) \<le> pp_share p0"
      using ok h(1) by (cases "other \<in># running") (auto simp: permits_ok_def not_in_iff)
    ultimately have "\<not> (\<exists>e. take_permit p who = Inl e)" using refuse h zero by auto
    then show ?thesis by (cases "take_permit p who") auto
  qed
  moreover have "\<forall>e. take_permit p who = Inl e \<longrightarrow> ge_type e = NOT_READY \<and> is_retryable (ge_type e)"
    by (auto simp: take_permit_def is_retryable_def retryable_types_def split: if_splits)
  ultimately show ?thesis using refuse by blast
qed

theorem permits_admission_witness:
  "\<exists>p0 p e. new_pool 3 ''q'' (Some 1) = Inr p0 \<and> permit_reachable p0 (p, {#''a''#})
     \<and> take_permit p ''a'' = Inl e \<and> ge_type e = NOT_READY \<and> (\<exists>p'. take_permit p ''b'' = Inr p')"
proof -
  let ?p0 = "\<lparr>pp_capacity = 3, pp_name = ''q'', pp_share = 1, pp_in_use = 0, pp_held = []\<rparr>"
  let ?p1 = "?p0\<lparr>pp_in_use := 1, pp_held := [(''a'', 1)]\<rparr>"
  have n: "new_pool 3 ''q'' (Some 1) = Inr ?p0" by (simp add: new_pool_def)
  have "take_permit ?p0 ''a'' = Inr ?p1" by (simp add: take_permit_def held_by_def)
  then have r: "permit_reachable ?p0 (?p1, {#''a''#})"
    by (blast intro: permit_reachable.intros permit_step.enter)
  obtain e where e: "take_permit ?p1 ''a'' = Inl e"
    using permits_admission [OF n r, of "''a''"] by auto
  have "ge_type e = NOT_READY" using permits_admission [OF n r, of "''a''"] e by blast
  moreover have "\<exists>p'. take_permit ?p1 ''b'' = Inr p'"
    using permits_admission [OF n r, of "''b''"] by auto
  ultimately show ?thesis using n r e by blast
qed

end
