(* ===== verification/Audit_Log.thy ===== *)
theory Audit_Log
  imports Context_Id Gateway_Config
begin

text \<open>
  The submission audit log (\<open>audit_log.py\<close>), its query-history view and the function that
  stamps an outcome into it (\<open>tools/query_history.py\<close>). The clock is the argument \<open>now\<close>.
\<close>

record audit_entry =
  ae_ccid :: string
  ae_session :: string
  ae_statement :: string
  ae_submitted_at :: rat
  ae_handle :: "string option"
  ae_result_handle :: "string option"
  ae_dataverse :: "string option"
  ae_signature :: json
  ae_advisory :: "dict option"
  ae_tool :: "string option"
  ae_outcome :: "string option"
  ae_error_type :: json
  ae_error_message :: json
  ae_rows_returned :: json

definition new_entry :: "string \<Rightarrow> string \<Rightarrow> string \<Rightarrow> rat \<Rightarrow> audit_entry" where
  "new_entry ccid session statement at_time =
     \<lparr>ae_ccid = ccid, ae_session = session, ae_statement = statement, ae_submitted_at = at_time,
      ae_handle = None, ae_result_handle = None, ae_dataverse = None, ae_signature = JNull,
      ae_advisory = None, ae_tool = None, ae_outcome = None, ae_error_type = JNull,
      ae_error_message = JNull, ae_rows_returned = JNull\<rparr>"

definition with_handle :: "string \<Rightarrow> audit_entry \<Rightarrow> audit_entry" where
  "with_handle h e = e\<lparr>ae_handle := Some h\<rparr>"

definition with_result_handle :: "string \<Rightarrow> audit_entry \<Rightarrow> audit_entry" where
  "with_result_handle h e = e\<lparr>ae_result_handle := Some h\<rparr>"

definition to_public :: "audit_entry \<Rightarrow> dict" where
  "to_public e =
     [(''clientContextID'', JStr (ae_ccid e)), (''session'', JStr (ae_session e)),
      (''statement'', JStr (ae_statement e)), (''submittedAt'', JReal (ae_submitted_at e)),
      (''handle'', opt_str (ae_handle e)), (''resultHandle'', opt_str (ae_result_handle e)),
      (''dataverse'', opt_str (ae_dataverse e)), (''signature'', ae_signature e),
      (''advisories'',
        JList (case ae_advisory e of
                 None \<Rightarrow> [] | Some a \<Rightarrow> if a = [] then [] else [JDict a]))]"

definition to_history_view :: "audit_entry \<Rightarrow> dict" where
  "to_history_view e =
     [(''clientContextID'', JStr (ae_ccid e)), (''tool'', opt_str (ae_tool e)),
      (''statement'', JStr (ae_statement e)), (''dataverse'', opt_str (ae_dataverse e)),
      (''outcome'', opt_str (ae_outcome e)), (''errorType'', ae_error_type e),
      (''errorMessage'', ae_error_message e), (''rowsReturned'', ae_rows_returned e),
      (''submittedAt'', JReal (ae_submitted_at e))]"

record audit_log =
  al_ttl :: rat
  al_entries :: "(string \<times> audit_entry) list"

definition new_audit_log :: "rat \<Rightarrow> exn + audit_log" where
  "new_audit_log ttl =
     (if ttl \<le> 0 then Inl (PyExc ''ValueError'') else Inr \<lparr>al_ttl = ttl, al_entries = []\<rparr>)"

definition is_expired :: "rat \<Rightarrow> audit_log \<Rightarrow> audit_entry \<Rightarrow> bool" where
  "is_expired now al e \<longleftrightarrow> al_ttl al \<le> now - ae_submitted_at e"

definition prune :: "rat \<Rightarrow> audit_log \<Rightarrow> audit_log" where
  "prune now al =
     al\<lparr>al_entries := filter (\<lambda>p. \<not> is_expired now al (snd p)) (al_entries al)\<rparr>"

definition audit_record :: "rat \<Rightarrow> audit_entry \<Rightarrow> audit_log \<Rightarrow> audit_log" where
  "audit_record now e al =
     (let al = prune now al
      in al\<lparr>al_entries := dict_set (ae_ccid e) e (al_entries al)\<rparr>)"

definition audit_forget :: "string \<Rightarrow> audit_log \<Rightarrow> audit_log" where
  "audit_forget ccid al = al\<lparr>al_entries := dict_pop ccid (al_entries al)\<rparr>"

definition audit_get :: "rat \<Rightarrow> string \<Rightarrow> audit_log \<Rightarrow> audit_entry option \<times> audit_log" where
  "audit_get now ccid al =
     (case map_of (al_entries al) ccid of
        None \<Rightarrow> (None, al)
      | Some e \<Rightarrow> if is_expired now al e then (None, audit_forget ccid al) else (Some e, al))"

definition outcome_success :: string where "outcome_success = ''SUCCESS''"
definition outcome_error :: string where "outcome_error = ''ERROR''"
definition outcome_submitted :: string where "outcome_submitted = ''SUBMITTED''"

definition audit_recent :: "rat \<Rightarrow> int \<Rightarrow> bool \<Rightarrow> audit_log \<Rightarrow> audit_entry list \<times> audit_log" where
  "audit_recent now most failures_only al =
     (let al = prune now al;
          entries = map snd (al_entries al);
          entries = (if failures_only then filter (\<lambda>e. ae_outcome e = Some outcome_error) entries
                     else entries)
      in (take (nat (max most 0)) (sort_key (\<lambda>e. - ae_submitted_at e) entries), al))"

definition audit_length :: "rat \<Rightarrow> audit_log \<Rightarrow> nat \<times> audit_log" where
  "audit_length now al = (let al = prune now al in (length (al_entries al), al))"

section \<open>The query history\<close>

definition run_get_query_history :: "rat \<Rightarrow> int \<Rightarrow> bool \<Rightarrow> audit_log \<Rightarrow> tool_result \<times> audit_log" where
  "run_get_query_history now requested failures_only al =
     (let most = min (max requested 1) 100;
          (entries, al) = audit_recent now most failures_only al;
          n = length entries;
          structured = [(''status'', JStr ''success''), (''limit'', JInt most),
                        (''failuresOnly'', JBool failures_only), (''count'', JInt (int n)),
                        (''queries'', JList (map (\<lambda>e. JDict (to_history_view e)) entries))];
          noun = (if n = 1 then ''query'' else ''queries'');
          kind = (if failures_only then ''failed '' else [])
      in (tool_ok (show_nat n @ '' recent '' @ kind @ noun @ '' in this session.'') structured, al))"

text \<open>\<open>record_query\<close>; \<open>fresh\<close> is the uuid of the id that is minted for a result without one.\<close>

definition record_query ::
  "settings \<Rightarrow> rat \<Rightarrow> string \<Rightarrow> string \<Rightarrow> string \<Rightarrow> string option \<Rightarrow> tool_result \<Rightarrow> audit_log \<Rightarrow> audit_log"
where
  "record_query s now fresh tool statement dataverse result al =
     (let structured = tr_structured result;
          given = dget ''clientContextID'' structured;
          ccid = (if truthy given then py_str given
                  else make_client_context_id (agent_session_id s) (Some tool) fresh);
          entry = (new_entry ccid (agent_session_id s) statement now)
                    \<lparr>ae_dataverse := dataverse, ae_tool := Some tool\<rparr>;
          entry = (if tr_is_error result
                   then entry\<lparr>ae_outcome := Some outcome_error,
                              ae_error_type := dget ''errorType'' structured,
                              ae_error_message := dget ''errorMessage'' structured\<rparr>
                   else entry\<lparr>ae_outcome := Some outcome_success,
                              ae_rows_returned := dget ''rowsReturned'' structured\<rparr>)
      in audit_record now entry al)"

section \<open>The log as a keyed store\<close>

definition audit_ok :: "audit_log \<Rightarrow> bool" where
  "audit_ok al \<longleftrightarrow> 0 < al_ttl al \<and> distinct (map fst (al_entries al))
     \<and> (\<forall>p \<in> set (al_entries al). ae_ccid (snd p) = fst p)"

definition audit_lookup :: "rat \<Rightarrow> audit_log \<Rightarrow> string \<Rightarrow> audit_entry option" where
  "audit_lookup now al ccid = fst (audit_get now ccid al)"

lemma audit_lookup_alt:
  "audit_lookup now al k = (case map_of (al_entries al) k of None \<Rightarrow> None
     | Some e \<Rightarrow> if is_expired now al e then None else Some e)"
  by (simp add: audit_lookup_def audit_get_def split: option.splits)

lemma al_ttl_ops [simp]:
  "al_ttl (prune now al) = al_ttl al" "al_ttl (audit_record now e al) = al_ttl al"
  "al_ttl (audit_forget k al) = al_ttl al"
  by (simp_all add: prune_def audit_record_def Let_def audit_forget_def)

lemma al_entries_ops [simp]:
  "al_entries (prune now al) = filter (\<lambda>p. \<not> is_expired now al (snd p)) (al_entries al)"
  "al_entries (audit_record now e al) = dict_set (ae_ccid e) e (al_entries (prune now al))"
  "al_entries (audit_forget k al) = dict_pop k (al_entries al)"
  by (simp_all add: prune_def audit_record_def Let_def audit_forget_def)

lemma is_expired_ops [simp]:
  "is_expired now (prune now' al) = is_expired now al"
  "is_expired now (audit_record now' e al) = is_expired now al"
  "is_expired now (audit_forget k al) = is_expired now al"
  by (simp_all add: is_expired_def fun_eq_iff)

lemma map_of_filter_distinct:
  "distinct (map fst d) \<Longrightarrow>
   map_of (filter (\<lambda>p. P (snd p)) d) k
     = (case map_of d k of None \<Rightarrow> None | Some v \<Rightarrow> if P v then Some v else None)"
proof (induction d)
  case (Cons p d)
  have "map_of d (fst p) = None" using Cons.prems by (simp add: map_of_eq_None_iff)
  then show ?case using Cons by (cases p) (auto split: option.splits)
qed simp

lemma map_of_live:
  "audit_ok al \<Longrightarrow> map_of (filter (\<lambda>p. \<not> is_expired now al (snd p)) (al_entries al)) k
     = audit_lookup now al k"
  by (subst map_of_filter_distinct [of _ "\<lambda>e. \<not> is_expired now al e"])
    (auto simp: audit_ok_def audit_lookup_alt split: option.splits)

lemma audit_ok_prune [simp]: "audit_ok al \<Longrightarrow> audit_ok (prune now al)"
  by (simp add: audit_ok_def distinct_map_filter)

lemma set_dict_set_subset: "set (dict_set k v d) \<subseteq> insert (k, v) (set d)"
  by (induction d) auto

lemma audit_ok_record [simp]:
  assumes "audit_ok al" shows "audit_ok (audit_record now e al)"
proof -
  have ok: "audit_ok (prune now al)" using assms by simp
  have "ae_ccid (snd p) = fst p" if "p \<in> set (al_entries (audit_record now e al))" for p
  proof -
    have "p = (ae_ccid e, e) \<or> p \<in> set (al_entries (prune now al))"
      using that set_dict_set_subset unfolding al_entries_ops(2) by fast
    then show ?thesis using ok by (auto simp: audit_ok_def)
  qed
  moreover have "distinct (map fst (al_entries (audit_record now e al)))"
    using ok unfolding al_entries_ops(2) audit_ok_def by simp
  ultimately show ?thesis using assms by (simp add: audit_ok_def)
qed

lemma audit_ok_forget [simp]: "audit_ok al \<Longrightarrow> audit_ok (audit_forget k al)"
  by (simp add: audit_ok_def distinct_dict_pop)

lemma audit_ok_get [simp]: "audit_ok al \<Longrightarrow> audit_ok (snd (audit_get now k al))"
  by (simp add: audit_get_def split: option.splits)

lemma audit_ok_new: "new_audit_log ttl = Inr al \<Longrightarrow> audit_ok al"
  by (auto simp: new_audit_log_def audit_ok_def split: if_splits)

lemma audit_lookup_record:
  assumes "audit_ok al"
  shows "audit_lookup now (audit_record now e al) k =
     (if k = ae_ccid e then (if is_expired now al e then None else Some e) else audit_lookup now al k)"
proof (cases "k = ae_ccid e")
  case True
  then show ?thesis by (simp add: audit_lookup_alt)
next
  case False
  have "audit_lookup now (audit_record now e al) k = (case audit_lookup now al k of None \<Rightarrow> None
      | Some e \<Rightarrow> if is_expired now al e then None else Some e)"
    unfolding audit_lookup_alt [of now "audit_record now e al"] al_entries_ops(2) map_of_dict_set
      al_entries_ops(1) map_of_live [OF assms] is_expired_ops using False by simp
  also have "\<dots> = audit_lookup now al k"
    by (simp add: audit_lookup_alt split: option.splits)
  finally show ?thesis using False by simp
qed

lemma audit_lookup_forget:
  "audit_lookup now (audit_forget k al) k' = (if k' = k then None else audit_lookup now al k')"
  by (simp add: audit_lookup_alt cong: option.case_cong)

text \<open>
  At any moment the log is a keyed store of its entries, hiding the expired ones: this is what
  the cancel, fetch and history tools rely on.
\<close>

interpretation audit_store: keyed_store
  "\<lambda>al. audit_ok al \<and> al_ttl al = ttl" "audit_lookup now" ae_ccid "audit_record now" audit_forget
  "\<lambda>e. now - ae_submitted_at e < ttl"
  for ttl now
proof unfold_locales
  fix al e k k' assume al: "audit_ok al \<and> al_ttl al = ttl"
  show "audit_ok (audit_record now e al) \<and> al_ttl (audit_record now e al) = ttl"
    and "audit_ok (audit_forget k al) \<and> al_ttl (audit_forget k al) = ttl"
    using al by simp_all
  show "audit_lookup now (audit_record now e al) k =
      (if k = ae_ccid e then if now - ae_submitted_at e < ttl then Some e else None
       else audit_lookup now al k)"
    using al by (auto simp: audit_lookup_record is_expired_def)
  show "audit_lookup now (audit_forget k al) k' = (if k' = k then None else audit_lookup now al k')"
    by (rule audit_lookup_forget)
qed

section \<open>Properties\<close>

text \<open>
  The log answers for the latest submission: after any sequence of submissions recorded in
  a well-formed log, looking an id up returns the last entry recorded under it unless that entry
  has reached the time to live, and entries recorded under other ids do not interfere.
\<close>

theorem audit_get_latest:
  assumes "audit_ok al"
  shows "fst (audit_get now k (fold (audit_record now) es al)) =
     (case find (\<lambda>e. ae_ccid e = k) (rev es) of
        None \<Rightarrow> fst (audit_get now k al)
      | Some e \<Rightarrow> if now - ae_submitted_at e < al_ttl al then Some e else None)"
  using audit_store.put_all [of al "al_ttl al" now es k] assms unfolding audit_lookup_def by simp

theorem audit_get_latest_witness:
  "fst (audit_get 10 ''q'' (fold (audit_record 10)
      [new_entry ''q'' ''s'' ''SELECT 1;'' 1, new_entry ''p'' ''s'' ''SELECT 2;'' 2,
       new_entry ''q'' ''s'' ''SELECT 3;'' 3] \<lparr>al_ttl = 900, al_entries = []\<rparr>))
   = Some (new_entry ''q'' ''s'' ''SELECT 3;'' 3)"
  using audit_get_latest [of "\<lparr>al_ttl = 900, al_entries = []\<rparr>" 10 "''q''"
      "[new_entry ''q'' ''s'' ''SELECT 1;'' 1, new_entry ''p'' ''s'' ''SELECT 2;'' 2,
        new_entry ''q'' ''s'' ''SELECT 3;'' 3]"]
  by (simp add: audit_ok_def new_entry_def)

definition recent_source :: "rat \<Rightarrow> bool \<Rightarrow> audit_log \<Rightarrow> audit_entry list" where
  "recent_source now failures_only al =
     filter (\<lambda>e. failures_only \<longrightarrow> ae_outcome e = Some outcome_error)
       (map snd (al_entries (prune now al)))"

lemma live_entry_iff:
  assumes "audit_ok al"
  shows "(\<exists>k. audit_lookup now al k = Some e) \<longleftrightarrow> e \<in> set (map snd (al_entries (prune now al)))"
proof
  assume "\<exists>k. audit_lookup now al k = Some e"
  then obtain k where "map_of (al_entries al) k = Some e" "\<not> is_expired now al e"
    by (auto simp: audit_lookup_alt split: option.splits if_splits)
  then have "(k, e) \<in> set (al_entries (prune now al))" by (simp add: map_of_SomeD)
  then show "e \<in> set (map snd (al_entries (prune now al)))" by force
next
  assume "e \<in> set (map snd (al_entries (prune now al)))"
  then obtain k where "(k, e) \<in> set (al_entries al)" "\<not> is_expired now al e" by auto
  then have "audit_lookup now al k = Some e"
    using assms by (simp add: audit_lookup_alt audit_ok_def)
  then show "\<exists>k. audit_lookup now al k = Some e" ..
qed

lemma audit_recent_alt:
  "fst (audit_recent now most failures_only al)
     = take (nat (max most 0)) (sort_key (\<lambda>e. - ae_submitted_at e) (recent_source now failures_only al))"
  by (cases failures_only) (simp_all add: audit_recent_def recent_source_def Let_def)

text \<open>
  The query history shows the newest submissions: at most the limit, none of them expired,
  newest first, only failures when asked, every one an entry of the log, and an entry that
  qualifies but is left out is never newer than one that is shown.
\<close>

theorem audit_recent_newest:
  assumes "audit_ok al" and "audit_recent now most failures_only al = (shown, al')"
  shows "int (length shown) \<le> max most 0
    \<and> (\<forall>e \<in> set shown. audit_lookup now al (ae_ccid e) = Some e
         \<and> (failures_only \<longrightarrow> ae_outcome e = Some outcome_error))
    \<and> sorted_wrt (\<lambda>e f. ae_submitted_at f \<le> ae_submitted_at e) shown
    \<and> (\<forall>k e. audit_lookup now al k = Some e
         \<and> (failures_only \<longrightarrow> ae_outcome e = Some outcome_error) \<and> e \<notin> set shown
         \<longrightarrow> (\<forall>f \<in> set shown. ae_submitted_at e \<le> ae_submitted_at f))"
proof -
  let ?src = "recent_source now failures_only al"
  let ?sorted = "sort_key (\<lambda>e. - ae_submitted_at e) ?src"
  let ?n = "nat (max most 0)"
  have shown: "shown = take ?n ?sorted"
    using audit_recent_alt [of now most failures_only al] assms(2) by simp
  note live = live_entry_iff [OF assms(1), of now]
  have key: "audit_lookup now al (ae_ccid e) = Some e" if "e \<in> set ?src" for e
  proof -
    have "e \<in> set (map snd (al_entries (prune now al)))"
      using that unfolding recent_source_def set_filter by blast
    then obtain k where k: "audit_lookup now al k = Some e" using live by blast
    then have "(k, e) \<in> set (al_entries al)"
      by (auto simp: audit_lookup_alt dest: map_of_SomeD split: option.splits if_splits)
    then have "ae_ccid e = k" using assms(1) by (auto simp: audit_ok_def)
    then show ?thesis using k by simp
  qed
  have sorted: "sorted_wrt (\<lambda>e f. ae_submitted_at f \<le> ae_submitted_at e) ?sorted"
    using sorted_sort_key [of "\<lambda>e. - ae_submitted_at e" ?src] by (simp add: sorted_map)
  have "ae_submitted_at e \<le> ae_submitted_at f"
    if "e \<in> set ?src" "e \<notin> set shown" "f \<in> set shown" for e f
  proof -
    have "e \<in> set (drop ?n ?sorted)"
      using that(1,2) unfolding shown by (metis Un_iff append_take_drop_id set_append set_sort)
    then show ?thesis
      using sorted that(3) unfolding shown by (metis append_take_drop_id sorted_wrt_append)
  qed
  moreover have "int (length shown) \<le> max most 0" unfolding shown by simp
  moreover have "set shown \<subseteq> set ?src" unfolding shown by (metis set_sort set_take_subset)
  moreover have "sorted_wrt (\<lambda>e f. ae_submitted_at f \<le> ae_submitted_at e) shown"
    unfolding shown by (rule sorted_wrt_take [OF sorted])
  moreover have "e \<in> set ?src"
    if "audit_lookup now al k = Some e" "failures_only \<longrightarrow> ae_outcome e = Some outcome_error" for k e
    using that live unfolding recent_source_def set_filter by blast
  moreover have "failures_only \<longrightarrow> ae_outcome e = Some outcome_error" if "e \<in> set ?src" for e
    using that unfolding recent_source_def set_filter by blast
  ultimately show ?thesis
    using key by blast
qed

theorem audit_recent_newest_witness:
  "\<exists>shown al'. audit_recent 10 1 False \<lparr>al_ttl = 900, al_entries =
        [(''a'', new_entry ''a'' ''s'' ''SELECT 1;'' 1), (''b'', new_entry ''b'' ''s'' ''SELECT 2;'' 2)]\<rparr>
      = (shown, al') \<and> length shown \<le> 1"
proof -
  let ?al = "\<lparr>al_ttl = 900, al_entries =
        [(''a'', new_entry ''a'' ''s'' ''SELECT 1;'' 1), (''b'', new_entry ''b'' ''s'' ''SELECT 2;'' 2)]\<rparr>"
  obtain shown al' where r: "audit_recent 10 1 False ?al = (shown, al')" by fastforce
  have "audit_ok ?al" by (simp add: audit_ok_def new_entry_def)
  from audit_recent_newest [OF this r] r show ?thesis by auto
qed

end
