(* ===== verification/Plan_Parser.thy ===== *)
theory Plan_Parser
  imports Gateway_Errors
begin

text \<open>
  The optimized-plan parser (\<open>plan_parser.py\<close>), the hints derived from a plan
  (\<open>hint_deriver.py\<close>) and the resolution of its data sources to datasets.
\<close>

datatype plan_operator = PlanOperator
  (po_kind: "string option") (po_operator_id: "string option") (po_physical: "string option")
  (po_data_source: "string option") (po_predicates: "string list")
  (po_inputs: "plan_operator list")

lemma po_inputs_size [termination_simp]: "x \<in> set (po_inputs op) \<Longrightarrow> size x < size op"
proof (cases op)
  case (PlanOperator k i p d ps xs)
  assume "x \<in> set (po_inputs op)"
  then have "x \<in> set xs" using PlanOperator by simp
  then have "size x \<le> size_list size xs" by (rule size_list_estimation') simp
  then show ?thesis using PlanOperator by simp
qed

record parsed_plan =
  pl_root :: plan_operator
  pl_counts :: "(string \<times> nat) list"
  pl_sources :: "string list"
  pl_depth :: nat

definition strings_of :: "json \<Rightarrow> string list" where
  "strings_of v = List.map_filter as_str (list_or_empty v)"

definition extract_predicates :: "dict \<Rightarrow> string list" where
  "extract_predicates node =
     (case dget ''condition'' node of
        JDict condition \<Rightarrow> strings_of (dget ''expressions'' condition)
      | JStr s \<Rightarrow> [s]
      | _ \<Rightarrow> []) @ strings_of (dget ''expressions'' node)"

definition node_inputs :: "json \<Rightarrow> json list" where
  "node_inputs v = filter is_dict (list_or_empty (jget ''inputs'' v))"

lemma size_dget: "map_of d k = Some v \<Longrightarrow> size v < size (JDict d)"
  by (induction d) (auto split: if_splits simp: size_prod_simp)

lemma size_in_list: "x \<in> set xs \<Longrightarrow> size x < size (JList xs)"
  by (induction xs) auto

lemma size_node_inputs: "x \<in> set (node_inputs v) \<Longrightarrow> size x < size v"
proof -
  assume x: "x \<in> set (node_inputs v)"
  then obtain xs where xs: "jget ''inputs'' v = JList xs" "x \<in> set xs"
    by (cases "jget ''inputs'' v") (auto simp: node_inputs_def list_or_empty_def)
  then obtain d where d: "v = JDict d" "dget ''inputs'' d = JList xs" by (cases v) auto
  then have "map_of d ''inputs'' = Some (JList xs)"
    by (auto simp: dget_def split: option.splits)
  then have "size (JList xs) < size v" using size_dget d(1) by blast
  then show ?thesis using size_in_list [OF xs(2)] by simp
qed

function parse_node :: "json \<Rightarrow> plan_operator" where
  "parse_node v =
     PlanOperator (as_str (jget ''operator'' v)) (as_str (jget ''operatorId'' v))
       (as_str (jget ''physical-operator'' v)) (as_str (jget ''data-source'' v))
       (extract_predicates (dict_or_empty v)) (map parse_node (node_inputs v))"
  by pat_completeness auto
termination by (relation "measure size") (auto simp: size_node_inputs)

declare parse_node.simps [simp del]

definition bump :: "string option \<Rightarrow> (string \<times> nat) list \<Rightarrow> (string \<times> nat) list" where
  "bump kind counts = (case kind of None \<Rightarrow> counts
     | Some k \<Rightarrow> dict_set k ((case map_of counts k of None \<Rightarrow> 0 | Some n \<Rightarrow> n) + 1) counts)"

definition note_source :: "string option \<Rightarrow> string list \<Rightarrow> string list" where
  "note_source src sources = (case src of None \<Rightarrow> sources | Some s \<Rightarrow> sources @ [s])"

fun collect :: "plan_operator \<Rightarrow> (string \<times> nat) list \<times> string list \<Rightarrow> (string \<times> nat) list \<times> string list" where
  "collect op acc =
     fold collect (po_inputs op)
       (bump (po_kind op) (fst acc), note_source (po_data_source op) (snd acc))"

declare collect.simps [simp del]

fun depth :: "plan_operator \<Rightarrow> nat" where
  "depth op = (if po_inputs op = [] then 1 else 1 + Max (set (map depth (po_inputs op))))"

declare depth.simps [simp del]

definition parse_plan :: "json \<Rightarrow> string \<Rightarrow> parsed_plan option" where
  "parse_plan plans key =
     (case plans of
        JDict d \<Rightarrow>
          (case dget key d of
             JDict node \<Rightarrow>
               let root = parse_node (JDict node);
                   (counts, sources) = collect root ([], [])
               in Some \<lparr>pl_root = root, pl_counts = counts, pl_sources = dedup_from [] sources,
                        pl_depth = depth root\<rparr>
           | _ \<Rightarrow> None)
      | _ \<Rightarrow> None)"

definition optimized_plan_key :: string where "optimized_plan_key = ''optimizedLogicalPlan''"
definition unoptimized_plan_key :: string where "unoptimized_plan_key = ''logicalPlan''"

definition parse_optimized_plan :: "json \<Rightarrow> parsed_plan option" where
  "parse_optimized_plan plans = parse_plan plans optimized_plan_key"

section \<open>Rendering\<close>

definition field_if :: "string \<Rightarrow> string option \<Rightarrow> dict" where
  "field_if k v = (case v of None \<Rightarrow> [] | Some s \<Rightarrow> [(k, JStr s)])"

fun operator_dict :: "plan_operator \<Rightarrow> json" where
  "operator_dict op = JDict (
     [(''operator'', case po_kind op of None \<Rightarrow> JNull | Some k \<Rightarrow> JStr k)]
     @ field_if ''operatorId'' (po_operator_id op)
     @ field_if ''physicalOperator'' (po_physical op)
     @ field_if ''dataSource'' (po_data_source op)
     @ (if po_predicates op = [] then [] else [(''predicates'', JList (map JStr (po_predicates op)))])
     @ (if po_inputs op = [] then [] else [(''inputs'', JList (map operator_dict (po_inputs op)))]))"

declare operator_dict.simps [simp del]

definition plan_dict :: "parsed_plan \<Rightarrow> dict" where
  "plan_dict p =
     [(''operatorCounts'', JDict (map (\<lambda>(k, n). (k, JInt (int n))) (pl_counts p))),
      (''dataSources'', JList (map JStr (pl_sources p))),
      (''depth'', JInt (int (pl_depth p))), (''tree'', operator_dict (pl_root p))]"

section \<open>Resolving data sources\<close>

record resolved_sources =
  rs_datasets :: "(string \<times> string) list"
  rs_unresolved :: "string list"

text \<open>The dataset a source names: two leading segments, or one with the default dataverse.\<close>

definition source_pair :: "string option \<Rightarrow> string \<Rightarrow> (string \<times> string) option" where
  "source_pair default_dataverse source =
     (case split_on ''.'' source of
        dv # ds # _ \<Rightarrow> Some (dv, ds)
      | [ds] \<Rightarrow> (case default_dataverse of
                  Some dv \<Rightarrow> if dv = [] then None else Some (dv, ds)
                | None \<Rightarrow> None)
      | [] \<Rightarrow> None)"

fun resolve_go :: "string option \<Rightarrow> (string \<times> string) list \<Rightarrow> string list \<Rightarrow> string list \<Rightarrow> resolved_sources" where
  "resolve_go dflt datasets unresolved [] = \<lparr>rs_datasets = datasets, rs_unresolved = unresolved\<rparr>"
| "resolve_go dflt datasets unresolved (source # rest) =
     (case source_pair dflt source of
        None \<Rightarrow>
          resolve_go dflt datasets
            (if source \<in> set unresolved then unresolved else unresolved @ [source]) rest
      | Some pair \<Rightarrow>
          resolve_go dflt (if pair \<in> set datasets then datasets else datasets @ [pair]) unresolved rest)"

definition resolve_sources :: "string list \<Rightarrow> string option \<Rightarrow> resolved_sources" where
  "resolve_sources sources dflt = resolve_go dflt [] [] sources"

definition datasets_from_sources :: "string list \<Rightarrow> string option \<Rightarrow> (string \<times> string) list" where
  "datasets_from_sources sources dflt = rs_datasets (resolve_sources sources dflt)"

section \<open>Hints (hint_deriver.py)\<close>

record hint =
  h_code :: string
  h_signal :: string
  h_advice :: string

definition full_scan_hint :: hint where
  "full_scan_hint =
     \<lparr>h_code = ''full-scan'', h_signal = ''The plan scans a dataset without an index (data-scan).'',
      h_advice = ''Add a selective WHERE predicate or a secondary index; confirm with check_index_usage or recommend_indexes.''\<rparr>"

definition broadcast_hint :: hint where
  "broadcast_hint =
     \<lparr>h_code = ''broadcast-join'', h_signal = ''A join input is broadcast to every partition.'',
      h_advice = ''Ensure the broadcast side is the smaller input; the hash-bcast and indexnl SQL++ hints steer join strategy (see the query-hints topic).''\<rparr>"

fun has_broadcast :: "plan_operator \<Rightarrow> bool" where
  "has_broadcast op \<longleftrightarrow>
     (case po_physical op of None \<Rightarrow> False | Some p \<Rightarrow> contains ''BROADCAST'' (upper p))
     \<or> list_ex has_broadcast (po_inputs op)"

declare has_broadcast.simps [simp del]

definition derive_hints :: "parsed_plan \<Rightarrow> hint list" where
  "derive_hints parsed =
     (if map_of (pl_counts parsed) ''data-scan'' \<noteq> None then [full_scan_hint] else [])
     @ (if has_broadcast (pl_root parsed) then [broadcast_hint] else [])"

definition hints_payload :: "parsed_plan \<Rightarrow> json list" where
  "hints_payload parsed =
     map (\<lambda>h. JDict [(''code'', JStr (h_code h)), (''signal'', JStr (h_signal h)),
                     (''advice'', JStr (h_advice h))]) (derive_hints parsed)"

section \<open>The summary agrees with the tree\<close>

text \<open>All operators of a tree, parents before children, left to right.\<close>

fun operators_of :: "plan_operator \<Rightarrow> plan_operator list" where
  "operators_of op = op # concat (map operators_of (po_inputs op))"

declare operators_of.simps [simp del]

lemma operator_induct [case_names operator]:
  assumes "\<And>op. (\<And>x. x \<in> set (po_inputs op) \<Longrightarrow> P x) \<Longrightarrow> P op"
  shows "P op"
  using assms by (induction op rule: measure_induct_rule [of size]) (blast intro: po_inputs_size)

text \<open>The specification of the walk: counts per kind and sources in order of first visit.\<close>

definition kind_count :: "string \<Rightarrow> plan_operator list \<Rightarrow> nat" where
  "kind_count k ops = length (filter (\<lambda>op. po_kind op = Some k) ops)"

definition count_in :: "(string \<times> nat) list \<Rightarrow> string \<Rightarrow> nat" where
  "count_in counts k = (case map_of counts k of None \<Rightarrow> 0 | Some n \<Rightarrow> n)"

lemma count_in_bump: "count_in (bump kind counts) k = count_in counts k + (if kind = Some k then 1 else 0)"
  by (auto simp: count_in_def bump_def split: option.splits)

lemma dom_bump: "map_of (bump kind counts) k \<noteq> None \<longleftrightarrow> map_of counts k \<noteq> None \<or> kind = Some k"
  by (auto simp: bump_def split: option.splits)

definition walked ::
  "plan_operator list \<Rightarrow> (string \<times> nat) list \<times> string list \<Rightarrow> (string \<times> nat) list \<times> string list \<Rightarrow> bool"
where
  "walked ops acc acc' \<longleftrightarrow>
     snd acc' = snd acc @ List.map_filter po_data_source ops
     \<and> (\<forall>k. count_in (fst acc') k = count_in (fst acc) k + kind_count k ops)
     \<and> (\<forall>k. map_of (fst acc') k \<noteq> None \<longleftrightarrow> map_of (fst acc) k \<noteq> None \<or> 0 < kind_count k ops)"

lemma kind_count_append: "kind_count k (a @ b) = kind_count k a + kind_count k b"
  by (simp add: kind_count_def)

lemma walked_Nil: "walked [] acc acc"
  by (simp add: walked_def kind_count_def map_filter_simps)

lemma walked_append: "walked a acc mid \<Longrightarrow> walked b mid acc' \<Longrightarrow> walked (a @ b) acc acc'"
  by (auto simp: walked_def kind_count_append map_filter_append)

lemma walked_one:
  "walked [op] acc (bump (po_kind op) (fst acc), note_source (po_data_source op) (snd acc))"
  by (auto simp: walked_def kind_count_def count_in_bump dom_bump note_source_def map_filter_simps
      simp del: not_None_eq split: option.splits)

lemma fold_collect:
  assumes "\<And>x acc. x \<in> set xs \<Longrightarrow> walked (operators_of x) acc (collect x acc)"
  shows "walked (concat (map operators_of xs)) acc (fold collect xs acc)"
  using assms
proof (induction xs arbitrary: acc)
  case (Cons x xs)
  have "walked (operators_of x) acc (collect x acc)" using Cons.prems by simp
  moreover have "walked (concat (map operators_of xs)) (collect x acc) (fold collect xs (collect x acc))"
    using Cons by simp
  ultimately show ?case using walked_append by simp
qed (simp add: walked_Nil)

lemma collect_spec: "walked (operators_of op) acc (collect op acc)"
proof (induction op arbitrary: acc rule: operator_induct)
  case (operator op)
  let ?acc = "(bump (po_kind op) (fst acc), note_source (po_data_source op) (snd acc))"
  have "walked (concat (map operators_of (po_inputs op))) ?acc (fold collect (po_inputs op) ?acc)"
    using operator by (rule fold_collect)
  then have "walked ([op] @ concat (map operators_of (po_inputs op))) acc (fold collect (po_inputs op) ?acc)"
    by (rule walked_append [OF walked_one])
  moreover have "collect op acc = fold collect (po_inputs op) ?acc" by (subst collect.simps) simp
  moreover have "operators_of op = [op] @ concat (map operators_of (po_inputs op))"
    by (subst operators_of.simps) simp
  ultimately show ?case by simp
qed

lemma kind_count_pos: "0 < kind_count k ops \<longleftrightarrow> (\<exists>op \<in> set ops. po_kind op = Some k)"
  by (auto simp: kind_count_def filter_empty_conv)

lemma parse_plan_SomeD:
  "parse_plan plans key = Some p \<Longrightarrow> \<exists>acc. walked (operators_of (pl_root p)) ([], []) acc
     \<and> pl_counts p = fst acc \<and> pl_sources p = dedup_from [] (snd acc) \<and> pl_depth p = depth (pl_root p)"
  using collect_spec
  by (fastforce simp: parse_plan_def Let_def split: json.splits prod.splits)

lemma parse_plan_summary_counts:
  assumes "parse_plan plans key = Some p"
  shows "map_of (pl_counts p) k \<noteq> None \<longleftrightarrow> (\<exists>op \<in> set (operators_of (pl_root p)). po_kind op = Some k)"
  using parse_plan_SomeD [OF assms] by (auto simp: walked_def kind_count_pos simp del: not_None_eq)

lemma parse_plan_sources:
  assumes "parse_plan plans key = Some p"
  shows "set (pl_sources p) = {s. \<exists>op \<in> set (operators_of (pl_root p)). po_data_source op = Some s}"
  using parse_plan_SomeD [OF assms] by (auto simp: walked_def in_map_filter)

text \<open>
  The plan summary agrees with the plan: the count of every operator kind is the number of
  operators of that kind in the tree (and a kind is listed exactly when it occurs), the data
  sources are those of all operators, in order of first visit and without repetition.
\<close>

theorem parse_plan_summary:
  assumes "parse_plan plans key = Some p"
  shows "(\<forall>k. count_in (pl_counts p) k = kind_count k (operators_of (pl_root p)))
    \<and> (\<forall>k. map_of (pl_counts p) k \<noteq> None \<longleftrightarrow> (\<exists>op \<in> set (operators_of (pl_root p)). po_kind op = Some k))
    \<and> distinct (pl_sources p)
    \<and> set (pl_sources p) = {s. \<exists>op \<in> set (operators_of (pl_root p)). po_data_source op = Some s}
    \<and> pl_depth p = depth (pl_root p)"
  using parse_plan_SomeD [OF assms] parse_plan_summary_counts [OF assms] parse_plan_sources [OF assms]
  by (auto simp: walked_def count_in_def)

definition sample_plan :: json where
  "sample_plan =
     JDict [(''optimizedLogicalPlan'', JDict [(''operator'', JStr ''select''),
       (''inputs'', JList [JDict [(''operator'', JStr ''data-scan''), (''data-source'', JStr ''Yelp.Business'')],
                           JInt 3, JDict [(''operator'', JStr ''data-scan''), (''data-source'', JStr ''Yelp.Business'')]])])]"

definition sample_scan :: plan_operator where
  "sample_scan = PlanOperator (Some ''data-scan'') None None (Some ''Yelp.Business'') [] []"

lemma parse_sample_plan:
  "parse_plan sample_plan ''optimizedLogicalPlan'' = Some
     \<lparr>pl_root = PlanOperator (Some ''select'') None None None [] [sample_scan, sample_scan],
      pl_counts = [(''select'', 1), (''data-scan'', 2)], pl_sources = [''Yelp.Business''], pl_depth = 2\<rparr>"
  by (simp add: parse_plan_def sample_plan_def sample_scan_def parse_node.simps node_inputs_def list_or_empty_def
      dict_or_empty_def extract_predicates_def strings_of_def map_filter_simps collect.simps bump_def
      note_source_def depth.simps)

theorem parse_plan_summary_witness:
  "\<exists>p. parse_plan sample_plan ''optimizedLogicalPlan'' = Some p
     \<and> count_in (pl_counts p) ''data-scan'' = kind_count ''data-scan'' (operators_of (pl_root p))
     \<and> pl_sources p = [''Yelp.Business'']"
  using parse_plan_summary [OF parse_sample_plan] parse_sample_plan by fastforce

lemma resolve_go_spec:
  assumes "r = resolve_go dflt ds un sources" and "distinct ds" and "distinct un"
  shows "set (rs_datasets r) = set ds \<union> {p. \<exists>s \<in> set sources. source_pair dflt s = Some p}
    \<and> set (rs_unresolved r) = set un \<union> {s \<in> set sources. source_pair dflt s = None}
    \<and> distinct (rs_datasets r) \<and> distinct (rs_unresolved r)"
  using assms
proof (induction sources arbitrary: ds un)
  case (Cons s sources)
  show ?case
  proof (cases "source_pair dflt s")
    case None
    then show ?thesis
      using Cons.IH [of ds "if s \<in> set un then un else un @ [s]"] Cons.prems by auto
  next
    case (Some pair)
    then show ?thesis
      using Cons.IH [of "if pair \<in> set ds then ds else ds @ [pair]" un] Cons.prems by auto
  qed
qed auto

text \<open>
  Resolving data sources loses none of them: each source either contributes the dataset it
  names or is listed as unresolved, nothing else appears in either list, and neither list
  repeats an entry.
\<close>

theorem resolve_sources_partition:
  "let r = resolve_sources sources dflt
   in set (rs_datasets r) = {p. \<exists>s \<in> set sources. source_pair dflt s = Some p}
      \<and> set (rs_unresolved r) = {s \<in> set sources. source_pair dflt s = None}
      \<and> distinct (rs_datasets r) \<and> distinct (rs_unresolved r)"
  using resolve_go_spec [OF refl, of "[]" "[]" dflt sources]
  by (simp add: resolve_sources_def)

lemma depth_bounds: "1 \<le> depth op"
  by (subst depth.simps) auto

lemma has_broadcast_iff:
  "has_broadcast op \<longleftrightarrow>
     (\<exists>x \<in> set (operators_of op). \<exists>p. po_physical x = Some p \<and> contains ''BROADCAST'' (upper p))"
proof (induction op rule: operator_induct)
  case (operator op)
  then show ?case
    by (subst has_broadcast.simps, subst operators_of.simps) (auto simp: list_ex_iff split: option.splits)
qed

text \<open>
  A hint is given exactly when its signal is in the plan: the full-scan hint when some
  operator is a data-scan, the broadcast hint when some operator's physical name mentions
  BROADCAST in any case.
\<close>

theorem derive_hints_iff:
  assumes "parse_plan plans key = Some p"
  shows "(full_scan_hint \<in> set (derive_hints p) \<longleftrightarrow>
            (\<exists>op \<in> set (operators_of (pl_root p)). po_kind op = Some ''data-scan''))
    \<and> (broadcast_hint \<in> set (derive_hints p) \<longleftrightarrow>
            (\<exists>op \<in> set (operators_of (pl_root p)).
               \<exists>q. po_physical op = Some q \<and> contains ''BROADCAST'' (upper q)))"
proof -
  have "full_scan_hint \<noteq> broadcast_hint" by (simp add: full_scan_hint_def broadcast_hint_def)
  then show ?thesis
    using parse_plan_summary_counts [OF assms] has_broadcast_iff [of "pl_root p"]
    by (simp add: derive_hints_def)
qed

theorem derive_hints_iff_witness:
  "\<exists>p. parse_plan sample_plan ''optimizedLogicalPlan'' = Some p \<and> full_scan_hint \<in> set (derive_hints p)"
  using derive_hints_iff [OF parse_sample_plan] parse_sample_plan
  by (simp add: operators_of.simps sample_scan_def)

end
