(* ===== verification/Catalog.thy ===== *)
theory Catalog
  imports CC_Client Context_Id Naming
begin

text \<open>
  What the gateway reads from the metadata catalog: the inventory of datasets
  (\<open>inventory.py\<close>), the secondary indexes (\<open>index_catalog.py\<close>) and the pure schema transforms
  of \<open>tools/get_schema.py\<close> and \<open>tools/describe_dataverse.py\<close>.
\<close>

text \<open>The rows of a result that are objects; a truthy result that cannot be iterated raises.\<close>

definition result_rows :: "dict \<Rightarrow> exn + dict list" where
  "result_rows envelope =
     (case iter_or_empty (dget ''results'' envelope) of
        None \<Rightarrow> Inl (PyExc ''TypeError'')
      | Some xs \<Rightarrow> Inr (dicts_of xs))"

definition with_params :: "string \<Rightarrow> dict \<Rightarrow> query_args" where
  "with_params ccid params = (query_defaults ccid)\<lparr>qa_statement_params := params\<rparr>"

definition fetch_rows :: "cc_client \<Rightarrow> string \<Rightarrow> string \<Rightarrow> dict \<Rightarrow> dict list io" where
  "fetch_rows c ccid statement params =
     io_bind (execute c statement (with_params ccid params)) (\<lambda>envelope. io_lift (result_rows envelope))"

lemma fetch_rows_read_only [emits_intro]: "emits read_only (fetch_rows c ccid statement params)"
  unfolding fetch_rows_def by (auto intro!: emits_intro)

section \<open>Inventory (inventory.py)\<close>

definition inventory_query :: string where
  "inventory_query =
     ''SELECT VALUE d FROM Metadata.`Dataset` d ORDER BY d.DataverseName, d.DatasetName;''"

definition fetch_dataset_rows :: "cc_client \<Rightarrow> string \<Rightarrow> dict list io" where
  "fetch_dataset_rows c ccid = fetch_rows c ccid inventory_query []"

definition dataverse_names :: "dict list \<Rightarrow> string list" where
  "dataverse_names rows = dedup_from [] (List.map_filter (\<lambda>r. as_str (dget ''DataverseName'' r)) rows)"

definition dataset_names :: "dict list \<Rightarrow> string \<Rightarrow> string list" where
  "dataset_names rows dataverse =
     List.map_filter (\<lambda>r. as_str (dget ''DatasetName'' r))
       (filter (\<lambda>r. dget ''DataverseName'' r = JStr dataverse) rows)"

section \<open>Secondary indexes (index_catalog.py)\<close>

definition exclude_sample_sql :: string where
  "exclude_sample_sql =
     ''(i.IndexStructure IS UNKNOWN OR i.IndexStructure != '' @ [CHR 0x22] @ ''SAMPLE'' @ [CHR 0x22] @ '')''"

definition all_secondary_indexes_query :: string where
  "all_secondary_indexes_query =
     ''SELECT VALUE i FROM Metadata.`Index` i WHERE i.IsPrimary = false AND ''
     @ exclude_sample_sql @ '';''"

definition is_sample_index :: "dict \<Rightarrow> bool" where
  "is_sample_index row \<longleftrightarrow> dget ''IndexStructure'' row = JStr ''SAMPLE''"

record secondary_index =
  si_dataverse :: json
  si_dataset :: json
  si_name :: string
  si_structure :: string
  si_key_fields :: "string list"

definition path_text :: "json \<Rightarrow> string" where
  "path_text entry = (case entry of JList segs \<Rightarrow> join ''.'' (map py_str segs) | _ \<Rightarrow> py_str entry)"

definition normalize_search_key :: "json \<Rightarrow> string list" where
  "normalize_search_key search_key =
     (case search_key of JList entries \<Rightarrow> map path_text entries | _ \<Rightarrow> [])"

definition parse_index_row :: "json \<Rightarrow> secondary_index option" where
  "parse_index_row row =
     (case row of
        JDict d \<Rightarrow>
          (case dget ''IndexName'' d of
             JStr name \<Rightarrow> Some
               \<lparr>si_dataverse = dget ''DataverseName'' d, si_dataset = dget ''DatasetName'' d,
                si_name = name, si_structure = py_str (dget_or ''IndexStructure'' (JStr []) d),
                si_key_fields = normalize_search_key (dget ''SearchKey'' d)\<rparr>
           | _ \<Rightarrow> None)
      | _ \<Rightarrow> None)"

record index_detail =
  ix_dataverse :: json
  ix_dataset :: json
  ix_name :: string
  ix_structure :: string
  ix_is_primary :: bool
  ix_is_enforced :: bool
  ix_key_fields :: "string list"
  ix_key_field_types :: "string list"
  ix_source_indicator :: "json list"
  ix_search_key_elements :: json
  ix_exclude_unknown_key :: json
  ix_gram_length :: json
  ix_full_text_config :: json

definition index_detail_dict :: "index_detail \<Rightarrow> dict" where
  "index_detail_dict x =
     [(''dataverse'', ix_dataverse x), (''dataset'', ix_dataset x), (''name'', JStr (ix_name x)),
      (''structure'', JStr (ix_structure x)), (''isPrimary'', JBool (ix_is_primary x)),
      (''isEnforced'', JBool (ix_is_enforced x)),
      (''keyFields'', JList (map JStr (ix_key_fields x)))]
     @ (if ix_key_field_types x = [] then []
        else [(''keyFieldTypes'', JList (map JStr (ix_key_field_types x)))])
     @ (if ix_source_indicator x = [] then []
        else [(''searchKeySourceIndicator'', JList (ix_source_indicator x))])
     @ filter (\<lambda>p. snd p \<noteq> JNull)
         [(''searchKeyElements'', ix_search_key_elements x),
          (''excludeUnknownKey'', ix_exclude_unknown_key x),
          (''gramLength'', ix_gram_length x), (''fullTextConfig'', ix_full_text_config x)]"

text \<open>\<open>isinstance(v, int)\<close> lets booleans through, as the source does.\<close>

definition int_tuple :: "json \<Rightarrow> json list" where
  "int_tuple v = (case v of JList xs \<Rightarrow> filter (\<lambda>x. as_int x \<noteq> None) xs | _ \<Rightarrow> [])"

definition str_tuple :: "json \<Rightarrow> string list" where
  "str_tuple v = (case v of JList xs \<Rightarrow> map py_str xs | _ \<Rightarrow> [])"

definition parse_index_detail_row :: "json \<Rightarrow> index_detail option" where
  "parse_index_detail_row row =
     (case row of
        JDict d \<Rightarrow>
          (case dget ''IndexName'' d of
             JStr name \<Rightarrow> Some
               \<lparr>ix_dataverse = dget ''DataverseName'' d, ix_dataset = dget ''DatasetName'' d,
                ix_name = name, ix_structure = py_str (dget_or ''IndexStructure'' (JStr []) d),
                ix_is_primary = truthy (dget ''IsPrimary'' d),
                ix_is_enforced = truthy (dget ''IsEnforced'' d),
                ix_key_fields = normalize_search_key (dget ''SearchKey'' d),
                ix_key_field_types = str_tuple (dget ''SearchKeyType'' d),
                ix_source_indicator = int_tuple (dget ''SearchKeySourceIndicator'' d),
                ix_search_key_elements = dget ''SearchKeyElements'' d,
                ix_exclude_unknown_key = dget ''ExcludeUnknownKey'' d,
                ix_gram_length = dget ''GramLength'' d,
                ix_full_text_config = dget ''FullTextConfig'' d\<rparr>
           | _ \<Rightarrow> None)
      | _ \<Rightarrow> None)"

text \<open>The parsed rows of a query, or nothing when the query fails with a gateway error.\<close>

definition fetch_parsed :: "cc_client \<Rightarrow> string \<Rightarrow> string \<Rightarrow> dict \<Rightarrow> (json \<Rightarrow> 'a option) \<Rightarrow> 'a list io" where
  "fetch_parsed c ccid statement params parse =
     io_bind
       (io_catch
         (io_bind (execute c statement (with_params ccid params)) (\<lambda>envelope. io_return (Some envelope)))
         (\<lambda>_. io_return None))
       (\<lambda>found. case found of
          None \<Rightarrow> io_return []
        | Some envelope \<Rightarrow>
            (case iter_or_empty (dget ''results'' envelope) of
               None \<Rightarrow> io_raise (PyExc ''TypeError'')
             | Some xs \<Rightarrow> io_return (List.map_filter parse xs)))"

definition fetch_indexes_detailed :: "cc_client \<Rightarrow> string \<Rightarrow> string \<Rightarrow> string option \<Rightarrow> index_detail list io" where
  "fetch_indexes_detailed c ccid dataverse dataset =
     (let statement = ''SELECT VALUE i FROM Metadata.`Index` i WHERE i.IsPrimary = false AND ''
            @ exclude_sample_sql @ '' AND i.DataverseName = $dv''
            @ (case dataset of None \<Rightarrow> [] | Some _ \<Rightarrow> '' AND i.DatasetName = $ds'') @ '';'';
          params = [(''dv'', JStr dataverse)]
            @ (case dataset of None \<Rightarrow> [] | Some ds \<Rightarrow> [(''ds'', JStr ds)])
      in fetch_parsed c ccid statement params parse_index_detail_row)"

definition fetch_secondary_indexes :: "cc_client \<Rightarrow> string \<Rightarrow> string option \<Rightarrow> secondary_index list io" where
  "fetch_secondary_indexes c ccid dataverse =
     (case dataverse of
        None \<Rightarrow> fetch_parsed c ccid all_secondary_indexes_query [] parse_index_row
      | Some dv \<Rightarrow>
          fetch_parsed c ccid
            (''SELECT VALUE i FROM Metadata.`Index` i WHERE i.IsPrimary = false AND ''
             @ exclude_sample_sql @ '' AND i.DataverseName = $dv;'')
            [(''dv'', JStr dv)] parse_index_row)"

section \<open>Schema transforms (get_schema.py, describe_dataverse.py)\<close>

definition columnar_hint :: string where
  "columnar_hint =
     ''Strongly prefer explicit field projection. SELECT * (or a bare full scan with no projection or WHERE) on a COLUMNAR dataset forces full column-group reconstruction and negates the columnar advantage. Such a query still runs, but it is flagged with a COLUMNAR_FULL_SCAN advisory and its output is minimized; project the columns you need or add a WHERE filter to run it faster and see more rows.''"

definition is_columnar :: "dict \<Rightarrow> bool" where
  "is_columnar record =
     (case dget ''DatasetFormat'' record of
        JDict block \<Rightarrow> lower (py_str (dget_or ''Format'' (JStr []) block)) = ''column''
      | _ \<Rightarrow> False)"

definition extract_dataset_format_info :: "dict \<Rightarrow> dict" where
  "extract_dataset_format_info record =
     (if is_columnar record
      then [(''format'', JStr ''COLUMNAR''), (''projectionHint'', JStr columnar_hint)]
      else [(''format'', JStr ''ROW'')])"

definition extract_primary_key :: "dict \<Rightarrow> string list" where
  "extract_primary_key record =
     (case dget ''InternalDetails'' record of
        JDict details \<Rightarrow> normalize_search_key (dget ''PrimaryKey'' details)
      | _ \<Rightarrow> [])"

definition extract_record_fields :: "dict \<Rightarrow> dict list" where
  "extract_record_fields datatype =
     map (\<lambda>f. [(''name'', dget ''FieldName'' f), (''type'', dget ''FieldType'' f),
               (''nullable'', JBool (truthy (dget ''IsNullable'' f)))])
       (dicts_of (list_or_empty (jget ''Fields'' (jget ''Record'' (dget ''Derived'' datatype)))))"

definition summarize_secondary_indexes :: "dict list \<Rightarrow> dict list" where
  "summarize_secondary_indexes indexes =
     map (\<lambda>i. [(''indexName'', dget ''IndexName'' i), (''indexType'', dget ''IndexStructure'' i),
               (''keyFields'', dget ''SearchKey'' i)])
       (filter (\<lambda>i. \<not> truthy (dget ''IsPrimary'' i) \<and> \<not> is_sample_index i) indexes)"

definition dataset_query :: string where
  "dataset_query =
     ''SELECT VALUE d FROM Metadata.`Dataset` d WHERE d.DataverseName = $dataverse AND d.DatasetName = $dataset;''"

definition datatype_query :: string where
  "datatype_query =
     ''SELECT VALUE t FROM Metadata.`Datatype` t WHERE t.DataverseName = $dataverse AND t.DatatypeName = $datatype;''"

definition index_query :: string where
  "index_query =
     ''SELECT VALUE i FROM Metadata.`Index` i WHERE i.DataverseName = $dataverse AND i.DatasetName = $dataset;''"

definition fetch_one :: "cc_client \<Rightarrow> string \<Rightarrow> string \<Rightarrow> dict \<Rightarrow> dict option io" where
  "fetch_one c ccid statement params =
     io_bind (fetch_rows c ccid statement params)
       (\<lambda>rows. io_return (case rows of [] \<Rightarrow> None | r # _ \<Rightarrow> Some r))"

definition not_found_hint :: "cc_client \<Rightarrow> string \<Rightarrow> string \<Rightarrow> string \<Rightarrow> string io" where
  "not_found_hint c ccid dataverse dataset =
     io_bind (fetch_dataset_rows c ccid) (\<lambda>rows. io_return (
       case resolve dataverse (dataverse_names rows) of
         (None, suggestions) \<Rightarrow>
           if suggestions = [] then []
           else '' Did you mean dataverse: '' @ join '', '' suggestions @ ''?''
       | (Some dv, _) \<Rightarrow>
           (case resolve dataset (dataset_names rows dv) of
              (_, suggestions) \<Rightarrow>
                if suggestions = [] then []
                else '' Did you mean: '' @ join '', '' suggestions @ ''?'')))"

lemma catalog_read_only [emits_intro]:
  "emits read_only (fetch_dataset_rows c ccid)"
  "emits read_only (fetch_parsed c ccid statement params parse)"
  "emits read_only (fetch_one c ccid statement params)"
  "emits read_only (not_found_hint c ccid dataverse dataset)"
  "emits read_only (fetch_indexes_detailed c ccid dataverse ds)"
  "emits read_only (fetch_secondary_indexes c ccid dv)"
  unfolding fetch_dataset_rows_def fetch_parsed_def fetch_one_def not_found_hint_def
    fetch_indexes_detailed_def fetch_secondary_indexes_def Let_def
  by (auto intro!: emits_intro)

text \<open>The rows of all data sets come from one fixed statement.\<close>

lemma dataset_rows_catalog: "emits (catalog_request c inventory_query) (fetch_dataset_rows c ccid)"
  unfolding fetch_dataset_rows_def fetch_rows_def
  by (intro emits_bind emits_lift emits_return execute_plain) (simp add: with_params_def query_defaults_def)

end
