(* ===== verification/Tenant_Policy.thy ===== *)
theory Tenant_Policy
  imports Catalog Plan_Parser
begin

text \<open>
  Who may read which dataverse, decided on the compiled plan (\<open>tenant_policy.py\<close>), and the
  advisory on unrestricted scans of columnar datasets (\<open>plan_guard.py\<close>).
\<close>

definition is_enforced :: "settings \<Rightarrow> bool" where
  "is_enforced s \<longleftrightarrow> (case dataverse_allowlist s of None \<Rightarrow> False | Some a \<Rightarrow> a \<noteq> [])"

definition allowed_dataverses :: "settings \<Rightarrow> string option \<Rightarrow> string list" where
  "allowed_dataverses s who =
     (case who of
        None \<Rightarrow> []
      | Some w \<Rightarrow>
          (case dataverse_allowlist s of
             None \<Rightarrow> []
           | Some a \<Rightarrow> (case map_of a w of None \<Rightarrow> [] | Some dvs \<Rightarrow> dvs)))"

definition sorted_set :: "string list \<Rightarrow> string list" where
  "sorted_set xs = sort (remdups xs)"

lemma set_sorted_set [simp]: "set (sorted_set xs) = set xs"
  by (simp add: sorted_set_def)

definition unresolved_message :: "string list \<Rightarrow> string" where
  "unresolved_message names =
     ''The compiled plan reads sources this gateway could not attribute to a dataverse (''
     @ join '', '' (sort names)
     @ ''), so they cannot be authorized. Qualify every name as Dataverse.Dataset, or pass a default dataverse.''"

definition denied_message :: "string list \<Rightarrow> string list \<Rightarrow> string list \<Rightarrow> string" where
  "denied_message denied touched allowed =
     ''This client is not permitted to read '' @ join '', '' denied
     @ ''. The compiled plan reads '' @ join '', '' (sorted_set touched)
     @ ''; permitted dataverses are ''
     @ (let p = join '', '' (sorted_set allowed) in if p = [] then ''none'' else p)
     @ ''. Note that views, synonyms and UDFs are resolved to the datasets they read, so a permitted name can still reach an unpermitted one.''"

definition no_plan_message :: string where
  "no_plan_message =
     ''This gateway could not obtain a compiled plan for the statement, so it cannot authorize what the statement would read. Nothing was executed.''"

definition check_sources :: "settings \<Rightarrow> string option \<Rightarrow> resolved_sources \<Rightarrow> exn + unit" where
  "check_sources s who resolved =
     (if \<not> is_enforced s then Inr ()
      else if rs_unresolved resolved \<noteq> []
      then Inl (GatewayExc (gerr FORBIDDEN (unresolved_message (rs_unresolved resolved))))
      else
        let allowed = allowed_dataverses s who;
            touched = map fst (rs_datasets resolved);
            denied = sorted_set (filter (\<lambda>dv. dv \<notin> set allowed) touched)
        in if denied = [] then Inr ()
           else Inl (GatewayExc (gerr FORBIDDEN (denied_message denied touched allowed))))"

definition check_compiled_plan :: "settings \<Rightarrow> string option \<Rightarrow> dict \<Rightarrow> string option \<Rightarrow> exn + unit" where
  "check_compiled_plan s who envelope dataverse =
     (if \<not> is_enforced s then Inr ()
      else if truthy (dget ''errors'' envelope) then Inr ()
      else case parse_optimized_plan (dget ''plans'' envelope) of
        None \<Rightarrow> Inl (GatewayExc (gerr FORBIDDEN no_plan_message))
      | Some parsed \<Rightarrow> check_sources s who (resolve_sources (pl_sources parsed) dataverse))"

definition authorize_statement ::
  "cc_client \<Rightarrow> settings \<Rightarrow> string \<Rightarrow> string option \<Rightarrow> string \<Rightarrow> unit io" where
  "authorize_statement c s statement dataverse ccid =
     (if \<not> is_enforced s then io_return ()
      else io_bind (compile_query c statement
             ((query_defaults ccid)\<lparr>qa_dataverse := dataverse, qa_emit_plan := True\<rparr>))
             (\<lambda>envelope. io_lift (check_compiled_plan s (cc_principal c) envelope dataverse)))"

section \<open>The columnar advisory (plan_guard.py)\<close>

record columnar_advisory =
  ca_datasets :: "string list"
  ca_message :: string

definition advisory_payload :: "columnar_advisory \<Rightarrow> dict" where
  "advisory_payload a =
     [(''type'', JStr ''COLUMNAR_FULL_SCAN''), (''datasets'', JList (map JStr (ca_datasets a))),
      (''message'', JStr (ca_message a))]"

definition advisory_message :: "string \<Rightarrow> string" where
  "advisory_message names =
     ''Query scanned the entire COLUMNAR dataset(s) '' @ names
     @ '' with no column projection or filter. Columnar storage is expensive to read whole, so this is slower and costlier than needed. The query still ran and results are below, but the output was minimized to protect the context window. To run it faster and see more rows, project only the columns you need (SELECT col1, col2, ... not SELECT *) or add a WHERE filter. Call get_schema to see the available columns.''"

definition full_name :: "string \<times> string \<Rightarrow> string" where
  "full_name p = fst p @ ''.'' @ snd p"

definition check_columnar_scan :: "parsed_plan \<Rightarrow> string list \<Rightarrow> columnar_advisory option" where
  "check_columnar_scan parsed columnar =
     (if columnar = [] then None
      else
        let scanned = filter (\<lambda>n. n \<in> set columnar)
              (map full_name (datasets_from_sources (pl_sources parsed) None));
            restricted = (map_of (pl_counts parsed) ''project'' \<noteq> None
                          \<or> map_of (pl_counts parsed) ''select'' \<noteq> None);
            ordered = sorted_set scanned
        in if scanned = [] then None
           else if restricted then None
           else Some \<lparr>ca_datasets = ordered, ca_message = advisory_message (join '', '' ordered)\<rparr>)"

definition format_query :: string where
  "format_query =
     ''SELECT VALUE d FROM Metadata.`Dataset` d WHERE d.DataverseName = $dv AND d.DatasetName = $ds;''"

text \<open>One lookup per dataset; a lookup that fails leaves its dataset out.\<close>

definition columnar_lookup :: "cc_client \<Rightarrow> string \<Rightarrow> string \<times> string \<Rightarrow> string list io" where
  "columnar_lookup c ccid p =
     io_bind
       (io_catch
         (io_bind (execute c format_query (with_params ccid [(''dv'', JStr (fst p)), (''ds'', JStr (snd p))]))
           (\<lambda>envelope. io_return (Some envelope)))
         (\<lambda>_. io_return None))
       (\<lambda>found. case found of
          None \<Rightarrow> io_return []
        | Some envelope \<Rightarrow>
            io_bind (io_lift (result_rows envelope)) (\<lambda>rows. io_return
              (case rows of
                 [] \<Rightarrow> []
               | r # _ \<Rightarrow> if dget ''format'' (extract_dataset_format_info r) = JStr ''COLUMNAR''
                          then [full_name p] else [])))"

definition columnar_datasets :: "cc_client \<Rightarrow> string \<Rightarrow> (string \<times> string) list \<Rightarrow> string list io" where
  "columnar_datasets c ccid pairs =
     io_bind (io_map_list (columnar_lookup c ccid) pairs) (\<lambda>found. io_return (concat found))"

definition assess_columnar_scan ::
  "cc_client \<Rightarrow> string \<Rightarrow> json \<Rightarrow> string option \<Rightarrow> columnar_advisory option io" where
  "assess_columnar_scan c ccid plans default_dataverse =
     (case parse_optimized_plan plans of
        None \<Rightarrow> io_return None
      | Some parsed \<Rightarrow>
          let datasets = datasets_from_sources (pl_sources parsed) default_dataverse
          in if datasets = [] then io_return None
             else io_bind (columnar_datasets c ccid datasets)
                    (\<lambda>columnar. io_return (check_columnar_scan parsed columnar)))"

section \<open>Authorization fails closed\<close>

lemma check_sources_iff:
  "is_enforced s \<Longrightarrow> check_sources s who (resolve_sources sources dflt) = Inr () \<longleftrightarrow>
     (\<forall>src \<in> set sources. \<exists>dv ds. source_pair dflt src = Some (dv, ds)
        \<and> dv \<in> set (allowed_dataverses s who))"
proof -
  assume enforced: "is_enforced s"
  let ?r = "resolve_sources sources dflt"
  have un: "rs_unresolved ?r = [] \<longleftrightarrow> (\<forall>src \<in> set sources. source_pair dflt src \<noteq> None)"
    using resolve_go_spec [OF refl, of "[]" "[]" dflt sources]
    by (auto simp: resolve_sources_def simp flip: set_empty)
  have ds: "set (rs_datasets ?r) = {p. \<exists>s \<in> set sources. source_pair dflt s = Some p}"
    using resolve_go_spec [OF refl, of "[]" "[]" dflt sources] by (simp add: resolve_sources_def)
  have empty: "sorted_set xs = [] \<longleftrightarrow> set xs = {}" for xs
    by (metis set_sorted_set set_empty)
  have "check_sources s who ?r = Inr () \<longleftrightarrow>
      rs_unresolved ?r = [] \<and> (\<forall>p \<in> set (rs_datasets ?r). fst p \<in> set (allowed_dataverses s who))"
    using enforced by (auto simp: check_sources_def Let_def empty)
  then show ?thesis unfolding un ds by force
qed

text \<open>
  C1. Authorization fails closed: with an allowlist configured, an error-free compiled plan is
  admitted only if it was parsed and every data source of every operator in it resolves to a
  dataverse on the caller's own list; a caller without an identity or without an entry is
  admitted to no data source at all, and every refusal is FORBIDDEN.
\<close>

theorem plan_authorization_fails_closed:
  assumes "is_enforced s" and "\<not> truthy (dget ''errors'' envelope)"
  shows "(check_compiled_plan s who envelope dv = Inr () \<longleftrightarrow>
       (\<exists>parsed. parse_optimized_plan (dget ''plans'' envelope) = Some parsed
          \<and> (\<forall>op \<in> set (operators_of (pl_root parsed)). \<forall>src. po_data_source op = Some src \<longrightarrow>
               (\<exists>d ds. source_pair dv src = Some (d, ds) \<and> d \<in> set (allowed_dataverses s who)))))
     \<and> (\<forall>e. check_compiled_plan s who envelope dv = Inl e \<longrightarrow>
          (\<exists>g. e = GatewayExc g \<and> ge_type g = FORBIDDEN))
     \<and> allowed_dataverses s None = []"
proof -
  have admitted: "check_sources s who (resolve_sources (pl_sources p) dv) = Inr () \<longleftrightarrow>
      (\<forall>op \<in> set (operators_of (pl_root p)). \<forall>src. po_data_source op = Some src \<longrightarrow>
         (\<exists>d ds. source_pair dv src = Some (d, ds) \<and> d \<in> set (allowed_dataverses s who)))"
    if "parse_optimized_plan (dget ''plans'' envelope) = Some p" for p
    using parse_plan_sources that unfolding parse_optimized_plan_def check_sources_iff [OF assms(1)]
    by fastforce
  have forbidden: "check_sources s who r = Inl e \<Longrightarrow> \<exists>g. e = GatewayExc g \<and> ge_type g = FORBIDDEN" for r e
    by (auto simp: check_sources_def Let_def split: if_splits)
  show ?thesis
    using assms admitted forbidden
    by (auto simp: check_compiled_plan_def allowed_dataverses_def split: option.splits)
qed

definition tenant_settings :: settings where
  "tenant_settings = default_settings\<lparr>dataverse_allowlist := Some [(''alice'', [''Yelp''])]\<rparr>"

theorem plan_authorization_fails_closed_witness:
  "check_compiled_plan tenant_settings (Some ''alice'') [(''plans'', sample_plan)] None = Inr ()
   \<and> (\<exists>e. check_compiled_plan tenant_settings None [(''plans'', sample_plan)] None = Inl e)"
proof -
  have enf: "is_enforced tenant_settings" by (simp add: is_enforced_def tenant_settings_def)
  have noerr: "\<not> truthy (dget ''errors'' [(''plans'', sample_plan)])" by simp
  have plan: "parse_optimized_plan (dget ''plans'' [(''plans'', sample_plan)]) = Some
     \<lparr>pl_root = PlanOperator (Some ''select'') None None None [] [sample_scan, sample_scan],
      pl_counts = [(''select'', 1), (''data-scan'', 2)], pl_sources = [''Yelp.Business''], pl_depth = 2\<rparr>"
    using parse_sample_plan by (simp add: parse_optimized_plan_def optimized_plan_key_def)
  have pair: "source_pair None ''Yelp.Business'' = Some (''Yelp'', ''Business'')" by code_simp
  have tree: "operators_of (PlanOperator (Some ''select'') None None None [] [sample_scan, sample_scan])
      = [PlanOperator (Some ''select'') None None None [] [sample_scan, sample_scan], sample_scan, sample_scan]"
    by (simp add: operators_of.simps sample_scan_def)
  have "check_compiled_plan tenant_settings (Some ''alice'') [(''plans'', sample_plan)] None = Inr ()"
    using plan_authorization_fails_closed [OF enf noerr, of "Some ''alice''" None] plan pair tree
    by (auto simp: sample_scan_def allowed_dataverses_def tenant_settings_def)
  moreover have "check_compiled_plan tenant_settings None [(''plans'', sample_plan)] None \<noteq> Inr ()"
    using plan_authorization_fails_closed [OF enf noerr, of None None] plan tree
    by (auto simp: sample_scan_def allowed_dataverses_def)
  ultimately show ?thesis
    by (cases "check_compiled_plan tenant_settings None [(''plans'', sample_plan)] None") auto
qed

text \<open>An allowlist that is set but empty switches the enforcement off.\<close>

lemma empty_allowlist_not_enforced: "\<not> is_enforced (default_settings\<lparr>dataverse_allowlist := Some []\<rparr>)"
  by (simp add: is_enforced_def)

lemma authorize_statement_read_only [emits_intro]:
  "emits read_only (authorize_statement c s statement dataverse ccid)"
  unfolding authorize_statement_def by (auto intro!: emits_intro)

lemma assess_columnar_scan_read_only [emits_intro]:
  "emits read_only (assess_columnar_scan c ccid plans dv)"
  unfolding assess_columnar_scan_def columnar_datasets_def columnar_lookup_def Let_def
  by (auto intro!: emits_intro)

lemma in_datasets_from_sources:
  "p \<in> set (datasets_from_sources sources dflt) \<longleftrightarrow> (\<exists>s \<in> set sources. source_pair dflt s = Some p)"
  using resolve_go_spec [OF refl, of "[]" "[]" dflt sources]
  by (simp add: datasets_from_sources_def resolve_sources_def)

definition scans_columnar :: "parsed_plan \<Rightarrow> string list \<Rightarrow> string \<Rightarrow> bool" where
  "scans_columnar parsed columnar n \<longleftrightarrow>
     n \<in> set columnar \<and> (\<exists>op \<in> set (operators_of (pl_root parsed)). \<exists>src dv ds.
        po_data_source op = Some src \<and> source_pair None src = Some (dv, ds) \<and> n = full_name (dv, ds))"

text \<open>
  The columnar advisory is raised exactly for unrestricted scans: some operator of the plan
  reads a qualified source that is in the list of columnar datasets and no operator projects or
  selects; the datasets it names are then precisely those, each once and in order. (A source
  without its dataverse is never flagged, whatever the default dataverse.)
\<close>

theorem columnar_advisory_iff:
  assumes "parse_plan plans key = Some parsed"
  shows "(case check_columnar_scan parsed columnar of
      None \<Rightarrow> (\<forall>n. \<not> scans_columnar parsed columnar n)
        \<or> (\<exists>op \<in> set (operators_of (pl_root parsed)). po_kind op \<in> {Some ''project'', Some ''select''})
    | Some a \<Rightarrow> (\<exists>n. scans_columnar parsed columnar n) \<and> set (ca_datasets a) = {n. scans_columnar parsed columnar n} \<and> sorted (ca_datasets a)
        \<and> distinct (ca_datasets a)
        \<and> (\<forall>op \<in> set (operators_of (pl_root parsed)). po_kind op \<notin> {Some ''project'', Some ''select''}))"
proof -
  let ?hit = "scans_columnar parsed columnar"
  let ?scanned = "filter (\<lambda>n. n \<in> set columnar)
      (map full_name (datasets_from_sources (pl_sources parsed) None))"
  have hits: "n \<in> set ?scanned \<longleftrightarrow> ?hit n" for n
    using parse_plan_sources [OF assms(1)] unfolding scans_columnar_def
    by (force simp: in_datasets_from_sources)
  have restricted: "(map_of (pl_counts parsed) ''project'' \<noteq> None \<or> map_of (pl_counts parsed) ''select'' \<noteq> None)
      \<longleftrightarrow> (\<exists>op \<in> set (operators_of (pl_root parsed)). po_kind op \<in> {Some ''project'', Some ''select''})"
    using parse_plan_summary_counts [OF assms(1)] by blast
  have srt: "sorted (sorted_set xs)" "distinct (sorted_set xs)" for xs
    by (simp_all add: sorted_set_def)
  have none: "columnar = [] \<Longrightarrow> \<not> ?hit n" for n by (simp add: scans_columnar_def)
  show ?thesis
  proof (cases "columnar = [] \<or> ?scanned = []")
    case True
    then have "check_columnar_scan parsed columnar = None" by (auto simp: check_columnar_scan_def Let_def)
    moreover have "\<not> ?hit n" for n
    proof (cases "columnar = []")
      case False
      then have "n \<notin> set ?scanned" using True by (metis empty_iff list.set(1))
      then show ?thesis unfolding hits .
    qed (rule none)
    ultimately show ?thesis by simp
  next
    case False
    then obtain m where m: "?hit m" using hits by (metis list.set_intros(1) neq_Nil_conv)
    have setq: "set (sorted_set ?scanned) = {n. ?hit n}" using hits by auto
    show ?thesis
    proof (cases "map_of (pl_counts parsed) ''project'' \<noteq> None \<or> map_of (pl_counts parsed) ''select'' \<noteq> None")
      case True
      then have "check_columnar_scan parsed columnar = None"
        by (simp only: check_columnar_scan_def Let_def if_True if_cancel)
      then show ?thesis using True restricted by simp
    next
      case unrestricted: False
      then have "check_columnar_scan parsed columnar = Some
          \<lparr>ca_datasets = sorted_set ?scanned, ca_message = advisory_message (join '', '' (sorted_set ?scanned))\<rparr>"
        using False by (simp add: check_columnar_scan_def Let_def)
      moreover have "\<exists>n. scans_columnar parsed columnar n" using m by blast
      ultimately show ?thesis using setq srt unrestricted restricted by simp
    qed
  qed
qed

theorem columnar_advisory_iff_witness:
  "\<exists>p. parse_plan (JDict [(''k'', JDict [(''operator'', JStr ''data-scan''), (''data-source'', JStr ''Y.B'')])]) ''k''
       = Some p \<and> check_columnar_scan p [''Y.B''] \<noteq> None"
proof -
  let ?p = "\<lparr>pl_root = PlanOperator (Some ''data-scan'') None None (Some ''Y.B'') [] [],
      pl_counts = [(''data-scan'', 1)], pl_sources = [''Y.B''], pl_depth = 1\<rparr>"
  have p: "parse_plan (JDict [(''k'', JDict [(''operator'', JStr ''data-scan''), (''data-source'', JStr ''Y.B'')])]) ''k''
       = Some ?p"
    by (simp add: parse_plan_def parse_node.simps node_inputs_def list_or_empty_def
      dict_or_empty_def extract_predicates_def strings_of_def map_filter_simps collect.simps bump_def
      note_source_def depth.simps)
  have pair: "source_pair None ''Y.B'' = Some (''Y'', ''B'')" by code_simp
  have "scans_columnar ?p [''Y.B''] ''Y.B''"
    using pair by (simp add: scans_columnar_def operators_of.simps full_name_def)
  then have "check_columnar_scan ?p [''Y.B''] \<noteq> None"
    using columnar_advisory_iff [OF p, of "[''Y.B'']"]
    by (auto simp: operators_of.simps split: option.splits)
  then show ?thesis using p by blast
qed

end
