(* ===== verification/Claims.thy ===== *)
theory Claims
  imports Py_Value
begin

text \<open>
  The claims a note makes (\<open>claims.py\<close>): which numbers stand near which words. A number is
  the text \<open>str(float(raw))\<close>, a set of numbers or labels a list without repetition whose order
  never matters to a caller, and a \<open>dict[str, set[str]]\<close> an association list of such lists. The
  rendering of floats is exact for decimals of at most fifteen significant digits that Python
  prints without an exponent.
\<close>

definition number_re :: re where
  "number_re = seqs [Opt (lit ''-''), Plus Digit, Opt (Seq (lit ''.'') (Plus Digit))]"

definition label_char :: "char \<Rightarrow> bool" where
  "label_char c \<longleftrightarrow> is_alpha_ascii c \<or> c = CHR ''_''"

definition label_re :: re where
  "label_re = seqs [Cls is_alpha_ascii, Cls label_char, Cls label_char, Star (Cls label_char)]"

definition segment_re :: re where
  "segment_re = Alt (Cls (\<lambda>c. c = CHR '','' \<or> c = CHR '';'' \<or> c = CHR 0x0A)) (Seq (lit ''.'') Space)"

definition context_chars :: nat where
  "context_chars = 30"

definition stopwords :: "string list" where
  "stopwords =
     [''the'', ''and'', ''for'', ''with'', ''not'', ''are'', ''was'', ''this'', ''that'', ''from'',
      ''use'', ''using'', ''into'', ''have'', ''has'']"

definition string_words :: "string list" where
  "string_words = [''string'', ''strings'', ''text'', ''textual'', ''varchar'']"

definition number_words :: "string list" where
  "number_words = [''number'', ''numbers'', ''numeric'', ''integer'', ''int'', ''double'', ''float'']"

section \<open>Numbers\<close>

definition split_sign :: "string \<Rightarrow> bool \<times> string" where
  "split_sign raw = (case raw of c # cs \<Rightarrow> if c = CHR ''-'' then (True, cs) else (False, raw)
                               | [] \<Rightarrow> (False, []))"

definition or_zero :: "string \<Rightarrow> string" where
  "or_zero s = (if s = [] then ''0'' else s)"

definition normalize_number :: "string \<Rightarrow> string" where
  "normalize_number raw =
     (let (negative, body) = split_sign raw;
          (whole, _, fraction) = partition_on ''.'' body
      in (if negative then ''-'' else []) @ or_zero (strip_left_by (\<lambda>c. c = CHR ''0'') whole)
         @ ''.'' @ or_zero (strip_right_by (\<lambda>c. c = CHR ''0'') fraction))"

text \<open>\<open>float(v)\<close> of such a text.\<close>

definition number_value :: "string \<Rightarrow> rat" where
  "number_value v =
     (let (negative, body) = split_sign v;
          (whole, _, fraction) = partition_on ''.'' body;
          a = of_nat (read_digits whole) + of_nat (read_digits fraction) / 10 ^ length fraction
      in if negative then - a else a)"

section \<open>Claims\<close>

definition label_words :: "string \<Rightarrow> string list" where
  "label_words text_part = map lower (re_findall label_re text_part)"

definition window :: "string \<Rightarrow> nat \<Rightarrow> nat \<Rightarrow> string" where
  "window s from_pos to_pos =
     take (to_pos + context_chars - (from_pos - context_chars)) (drop (from_pos - context_chars) s)"

definition labels_near :: "string \<Rightarrow> nat \<Rightarrow> nat \<Rightarrow> string list" where
  "labels_near s from_pos to_pos =
     filter (\<lambda>w. w \<notin> set stopwords) (remdups (label_words (window s from_pos to_pos)))"

type_synonym claims = "(string \<times> string list) list"

definition claim_values :: "string \<Rightarrow> claims \<Rightarrow> string list" where
  "claim_values label cl = (case map_of cl label of Some vs \<Rightarrow> vs | None \<Rightarrow> [])"

definition add_claims :: "string list \<Rightarrow> string \<Rightarrow> claims \<Rightarrow> claims" where
  "add_claims new_values label cl =
     dict_set label (remdups (claim_values label cl @ new_values)) cl"

definition claims_of_match :: "string \<Rightarrow> claims \<Rightarrow> re_match \<Rightarrow> claims" where
  "claims_of_match s cl m =
     foldl (\<lambda>d label. add_claims [normalize_number (match_text m)] label d) cl
       (labels_near s (match_start m) (match_end m))"

definition collect_claims :: "claims \<Rightarrow> string \<Rightarrow> claims" where
  "collect_claims cl s = foldl (claims_of_match s) cl (re_finditer number_re s)"

definition numeric_claims :: "string \<Rightarrow> claims" where
  "numeric_claims s = collect_claims [] s"

definition segment_claims :: "string \<Rightarrow> claims" where
  "segment_claims s = foldl collect_claims [] (re_split segment_re s)"

text \<open>Called with the values of one label, so neither list is empty.\<close>

definition in_range :: "string list \<Rightarrow> string \<Rightarrow> bool" where
  "in_range old v \<longleftrightarrow>
     Min (number_value ` set old) \<le> number_value v \<and> number_value v \<le> Max (number_value ` set old)"

definition values_conflict :: "string list \<Rightarrow> string list \<Rightarrow> bool" where
  "values_conflict new old \<longleftrightarrow>
     (\<forall>v \<in> set new. v \<notin> set old) \<and> (\<exists>v \<in> set new. \<not> in_range old v)"

definition fmt_values :: "string list \<Rightarrow> string" where
  "fmt_values vs = join '', '' (sort_key number_value vs)"

section \<open>Lemmas\<close>

lemma map_of_add_claims:
  "map_of (add_claims vs l cl) l' =
     (if l' = l then Some (remdups (claim_values l cl @ vs)) else map_of cl l')"
  by (simp add: add_claims_def)

lemma claim_values_add:
  "set (claim_values l' (add_claims vs l cl)) =
     set (claim_values l' cl) \<union> (if l' = l then set vs else {})"
  by (auto simp: claim_values_def map_of_add_claims split: option.splits)

text \<open>What a claim table says, as a relation between labels and values.\<close>

definition claimed :: "claims \<Rightarrow> (string \<times> string) set" where
  "claimed cl = {(l, v). v \<in> set (claim_values l cl)}"

lemma claimed_Nil [simp]: "claimed [] = {}"
  by (simp add: claimed_def claim_values_def)

lemma claimed_add: "claimed (add_claims vs l cl) = claimed cl \<union> {l} \<times> set vs"
  by (auto simp: claimed_def claim_values_add split: if_splits)

lemma claimed_fold_labels:
  "claimed (foldl (\<lambda>d label. add_claims vs label d) cl ls) = claimed cl \<union> set ls \<times> set vs"
  by (subst foldl_union [where g = claimed and h = "\<lambda>l. {l} \<times> set vs"]) (auto simp: claimed_add)

lemma claimed_match:
  "claimed (claims_of_match s cl m) =
     claimed cl \<union> set (labels_near s (match_start m) (match_end m)) \<times> {normalize_number (match_text m)}"
  by (simp add: claims_of_match_def claimed_fold_labels)

text \<open>The claims of one clause: every number of it under every label near it.\<close>

definition clause_claims :: "string \<Rightarrow> (string \<times> string) set" where
  "clause_claims s = (\<Union>m \<in> set (re_finditer number_re s).
     set (labels_near s (match_start m) (match_end m)) \<times> {normalize_number (match_text m)})"

lemma claimed_collect: "claimed (collect_claims cl s) = claimed cl \<union> clause_claims s"
  unfolding collect_claims_def clause_claims_def by (rule foldl_union) (rule claimed_match)

lemma claimed_numeric: "claimed (numeric_claims s) = clause_claims s"
  by (simp add: numeric_claims_def claimed_collect)

lemma claimed_segments: "claimed (segment_claims s) = (\<Union>t \<in> set (re_split segment_re s). clause_claims t)"
  unfolding segment_claims_def
  by (subst foldl_union [where g = claimed and h = clause_claims]) (simp_all add: claimed_collect)

text \<open>Every label of a table carries a value.\<close>

definition full_claims :: "claims \<Rightarrow> bool" where
  "full_claims cl \<longleftrightarrow> (\<forall>p \<in> set cl. snd p \<noteq> [])"

lemma full_Nil [simp]: "full_claims []"
  by (simp add: full_claims_def)

lemma full_set: "w \<noteq> [] \<Longrightarrow> full_claims cl \<Longrightarrow> full_claims (dict_set l w cl)"
  by (induction cl) (auto simp: full_claims_def)

lemma full_add: "vs \<noteq> [] \<Longrightarrow> full_claims cl \<Longrightarrow> full_claims (add_claims vs l cl)"
  unfolding add_claims_def by (rule full_set) (simp_all del: remdups_append2)

lemma full_collect: "full_claims cl \<Longrightarrow> full_claims (collect_claims cl s)"
  unfolding collect_claims_def claims_of_match_def
  by (intro foldl_invariant [where P = full_claims] full_add) simp_all

lemma full_segments: "full_claims (segment_claims s)"
  unfolding segment_claims_def
  by (intro foldl_invariant [where P = full_claims] full_collect) simp_all

lemma full_claimsD: "full_claims cl \<Longrightarrow> map_of cl l = Some vs \<Longrightarrow> vs \<noteq> []"
  using map_of_SomeD [of cl l vs] by (auto simp: full_claims_def)

lemma values_conflict_irrefl: "\<not> values_conflict vs vs"
  by (auto simp: values_conflict_def)

lemma in_range_member: "v \<in> set old \<Longrightarrow> in_range old v"
  by (simp add: in_range_def)

lemma values_conflict_swap_singletons:
  "values_conflict [a] [b] \<longleftrightarrow> a \<noteq> b \<and> number_value a \<noteq> number_value b"
  by (auto simp: values_conflict_def in_range_def)

section \<open>Normal numbers are equal when their values are\<close>

lemma digit_value_inj: "is_digit c \<Longrightarrow> is_digit d \<Longrightarrow> digit_value c = digit_value d \<longleftrightarrow> c = d"
  by (auto simp: is_digit_def digit_value_def code_def le_imp_diff_is_add)

lemma digit_char_value [simp]: "is_digit c \<Longrightarrow> digit_char (digit_value c) = c"
  by (simp add: is_digit_def digit_value_def digit_char_def code_def)

lemma digit_value_less: "is_digit c \<Longrightarrow> digit_value c < 10"
  by (auto simp: is_digit_def digit_value_def)

lemma digit_value_0_iff: "is_digit c \<Longrightarrow> digit_value c = 0 \<longleftrightarrow> c = CHR ''0''"
  using digit_value_inj [of c "CHR ''0''"] by (simp add: is_digit_def digit_value_def code_def)

definition all_digits :: "string \<Rightarrow> bool" where
  "all_digits s \<longleftrightarrow> (\<forall>c \<in> set s. is_digit c)"

lemma all_digits_simps [simp]:
  "all_digits []" "all_digits (c # s) \<longleftrightarrow> is_digit c \<and> all_digits s"
  "all_digits (s @ t) \<longleftrightarrow> all_digits s \<and> all_digits t"
  by (auto simp: all_digits_def)

lemma read_digits_0_iff:
  "all_digits w \<Longrightarrow> read_digits w = 0 \<longleftrightarrow> strip_left_by (\<lambda>c. c = CHR ''0'') w = []"
proof (induction w rule: rev_induct)
  case (snoc c w)
  then show ?case by (auto simp: read_digits_snoc digit_value_0_iff strip_left_by_def)
qed (simp add: read_digits_def strip_left_by_def)

text \<open>Without its leading zeros a run of digits is the decimal text of its number.\<close>

lemma show_read_digits:
  "all_digits w \<Longrightarrow> show_nat (read_digits w) = or_zero (strip_left_by (\<lambda>c. c = CHR ''0'') w)"
proof (induction w rule: rev_induct)
  case Nil
  then show ?case by (simp add: read_digits_def show_number or_zero_def strip_left_by_def)
next
  case (snoc c w)
  let ?z = "strip_left_by (\<lambda>c. c = CHR ''0'')"
  have c: "is_digit c" "digit_value c < 10" using snoc.prems digit_value_less by auto
  have app: "?z (w @ [c]) = (if ?z w = [] then (if c = CHR ''0'' then [] else [c]) else ?z w @ [c])"
    by (auto simp: strip_left_by_def dropWhile_append)
  show ?case
  proof (cases "read_digits w = 0")
    case True
    then have "?z w = []" using snoc.prems read_digits_0_iff by simp
    then show ?thesis
      using True c app by (subst show_nat.simps) (auto simp: read_digits_snoc or_zero_def digit_chars)
  next
    case False
    then have "?z w \<noteq> []" using snoc.prems read_digits_0_iff [of w] by simp
    then show ?thesis
      using False c app snoc
      by (subst show_nat.simps) (auto simp: read_digits_snoc or_zero_def)
  qed
qed

definition fraction_value :: "string \<Rightarrow> rat" where
  "fraction_value f = of_nat (read_digits f) / 10 ^ length f"

lemma read_digits_Cons: "read_digits (c # f) = digit_value c * 10 ^ length f + read_digits f"
proof (induction f rule: rev_induct)
  case (snoc d f)
  have "read_digits ((c # f) @ [d]) = 10 * read_digits (c # f) + digit_value d"
    by (rule read_digits_snoc)
  then show ?case using snoc by (simp add: read_digits_snoc algebra_simps)
qed (simp add: read_digits_def)

lemma fraction_Nil [simp]: "fraction_value [] = 0"
  by (simp add: fraction_value_def read_digits_def)

lemma fraction_Cons: "fraction_value (c # f) = (of_nat (digit_value c) + fraction_value f) / 10"
  by (simp add: fraction_value_def read_digits_Cons field_simps)

lemma fraction_bounds: "all_digits f \<Longrightarrow> 0 \<le> fraction_value f \<and> fraction_value f < 1"
proof (induction f)
  case (Cons c f)
  have "digit_value c \<le> 9" using Cons.prems digit_value_less [of c] by simp
  then have "(of_nat (digit_value c) :: rat) \<le> of_nat 9" by (simp only: of_nat_le_iff)
  with Cons show ?case by (simp add: fraction_Cons)
qed simp

text \<open>Two fractions of the same value are the same digits up to trailing zeros.\<close>

lemma fraction_0:
  "all_digits f \<Longrightarrow> fraction_value f = 0 \<Longrightarrow> strip_right_by (\<lambda>c. c = CHR ''0'') f = []"
proof (induction f)
  case (Cons c f)
  have "0 \<le> fraction_value f" using Cons.prems fraction_bounds by simp
  moreover have "of_nat (digit_value c) + fraction_value f = 0"
    using Cons.prems by (simp add: fraction_Cons)
  moreover have "(0::rat) \<le> of_nat (digit_value c)" by simp
  ultimately have "of_nat (digit_value c) = (0::rat)" "fraction_value f = 0" by linarith+
  then show ?case
    using Cons by (simp add: digit_value_0_iff strip_right_by_Nil_iff)
qed (simp add: strip_right_by_def)

lemma strip_right_Cons:
  "strip_right_by p (c # f) =
     (if strip_right_by p f = [] then (if p c then [] else [c]) else c # strip_right_by p f)"
  by (auto simp: strip_right_by_def dropWhile_append)

lemma fraction_eq:
  "all_digits f \<Longrightarrow> all_digits g \<Longrightarrow> fraction_value f = fraction_value g \<Longrightarrow>
   strip_right_by (\<lambda>c. c = CHR ''0'') f = strip_right_by (\<lambda>c. c = CHR ''0'') g"
proof (induction f arbitrary: g)
  case Nil
  then show ?case using fraction_0 [of g] by (simp add: strip_right_by_def)
next
  case (Cons c f)
  show ?case
  proof (cases g)
    case Nil
    then show ?thesis using fraction_0 [OF Cons.prems(1)] Cons.prems(3) by (simp add: strip_right_by_def)
  next
    case g: (Cons d g')
    have sum: "of_nat (digit_value c) + fraction_value f = of_nat (digit_value d) + fraction_value g'"
      using Cons.prems g by (simp add: fraction_Cons)
    have "fraction_value f - fraction_value g' = of_int (int (digit_value d) - int (digit_value c))"
      using sum by simp
    moreover have "\<bar>fraction_value f - fraction_value g'\<bar> < 1"
      using fraction_bounds [of f] fraction_bounds [of g'] Cons.prems g by auto
    ultimately have "int (digit_value d) - int (digit_value c) = 0" by linarith
    then have "digit_value c = digit_value d" by simp
    then have "c = d" "fraction_value f = fraction_value g'"
      using sum Cons.prems g digit_value_inj by auto
    then show ?thesis using Cons g by (simp add: strip_right_Cons)
  qed
qed

text \<open>A text that \<open>NUMBER_RE\<close> matches: a sign, digits, and possibly a point with more digits.\<close>

definition number_text :: "string \<Rightarrow> bool" where
  "number_text s \<longleftrightarrow>
     (case partition_on ''.'' (snd (split_sign s)) of
        (w, _, f) \<Rightarrow> w \<noteq> [] \<and> all_digits w \<and> all_digits f)"

lemma fraction_strip:
  "all_digits f \<Longrightarrow> fraction_value (strip_right_by (\<lambda>c. c = CHR ''0'') f) = fraction_value f"
proof (induction f)
  case (Cons c f)
  have "strip_right_by (\<lambda>c. c = CHR ''0'') f = [] \<Longrightarrow> fraction_value f = 0"
    using Cons by (metis all_digits_simps(2) fraction_Nil)
  then show ?case
    using Cons by (auto simp: strip_right_Cons fraction_Cons digit_value_0_iff)
qed (simp add: strip_right_by_def)

lemma magnitude_eq:
  assumes "all_digits f" "all_digits g"
  shows "of_nat m + fraction_value f = of_nat n + fraction_value g \<longleftrightarrow>
     m = n \<and> fraction_value f = fraction_value g"
proof -
  have "m = n" if "of_nat m + fraction_value f = of_nat n + fraction_value g"
  proof -
    have "fraction_value f - fraction_value g = of_int (int n - int m)" using that by simp
    moreover have "\<bar>fraction_value f - fraction_value g\<bar> < 1"
      using fraction_bounds [OF assms(1)] fraction_bounds [OF assms(2)] by auto
    ultimately have "int n - int m = 0" by linarith
    then show "m = n" by simp
  qed
  then show ?thesis by auto
qed

lemma or_zero_fraction_eq:
  assumes "all_digits f" "all_digits g"
  shows "or_zero (strip_right_by (\<lambda>c. c = CHR ''0'') f) = or_zero (strip_right_by (\<lambda>c. c = CHR ''0'') g)
    \<longleftrightarrow> fraction_value f = fraction_value g"
proof
  let ?z = "\<lambda>f. strip_right_by (\<lambda>c. c = CHR ''0'') f"
  assume eq: "or_zero (?z f) = or_zero (?z g)"
  have "?z h \<noteq> ''0''" for h
    using last_strip_right_by [of "\<lambda>c. c = CHR ''0''" h] by auto
  then have "?z f = ?z g" using eq by (auto simp: or_zero_def split: if_splits)
  then show "fraction_value f = fraction_value g"
    using fraction_strip [OF assms(1)] fraction_strip [OF assms(2)] by simp
qed (use fraction_eq [OF assms] in simp)

lemma digits_dot_eq:
  "all_digits x \<Longrightarrow> all_digits y \<Longrightarrow> x @ CHR ''.'' # u = y @ CHR ''.'' # v \<longleftrightarrow> x = y \<and> u = v"
proof (induction x arbitrary: y)
  case Nil
  then show ?case by (cases y) (auto simp: is_digit_def code_def)
next
  case (Cons c x)
  then show ?case by (cases y) (auto simp: is_digit_def code_def)
qed

lemma all_digits_show: "all_digits (show_nat n)"
  using show_nat_digits by (simp add: all_digits_def)

lemma show_nat_eq: "show_nat m = show_nat n \<longleftrightarrow> m = n"
  by (metis read_show_nat)

definition normal_text :: "bool \<Rightarrow> string \<Rightarrow> string \<Rightarrow> string" where
  "normal_text negative w f =
     (if negative then ''-'' else []) @ show_nat (read_digits w)
     @ CHR ''.'' # or_zero (strip_right_by (\<lambda>c. c = CHR ''0'') f)"

lemma normal_text_eq:
  assumes "all_digits f" "all_digits g"
  shows "normal_text n v f = normal_text m w g \<longleftrightarrow>
    n = m \<and> read_digits v = read_digits w \<and> fraction_value f = fraction_value g"
proof -
  have hd: "hd (show_nat k) \<noteq> CHR ''-''" for k
    using show_nat_digits [of k] hd_in_set [OF show_nat_not_Nil, of k] is_digit_not_sign by blast
  have "CHR ''-'' # u \<noteq> show_nat k @ t" for u k t
    using hd [of k] by (metis hd_append2 list.sel(1) show_nat_not_Nil)
  then have "normal_text n v f = normal_text m w g \<longleftrightarrow> n = m \<and>
      show_nat (read_digits v) @ CHR ''.'' # or_zero (strip_right_by (\<lambda>c. c = CHR ''0'') f)
      = show_nat (read_digits w) @ CHR ''.'' # or_zero (strip_right_by (\<lambda>c. c = CHR ''0'') g)"
    unfolding normal_text_def by (cases n; cases m) (simp_all, metis)
  then show ?thesis
    by (simp only: digits_dot_eq [OF all_digits_show all_digits_show]
        or_zero_fraction_eq [OF assms] show_nat_eq)
qed

text \<open>
  Two numbers written in a note have the same normal form exactly when they denote the same
  value and carry the same sign: \<open>1\<close>, \<open>01\<close> and \<open>1.0\<close> are one value and no two different values are
  ever confused. (The sign matters for zero only: \<open>-0\<close> is a float of its own.)
\<close>

theorem normalize_number_by_value:
  assumes "number_text a" and "number_text b"
  shows "normalize_number a = normalize_number b \<longleftrightarrow>
    number_value a = number_value b \<and> starts_with a ''-'' = starts_with b ''-''"
proof -
  obtain n x where a: "split_sign a = (n, x)" by fastforce
  obtain v d f where x: "partition_on ''.'' x = (v, d, f)" by (rule prod_cases3)
  obtain m y where b: "split_sign b = (m, y)" by fastforce
  obtain w e g where y: "partition_on ''.'' y = (w, e, g)" by (rule prod_cases3)
  have digits: "all_digits v" "all_digits f" "all_digits w" "all_digits g"
    using assms a b x y by (auto simp: number_text_def)
  have sign: "starts_with s ''-'' = fst (split_sign s)" for s
    by (cases s) (auto simp: split_sign_def)
  have "normalize_number a = normal_text n v f" "normalize_number b = normal_text m w g"
    using digits a b x y by (simp_all add: normalize_number_def normal_text_def show_read_digits)
  moreover have "number_value a = (if n then - 1 else 1) * (of_nat (read_digits v) + fraction_value f)"
    "number_value b = (if m then - 1 else 1) * (of_nat (read_digits w) + fraction_value g)"
    using a b x y by (simp_all add: number_value_def fraction_value_def)
  ultimately show ?thesis
    using magnitude_eq [OF digits(2) digits(4)] a b
    by (cases "n = m") (auto simp: normal_text_eq [OF digits(2) digits(4)] sign)
qed

theorem normalize_number_by_value_witness:
  "normalize_number ''1.50'' = normalize_number ''01.5'' \<and> normalize_number ''-0'' \<noteq> normalize_number ''0''"
proof -
  have "number_text ''1.50''" "number_text ''01.5''" "number_text ''-0''" "number_text ''0''"
    by code_simp+
  moreover have "number_value ''1.50'' = number_value ''01.5''"
    by (simp add: number_value_def split_sign_def partition_on_def read_digits_def digit_value_def code_def)
  ultimately show ?thesis
    using normalize_number_by_value [of "''1.50''" "''01.5''"]
      normalize_number_by_value [of "''-0''" "''0''"] by simp
qed

end
