(* ===== verification/Staleness.thy ===== *)
theory Staleness
  imports Claims
begin

text \<open>
  Stale-note detection (\<open>staleness.py\<close>): a delivered note is compared with the rows the same
  query returned. Notes and rows are decoded JSON; the clock reading a flag records is an
  argument. Sets that the code sorts before use are kept as lists without repetition.
\<close>

definition max_checked_rows :: nat where "max_checked_rows = 50"
definition max_conflicts_per_note :: nat where "max_conflicts_per_note = 3"
definition max_reason_len :: nat where "max_reason_len = 300"
definition min_field_name_len :: nat where "min_field_name_len = 3"
definition min_field_mentions :: nat where "min_field_mentions = 2"

definition suspect_label :: string where
  "suspect_label = ''possibly stale''"

definition stale_header :: string where
  "stale_header = ''STALE NOTE CHECK '' @ em_dash
     @ '' the rows just returned disagree with the notes above:''"

definition stale_footer :: string where
  "stale_footer =
     ''Confirm against the data. If a note is wrong, correct it now with memory_write (replaces=<fragment of the stale note>, source_query=<the query that proved the new value>) ''
     @ em_dash @ '' otherwise every later session inherits the same wrong note.''"

section \<open>What the rows show\<close>

definition value_kind :: "json \<Rightarrow> string option" where
  "value_kind v = (case v of
     JStr _ \<Rightarrow> Some ''string''
   | JInt _ \<Rightarrow> Some ''number''
   | JReal _ \<Rightarrow> Some ''number''
   | _ \<Rightarrow> None)"

definition observe_field :: "claims \<Rightarrow> string \<times> json \<Rightarrow> claims" where
  "observe_field seen p =
     (case value_kind (snd p) of
        Some kind \<Rightarrow> if min_field_name_len \<le> length (fst p) then add_claims [kind] (fst p) seen else seen
      | None \<Rightarrow> seen)"

definition observed_kinds :: "json list \<Rightarrow> claims" where
  "observed_kinds rows =
     foldl (\<lambda>seen d. foldl observe_field seen d) [] (dicts_of (take max_checked_rows rows))"

definition only_value :: "'k \<times> 'v list \<Rightarrow> ('k \<times> 'v) option" where
  "only_value p = (case snd p of [x] \<Rightarrow> Some (fst p, x) | _ \<Rightarrow> None)"

definition field_types :: "json list \<Rightarrow> (string \<times> string) list" where
  "field_types rows = List.map_filter only_value (observed_kinds rows)"

definition row_value_labels :: "dict \<Rightarrow> string list" where
  "row_value_labels d =
     remdups (concat (map (\<lambda>p. case snd p of JStr s \<Rightarrow> labels_near s 0 (length s) | _ \<Rightarrow> []) d))"

definition row_numbers :: "dict \<Rightarrow> string list" where
  "row_numbers d =
     remdups (map (\<lambda>p. normalize_number (py_str (snd p)))
       (filter (\<lambda>p. value_kind (snd p) = Some ''number'') d))"

definition row_claims :: "claims \<Rightarrow> dict \<Rightarrow> claims" where
  "row_claims cl d =
     (if row_numbers d = [] then cl
      else foldl (\<lambda>c label. add_claims (row_numbers d) label c) cl (row_value_labels d))"

definition result_claims :: "json list \<Rightarrow> claims" where
  "result_claims rows = foldl row_claims [] (dicts_of (take max_checked_rows rows))"

definition measure_tokens :: "json list \<Rightarrow> string list" where
  "measure_tokens rows =
     concat (map (\<lambda>p. filter (\<lambda>w. min_field_name_len \<le> length w) (split_on ''_'' (lower (fst p))))
       (field_types rows))"

section \<open>Value drift\<close>

definition measures_the_same_thing :: "string \<Rightarrow> string \<Rightarrow> string list \<Rightarrow> bool" where
  "measures_the_same_thing note label returned \<longleftrightarrow>
     (\<exists>segment \<in> set (re_split segment_re note).
        let ws = label_words segment
        in label \<in> set ws \<and> (\<exists>w \<in> set ws. w \<in> set returned \<and> w \<noteq> label))"

definition drift_of_label :: "string \<Rightarrow> claims \<Rightarrow> string list \<Rightarrow> string \<times> string list \<Rightarrow> string option" where
  "drift_of_label note fresh returned p =
     (case map_of fresh (fst p) of
        None \<Rightarrow> None
      | Some fresh_values \<Rightarrow>
          if \<not> values_conflict fresh_values (snd p) then None
          else if \<not> measures_the_same_thing note (fst p) returned then None
          else Some ([CHR 0x27] @ fst p @ [CHR 0x27] @ '': note says '' @ fmt_values (snd p)
                 @ '', this result shows '' @ fmt_values fresh_values))"

definition numeric_drift :: "string \<Rightarrow> json list \<Rightarrow> string list" where
  "numeric_drift note rows =
     (if segment_claims note = [] then []
      else take max_conflicts_per_note
        (List.map_filter (drift_of_label note (result_claims rows) (measure_tokens rows))
          (sort_key fst (segment_claims note))))"

section \<open>Type changes\<close>

definition field_char :: "char \<Rightarrow> bool" where
  "field_char c \<longleftrightarrow> is_lower_ascii c \<or> is_digit c \<or> c = CHR ''_''"

definition mention_re :: "string \<Rightarrow> re" where
  "mention_re field = seqs [NotBehind field_char, lit (lower field), NotAhead (Cls field_char)]"

definition asserted_by :: "string list \<Rightarrow> string option" where
  "asserted_by nearby =
     (let says_string = (\<exists>w \<in> set nearby. w \<in> set string_words);
          says_number = (\<exists>w \<in> set nearby. w \<in> set number_words)
      in if says_string \<noteq> says_number
         then Some (if says_string then ''string'' else ''number'') else None)"

fun first_some :: "('a \<Rightarrow> 'b option) \<Rightarrow> 'a list \<Rightarrow> 'b option" where
  "first_some f [] = None"
| "first_some f (x # xs) = (case f x of None \<Rightarrow> first_some f xs | Some y \<Rightarrow> Some y)"

definition asserted_type :: "string \<Rightarrow> string \<Rightarrow> string option" where
  "asserted_type note field =
     first_some (\<lambda>m. asserted_by (labels_near (lower note) (match_start m) (match_end m)))
       (re_finditer (mention_re field) (lower note))"

definition drift_of_field :: "string \<Rightarrow> string \<times> string \<Rightarrow> string option" where
  "drift_of_field note p =
     (case asserted_type note (fst p) of
        None \<Rightarrow> None
      | Some asserted \<Rightarrow>
          if asserted = snd p then None
          else Some ([CHR 0x27] @ fst p @ [CHR 0x27] @ '': note describes it as '' @ asserted
                 @ '', this result returns '' @ snd p))"

definition type_drift :: "string \<Rightarrow> json list \<Rightarrow> string list" where
  "type_drift note rows =
     take max_conflicts_per_note
       (List.map_filter (drift_of_field note) (sort_key fst (field_types rows)))"

section \<open>Renamed fields\<close>

definition stem_match :: "string \<Rightarrow> string list \<Rightarrow> string option" where
  "stem_match word fields =
     (let stem = strip_right_by (\<lambda>c. c = CHR ''s'') word
      in if length stem < min_field_name_len then None
         else find (\<lambda>field. starts_with (lower field) (stem @ ''_'')) (sort fields))"

fun renamed_go :: "nat \<Rightarrow> string list \<Rightarrow> string list \<Rightarrow> string list \<Rightarrow> string list" where
  "renamed_go room fields seen [] = []"
| "renamed_go room fields seen (word # rest) =
     (case stem_match word fields of
        None \<Rightarrow> renamed_go room fields seen rest
      | Some renamed \<Rightarrow>
          if renamed \<in> set seen then renamed_go room fields seen rest
          else ([CHR 0x27] @ word @ [CHR 0x27] @ '': the note names it, but the rows carry ''
                  @ [CHR 0x27] @ renamed @ [CHR 0x27])
               # (if room \<le> 1 then [] else renamed_go (room - 1) fields (renamed # seen) rest))"

definition renamed_fields :: "string \<Rightarrow> json list \<Rightarrow> string list" where
  "renamed_fields note rows =
     (let fields = map fst (field_types rows);
          ws = remdups (label_words note);
          live = map lower fields
      in if length (filter (\<lambda>w. w \<in> set live) ws) < min_field_mentions then []
         else renamed_go max_conflicts_per_note fields []
                (sort (filter (\<lambda>w. w \<notin> set live \<and> w \<notin> set stopwords) ws)))"

section \<open>Flagging notes\<close>

definition note_conflicts :: "string \<Rightarrow> json list \<Rightarrow> bool \<Rightarrow> string list" where
  "note_conflicts note rows whole_rows =
     (if strip note = [] \<or> rows = [] then []
      else take max_conflicts_per_note
        (if whole_rows then type_drift note rows @ renamed_fields note rows
         else numeric_drift note rows @ type_drift note rows))"

definition flag_suspect :: "string \<Rightarrow> dict \<Rightarrow> string list \<Rightarrow> dict" where
  "flag_suspect now row conflicts =
     dict_set ''suspect_reason'' (JStr (take max_reason_len (join ''; '' conflicts)))
       (dict_set ''suspect_since'' (JStr now) row)"

definition is_suspect :: "dict \<Rightarrow> bool" where
  "is_suspect row \<longleftrightarrow> truthy (dget ''suspect_since'' row)"

definition row_note_text :: "dict \<Rightarrow> string" where
  "row_note_text row =
     py_str (py_or (py_or (dget ''overlay'' row) (dget ''text'' row)) (JStr []))"

definition conflicts_of_row :: "json list \<Rightarrow> bool \<Rightarrow> dict \<Rightarrow> string list" where
  "conflicts_of_row result whole_rows row = note_conflicts (row_note_text row) result whole_rows"

definition conflict_line :: "dict \<Rightarrow> string list \<Rightarrow> string" where
  "conflict_line row conflicts =
     ''- ['' @ py_str (dget ''subject'' row) @ ''] '' @ join ''; '' conflicts"

fun check_rows :: "string \<Rightarrow> dict list \<Rightarrow> json list \<Rightarrow> bool \<Rightarrow> dict list \<times> string list" where
  "check_rows now [] result whole_rows = ([], [])"
| "check_rows now (row # rows) result whole_rows =
     (let conflicts = conflicts_of_row result whole_rows row;
          (flagged, reported) = check_rows now rows result whole_rows
      in if conflicts = [] then (row # flagged, reported)
         else (flag_suspect now row conflicts # flagged, conflict_line row conflicts # reported))"

definition render_warning :: "string list \<Rightarrow> string" where
  "render_warning reported =
     (if reported = [] then []
      else [CHR 0x0A, CHR 0x0A] @ join [CHR 0x0A] (stale_header # reported @ [stale_footer]))"

section \<open>What the rows show, as relations\<close>

definition row_kinds :: "dict \<Rightarrow> (string \<times> string) set" where
  "row_kinds d = {(f, k). \<exists>v. (f, v) \<in> set d \<and> value_kind v = Some k \<and> min_field_name_len \<le> length f}"

definition entry_kinds :: "string \<times> json \<Rightarrow> (string \<times> string) set" where
  "entry_kinds p =
     (case value_kind (snd p) of
        Some kind \<Rightarrow> if min_field_name_len \<le> length (fst p) then {(fst p, kind)} else {}
      | None \<Rightarrow> {})"

lemma claimed_observe: "claimed (observe_field seen p) = claimed seen \<union> entry_kinds p"
  by (auto simp: observe_field_def entry_kinds_def claimed_add split: option.splits)

lemma claimed_observe_row: "claimed (foldl observe_field seen d) = claimed seen \<union> row_kinds d"
proof -
  have "(\<Union>p \<in> set d. entry_kinds p) = row_kinds d"
    by (force simp: entry_kinds_def row_kinds_def split: option.splits if_splits)
  then show ?thesis
    by (simp add: foldl_union [where g = claimed and h = entry_kinds] claimed_observe)
qed

lemma claimed_observed:
  "claimed (observed_kinds rows) = (\<Union>d \<in> set (dicts_of (take max_checked_rows rows)). row_kinds d)"
  unfolding observed_kinds_def
  by (simp add: foldl_union [where g = claimed and h = row_kinds] claimed_observe_row)

text \<open>A table built by additions has one entry per label, without repetition and not empty.\<close>

definition proper_claims :: "claims \<Rightarrow> bool" where
  "proper_claims cl \<longleftrightarrow> full_claims cl \<and> distinct (map fst cl) \<and> (\<forall>p \<in> set cl. distinct (snd p))"

lemma proper_Nil [simp]: "proper_claims []"
  by (simp add: proper_claims_def)

lemma distinct_values_set:
  "distinct w \<Longrightarrow> \<forall>p \<in> set cl. distinct (snd p) \<Longrightarrow> \<forall>p \<in> set (dict_set l w cl). distinct (snd p)"
  by (induction cl) auto

lemma proper_add:
  assumes "vs \<noteq> []" and "proper_claims cl" shows "proper_claims (add_claims vs l cl)"
proof -
  have "\<forall>p \<in> set (add_claims vs l cl). distinct (snd p)"
    unfolding add_claims_def using assms by (intro distinct_values_set) (auto simp: proper_claims_def)
  moreover have "distinct (map fst (add_claims vs l cl))"
    using assms by (simp add: add_claims_def proper_claims_def)
  ultimately show ?thesis using assms full_add by (auto simp: proper_claims_def)
qed

lemma proper_observed: "proper_claims (observed_kinds rows)"
proof -
  have "proper_claims seen \<Longrightarrow> proper_claims (observe_field seen p)" for seen p
    by (auto simp: observe_field_def proper_add split: option.splits)
  then show ?thesis
    unfolding observed_kinds_def by (intro foldl_invariant [where P = proper_claims]) simp_all
qed

lemma map_of_only_value:
  "distinct (map fst cl) \<Longrightarrow> map_of (List.map_filter only_value cl) l =
     (case map_of cl l of Some [x] \<Rightarrow> Some x | _ \<Rightarrow> None)"
proof (induction cl)
  case (Cons p cl)
  have "map_of cl (fst p) = None"
    using Cons.prems by (simp add: map_of_eq_None_iff)
  then show ?case
    using Cons by (cases p) (auto simp: map_filter_simps only_value_def split: list.splits)
qed (simp add: map_filter_simps)

text \<open>
  The type a result shows for a field is reported exactly when it is certain: the first
  fifty rows hold string or number values for that field of one kind only, and the name has at
  least three characters. Fields of mixed kind, booleans, nulls and nested values never count.
\<close>

theorem field_types_iff:
  "map_of (field_types rows) f = Some k \<longleftrightarrow>
     3 \<le> length f \<and>
     {k'. \<exists>d v. JDict d \<in> set (take 50 rows) \<and> (f, v) \<in> set d \<and> value_kind v = Some k'} = {k}"
proof -
  let ?cl = "observed_kinds rows"
  let ?kinds = "{k'. \<exists>d v. JDict d \<in> set (take 50 rows) \<and> (f, v) \<in> set d \<and> value_kind v = Some k'}"
  have kinds: "set (claim_values f ?cl) = (if 3 \<le> length f then ?kinds else {})"
  proof (rule set_eqI)
    fix k'
    have "k' \<in> set (claim_values f ?cl) \<longleftrightarrow> (f, k') \<in> claimed ?cl" by (simp add: claimed_def)
    also have "\<dots> \<longleftrightarrow> (\<exists>d \<in> {d. JDict d \<in> set (take 50 rows)}. (f, k') \<in> row_kinds d)"
      by (simp only: claimed_observed max_checked_rows_def set_dicts_of UN_iff)
    also have "\<dots> \<longleftrightarrow> k' \<in> (if 3 \<le> length f then ?kinds else {})"
      by (auto simp: row_kinds_def min_field_name_len_def)
    finally show "k' \<in> set (claim_values f ?cl) \<longleftrightarrow> k' \<in> (if 3 \<le> length f then ?kinds else {})" .
  qed
  have proper: "proper_claims ?cl" by (rule proper_observed)
  have "map_of (field_types rows) f = Some k \<longleftrightarrow> claim_values f ?cl = [k]"
    using proper
    by (auto simp: field_types_def map_of_only_value proper_claims_def claim_values_def
        split: option.splits list.splits)
  also have "\<dots> \<longleftrightarrow> set (claim_values f ?cl) = {k}"
  proof -
    have "distinct (claim_values f ?cl)"
      using proper by (auto simp: proper_claims_def claim_values_def split: option.splits dest: map_of_SomeD)
    then show ?thesis by (cases "claim_values f ?cl") (auto simp: subset_singleton_iff)
  qed
  finally show ?thesis using kinds by auto
qed

section \<open>Flagging only adds a marker\<close>

lemma check_rows_map:
  "check_rows now rows result whole_rows =
     (map (\<lambda>row. let cs = conflicts_of_row result whole_rows row
                 in if cs = [] then row else flag_suspect now row cs) rows,
      map (\<lambda>row. conflict_line row (conflicts_of_row result whole_rows row))
        (filter (\<lambda>row. conflicts_of_row result whole_rows row \<noteq> []) rows))"
  by (induction rows) (simp_all add: Let_def)

lemma length_note_conflicts: "length (note_conflicts note rows whole_rows) \<le> 3"
  by (simp add: note_conflicts_def max_conflicts_per_note_def)

lemma flag_suspect_fields:
  "dget ''suspect_since'' (flag_suspect now row cs) = JStr now"
  "dget ''suspect_reason'' (flag_suspect now row cs) = JStr (take 300 (join ''; '' cs))"
  "k \<noteq> ''suspect_since'' \<Longrightarrow> k \<noteq> ''suspect_reason'' \<Longrightarrow> dget k (flag_suspect now row cs) = dget k row"
  by (simp_all add: flag_suspect_def max_reason_len_def)

lemma flag_suspect_text [simp]: "row_note_text (flag_suspect now row cs) = row_note_text row"
  by (simp add: row_note_text_def flag_suspect_fields)

text \<open>
  Detection only ever flags: the check returns the delivered notes in their order, each one
  unchanged unless the result contradicts it; a contradicted note keeps its text and every other
  field and gains only the suspect marker, with a reason of at most three hundred characters,
  and exactly the contradicted notes are reported.
\<close>

theorem check_rows_only_flags:
  assumes "check_rows now rows result whole_rows = (flagged, reported)" and "i < length rows"
  shows "(length flagged = length rows)
     \<and> (length reported = length (filter (\<lambda>r. conflicts_of_row result whole_rows r \<noteq> []) rows))
     \<and> (conflicts_of_row result whole_rows (rows ! i) = [] \<longrightarrow> flagged ! i = rows ! i)
     \<and> (conflicts_of_row result whole_rows (rows ! i) \<noteq> [] \<longrightarrow>
      dget ''suspect_since'' (flagged ! i) = JStr now
      \<and> (\<exists>reason. dget ''suspect_reason'' (flagged ! i) = JStr reason \<and> length reason \<le> 300))
     \<and> (\<forall>k. k \<noteq> ''suspect_since'' \<and> k \<noteq> ''suspect_reason'' \<longrightarrow>
      dget k (flagged ! i) = dget k (rows ! i))
     \<and> (length (conflicts_of_row result whole_rows (rows ! i)) \<le> 3)"
  using assms length_note_conflicts
  by (auto simp: check_rows_map Let_def flag_suspect_fields conflicts_of_row_def)

theorem check_rows_only_flags_witness:
  "let note = [(''subject'', JStr ''Health.H''), (''text'', JStr ''beds is a string'')];
       row = JDict [(''beds'', JReal 12)];
       flagged = fst (check_rows ''now'' [note] [row] True)
   in dget ''suspect_since'' (hd flagged) = JStr ''now'' \<and> row_note_text (hd flagged) = ''beds is a string''
     \<and> length (snd (check_rows ''now'' [note] [row] True)) = 1"
proof -
  let ?note = "[(''subject'', JStr ''Health.H''), (''text'', JStr ''beds is a string'')]"
  let ?row = "JDict [(''beds'', JReal 12)]"
  obtain flagged reported where c: "check_rows ''now'' [?note] [?row] True = (flagged, reported)"
    by fastforce
  have drift: "conflicts_of_row [?row] True ?note \<noteq> []" by code_simp
  have same: "row_note_text r = row_note_text ?note" if "\<forall>k. k \<noteq> ''suspect_since'' \<and> k \<noteq> ''suspect_reason''
      \<longrightarrow> dget k r = dget k ?note" for r
    using that by (simp add: row_note_text_def)
  have shown: "row_note_text ?note = ''beds is a string''" by code_simp
  show ?thesis
    using check_rows_only_flags [OF c, of 0] drift c same [of "flagged ! 0"] shown
    by (cases flagged) auto
qed

end
