(* ===== verification/Memory_Search.thy ===== *)
theory Memory_Search
  imports Catalog
begin

text \<open>
  Retrieval over the memory store (\<open>tools/memory_search.py\<close>): by subject, by full text and
  along the link graph. Only text of a fixed character set ever enters a statement.
\<close>

definition max_limit :: int where "max_limit = 50"
definition max_query_len :: nat where "max_query_len = 500"
definition max_link_depth :: int where "max_link_depth = 2"

definition concept_char :: "char \<Rightarrow> bool" where
  "concept_char c \<longleftrightarrow> is_alpha_ascii c \<or> is_digit c \<or> c \<in> set ''_.@/-''"

definition concept_re :: re where
  "concept_re = seqs [Bol, Plus (Cls concept_char), Eol]"

definition is_concept :: "string \<Rightarrow> bool" where
  "is_concept s \<longleftrightarrow> re_match concept_re s \<noteq> None"

definition token_char :: "char \<Rightarrow> bool" where
  "token_char c \<longleftrightarrow> is_alpha_ascii c \<or> is_digit c \<or> c = CHR ''_''"

definition token_re :: re where
  "token_re = Plus (Cls token_char)"

definition current_clause :: string where
  "current_clause = ''m.valid_to IS UNKNOWN AND '' @ scope_clause ''m''"

definition dquote :: "string \<Rightarrow> string" where
  "dquote s = [CHR 0x22] @ s @ [CHR 0x22]"

definition subject_query :: string where
  "subject_query =
     ''SELECT VALUE m FROM '' @ memory_dataset @ '' m WHERE m.subject = '' @ dquote ''__SUBJECT__''
     @ '' AND '' @ current_clause @ '';''"

definition fulltext_query :: string where
  "fulltext_query =
     ''SELECT VALUE m FROM '' @ memory_dataset @ '' m WHERE ftcontains(m.`text`, [__TOKENS__], {''
     @ dquote ''mode'' @ '': '' @ dquote ''any'' @ ''}) AND '' @ current_clause @ '' LIMIT 100;''"

definition links_query :: string where
  "links_query =
     ''SELECT VALUE m FROM '' @ memory_dataset @ '' m WHERE m.subject IN [__SUBJECTS__] AND ''
     @ current_clause @ '';''"

definition quoted_list :: "string list \<Rightarrow> string" where
  "quoted_list xs = join '', '' (map dquote xs)"

definition subject_statement :: "string \<Rightarrow> string" where
  "subject_statement subject = replace_all ''__SUBJECT__'' subject subject_query"

definition fulltext_statement :: "string list \<Rightarrow> string" where
  "fulltext_statement tokens = replace_all ''__TOKENS__'' (quoted_list tokens) fulltext_query"

definition links_statement :: "string list \<Rightarrow> string" where
  "links_statement subjects = replace_all ''__SUBJECTS__'' (quoted_list subjects) links_query"

definition doc_fields :: "string list" where
  "doc_fields =
     [''subject'', ''type'', ''title'', ''description'', ''text'', ''links'', ''tags'', ''timestamp'']"

section \<open>Reading\<close>

text \<open>
  \<open>envelope.get("results", [])\<close>: the rows that are objects. Without the fallback \<open>or []\<close> a
  null result cannot be iterated over, unlike an absent one.
\<close>

definition plain_rows :: "dict \<Rightarrow> exn + dict list" where
  "plain_rows envelope =
     (case dget_or ''results'' (JList []) envelope of
        JList xs \<Rightarrow> Inr (dicts_of xs)
      | JStr _ \<Rightarrow> Inr []
      | JDict _ \<Rightarrow> Inr []
      | _ \<Rightarrow> Inl (PyExc ''TypeError''))"

definition memory_rows :: "cc_client \<Rightarrow> string \<Rightarrow> string \<Rightarrow> dict \<Rightarrow> dict list io" where
  "memory_rows c ccid statement params =
     io_bind
       (io_catch
         (io_bind (execute_memory_read c statement ccid params) (\<lambda>envelope. io_return (Some envelope)))
         (\<lambda>_. io_return None))
       (\<lambda>found. case found of
          None \<Rightarrow> io_return []
        | Some envelope \<Rightarrow> io_lift (plain_rows envelope))"

definition search_fetch :: "cc_client \<Rightarrow> string \<Rightarrow> string \<Rightarrow> dict list io" where
  "search_fetch c ccid statement = memory_rows c ccid statement []"

section \<open>The match set\<close>

type_synonym match_state = "dict list \<times> string list"

definition doc_subject :: "dict \<Rightarrow> string" where
  "doc_subject doc = py_str (dget_or ''subject'' (JStr []) doc)"

definition project_doc :: "string \<Rightarrow> dict \<Rightarrow> dict" where
  "project_doc via doc =
     List.map_filter (\<lambda>k. map_option (\<lambda>v. (k, v)) (map_of doc k)) doc_fields
     @ [(''via'', JStr via)]"

definition add_doc :: "string \<Rightarrow> match_state \<Rightarrow> dict \<Rightarrow> match_state" where
  "add_doc via st doc =
     (if doc_subject doc = [] \<or> doc_subject doc \<in> set (snd st) then st
      else (fst st @ [project_doc via doc], snd st @ [doc_subject doc]))"

definition count_text :: "string \<Rightarrow> string \<Rightarrow> nat" where
  "count_text needle hay = length (split_on needle hay) - 1"

definition score :: "string list \<Rightarrow> dict \<Rightarrow> int" where
  "score tokens doc =
     (let body = lower (py_str (dget_or ''text'' (JStr []) doc)) @ '' '' @ lower (doc_subject doc)
      in int (sum_list (map (\<lambda>t. count_text t body) tokens)))"

definition rank_docs :: "string list \<Rightarrow> dict list \<Rightarrow> dict list" where
  "rank_docs tokens docs = sort_key (\<lambda>d. - score tokens d) docs"

fun add_targets :: "string list \<Rightarrow> string list \<Rightarrow> json list \<Rightarrow> string list" where
  "add_targets seen out [] = out"
| "add_targets seen out (link # rest) =
     (let target = py_str link
      in if target \<notin> set seen \<and> target \<notin> set out \<and> is_concept target
         then add_targets seen (out @ [target]) rest else add_targets seen out rest)"

fun link_targets :: "string list \<Rightarrow> string list \<Rightarrow> dict list \<Rightarrow> exn + string list" where
  "link_targets seen out [] = Inr out"
| "link_targets seen out (m # ms) =
     (case iter_or_empty (dget ''links'' m) of
        None \<Rightarrow> Inl (PyExc ''TypeError'')
      | Some links \<Rightarrow> link_targets seen (add_targets seen out links) ms)"

definition via_hop :: "nat \<Rightarrow> string" where
  "via_hop hop = (if hop = 1 then ''link'' else ''link-'' @ show_nat hop)"

fun follow_hops :: "cc_client \<Rightarrow> string \<Rightarrow> nat \<Rightarrow> nat \<Rightarrow> dict list \<Rightarrow> match_state \<Rightarrow> match_state io" where
  "follow_hops c ccid 0 hop frontier st = io_return st"
| "follow_hops c ccid (Suc n) hop frontier st =
     io_bind (io_lift (link_targets (snd st) [] frontier)) (\<lambda>linked.
       if linked = [] then io_return st
       else io_bind (search_fetch c ccid (links_statement linked)) (\<lambda>docs.
         let st' = foldl (add_doc (via_hop hop)) st docs
         in follow_hops c ccid n (Suc hop) (drop (length (fst st)) (fst st')) st'))"

definition clamp :: "int \<Rightarrow> int \<Rightarrow> int \<Rightarrow> int" where
  "clamp low high v = min (max v low) high"

section \<open>The tool\<close>

definition bad_identifier :: "string \<Rightarrow> string option \<Rightarrow> string option" where
  "bad_identifier label v =
     (case v of
        None \<Rightarrow> None
      | Some s \<Rightarrow> if is_concept s then None
                  else Some (''Invalid '' @ label @ '' '' @ repr_str s
                    @ '': expected a concept identifier (letters, digits, ''
                    @ repr_str ''_'' @ '', '' @ repr_str ''.'' @ '', '' @ repr_str ''/'' @ '', ''
                    @ repr_str ''@'' @ '', '' @ repr_str ''-'' @ '').''))"

definition search_problem :: "string \<Rightarrow> string option \<Rightarrow> string option \<Rightarrow> string option" where
  "search_problem needle subject dataverse =
     (if needle = [] \<and> \<not> text_given subject
      then Some ''Provide a non-empty query (free text) and/or an exact subject.''
      else if max_query_len < length needle
      then Some (''Query is too long (max '' @ show_nat max_query_len @ '' characters).'')
      else case bad_identifier ''subject'' subject of
        Some msg \<Rightarrow> Some msg
      | None \<Rightarrow> bad_identifier ''dataverse'' dataverse)"

definition search_tokens :: "string \<Rightarrow> string list" where
  "search_tokens needle = map lower (re_findall token_re needle)"

definition subject_pass :: "cc_client \<Rightarrow> string \<Rightarrow> string option \<Rightarrow> match_state io" where
  "subject_pass c ccid subject =
     (if text_given subject
      then io_bind (search_fetch c ccid (subject_statement (the subject)))
             (\<lambda>docs. io_return (foldl (add_doc ''subject'') ([], []) docs))
      else io_return ([], []))"

definition fulltext_pass :: "cc_client \<Rightarrow> string \<Rightarrow> string list \<Rightarrow> match_state \<Rightarrow> match_state io" where
  "fulltext_pass c ccid tokens st =
     (if tokens = [] then io_return st
      else io_bind (search_fetch c ccid (fulltext_statement tokens))
             (\<lambda>docs. io_return (foldl (add_doc ''fulltext'') st (rank_docs tokens docs))))"

text \<open>The dataverse filter compares prefixes; the seen set is rebuilt from what is left.\<close>

definition scope_matches :: "string option \<Rightarrow> match_state \<Rightarrow> match_state" where
  "scope_matches dataverse st =
     (case dataverse of
        None \<Rightarrow> st
      | Some dv \<Rightarrow>
          let kept = filter (\<lambda>m. starts_with (doc_subject m) dv) (fst st)
          in (kept, map doc_subject kept))"

definition search_result :: "string \<Rightarrow> string option \<Rightarrow> int \<Rightarrow> dict list \<Rightarrow> tool_result" where
  "search_result needle subject limit found =
     (let structured =
        [(''status'', JStr ''success''), (''query'', JStr needle),
         (''subject'', opt_str subject),
         (''limit'', JInt limit), (''matches'', JList (map JDict found))]
      in if found = []
         then tool_ok ''No memory concepts matched. The store may not be materialized yet (run the OKF refresh), or try broader terms.'' structured
         else tool_ok (show_nat (length found) @ '' memory concept(s): ''
                @ join '', '' (map (\<lambda>m. py_str (dget ''subject'' m)) found)) structured)"

definition run_memory_search ::
  "cc_client \<Rightarrow> settings \<Rightarrow> string \<Rightarrow> string \<Rightarrow> string option \<Rightarrow> string option \<Rightarrow> int \<Rightarrow> bool \<Rightarrow> int
     \<Rightarrow> tool_result io" where
  "run_memory_search c s new_uuid query subject dataverse limit follow_links link_depth =
     (case search_problem (strip query) subject dataverse of
        Some msg \<Rightarrow> io_return (tool_error (gerr INVALID_PARAMETER msg))
      | None \<Rightarrow>
          let needle = strip query;
              most = clamp 1 max_limit limit;
              ccid = make_client_context_id (agent_session_id s) (Some ''memory_search'') new_uuid
          in io_bind (subject_pass c ccid subject) (\<lambda>st1.
             io_bind (fulltext_pass c ccid (search_tokens needle) st1) (\<lambda>st2.
             let scoped = scope_matches dataverse st2;
                 st3 = (take (nat most) (fst scoped), snd scoped)
             in io_bind
                  (if follow_links \<and> fst st3 \<noteq> []
                   then follow_hops c ccid (nat (clamp 1 max_link_depth link_depth)) 1 (fst st3) st3
                   else io_return st3)
                  (\<lambda>st4. io_return (search_result needle subject most (fst st4))))))"

section \<open>What a search sends\<close>

text \<open>The text that enters a statement: characters of identifiers, and possibly a newline.\<close>

definition plain_word :: "string \<Rightarrow> bool" where
  "plain_word w \<longleftrightarrow> w \<noteq> [] \<and> (\<forall>c \<in> set w. concept_char c \<or> c = CHR 0x0A)"

lemma plain_word_no_quote: "plain_word w \<Longrightarrow> CHR 0x22 \<notin> set w \<and> CHR 0x5C \<notin> set w"
  by (auto simp: plain_word_def concept_char_def is_alpha_ascii_def is_upper_ascii_def
      is_lower_ascii_def is_digit_def code_def)

lemma newline_not_concept: "\<not> concept_char (CHR 0x0A)"
  by (simp add: concept_char_def is_alpha_ascii_def is_upper_ascii_def is_lower_ascii_def
      is_digit_def code_def)

lemma is_concept_plain: "is_concept w \<Longrightarrow> plain_word w"
  unfolding is_concept_def concept_re_def plain_word_def
  by (auto simp: whole_class_match [where p = concept_char, OF newline_not_concept] simp del: not_None_eq seqs.simps)

lemma lower_token_char: "token_char c \<Longrightarrow> token_char (lower_char c)"
  by (auto simp: token_char_def is_alpha_ascii_def is_upper_ascii_def is_lower_ascii_def
      is_digit_def code_def lower_char_def)

lemma search_tokens_plain: "t \<in> set (search_tokens needle) \<Longrightarrow> plain_word t"
proof -
  assume "t \<in> set (search_tokens needle)"
  then obtain m where m: "m \<in> set (find_from (Plus (Cls token_char)) [] needle)"
    and t: "t = lower (match_text m)"
    by (auto simp: search_tokens_def re_findall_def re_finditer_def token_re_def)
  have "match_text m \<noteq> [] \<and> (\<forall>c \<in> set (match_text m). token_char c)"
    using findall_class [of token_char "[]" needle] m by blast
  then show ?thesis
    using t lower_token_char by (auto simp: plain_word_def lower_def concept_char_def token_char_def)
qed

lemma add_targets_plain:
  "\<forall>w \<in> set out. plain_word w \<Longrightarrow> \<forall>w \<in> set (add_targets seen out links). plain_word w"
  by (induction seen out links rule: add_targets.induct) (auto simp: Let_def is_concept_plain)

lemma link_targets_plain:
  "link_targets seen out ms = Inr ws \<Longrightarrow> \<forall>w \<in> set out. plain_word w \<Longrightarrow> \<forall>w \<in> set ws. plain_word w"
proof (induction ms arbitrary: out)
  case (Cons m ms)
  from Cons.prems(1) obtain links where
    "link_targets seen (add_targets seen out links) ms = Inr ws"
    by (auto split: option.splits)
  then show ?case using add_targets_plain [OF Cons.prems(2)] by (rule Cons.IH)
qed simp

text \<open>The three statements a search may run, with the text that may stand in them.\<close>

definition search_statement :: "string \<Rightarrow> bool" where
  "search_statement st \<longleftrightarrow>
     (\<exists>w. plain_word w \<and> st = subject_statement w)
     \<or> (\<exists>ts. (\<forall>t \<in> set ts. plain_word t) \<and> st = fulltext_statement ts)
     \<or> (\<exists>ws. (\<forall>w \<in> set ws. plain_word w) \<and> st = links_statement ws)"

lemma search_statementI:
  "plain_word w \<Longrightarrow> search_statement (subject_statement w)"
  "(\<And>t. t \<in> set ts \<Longrightarrow> plain_word t) \<Longrightarrow> search_statement (fulltext_statement ts)"
  "(\<And>t. t \<in> set ts \<Longrightarrow> plain_word t) \<Longrightarrow> search_statement (links_statement ts)"
  unfolding search_statement_def by blast+

definition search_request :: "cc_client \<Rightarrow> request \<Rightarrow> bool" where
  "search_request c r \<longleftrightarrow> (\<exists>st. search_statement st \<and> own_read c st r)"

lemma memory_rows_emits:
  "distinct (map fst params) \<Longrightarrow> (\<And>r. own_read c st r \<Longrightarrow> P r) \<Longrightarrow> emits P (memory_rows c ccid st params)"
  unfolding memory_rows_def by (auto intro!: emits_intro split: option.splits)

lemma search_fetch_emits:
  "search_statement st \<Longrightarrow> emits (search_request c) (search_fetch c ccid st)"
  unfolding search_fetch_def by (rule memory_rows_emits) (auto simp: search_request_def)

lemma follow_hops_emits: "emits (search_request c) (follow_hops c ccid n hop frontier st)"
proof (induction n arbitrary: hop frontier st)
  case (Suc n)
  have "emits (search_request c) (search_fetch c ccid (links_statement ws))"
    if "link_targets (snd st) [] frontier = Inr ws" for ws
    using link_targets_plain [OF that] by (intro search_fetch_emits search_statementI) simp
  then show ?case
    unfolding follow_hops.simps Let_def
    by (intro emits_lift_bind emits_if emits_return emits_bind Suc)
qed (simp add: emits_return)

lemma bad_identifier_None: "bad_identifier label (Some w) = None \<Longrightarrow> is_concept w"
  by (simp add: bad_identifier_def split: if_splits)

lemma search_problem_None: "search_problem needle (Some w) dv = None \<Longrightarrow> is_concept w"
  by (auto simp: search_problem_def bad_identifier_None split: if_splits option.splits)

text \<open>
  C23. A memory search cannot be turned into another query: every request it sends is a
  read-only read bound to the client's own tenant, and its statement is one of the three fixed
  templates in which only words of identifier characters (or a newline) stand; no quote or
  backslash of the caller's text, or of a stored link, ever reaches a statement.
\<close>

theorem memory_search_no_injection:
  "emits (\<lambda>r. \<exists>st. search_statement st \<and> own_read c st r)
     (run_memory_search c s new_uuid query subject dataverse limit follow_links link_depth)"
proof -
  have subj: "emits (search_request c) (subject_pass c ccid subject)"
    if "search_problem (strip query) subject dataverse = None" for ccid
  proof (cases subject)
    case (Some w)
    then have "search_statement (subject_statement w)"
      using that search_problem_None by (intro search_statementI is_concept_plain) simp
    then show ?thesis
      using Some unfolding subject_pass_def
      by (auto intro!: emits_if emits_bind emits_return search_fetch_emits)
  qed (simp add: subject_pass_def text_given_def emits_return)
  have full: "emits (search_request c) (fulltext_pass c ccid (search_tokens (strip query)) st)" for ccid st
    unfolding fulltext_pass_def
    by (intro emits_if emits_bind emits_return search_fetch_emits search_statementI search_tokens_plain)
  show ?thesis
    unfolding search_request_def [symmetric] run_memory_search_def Let_def
    by (auto intro!: emits_option emits_bind emits_if emits_return follow_hops_emits full
        intro: subj)
qed

section \<open>What a search returns\<close>

lemma map_of_projected:
  "distinct ks \<Longrightarrow> map_of (List.map_filter (\<lambda>k. map_option (\<lambda>v. (k, v)) (map_of doc k)) ks @ rest) k =
     (if k \<in> set ks \<and> map_of doc k \<noteq> None then map_of doc k else map_of rest k)"
  by (induction ks) (auto simp: map_filter_simps split: option.splits)

lemma doc_subject_project [simp]: "doc_subject (project_doc via doc) = doc_subject doc"
proof -
  have "map_of (project_doc via doc) ''subject'' = map_of doc ''subject''"
    unfolding project_doc_def by (subst map_of_projected) (auto simp: doc_fields_def)
  then show ?thesis by (simp add: doc_subject_def dget_or_def)
qed

definition matches_ok :: "match_state \<Rightarrow> bool" where
  "matches_ok st \<longleftrightarrow> distinct (map doc_subject (fst st)) \<and> (\<forall>m \<in> set (fst st). doc_subject m \<noteq> [])
     \<and> set (map doc_subject (fst st)) \<subseteq> set (snd st)"

lemma matches_ok_empty [simp]: "matches_ok ([], [])"
  by (simp add: matches_ok_def)

lemma matches_ok_add: "matches_ok st \<Longrightarrow> matches_ok (add_doc via st doc)"
  by (auto simp: matches_ok_def add_doc_def)

lemma matches_ok_adds: "matches_ok st \<Longrightarrow> matches_ok (foldl (add_doc via) st docs)"
  by (rule foldl_invariant [where P = matches_ok]) (simp_all add: matches_ok_add)

lemma matches_ok_scope: "matches_ok st \<Longrightarrow> matches_ok (scope_matches dv st)"
  by (auto simp: matches_ok_def scope_matches_def Let_def distinct_map inj_on_def split: option.splits)

lemma matches_ok_take: "matches_ok st \<Longrightarrow> matches_ok (take n (fst st), snd st)"
  by (auto simp: matches_ok_def take_map [symmetric]) (metis image_subset_iff in_set_takeD list.set_map subsetD)+

lemma follow_hops_ok: "matches_ok st \<Longrightarrow> yields matches_ok (follow_hops c ccid n hop frontier st)"
proof (induction n arbitrary: hop frontier st)
  case (Suc n)
  then show ?case
    unfolding follow_hops.simps Let_def
    by (intro yields_bind_any yields_if yields_return Suc.IH matches_ok_adds)
qed (simp add: yields_return)

lemma subject_pass_ok: "yields matches_ok (subject_pass c ccid subject)"
  unfolding subject_pass_def by (auto intro!: yields_if yields_bind_any yields_return matches_ok_adds)

lemma fulltext_pass_ok: "matches_ok st \<Longrightarrow> yields matches_ok (fulltext_pass c ccid tokens st)"
  unfolding fulltext_pass_def by (auto intro!: yields_if yields_bind_any yields_return matches_ok_adds)

definition result_matches :: "tool_result \<Rightarrow> dict list" where
  "result_matches r = dicts_of (list_or_empty (dget ''matches'' (tr_structured r)))"

lemma dicts_of_map [simp]: "dicts_of (map JDict ds) = ds"
  by (simp add: dicts_of_def List.map_filter_def o_def)

lemma result_matches_search [simp]:
  "result_matches (search_result needle subject limit found) = found"
  using dicts_of_map [of "[]"]
  by (simp add: result_matches_def search_result_def tool_ok_def Let_def list_or_empty_def)

text \<open>
  Whatever the store answers, a search never returns the same concept twice nor one without
  a subject, and without link following it returns at most the clamped limit (1 to 50).
\<close>

theorem memory_search_distinct_bounded:
  assumes "run_memory_search c s new_uuid query subject dataverse limit follow_links link_depth sent
             = (Inr res, sent')"
  shows "(distinct (map doc_subject (result_matches res)))
     \<and> (\<forall>m \<in> set (result_matches res). doc_subject m \<noteq> [])
     \<and> (follow_links \<or> int (length (result_matches res)) \<le> min (max limit 1) 50)"
proof (intro conjI)
  define good where "good = (\<lambda>r. distinct (map doc_subject (result_matches r))
      \<and> (\<forall>m \<in> set (result_matches r). doc_subject m \<noteq> [])
      \<and> (follow_links \<or> int (length (result_matches r)) \<le> min (max limit 1) 50))"
  have err: "good (tool_error e)" for e
    by (simp add: good_def result_matches_def tool_error_def to_structured_def list_or_empty_def
        dicts_of_def map_filter_simps max_def)
  have fin: "good (search_result needle subject n (fst st))"
    if "matches_ok st" "follow_links \<or> length (fst st) \<le> nat (clamp 1 max_limit limit)" for st needle n
    using that unfolding good_def matches_ok_def
    by (auto simp: clamp_def max_limit_def)
  have "yields good (run_memory_search c s new_uuid query subject dataverse limit follow_links link_depth)"
    unfolding run_memory_search_def Let_def
    apply (intro yields_option yields_return err)
    apply (rule yields_bind [OF subject_pass_ok])
    apply (rule yields_bind [OF fulltext_pass_ok], assumption)
    apply (rule yields_bind [where R = "\<lambda>st. matches_ok st \<and>
        (follow_links \<or> length (fst st) \<le> nat (clamp 1 max_limit limit))"])
     apply (intro yields_if)
      apply (rule yields_mono [OF follow_hops_ok])
       apply (simp_all add: matches_ok_take matches_ok_scope yields_return)
    apply (auto intro: yields_return fin)
    done
  then have "good res" using assms by (rule yieldsD)
  then show "distinct (map doc_subject (result_matches res))"
    "\<forall>m \<in> set (result_matches res). doc_subject m \<noteq> []"
    "follow_links \<or> int (length (result_matches res)) \<le> min (max limit 1) 50"
    by (simp_all add: good_def)
qed

theorem memory_search_distinct_bounded_witness:
  "\<exists>res sent'. run_memory_search
       (answering_client default_settings (Some ''alice'')
         [(''results'', JList [JDict [(''subject'', JStr ''D.s'')], JDict [(''subject'', JStr ''D.s'')]])])
       default_settings ''u'' ''orders'' None None 8 False 1 [] = (Inr res, sent')
     \<and> result_matches res \<noteq> [] \<and> distinct (map doc_subject (result_matches res))"
proof -
  let ?run = "run_memory_search
       (answering_client default_settings (Some ''alice'')
         [(''results'', JList [JDict [(''subject'', JStr ''D.s'')], JDict [(''subject'', JStr ''D.s'')]])])
       default_settings ''u'' ''orders'' None None 8 False 1 []"
  have "case fst ?run of Inr r \<Rightarrow> result_matches r \<noteq> [] | Inl _ \<Rightarrow> False" by code_simp
  then obtain res sent' where run: "?run = (Inr res, sent')" and "result_matches res \<noteq> []"
    by (cases ?run) (auto split: sum.splits)
  with memory_search_distinct_bounded [OF run] show ?thesis by blast
qed

text \<open>The dataverse filter is a bare prefix test: another dataverse with a longer name passes it.\<close>

lemma scope_is_prefix:
  "scope_matches (Some ''Sales'') ([[(''subject'', JStr ''SalesArchive.orders'')]], [])
     = ([[(''subject'', JStr ''SalesArchive.orders'')]], [''SalesArchive.orders''])"
  by code_simp

end
