(* ===== verification/Memory_Notes.thy ===== *)
theory Memory_Notes
  imports Memory_Search Staleness
begin

text \<open>
  Ambient recall of learned notes (\<open>tools/memory_notes.py\<close>). The clock enters as an argument:
  the present as the text a row is stamped with, the age in days of a time stamp (none when it
  cannot be parsed), and the logarithm of the usage score.
\<close>

record clock =
  ck_now :: string
  ck_age :: "string \<Rightarrow> rat option"
  ck_log1p :: "rat \<Rightarrow> rat"

definition max_note_subjects :: nat where "max_note_subjects = 4"
definition max_note_len :: nat where "max_note_len = 500"
definition max_attached_notes :: nat where "max_attached_notes = 6"
definition verified_weight :: rat where "verified_weight = 2"
definition freshness_half_life_days :: rat where "freshness_half_life_days = 30"
definition unknown_age_days :: rat where "unknown_age_days = freshness_half_life_days * 12"

definition reinforce_upsert :: string where
  "reinforce_upsert = ''UPSERT INTO '' @ memory_dataset @ '' ([$row]);''"

definition notes_query :: string where
  "notes_query =
     ''SELECT VALUE m FROM '' @ memory_dataset
     @ '' m WHERE m.subject IN $subjects AND m.valid_to IS UNKNOWN AND '' @ scope_clause ''m'' @ '';''"

section \<open>Rows and notes\<close>

definition is_walk_owned :: "dict \<Rightarrow> bool" where
  "is_walk_owned row \<longleftrightarrow> starts_with (py_str (dget_or ''type'' (JStr []) row)) ''AsterixDB ''"

definition note_text :: "dict \<Rightarrow> string" where
  "note_text row =
     (let source = dget (if is_walk_owned row then ''overlay'' else ''text'') row
      in take max_note_len (strip (py_str (py_or source (JStr [])))))"

definition grounded :: "dict \<Rightarrow> json" where
  "grounded row =
     (if is_walk_owned row then JNull else JBool (truthy (dget ''source_query'' row)))"

definition display_notes :: "dict list \<Rightarrow> dict list" where
  "display_notes rows =
     map (\<lambda>row. [(''subject'', dget ''subject'' row), (''note'', JStr (note_text row)),
                 (''grounded'', grounded row), (''suspect'', JBool (is_suspect row))]) rows"

definition note_line :: "dict \<Rightarrow> string" where
  "note_line n =
     (let g = dget ''grounded'' n;
          markers = (if g = JNull then [] else [if truthy g then ''grounded'' else ''unverified''])
            @ (if truthy (dget ''suspect'' n) then [suspect_label] else []);
          label = (if markers = [] then [] else '' ('' @ join '', '' markers @ '')'')
      in ''- ['' @ py_str (dget ''subject'' n) @ '']'' @ label @ '' '' @ py_str (dget ''note'' n))"

definition render_notes :: "dict list \<Rightarrow> string" where
  "render_notes notes = join [CHR 0x0A] (map note_line notes)"

section \<open>Ranking\<close>

text \<open>
  \<open>float(v)\<close> and \<open>int(v)\<close> of a stored counter. A text is read as a plain decimal (exponents and
  the names of infinity are not modelled); other values raise.
\<close>

definition to_float :: "json \<Rightarrow> exn + rat" where
  "to_float v =
     (case as_number v of
        Some r \<Rightarrow> Inr r
      | None \<Rightarrow> (case v of
          JStr s \<Rightarrow> if number_text (strip s) then Inr (number_value (strip s)) else Inl (PyExc ''ValueError'')
        | _ \<Rightarrow> Inl (PyExc ''TypeError'')))"

definition truncate_rat :: "rat \<Rightarrow> int" where
  "truncate_rat r = (if r < 0 then - \<lfloor>- r\<rfloor> else \<lfloor>r\<rfloor>)"

definition to_int :: "json \<Rightarrow> exn + int" where
  "to_int v =
     (case v of
        JStr s \<Rightarrow> (case read_int s of Some i \<Rightarrow> Inr i | None \<Rightarrow> Inl (PyExc ''ValueError''))
      | JReal r \<Rightarrow> Inr (truncate_rat r)
      | _ \<Rightarrow> (case as_int v of Some i \<Rightarrow> Inr i | None \<Rightarrow> Inl (PyExc ''TypeError'')))"

definition age_days :: "clock \<Rightarrow> dict \<Rightarrow> rat" where
  "age_days ck row =
     (case ck_age ck (py_str (py_or (dget ''last_recalled_at'' row) (dget ''valid_from'' row))) of
        None \<Rightarrow> unknown_age_days
      | Some d \<Rightarrow> max d 0)"

definition note_score :: "clock \<Rightarrow> dict \<Rightarrow> exn + rat" where
  "note_score ck row =
     (let verified = (if is_walk_owned row \<or> truthy (dget ''source_query'' row)
                      then verified_weight else 0)
      in sum_bind (to_float (py_or (dget ''recall_count'' row) (JInt 0)))
           (\<lambda>n. Inr (verified + ck_log1p ck n
                     + 1 / (1 + age_days ck row / freshness_half_life_days))))"

text \<open>\<open>sorted(pool, key=score, reverse=True)\<close>, stable; a key that raises ends the call.\<close>

definition rank_rows :: "clock \<Rightarrow> dict list \<Rightarrow> exn + dict list" where
  "rank_rows ck pool =
     sum_bind (sum_map_list (\<lambda>row. sum_bind (note_score ck row) (\<lambda>s. Inr (s, row))) pool)
       (\<lambda>scored. Inr (map snd (sort_key (\<lambda>p. - fst p) scored)))"

section \<open>Fetching\<close>

definition wanted_subjects :: "string list \<Rightarrow> string list" where
  "wanted_subjects subjects = take max_note_subjects (dedup_from [] (filter is_concept subjects))"

definition query_note_rows :: "cc_client \<Rightarrow> string \<Rightarrow> string list \<Rightarrow> dict list io" where
  "query_note_rows c ccid subjects =
     io_bind (memory_rows c ccid notes_query [(''subjects'', JList (map JStr subjects))])
       (\<lambda>rows. io_return (filter (\<lambda>r. note_text r \<noteq> []) rows))"

text \<open>The one-hop targets, at most four; the scan stops once they are found.\<close>

fun link_subjects :: "string list \<Rightarrow> string list \<Rightarrow> dict list \<Rightarrow> exn + string list" where
  "link_subjects seen out [] = Inr out"
| "link_subjects seen out (row # rows) =
     (case iter_or_empty (dget ''links'' row) of
        None \<Rightarrow> Inl (PyExc ''TypeError'')
      | Some links \<Rightarrow>
          let found = take max_note_subjects (add_targets seen out links)
          in if length found = max_note_subjects then Inr found else link_subjects seen found rows)"

fun dedupe_rows :: "string list \<Rightarrow> dict list \<Rightarrow> dict list" where
  "dedupe_rows seen [] = []"
| "dedupe_rows seen (row # rows) =
     (let key = py_str (dget ''id'' row)
      in if key \<in> set seen then dedupe_rows seen rows else row # dedupe_rows (key # seen) rows)"

definition fetch_note_rows :: "clock \<Rightarrow> cc_client \<Rightarrow> string \<Rightarrow> string list \<Rightarrow> dict list io" where
  "fetch_note_rows ck c ccid subjects =
     (let wanted = wanted_subjects subjects
      in if wanted = [] then io_return []
         else io_bind (query_note_rows c ccid wanted) (\<lambda>direct.
              io_bind (io_lift (link_subjects wanted [] direct)) (\<lambda>linked.
              io_bind (if linked = [] then io_return direct
                       else io_bind (query_note_rows c ccid linked)
                              (\<lambda>more. io_return (dedupe_rows [] (direct @ more)))) (\<lambda>pool.
              io_bind (io_lift (rank_rows ck pool))
                (\<lambda>ranked. io_return (take max_attached_notes ranked))))))"

definition fetch_memory_notes :: "clock \<Rightarrow> cc_client \<Rightarrow> string \<Rightarrow> string list \<Rightarrow> dict list io" where
  "fetch_memory_notes ck c ccid subjects =
     io_bind (fetch_note_rows ck c ccid subjects) (\<lambda>rows. io_return (display_notes rows))"

section \<open>Reinforcement\<close>

definition bump_row :: "string \<Rightarrow> dict \<Rightarrow> exn + dict" where
  "bump_row now row =
     sum_bind (to_int (py_or (dget ''recall_count'' row) (JInt 0)))
       (\<lambda>n. Inr (dict_set ''last_recalled_at'' (JStr now) (dict_set ''recall_count'' (JInt (n + 1)) row)))"

fun reinforce_notes :: "string \<Rightarrow> cc_client \<Rightarrow> string \<Rightarrow> dict list \<Rightarrow> unit io" where
  "reinforce_notes now c ccid [] = io_return ()"
| "reinforce_notes now c ccid (row # rows) =
     io_bind (io_lift (bump_row now row)) (\<lambda>bumped.
     io_bind (io_catch
               (io_bind (execute_memory_write c reinforce_upsert ccid [(''row'', JDict bumped)])
                 (\<lambda>_. io_return True))
               (\<lambda>_. io_return False)) (\<lambda>ok.
     if ok then reinforce_notes now c ccid rows else io_return ()))"

section \<open>What was delivered in this session\<close>

record recall_state =
  rc_delivered :: "string list"
  rc_rows :: "(string \<times> dict list) list"

definition new_recall :: recall_state where
  "new_recall = \<lparr>rc_delivered = [], rc_rows = []\<rparr>"

definition recall_fresh :: "recall_state \<Rightarrow> string list \<Rightarrow> string list" where
  "recall_fresh rc subjects = filter (\<lambda>s. s \<notin> set (rc_delivered rc)) subjects"

definition kept_rows :: "recall_state \<Rightarrow> string \<Rightarrow> dict list" where
  "kept_rows rc subject = (case map_of (rc_rows rc) subject of Some rows \<Rightarrow> rows | None \<Rightarrow> [])"

definition remember_row :: "recall_state \<Rightarrow> dict \<Rightarrow> recall_state" where
  "remember_row rc row =
     (let subject = py_str (py_or (dget ''subject'' row) (JStr []));
          kept = kept_rows rc subject
      in if subject = [] then rc
         else rc\<lparr>rc_rows := dict_set subject
                (if \<exists>k \<in> set kept. dget ''id'' k = dget ''id'' row then kept else kept @ [row])
                (rc_rows rc)\<rparr>)"

definition recall_remember :: "dict list \<Rightarrow> recall_state \<Rightarrow> recall_state" where
  "recall_remember rows rc = foldl remember_row rc rows"

definition recall_carried :: "recall_state \<Rightarrow> string list \<Rightarrow> dict list" where
  "recall_carried rc subjects = concat (map (kept_rows rc) subjects)"

definition recall_mark :: "string list \<Rightarrow> recall_state \<Rightarrow> recall_state" where
  "recall_mark subjects rc = rc\<lparr>rc_delivered := dedup_from [] (rc_delivered rc @ subjects)\<rparr>"

section \<open>The datasets a statement reads from\<close>

definition name_first :: "char \<Rightarrow> bool" where
  "name_first c \<longleftrightarrow> is_alpha_ascii c \<or> c = CHR ''_''"

definition name_re :: "nat \<Rightarrow> re" where
  "name_re n = seqs [Opt (lit ''`''), Cap n (Seq (Cls name_first) (Star (Cls token_char))), Opt (lit ''`'')]"

definition clause_re :: re where
  "clause_re = seqs [WordB, alts [ilit ''from'', ilit ''join'', ilit ''unnest''], Plus Space]"

definition from_name_re :: re where
  "from_name_re = seqs [clause_re, name_re 1, Star Space, lit ''.'', Star Space, name_re 2]"

definition bare_from_re :: re where
  "bare_from_re = seqs [clause_re, name_re 1,
     NotAhead (Alt (Cls (\<lambda>c. token_char c \<or> c = CHR ''`'')) (Seq (Star Space) (lit ''.'')))]"

definition use_re :: re where
  "use_re = seqs [WordB, ilit ''use'', Plus Space, name_re 1]"

definition group_text :: "nat \<Rightarrow> re_match \<Rightarrow> string" where
  "group_text n m = (case match_group n m of Some t \<Rightarrow> t | None \<Rightarrow> [])"

definition add_subject :: "string \<Rightarrow> string list \<Rightarrow> string \<Rightarrow> string list" where
  "add_subject dataverse subjects dataset =
     (let subject = dataverse @ ''.'' @ dataset
      in if dataverse = ''Metadata'' \<or> subject \<in> set subjects then subjects else subjects @ [subject])"

definition subjects_from_statement :: "string \<Rightarrow> string option \<Rightarrow> string list" where
  "subjects_from_statement statement dataverse =
     (let qualified = foldl (\<lambda>ss m. add_subject (group_text 1 m) ss (group_text 2 m)) []
            (re_finditer from_name_re statement);
          use_default = (case re_search use_re statement of
                           Some m \<Rightarrow> Some (group_text 1 m) | None \<Rightarrow> dataverse)
      in case use_default of
           None \<Rightarrow> qualified
         | Some dv \<Rightarrow> foldl (\<lambda>ss m. add_subject dv ss (group_text 1 m)) qualified
                        (re_finditer bare_from_re statement))"

section \<open>Delivery\<close>

definition writes_allowed :: "settings option \<Rightarrow> bool" where
  "writes_allowed s \<longleftrightarrow> (case s of None \<Rightarrow> False | Some st \<Rightarrow> memory_write_enabled st)"

text \<open>The notes in delivery shape, the contradictions found, and the session state after it.\<close>

definition deliver_notes ::
  "clock \<Rightarrow> cc_client \<Rightarrow> string \<Rightarrow> string list \<Rightarrow> json list \<Rightarrow> bool \<Rightarrow> settings option
     \<Rightarrow> recall_state option \<Rightarrow> (dict list \<times> string list \<times> recall_state option) io" where
  "deliver_notes ck c ccid subjects result whole_rows s recall =
     io_bind (fetch_note_rows ck c ccid subjects) (\<lambda>rows.
       if rows = [] then io_return ([], [], recall)
       else
         let (checked, contradictions) = check_rows (ck_now ck) rows result whole_rows;
             recall' = map_option (recall_remember checked) recall
         in io_bind (if writes_allowed s then reinforce_notes (ck_now ck) c ccid checked
                     else io_return ())
              (\<lambda>_. io_return (display_notes checked, contradictions, recall')))"

definition tool_rows :: "tool_result \<Rightarrow> json list" where
  "tool_rows r = (if tr_is_error r then [] else list_or_empty (dget ''results'' (tr_structured r)))"

definition recheck_carried ::
  "clock \<Rightarrow> cc_client \<Rightarrow> string \<Rightarrow> recall_state \<Rightarrow> string list \<Rightarrow> json list \<Rightarrow> settings option \<Rightarrow> string list io" where
  "recheck_carried ck c ccid recall subjects result s =
     (let carried = recall_carried recall (filter (\<lambda>x. x \<notin> set (recall_fresh recall subjects)) subjects)
      in if carried = [] \<or> result = [] then io_return []
         else
           let (flagged, contradictions) = check_rows (ck_now ck) carried result False
           in io_bind (if contradictions \<noteq> [] \<and> writes_allowed s
                       then reinforce_notes (ck_now ck) c ccid flagged else io_return ())
                (\<lambda>_. io_return contradictions))"

definition notes_intro :: string where
  "notes_intro =
     [CHR 0x0A, CHR 0x0A] @ ''Learned notes from memory about the referenced datasets:'' @ [CHR 0x0A]"

definition with_notes :: "dict list \<Rightarrow> string list \<Rightarrow> tool_result \<Rightarrow> tool_result" where
  "with_notes notes contradictions r =
     (if notes = [] \<and> contradictions = [] then r
      else
        let d = (if notes = [] then tr_structured r
                 else dict_set ''learnedNotes'' (JList (map JDict notes)) (tr_structured r));
            d = (if contradictions = [] then d
                 else dict_set ''staleNotes'' (JList (map JStr contradictions)) d)
        in \<lparr>tr_text = tr_text r @ (if notes = [] then [] else notes_intro @ render_notes notes)
              @ render_warning contradictions,
            tr_structured = d, tr_is_error = tr_is_error r\<rparr>)"

definition marked_subjects :: "dict list \<Rightarrow> string list" where
  "marked_subjects notes =
     map (\<lambda>n. py_str (dget ''subject'' n)) (filter (\<lambda>n. truthy (dget ''subject'' n)) notes)"

definition memory_off :: "settings option \<Rightarrow> bool" where
  "memory_off s \<longleftrightarrow> (case s of None \<Rightarrow> False | Some st \<Rightarrow> \<not> memory_enabled st)"

definition attach_statement_notes ::
  "clock \<Rightarrow> cc_client \<Rightarrow> string \<Rightarrow> string \<Rightarrow> tool_result \<Rightarrow> recall_state option \<Rightarrow> bool
     \<Rightarrow> settings option \<Rightarrow> string option \<Rightarrow> (tool_result \<times> recall_state option) io" where
  "attach_statement_notes ck c ccid statement r recall first_use_only s dataverse =
     (if memory_off s then io_return (r, recall)
      else
        let touched = subjects_from_statement statement dataverse;
            subjects = (case recall of
              Some rc \<Rightarrow> if first_use_only then recall_fresh rc touched else touched
            | None \<Rightarrow> touched);
            rows = tool_rows r
        in io_bind (deliver_notes ck c ccid subjects rows False s recall) (\<lambda>(notes, contradictions, recall').
           case recall' of
             None \<Rightarrow> io_return (with_notes notes contradictions r, None)
           | Some rc \<Rightarrow>
               let marked = recall_mark (marked_subjects notes) rc
               in io_bind (recheck_carried ck c ccid marked touched rows s)
                    (\<lambda>again. io_return (with_notes notes (contradictions @ again) r, Some marked))))"

section \<open>Attaching never breaks the result\<close>

text \<open>What a delivery may do to a tool's result.\<close>

definition enriches :: "tool_result \<Rightarrow> tool_result \<Rightarrow> bool" where
  "enriches r r' \<longleftrightarrow> tr_is_error r' = tr_is_error r \<and> starts_with (tr_text r') (tr_text r)
     \<and> (\<forall>k. k \<noteq> ''learnedNotes'' \<and> k \<noteq> ''staleNotes'' \<longrightarrow>
            map_of (tr_structured r') k = map_of (tr_structured r) k)"

lemma enriches_refl: "enriches r r"
  by (simp add: enriches_def)

lemma with_notes_enriches: "enriches r (with_notes notes contradictions r)"
  by (simp add: enriches_def with_notes_def Let_def)

lemma attach_yields_enriched:
  "yields (\<lambda>p. enriches r (fst p))
     (attach_statement_notes ck c ccid statement r recall first_use_only s dataverse)"
  unfolding attach_statement_notes_def Let_def
  by (auto intro!: yields_if yields_return yields_bind_any enriches_refl with_notes_enriches
      split: option.splits)

text \<open>
  Ambient recall only ever adds: whatever the memory store answers, the tool's result keeps
  its error flag, its text stays at the front of the new text, and every structured field other
  than the two of the notes is unchanged. With the memory surface disabled nothing is sent and
  the result passes through untouched.
\<close>

theorem attach_only_adds:
  assumes "attach_statement_notes ck c ccid statement r recall first_use_only s dataverse sent
             = (Inr (r', recall'), sent')"
  shows "(tr_is_error r' = tr_is_error r)
     \<and> (starts_with (tr_text r') (tr_text r))
     \<and> (k \<noteq> ''learnedNotes'' \<longrightarrow> k \<noteq> ''staleNotes'' \<longrightarrow>
           map_of (tr_structured r') k = map_of (tr_structured r) k)
     \<and> (memory_off s \<longrightarrow> r' = r \<and> recall' = recall \<and> sent' = sent)"
proof (intro conjI)
  have "enriches r r'"
    using yieldsD [OF attach_yields_enriched assms] by simp
  then show "tr_is_error r' = tr_is_error r" "starts_with (tr_text r') (tr_text r)"
    "k \<noteq> ''learnedNotes'' \<longrightarrow> k \<noteq> ''staleNotes'' \<longrightarrow>
       map_of (tr_structured r') k = map_of (tr_structured r) k"
    by (auto simp: enriches_def)
  show "memory_off s \<longrightarrow> r' = r \<and> recall' = recall \<and> sent' = sent"
    using assms by (auto simp: attach_statement_notes_def)
qed

text \<open>
  With a session state, a contradiction found while a note is delivered is found again by the
  check of the notes carried so far, which by then include the one just delivered.
\<close>

lemma fresh_contradiction_twice:
  "case fst (attach_statement_notes \<lparr>ck_now = ''now'', ck_age = (\<lambda>_. None), ck_log1p = (\<lambda>x. x)\<rparr>
       (answering_client default_settings (Some ''alice'')
         [(''results'', JList [JDict [(''id'', JStr ''n1''), (''subject'', JStr ''D.s''),
             (''text'', JStr ''beds is a string'')]])])
       ''u'' ''SELECT VALUE d FROM D.s d;'' (tool_ok ''Returned 1 row(s).'' [(''results'', JList [JDict [(''beds'', JReal 12)]])])
       (Some new_recall) True None None []) of
     Inr (r', _) \<Rightarrow> (case dget ''staleNotes'' (tr_structured r') of
        JList lines \<Rightarrow> length lines = 2 \<and> hd lines = hd (tl lines) | _ \<Rightarrow> False)
   | Inl _ \<Rightarrow> False"
  by code_simp

section \<open>What recall sends\<close>

definition recall_request :: "cc_client \<Rightarrow> settings option \<Rightarrow> request \<Rightarrow> bool" where
  "recall_request c s r \<longleftrightarrow> own_read c notes_query r
     \<or> writes_allowed s \<and> (\<exists>row. own_write c reinforce_upsert [(''row'', JDict row)] r)"

lemma query_note_rows_emits: "emits (recall_request c s) (query_note_rows c ccid subjects)"
  unfolding query_note_rows_def
  by (intro emits_bind emits_return memory_rows_emits) (auto simp: recall_request_def)

lemma fetch_note_rows_emits: "emits (recall_request c s) (fetch_note_rows ck c ccid subjects)"
  unfolding fetch_note_rows_def Let_def
  by (intro emits_if emits_bind emits_return emits_lift query_note_rows_emits)

lemma reinforce_emits:
  "writes_allowed s \<Longrightarrow> emits (recall_request c s) (reinforce_notes now c ccid rows)"
proof (induction rows)
  case (Cons row rows)
  have "emits (recall_request c s) (execute_memory_write c reinforce_upsert ccid [(''row'', JDict b)])" for b
    by (rule emits_mono [OF memory_write_own]) (use Cons.prems in \<open>auto simp: recall_request_def\<close>)
  then show ?case
    using Cons by (auto intro!: emits_bind emits_lift emits_catch emits_return emits_if)
qed (simp add: emits_return)

lemma deliver_emits:
  "emits (recall_request c s) (deliver_notes ck c ccid subjects result whole_rows s recall)"
  unfolding deliver_notes_def Let_def case_prod_unfold
  by (intro emits_bind emits_if emits_return fetch_note_rows_emits reinforce_emits)

lemma recheck_emits:
  "emits (recall_request c s) (recheck_carried ck c ccid recall subjects result s)"
  unfolding recheck_carried_def Let_def case_prod_unfold
  by (intro emits_bind emits_if emits_return) (auto intro: reinforce_emits)

lemma attach_emits:
  "emits (recall_request c s) (attach_statement_notes ck c ccid statement r recall first_use_only s dataverse)"
  unfolding attach_statement_notes_def Let_def case_prod_unfold
  by (intro emits_if emits_return emits_bind deliver_emits emits_option recheck_emits)

text \<open>
  Ambient recall stays within its tenant: all it sends are read-only reads of the notes
  query bound to the client's own tenant and, only when memory writes are allowed, guarded
  upserts into the memory dataset whose row is stamped with that tenant.
\<close>

theorem recall_stays_in_tenant:
  "emits (\<lambda>r. own_read c notes_query r
        \<or> writes_allowed s \<and> (\<exists>row. own_write c reinforce_upsert [(''row'', JDict row)] r))
     (attach_statement_notes ck c ccid statement r recall first_use_only s dataverse)"
  using attach_emits unfolding recall_request_def by blast

end
