(* ===== verification/Memory_Write.thy ===== *)
theory Memory_Write
  imports Memory_Notes
begin

text \<open>
  The write side of the memory loop (\<open>tools/memory_write.py\<close>) and the preferences
  (\<open>tools/preferences.py\<close>). A row is a decoded document; the reconciliation is a pure function
  from the current row and the note to the row that replaces it.
\<close>

definition max_text_len :: nat where "max_text_len = 4000"
definition max_links :: nat where "max_links = 16"
definition max_reported_conflicts :: nat where "max_reported_conflicts = 3"
definition near_dup_threshold :: rat where "near_dup_threshold = 8 / 10"
definition dup_preview_len :: nat where "dup_preview_len = 160"

definition current_query :: string where
  "current_query =
     ''SELECT VALUE m FROM '' @ memory_dataset
     @ '' m WHERE m.subject = $subject AND m.valid_to IS UNKNOWN AND '' @ scope_clause ''m'' @ '';''"

definition upsert_row :: string where
  "upsert_row = ''UPSERT INTO '' @ memory_dataset @ '' ([$row]);''"

definition insert_row :: string where
  "insert_row = ''INSERT INTO '' @ memory_dataset @ '' ([$row]);''"

section \<open>Comparing with the stored note\<close>

definition existing_note_text :: "dict option \<Rightarrow> string" where
  "existing_note_text existing =
     (case existing of
        None \<Rightarrow> []
      | Some e \<Rightarrow> py_str (py_or (dget (if is_walk_owned e then ''overlay'' else ''text'') e) (JStr [])))"

definition number_tokens :: "string \<Rightarrow> string list" where
  "number_tokens s = remdups (map normalize_number (re_findall number_re s))"

definition content_tokens :: "string \<Rightarrow> string list" where
  "content_tokens s =
     remdups (filter (\<lambda>w. w \<notin> set stopwords) (label_words s) @ number_tokens s)"

definition blank_line :: string where
  "blank_line = [CHR 0x0A, CHR 0x0A]"

definition blocks_of :: "string \<Rightarrow> string list" where
  "blocks_of s = filter (\<lambda>b. b \<noteq> []) (map strip (split_on blank_line s))"

definition covers :: "string \<Rightarrow> string \<Rightarrow> bool" where
  "covers note block \<longleftrightarrow>
     (let new_tokens = content_tokens note; block_tokens = content_tokens block
      in (\<forall>n \<in> set (number_tokens note). n \<in> set block_tokens)
         \<and> near_dup_threshold \<le>
             of_nat (length (filter (\<lambda>t. t \<in> set block_tokens) new_tokens)) / of_nat (length new_tokens))"

definition near_duplicate_block :: "string \<Rightarrow> string \<Rightarrow> string option" where
  "near_duplicate_block note existing_text =
     (if content_tokens note = [] then None else find (covers note) (blocks_of existing_text))"

definition block_grounded :: "string \<Rightarrow> dict \<Rightarrow> bool" where
  "block_grounded block existing =
     (if is_walk_owned existing then \<not> contains ''(unverified)'' block
      else truthy (dget ''source_query'' existing))"

definition conflict_of_label :: "claims \<Rightarrow> string \<times> string list \<Rightarrow> string option" where
  "conflict_of_label old p =
     (case map_of old (fst p) of
        None \<Rightarrow> None
      | Some old_values \<Rightarrow>
          if values_conflict (snd p) old_values
          then Some ([CHR 0x27] @ fst p @ [CHR 0x27] @ '': stored '' @ fmt_values old_values
                     @ '' vs new '' @ fmt_values (snd p))
          else None)"

definition numeric_conflicts :: "string \<Rightarrow> string \<Rightarrow> string list" where
  "numeric_conflicts new_note existing_text =
     (if strip existing_text = [] then []
      else take max_reported_conflicts
        (List.map_filter (conflict_of_label (numeric_claims existing_text))
          (sort_key fst (numeric_claims new_note))))"

section \<open>Reconciliation\<close>

definition retire_overlay_blocks :: "string \<Rightarrow> string option \<Rightarrow> string list \<times> nat" where
  "retire_overlay_blocks overlay replaces =
     (let blocks = blocks_of overlay
      in if \<not> text_given replaces then (blocks, 0)
         else let kept = filter (\<lambda>b. \<not> contains (lower (the replaces)) (lower b)) blocks
              in (kept, length blocks - length kept))"

definition optional_fields :: "string list \<Rightarrow> string list \<Rightarrow> string option \<Rightarrow> dict" where
  "optional_fields links tags source_query =
     (if links = [] then [] else [(''links'', JList (map JStr links))])
     @ (if tags = [] then [] else [(''tags'', JList (map JStr tags))])
     @ (if text_given source_query then [(''source_query'', JStr (the source_query))] else [])"

definition row_id :: "string \<Rightarrow> string \<Rightarrow> json" where
  "row_id subject now = JStr (subject @ ''@'' @ now)"

definition unverified_form :: "string \<Rightarrow> string" where
  "unverified_form note = ''(unverified) '' @ note"

text \<open>The new overlay of a walk-owned concept, or nothing when the note is already there.\<close>

definition reground_blocks :: "string \<Rightarrow> string option \<Rightarrow> string list \<Rightarrow> string list option" where
  "reground_blocks note source_query kept =
     (if text_given source_query \<and> (\<exists>b \<in> set kept. contains (unverified_form note) b)
      then Some (map (replace_all (unverified_form note) note) kept) else None)"

definition append_note :: "string \<Rightarrow> string option \<Rightarrow> string list \<Rightarrow> string list" where
  "append_note note source_query kept =
     (if \<exists>b \<in> set kept. contains note b then kept
      else kept @ [if text_given source_query then note else unverified_form note])"

definition overlay_row :: "dict \<Rightarrow> string \<Rightarrow> string \<Rightarrow> string list \<Rightarrow> dict" where
  "overlay_row existing subject now kept =
     (let core = py_str (py_or (dget ''core'' existing) (dget_or ''text'' (JStr []) existing));
          overlay = join blank_line kept @ [CHR 0x0A]
      in dict_merge existing
           [(''id'', row_id subject now), (''valid_from'', JStr now), (''core'', JStr core),
            (''overlay'', JStr overlay),
            (''text'', JStr (strip_right_by (\<lambda>c. c = CHR 0x0A) core @ blank_line @ overlay)),
            (''last_used'', JStr now)])"

definition reconcile_walk ::
  "dict \<Rightarrow> string \<Rightarrow> string \<Rightarrow> string \<Rightarrow> string option \<Rightarrow> string option \<Rightarrow> string \<times> dict \<times> nat" where
  "reconcile_walk existing subject note now source_query replaces =
     (let overlay = py_str (py_or (dget ''overlay'' existing) (JStr []));
          (kept, retired) = retire_overlay_blocks overlay replaces
      in case reground_blocks note source_query kept of
           Some blocks \<Rightarrow> (''regrounded'',
               overlay_row existing subject now (append_note note source_query blocks), retired)
         | None \<Rightarrow>
             if retired = 0 \<and> contains note overlay then (''unchanged'', [], 0)
             else (''annotated'',
                   overlay_row existing subject now (append_note note source_query kept), retired))"

definition fresh_fields :: "string \<Rightarrow> dict" where
  "fresh_fields now = [(''valid_from'', JStr now), (''trust'', JReal 1), (''last_used'', JStr now)]"

definition reconcile ::
  "dict option \<Rightarrow> string \<Rightarrow> string \<Rightarrow> string \<Rightarrow> string list \<Rightarrow> string list \<Rightarrow> string option
     \<Rightarrow> string option \<Rightarrow> string \<times> dict \<times> nat" where
  "reconcile existing subject note now links tags source_query replaces =
     (let optional = optional_fields links tags source_query
      in case existing of
           None \<Rightarrow> (''created'',
             [(''id'', row_id subject now), (''subject'', JStr subject), (''type'', JStr ''Note''),
              (''kind'', JStr ''semantic''), (''text'', JStr note)] @ fresh_fields now @ optional, 0)
         | Some e \<Rightarrow>
             if is_walk_owned e then reconcile_walk e subject note now source_query replaces
             else if strip (py_str (dget_or ''text'' (JStr []) e)) = note then
               (if text_given source_query \<and> \<not> truthy (dget ''source_query'' e)
                then (''regrounded'',
                      dict_merge e ((''id'', row_id subject now) # fresh_fields now @ optional), 0)
                else (''unchanged'', [], 0))
             else (''superseded'',
                   dict_merge e ([(''id'', row_id subject now), (''text'', JStr note)]
                                 @ fresh_fields now @ optional), 0))"

section \<open>Subjects\<close>

definition owners_of :: "dict list \<Rightarrow> string \<Rightarrow> string list" where
  "owners_of rows subject =
     filter (\<lambda>dv. subject \<in> set (dataset_names rows dv)) (dataverse_names rows)"

definition canonical_name :: "dict list \<Rightarrow> string \<Rightarrow> string" where
  "canonical_name rows subject =
     (if subject \<in> set (dataverse_names rows) then subject
      else case owners_of rows subject of
        [dv] \<Rightarrow> dv @ ''.'' @ subject
      | _ \<Rightarrow> subject)"

definition canonicalize_subject :: "cc_client \<Rightarrow> string \<Rightarrow> string \<Rightarrow> string io" where
  "canonicalize_subject c ccid subject =
     (if CHR ''.'' \<in> set subject \<or> CHR ''/'' \<in> set subject then io_return subject
      else io_catch
             (io_bind (fetch_dataset_rows c ccid) (\<lambda>rows. io_return (canonical_name rows subject)))
             (\<lambda>_. io_return subject))"

definition canonicalized_field :: "string \<Rightarrow> string \<Rightarrow> dict" where
  "canonicalized_field subject original =
     (if subject = original then [] else [(''canonicalizedFrom'', JStr original)])"

section \<open>The tool\<close>

definition write_disabled_message :: string where
  "write_disabled_message =
     ''Memory writes are disabled on this gateway. Ask the operator to set ASTERIXDB_MCP_MEMORY_WRITE_ENABLED=true; every other statement stays read-only either way.''"

definition write_problem ::
  "settings \<Rightarrow> string \<Rightarrow> string \<Rightarrow> string list \<Rightarrow> string option \<Rightarrow> gateway_error option" where
  "write_problem s subject note links replaces =
     (if \<not> memory_write_enabled s then Some (gerr FORBIDDEN write_disabled_message)
      else if note = [] then Some (gerr INVALID_PARAMETER ''Provide a non-empty note text.'')
      else if max_text_len < length note
      then Some (gerr INVALID_PARAMETER (''Note text is too long (max '' @ show_nat max_text_len
             @ '' characters); distill it first.''))
      else case first_some (\<lambda>(label, v). bad_identifier label (Some v))
                  ((''subject'', subject) # map (\<lambda>l. (''links'', l)) links) of
        Some msg \<Rightarrow> Some (gerr INVALID_PARAMETER msg)
      | None \<Rightarrow>
          if max_links < length links
          then Some (gerr INVALID_PARAMETER (''Too many links (max '' @ show_nat max_links @ '').''))
          else if replaces = Some [] then Some (gerr INVALID_PARAMETER
                 ''Provide a non-empty replaces fragment, or omit it.'')
          else None)"

definition preview_of :: "string \<Rightarrow> string" where
  "preview_of block =
     (if length block \<le> dup_preview_len then block else take dup_preview_len block @ ellipsis_mark)"

definition duplicate_guidance :: "bool \<Rightarrow> string" where
  "duplicate_guidance is_grounded =
     (if is_grounded
      then ''The stored note is already grounded; your confirmation reinforced it '' @ em_dash
        @ '' nothing further to do. If your note adds a genuinely new fact, rephrase it to state only the new part; if it corrects the stored note, rewrite with replaces=<fragment of the stored note>.''
      else ''Nothing written. If your note adds a genuinely new fact, rephrase it to state only the new part; if it corrects the stored note, rewrite with replaces=<fragment of the stored note>; if a query proved it, include source_query to ground the stored claim.'')"

definition duplicate_result :: "string \<Rightarrow> string \<Rightarrow> string \<Rightarrow> bool \<Rightarrow> tool_result" where
  "duplicate_result subject duplicate original is_grounded =
     tool_ok (''Memory for '' @ [CHR 0x27] @ subject @ [CHR 0x27] @ '' already covers this '' @ em_dash
              @ '' stored note: '' @ dquote (preview_of duplicate) @ ''. '' @ duplicate_guidance is_grounded)
       ([(''status'', JStr ''success''), (''subject'', JStr subject), (''action'', JStr ''duplicate''),
         (''id'', JNull), (''retired'', JInt 0), (''duplicateOf'', JStr (preview_of duplicate)),
         (''duplicateGrounded'', JBool is_grounded)] @ canonicalized_field subject original)"

definition unchanged_result :: "string \<Rightarrow> string \<Rightarrow> tool_result" where
  "unchanged_result subject original =
     tool_ok (''Memory for '' @ [CHR 0x27] @ subject @ [CHR 0x27]
              @ '' already contains this note; nothing written.'')
       ([(''status'', JStr ''success''), (''subject'', JStr subject), (''action'', JStr ''unchanged''),
         (''id'', JNull), (''retired'', JInt 0)] @ canonicalized_field subject original)"

definition conflict_warning :: "string list \<Rightarrow> string" where
  "conflict_warning conflicts =
     (if conflicts = [] then []
      else '' Possible conflict with an existing note on this subject ('' @ join ''; '' conflicts
        @ ''). If the new value is correct, rewrite with replaces=<fragment of the stale note> so the contradiction does not sit in the store.'')"

definition verification_guidance :: "string option \<Rightarrow> nat \<Rightarrow> string" where
  "verification_guidance source_query retired =
     (if text_given source_query then []
      else if 0 < retired
      then '' The replacement is UNVERIFIED and just displaced prior knowledge: confirm it with a query against the data, then write it again with source_query so revalidation keeps it correct.''
      else '' Note stored unverified '' @ em_dash
        @ '' when a query can prove this fact, include it as source_query so the note stays grounded.'')"

definition written_result ::
  "string \<Rightarrow> string \<Rightarrow> string \<Rightarrow> dict \<Rightarrow> nat \<Rightarrow> string option \<Rightarrow> string list \<Rightarrow> tool_result" where
  "written_result action subject original row retired source_query conflicts =
     tool_ok (''Memory '' @ action @ '': '' @ [CHR 0x27] @ subject @ [CHR 0x27] @ '' (''
              @ py_str (dget ''id'' row) @ '')''
              @ (if 0 < retired then '', '' @ show_nat retired @ '' outdated line(s) retired'' else [])
              @ ''.'' @ verification_guidance source_query retired @ conflict_warning conflicts)
       (let structured =
          [(''status'', JStr ''success''), (''subject'', JStr subject), (''action'', JStr action),
           (''id'', dget ''id'' row), (''retired'', JInt (int retired)),
           (''verified'', JBool (text_given source_query))] @ canonicalized_field subject original
        in if conflicts = [] then structured
           else dict_set ''conflicts'' (JList (map JStr conflicts)) structured)"

definition with_author :: "string option \<Rightarrow> string \<Rightarrow> dict \<Rightarrow> dict" where
  "with_author author action row =
     (if text_given author \<and> action \<noteq> ''unchanged''
      then dict_set ''author'' (JStr (the author)) row else row)"

text \<open>The current row under a subject.\<close>

definition current_row :: "cc_client \<Rightarrow> string \<Rightarrow> string \<Rightarrow> dict option io" where
  "current_row c ccid subject =
     io_bind (execute_memory_read c current_query ccid [(''subject'', JStr subject)]) (\<lambda>envelope.
     io_bind (io_lift (plain_rows envelope)) (\<lambda>rows.
     io_return (case rows of [] \<Rightarrow> None | r # _ \<Rightarrow> Some r)))"

text \<open>Close the current row, then insert the new one.\<close>

definition supersede :: "cc_client \<Rightarrow> string \<Rightarrow> string \<Rightarrow> dict option \<Rightarrow> dict \<Rightarrow> unit io" where
  "supersede c ccid now existing row =
     io_bind (case existing of
         None \<Rightarrow> io_return ()
       | Some e \<Rightarrow> io_bind (execute_memory_write c upsert_row ccid
                      [(''row'', JDict (dict_set ''valid_to'' (JStr now) e))]) (\<lambda>_. io_return ()))
       (\<lambda>_. io_bind (execute_memory_write c insert_row ccid [(''row'', JDict row)]) (\<lambda>_. io_return ()))"

definition duplicate_of :: "dict option \<Rightarrow> string \<Rightarrow> string option \<Rightarrow> string option \<Rightarrow> string option" where
  "duplicate_of existing note source_query replaces =
     (let stored = existing_note_text existing
      in if replaces = None \<and> \<not> contains note stored
         then (case near_duplicate_block note stored of
                 None \<Rightarrow> None
               | Some b \<Rightarrow>
                   if source_query = None \<or> block_grounded b (case existing of None \<Rightarrow> [] | Some e \<Rightarrow> e)
                   then Some b else None)
         else None)"

definition write_note ::
  "clock \<Rightarrow> cc_client \<Rightarrow> string \<Rightarrow> string \<Rightarrow> string \<Rightarrow> string \<Rightarrow> string list \<Rightarrow> string list
     \<Rightarrow> string option \<Rightarrow> string option \<Rightarrow> string option \<Rightarrow> tool_result io" where
  "write_note ck c ccid subject original note links tags source_query replaces author =
     io_bind (current_row c ccid subject) (\<lambda>existing.
       let stored = (case existing of None \<Rightarrow> [] | Some e \<Rightarrow> e);
           conflicts = (if text_given replaces then []
                        else numeric_conflicts note (existing_note_text existing))
       in case duplicate_of existing note source_query replaces of
            Some b \<Rightarrow> io_bind (reinforce_notes (ck_now ck) c ccid [stored])
                        (\<lambda>_. io_return (duplicate_result subject b original (block_grounded b stored)))
          | None \<Rightarrow>
              (case reconcile existing subject note (ck_now ck) links tags source_query replaces of
                 (action, row, retired) \<Rightarrow>
                   if action = ''unchanged'' then io_return (unchanged_result subject original)
                   else
                     let row' = with_author author action row
                     in io_bind (supersede c ccid (ck_now ck) existing row')
                          (\<lambda>_. io_return (written_result action subject original row' retired
                                            source_query conflicts))))"

definition run_memory_write ::
  "clock \<Rightarrow> cc_client \<Rightarrow> settings \<Rightarrow> string \<Rightarrow> string \<Rightarrow> string \<Rightarrow> string list \<Rightarrow> string list
     \<Rightarrow> string option \<Rightarrow> string option \<Rightarrow> string option \<Rightarrow> tool_result io" where
  "run_memory_write ck c s new_uuid subject text_arg links tags source_query replaces author =
     (let note = strip text_arg; fragment = map_option strip replaces
      in case write_problem s subject note links fragment of
           Some e \<Rightarrow> io_return (tool_error e)
         | None \<Rightarrow>
             let ccid = make_client_context_id (agent_session_id s) (Some ''memory_write'') new_uuid
             in io_bind (canonicalize_subject c ccid subject) (\<lambda>canonical.
                  io_catch (write_note ck c ccid canonical subject note links tags source_query fragment author)
                    (\<lambda>e. io_return (tool_error e))))"

section \<open>Reconciliation records the note and keeps the rest\<close>

lemma walk_owned_cong: "map_of r ''type'' = map_of e ''type'' \<Longrightarrow> is_walk_owned r = is_walk_owned e"
  by (simp add: is_walk_owned_def dget_or_def)

lemma overlay_row_fields:
  "map_of (overlay_row e subject now kept) ''overlay'' = Some (JStr (join blank_line kept @ [CHR 0x0A]))"
  "map_of (overlay_row e subject now kept) ''id'' = Some (row_id subject now)"
  "map_of (overlay_row e subject now kept) ''valid_from'' = Some (JStr now)"
  "k \<notin> {''id'', ''valid_from'', ''core'', ''overlay'', ''text'', ''last_used''} \<Longrightarrow>
     map_of (overlay_row e subject now kept) k = map_of e k"
  by (simp_all add: overlay_row_def Let_def)

lemma optional_keys: "fst ` set (optional_fields links tags sq) \<subseteq> {''links'', ''tags'', ''source_query''}"
  by (auto simp: optional_fields_def)

lemma merge_optional:
  "k \<notin> {''links'', ''tags'', ''source_query''} \<Longrightarrow>
   map_of (dict_merge d (optional_fields links tags sq)) k = map_of d k"
  using optional_keys [of links tags sq] by (intro map_of_dict_merge_notin) auto

lemma contains_join: "b \<in> set bs \<Longrightarrow> contains b (join sep bs)"
  by (induction sep bs rule: join.induct) auto

lemma contains_trans: "contains a b \<Longrightarrow> contains b c \<Longrightarrow> contains a c"
  unfolding contains_def by (rule sublist_order.order_trans)

lemma contains_unverified [simp]: "contains n (unverified_form n)"
  unfolding unverified_form_def by (rule contains_self)

lemma append_note_contains: "\<exists>b \<in> set (append_note note sq kept). contains note b"
  by (auto simp: append_note_def)

lemma overlay_contains: "contains note (join blank_line (append_note note sq kept) @ t)"
  using append_note_contains [of "note" sq kept] contains_join contains_trans contains_append1 by metis

lemma existing_overlay_row:
  "is_walk_owned e \<Longrightarrow>
   existing_note_text (Some (overlay_row e subject now kept)) = join blank_line kept @ [CHR 0x0A]"
  using walk_owned_cong [of "overlay_row e subject now kept" e]
  by (simp add: existing_note_text_def overlay_row_fields dget_def py_or_def)

text \<open>A note as the tools pass it on, and a row as the store holds it.\<close>

definition proper_note :: "string \<Rightarrow> bool" where
  "proper_note note \<longleftrightarrow> note \<noteq> [] \<and> strip note = note"

definition text_row :: "dict \<Rightarrow> bool" where
  "text_row e \<longleftrightarrow> (\<exists>t. dget ''text'' e = JStr t)"

lemma contains_strip: "contains (strip s) s"
proof -
  have "suffix (strip_left_by py_space s) s"
    by (metis strip_left_by_def suffix_dropWhile)
  moreover have "prefix (strip s) (strip_left_by py_space s)"
    unfolding strip_by_def by (rule strip_right_by_prefix)
  ultimately show ?thesis
    unfolding contains_def by (metis prefix_imp_sublist sublist_order.order_trans suffix_imp_sublist)
qed

lemma reconcile_walk_records:
  assumes "is_walk_owned e" and "reconcile_walk e subject note now sq replaces = (action, row, retired)"
  shows "contains note (existing_note_text (if action = ''unchanged'' then Some e else Some row))"
proof (cases "action = ''unchanged''")
  case True
  then have "contains note (py_str (py_or (dget ''overlay'' e) (JStr [])))"
    using assms(2) by (auto simp: reconcile_walk_def Let_def split: option.splits prod.splits if_splits)
  then show ?thesis using True assms(1) by (simp add: existing_note_text_def)
next
  case False
  then obtain kept where "row = overlay_row e subject now (append_note note sq kept)"
    using assms(2) by (auto simp: reconcile_walk_def Let_def split: option.splits prod.splits if_splits)
  then show ?thesis using False assms(1) by (simp add: existing_overlay_row overlay_contains)
qed

lemma standalone_text:
  "\<not> is_walk_owned r \<Longrightarrow> dget ''text'' r = JStr t \<Longrightarrow> existing_note_text (Some r) = t"
  by (simp add: existing_note_text_def py_or_def)

definition base_row :: "dict \<Rightarrow> dict \<Rightarrow> string list \<Rightarrow> string list \<Rightarrow> string option \<Rightarrow> dict" where
  "base_row e fixed links tags sq = dict_merge e (fixed @ optional_fields links tags sq)"

lemma base_row_other:
  "k \<notin> {''links'', ''tags'', ''source_query''} \<Longrightarrow>
   map_of (base_row e fixed links tags sq) k = map_of (dict_merge e fixed) k"
  by (simp add: base_row_def dict_merge_append merge_optional)

text \<open>The three ways a standalone note is replaced.\<close>

lemma reconcile_standalone:
  assumes "\<not> is_walk_owned e"
    and "reconcile (Some e) subject note now links tags sq replaces = (action, row, retired)"
  shows "action = ''unchanged'' \<and> row = [] \<and> strip (py_str (dget_or ''text'' (JStr []) e)) = note
         \<or> action = ''regrounded'' \<and> strip (py_str (dget_or ''text'' (JStr []) e)) = note \<and> text_given sq
           \<and> row = base_row e ((''id'', row_id subject now) # fresh_fields now) links tags sq
         \<or> action = ''superseded'' \<and> strip (py_str (dget_or ''text'' (JStr []) e)) \<noteq> note
           \<and> row = base_row e ([(''id'', row_id subject now), (''text'', JStr note)] @ fresh_fields now) links tags sq"
  using assms by (auto simp: reconcile_def base_row_def Let_def split: if_splits)

lemma dget_or_text: "text_row e \<Longrightarrow> py_str (dget_or ''text'' (JStr []) e) = py_str (dget ''text'' e)"
  by (auto simp: text_row_def dget_def dget_or_def split: option.splits)

lemma reconcile_created:
  "reconcile None subject note now links tags sq replaces = (action, row, retired) \<Longrightarrow>
   action = ''created'' \<and> retired = 0 \<and> \<not> is_walk_owned row \<and> dget ''text'' row = JStr note
   \<and> dget ''id'' row = row_id subject now \<and> dget ''valid_from'' row = JStr now"
  by (auto simp: reconcile_def Let_def is_walk_owned_def dget_or_def dget_def fresh_fields_def)

lemma reconcile_standalone_text:
  assumes "\<not> is_walk_owned e" and "text_row e" and "action \<noteq> ''unchanged''"
    and "reconcile (Some e) subject note now links tags sq replaces = (action, row, retired)"
  shows "\<not> is_walk_owned row \<and> (\<exists>t. dget ''text'' row = JStr t \<and> (t = note \<or> strip t = note))"
proof -
  have other: "dget ''text'' (base_row e fixed links tags sq) = dget ''text'' (dict_merge e fixed)"
    "is_walk_owned (base_row e fixed links tags sq) = is_walk_owned (dict_merge e fixed)" for fixed
    by (auto simp: dget_def base_row_other intro!: walk_owned_cong)
  have same: "is_walk_owned (dict_merge e ((''id'', row_id subject now) # fresh_fields now)) = is_walk_owned e"
    "is_walk_owned (dict_merge e ([(''id'', row_id subject now), (''text'', JStr note)] @ fresh_fields now))
       = is_walk_owned e"
    by (rule walk_owned_cong; simp add: fresh_fields_def)+
  have "dget_or ''text'' (JStr []) e = dget ''text'' e"
    using assms(2) by (auto simp: text_row_def dget_def dget_or_def split: option.splits)
  then show ?thesis
    using reconcile_standalone [OF assms(1,4)] assms(1,2,3) other same
    by (auto simp: text_row_def fresh_fields_def)
qed

text \<open>
  A written note is in the store: whatever the current row is (none, a walk-owned concept or
  a standalone note) and whichever branch is taken, the note is part of the learned text of the
  row that is current afterwards; in particular \<open>unchanged\<close> is only answered when the note is
  there already.
\<close>

theorem reconcile_records_note:
  assumes "reconcile existing subject note now links tags sq replaces = (action, row, retired)"
    and "proper_note note" and "\<forall>e. existing = Some e \<longrightarrow> is_walk_owned e \<or> text_row e"
  shows "contains note (existing_note_text (if action = ''unchanged'' then existing else Some row))"
proof (cases existing)
  case None
  have "action = ''created''" "existing_note_text (Some row) = note"
    using reconcile_created [OF assms(1) [unfolded None]] standalone_text [of row "note"] by simp_all
  then show ?thesis by simp
next
  case (Some e)
  show ?thesis
  proof (cases "is_walk_owned e")
    case True
    then have "reconcile_walk e subject note now sq replaces = (action, row, retired)"
      using assms(1) Some by (simp add: reconcile_def Let_def)
    from reconcile_walk_records [OF True this] show ?thesis by (simp only: Some)
  next
    case False
    then obtain t where t: "dget ''text'' e = JStr t" using assms(3) Some by (auto simp: text_row_def)
    show ?thesis
    proof (cases "action = ''unchanged''")
      case True
      then have "strip t = note"
        using reconcile_standalone [OF False assms(1) [unfolded Some]] True t
        by (auto simp: dget_def dget_or_def split: option.splits)
      then show ?thesis using True Some standalone_text [OF False t] contains_strip [of t] by simp
    next
      case unc: False
      have "text_row e" using t by (simp add: text_row_def)
      then obtain u where "\<not> is_walk_owned row" "dget ''text'' row = JStr u" "u = note \<or> strip u = note"
        using reconcile_standalone_text [OF False _ unc] assms(1) Some by blast
      then show ?thesis using unc standalone_text [of row u] contains_strip [of u] by auto
    qed
  qed
qed

theorem reconcile_records_note_witness:
  "let e = [(''id'', JStr ''D.s@0''), (''type'', JStr ''AsterixDB Dataset''), (''core'', JStr ''core''),
            (''overlay'', JStr ''(unverified) beds are counts'')];
       (action, row, retired) = reconcile (Some e) ''D.s'' ''beds are counts'' ''1'' [] [] (Some ''SELECT 1;'') None
   in action = ''regrounded'' \<and> contains ''beds are counts'' (existing_note_text (Some row))"
proof -
  let ?e = "[(''id'', JStr ''D.s@0''), (''type'', JStr ''AsterixDB Dataset''), (''core'', JStr ''core''),
            (''overlay'', JStr ''(unverified) beds are counts'')]"
  obtain action row retired where r:
    "reconcile (Some ?e) ''D.s'' ''beds are counts'' ''1'' [] [] (Some ''SELECT 1;'') None = (action, row, retired)"
    by (rule prod_cases3)
  have "fst (reconcile (Some ?e) ''D.s'' ''beds are counts'' ''1'' [] [] (Some ''SELECT 1;'') None) = ''regrounded''"
    by code_simp
  then have act: "action = ''regrounded''" by (simp only: r fst_conv)
  have "proper_note ''beds are counts''" "is_walk_owned ?e" by code_simp+
  then have "contains ''beds are counts'' (existing_note_text (if action = ''unchanged'' then Some ?e else Some row))"
    by (intro reconcile_records_note [OF r]) auto
  then show ?thesis using act by (simp only: r Let_def prod.case) simp
qed

text \<open>
  Nothing of the current row is lost in a replacement: the new row gets a fresh identity and
  validity, every field outside the note's own is copied, and of a walk-owned concept not even
  the trust, links, tags or evidence change and its core is handed on untouched.
\<close>

theorem reconcile_preserves_row:
  assumes "reconcile (Some e) subject note now links tags sq replaces = (action, row, retired)"
    and "action \<noteq> ''unchanged''"
  shows "(dget ''id'' row = JStr (subject @ ''@'' @ now))
     \<and> (dget ''valid_from'' row = JStr now)
     \<and> (\<forall>k. k \<notin> {''id'', ''valid_from'', ''last_used'', ''text'', ''core'', ''overlay'', ''trust'',
             ''links'', ''tags'', ''source_query''} \<longrightarrow> map_of row k = map_of e k)
     \<and> (is_walk_owned e \<longrightarrow>
           (\<forall>k \<in> {''trust'', ''links'', ''tags'', ''source_query''}. map_of row k = map_of e k)
           \<and> dget ''core'' row = JStr (py_str (py_or (dget ''core'' e) (dget_or ''text'' (JStr []) e))))"
proof (intro conjI)
  consider (walk) kept where "is_walk_owned e" "row = overlay_row e subject now kept"
    | (alone) fixed where "\<not> is_walk_owned e" "row = base_row e fixed links tags sq"
        "fixed = (''id'', row_id subject now) # fresh_fields now
         \<or> fixed = [(''id'', row_id subject now), (''text'', JStr note)] @ fresh_fields now"
  proof (cases "is_walk_owned e")
    case True
    then have "\<exists>kept. row = overlay_row e subject now kept"
      using assms by (auto simp: reconcile_def reconcile_walk_def Let_def
          split: option.splits prod.splits if_splits)
    then show ?thesis using True that(1) by blast
  next
    case False
    then show ?thesis using reconcile_standalone [OF False assms(1)] assms(2) that(2) by blast
  qed
  note cases = this
  show "dget ''id'' row = JStr (subject @ ''@'' @ now)"
    by (cases rule: cases) (auto simp: dget_def overlay_row_fields base_row_other fresh_fields_def row_id_def)
  show "dget ''valid_from'' row = JStr now"
    by (cases rule: cases) (auto simp: dget_def overlay_row_fields base_row_other fresh_fields_def)
  show "\<forall>k. k \<notin> {''id'', ''valid_from'', ''last_used'', ''text'', ''core'', ''overlay'', ''trust'',
             ''links'', ''tags'', ''source_query''} \<longrightarrow> map_of row k = map_of e k"
    by (cases rule: cases) (auto simp: overlay_row_fields base_row_other fresh_fields_def)
  show "is_walk_owned e \<longrightarrow>
           (\<forall>k \<in> {''trust'', ''links'', ''tags'', ''source_query''}. map_of row k = map_of e k)
           \<and> dget ''core'' row = JStr (py_str (py_or (dget ''core'' e) (dget_or ''text'' (JStr []) e)))"
  proof (cases rule: cases)
    case walk
    have "map_of (overlay_row e subject now kept) ''core''
        = Some (JStr (py_str (py_or (dget ''core'' e) (dget_or ''text'' (JStr []) e))))"
      by (simp add: overlay_row_def Let_def)
    then show ?thesis using walk by (simp add: overlay_row_fields dget_def)
  next
    case alone
    then show ?thesis by simp
  qed
qed

theorem reconcile_preserves_row_witness:
  "\<exists>row. reconcile (Some [(''id'', JStr ''a''), (''text'', JStr ''old''), (''author'', JStr ''bob'')])
        ''D.s'' ''new'' ''1'' [] [] None None = (''superseded'', row, 0) \<and> dget ''author'' row = JStr ''bob''"
proof -
  let ?e = "[(''id'', JStr ''a''), (''text'', JStr ''old''), (''author'', JStr ''bob'')]"
  let ?row = "fst (snd (reconcile (Some ?e) ''D.s'' ''new'' ''1'' [] [] None None))"
  have r: "reconcile (Some ?e) ''D.s'' ''new'' ''1'' [] [] None None = (''superseded'', ?row, 0)"
    by code_simp
  have "map_of ?row ''author'' = map_of ?e ''author''"
    using reconcile_preserves_row [OF r] by simp
  then show ?thesis using r by (auto simp: dget_def)
qed

text \<open>
  Recording is idempotent: after a write, writing the same note again without evidence and
  without a correction answers \<open>unchanged\<close>, so repeating a note never adds a row.
\<close>

theorem reconcile_idempotent:
  assumes "reconcile existing subject note now links tags sq replaces = (action, row, retired)"
    and "action \<noteq> ''unchanged''" and "proper_note note"
    and "\<forall>e. existing = Some e \<longrightarrow> is_walk_owned e \<or> text_row e"
  shows "reconcile (Some row) subject note now' links' tags' None None = (''unchanged'', [], 0)"
proof -
  have idem: "reconcile (Some row) subject note now' links' tags' None None = (''unchanged'', [], 0)"
    if "\<not> is_walk_owned row" "dget ''text'' row = JStr t" "t = note \<or> strip t = note" for t
  proof -
    have "map_of row ''text'' = Some (JStr t)" using that(2) by (auto simp: dget_def split: option.splits)
    then show ?thesis
      using that assms(3) by (auto simp: reconcile_def Let_def dget_or_def proper_note_def text_given_def)
  qed
  show ?thesis
  proof (cases existing)
    case None
    show ?thesis using reconcile_created [OF assms(1) [unfolded None]] by (intro idem) auto
  next
    case (Some e)
    show ?thesis
    proof (cases "is_walk_owned e")
      case True
      then have walk: "reconcile_walk e subject note now sq replaces = (action, row, retired)"
        using assms(1) Some by (simp add: reconcile_def Let_def)
      then obtain kept where row: "row = overlay_row e subject now kept"
        using assms(2) by (auto simp: reconcile_walk_def Let_def split: option.splits prod.splits if_splits)
      have owned: "is_walk_owned row"
        using True walk_owned_cong [of row e] by (simp add: row overlay_row_fields)
      have "contains note (existing_note_text (Some row))"
        using reconcile_walk_records [OF True walk] assms(2) by simp
      then show ?thesis
        using owned by (simp add: reconcile_def reconcile_walk_def retire_overlay_blocks_def
            reground_blocks_def text_given_def existing_note_text_def Let_def)
    next
      case False
      then have "text_row e" using assms(4) Some by simp
      from reconcile_standalone_text [OF False this assms(2) assms(1) [unfolded Some]]
      obtain t where "\<not> is_walk_owned row" "dget ''text'' row = JStr t" "t = note \<or> strip t = note"
        by blast
      then show ?thesis by (rule idem)
    qed
  qed
qed

theorem reconcile_idempotent_witness:
  "\<exists>row. reconcile None ''D.s'' ''beds are counts'' ''1'' [] [] None None = (''created'', row, 0)
     \<and> reconcile (Some row) ''D.s'' ''beds are counts'' ''2'' [] [] None None = (''unchanged'', [], 0)"
proof -
  obtain action row retired where
    r: "reconcile None ''D.s'' ''beds are counts'' ''1'' [] [] None None = (action, row, retired)"
    by (rule prod_cases3)
  have c: "action = ''created''" "retired = 0" using reconcile_created [OF r] by simp_all
  have "proper_note ''beds are counts''" by code_simp
  then have "reconcile (Some row) ''D.s'' ''beds are counts'' ''2'' [] [] None None = (''unchanged'', [], 0)"
    using reconcile_idempotent [OF r] c by simp
  then show ?thesis using r c by blast
qed

section \<open>Near duplicates\<close>

lemma label_words_chars: "w \<in> set (label_words s) \<Longrightarrow> CHR ''.'' \<notin> set w"
proof -
  assume "w \<in> set (label_words s)"
  then obtain v where v: "v \<in> set (re_findall label_re s)" and w: "w = lower v"
    by (auto simp: label_words_def)
  have "set v \<subseteq> {c. label_char c}"
    using re_findall_chars [OF v] by (auto simp: label_re_def label_char_def)
  moreover have "label_char c \<Longrightarrow> lower_char c \<noteq> CHR ''.''" for c
    using lower_token_char [of c]
    by (auto simp: label_char_def token_char_def is_alpha_ascii_def is_upper_ascii_def
        is_lower_ascii_def is_digit_def code_def)
  ultimately show ?thesis using w by (auto simp: lower_def) (metis mem_Collect_eq subsetD)
qed

lemma normalize_number_dot: "CHR ''.'' \<in> set (normalize_number raw)"
  by (simp add: normalize_number_def case_prod_unfold Let_def)

lemma number_token_of_block: "n \<in> set (number_tokens note) \<Longrightarrow> n \<in> set (content_tokens b) \<Longrightarrow> n \<in> set (number_tokens b)"
  using label_words_chars [of n b] normalize_number_dot
  by (auto simp: content_tokens_def number_tokens_def)

text \<open>
  A note is turned away as a near duplicate only of a stored block that already holds every
  figure of the note and at least four fifths of its content words and figures: a note with a
  new number is never a duplicate, however much wording it shares.
\<close>

theorem near_duplicate_covers:
  assumes "near_duplicate_block note stored = Some b"
  shows "(b \<in> set (blocks_of stored))
     \<and> (set (number_tokens note) \<subseteq> set (number_tokens b))
     \<and> (4 * length (content_tokens note)
           \<le> 5 * length (filter (\<lambda>t. t \<in> set (content_tokens b)) (content_tokens note)))"
proof (intro conjI)
  have some: "content_tokens note \<noteq> []" "find (covers note) (blocks_of stored) = Some b"
    using assms by (auto simp: near_duplicate_block_def split: if_splits)
  then show "b \<in> set (blocks_of stored)" by (auto simp: find_Some_iff)
  have c: "covers note b" using some(2) by (auto simp: find_Some_iff)
  then show "set (number_tokens note) \<subseteq> set (number_tokens b)"
    using number_token_of_block by (auto simp: covers_def Let_def)
  let ?k = "length (filter (\<lambda>t. t \<in> set (content_tokens b)) (content_tokens note))"
  let ?n = "length (content_tokens note)"
  have "8 / 10 \<le> (of_nat ?k :: rat) / of_nat ?n"
    using c by (simp add: covers_def Let_def near_dup_threshold_def)
  moreover have "0 < (of_nat ?n :: rat)" using some(1) by simp
  ultimately have "of_nat (4 * ?n) \<le> (of_nat (5 * ?k) :: rat)"
    by (simp add: field_simps)
  then show "4 * ?n \<le> 5 * ?k" by (simp only: of_nat_le_iff)
qed

theorem near_duplicate_covers_witness:
  "near_duplicate_block ''Heat killed 150 people'' ''Heat killed 150 people overall'' =
     Some ''Heat killed 150 people overall''
   \<and> set (number_tokens ''Heat killed 150 people'') \<subseteq> set (number_tokens ''Heat killed 150 people overall'')"
proof -
  have "near_duplicate_block ''Heat killed 150 people'' ''Heat killed 150 people overall'' =
     Some ''Heat killed 150 people overall''" by code_simp
  with near_duplicate_covers [OF this] show ?thesis by simp
qed

section \<open>What a correction inherits\<close>

text \<open>
  A standalone note replaced by an unverified one keeps the evidence of the note it replaces,
  and the doubt raised against the old text: both ride along with the copied fields.
\<close>

lemma superseded_keeps_evidence:
  "map_of (fst (snd (reconcile (Some [(''text'', JStr ''beds: 410''), (''source_query'', JStr ''SELECT 1;''),
        (''suspect_since'', JStr ''t0'')]) ''D.s'' ''beds: 290'' ''t1'' [] [] None None))) ''source_query''
     = Some (JStr ''SELECT 1;'')
   \<and> map_of (fst (snd (reconcile (Some [(''text'', JStr ''beds: 410''), (''source_query'', JStr ''SELECT 1;''),
        (''suspect_since'', JStr ''t0'')]) ''D.s'' ''beds: 290'' ''t1'' [] [] None None))) ''suspect_since''
     = Some (JStr ''t0'')"
  by code_simp

section \<open>What a write sends\<close>

definition write_request :: "cc_client \<Rightarrow> request \<Rightarrow> bool" where
  "write_request c r \<longleftrightarrow> (\<exists>st. own_read c st r) \<or> catalog_request c inventory_query r
     \<or> (\<exists>st row. st \<in> {upsert_row, insert_row} \<and> own_write c st [(''row'', JDict row)] r)"

lemma current_row_emits [emits_intro]: "emits (write_request c) (current_row c ccid subject)"
  unfolding current_row_def
  by (auto intro!: emits_intro simp: write_request_def)

lemma write_row_emits:
  "st \<in> {upsert_row, insert_row} \<Longrightarrow>
   emits (write_request c) (execute_memory_write c st ccid [(''row'', JDict row)])"
  by (rule emits_mono [OF memory_write_own]) (auto simp: write_request_def)

lemma supersede_emits: "emits (write_request c) (supersede c ccid now existing row)"
  unfolding supersede_def
  by (intro emits_bind emits_option emits_return write_row_emits) simp_all

lemma reinforce_upsert_row: "reinforce_upsert = upsert_row"
  by (simp add: reinforce_upsert_def upsert_row_def)

lemma reinforce_write_emits: "emits (write_request c) (reinforce_notes now c ccid rows)"
proof (induction rows)
  case (Cons row rows)
  show ?case
    unfolding reinforce_notes.simps reinforce_upsert_row
    by (intro emits_bind emits_lift emits_catch emits_return emits_if write_row_emits Cons) simp
qed (simp only: reinforce_notes.simps emits_return)

lemma canonicalize_emits: "emits (write_request c) (canonicalize_subject c ccid subject)"
  unfolding canonicalize_subject_def
  by (intro emits_if emits_return emits_catch emits_bind emits_mono [OF dataset_rows_catalog])
    (simp add: write_request_def)

lemma write_note_emits:
  "emits (write_request c) (write_note ck c ccid canon subj body links tags source_query frag author)"
  unfolding write_note_def Let_def case_prod_unfold
  by (intro emits_bind emits_option emits_if emits_return current_row_emits
      reinforce_write_emits supersede_emits)

lemma run_memory_write_emits:
  "emits (write_request c)
     (run_memory_write ck c s new_uuid subject text_arg links tags source_query replaces author)"
  unfolding run_memory_write_def Let_def
  by (intro emits_option emits_return emits_bind emits_catch canonicalize_emits write_note_emits)

text \<open>
  A memory write leaves the gateway only when it may: with writes disabled, or on any invalid
  argument, nothing at all is sent and the answer is an error; otherwise every request is
  read-only, or one of the two row statements on the memory dataset, guarded and stamped with
  the client's own tenant.
\<close>

theorem memory_write_requests:
  "emits (\<lambda>r. write_problem s subject (strip text_arg) links (map_option strip replaces) = None
        \<and> memory_write_enabled s
        \<and> (read_only r \<or> (\<exists>st row. st \<in> {upsert_row, insert_row}
                                \<and> own_write c st [(''row'', JDict row)] r)))
     (run_memory_write ck c s new_uuid subject text_arg links tags source_query replaces author)"
proof (cases "write_problem s subject (strip text_arg) links (map_option strip replaces)")
  case (Some e)
  then show ?thesis by (simp add: run_memory_write_def Let_def emits_return)
next
  case None
  have on: "memory_write_enabled s"
    using None by (auto simp: write_problem_def split: if_splits)
  show ?thesis
    by (rule emits_mono [OF run_memory_write_emits])
      (use None on in \<open>auto simp: write_request_def dest: own_read_is_read_only catalog_request_reads\<close>)
qed

end
