(* ===== verification/Preferences.thy ===== *)
theory Preferences
  imports Memory_Write
begin

text \<open>
  Query-writing preferences (\<open>tools/preferences.py\<close>): flat rules under a reserved subject per
  scope, written once and read back without repetition.
\<close>

definition max_pref_len :: nat where "max_pref_len = 500"

definition global_scope :: string where
  "global_scope = ''global''"

definition active_query :: string where
  "active_query =
     ''SELECT VALUE m FROM '' @ memory_dataset
     @ '' m WHERE m.subject IN $subjects AND m.valid_to IS UNKNOWN AND '' @ scope_clause ''m'' @ '';''"

definition preference_subject :: "string \<Rightarrow> string" where
  "preference_subject scope = ''_pref/'' @ scope"

definition pref_disabled_message :: string where
  "pref_disabled_message =
     ''Memory writes are disabled on this gateway. Ask the operator to set ASTERIXDB_MCP_MEMORY_WRITE_ENABLED=true.''"

definition bad_scope_message :: "string \<Rightarrow> string" where
  "bad_scope_message scope =
     ''Invalid scope '' @ repr_str scope @ '': use '' @ repr_str ''global''
     @ '' or a dataverse name (letters, digits, '' @ repr_str ''_'' @ '', '' @ repr_str ''.'' @ '', ''
     @ repr_str ''/'' @ '', '' @ repr_str ''@'' @ '', '' @ repr_str ''-'' @ '').''"

definition effective_scope :: "string \<Rightarrow> string" where
  "effective_scope scope = (if strip scope = [] then global_scope else strip scope)"

definition preference_problem :: "settings \<Rightarrow> string \<Rightarrow> string \<Rightarrow> gateway_error option" where
  "preference_problem s rule scope =
     (if \<not> memory_write_enabled s then Some (gerr FORBIDDEN pref_disabled_message)
      else if rule = [] then Some (gerr INVALID_PARAMETER ''Provide a non-empty preference text.'')
      else if max_pref_len < length rule
      then Some (gerr INVALID_PARAMETER
             (''Preference text is too long (max '' @ show_nat max_pref_len @ '' characters).''))
      else if \<not> is_concept scope then Some (gerr INVALID_PARAMETER (bad_scope_message scope))
      else None)"

definition rule_text :: "dict \<Rightarrow> string" where
  "rule_text row = strip (py_str (dget_or ''text'' (JStr []) row))"

definition fetch_current :: "cc_client \<Rightarrow> string \<Rightarrow> string \<Rightarrow> dict list io" where
  "fetch_current c ccid subject =
     io_bind (execute_memory_read c current_query ccid [(''subject'', JStr subject)])
       (\<lambda>envelope. io_lift (plain_rows envelope))"

definition preference_row :: "string \<Rightarrow> string \<Rightarrow> string \<Rightarrow> string option \<Rightarrow> dict" where
  "preference_row scope rule now author =
     [(''id'', row_id (preference_subject scope) now), (''subject'', JStr (preference_subject scope)),
      (''type'', JStr ''Preference''), (''kind'', JStr ''preference''), (''scope'', JStr scope),
      (''text'', JStr rule), (''valid_from'', JStr now)]
     @ (if text_given author then [(''author'', JStr (the author))] else [])"

definition preference_result :: "string \<Rightarrow> string \<Rightarrow> json \<Rightarrow> tool_result" where
  "preference_result scope action row_ref =
     tool_ok
       (if action = ''unchanged''
        then ''Preference for scope '' @ [CHR 0x27] @ scope @ [CHR 0x27]
             @ '' already recorded; nothing written.''
        else ''Preference recorded for scope '' @ [CHR 0x27] @ scope @ [CHR 0x27] @ '' (''
             @ py_str row_ref @ '').'')
       [(''status'', JStr ''success''), (''scope'', JStr scope), (''action'', JStr action),
        (''id'', row_ref)]"

definition run_remember_preference ::
  "string \<Rightarrow> cc_client \<Rightarrow> settings \<Rightarrow> string \<Rightarrow> string \<Rightarrow> string \<Rightarrow> string option \<Rightarrow> tool_result io" where
  "run_remember_preference now c s new_uuid text_arg scope_arg author =
     (let rule = strip text_arg; scope = effective_scope scope_arg
      in case preference_problem s rule scope of
           Some e \<Rightarrow> io_return (tool_error e)
         | None \<Rightarrow>
             let ccid = make_client_context_id (agent_session_id s) (Some ''remember_preference'') new_uuid
             in io_catch
                  (io_bind (fetch_current c ccid (preference_subject scope)) (\<lambda>current.
                     if \<exists>row \<in> set current. rule_text row = rule
                     then io_return (preference_result scope ''unchanged'' JNull)
                     else
                       let row = preference_row scope rule now author
                       in io_bind (execute_memory_write c insert_row ccid [(''row'', JDict row)])
                            (\<lambda>_. io_return (preference_result scope ''created'' (dget ''id'' row)))))
                  (\<lambda>e. io_return (tool_error e)))"

text \<open>The rules of several scopes; any failure of the store gives none.\<close>

definition rules_of :: "dict list \<Rightarrow> string list" where
  "rules_of rows = dedup_from [] (filter (\<lambda>r. r \<noteq> []) (map rule_text rows))"

definition fetch_active_preferences :: "cc_client \<Rightarrow> string \<Rightarrow> string list \<Rightarrow> string list io" where
  "fetch_active_preferences c ccid scopes =
     (let subjects = map preference_subject (filter is_concept scopes)
      in if subjects = [] then io_return []
         else io_bind (memory_rows c ccid active_query [(''subjects'', JList (map JStr subjects))])
                (\<lambda>rows. io_return (rules_of rows)))"

lemma remember_preference_requests:
  "emits (\<lambda>r. memory_write_enabled s \<and> write_request c r)
     (run_remember_preference now c s new_uuid text_arg scope_arg author)"
proof -
  have "emits (\<lambda>r. memory_write_enabled s \<and> write_request c r)
      (execute_memory_write c insert_row ccid [(''row'', JDict row)])"
    and "emits (\<lambda>r. memory_write_enabled s \<and> write_request c r) (fetch_current c ccid subject)"
    if "memory_write_enabled s" for ccid row subject
    using that unfolding fetch_current_def
    by (auto intro!: emits_intro emits_mono [OF memory_write_own] emits_mono [OF write_row_emits]
        simp: write_request_def)
  moreover have "preference_problem s rule scope = None \<Longrightarrow> memory_write_enabled s" for rule scope
    by (simp add: preference_problem_def split: if_splits)
  ultimately show ?thesis
    unfolding run_remember_preference_def Let_def
    by (intro emits_option emits_return emits_catch emits_bind emits_if) auto
qed

text \<open>
  A preference in the store is not recorded twice: a rule that a row of its scope already holds
  sends nothing after the read, and what is read back has no repetition and no empty rule.
\<close>

lemma rules_of_distinct: "distinct (rules_of rows)" "[] \<notin> set (rules_of rows)"
  by (simp_all add: rules_of_def)

end
