(* ===== verification/Artifacts.thy ===== *)
theory Artifacts
  imports Gateway_Config
begin

text \<open>
  Overflow artifacts (\<open>artifacts.py\<close>). The directory is a map from file names to a modification
  time and a text; the identifier (the hexadecimal digits of a fresh uuid), the clock, the
  system's temporary directory and the rendering of a time stamp are arguments. Files that
  vanish during a sweep and symbolic links are outside the model.
\<close>

record stored_file =
  sf_name :: string
  sf_mtime :: rat
  sf_body :: string

type_synonym artifact_dir = "(string \<times> stored_file) list"

definition hex_lower :: "char \<Rightarrow> bool" where
  "hex_lower c \<longleftrightarrow> is_digit c \<or> (97 \<le> code c \<and> code c \<le> 102)"

text \<open>\<open>\A[0-9a-f]{32}\Z\<close>: unlike \<open>$\<close>, the end admits no final newline.\<close>

definition artifact_id_ok :: "string \<Rightarrow> bool" where
  "artifact_id_ok s \<longleftrightarrow> length s = 32 \<and> (\<forall>c \<in> set s. hex_lower c)"

fun format_name :: "artifact_format \<Rightarrow> string" where
  "format_name Fmt_Json = ''json''"
| "format_name Fmt_Txt = ''txt''"

definition default_dir_name :: string where
  "default_dir_name = ''asterixdb-mcp-artifacts''"

definition artifact_uri :: "string \<Rightarrow> string" where
  "artifact_uri artifact_id = ''asterixdb://artifacts/'' @ artifact_id"

record artifact_ref =
  ar_id :: string
  ar_format :: artifact_format
  ar_total_rows :: nat
  ar_byte_size :: nat
  ar_local_path :: string
  ar_expires_at :: string
  ar_download_url :: "string option"

definition ref_payload :: "artifact_ref \<Rightarrow> dict" where
  "ref_payload r =
     [(''artifactId'', JStr (ar_id r)), (''format'', JStr (format_name (ar_format r))),
      (''totalRows'', JInt (int (ar_total_rows r))), (''bytes'', JInt (int (ar_byte_size r))),
      (''localPath'', JStr (ar_local_path r)), (''expiresAt'', JStr (ar_expires_at r)),
      (''note'', JStr (''Full result ('' @ show_nat (ar_total_rows r)
         @ '' row(s)) saved for download; the response above shows only the windowed rows.''))]
     @ (case ar_download_url r of None \<Rightarrow> [] | Some u \<Rightarrow> [(''downloadUrl'', JStr u)])"

section \<open>Serialisation\<close>

text \<open>\<open>json.dumps(..., ensure_ascii=False)\<close>: only quotes, backslashes and controls are escaped.\<close>

definition wide_char :: "char \<Rightarrow> string" where
  "wide_char c =
     (if c = CHR 0x22 then [CHR 0x5C, CHR 0x22]
      else if c = CHR 0x5C then [CHR 0x5C, CHR 0x5C]
      else if code c = 10 then [CHR 0x5C, CHR ''n'']
      else if code c = 13 then [CHR 0x5C, CHR ''r'']
      else if code c = 9 then [CHR 0x5C, CHR ''t'']
      else if code c = 8 then [CHR 0x5C, CHR ''b'']
      else if code c = 12 then [CHR 0x5C, CHR ''f'']
      else if code c < 32 then [CHR 0x5C] @ ''u00'' @ hex2 (code c)
      else [c])"

definition wide_quote :: "string \<Rightarrow> string" where
  "wide_quote s = [CHR 0x22] @ concat (map wide_char s) @ [CHR 0x22]"

fun wide_dumps :: "json \<Rightarrow> string" where
  "wide_dumps JNull = ''null''"
| "wide_dumps (JBool b) = (if b then ''true'' else ''false'')"
| "wide_dumps (JInt i) = show_int i"
| "wide_dumps (JReal r) = show_real r"
| "wide_dumps (JStr s) = wide_quote s"
| "wide_dumps (JList xs) = ''['' @ join '', '' (map wide_dumps xs) @ '']''"
| "wide_dumps (JDict d) =
     ''{'' @ join '', '' (map (\<lambda>p. wide_quote (fst p) @ '': '' @ wide_dumps (snd p)) d) @ ''}''"

definition line_feed :: string where
  "line_feed = [CHR 0x0A]"

definition indent :: "nat \<Rightarrow> string" where
  "indent n = line_feed @ replicate (2 * n) (CHR '' '')"

text \<open>The same with \<open>indent=2\<close>; the argument is the depth of the value.\<close>

fun pretty_dumps :: "nat \<Rightarrow> json \<Rightarrow> string" where
  "pretty_dumps n (JList xs) =
     (if xs = [] then ''[]''
      else ''['' @ indent (Suc n) @ join ('','' @ indent (Suc n)) (map (pretty_dumps (Suc n)) xs)
           @ indent n @ '']'')"
| "pretty_dumps n (JDict d) =
     (if d = [] then ''{}''
      else ''{'' @ indent (Suc n)
           @ join ('','' @ indent (Suc n))
               (map (\<lambda>p. wide_quote (fst p) @ '': '' @ pretty_dumps (Suc n) (snd p)) d)
           @ indent n @ ''}'')"
| "pretty_dumps n v = wide_dumps v"

definition serialize_rows :: "json list \<Rightarrow> artifact_format \<Rightarrow> string" where
  "serialize_rows rows fmt =
     (case fmt of
        Fmt_Txt \<Rightarrow> join line_feed (map wide_dumps rows) @ (if rows = [] then [] else line_feed)
      | Fmt_Json \<Rightarrow> pretty_dumps 0 (JList rows))"

text \<open>The length of the UTF-8 encoding; the two glyphs outside Latin-1 take three bytes.\<close>

definition char_bytes :: "char \<Rightarrow> nat" where
  "char_bytes c = (if code c < 128 then 1 else if code c = 133 \<or> code c = 151 then 3 else 2)"

definition utf8_length :: "string \<Rightarrow> nat" where
  "utf8_length s = sum_list (map char_bytes s)"

section \<open>Writing and reading\<close>

definition path_join :: "string \<Rightarrow> string \<Rightarrow> string" where
  "path_join directory name = strip_right_by (\<lambda>c. c = CHR ''/'') directory @ ''/'' @ name"

definition resolve_artifacts_dir :: "settings \<Rightarrow> string \<Rightarrow> string" where
  "resolve_artifacts_dir s tmp =
     (if artifacts_dir s \<noteq> [] then artifacts_dir s else path_join tmp default_dir_name)"

definition build_download_url :: "settings \<Rightarrow> string \<Rightarrow> string option" where
  "build_download_url s artifact_id =
     (let base = strip (artifacts_base_url s);
          base = (if base = [] \<and> transport_kind s = Http
                  then ''http://'' @ http_host s @ '':'' @ show_int (http_port s) else base)
      in if base = [] then None
         else Some (strip_right_by (\<lambda>c. c = CHR ''/'') base @ artifacts_path_prefix @ ''/'' @ artifact_id))"

definition artifact_name :: "string \<Rightarrow> artifact_format \<Rightarrow> string" where
  "artifact_name artifact_id fmt = artifact_id @ ''.'' @ format_name fmt"

definition file_expired :: "rat \<Rightarrow> rat \<Rightarrow> stored_file \<Rightarrow> bool" where
  "file_expired ttl now f \<longleftrightarrow> ttl < now - sf_mtime f"

definition purge_expired :: "rat \<Rightarrow> rat \<Rightarrow> artifact_dir \<Rightarrow> artifact_dir \<times> nat" where
  "purge_expired ttl now d =
     (let kept = filter (\<lambda>p. \<not> file_expired ttl now (snd p)) d in (kept, length d - length kept))"

record artifact_env =
  ae_tmp :: string
  ae_now :: rat
  ae_uuid :: string
  ae_iso :: "rat \<Rightarrow> string"

definition write_overflow_artifact ::
  "artifact_env \<Rightarrow> settings \<Rightarrow> json list \<Rightarrow> artifact_format option \<Rightarrow> artifact_dir
     \<Rightarrow> artifact_ref option \<times> artifact_dir" where
  "write_overflow_artifact env s rows fmt d =
     (if \<not> artifacts_enabled s \<or> rows = [] then (None, d)
      else
        let chosen = (case fmt of None \<Rightarrow> artifacts_format s | Some f \<Rightarrow> f);
            kept = fst (purge_expired (artifacts_ttl_s s) (ae_now env) d);
            name = artifact_name (ae_uuid env) chosen;
            body = serialize_rows rows chosen
        in (Some \<lparr>ar_id = ae_uuid env, ar_format = chosen, ar_total_rows = length rows,
                  ar_byte_size = utf8_length body,
                  ar_local_path = path_join (resolve_artifacts_dir s (ae_tmp env)) name,
                  ar_expires_at = ae_iso env (ae_now env + artifacts_ttl_s s),
                  ar_download_url = build_download_url s (ae_uuid env)\<rparr>,
            dict_set name \<lparr>sf_name = name, sf_mtime = ae_now env, sf_body = body\<rparr> kept))"

definition overflow_artifact_payload ::
  "artifact_env \<Rightarrow> settings \<Rightarrow> json list \<Rightarrow> bool \<Rightarrow> artifact_format option \<Rightarrow> artifact_dir
     \<Rightarrow> dict option \<times> artifact_dir" where
  "overflow_artifact_payload env s rows overflow fmt d =
     (if \<not> overflow then (None, d)
      else case write_overflow_artifact env s rows fmt d of
             (r, d') \<Rightarrow> (map_option ref_payload r, d'))"

text \<open>The formats are tried in the order json, txt; an expired first hit answers nothing.\<close>

fun resolve_formats :: "rat \<Rightarrow> rat \<Rightarrow> artifact_dir \<Rightarrow> string \<Rightarrow> artifact_format list \<Rightarrow> stored_file option" where
  "resolve_formats ttl now d artifact_id [] = None"
| "resolve_formats ttl now d artifact_id (fmt # fmts) =
     (case map_of d (artifact_name artifact_id fmt) of
        None \<Rightarrow> resolve_formats ttl now d artifact_id fmts
      | Some f \<Rightarrow> if file_expired ttl now f then None else Some f)"

definition resolve_artifact_file :: "settings \<Rightarrow> rat \<Rightarrow> artifact_dir \<Rightarrow> string \<Rightarrow> stored_file option" where
  "resolve_artifact_file s now d artifact_id =
     (if artifact_id_ok artifact_id
      then resolve_formats (artifacts_ttl_s s) now d artifact_id [Fmt_Json, Fmt_Txt] else None)"

definition read_artifact :: "settings \<Rightarrow> rat \<Rightarrow> artifact_dir \<Rightarrow> string \<Rightarrow> exn + string" where
  "read_artifact s now d artifact_id =
     (case resolve_artifact_file s now d artifact_id of
        None \<Rightarrow> Inl (PyExc ''FileNotFoundError'')
      | Some f \<Rightarrow> Inr (sf_body f))"

section \<open>The link of a tool result\<close>

definition extensions :: "(string \<times> string) list" where
  "extensions = [(''json'', ''json''), (''txt'', ''txt'')]"

definition mime_types :: "(string \<times> string) list" where
  "mime_types = [(''json'', ''application/json''), (''txt'', ''text/plain'')]"

definition lookup_or :: "string \<Rightarrow> string \<Rightarrow> (string \<times> string) list \<Rightarrow> string" where
  "lookup_or k dflt d = (case map_of d k of Some v \<Rightarrow> v | None \<Rightarrow> dflt)"

definition artifact_link :: "dict \<Rightarrow> dict option" where
  "artifact_link payload =
     (if payload = [] then None
      else case dget ''artifactId'' payload of
        JStr artifact_id \<Rightarrow>
          let fmt = py_str (dget_or ''format'' (JStr ''json'') payload)
          in Some
            [(''name'', JStr (artifact_id @ ''.'' @ lookup_or fmt fmt extensions)),
             (''uri'', JStr (artifact_uri artifact_id)), (''title'', JStr ''Full result set''),
             (''description'', JStr (''The complete '' @ py_str (dget ''totalRows'' payload)
                @ '' row(s) of this result, of which the response above carries only the windowed rows. Expires at ''
                @ py_str (dget ''expiresAt'' payload) @ ''.'')),
             (''mimeType'', JStr (lookup_or fmt ''application/octet-stream'' mime_types)),
             (''size'', dget ''bytes'' payload)]
      | _ \<Rightarrow> None)"

section \<open>Lemmas\<close>

definition dir_ok :: "artifact_dir \<Rightarrow> bool" where
  "dir_ok d \<longleftrightarrow> distinct (map fst d)"

lemma resolve_formats_SomeD:
  "resolve_formats ttl now d i fmts = Some f \<Longrightarrow>
   \<not> file_expired ttl now f \<and> (\<exists>fmt \<in> set fmts. map_of d (artifact_name i fmt) = Some f)"
  by (induction fmts) (auto split: option.splits if_splits)

lemma dir_ok_write: "dir_ok d \<Longrightarrow> dir_ok (snd (write_overflow_artifact env s rows fmt d))"
proof -
  assume "dir_ok d"
  then have "distinct (map fst (filter P d))" for P
    by (simp add: dir_ok_def distinct_map_filter)
  then show ?thesis
    using \<open>dir_ok d\<close> by (simp add: write_overflow_artifact_def Let_def purge_expired_def dir_ok_def)
qed

text \<open>
  The directory as a store of files under their own name, of which the expired are hidden: the
  laws of the interface hold for it, and a sweep changes nothing that can be seen.
\<close>

definition visible_file :: "rat \<Rightarrow> rat \<Rightarrow> artifact_dir \<Rightarrow> string \<Rightarrow> stored_file option" where
  "visible_file ttl now d name =
     (case map_of d name of
        None \<Rightarrow> None
      | Some f \<Rightarrow> if file_expired ttl now f then None else Some f)"

interpretation artifact_store: keyed_store dir_ok "visible_file ttl now" sf_name
  "\<lambda>f d. dict_set (sf_name f) f d" "\<lambda>name d. dict_pop name d" "\<lambda>f. \<not> file_expired ttl now f"
  for ttl now
  by unfold_locales (auto simp: dir_ok_def visible_file_def distinct_map_filter)

lemma visible_purge:
  "dir_ok d \<Longrightarrow> visible_file ttl now (fst (purge_expired ttl now d)) name = visible_file ttl now d name"
proof -
  assume ok: "dir_ok d"
  let ?kept = "filter (\<lambda>p. \<not> file_expired ttl now (snd p)) d"
  have "map_of ?kept name = (case map_of d name of None \<Rightarrow> None
      | Some f \<Rightarrow> if file_expired ttl now f then None else Some f)"
    using ok unfolding dir_ok_def by (induction d) (auto split: option.splits simp: map_of_eq_None_iff)
  then show ?thesis
    by (simp add: visible_file_def purge_expired_def Let_def split: option.splits)
qed

text \<open>
  C25. Overflow is reachable and nothing else is: the artifact just written is read back as the
  complete serialised rows under its identifier until its time to live has passed and never
  after it, and an identifier is only ever answered if it is 32 lower-case hexadecimal digits,
  with a file of exactly that name, so no request can escape the directory.
\<close>

theorem artifact_read_back:
  assumes "write_overflow_artifact env s rows fmt d = (Some r, d')"
    and "artifact_id_ok (ae_uuid env)"
    and "\<forall>f. map_of d (artifact_name (ae_uuid env) f) = None"
  shows "(read_artifact s now d' (ar_id r) =
           (if now - ae_now env \<le> artifacts_ttl_s s
            then Inr (serialize_rows rows (ar_format r)) else Inl (PyExc ''FileNotFoundError'')))
     \<and> (ar_total_rows r = length rows)
     \<and> (resolve_artifact_file s now d' i = Some f \<longrightarrow>
           artifact_id_ok i \<and> (\<exists>fm. map_of d' (i @ ''.'' @ format_name fm) = Some f))"
proof (intro conjI)
  have r: "ar_id r = ae_uuid env" "ar_total_rows r = length rows"
    and d': "d' = dict_set (artifact_name (ae_uuid env) (ar_format r))
        \<lparr>sf_name = artifact_name (ae_uuid env) (ar_format r), sf_mtime = ae_now env,
         sf_body = serialize_rows rows (ar_format r)\<rparr>
        (fst (purge_expired (artifacts_ttl_s s) (ae_now env) d))"
    using assms(1) by (auto simp: write_overflow_artifact_def Let_def split: if_splits)
  have none: "map_of (fst (purge_expired (artifacts_ttl_s s) (ae_now env) d)) (artifact_name (ae_uuid env) g) = None" for g
    using assms(3) by (force simp: purge_expired_def Let_def map_of_eq_None_iff)
  have "artifact_name (ae_uuid env) g = artifact_name (ae_uuid env) h \<longleftrightarrow> g = h" for g h
    by (cases g; cases h) (simp_all add: artifact_name_def)
  then show "read_artifact s now d' (ar_id r) =
           (if now - ae_now env \<le> artifacts_ttl_s s
            then Inr (serialize_rows rows (ar_format r)) else Inl (PyExc ''FileNotFoundError''))"
    unfolding r(1) d' read_artifact_def resolve_artifact_file_def
    using assms(2) none by (cases "ar_format r") (auto simp: file_expired_def)
  show "ar_total_rows r = length rows" by (rule r(2))
  show "resolve_artifact_file s now d' i = Some f \<longrightarrow>
           artifact_id_ok i \<and> (\<exists>fm. map_of d' (i @ ''.'' @ format_name fm) = Some f)"
  proof
    assume res: "resolve_artifact_file s now d' i = Some f"
    then have ok: "artifact_id_ok i"
      and "resolve_formats (artifacts_ttl_s s) now d' i [Fmt_Json, Fmt_Txt] = Some f"
      by (auto simp add: resolve_artifact_file_def simp del: resolve_formats.simps split: if_splits)
    from resolve_formats_SomeD [OF this(2)] obtain fm
      where "map_of d' (artifact_name i fm) = Some f" by blast
    then have "map_of d' (i @ ''.'' @ format_name fm) = Some f" by (simp only: artifact_name_def)
    with ok show "artifact_id_ok i \<and> (\<exists>fm. map_of d' (i @ ''.'' @ format_name fm) = Some f)" by blast
  qed
qed

theorem artifact_read_back_witness:
  "\<exists>r d'. write_overflow_artifact
       \<lparr>ae_tmp = ''/tmp'', ae_now = 100, ae_uuid = ''0123456789abcdef0123456789abcdef'', ae_iso = (\<lambda>_. ''t'')\<rparr>
       default_settings [JInt 1] (Some Fmt_Txt) [] = (Some r, d')
     \<and> read_artifact default_settings 200 d' (ar_id r) = Inr (serialize_rows [JInt 1] (ar_format r))"
proof -
  let ?env = "\<lparr>ae_tmp = ''/tmp'', ae_now = 100, ae_uuid = ''0123456789abcdef0123456789abcdef'', ae_iso = (\<lambda>_. ''t'')\<rparr>"
  obtain r d' where w: "write_overflow_artifact ?env default_settings [JInt 1] (Some Fmt_Txt) [] = (Some r, d')"
    by (simp add: write_overflow_artifact_def default_settings_def Let_def)
  have "artifact_id_ok (ae_uuid ?env)" by code_simp
  then have "read_artifact default_settings 200 d' (ar_id r) = Inr (serialize_rows [JInt 1] (ar_format r))"
    using artifact_read_back [OF w, of 200] by (simp add: default_settings_def)
  with w show ?thesis by blast
qed

end
