(* ===== verification/Memory_Capture.thy ===== *)
theory Memory_Capture
  imports Memory_Write Artifacts
begin

text \<open>
  Capture of what queries teach (\<open>tools/memory_capture.py\<close>): a failure followed by a working
  form becomes a note, and every outcome an episodic event, kept in a bounded buffer of files
  when the cluster cannot take it. The buffer directory is a map from file names to lines; a
  file system that fails is not modelled.
\<close>

definition max_captured_statement_len :: nat where "max_captured_statement_len = 300"
definition max_warning_len :: nat where "max_warning_len = 200"

definition event_insert :: string where
  "event_insert = ''INSERT INTO '' @ session_event_dataset @ '' ([$row]);''"

section \<open>Pairing a failure with its working form\<close>

record pending_failure =
  pf_error :: string
  pf_statement :: string

type_synonym capture_state = "(string \<times> pending_failure) list"

definition trim_statement :: "string \<Rightarrow> string" where
  "trim_statement statement =
     (let flat = join '' '' (words statement)
      in if length flat \<le> max_captured_statement_len then flat
         else take max_captured_statement_len flat @ ''...'')"

definition fix_note :: "pending_failure \<Rightarrow> string \<Rightarrow> string" where
  "fix_note p statement =
     ''A query on this dataset failed ('' @ pf_error p @ ''): '' @ trim_statement (pf_statement p)
     @ '' | working form: '' @ trim_statement statement"

fun settle :: "string \<Rightarrow> string list \<Rightarrow> capture_state \<Rightarrow> (string \<times> string) list \<times> capture_state" where
  "settle statement [] st = ([], st)"
| "settle statement (subject # rest) st =
     (let (notes, st') = settle statement rest (dict_pop subject st)
      in case map_of st subject of
           Some p \<Rightarrow> (if strip (pf_statement p) \<noteq> strip statement
                      then (subject, fix_note p statement) # notes else notes, st')
         | None \<Rightarrow> (notes, st'))"

definition capture_record ::
  "string \<Rightarrow> string option \<Rightarrow> capture_state \<Rightarrow> (string \<times> string) list \<times> capture_state" where
  "capture_record statement result_error st =
     (let subjects = subjects_from_statement statement None
      in case result_error of
           Some e \<Rightarrow> ([], foldl (\<lambda>d s. dict_set s \<lparr>pf_error = e, pf_statement = statement\<rparr> d) st subjects)
         | None \<Rightarrow> settle statement subjects st)"

text \<open>
  The failure signal of a result: a raised error, or no row together with warnings. Only a
  list of warnings can be indexed.
\<close>

definition capture_error_signal :: "tool_result \<Rightarrow> exn + string option" where
  "capture_error_signal r =
     (let st = tr_structured r; warnings = dget ''warnings'' st
      in if tr_is_error r
         then Inr (if truthy (dget ''errorType'' st) then Some (py_str (dget ''errorType'' st)) else None)
         else if as_number (dget ''rowsReturned'' st) = Some 0 \<and> truthy warnings
         then (case warnings of
                 JList (w # _) \<Rightarrow>
                   Inr (Some (''SEMANTIC_WARNING: '' @ take max_warning_len
                     (case w of JDict d \<Rightarrow> py_str (dget_or ''msg'' (JStr []) d) | _ \<Rightarrow> py_str w)))
               | JStr (ch # _) \<Rightarrow> Inr (Some (''SEMANTIC_WARNING: '' @ [ch]))
               | JDict _ \<Rightarrow> Inl (PyExc ''KeyError'')
               | _ \<Rightarrow> Inl (PyExc ''TypeError''))
         else Inr None)"

section \<open>Episodic events\<close>

definition duration_char :: "char \<Rightarrow> bool" where
  "duration_char c \<longleftrightarrow> is_digit c \<or> c = CHR ''.''"

definition micro :: string where
  "micro = [CHR 0xB5]"

definition duration_re :: re where
  "duration_re = seqs [Bol, Cap 1 (Plus (Cls duration_char)),
     Cap 2 (alts [lit ''ns'', lit (micro @ ''s''), lit ''us'', lit ''ms'', lit ''s'']), Eol]"

definition duration_to_ms :: "(string \<times> rat) list" where
  "duration_to_ms = [(''ns'', 1 / 1000000), (micro @ ''s'', 1 / 1000), (''us'', 1 / 1000),
     (''ms'', 1), (''s'', 1000)]"

text \<open>\<open>round(x, 3)\<close>: to the nearest thousandth, a tie to the even one.\<close>

definition round3 :: "rat \<Rightarrow> rat" where
  "round3 x =
     (let y = x * 1000; n = \<lfloor>y\<rfloor>; r = y - of_int n;
          k = (if r < 1 / 2 then n else if 1 / 2 < r then n + 1 else if even n then n else n + 1)
      in of_int k / 1000)"

text \<open>
  \<open>float\<close> of digits and dots: digits with at most one dot among them, which may also stand at
  one end; anything else raises.
\<close>

definition dotted_value :: "string \<Rightarrow> rat option" where
  "dotted_value s =
     (case partition_on ''.'' s of
        (w, _, f) \<Rightarrow>
          if (\<forall>c \<in> set f. is_digit c) \<and> (w \<noteq> [] \<or> f \<noteq> [])
          then Some (of_nat (read_digits w) + of_nat (read_digits f) / 10 ^ length f) else None)"

definition elapsed_ms :: "dict \<Rightarrow> exn + json" where
  "elapsed_ms metrics =
     (if metrics = [] then Inr JNull
      else case re_match duration_re (py_str (dget_or ''elapsedTime'' (JStr []) metrics)) of
        None \<Rightarrow> Inr JNull
      | Some m \<Rightarrow>
          (case (dotted_value (group_text 1 m), map_of duration_to_ms (group_text 2 m)) of
             (Some v, Some f) \<Rightarrow> Inr (JReal (round3 (v * f)))
           | _ \<Rightarrow> Inl (PyExc ''ValueError'')))"

text \<open>The readings an event takes of the clock, and the digits of its fresh uuid.\<close>

record event_env =
  ev_id_time :: rat
  ev_time :: rat
  ev_uuid :: string

definition build_event ::
  "event_env \<Rightarrow> settings \<Rightarrow> string \<Rightarrow> string option \<Rightarrow> string option \<Rightarrow> dict \<Rightarrow> string option \<Rightarrow> exn + dict" where
  "build_event env s statement result_error client_name metrics session =
     sum_bind (elapsed_ms metrics) (\<lambda>elapsed. Inr (
       [(''id'', JStr (agent_session_id s @ ''@'' @ show_real (ev_id_time env) @ ''-'' @ take 8 (ev_uuid env))),
        (''ts'', JReal (ev_time env)),
        (''session'', JStr (if text_given session then the session else agent_session_id s)),
        (''statement'', JStr (trim_statement statement)),
        (''outcome'', JStr (if result_error \<noteq> None then ''error'' else ''success''))]
       @ (case result_error of None \<Rightarrow> [] | Some e \<Rightarrow> [(''error'', JStr e)])
       @ (if text_given client_name then [(''client'', JStr (the client_name))] else [])
       @ (if elapsed \<noteq> JNull then [(''elapsed_ms'', elapsed)] else [])
       @ (if as_int (dget ''processedObjects'' metrics) \<noteq> None
          then [(''processed_objects'', dget ''processedObjects'' metrics)] else [])))"

section \<open>The buffer\<close>

text \<open>The flag says that the current spell of a full buffer has been logged.\<close>

record event_buffer =
  eb_files :: "(string \<times> string list) list"
  eb_reported :: bool

definition lines_bytes :: "string list \<Rightarrow> nat" where
  "lines_bytes ls = sum_list (map (\<lambda>l. utf8_length l + 1) ls)"

definition buffer_bytes :: "event_buffer \<Rightarrow> nat" where
  "buffer_bytes b = sum_list (map (\<lambda>p. lines_bytes (snd p)) (eb_files b))"

definition buffer_name :: "settings \<Rightarrow> string" where
  "buffer_name s = agent_session_id s @ ''.jsonl''"

definition file_lines :: "string \<Rightarrow> event_buffer \<Rightarrow> string list" where
  "file_lines name b = (case map_of (eb_files b) name of Some ls \<Rightarrow> ls | None \<Rightarrow> [])"

definition append_jsonl_event :: "settings \<Rightarrow> dict \<Rightarrow> event_buffer \<Rightarrow> event_buffer" where
  "append_jsonl_event s event b =
     (if \<not> text_given (session_log_dir s) then b
      else if session_log_max_bytes s \<le> int (buffer_bytes b) then b\<lparr>eb_reported := True\<rparr>
      else b\<lparr>eb_files := dict_set (buffer_name s)
                (file_lines (buffer_name s) b @ [json_dumps (JDict event)]) (eb_files b),
             eb_reported := False\<rparr>)"

definition insert_event :: "cc_client \<Rightarrow> settings \<Rightarrow> string \<Rightarrow> dict \<Rightarrow> unit io" where
  "insert_event c s new_uuid event =
     io_bind (execute_memory_write c event_insert
        (make_client_context_id (agent_session_id s) (Some ''session_event'') new_uuid)
        [(''row'', JDict event)]) (\<lambda>_. io_return ())"

definition record_session_event ::
  "event_env \<Rightarrow> cc_client \<Rightarrow> settings \<Rightarrow> string \<Rightarrow> string \<Rightarrow> string option \<Rightarrow> string option \<Rightarrow> dict
     \<Rightarrow> string option \<Rightarrow> event_buffer \<Rightarrow> event_buffer io" where
  "record_session_event env c s new_uuid statement result_error client_name metrics session b =
     io_bind (io_lift (build_event env s statement result_error client_name metrics session)) (\<lambda>event.
     io_bind (if memory_write_enabled s
              then io_catch (io_bind (insert_event c s new_uuid event) (\<lambda>_. io_return True))
                     (\<lambda>_. io_return False)
              else io_return False) (\<lambda>stored.
     io_return (if stored then b else append_jsonl_event s event b)))"

section \<open>Capturing an outcome\<close>

text \<open>
  The notes are written one after the other; a write answers an error result instead of raising.
  The fresh identifiers of the requests of one outcome are not told apart.
\<close>

fun write_notes ::
  "clock \<Rightarrow> cc_client \<Rightarrow> settings \<Rightarrow> string \<Rightarrow> string \<Rightarrow> string option \<Rightarrow> (string \<times> string) list \<Rightarrow> unit io" where
  "write_notes ck c s new_uuid statement client_name [] = io_return ()"
| "write_notes ck c s new_uuid statement client_name ((subject, body) # rest) =
     io_bind (run_memory_write ck c s new_uuid subject body [] [] (Some statement) None client_name)
       (\<lambda>_. write_notes ck c s new_uuid statement client_name rest)"

definition capture_query_outcome ::
  "clock \<Rightarrow> event_env \<Rightarrow> cc_client \<Rightarrow> settings \<Rightarrow> string \<Rightarrow> capture_state \<Rightarrow> event_buffer \<Rightarrow> string
     \<Rightarrow> string option \<Rightarrow> string option \<Rightarrow> dict \<Rightarrow> string option \<Rightarrow> (capture_state \<times> event_buffer) io" where
  "capture_query_outcome ck env c s new_uuid st b statement result_error client_name metrics session =
     (if \<not> memory_enabled s then io_return (st, b)
      else io_bind (record_session_event env c s new_uuid statement result_error client_name metrics session b) (\<lambda>b'.
        if \<not> memory_write_enabled s then io_return (st, b')
        else
          let (notes, st') = capture_record statement result_error st
          in io_bind (write_notes ck c s new_uuid statement client_name notes)
               (\<lambda>_. io_return (st', b'))))"

section \<open>Replaying the buffer\<close>

text \<open>
  A line that is not an object is skipped; \<open>parse\<close> is \<open>json.loads\<close>, \<open>uuid_of\<close> the digits a line
  without an identifier gets. An insert that fails ends the replay with the file still there.
\<close>

fun replay_lines ::
  "(string \<Rightarrow> json option) \<Rightarrow> (string \<Rightarrow> string) \<Rightarrow> cc_client \<Rightarrow> settings \<Rightarrow> string \<Rightarrow> string list \<Rightarrow> unit io" where
  "replay_lines parse uuid_of c s new_uuid [] = io_return ()"
| "replay_lines parse uuid_of c s new_uuid (line # rest) =
     (case parse line of
        Some (JDict event) \<Rightarrow>
          let event' = (if map_of event ''id'' = None
                then dict_set ''id'' (JStr (py_str (dget_or ''session'' (JStr ''buffered'') event)
                       @ ''@'' @ take 8 (uuid_of line))) event else event)
          in io_bind (insert_event c s new_uuid event')
               (\<lambda>_. replay_lines parse uuid_of c s new_uuid rest)
      | _ \<Rightarrow> replay_lines parse uuid_of c s new_uuid rest)"

definition flush_one_buffer ::
  "(string \<Rightarrow> json option) \<Rightarrow> (string \<Rightarrow> string) \<Rightarrow> cc_client \<Rightarrow> settings \<Rightarrow> string \<Rightarrow> event_buffer \<Rightarrow> string
     \<Rightarrow> event_buffer io" where
  "flush_one_buffer parse uuid_of c s new_uuid b name =
     io_bind (replay_lines parse uuid_of c s new_uuid (file_lines name b))
       (\<lambda>_. io_return (b\<lparr>eb_files := dict_pop name (eb_files b)\<rparr>))"

definition flush_buffered_events ::
  "(string \<Rightarrow> json option) \<Rightarrow> (string \<Rightarrow> string) \<Rightarrow> cc_client \<Rightarrow> settings \<Rightarrow> string \<Rightarrow> event_buffer
     \<Rightarrow> event_buffer io" where
  "flush_buffered_events parse uuid_of c s new_uuid b =
     (if \<not> text_given (session_log_dir s) then io_return b
      else io_fold (flush_one_buffer parse uuid_of c s new_uuid) b
             (sort (filter (\<lambda>n. ends_with n ''.jsonl'') (map fst (eb_files b)))))"

section \<open>Only a failure and its working form become a note\<close>

lemma settle_notes:
  assumes "distinct subjects"
  shows "set (fst (settle statement subjects st)) =
           {(s, fix_note p statement) | s p. s \<in> set subjects \<and> map_of st s = Some p
              \<and> strip (pf_statement p) \<noteq> strip statement}"
    and "map_of (snd (settle statement subjects st)) s =
           (if s \<in> set subjects then None else map_of st s)"
  using assms
proof (induction subjects arbitrary: st)
  case (Cons x xs)
  {
    case 1
    have "set (fst (settle statement xs (dict_pop x st))) =
        {(s, fix_note p statement) | s p. s \<in> set xs \<and> map_of st s = Some p
              \<and> strip (pf_statement p) \<noteq> strip statement}"
      using Cons.IH(1) [of "dict_pop x st"] 1 by auto
    then show ?case by (auto simp: Let_def case_prod_unfold split: option.splits)
  next
    case 2
    then show ?case
      using Cons.IH(2) [of "dict_pop x st"] by (auto simp: Let_def case_prod_unfold split: option.splits)
  }
qed simp_all

lemma add_subject_distinct: "distinct ss \<Longrightarrow> distinct (add_subject dv ss ds)"
  by (simp add: add_subject_def Let_def)

lemma subjects_distinct: "distinct (subjects_from_statement statement dataverse)"
proof -
  have "distinct (foldl (\<lambda>ss m. add_subject (f m) ss (g m)) ss ms)" if "distinct ss" for f g ss and ms :: "re_match list"
    using that by (intro foldl_invariant [where P = distinct]) (simp_all add: add_subject_distinct)
  then show ?thesis
    by (simp add: subjects_from_statement_def Let_def split: option.splits)
qed

text \<open>
  A note is learned only from a pair: when a statement succeeds, exactly the datasets it
  reads that have a pending failure with a different statement yield a note, made of that
  failure and the working form, and no failure of those datasets stays pending while the others
  are untouched. A failing statement yields no note and becomes pending for its datasets.
\<close>

theorem capture_pairs:
  shows "(set (fst (capture_record statement None st)) =
      {(s, fix_note p statement) | s p. s \<in> set (subjects_from_statement statement None)
         \<and> map_of st s = Some p \<and> strip (pf_statement p) \<noteq> strip statement})
     \<and> (map_of (snd (capture_record statement None st)) s =
      (if s \<in> set (subjects_from_statement statement None) then None else map_of st s))
     \<and> (fst (capture_record statement (Some e) st) = [])
     \<and> (map_of (snd (capture_record statement (Some e) st)) s =
      (if s \<in> set (subjects_from_statement statement None)
       then Some \<lparr>pf_error = e, pf_statement = statement\<rparr> else map_of st s))"
proof (intro conjI)
  show "set (fst (capture_record statement None st)) =
      {(s, fix_note p statement) | s p. s \<in> set (subjects_from_statement statement None)
         \<and> map_of st s = Some p \<and> strip (pf_statement p) \<noteq> strip statement}"
    "map_of (snd (capture_record statement None st)) s =
      (if s \<in> set (subjects_from_statement statement None) then None else map_of st s)"
    using settle_notes [OF subjects_distinct, of statement statement None st]
    by (simp_all add: capture_record_def Let_def)
  show "fst (capture_record statement (Some e) st) = []"
    by (simp add: capture_record_def Let_def)
  have "map_of (foldl (\<lambda>d s. dict_set s v d) d ss) s = (if s \<in> set ss then Some v else map_of d s)"
    for v :: pending_failure and d ss
    by (induction ss arbitrary: d) auto
  then show "map_of (snd (capture_record statement (Some e) st)) s =
      (if s \<in> set (subjects_from_statement statement None)
       then Some \<lparr>pf_error = e, pf_statement = statement\<rparr> else map_of st s)"
    by (simp add: capture_record_def Let_def)
qed

section \<open>The buffer stays within its budget\<close>

lemma lines_bytes_append: "lines_bytes (a @ b) = lines_bytes a + lines_bytes b"
  by (simp add: lines_bytes_def)

lemma sum_dict_set:
  "distinct (map fst d) \<Longrightarrow>
   sum_list (map (\<lambda>p. f (snd p)) (dict_set k v d)) + (case map_of d k of Some w \<Rightarrow> f w | None \<Rightarrow> 0)
     = sum_list (map (\<lambda>p. f (snd p)) d) + (f v :: nat)"
proof (induction d)
  case (Cons p d)
  have "fst p = k \<Longrightarrow> map_of d k = None" using Cons.prems by (auto simp: map_of_eq_None_iff)
  then show ?case using Cons by (auto split: option.splits)
qed simp

lemma append_event_bytes:
  assumes "distinct (map fst (eb_files b))" and "text_given (session_log_dir s)"
    and "int (buffer_bytes b) < session_log_max_bytes s"
  shows "buffer_bytes (append_jsonl_event s event b)
     = buffer_bytes b + utf8_length (json_dumps (JDict event)) + 1"
proof -
  let ?n = "buffer_name s" and ?line = "json_dumps (JDict event)"
  have "sum_list (map (\<lambda>p. lines_bytes (snd p)) (dict_set ?n (file_lines ?n b @ [?line]) (eb_files b)))
      + lines_bytes (file_lines ?n b)
      = sum_list (map (\<lambda>p. lines_bytes (snd p)) (eb_files b)) + lines_bytes (file_lines ?n b @ [?line])"
    using sum_dict_set [OF assms(1), of lines_bytes ?n "file_lines ?n b @ [?line]"]
    by (simp add: file_lines_def lines_bytes_def split: option.splits)
  moreover have "\<not> session_log_max_bytes s \<le> int (buffer_bytes b)" using assms(3) by simp
  ultimately show ?thesis
    using assms(2) by (simp add: append_jsonl_event_def buffer_bytes_def lines_bytes_append)
      (simp add: lines_bytes_def)
qed

definition buffer_within :: "settings \<Rightarrow> nat \<Rightarrow> event_buffer \<Rightarrow> bool" where
  "buffer_within s line b \<longleftrightarrow> distinct (map fst (eb_files b))
     \<and> int (buffer_bytes b) < session_log_max_bytes s + int line + 1"

text \<open>
  The event buffer cannot fill the disk: starting from an empty directory, after any number
  of events of at most \<open>line\<close> bytes each, the whole directory holds less than the budget plus
  one line; an event that arrives over budget is dropped and leaves the files as they are.
\<close>

theorem event_buffer_bounded:
  assumes "\<forall>e \<in> set events. utf8_length (json_dumps (JDict e)) \<le> line"
    and "1 \<le> session_log_max_bytes s"
  shows "(int (buffer_bytes (fold (append_jsonl_event s) events \<lparr>eb_files = [], eb_reported = False\<rparr>))
           < session_log_max_bytes s + int line + 1)
     \<and> (session_log_max_bytes s \<le> int (buffer_bytes b) \<longrightarrow>
           eb_files (append_jsonl_event s event b) = eb_files b)"
proof (intro conjI)
  have step: "buffer_within s line (append_jsonl_event s e b)"
    if "buffer_within s line b" "utf8_length (json_dumps (JDict e)) \<le> line" for e b
  proof (cases "text_given (session_log_dir s) \<and> int (buffer_bytes b) < session_log_max_bytes s")
    case True
    then have "distinct (map fst (eb_files (append_jsonl_event s e b)))"
      using that(1) by (simp add: buffer_within_def append_jsonl_event_def)
    then show ?thesis
      using True that append_event_bytes [of b s e] by (simp add: buffer_within_def)
  next
    case False
    then show ?thesis
      using that(1) by (auto simp: append_jsonl_event_def buffer_within_def buffer_bytes_def)
  qed
  have "buffer_within s line (fold (append_jsonl_event s) events b)" if "buffer_within s line b" for b
    using assms(1) that by (induction events arbitrary: b) (simp_all add: step)
  moreover have "buffer_within s line \<lparr>eb_files = [], eb_reported = False\<rparr>"
    using assms(2) by (simp add: buffer_within_def buffer_bytes_def)
  ultimately show "int (buffer_bytes (fold (append_jsonl_event s) events \<lparr>eb_files = [], eb_reported = False\<rparr>))
           < session_log_max_bytes s + int line + 1"
    by (simp add: buffer_within_def)
  show "session_log_max_bytes s \<le> int (buffer_bytes b) \<longrightarrow>
           eb_files (append_jsonl_event s event b) = eb_files b"
    by (simp add: append_jsonl_event_def)
qed

theorem event_buffer_bounded_witness:
  "int (buffer_bytes (fold (append_jsonl_event (default_settings\<lparr>session_log_dir := Some ''/log''\<rparr>))
      [[(''id'', JStr ''a'')], [(''id'', JStr ''b'')]] \<lparr>eb_files = [], eb_reported = False\<rparr>)) < 33554432 + 100 + 1"
proof -
  have "\<forall>e \<in> set [[(''id'', JStr ''a'')], [(''id'', JStr ''b'')]]. utf8_length (json_dumps (JDict e)) \<le> 100"
    by code_simp
  from event_buffer_bounded [OF this, of "default_settings\<lparr>session_log_dir := Some ''/log''\<rparr>"]
  show ?thesis by (simp add: default_settings_def)
qed

section \<open>What capture sends\<close>

definition capture_request :: "cc_client \<Rightarrow> request \<Rightarrow> bool" where
  "capture_request c r \<longleftrightarrow> (\<exists>st. own_read c st r) \<or> catalog_request c inventory_query r
     \<or> (\<exists>st row. st \<in> {event_insert, upsert_row, insert_row} \<and> own_write c st [(''row'', JDict row)] r)"

lemma insert_event_emits: "emits (capture_request c) (insert_event c s new_uuid event)"
  unfolding insert_event_def
  by (intro emits_bind emits_return emits_mono [OF memory_write_own]) (auto simp: capture_request_def)

lemma record_event_emits:
  "emits (capture_request c)
     (record_session_event env c s new_uuid statement result_error client_name metrics session b)"
  unfolding record_session_event_def
  by (intro emits_bind emits_lift emits_if emits_catch emits_return insert_event_emits)

lemma write_request_captured: "write_request c r \<Longrightarrow> capture_request c r"
  by (auto simp: write_request_def capture_request_def)

lemma capture_outcome_emits:
  "emits (capture_request c)
     (capture_query_outcome ck env c s new_uuid st b statement result_error client_name metrics session)"
proof -
  have "emits (capture_request c) (write_notes ck c s new_uuid statement client_name ns)" for ns
    by (induction ck c s new_uuid statement client_name ns rule: write_notes.induct)
      (simp_all only: write_notes.simps emits_return emits_bind
        emits_mono [OF run_memory_write_emits write_request_captured])
  then show ?thesis
    unfolding capture_query_outcome_def Let_def case_prod_unfold
    by (intro emits_if emits_return emits_bind record_event_emits)
qed

text \<open>With the memory surface disabled nothing is sent and no state changes.\<close>

lemma capture_disabled:
  "\<not> memory_enabled s \<Longrightarrow>
   capture_query_outcome ck env c s new_uuid st b statement result_error client_name metrics session
     = io_return (st, b)"
  by (simp add: capture_query_outcome_def)

end
