(* ===== verification/Execute_Query.thy ===== *)
theory Execute_Query
  imports Statement_Guard Compiler_Params Egress Tenant_Policy Context_Id Artifacts Memory_Notes
begin

text \<open>
  The synchronous query tool (\<open>tools/execute_query.py\<close>): the statement is guarded, normalised,
  compiled, authorised on its plan and only then executed; the rows are paged, capped and, when
  the caller does not see all of them, stored as an artifact. Clock and fresh identifiers are
  arguments; the recall state and the artifact directory are threaded through.
\<close>

definition exec_max_limit :: int where
  "exec_max_limit = 1000"

definition reference_hint :: string where
  "reference_hint =
     ''Consult get_reference('' @ [CHR 0x27] @ ''errors'' @ [CHR 0x27] @ '') for this error code and get_reference(''
     @ [CHR 0x27] @ ''queries'' @ [CHR 0x27] @ '') for correct SQL++ patterns.''"

text \<open>Adding the hint to a message that is not a text raises.\<close>

definition with_reference_hint :: "gateway_error \<Rightarrow> exn + gateway_error" where
  "with_reference_hint e =
     (if ge_type e \<notin> {SYNTAX_ERROR, SEMANTIC_ERROR} then Inr e
      else case ge_message e of
        JStr m \<Rightarrow> Inr (e\<lparr>ge_message := JStr (m @ '' '' @ reference_hint)\<rparr>)
      | _ \<Rightarrow> Inl (PyExc ''TypeError''))"

record exec_args =
  xa_statement :: string
  xa_dataverse :: "string option"
  xa_offset :: int
  xa_limit :: int
  xa_compiler :: "dict option"
  xa_profile :: bool
  xa_signature :: bool
  xa_max_warnings :: int
  xa_user_tag :: "string option"
  xa_format :: "artifact_format option"

definition exec_defaults :: "string \<Rightarrow> exec_args" where
  "exec_defaults statement =
     \<lparr>xa_statement = statement, xa_dataverse = None, xa_offset = 0, xa_limit = 20, xa_compiler = None,
      xa_profile = False, xa_signature = False, xa_max_warnings = 5, xa_user_tag = None, xa_format = None\<rparr>"

text \<open>\<open>validate_compiler_parameters(p) if p else None\<close>; no parameters send no fields.\<close>

definition validated_params :: "dict option \<Rightarrow> exn + dict" where
  "validated_params params =
     (case params of
        None \<Rightarrow> Inr []
      | Some p \<Rightarrow> if p = [] then Inr []
          else map_sum id (map (\<lambda>(k, v). (k, JStr v))) (validate_compiler_parameters p))"

definition clamped_offset :: "exec_args \<Rightarrow> int" where
  "clamped_offset a = max (xa_offset a) 0"

definition clamped_limit :: "exec_args \<Rightarrow> int" where
  "clamped_limit a = min (max (xa_limit a) 1) exec_max_limit"

definition effective_statement :: "exec_args \<Rightarrow> string" where
  "effective_statement a = normalize_statement (xa_statement a) (clamped_limit a)"

text \<open>The calls inside the \<open>try\<close>: compile, authorise, assess, execute.\<close>

definition plan_args :: "string \<Rightarrow> string option \<Rightarrow> query_args" where
  "plan_args ccid dataverse = (query_defaults ccid)\<lparr>qa_dataverse := dataverse, qa_emit_plan := True\<rparr>"

definition authorized_execution ::
  "cc_client \<Rightarrow> settings \<Rightarrow> exec_args \<Rightarrow> string \<Rightarrow> (columnar_advisory option \<times> dict) io" where
  "authorized_execution c s a ccid =
     io_bind (io_lift (validated_params (xa_compiler a))) (\<lambda>params.
     io_bind (compile_query c (effective_statement a) (plan_args ccid (xa_dataverse a))) (\<lambda>plan.
     io_bind (io_lift (check_compiled_plan s (cc_principal c) plan (xa_dataverse a))) (\<lambda>_.
     io_bind (assess_columnar_scan c ccid (dget ''plans'' plan) (xa_dataverse a)) (\<lambda>advisory.
     io_bind (execute c (effective_statement a)
         ((query_defaults ccid)\<lparr>qa_dataverse := xa_dataverse a, qa_signature := xa_signature a,
            qa_profile := xa_profile a, qa_max_warnings := xa_max_warnings a, qa_compiler := params\<rparr>)) (\<lambda>envelope.
     io_return (advisory, envelope))))))"

section \<open>Shaping the result\<close>

definition envelope_rows :: "dict \<Rightarrow> json list" where
  "envelope_rows envelope =
     (case py_or (dget ''results'' envelope) (JList []) of JList xs \<Rightarrow> xs | v \<Rightarrow> [v])"

definition page_of :: "int \<Rightarrow> int \<Rightarrow> json list \<Rightarrow> json list" where
  "page_of offset most rows = take (nat most) (drop (nat offset) rows)"

definition egress_caps :: "settings \<Rightarrow> bool \<Rightarrow> int \<times> int" where
  "egress_caps s flagged =
     (if flagged then minimized_caps (max_rows_to_llm s) (max_bytes_to_llm s)
      else (max_rows_to_llm s, max_bytes_to_llm s))"

definition columnar_note :: string where
  "columnar_note =
     ''[columnar full scan flagged '' @ em_dash
     @ '' output minimized; project columns or add a WHERE filter to widen]''"

definition summarize :: "nat \<Rightarrow> int \<Rightarrow> bool \<Rightarrow> bool \<Rightarrow> string" where
  "summarize n offset further flagged =
     join '' '' ([''Returned '' @ show_nat n @ '' row(s)'']
       @ (if offset \<noteq> 0 then [''from offset '' @ show_int offset] else [])
       @ (if further then [''(more rows available in this result, increase limit or page with offset)''] else [])
       @ (if flagged then [columnar_note] else []))
     @ ''.''"

text \<open>The window, whether there is more, and the egress metadata before the artifact.\<close>

definition windowed ::
  "settings \<Rightarrow> int \<Rightarrow> int \<Rightarrow> bool \<Rightarrow> json list \<Rightarrow> json list \<times> bool \<times> dict" where
  "windowed s offset most flagged rows =
     (let (max_rows, max_bytes) = egress_caps s flagged;
          (shown, meta) = bound_rows_for_llm (page_of offset most rows) max_rows max_bytes (max_field_chars s)
      in (shown, offset + most < int (length rows) \<or> dget ''truncated'' meta = JBool True, meta))"

definition with_artifact :: "dict option \<Rightarrow> dict \<Rightarrow> dict" where
  "with_artifact artifact meta =
     (case artifact of None \<Rightarrow> meta | Some p \<Rightarrow> dict_set ''artifact'' (JDict p) meta)"

definition optional_fields_of :: "exec_args \<Rightarrow> columnar_advisory option \<Rightarrow> dict \<Rightarrow> dict" where
  "optional_fields_of a advisory envelope =
     (if effective_statement a \<noteq> strip (xa_statement a)
      then [(''effectiveStatement'', JStr (effective_statement a))] else [])
     @ (if dget ''metrics'' envelope \<noteq> JNull then [(''metrics'', dget ''metrics'' envelope)] else [])
     @ (if xa_signature a \<and> dget ''signature'' envelope \<noteq> JNull
        then [(''signature'', dget ''signature'' envelope)] else [])
     @ (if truthy (dget ''warnings'' envelope) then [(''warnings'', dget ''warnings'' envelope)] else [])
     @ (case advisory of None \<Rightarrow> [] | Some v \<Rightarrow> [(''advisories'', JList [JDict (advisory_payload v)])])"

definition shape_result ::
  "artifact_env \<Rightarrow> settings \<Rightarrow> exec_args \<Rightarrow> string \<Rightarrow> columnar_advisory option \<Rightarrow> dict \<Rightarrow> artifact_dir
     \<Rightarrow> tool_result \<times> artifact_dir" where
  "shape_result env s a ccid advisory envelope d =
     (let offset = clamped_offset a; most = clamped_limit a;
          rows = envelope_rows envelope;
          (shown, further, meta) = windowed s offset most (advisory \<noteq> None) rows;
          (artifact, d') = overflow_artifact_payload env s rows further (xa_format a) d;
          structured =
            [(''status'', JStr ''success''), (''clientContextID'', JStr ccid),
             (''rowsReturned'', JInt (int (length shown))),
             (''rowsAvailableInResponse'', JInt (int (length rows))),
             (''offset'', JInt offset), (''limit'', JInt most), (''moreAvailable'', JBool further),
             (''results'', JList shown), (''egress'', JDict (with_artifact artifact meta))]
            @ optional_fields_of a advisory envelope
      in (tool_ok (summarize (length shown) offset further (advisory \<noteq> None)) structured, d'))"

record exec_env =
  xe_clock :: clock
  xe_artifacts :: artifact_env
  xe_uuid :: string

definition run_execute_query ::
  "exec_env \<Rightarrow> cc_client \<Rightarrow> settings \<Rightarrow> exec_args \<Rightarrow> recall_state option \<Rightarrow> artifact_dir
     \<Rightarrow> (tool_result \<times> recall_state option \<times> artifact_dir) io" where
  "run_execute_query env c s a recall d =
     (let ccid = make_client_context_id (agent_session_id s) (xa_user_tag a) (xe_uuid env)
      in case check_unsupported_functions (xa_statement a) of
           Some e \<Rightarrow> io_return (tool_error e, recall, d)
         | None \<Rightarrow>
             io_bind (io_catch (io_bind (authorized_execution c s a ccid) (\<lambda>r. io_return (Inr r)))
                        (\<lambda>e. io_return (Inl e))) (\<lambda>outcome.
             case outcome of
               Inl e \<Rightarrow>
                 io_bind (io_lift (with_reference_hint e)) (\<lambda>e'.
                 io_bind (attach_statement_notes (xe_clock env) c ccid (xa_statement a) (tool_error e') recall
                            False (Some s) (xa_dataverse a)) (\<lambda>(r, recall').
                 io_return (r, recall', d)))
             | Inr (advisory, envelope) \<Rightarrow>
                 (case shape_result (xe_artifacts env) s a ccid advisory envelope d of
                    (shaped, d') \<Rightarrow>
                      io_bind (attach_statement_notes (xe_clock env) c ccid (xa_statement a) shaped recall
                                 True (Some s) (xa_dataverse a)) (\<lambda>(r, recall').
                      io_return (r, recall', d')))))"

section \<open>Nothing runs before it is authorised\<close>

definition plan_admitted :: "cc_client \<Rightarrow> settings \<Rightarrow> exec_args \<Rightarrow> string \<Rightarrow> trace \<Rightarrow> bool" where
  "plan_admitted c s a ccid t \<longleftrightarrow>
     (\<exists>plan t'. compile_query c (effective_statement a) (plan_args ccid (xa_dataverse a)) t = (Inr plan, t')
        \<and> check_compiled_plan s (cc_principal c) plan (xa_dataverse a) = Inr ())"

definition exec_ccid :: "exec_env \<Rightarrow> settings \<Rightarrow> exec_args \<Rightarrow> string" where
  "exec_ccid env s a = make_client_context_id (agent_session_id s) (xa_user_tag a) (xe_uuid env)"

lemma not_admitted_only_compiles:
  assumes "\<not> plan_admitted c s a ccid t"
  shows "\<exists>e sent. authorized_execution c s a ccid t = (Inl e, t @ sent)
           \<and> (\<forall>r \<in> set sent. compile_request c (effective_statement a) r)"
proof (cases "validated_params (xa_compiler a)")
  case (Inl e)
  then show ?thesis by (simp add: authorized_execution_def)
next
  case (Inr params)
  obtain p t' where comp: "compile_query c (effective_statement a) (plan_args ccid (xa_dataverse a)) t = (p, t')"
    by fastforce
  obtain sent where sent: "t' = t @ sent" "\<forall>r \<in> set sent. compile_request c (effective_statement a) r"
    using emitsE [OF compile_query_emits comp] .
  show ?thesis
  proof (cases p)
    case (Inl e)
    then show ?thesis using comp sent Inr by (simp add: authorized_execution_def io_bind_def)
  next
    case plan: (Inr plan)
    then obtain e where "check_compiled_plan s (cc_principal c) plan (xa_dataverse a) = Inl e"
      using assms comp by (cases "check_compiled_plan s (cc_principal c) plan (xa_dataverse a)")
        (auto simp: plan_admitted_def)
    then show ?thesis using comp sent Inr plan by (simp add: authorized_execution_def io_bind_def)
  qed
qed

text \<open>The report of a failure: only recall requests, the directory untouched, still an error.\<close>

definition report_failure ::
  "exec_env \<Rightarrow> cc_client \<Rightarrow> settings \<Rightarrow> exec_args \<Rightarrow> recall_state option \<Rightarrow> artifact_dir \<Rightarrow> gateway_error
     \<Rightarrow> (tool_result \<times> recall_state option \<times> artifact_dir) io" where
  "report_failure env c s a recall d e =
     io_bind (io_lift (with_reference_hint e)) (\<lambda>e'.
     io_bind (attach_statement_notes (xe_clock env) c (exec_ccid env s a) (xa_statement a) (tool_error e') recall
                False (Some s) (xa_dataverse a)) (\<lambda>(r, recall').
     io_return (r, recall', d)))"

lemma report_failure_emits: "emits (recall_request c (Some s)) (report_failure env c s a recall d e)"
  unfolding report_failure_def case_prod_unfold
  by (intro emits_bind emits_lift emits_return attach_emits)

lemma report_failure_yields:
  "yields (\<lambda>(r, recall', d'). tr_is_error r \<and> d' = d) (report_failure env c s a recall d e)"
  unfolding report_failure_def case_prod_unfold
  by (intro yields_bind_any yields_bind [OF attach_yields_enriched] yields_return)
    (simp add: enriches_def tool_error_def)

lemma run_of_failure:
  assumes "check_unsupported_functions (xa_statement a) = None"
    and "authorized_execution c s a (exec_ccid env s a) t = (Inl e, t')"
  shows "run_execute_query env c s a recall d t =
     (case e of GatewayExc g \<Rightarrow> report_failure env c s a recall d g t' | PyExc p \<Rightarrow> (Inl (PyExc p), t'))"
  using assms
  by (auto simp: run_execute_query_def exec_ccid_def report_failure_def io_bind_def io_catch_def Let_def
      split: exn.splits)

lemma run_not_admitted:
  assumes "\<not> plan_admitted c s a (exec_ccid env s a) t"
  shows "\<exists>out sent. run_execute_query env c s a recall d t = (out, t @ sent)
      \<and> (\<forall>r \<in> set sent. compile_request c (effective_statement a) r \<or> recall_request c (Some s) r)
      \<and> (\<forall>r recall' d'. out = Inr (r, recall', d') \<longrightarrow> tr_is_error r \<and> d' = d)"
proof (cases "check_unsupported_functions (xa_statement a)")
  case (Some e)
  then show ?thesis by (simp add: run_execute_query_def tool_error_def)
next
  case None
  obtain e sent where ex: "authorized_execution c s a (exec_ccid env s a) t = (Inl e, t @ sent)"
    and sent: "\<forall>r \<in> set sent. compile_request c (effective_statement a) r"
    using not_admitted_only_compiles [OF assms] by blast
  show ?thesis
  proof (cases e)
    case (PyExc p)
    then show ?thesis using run_of_failure [OF None ex] sent by simp
  next
    case (GatewayExc g)
    obtain out t2 where rep: "report_failure env c s a recall d g (t @ sent) = (out, t2)" by fastforce
    obtain more where "t2 = (t @ sent) @ more" "\<forall>r \<in> set more. recall_request c (Some s) r"
      using emitsE [OF report_failure_emits rep] .
    moreover have "tr_is_error r \<and> d' = d" if "out = Inr (r, recall', d')" for r recall' d'
      using yieldsD [OF report_failure_yields] rep that by fastforce
    ultimately show ?thesis
      using run_of_failure [OF None ex] GatewayExc rep sent by auto
  qed
qed

text \<open>
  C9. A statement whose plan is not admitted is never executed: unless the cluster compiled the
  statement and its plan passed the caller's authorisation, everything the query tool sends is
  compile-only or an own-tenant memory request, the tool answers an error and no artifact is
  written. In every run whatsoever, all requests are read-only apart from guarded own-tenant
  memory upserts.
\<close>

theorem execute_only_admitted:
  "(\<not> plan_admitted c s a (exec_ccid env s a) t \<longrightarrow>
     (\<exists>out sent. run_execute_query env c s a recall d t = (out, t @ sent)
        \<and> (\<forall>r \<in> set sent. compile_request c (effective_statement a) r \<or> recall_request c (Some s) r)
        \<and> (\<forall>r recall' d'. out = Inr (r, recall', d') \<longrightarrow> tr_is_error r \<and> d' = d)))
   \<and> emits (\<lambda>r. read_only r \<or> recall_request c (Some s) r) (run_execute_query env c s a recall d)"
proof (intro conjI impI)
  have "emits read_only (authorized_execution c s a ccid)" for ccid
    unfolding authorized_execution_def
    by (intro emits_bind emits_lift emits_return compile_query_read_only assess_columnar_scan_read_only
        execute_read_only)
  then have "emits (\<lambda>r. read_only r \<or> recall_request c (Some s) r) (authorized_execution c s a ccid)" for ccid
    by (rule emits_mono) simp
  moreover have "emits (\<lambda>r. read_only r \<or> recall_request c (Some s) r)
      (attach_statement_notes ck c ccid st res recall first (Some s) dv)" for ck ccid st res first dv
    by (rule emits_mono [OF attach_emits]) simp
  ultimately show "emits (\<lambda>r. read_only r \<or> recall_request c (Some s) r) (run_execute_query env c s a recall d)"
    unfolding run_execute_query_def Let_def case_prod_unfold
    by (intro emits_option emits_return emits_bind emits_catch emits_sum emits_lift)
qed (rule run_not_admitted)

lemma quiet_plan_not_admitted:
  "\<not> plan_admitted (quiet_client tenant_settings (Some ''alice'')) tenant_settings (exec_defaults ''SELECT 1;'') ''i'' []"
proof -
  let ?run = "compile_query (quiet_client tenant_settings (Some ''alice'')) (effective_statement (exec_defaults ''SELECT 1;''))
      (plan_args ''i'' (xa_dataverse (exec_defaults ''SELECT 1;''))) []"
  have "case fst ?run of Inl _ \<Rightarrow> True
      | Inr plan \<Rightarrow> check_compiled_plan tenant_settings (Some ''alice'') plan None \<noteq> Inr ()"
    by code_simp
  then show ?thesis
    by (cases ?run) (auto simp: plan_admitted_def quiet_client_def exec_defaults_def split: sum.splits)
qed

theorem execute_only_admitted_witness:
  "\<exists>out sent. run_execute_query \<lparr>xe_clock = \<lparr>ck_now = ''now'', ck_age = (\<lambda>_. None), ck_log1p = (\<lambda>x. x)\<rparr>,
       xe_artifacts = \<lparr>ae_tmp = ''/tmp'', ae_now = 100, ae_uuid = ''0'', ae_iso = (\<lambda>_. ''t'')\<rparr>, xe_uuid = ''u''\<rparr>
     (quiet_client tenant_settings (Some ''alice'')) tenant_settings (exec_defaults ''SELECT 1;'') None [] []
       = (out, sent)
     \<and> (\<forall>r \<in> set sent. compile_request (quiet_client tenant_settings (Some ''alice'')) ''SELECT 1;'' r
          \<or> recall_request (quiet_client tenant_settings (Some ''alice'')) (Some tenant_settings) r)"
proof -
  let ?env = "\<lparr>xe_clock = \<lparr>ck_now = ''now'', ck_age = (\<lambda>_. None), ck_log1p = (\<lambda>x. x)\<rparr>,
       xe_artifacts = \<lparr>ae_tmp = ''/tmp'', ae_now = 100, ae_uuid = ''0'', ae_iso = (\<lambda>_. ''t'')\<rparr>, xe_uuid = ''u''\<rparr>"
  let ?c = "quiet_client tenant_settings (Some ''alice'')"
  let ?a = "exec_defaults ''SELECT 1;''"
  have "case fst (compile_query ?c (effective_statement ?a) (plan_args (exec_ccid ?env tenant_settings ?a) None) []) of
      Inl _ \<Rightarrow> True | Inr plan \<Rightarrow> check_compiled_plan tenant_settings (Some ''alice'') plan None \<noteq> Inr ()"
    by code_simp
  then have "\<not> plan_admitted ?c tenant_settings ?a (exec_ccid ?env tenant_settings ?a) []"
    by (cases "compile_query ?c (effective_statement ?a) (plan_args (exec_ccid ?env tenant_settings ?a) None) []")
      (auto simp: plan_admitted_def quiet_client_def exec_defaults_def split: sum.splits)
  moreover have "effective_statement ?a = ''SELECT 1;''" by code_simp
  ultimately show ?thesis
    using execute_only_admitted [of ?c tenant_settings ?a ?env "[]" None "[]"] by auto
qed

section \<open>What the caller sees\<close>

text \<open>The window of a page, its length and what it leaves out.\<close>

lemma bound_rows_facts:
  assumes "bound_rows_for_llm rows max_rows max_bytes most = (out, meta)"
  shows "prefix out (map (clamp_long_values most) rows)" and "int (length out) \<le> max max_rows 0"
    and "dget ''truncated'' meta = JBool (length out \<noteq> length rows)"
    and "sum_list (map row_bytes out) \<le> max_bytes \<or> length out \<le> 1"
proof -
  have "let (out, meta) = truncate_for_llm (map (clamp_long_values most) rows) max_rows max_bytes
     in \<exists>bytes. window_ok (map (clamp_long_values most) rows) max_rows max_bytes out bytes
        \<and> dget ''totalRows'' meta = JInt (int (length (map (clamp_long_values most) rows)))
        \<and> dget ''deliveredRows'' meta = JInt (int (length out))
        \<and> dget ''deliveredBytes'' meta = JInt bytes
        \<and> dget ''truncated'' meta = JBool (out \<noteq> map (clamp_long_values most) rows)"
    by (rule truncate_window)
  then have ok: "prefix out (map (clamp_long_values most) rows)" "int (length out) \<le> max max_rows 0"
    "dget ''truncated'' meta = JBool (out \<noteq> map (clamp_long_values most) rows)"
    "sum_list (map row_bytes out) \<le> max_bytes \<or> length out \<le> 1"
    using assms by (auto simp: bound_rows_for_llm_def window_ok_def)
  have "out = map (clamp_long_values most) rows \<longleftrightarrow> length out = length rows"
    using ok(1) by (metis append_Nil2 append_eq_append_conv length_map prefixE)
  then show "prefix out (map (clamp_long_values most) rows)" "int (length out) \<le> max max_rows 0"
    "dget ''truncated'' meta = JBool (length out \<noteq> length rows)"
    "sum_list (map row_bytes out) \<le> max_bytes \<or> length out \<le> 1"
    using ok by simp_all
qed

lemma windowed_facts:
  assumes "windowed s offset most flagged rows = (shown, further, meta)" and "0 \<le> offset" and "0 \<le> most"
  shows "prefix shown (map (clamp_long_values (max_field_chars s)) (page_of offset most rows))"
    and "int (length shown) \<le> most" and "int (length shown) \<le> max (max_rows_to_llm s) 0"
    and "flagged \<Longrightarrow> length shown \<le> 10"
    and "further \<longleftrightarrow> offset + int (length shown) < int (length rows)"
    and "sum_list (map row_bytes shown) \<le> (if flagged then min (max_bytes_to_llm s) 16384 else max_bytes_to_llm s) \<or> length shown \<le> 1"
proof -
  obtain mr mb where caps: "egress_caps s flagged = (mr, mb)" by fastforce
  have b: "bound_rows_for_llm (page_of offset most rows) mr mb (max_field_chars s) = (shown, meta)"
    and m: "further \<longleftrightarrow> offset + most < int (length rows) \<or> dget ''truncated'' meta = JBool True"
    using assms(1) caps by (auto simp: windowed_def Let_def split: prod.splits)
  have pl: "length (page_of offset most rows) = min (nat most) (length rows - nat offset)"
    by (simp add: page_of_def)
  show "prefix shown (map (clamp_long_values (max_field_chars s)) (page_of offset most rows))"
    by (rule bound_rows_facts(1) [OF b])
  from prefix_length_le [OF this] have le: "length shown \<le> length (page_of offset most rows)" by simp
  then show "int (length shown) \<le> most" using pl assms(3) by linarith
  have mr: "int (length shown) \<le> max mr 0" by (rule bound_rows_facts(2) [OF b])
  then show "int (length shown) \<le> max (max_rows_to_llm s) 0" "flagged \<Longrightarrow> length shown \<le> 10"
    using caps by (auto simp: egress_caps_def minimized_caps_def split: if_splits)
  show "sum_list (map row_bytes shown) \<le> (if flagged then min (max_bytes_to_llm s) 16384 else max_bytes_to_llm s) \<or> length shown \<le> 1"
    using bound_rows_facts(4) [OF b] caps by (auto simp: egress_caps_def minimized_caps_def split: if_splits)
  show "further \<longleftrightarrow> offset + int (length shown) < int (length rows)"
    using bound_rows_facts(3) [OF b] le pl assms(2,3) unfolding m by (auto simp: min_def split: if_splits)
qed

lemma stored_overflow:
  assumes "overflow_artifact_payload env s rows True fmt d = (artifact, d')"
    and "artifacts_enabled s" and "rows \<noteq> []"
  shows "\<exists>f body. map_of d' (artifact_name (ae_uuid env) f) = Some body \<and> sf_body body = serialize_rows rows f"
  using assms by (auto simp: overflow_artifact_payload_def write_overflow_artifact_def Let_def)

text \<open>
  C15. The answer of a query is honest about what it leaves out: the rows shown are the clamped
  beginning of the requested page, at most the limit, the row cap and, for a flagged columnar
  scan, ten; unless it is a single row, they fit the byte cap, which for a flagged scan is at most
  16 KiB; \<open>moreAvailable\<close> says exactly whether a row after the offset is missing from them,
  and then, with artifacts enabled, the complete unclamped result is in the artifact directory.
\<close>

theorem execute_result_honest:
  "let (r, d') = shape_result env s a ccid advisory envelope d;
       rows = envelope_rows envelope; offset = clamped_offset a
   in \<exists>shown further. dget ''results'' (tr_structured r) = JList shown
        \<and> prefix shown (map (clamp_long_values (max_field_chars s)) (page_of offset (clamped_limit a) rows))
        \<and> int (length shown) \<le> min (clamped_limit a) (max (max_rows_to_llm s) 0)
        \<and> (advisory \<noteq> None \<longrightarrow> length shown \<le> 10)
        \<and> (sum_list (map row_bytes shown)
              \<le> (if advisory \<noteq> None then min (max_bytes_to_llm s) 16384 else max_bytes_to_llm s)
             \<or> length shown \<le> 1)
        \<and> dget ''moreAvailable'' (tr_structured r) = JBool further
        \<and> (further \<longleftrightarrow> offset + int (length shown) < int (length rows))
        \<and> (further \<and> artifacts_enabled s \<longrightarrow>
             (\<exists>f body. map_of d' (artifact_name (ae_uuid env) f) = Some body \<and> sf_body body = serialize_rows rows f))"
proof -
  let ?rows = "envelope_rows envelope"
  obtain shown further meta where
    w: "windowed s (clamped_offset a) (clamped_limit a) (advisory \<noteq> None) ?rows = (shown, further, meta)"
    by (rule prod_cases3)
  obtain artifact d' where art: "overflow_artifact_payload env s ?rows further (xa_format a) d = (artifact, d')"
    by fastforce
  have off: "0 \<le> clamped_offset a" "0 \<le> clamped_limit a"
    by (simp_all add: clamped_offset_def clamped_limit_def exec_max_limit_def)
  note facts = windowed_facts [OF w off]
  have fields: "snd (shape_result env s a ccid advisory envelope d) = d'"
    "dget ''results'' (tr_structured (fst (shape_result env s a ccid advisory envelope d))) = JList shown"
    "dget ''moreAvailable'' (tr_structured (fst (shape_result env s a ccid advisory envelope d))) = JBool further"
    using w art by (simp_all add: shape_result_def Let_def tool_ok_def dget_def)
  have "?rows \<noteq> []" if further using facts(5) that off by auto
  then have stored: "\<exists>f body. map_of d' (artifact_name (ae_uuid env) f) = Some body \<and> sf_body body = serialize_rows ?rows f"
    if "further" "artifacts_enabled s"
    using stored_overflow [of env s ?rows "xa_format a" d artifact d'] art that by simp
  show ?thesis
    using facts fields stored by (simp add: case_prod_unfold Let_def)
qed

theorem execute_result_honest_witness:
  "dget ''moreAvailable'' (tr_structured (fst (shape_result
       \<lparr>ae_tmp = ''/tmp'', ae_now = 100, ae_uuid = ''0'', ae_iso = (\<lambda>_. ''t'')\<rparr> default_settings
       ((exec_defaults ''SELECT 1;'')\<lparr>xa_limit := 2\<rparr>) ''i'' None
       [(''results'', JList [JInt 1, JInt 2, JInt 3])] []))) = JBool True
   \<and> (\<exists>f body. map_of (snd (shape_result
       \<lparr>ae_tmp = ''/tmp'', ae_now = 100, ae_uuid = ''0'', ae_iso = (\<lambda>_. ''t'')\<rparr> default_settings
       ((exec_defaults ''SELECT 1;'')\<lparr>xa_limit := 2\<rparr>) ''i'' None
       [(''results'', JList [JInt 1, JInt 2, JInt 3])] [])) (artifact_name ''0'' f) = Some body
     \<and> sf_body body = serialize_rows [JInt 1, JInt 2, JInt 3] f)"
proof -
  let ?env = "\<lparr>ae_tmp = ''/tmp'', ae_now = 100, ae_uuid = ''0'', ae_iso = (\<lambda>_. ''t'')\<rparr>"
  let ?a = "(exec_defaults ''SELECT 1;'')\<lparr>xa_limit := 2\<rparr>"
  let ?e = "[(''results'', JList [JInt 1, JInt 2, JInt 3])]"
  have more: "dget ''moreAvailable'' (tr_structured (fst (shape_result ?env default_settings ?a ''i'' None ?e []))) = JBool True"
    by code_simp
  have rows: "envelope_rows ?e = [JInt 1, JInt 2, JInt 3]" "artifacts_enabled default_settings"
    by code_simp+
  show ?thesis
    using execute_result_honest [of ?env default_settings ?a "''i''" None ?e "[]"] more rows
    by (auto simp: case_prod_unfold Let_def)
qed

end
