(* ===== verification/Async_Query.thy ===== *)
theory Async_Query
  imports Execute_Query Audit_Log Permits Memory_Capture
begin

text \<open>
  The asynchronous query tools (\<open>tools/async_query.py\<close>): submit, wait, fetch and cancel, joined
  by the audit log. The readings of the clock are arguments: one when the wait begins and one
  after each poll. Progress notifications are advisory and left out. A permit is held for the
  body of one call and given back after it, which leaves the counters as they were.
\<close>

definition terminal_statuses :: "string list" where
  "terminal_statuses = [''success'', ''failed'', ''fatal'', ''timeout'']"

definition failure_type :: "string \<Rightarrow> error_type" where
  "failure_type status = (if status = ''timeout'' then TIMEOUT else INTERNAL)"

definition unknown_submission :: "string \<Rightarrow> gateway_error" where
  "unknown_submission ccid =
     gerr NOT_FOUND (''No submitted query found for clientContextID '' @ repr_str ccid
       @ ''. Submit one with submit_async_query first, and pass back the exact clientContextID it returned.'')"

definition foreign_session :: gateway_error where
  "foreign_session =
     gerr FORBIDDEN ''This clientContextID belongs to a different session. You can only wait on, fetch, or cancel queries you submitted in this session.''"

definition check_ownership :: "settings \<Rightarrow> string \<Rightarrow> gateway_error option" where
  "check_ownership s ccid =
     (case parse_client_context_id ccid of
        Inl _ \<Rightarrow> None
      | Inr (session, _, _) \<Rightarrow>
          if session \<noteq> sanitize_segment (agent_session_id s) None then Some foreign_session else None)"

definition str_or :: "json \<Rightarrow> string \<Rightarrow> string" where
  "str_or v dflt = (case as_str v of None \<Rightarrow> dflt | Some s \<Rightarrow> if s = [] then dflt else s)"

section \<open>Submitting\<close>

record async_env =
  ay_now :: rat
  ay_uuid :: string
  ay_start :: rat
  ay_reads :: "nat \<Rightarrow> rat"
  ay_clock :: clock
  ay_event :: event_env

record submit_args =
  sa_statement :: string
  sa_dataverse :: "string option"
  sa_compiler :: "dict option"
  sa_user_tag :: "string option"

definition under_permit :: "permit_pool \<Rightarrow> string option \<Rightarrow> 'a io \<Rightarrow> 'a io" where
  "under_permit p who body =
     (case take_permit p (permit_holder who) of Inl e \<Rightarrow> io_raise (GatewayExc e) | Inr _ \<Rightarrow> body)"

definition submission ::
  "cc_client \<Rightarrow> settings \<Rightarrow> permit_pool \<Rightarrow> submit_args \<Rightarrow> string \<Rightarrow> string \<Rightarrow> dict
     \<Rightarrow> (dict \<times> columnar_advisory option \<times> dict) io" where
  "submission c s p a effective ccid params =
     io_bind (compile_query c effective ((plan_args ccid (sa_dataverse a))\<lparr>qa_signature := True\<rparr>)) (\<lambda>compiled.
     io_bind (io_lift (check_compiled_plan s (cc_principal c) compiled (sa_dataverse a))) (\<lambda>_.
     io_bind (assess_columnar_scan c ccid (dget ''plans'' compiled) (sa_dataverse a)) (\<lambda>advisory.
     io_bind (under_permit p (cc_principal c)
        (submit_async c effective
           ((query_defaults ccid)\<lparr>qa_dataverse := sa_dataverse a, qa_compiler := params\<rparr>))) (\<lambda>envelope.
     io_return (compiled, advisory, envelope)))))"

definition submitted_entry ::
  "async_env \<Rightarrow> settings \<Rightarrow> submit_args \<Rightarrow> string \<Rightarrow> dict \<Rightarrow> columnar_advisory option \<Rightarrow> dict \<Rightarrow> audit_entry" where
  "submitted_entry env s a ccid compiled advisory envelope =
     (new_entry ccid (agent_session_id s) (sa_statement a) (ay_now env))
       \<lparr>ae_handle := as_str (dget ''handle'' envelope), ae_dataverse := sa_dataverse a,
        ae_signature := dget ''signature'' compiled, ae_advisory := map_option advisory_payload advisory,
        ae_tool := Some ''submit_async_query'', ae_outcome := Some outcome_submitted\<rparr>"

definition submitted_result :: "string \<Rightarrow> columnar_advisory option \<Rightarrow> dict \<Rightarrow> tool_result" where
  "submitted_result ccid advisory envelope =
     tool_ok (''Submitted async query. Pass clientContextID '' @ repr_str ccid
         @ '' to wait_on_async_query, then fetch_query_result.''
         @ (if advisory \<noteq> None
            then '' Note: columnar full scan flagged '' @ em_dash @ '' fetched output will be minimized.'' else []))
       ([(''status'', JStr ''submitted''), (''clientContextID'', JStr ccid),
         (''queryStatus'', JStr (str_or (dget ''status'' envelope) ''running''))]
        @ (case advisory of None \<Rightarrow> [] | Some v \<Rightarrow> [(''advisories'', JList [JDict (advisory_payload v)])]))"

text \<open>The parameters are validated before the \<open>try\<close>; a bad one answers its error all the same.\<close>

definition run_submit_async_query ::
  "async_env \<Rightarrow> cc_client \<Rightarrow> settings \<Rightarrow> permit_pool \<Rightarrow> submit_args \<Rightarrow> audit_log \<Rightarrow> (tool_result \<times> audit_log) io" where
  "run_submit_async_query env c s p a al =
     (case check_unsupported_functions (sa_statement a) of
        Some e \<Rightarrow> io_return (tool_error e, al)
      | None \<Rightarrow>
          let ccid = make_client_context_id (agent_session_id s) (sa_user_tag a) (ay_uuid env);
              effective = normalize_statement (sa_statement a) exec_max_limit
          in io_catch
               (io_bind (io_lift (validated_params (sa_compiler a))) (\<lambda>params.
                io_bind (submission c s p a effective ccid params) (\<lambda>(compiled, advisory, envelope).
                io_return (submitted_result ccid advisory envelope,
                  audit_record (ay_now env) (submitted_entry env s a ccid compiled advisory envelope) al))))
               (\<lambda>e. io_return (tool_error e, al)))"

section \<open>Waiting\<close>

definition clamp_timeout :: "int option \<Rightarrow> int \<Rightarrow> int" where
  "clamp_timeout requested ceiling_ms =
     (case requested of None \<Rightarrow> ceiling_ms | Some r \<Rightarrow> min (max r 0) ceiling_ms)"

definition status_of :: "dict \<Rightarrow> string" where
  "status_of envelope = lower (str_or (dget ''status'' envelope) [])"

datatype poll_outcome = Finished dict string | StillRunning string

text \<open>The loop: one poll per round, the reading \<open>reads k\<close> of the clock after the k-th poll.\<close>

partial_function (option) poll_from ::
  "cc_client \<Rightarrow> string \<Rightarrow> rat \<Rightarrow> (nat \<Rightarrow> rat) \<Rightarrow> nat \<Rightarrow> trace \<Rightarrow> ((exn + poll_outcome) \<times> trace) option" where
  "poll_from c handle deadline reads k t =
     (case poll_status c handle t of
        (Inl e, t') \<Rightarrow> Some (Inl e, t')
      | (Inr envelope, t') \<Rightarrow>
          if status_of envelope \<in> set terminal_statuses
          then Some (Inr (Finished envelope (status_of envelope)), t')
          else if deadline \<le> reads k then Some (Inr (StillRunning (status_of envelope)), t')
          else poll_from c handle deadline reads (Suc k) t')"

definition first_error :: "dict \<Rightarrow> dict option" where
  "first_error envelope =
     (case dget ''errors'' envelope of JList (JDict d # _) \<Rightarrow> Some d | _ \<Rightarrow> None)"

definition first_error_message :: "dict \<Rightarrow> string option" where
  "first_error_message envelope =
     (case first_error envelope of None \<Rightarrow> None | Some d \<Rightarrow> as_str (dget ''msg'' d))"

definition finished_result :: "string \<Rightarrow> string \<Rightarrow> tool_result" where
  "finished_result ccid status =
     tool_ok (''Query finished. Fetch rows with fetch_query_result using clientContextID '' @ repr_str ccid @ ''.'')
       [(''status'', JStr ''success''), (''done'', JBool True), (''queryStatus'', JStr status),
        (''clientContextID'', JStr ccid)]"

definition terminal_result ::
  "rat \<Rightarrow> audit_log \<Rightarrow> audit_entry \<Rightarrow> dict \<Rightarrow> string \<Rightarrow> tool_result \<times> audit_log" where
  "terminal_result now al entry envelope status =
     (if status = ''success''
      then (finished_result (ae_ccid entry) status,
            case as_str (dget ''handle'' envelope) of
              None \<Rightarrow> al | Some h \<Rightarrow> audit_record now (with_result_handle h entry) al)
      else
        let message = (case first_error_message envelope of None \<Rightarrow> [] | Some m \<Rightarrow> m)
        in (tool_error (gerr (failure_type status)
              (if message = [] then ''Async query ended with status '' @ repr_str status @ ''.'' else message)), al))"

definition still_running_result :: "string \<Rightarrow> string \<Rightarrow> tool_result" where
  "still_running_result ccid status =
     tool_ok ''Query is still running. Call wait_on_async_query again to keep waiting.''
       [(''status'', JStr ''pending''), (''done'', JBool False),
        (''queryStatus'', JStr (if status = [] then ''running'' else status)), (''clientContextID'', JStr ccid)]"

type_synonym captured = "(capture_state \<times> event_buffer) option"

definition capture_terminal ::
  "async_env \<Rightarrow> cc_client \<Rightarrow> settings \<Rightarrow> audit_entry \<Rightarrow> string \<Rightarrow> string option \<Rightarrow> captured \<Rightarrow> captured io" where
  "capture_terminal env c s entry status client_name cap =
     (case cap of
        None \<Rightarrow> io_return None
      | Some (st, b) \<Rightarrow>
          io_bind (capture_query_outcome (ay_clock env) (ay_event env) c s (ay_uuid env) st b (ae_statement entry)
             (if status = ''success'' then None else Some (error_name (failure_type status))) client_name [] None)
            (\<lambda>stored. io_return (Some stored)))"

definition finish_wait ::
  "async_env \<Rightarrow> cc_client \<Rightarrow> settings \<Rightarrow> audit_log \<Rightarrow> audit_entry \<Rightarrow> string option \<Rightarrow> captured \<Rightarrow> poll_outcome
     \<Rightarrow> (tool_result \<times> audit_log \<times> captured) io" where
  "finish_wait env c s al entry client_name cap outcome =
     (case outcome of
        StillRunning status \<Rightarrow> io_return (still_running_result (ae_ccid entry) status, al, cap)
      | Finished envelope status \<Rightarrow>
          io_bind (capture_terminal env c s entry status client_name cap) (\<lambda>cap'.
          case terminal_result (ay_now env) al entry envelope status of
            (r, al') \<Rightarrow> io_return (r, al', cap')))"

definition wait_deadline :: "async_env \<Rightarrow> settings \<Rightarrow> int option \<Rightarrow> rat" where
  "wait_deadline env s timeout_ms = ay_start env + of_int (clamp_timeout timeout_ms (max_wait_ms s)) / 1000"

definition run_wait_on_async_query ::
  "async_env \<Rightarrow> cc_client \<Rightarrow> settings \<Rightarrow> permit_pool \<Rightarrow> string \<Rightarrow> int option \<Rightarrow> string option \<Rightarrow> audit_log \<Rightarrow> captured
     \<Rightarrow> trace \<Rightarrow> ((exn + (tool_result \<times> audit_log \<times> captured)) \<times> trace) option" where
  "run_wait_on_async_query env c s p ccid timeout_ms client_name al cap t =
     (case check_ownership s ccid of
        Some e \<Rightarrow> Some (Inr (tool_error e, al, cap), t)
      | None \<Rightarrow>
          (case audit_get (ay_now env) ccid al of
             (None, al') \<Rightarrow> Some (Inr (tool_error (unknown_submission ccid), al', cap), t)
           | (Some entry, al') \<Rightarrow>
               (case ae_handle entry of
                  None \<Rightarrow> Some (Inr (tool_error (unknown_submission ccid), al', cap), t)
                | Some handle \<Rightarrow>
                    (case take_permit p (permit_holder (cc_principal c)) of
                       Inl e \<Rightarrow> Some (Inr (tool_error e, al', cap), t)
                     | Inr _ \<Rightarrow>
                         map_option
                           (\<lambda>(polled, t'). io_catch (io_bind (io_lift polled) (finish_wait env c s al' entry client_name cap))
                              (\<lambda>e. io_return (tool_error e, al', cap)) t')
                           (poll_from c handle (wait_deadline env s timeout_ms) (ay_reads env) 0 t)))))"

section \<open>Fetching and cancelling\<close>

definition not_ready :: "string \<Rightarrow> gateway_error" where
  "not_ready ccid =
     gerr NOT_READY (''Query '' @ ccid
       @ '' has no result yet. Call wait_on_async_query until it reports done:true before fetching.'')"

definition classify_envelope_error :: "dict \<Rightarrow> exn + gateway_error option" where
  "classify_envelope_error envelope =
     (case first_error envelope of
        None \<Rightarrow> Inr None
      | Some d \<Rightarrow>
          map_sum id Some
            (classify_cc_error (case as_str (dget ''code'' d) of None \<Rightarrow> JNull | Some k \<Rightarrow> JStr k)
               (JStr (str_or (dget ''msg'' d) ''AsterixDB returned an error.''))))"

definition fetched_result ::
  "artifact_env \<Rightarrow> settings \<Rightarrow> audit_entry \<Rightarrow> string \<Rightarrow> int \<Rightarrow> int \<Rightarrow> artifact_format option \<Rightarrow> dict \<Rightarrow> artifact_dir
     \<Rightarrow> tool_result \<times> artifact_dir" where
  "fetched_result env s entry ccid offset most fmt envelope d =
     (let rows = envelope_rows envelope;
          (shown, further, meta) = windowed s offset most (ae_advisory entry \<noteq> None) rows;
          (artifact, d') = overflow_artifact_payload env s rows further fmt d;
          structured =
            [(''status'', JStr ''success''), (''clientContextID'', JStr ccid),
             (''rowsReturned'', JInt (int (length shown))),
             (''rowsAvailableInResponse'', JInt (int (length rows))),
             (''offset'', JInt offset), (''limit'', JInt most), (''moreAvailable'', JBool further),
             (''results'', JList shown), (''egress'', JDict (with_artifact artifact meta))]
            @ (if dget ''metrics'' envelope \<noteq> JNull then [(''metrics'', dget ''metrics'' envelope)] else [])
            @ (if ae_signature entry \<noteq> JNull then [(''signature'', ae_signature entry)] else [])
            @ (case ae_advisory entry of None \<Rightarrow> [] | Some v \<Rightarrow> [(''advisories'', JList [JDict v])])
      in (tool_ok (''Returned '' @ show_nat (length shown) @ '' row(s) from the async result.''
            @ (if ae_advisory entry \<noteq> None
               then '' [columnar full scan flagged '' @ em_dash @ '' output minimized]'' else [])) structured, d'))"

definition run_fetch_query_result ::
  "artifact_env \<Rightarrow> rat \<Rightarrow> cc_client \<Rightarrow> settings \<Rightarrow> string \<Rightarrow> int \<Rightarrow> int \<Rightarrow> artifact_format option \<Rightarrow> audit_log \<Rightarrow> artifact_dir
     \<Rightarrow> (tool_result \<times> audit_log \<times> artifact_dir) io" where
  "run_fetch_query_result env now c s ccid offset most fmt al d =
     (case check_ownership s ccid of
        Some e \<Rightarrow> io_return (tool_error e, al, d)
      | None \<Rightarrow>
          (case audit_get now ccid al of
             (None, al') \<Rightarrow> io_return (tool_error (unknown_submission ccid), al', d)
           | (Some entry, al') \<Rightarrow>
               (case ae_result_handle entry of
                  None \<Rightarrow> io_return (tool_error (not_ready ccid), al', d)
                | Some handle \<Rightarrow>
                    io_bind (io_catch (io_bind (fetch_result c handle) (\<lambda>v. io_return (Inr v)))
                               (\<lambda>e. io_return (Inl e))) (\<lambda>fetched.
                    case fetched of
                      Inl e \<Rightarrow> io_return (tool_error e, al', d)
                    | Inr envelope \<Rightarrow>
                        io_bind (io_lift (classify_envelope_error envelope)) (\<lambda>problem.
                        case problem of
                          Some e \<Rightarrow> io_return (tool_error e, al', d)
                        | None \<Rightarrow>
                            (case fetched_result env s entry ccid (max offset 0)
                                    (min (max most 1) exec_max_limit) fmt envelope d of
                               (r, d') \<Rightarrow> io_return (r, al', d')))))))"

definition run_cancel_query :: "cc_client \<Rightarrow> settings \<Rightarrow> string \<Rightarrow> audit_log \<Rightarrow> (tool_result \<times> audit_log) io" where
  "run_cancel_query c s ccid al =
     (case check_ownership s ccid of
        Some e \<Rightarrow> io_return (tool_error e, al)
      | None \<Rightarrow>
          io_catch
            (io_bind (cancel c ccid) (\<lambda>cancelled.
             io_return
               (tool_ok (''Cancelled query '' @ ccid @ ''.'')
                  [(''status'', JStr ''cancelled''), (''clientContextID'', JStr ccid), (''cancelled'', JBool cancelled)],
                audit_forget ccid al)))
            (\<lambda>e. io_return (tool_error e, if ge_type e = NOT_FOUND then audit_forget ccid al else al)))"

section \<open>Only the own session\<close>

lemma own_id_passes:
  "check_ownership s (make_client_context_id (agent_session_id s) user_tag new_uuid) = None"
  by (simp add: check_ownership_def parse_made)

definition foreign_id :: "settings \<Rightarrow> string \<Rightarrow> bool" where
  "foreign_id s ccid \<longleftrightarrow> (\<exists>session seg u. parse_client_context_id ccid = Inr (session, seg, u)
     \<and> session \<noteq> sanitize_segment (agent_session_id s) None)"

lemma check_ownership_iff: "check_ownership s ccid = (if foreign_id s ccid then Some foreign_session else None)"
  by (auto simp: check_ownership_def foreign_id_def split: sum.splits)

text \<open>
  C11. A query belongs to the session that submitted it: waiting on, fetching or cancelling an id
  minted by another session answers FORBIDDEN, sends nothing to the cluster and changes neither
  the audit log nor the artifact directory nor the captured events, while every id minted by
  this session passes the check.
\<close>

theorem async_ownership:
  "(foreign_id s ccid \<longrightarrow>
      run_wait_on_async_query env c s p ccid timeout_ms client_name al cap t
        = Some (Inr (tool_error foreign_session, al, cap), t)
      \<and> run_fetch_query_result art now c s ccid offset most fmt al d t
        = (Inr (tool_error foreign_session, al, d), t)
      \<and> run_cancel_query c s ccid al t = (Inr (tool_error foreign_session, al), t))
   \<and> ge_type foreign_session = FORBIDDEN
   \<and> \<not> foreign_id s (make_client_context_id (agent_session_id s) user_tag new_uuid)"
  using own_id_passes [of s user_tag new_uuid]
  by (simp add: run_wait_on_async_query_def run_fetch_query_result_def run_cancel_query_def
      check_ownership_iff foreign_session_def split: if_splits)

theorem async_ownership_witness:
  "run_cancel_query (quiet_client default_settings (Some ''alice'')) default_settings
     (make_client_context_id ''other-session'' None ''u'') \<lparr>al_ttl = 900, al_entries = []\<rparr> []
     = (Inr (tool_error foreign_session, \<lparr>al_ttl = 900, al_entries = []\<rparr>), [])"
proof -
  have "check_ownership default_settings (make_client_context_id ''other-session'' None ''u'') = Some foreign_session"
    by code_simp
  then have "foreign_id default_settings (make_client_context_id ''other-session'' None ''u'')"
    by (simp add: check_ownership_iff split: if_splits)
  then show ?thesis
    using async_ownership [of default_settings "make_client_context_id ''other-session'' None ''u''"
        _ "quiet_client default_settings (Some ''alice'')"] by blast
qed

section \<open>A wait ends\<close>

lemma poll_sends_once:
  "snd (poll_status c handle t) = t @ [GetPath handle [] (headers c)]"
  by (auto simp: poll_status_def get_json_def get_body_def io_bind_def split: http_reply.splits sum.splits prod.splits)

lemma poll_from_ends:
  "deadline \<le> reads (k + n) \<Longrightarrow>
   \<exists>out m. poll_from c handle deadline reads k t
       = Some (out, t @ replicate (Suc m) (GetPath handle [] (headers c))) \<and> m \<le> n"
proof (induction n arbitrary: k t)
  case 0
  obtain r t' where p: "poll_status c handle t = (r, t')" by fastforce
  then have t': "t' = t @ replicate (Suc 0) (GetPath handle [] (headers c))"
    using poll_sends_once [of c handle t] by simp
  show ?case
    using 0 p t' by (subst poll_from.simps) (auto split: sum.splits)
next
  case (Suc n)
  obtain r t' where p: "poll_status c handle t = (r, t')" by fastforce
  then have t': "t' = t @ [GetPath handle [] (headers c)]"
    using poll_sends_once [of c handle t] by simp
  have "deadline \<le> reads (Suc k + n)" using Suc.prems by simp
  from Suc.IH [OF this, of t'] obtain out m where
    rec: "poll_from c handle deadline reads (Suc k) t' = Some (out, t' @ replicate (Suc m) (GetPath handle [] (headers c)))"
    and "m \<le> n" by blast
  then have rec': "poll_from c handle deadline reads (Suc k) t'
      = Some (out, t @ replicate (Suc (Suc m)) (GetPath handle [] (headers c)))" "Suc m \<le> Suc n"
    by (simp_all add: t')
  have stop: "\<exists>out m. Some (x, t') = Some (out, t @ replicate (Suc m) (GetPath handle [] (headers c))) \<and> m \<le> Suc n"
    for x :: "exn + poll_outcome"
    by (rule exI [of _ x], rule exI [of _ 0]) (simp add: t')
  have go: "\<exists>out m. poll_from c handle deadline reads (Suc k) t'
      = Some (out, t @ replicate (Suc m) (GetPath handle [] (headers c))) \<and> m \<le> Suc n"
    using rec' by blast
  show ?case
    using p stop go by (subst poll_from.simps) (auto split: sum.splits)
qed

text \<open>
  The documented behaviour of the clock and of \<open>asyncio.sleep\<close>: the first reading is not before
  the start of the wait, and between two polls at least the requested interval passes.
\<close>

definition sleeps :: "rat \<Rightarrow> rat \<Rightarrow> (nat \<Rightarrow> rat) \<Rightarrow> bool" where
  "sleeps start interval reads \<longleftrightarrow> start \<le> reads 0 \<and> (\<forall>k. reads k + interval \<le> reads (Suc k))"

lemma sleeps_reading: "sleeps start interval reads \<Longrightarrow> start + of_nat k * interval \<le> reads k"
proof (induction k)
  case (Suc k)
  then have "start + of_nat k * interval + interval \<le> reads (Suc k)"
    unfolding sleeps_def by (meson add_right_mono order_trans)
  then show ?case by (simp add: algebra_simps)
qed (simp add: sleeps_def)

definition poll_bound :: "settings \<Rightarrow> nat" where
  "poll_bound s = nat (max_wait_ms s div wait_poll_interval_ms s) + 1"

lemma poll_bound_reaches:
  assumes "settings_ok s"
    and "sleeps (ay_start env) (of_int (wait_poll_interval_ms s) / 1000) (ay_reads env)"
  shows "wait_deadline env s timeout_ms \<le> ay_reads env (poll_bound s)"
proof -
  let ?i = "wait_poll_interval_ms s" and ?w = "max_wait_ms s"
  have pos: "0 < ?i" "0 \<le> ?w" using assms(1) by (auto simp: settings_ok_def)
  have "?w = (?w div ?i) * ?i + ?w mod ?i" by simp
  moreover have "?w mod ?i < ?i" using pos by simp
  moreover have "(?w div ?i + 1) * ?i = (?w div ?i) * ?i + ?i" by (simp add: distrib_right)
  ultimately have "?w \<le> (?w div ?i + 1) * ?i" by linarith
  moreover have "int (poll_bound s) = ?w div ?i + 1"
    using pos by (simp add: poll_bound_def pos_imp_zdiv_nonneg_iff)
  ultimately have "clamp_timeout timeout_ms ?w \<le> int (poll_bound s) * ?i"
    using pos by (auto simp: clamp_timeout_def split: option.splits)
  then have "(of_int (clamp_timeout timeout_ms ?w) :: rat) \<le> of_int (int (poll_bound s) * ?i)"
    by (simp only: of_int_le_iff)
  then have "of_int (clamp_timeout timeout_ms ?w) / 1000 \<le> (of_nat (poll_bound s) * (of_int ?i / 1000) :: rat)"
    by simp
  then show ?thesis
    using sleeps_reading [OF assms(2), of "poll_bound s"] by (simp add: wait_deadline_def)
qed

text \<open>
  C14. A wait always ends: with valid settings, on a clock that respects the sleeps, the poll loop
  returns whatever the cluster answers and whatever window was asked for, after at most the
  number of poll intervals in the maximal window plus two polls, and so does the whole tool.
\<close>

theorem wait_terminates:
  assumes "settings_ok s"
    and "sleeps (ay_start env) (of_int (wait_poll_interval_ms s) / 1000) (ay_reads env)"
  shows "(\<exists>out m. poll_from c handle (wait_deadline env s timeout_ms) (ay_reads env) 0 t
            = Some (out, t @ replicate m (GetPath handle [] (headers c)))
            \<and> m \<le> nat (max_wait_ms s div wait_poll_interval_ms s) + 2)
    \<and> run_wait_on_async_query env c s p ccid timeout_ms client_name al cap t \<noteq> None"
proof
  have ends: "\<exists>out m. poll_from c h (wait_deadline env s timeout_ms) (ay_reads env) 0 t
      = Some (out, t @ replicate (Suc m) (GetPath h [] (headers c))) \<and> m \<le> poll_bound s" for h
    using poll_from_ends [of "wait_deadline env s timeout_ms" "ay_reads env" 0 "poll_bound s"]
      poll_bound_reaches [OF assms] by simp
  then obtain out m where "poll_from c handle (wait_deadline env s timeout_ms) (ay_reads env) 0 t
      = Some (out, t @ replicate (Suc m) (GetPath handle [] (headers c)))" "m \<le> poll_bound s" by blast
  then show "\<exists>out m. poll_from c handle (wait_deadline env s timeout_ms) (ay_reads env) 0 t
            = Some (out, t @ replicate m (GetPath handle [] (headers c)))
            \<and> m \<le> nat (max_wait_ms s div wait_poll_interval_ms s) + 2"
    by (intro exI [of _ out] exI [of _ "Suc m"]) (simp add: poll_bound_def)
  have "poll_from c h (wait_deadline env s timeout_ms) (ay_reads env) 0 t \<noteq> None" for h
    using ends [of h] by auto
  then show "run_wait_on_async_query env c s p ccid timeout_ms client_name al cap t \<noteq> None"
    by (simp add: run_wait_on_async_query_def del: not_None_eq split: option.split prod.split sum.split)
qed

definition steady_env :: async_env where
  "steady_env = \<lparr>ay_now = 0, ay_uuid = ''u'', ay_start = 0, ay_reads = (\<lambda>k. of_nat k / 4),
     ay_clock = \<lparr>ck_now = ''now'', ck_age = (\<lambda>_. None), ck_log1p = (\<lambda>x. x)\<rparr>,
     ay_event = \<lparr>ev_id_time = 0, ev_time = 0, ev_uuid = ''u''\<rparr>\<rparr>"

theorem wait_terminates_witness:
  "\<exists>out m. poll_from (answering_client default_settings None [(''status'', JStr ''running'')]) ''/h''
       (wait_deadline steady_env default_settings (Some 600)) (ay_reads steady_env) 0 []
     = Some (out, replicate m (GetPath ''/h'' [] (headers (answering_client default_settings None [(''status'', JStr ''running'')]))))
     \<and> m \<le> 42"
proof -
  have "sleeps (ay_start steady_env) (of_int (wait_poll_interval_ms default_settings) / 1000) (ay_reads steady_env)"
    by (simp add: sleeps_def steady_env_def default_settings_def field_simps)
  from wait_terminates [OF default_settings_ok this, of
      "answering_client default_settings None [(''status'', JStr ''running'')]" "''/h''" "Some 600" "[]"]
  show ?thesis by (simp add: default_settings_def)
qed

section \<open>Nothing is submitted without admission\<close>

definition async_request :: "request \<Rightarrow> bool" where
  "async_request r = (case r of QueryPost form _ \<Rightarrow> map_of form ''mode'' = Some ''async'' | _ \<Rightarrow> False)"

lemma query_form_mode:
  assumes "build_query_form c statement a = Inr form" and "qa_compiler a = []" and "qa_mode a = None"
  shows "\<not> async_request (QueryPost form h)"
proof -
  have "map_of (query_form_fields statement a) ''mode'' = None"
    using assms(2,3) unfolding query_form_fields_def Let_def fold_set_merge
    by (subst map_of_statement_params) (simp_all add: option_fields_def base_fields_def text_given_def Let_def)
  then show ?thesis
    using build_query_form_enforced(3) [OF assms(1), of "''mode''"] by (simp add: async_request_def)
qed

lemma compile_not_async: "emits (\<lambda>r. \<not> async_request r) (compile_query c statement a)"
  unfolding compile_query_def
  by (rule emits_lift_bind, rule emits_post_query, erule query_form_mode) simp_all

lemma lookup_not_async:
  "emits (\<lambda>r. \<not> async_request r) (execute c statement (with_params ccid params))"
  unfolding execute_def
  by (rule emits_lift_bind, intro emits_bind emits_lift emits_return emits_post_query, erule query_form_mode)
    (simp_all add: with_params_def query_defaults_def)

lemma assess_not_async: "emits (\<lambda>r. \<not> async_request r) (assess_columnar_scan c ccid plans dv)"
  unfolding assess_columnar_scan_def columnar_datasets_def columnar_lookup_def Let_def
  by (intro emits_option emits_if emits_return emits_bind emits_map_list emits_catch emits_lift lookup_not_async)

definition submit_plan :: "cc_client \<Rightarrow> submit_args \<Rightarrow> string \<Rightarrow> dict io" where
  "submit_plan c a ccid =
     compile_query c (normalize_statement (sa_statement a) exec_max_limit)
       ((plan_args ccid (sa_dataverse a))\<lparr>qa_signature := True\<rparr>)"

definition submit_admitted ::
  "cc_client \<Rightarrow> settings \<Rightarrow> permit_pool \<Rightarrow> submit_args \<Rightarrow> string \<Rightarrow> trace \<Rightarrow> bool" where
  "submit_admitted c s p a ccid t \<longleftrightarrow>
     (\<exists>plan t'. submit_plan c a ccid t = (Inr plan, t')
        \<and> check_compiled_plan s (cc_principal c) plan (sa_dataverse a) = Inr ())
     \<and> (\<exists>p'. take_permit p (permit_holder (cc_principal c)) = Inr p')"

lemma submission_refused:
  assumes "\<not> submit_admitted c s p a ccid t"
  shows "\<exists>e sent. submission c s p a (normalize_statement (sa_statement a) exec_max_limit) ccid params t
           = (Inl e, t @ sent) \<and> (\<forall>r \<in> set sent. \<not> async_request r)"
proof -
  obtain out t' where sub: "submit_plan c a ccid t = (out, t')" by fastforce
  obtain s1 where s1: "t' = t @ s1" "\<forall>r \<in> set s1. \<not> async_request r"
    using emitsE [OF compile_not_async sub [unfolded submit_plan_def]] .
  show ?thesis
  proof (cases out)
    case (Inl e)
    then show ?thesis using sub s1 by (simp add: submission_def submit_plan_def io_bind_def)
  next
    case (Inr plan)
    show ?thesis
    proof (cases "check_compiled_plan s (cc_principal c) plan (sa_dataverse a)")
      case (Inl e)
      then show ?thesis using sub s1 Inr by (simp add: submission_def submit_plan_def io_bind_def)
    next
      case ok: (Inr u)
      then obtain e where full: "take_permit p (permit_holder (cc_principal c)) = Inl e"
        using assms sub Inr by (cases "take_permit p (permit_holder (cc_principal c))")
          (auto simp: submit_admitted_def)
      obtain r2 t2 where as: "assess_columnar_scan c ccid (dget ''plans'' plan) (sa_dataverse a) t' = (r2, t2)"
        by fastforce
      obtain s2 where s2: "t2 = t' @ s2" "\<forall>r \<in> set s2. \<not> async_request r"
        using emitsE [OF assess_not_async as] .
      have "\<exists>e'. submission c s p a (normalize_statement (sa_statement a) exec_max_limit) ccid params t = (Inl e', t2)"
        using sub Inr ok as full
        by (cases r2) (simp_all add: submission_def submit_plan_def io_bind_def under_permit_def)
      then show ?thesis using s1 s2 by fastforce
    qed
  qed
qed

text \<open>
  C10. Nothing is submitted without admission: unless the plan passed the caller's authorisation
  and a permit of the asynchronous pool is free, submitting sends no asynchronous statement,
  answers an error and leaves the audit log as it was.
\<close>

theorem submit_only_admitted:
  assumes "\<not> submit_admitted c s p a (make_client_context_id (agent_session_id s) (sa_user_tag a) (ay_uuid env)) t"
  shows "\<exists>out sent. run_submit_async_query env c s p a al t = (out, t @ sent)
           \<and> (\<forall>r \<in> set sent. \<not> async_request r)
           \<and> (\<forall>r al'. out = Inr (r, al') \<longrightarrow> tr_is_error r \<and> al' = al)"
proof (cases "check_unsupported_functions (sa_statement a)")
  case (Some e)
  then show ?thesis by (simp add: run_submit_async_query_def tool_error_def)
next
  case None
  show ?thesis
  proof (cases "validated_params (sa_compiler a)")
    case (Inl e)
    then show ?thesis
      using None by (cases e) (simp_all add: run_submit_async_query_def io_bind_def io_catch_def Let_def tool_error_def)
  next
    case (Inr params)
    obtain e sent where "submission c s p a (normalize_statement (sa_statement a) exec_max_limit)
        (make_client_context_id (agent_session_id s) (sa_user_tag a) (ay_uuid env)) params t = (Inl e, t @ sent)"
      "\<forall>r \<in> set sent. \<not> async_request r"
      using submission_refused [OF assms] by blast
    then show ?thesis
      using None Inr by (cases e) (simp_all add: run_submit_async_query_def io_bind_def io_catch_def Let_def tool_error_def)
  qed
qed

theorem submit_only_admitted_witness:
  "\<exists>out sent. run_submit_async_query steady_env (quiet_client default_settings (Some ''alice'')) default_settings
       \<lparr>pp_capacity = 1, pp_name = ''asynchronous query'', pp_share = 1, pp_in_use = 1, pp_held = [(''bob'', 1)]\<rparr>
       \<lparr>sa_statement = ''SELECT 1;'', sa_dataverse = None, sa_compiler = None, sa_user_tag = None\<rparr>
       \<lparr>al_ttl = 900, al_entries = []\<rparr> [] = (out, sent)
     \<and> (\<forall>r \<in> set sent. \<not> async_request r)"
proof -
  let ?p = "\<lparr>pp_capacity = 1, pp_name = ''asynchronous query'', pp_share = 1, pp_in_use = 1, pp_held = [(''bob'', 1)]\<rparr>"
  have "\<not> submit_admitted (quiet_client default_settings (Some ''alice'')) default_settings ?p a ccid t" for a ccid t
    by (simp add: submit_admitted_def take_permit_def)
  from submit_only_admitted [where env = steady_env and t = "[]" and al = "\<lparr>al_ttl = 900, al_entries = []\<rparr>", OF this]
  show ?thesis by fastforce
qed

section \<open>From the wait to the rows\<close>

lemma run_wait_success:
  assumes "check_ownership s ccid = None" and "audit_get (ay_now env) ccid al = (Some entry, al)"
    and "ae_handle entry = Some handle" and "take_permit p (permit_holder (cc_principal c)) = Inr p'"
    and "poll_from c handle (wait_deadline env s timeout_ms) (ay_reads env) 0 t
           = Some (Inr (Finished envelope ''success''), t')"
    and "as_str (dget ''handle'' envelope) = Some h"
  shows "run_wait_on_async_query env c s p ccid timeout_ms client_name al None t
     = Some (Inr (finished_result (ae_ccid entry) ''success'',
         audit_record (ay_now env) (with_result_handle h entry) al, None), t')"
  using assms
  by (simp add: run_wait_on_async_query_def finish_wait_def capture_terminal_def terminal_result_def
      io_catch_def io_bind_def)

text \<open>
  The rows come from the query that was waited for: before a wait has reported success,
  fetching answers NOT_READY and sends nothing; after a wait whose last poll reported success
  with a result handle, fetching sends exactly one request, a GET of that handle, as long as the
  submission has not expired.
\<close>

theorem fetch_follows_wait:
  assumes "audit_ok al" and "check_ownership s ccid = None"
    and "audit_get (ay_now env) ccid al = (Some entry, al)" and "ae_handle entry = Some handle"
    and "take_permit p (permit_holder (cc_principal c)) = Inr p'"
    and "poll_from c handle (wait_deadline env s timeout_ms) (ay_reads env) 0 t
           = Some (Inr (Finished envelope ''success''), t')"
    and "as_str (dget ''handle'' envelope) = Some h" and "\<not> is_expired now al entry"
  shows "(\<exists>al'. run_wait_on_async_query env c s p ccid timeout_ms client_name al None t
            = Some (Inr (finished_result ccid ''success'', al', None), t')
          \<and> snd (run_fetch_query_result art now c s ccid offset most fmt al' d t')
            = t' @ [GetPath h [] (headers c)])
     \<and> (ae_result_handle entry = None \<longrightarrow>
          run_fetch_query_result art (ay_now env) c s ccid offset most fmt al d t
            = (Inr (tool_error (not_ready ccid), al, d), t))"
proof
  have look: "audit_lookup (ay_now env) al ccid = Some entry"
    using assms(3) by (simp add: audit_lookup_def)
  then have id: "ae_ccid entry = ccid"
    using assms(1) by (auto simp: audit_lookup_alt audit_ok_def dest!: map_of_SomeD split: option.splits if_splits)
  let ?al = "audit_record (ay_now env) (with_result_handle h entry) al"
  have wait: "run_wait_on_async_query env c s p ccid timeout_ms client_name al None t
      = Some (Inr (finished_result ccid ''success'', ?al, None), t')"
    using run_wait_success [OF assms(2-7)] id by simp
  have "audit_lookup now ?al ccid = Some (with_result_handle h entry)"
    using assms(8) id by (simp add: audit_lookup_alt with_result_handle_def is_expired_def)
  then have got: "\<exists>al2. audit_get now ccid ?al = (Some (with_result_handle h entry), al2)"
    by (auto simp: audit_lookup_def prod_eq_iff)
  have sent: "snd (run_fetch_query_result art now c s ccid offset most fmt ?al d t') = t' @ [GetPath h [] (headers c)]"
  proof -
    obtain al2 where al2: "audit_get now ccid ?al = (Some (with_result_handle h entry), al2)" using got by blast
    obtain r where f: "fetch_result c h t' = (r, t' @ [GetPath h [] (headers c)])"
      using poll_sends_once [of c h t'] by (cases "fetch_result c h t'") (simp add: fetch_result_def poll_status_def)
    show ?thesis
      using assms(2) al2 f
      by (simp add: run_fetch_query_result_def with_result_handle_def io_bind_def io_catch_def
          split: sum.split option.split prod.split exn.split)
  qed
  show "\<exists>al'. run_wait_on_async_query env c s p ccid timeout_ms client_name al None t
            = Some (Inr (finished_result ccid ''success'', al', None), t')
          \<and> snd (run_fetch_query_result art now c s ccid offset most fmt al' d t')
            = t' @ [GetPath h [] (headers c)]"
    using wait sent by blast
  show "ae_result_handle entry = None \<longrightarrow>
          run_fetch_query_result art (ay_now env) c s ccid offset most fmt al d t
            = (Inr (tool_error (not_ready ccid), al, d), t)"
    using assms(2,3) by (simp add: run_fetch_query_result_def)
qed

definition waited_entry :: audit_entry where
  "waited_entry = (new_entry (make_client_context_id ''local-session'' None ''u'') ''local-session'' ''SELECT 1;'' 0)
     \<lparr>ae_handle := Some ''/status/1''\<rparr>"

theorem fetch_follows_wait_witness:
  "\<exists>al' t'. snd (run_fetch_query_result \<lparr>ae_tmp = ''/tmp'', ae_now = 0, ae_uuid = ''0'', ae_iso = (\<lambda>_. ''t'')\<rparr> 10
       (answering_client default_settings None [(''status'', JStr ''success''), (''handle'', JStr ''/result/1'')])
       default_settings (ae_ccid waited_entry) 0 20 None al' [] t')
     = t' @ [GetPath ''/result/1'' [] (headers (answering_client default_settings None
              [(''status'', JStr ''success''), (''handle'', JStr ''/result/1'')]))]"
proof -
  let ?e = "[(''status'', JStr ''success''), (''handle'', JStr ''/result/1'')]"
  let ?c = "answering_client default_settings None ?e"
  let ?al = "\<lparr>al_ttl = 900, al_entries = [(ae_ccid waited_entry, waited_entry)]\<rparr>"
  let ?p = "\<lparr>pp_capacity = 2, pp_name = ''result wait'', pp_share = 2, pp_in_use = 0, pp_held = []\<rparr>"
  let ?t = "[GetPath ''/status/1'' [] (headers ?c)]"
  have ok: "audit_ok ?al" by (simp add: audit_ok_def)
  have own: "check_ownership default_settings (ae_ccid waited_entry) = None" by code_simp
  have got: "audit_get (ay_now steady_env) (ae_ccid waited_entry) ?al = (Some waited_entry, ?al)"
    by (simp add: audit_get_def is_expired_def steady_env_def waited_entry_def new_entry_def)
  have handle: "ae_handle waited_entry = Some ''/status/1''" by (simp add: waited_entry_def)
  have permit: "take_permit ?p (permit_holder (cc_principal ?c))
      = Inr (?p\<lparr>pp_in_use := 1, pp_held := [(permit_holder None, 1)]\<rparr>)"
    by (simp add: take_permit_def held_by_def answering_client_def)
  have "poll_status ?c ''/status/1'' [] = (Inr ?e, ?t)" by code_simp
  moreover have "status_of ?e = ''success''" by code_simp
  ultimately have poll: "poll_from ?c ''/status/1'' (wait_deadline steady_env default_settings None) (ay_reads steady_env) 0 []
      = Some (Inr (Finished ?e ''success''), ?t)"
    by (subst poll_from.simps) (simp add: terminal_statuses_def)
  have "as_str (dget ''handle'' ?e) = Some ''/result/1''" by code_simp
  moreover have "\<not> is_expired 10 ?al waited_entry"
    by (simp add: is_expired_def waited_entry_def new_entry_def)
  ultimately show ?thesis
    using fetch_follows_wait [OF ok own got handle permit poll] by blast
qed

section \<open>Cancelling\<close>

text \<open>
  Cancelling asks the cluster for exactly the id it was given: unless the id names another
  session, one DELETE for it is sent, also for an id that is not of this gateway's form or was
  never submitted; the entry is forgotten exactly when the cluster confirmed or did not know the
  request, and kept on every other error.
\<close>

theorem cancel_forgets:
  "snd (run_cancel_query c s ccid al t)
     = (if foreign_id s ccid then t
        else t @ [DeletePath ''/admin/requests/running'' [(''client_context_id'', ccid)] (headers c)])
   \<and> (case fst (run_cancel_query c s ccid al t) of
        Inl _ \<Rightarrow> False
      | Inr (r, al') \<Rightarrow> al' = (if tr_is_error r \<and> dget ''errorType'' (tr_structured r) \<noteq> JStr ''NOT_FOUND''
                            then al else audit_forget ccid al))"
proof (cases "foreign_id s ccid")
  case True
  then show ?thesis
    by (simp add: run_cancel_query_def check_ownership_iff tool_error_def to_structured_def foreign_session_def dget_def)
next
  case False
  let ?q = "DeletePath ''/admin/requests/running'' [(''client_context_id'', ccid)] (headers c)"
  have own: "check_ownership s ccid = None" using False by (simp add: check_ownership_iff)
  show ?thesis
    using False own
    by (cases "cc_http c (t @ [?q])")
      (simp_all add: run_cancel_query_def cancel_def io_bind_def io_catch_def tool_error_def tool_ok_def
        to_structured_def dget_def)
qed

text \<open>So a malformed id, which the ownership check leaves to the audit log, reaches the cluster.\<close>

lemma malformed_id_cancelled:
  "parse_client_context_id ccid = Inl e \<Longrightarrow>
   snd (run_cancel_query c s ccid al t)
     = t @ [DeletePath ''/admin/requests/running'' [(''client_context_id'', ccid)] (headers c)]"
  by (auto simp: run_cancel_query_def check_ownership_def cancel_def io_bind_def io_catch_def
      split: http_reply.splits)

end
