(* ===== verification/Introspect.thy ===== *)
theory Introspect
  imports Statement_Guard Tenant_Policy
begin

text \<open>
  The tools that compile without running (\<open>tools/introspect.py\<close>, \<open>tools/check_index_usage.py\<close>)
  and the listing of running requests (\<open>tools/running_queries.py\<close>).
\<close>

section \<open>Errors of a compilation\<close>

definition compile_error :: "dict \<Rightarrow> exn + gateway_error option" where
  "compile_error envelope =
     (case dget ''errors'' envelope of
        JList (JDict d # _) \<Rightarrow>
          map_sum id Some
            (classify_cc_error (case dget ''code'' d of JStr k \<Rightarrow> JStr k | _ \<Rightarrow> JNull)
               (case dget ''msg'' d of JStr m \<Rightarrow> JStr m | _ \<Rightarrow> JStr ''AsterixDB returned an error.''))
      | _ \<Rightarrow> Inr None)"

text \<open>Compile the statement; a failed call or a reported error ends the tool with its result.\<close>

definition compiled_or ::
  "cc_client \<Rightarrow> string \<Rightarrow> query_args \<Rightarrow> (gateway_error \<Rightarrow> tool_result) \<Rightarrow> (dict \<Rightarrow> tool_result io) \<Rightarrow> tool_result io" where
  "compiled_or c statement a invalid continue_with =
     io_bind (io_catch (io_bind (compile_query c statement a) (\<lambda>v. io_return (Inr v))) (\<lambda>e. io_return (Inl e)))
       (\<lambda>compiled. case compiled of
          Inl e \<Rightarrow> io_return (tool_error e)
        | Inr envelope \<Rightarrow>
            io_bind (io_lift (compile_error envelope)) (\<lambda>problem.
            case problem of Some e \<Rightarrow> io_return (invalid e) | None \<Rightarrow> continue_with envelope))"

section \<open>The tools\<close>

record compile_args =
  ka_statement :: string
  ka_dataverse :: "string option"
  ka_user_tag :: "string option"

definition ka_ccid :: "settings \<Rightarrow> compile_args \<Rightarrow> string \<Rightarrow> string" where
  "ka_ccid s a new_uuid = make_client_context_id (agent_session_id s) (ka_user_tag a) new_uuid"

definition invalid_result :: "gateway_error \<Rightarrow> tool_result" where
  "invalid_result e =
     tool_ok (''Statement is invalid ('' @ error_name (ge_type e) @ ''): '' @ py_str (ge_message e))
       ([(''status'', JStr ''success''), (''valid'', JBool False),
         (''errorType'', JStr (error_name (ge_type e))), (''errorMessage'', ge_message e)]
        @ (if ge_code e \<noteq> JNull then [(''asterixCode'', ge_code e)] else []))"

definition run_validate_syntax :: "cc_client \<Rightarrow> settings \<Rightarrow> compile_args \<Rightarrow> string \<Rightarrow> tool_result io" where
  "run_validate_syntax c s a new_uuid =
     compiled_or c (strip_set_prefix (ka_statement a))
       ((query_defaults (ka_ccid s a new_uuid))\<lparr>qa_dataverse := ka_dataverse a\<rparr>) invalid_result
       (\<lambda>_. io_return (tool_ok ''Statement compiled successfully (valid).''
                         [(''status'', JStr ''success''), (''valid'', JBool True)]))"

definition plan_summary :: "parsed_plan \<Rightarrow> nat \<Rightarrow> string" where
  "plan_summary parsed hints =
     ''Plan depth '' @ show_nat (pl_depth parsed) @ '' over ''
     @ (if pl_sources parsed = [] then ''no data source'' else join '', '' (pl_sources parsed)) @ ''; ''
     @ show_nat (length (pl_counts parsed)) @ '' operator kind(s)''
     @ (if hints = 0 then [] else ''; '' @ show_nat hints @ '' optimization hint(s)'') @ ''.''"

definition no_plan_error :: gateway_error where
  "no_plan_error = gerr INTERNAL ''AsterixDB compiled the statement but returned no optimized plan.''"

definition explain_result :: "dict \<Rightarrow> tool_result" where
  "explain_result envelope =
     (case parse_optimized_plan (dget ''plans'' envelope) of
        None \<Rightarrow> tool_error no_plan_error
      | Some parsed \<Rightarrow>
          let hints = hints_payload parsed
          in tool_ok (plan_summary parsed (length hints))
               ([(''status'', JStr ''success''), (''plan'', JDict (plan_dict parsed))]
                @ (if truthy (dget ''warnings'' envelope) then [(''warnings'', dget ''warnings'' envelope)] else [])
                @ (if hints \<noteq> [] then [(''hints'', JList hints)] else [])))"

definition plan_query_args :: "string \<Rightarrow> string option \<Rightarrow> query_args" where
  "plan_query_args ccid dataverse = (query_defaults ccid)\<lparr>qa_dataverse := dataverse, qa_emit_plan := True\<rparr>"

definition run_explain_query :: "cc_client \<Rightarrow> settings \<Rightarrow> compile_args \<Rightarrow> string \<Rightarrow> tool_result io" where
  "run_explain_query c s a new_uuid =
     compiled_or c (strip_set_prefix (ka_statement a)) (plan_query_args (ka_ccid s a new_uuid) (ka_dataverse a))
       tool_error (\<lambda>envelope. io_return (explain_result envelope))"

section \<open>Index usage\<close>

definition index_usage_query :: string where
  "index_usage_query =
     ''SELECT VALUE i FROM Metadata.`Index` i WHERE i.DataverseName = $dv AND i.DatasetName = $ds AND i.IsPrimary = false AND ''
     @ exclude_sample_sql @ '';''"

definition index_row :: "dict \<Rightarrow> dict option" where
  "index_row row =
     (case dget ''IndexName'' row of
        JStr n \<Rightarrow> Some [(''index'', JStr n), (''structure'', dget ''IndexStructure'' row),
                        (''searchKey'', dget ''SearchKey'' row)]
      | _ \<Rightarrow> None)"

definition secondary_indexes_of :: "cc_client \<Rightarrow> string \<Rightarrow> string \<times> string \<Rightarrow> dict list io" where
  "secondary_indexes_of c ccid p =
     io_bind (io_catch
        (io_bind (execute c index_usage_query (with_params ccid [(''dv'', JStr (fst p)), (''ds'', JStr (snd p))]))
           (\<lambda>v. io_return (Some v)))
        (\<lambda>_. io_return None)) (\<lambda>found.
     case found of
       None \<Rightarrow> io_return []
     | Some envelope \<Rightarrow>
         io_bind (io_lift (result_rows envelope)) (\<lambda>rows. io_return (List.map_filter index_row rows)))"

definition index_record :: "string \<times> string \<Rightarrow> dict \<Rightarrow> dict" where
  "index_record p index = [(''dataverse'', JStr (fst p)), (''dataset'', JStr (snd p))] @ index"

text \<open>An index counts as used when its name occurs anywhere in the text of the plan.\<close>

definition index_used :: "string \<Rightarrow> dict \<Rightarrow> bool" where
  "index_used plan_text index \<longleftrightarrow> (case dget ''index'' index of JStr n \<Rightarrow> contains n plan_text | _ \<Rightarrow> False)"

definition usage_text :: "nat \<Rightarrow> nat \<Rightarrow> bool \<Rightarrow> string" where
  "usage_text used unused full_scan =
     (if full_scan
      then ''Query uses a full scan; '' @ show_nat unused
        @ '' secondary index(es) available but unused. Consider an index or a more selective predicate.''
      else show_nat used @ '' index(es) used, '' @ show_nat unused @ '' available but unused.'')"

definition usage_result :: "parsed_plan \<Rightarrow> string \<Rightarrow> (string \<times> string) list \<Rightarrow> dict list \<Rightarrow> tool_result" where
  "usage_result parsed plan_text datasets records =
     (let used = filter (index_used plan_text) records;
          unused = filter (\<lambda>r. \<not> index_used plan_text r) records;
          full_scan = (map_of (pl_counts parsed) ''data-scan'' \<noteq> None \<and> used = [])
      in tool_ok (usage_text (length used) (length unused) full_scan)
           [(''status'', JStr ''success''),
            (''datasetsAnalyzed'', JList (map (\<lambda>p. JDict [(''dataverse'', JStr (fst p)), (''dataset'', JStr (snd p))]) datasets)),
            (''used'', JList (map JDict used)), (''availableButUnused'', JList (map JDict unused)),
            (''usesFullScan'', JBool full_scan)])"

definition analyze_usage :: "cc_client \<Rightarrow> string \<Rightarrow> string option \<Rightarrow> dict \<Rightarrow> tool_result io" where
  "analyze_usage c ccid dataverse envelope =
     (case parse_optimized_plan (dget ''plans'' envelope) of
        None \<Rightarrow> io_return (tool_error (gerr INTERNAL ''AsterixDB returned no optimized plan to analyze.''))
      | Some parsed \<Rightarrow>
          let datasets = datasets_from_sources (pl_sources parsed) dataverse
          in io_bind (io_map_list (\<lambda>p. io_bind (secondary_indexes_of c ccid p)
                         (\<lambda>ixs. io_return (map (index_record p) ixs))) datasets)
               (\<lambda>records. io_return
                  (usage_result parsed (json_dumps (dget ''plans'' envelope)) datasets (concat records))))"

definition run_check_index_usage :: "cc_client \<Rightarrow> settings \<Rightarrow> compile_args \<Rightarrow> string \<Rightarrow> tool_result io" where
  "run_check_index_usage c s a new_uuid =
     (let statement = strip_set_prefix (ka_statement a); ccid = ka_ccid s a new_uuid
      in if strip statement = []
         then io_return (tool_error (gerr INVALID_PARAMETER ''Provide a non-empty SQL++ SELECT statement.''))
         else case check_unsupported_functions statement of
           Some e \<Rightarrow> io_return (tool_error e)
         | None \<Rightarrow> compiled_or c statement (plan_query_args ccid (ka_dataverse a)) tool_error
                     (analyze_usage c ccid (ka_dataverse a)))"

section \<open>Running requests\<close>

definition running_text :: "nat \<Rightarrow> bool \<Rightarrow> string" where
  "running_text n include_statements =
     (if n = 0 then ''No requests are currently running on the cluster.''
      else show_nat n @ '' request(s) currently running on the cluster''
        @ (if include_statements then [] else '' (statement text redacted)'') @ ''.'')"

definition run_list_running_queries :: "cc_client \<Rightarrow> bool \<Rightarrow> tool_result io" where
  "run_list_running_queries c include_statements =
     io_catch
       (io_bind (admin_running_requests c (\<not> include_statements)) (\<lambda>requests.
        let queries = filter is_dict requests
        in io_return (tool_ok (running_text (length queries) include_statements)
             [(''status'', JStr ''success''), (''count'', JInt (int (length queries))),
              (''statementsRedacted'', JBool (\<not> include_statements)), (''queries'', JList queries)])))
       (\<lambda>e. io_return (tool_error e))"

section \<open>Nothing is executed\<close>

lemma compiled_or_emits:
  "(\<And>r. compile_request c statement r \<Longrightarrow> P r) \<Longrightarrow> (\<And>v. emits P (continue_with v)) \<Longrightarrow>
   emits P (compiled_or c statement a invalid continue_with)"
  unfolding compiled_or_def
  by (intro emits_bind emits_catch emits_return emits_sum emits_lift emits_option)
    (auto intro: emits_mono [OF compile_query_emits])

text \<open>The catalog lookups of an analysis: a fixed statement with the names bound as parameters.\<close>

lemma execute_catalog:
  "emits (catalog_request c statement) (execute c statement (with_params ccid params))"
  by (rule execute_plain) (simp add: with_params_def query_defaults_def)

lemma secondary_indexes_emits:
  "emits (catalog_request c index_usage_query) (secondary_indexes_of c ccid p)"
  unfolding secondary_indexes_of_def
  by (intro emits_bind emits_catch emits_return emits_option emits_lift execute_catalog)

text \<open>
  Introspection never runs the caller's statement: validating and explaining send only
  compile-only requests for the statement without its SET clauses, and the index check in
  addition only its fixed catalog query.
\<close>

theorem introspection_compiles_only:
  "emits (compile_request c (strip_set_prefix (ka_statement a))) (run_validate_syntax c s a new_uuid)
   \<and> emits (compile_request c (strip_set_prefix (ka_statement a))) (run_explain_query c s a new_uuid)
   \<and> emits (\<lambda>r. compile_request c (strip_set_prefix (ka_statement a)) r \<or> catalog_request c index_usage_query r)
       (run_check_index_usage c s a new_uuid)"
proof (intro conjI)
  show "emits (compile_request c (strip_set_prefix (ka_statement a))) (run_validate_syntax c s a new_uuid)"
    unfolding run_validate_syntax_def by (intro compiled_or_emits emits_return)
  show "emits (compile_request c (strip_set_prefix (ka_statement a))) (run_explain_query c s a new_uuid)"
    unfolding run_explain_query_def by (intro compiled_or_emits emits_return)
  have "emits (\<lambda>r. compile_request c st r \<or> catalog_request c index_usage_query r) (analyze_usage c ccid dv env)"
    for st ccid dv env
    unfolding analyze_usage_def Let_def
    by (intro emits_option emits_return emits_bind emits_map_list emits_mono [OF secondary_indexes_emits]) simp
  then show "emits (\<lambda>r. compile_request c (strip_set_prefix (ka_statement a)) r \<or> catalog_request c index_usage_query r)
       (run_check_index_usage c s a new_uuid)"
    unfolding run_check_index_usage_def Let_def
    by (intro emits_if emits_return emits_option compiled_or_emits) simp_all
qed

text \<open>A name that is part of another name in the plan counts as used.\<close>

lemma index_name_substring:
  "index_used (json_dumps (JDict [(''index'', JStr ''idx_city_2'')])) [(''index'', JStr ''idx_city'')]"
  by code_simp

end
