(* ===== verification/Job_Parser.thy ===== *)
theory Job_Parser
  imports Introspect
begin

text \<open>
  The physical plan: the parser of a Hyracks job (\<open>job_parser.py\<close>) and the tool that asks for one
  (\<open>tools/physical_plan.py\<close>).
\<close>

record job_operator =
  jo_id :: "string option"
  jo_kind :: "string option"
  jo_in :: "int option"
  jo_out :: "int option"
  jo_partitions :: "int option"

record job_connector =
  jc_kind :: "string option"
  jc_from :: "string option"
  jc_to :: "string option"

record parsed_job =
  pj_operators :: "job_operator list"
  pj_connectors :: "job_connector list"
  pj_operator_counts :: "(string \<times> nat) list"
  pj_connector_counts :: "(string \<times> nat) list"
  pj_max_partitions :: "int option"

text \<open>An \<open>int\<close> that is not a \<open>bool\<close>.\<close>

fun plain_int :: "json \<Rightarrow> int option" where
  "plain_int (JInt i) = Some i"
| "plain_int _ = None"

definition after_last_dot :: "string \<Rightarrow> string" where
  "after_last_dot s = rev (takeWhile (\<lambda>ch. ch \<noteq> CHR ''.'') (rev s))"

definition kind_from_class :: "json \<Rightarrow> string \<Rightarrow> string option" where
  "kind_from_class java_class noise =
     (case java_class of
        JStr name \<Rightarrow>
          if name = [] then None
          else let simple = after_last_dot name;
                   simple = (if ends_with simple noise then take (length simple - length noise) simple else simple)
               in if simple = [] then None else Some simple
      | _ \<Rightarrow> None)"

definition partition_count :: "json \<Rightarrow> int option" where
  "partition_count constraints = (case constraints of JDict d \<Rightarrow> plain_int (dget ''count'' d) | _ \<Rightarrow> None)"

definition parse_operator :: "dict \<Rightarrow> job_operator" where
  "parse_operator node =
     \<lparr>jo_id = as_str (dget ''id'' node),
      jo_kind = (case kind_from_class (dget ''java-class'' node) ''OperatorDescriptor'' of
                   Some k \<Rightarrow> Some k | None \<Rightarrow> as_str (dget ''display-name'' node)),
      jo_in = plain_int (dget ''in-arity'' node), jo_out = plain_int (dget ''out-arity'' node),
      jo_partitions = partition_count (dget ''partition-constraints'' node)\<rparr>"

definition parse_connector :: "dict \<Rightarrow> job_connector" where
  "parse_connector node =
     \<lparr>jc_kind = kind_from_class (jget ''java-class'' (dget ''connector'' node)) ''ConnectorDescriptor'',
      jc_from = as_str (dget ''in-operator-id'' node), jc_to = as_str (dget ''out-operator-id'' node)\<rparr>"

definition parse_operators :: "json \<Rightarrow> job_operator list" where
  "parse_operators raw = map parse_operator (dicts_of (list_or_empty raw))"

definition parse_connectors :: "json \<Rightarrow> job_connector list" where
  "parse_connectors raw = map parse_connector (dicts_of (list_or_empty raw))"

definition count_kinds :: "string option list \<Rightarrow> (string \<times> nat) list" where
  "count_kinds kinds = fold bump kinds []"

definition max_partition_count :: "job_operator list \<Rightarrow> int option" where
  "max_partition_count ops =
     (let counts = List.map_filter jo_partitions ops in if counts = [] then None else Some (Max (set counts)))"

definition parse_job :: "json \<Rightarrow> string \<Rightarrow> parsed_job option" where
  "parse_job plans key =
     (case plans of
        JDict d \<Rightarrow>
          (case dget key d of
             JDict job \<Rightarrow>
               (let ops = parse_operators (dget ''operators'' job); cons = parse_connectors (dget ''connectors'' job)
                in Some \<lparr>pj_operators = ops, pj_connectors = cons,
                         pj_operator_counts = count_kinds (map jo_kind ops),
                         pj_connector_counts = count_kinds (map jc_kind cons),
                         pj_max_partitions = max_partition_count ops\<rparr>)
           | _ \<Rightarrow> None)
      | _ \<Rightarrow> None)"

definition int_field :: "string \<Rightarrow> int option \<Rightarrow> dict" where
  "int_field k v = (case v of None \<Rightarrow> [] | Some i \<Rightarrow> [(k, JInt i)])"

definition job_operator_dict :: "job_operator \<Rightarrow> dict" where
  "job_operator_dict op =
     [(''operatorId'', opt_str (jo_id op)), (''kind'', opt_str (jo_kind op))]
     @ int_field ''inArity'' (jo_in op) @ int_field ''outArity'' (jo_out op)
     @ int_field ''partitionCount'' (jo_partitions op)"

definition job_connector_dict :: "job_connector \<Rightarrow> dict" where
  "job_connector_dict x =
     [(''kind'', opt_str (jc_kind x)), (''from'', opt_str (jc_from x)), (''to'', opt_str (jc_to x))]"

definition counts_json :: "(string \<times> nat) list \<Rightarrow> json" where
  "counts_json counts = JDict (map (\<lambda>(k, n). (k, JInt (int n))) counts)"

definition job_dict :: "parsed_job \<Rightarrow> dict" where
  "job_dict j =
     [(''operatorCount'', JInt (int (length (pj_operators j)))),
      (''connectorCount'', JInt (int (length (pj_connectors j)))),
      (''operatorCounts'', counts_json (pj_operator_counts j)),
      (''connectorCounts'', counts_json (pj_connector_counts j)),
      (''operators'', JList (map (\<lambda>op. JDict (job_operator_dict op)) (pj_operators j))),
      (''connectors'', JList (map (\<lambda>x. JDict (job_connector_dict x)) (pj_connectors j)))]
     @ int_field ''maxPartitionCount'' (pj_max_partitions j)"

definition job_summary :: "parsed_job \<Rightarrow> string" where
  "job_summary j =
     ''Physical job: '' @ show_nat (length (pj_operators j)) @ '' operator(s), ''
     @ show_nat (length (pj_connectors j)) @ '' connector(s), ''
     @ (case pj_max_partitions j of
          None \<Rightarrow> ''unspecified parallelism''
        | Some n \<Rightarrow> ''up to '' @ show_int n @ ''-way parallel'') @ ''.''"

definition no_job_error :: gateway_error where
  "no_job_error =
     gerr INTERNAL ''AsterixDB compiled the statement but returned no physical job. Statements that produce no runtime job (e.g. pure DDL) have no physical plan to show.''"

definition run_explain_physical_plan :: "cc_client \<Rightarrow> settings \<Rightarrow> compile_args \<Rightarrow> string \<Rightarrow> tool_result io" where
  "run_explain_physical_plan c s a new_uuid =
     compiled_or c (strip_set_prefix (ka_statement a))
       ((query_defaults (ka_ccid s a new_uuid))\<lparr>qa_dataverse := ka_dataverse a, qa_emit_job := True\<rparr>) tool_error
       (\<lambda>envelope. io_return (case parse_job (dget ''plans'' envelope) ''job'' of
          None \<Rightarrow> tool_error no_job_error
        | Some j \<Rightarrow> tool_ok (job_summary j) [(''status'', JStr ''success''), (''job'', JDict (job_dict j))]))"

section \<open>The summary of a job\<close>

lemma count_in_fold_bump:
  "count_in (fold bump kinds counts) k = count_in counts k + length (filter (\<lambda>x. x = Some k) kinds)"
  by (induction kinds arbitrary: counts) (auto simp: count_in_bump)

lemma count_kinds_exact: "count_in (count_kinds kinds) k = length (filter (\<lambda>x. x = Some k) kinds)"
  unfolding count_kinds_def count_in_fold_bump by (simp add: count_in_def)

lemma max_partition_count_iff:
  "max_partition_count ops = Some n \<longleftrightarrow>
     (\<exists>op \<in> set ops. jo_partitions op = Some n) \<and> (\<forall>op \<in> set ops. \<forall>m. jo_partitions op = Some m \<longrightarrow> m \<le> n)"
proof -
  let ?S = "set (List.map_filter jo_partitions ops)"
  have fin: "finite ?S" by simp
  have mem: "m \<in> ?S \<longleftrightarrow> (\<exists>op \<in> set ops. jo_partitions op = Some m)" for m by (rule in_map_filter)
  show ?thesis
  proof (cases "List.map_filter jo_partitions ops = []")
    case True
    then have "?S = {}" by simp
    then show ?thesis using True mem by (auto simp: max_partition_count_def)
  next
    case False
    then have "?S \<noteq> {}" by simp
    then have "Max ?S = n \<longleftrightarrow> n \<in> ?S \<and> (\<forall>m \<in> ?S. m \<le> n)" by (rule Max_eq_iff [OF fin])
    then show ?thesis using False mem by (auto simp: max_partition_count_def)
  qed
qed

lemma after_last_dot_clean: "CHR ''.'' \<notin> set (after_last_dot s)"
  by (auto simp: after_last_dot_def dest: set_takeWhileD)

lemma physical_plan_emits:
  "emits (compile_request c (strip_set_prefix (ka_statement a))) (run_explain_physical_plan c s a new_uuid)"
  unfolding run_explain_physical_plan_def by (intro compiled_or_emits emits_return)

end
