(* ===== verification/Profile_Parser.thy ===== *)
theory Profile_Parser
  imports Introspect "HOL-Library.Multiset"
begin

text \<open>
  The runtime profile of a query: the per-operator totals (\<open>profile_parser.py\<close>) and the tool
  that runs a statement for its profile (\<open>tools/profile_query.py\<close>).
\<close>

record accumulator =
  oa_id :: "string option"
  oa_name :: string
  oa_time :: rat
  oa_rows :: int
  oa_pages :: int
  oa_partitions :: nat

definition max_operators :: nat where "max_operators = 40"

fun counter_number :: "json \<Rightarrow> rat" where
  "counter_number (JInt i) = of_int i"
| "counter_number (JReal r) = r"
| "counter_number _ = 0"

fun counter_int :: "json \<Rightarrow> int" where
  "counter_int (JInt i) = i"
| "counter_int _ = 0"

definition add_counter :: "dict \<Rightarrow> accumulator \<Rightarrow> accumulator" where
  "add_counter d a =
     a\<lparr>oa_time := oa_time a + counter_number (dget ''run-time'' d),
       oa_rows := oa_rows a + counter_int (dget ''cardinality-out'' d),
       oa_pages := oa_pages a + counter_int (dget ''pages-read'' d),
       oa_partitions := oa_partitions a + 1\<rparr>"

text \<open>\<open>round(x, 4)\<close>: to the nearest, a tie to the even one.\<close>

definition round4 :: "rat \<Rightarrow> rat" where
  "round4 x =
     (let y = x * 10000; n = \<lfloor>y\<rfloor>; r = y - of_int n;
          k = (if r < 1 / 2 then n else if 1 / 2 < r then n + 1 else if even n then n else n + 1)
      in of_int k / 10000)"

definition accumulator_dict :: "accumulator \<Rightarrow> dict" where
  "accumulator_dict a =
     [(''operator'', JStr (oa_name a)), (''runTimeMs'', JReal (round4 (oa_time a))),
      (''cardinalityOut'', JInt (oa_rows a)), (''partitions'', JInt (int (oa_partitions a)))]
     @ (case oa_id a of None \<Rightarrow> [] | Some i \<Rightarrow> [(''operatorId'', JStr i)])
     @ (if oa_pages a \<noteq> 0 then [(''pagesRead'', JInt (oa_pages a))] else [])"

text \<open>Joblets, their tasks, their counters; whatever is not an object is passed over.\<close>

definition operator_counters :: "dict \<Rightarrow> dict list" where
  "operator_counters profile =
     concat (map (\<lambda>joblet. concat (map (\<lambda>task. dicts_of (list_or_empty (dget ''counters'' task)))
                             (dicts_of (list_or_empty (dget ''tasks'' joblet)))))
       (dicts_of (list_or_empty (dget ''joblets'' profile))))"

definition counter_key :: "dict \<Rightarrow> string \<Rightarrow> string" where
  "counter_key d name = (case dget ''runtime-id'' d of JStr i \<Rightarrow> i | _ \<Rightarrow> name)"

text \<open>The dictionary keeps the keys in the order of their first counter.\<close>

definition fold_counter :: "(string \<times> accumulator) list \<Rightarrow> dict \<Rightarrow> (string \<times> accumulator) list" where
  "fold_counter accs d =
     (case dget ''name'' d of
        JStr name \<Rightarrow>
          (let key = counter_key d name;
               acc = (case map_of accs key of
                        Some a \<Rightarrow> a
                      | None \<Rightarrow> \<lparr>oa_id = as_str (dget ''runtime-id'' d), oa_name = name, oa_time = 0, oa_rows = 0,
                                 oa_pages = 0, oa_partitions = 0\<rparr>)
           in dict_set key (add_counter d acc) accs)
      | _ \<Rightarrow> accs)"

definition accumulate :: "dict \<Rightarrow> (string \<times> accumulator) list" where
  "accumulate profile = foldl fold_counter [] (operator_counters profile)"

record profile_summary =
  ps_job :: "string option"
  ps_operators :: "accumulator list"

definition parse_profile :: "json \<Rightarrow> profile_summary option" where
  "parse_profile profile =
     (case profile of
        JDict d \<Rightarrow> Some \<lparr>ps_job = as_str (dget ''job-id'' d),
          ps_operators = take max_operators (sort_key (\<lambda>a. - round4 (oa_time a)) (map snd (accumulate d)))\<rparr>
      | _ \<Rightarrow> None)"

definition profile_dict :: "profile_summary \<Rightarrow> dict" where
  "profile_dict p =
     [(''operatorCount'', JInt (int (length (ps_operators p)))),
      (''operators'', JList (map (\<lambda>a. JDict (accumulator_dict a)) (ps_operators p)))]
     @ (case ps_job p of None \<Rightarrow> [] | Some j \<Rightarrow> [(''jobId'', JStr j)])"

section \<open>The tool\<close>

definition profile_text :: "profile_summary option \<Rightarrow> string" where
  "profile_text p =
     (case p of
        Some q \<Rightarrow>
          (case ps_operators q of
             a # _ \<Rightarrow> ''Query profiled: '' @ show_nat (length (ps_operators q)) @ '' operator(s); heaviest is ''
               @ oa_name a @ '' at '' @ show_real (round4 (oa_time a)) @ '' ms ('' @ show_int (oa_rows a) @ '' rows out).''
           | [] \<Rightarrow> ''Query profiled; no per-operator runtime counters were reported.'')
      | None \<Rightarrow> ''Query profiled; no per-operator runtime counters were reported.'')"

definition profile_result :: "string \<Rightarrow> string \<Rightarrow> string \<Rightarrow> dict \<Rightarrow> tool_result" where
  "profile_result ccid statement effective envelope =
     (let p = parse_profile (dget ''profile'' envelope)
      in tool_ok (profile_text p)
           ([(''status'', JStr ''success''), (''clientContextID'', JStr ccid)]
            @ (if effective \<noteq> strip statement then [(''effectiveStatement'', JStr effective)] else [])
            @ (if dget ''metrics'' envelope \<noteq> JNull then [(''metrics'', dget ''metrics'' envelope)] else [])
            @ (case p of None \<Rightarrow> [] | Some q \<Rightarrow> [(''profile'', JDict (profile_dict q))])))"

definition run_profile_query :: "cc_client \<Rightarrow> settings \<Rightarrow> compile_args \<Rightarrow> int \<Rightarrow> string \<Rightarrow> tool_result io" where
  "run_profile_query c s a most new_uuid =
     (case check_unsupported_functions (ka_statement a) of
        Some e \<Rightarrow> io_return (tool_error e)
      | None \<Rightarrow>
          let effective = normalize_statement (ka_statement a) (min (max most 1) 1000);
              ccid = ka_ccid s a new_uuid
          in io_catch
               (io_bind (authorize_statement c s effective (ka_dataverse a) ccid) (\<lambda>_.
                io_bind (execute c effective
                   ((query_defaults ccid)\<lparr>qa_dataverse := ka_dataverse a, qa_profile := True\<rparr>)) (\<lambda>envelope.
                io_return (profile_result ccid (ka_statement a) effective envelope))))
               (\<lambda>e. io_return (tool_error e)))"

section \<open>Nothing is lost in the totals\<close>

definition named_counters :: "dict list \<Rightarrow> dict list" where
  "named_counters ds = filter (\<lambda>d. as_str (dget ''name'' d) \<noteq> None) ds"

definition total :: "('a \<Rightarrow> 'b::comm_monoid_add) \<Rightarrow> 'a list \<Rightarrow> 'b" where
  "total f xs = sum_list (map f xs)"

lemma total_dict_set:
  fixes f :: "'v \<Rightarrow> 'b::ab_group_add"
  assumes "distinct (map fst d)"
  shows "total f (map snd (dict_set k v d))
     = total f (map snd d) + f v - (case map_of d k of Some w \<Rightarrow> f w | None \<Rightarrow> 0)"
  using assms
proof (induction d)
  case (Cons p d)
  have "fst p = k \<Longrightarrow> map_of d k = None" using Cons.prems by (auto simp: map_of_eq_None_iff)
  then show ?case using Cons by (auto simp: total_def algebra_simps split: option.splits)
qed (simp add: total_def)

lemma distinct_fold_counter: "distinct (map fst accs) \<Longrightarrow> distinct (map fst (fold_counter accs d))"
  by (simp add: fold_counter_def Let_def split: json.splits)

lemma total_fold_counter:
  fixes f :: "accumulator \<Rightarrow> 'b::ab_group_add"
  assumes "distinct (map fst accs)" and step: "\<And>d a. f (add_counter d a) = f a + g d"
    and zero: "\<And>i n. f \<lparr>oa_id = i, oa_name = n, oa_time = 0, oa_rows = 0, oa_pages = 0, oa_partitions = 0\<rparr> = 0"
  shows "total f (map snd (foldl fold_counter accs ds)) = total f (map snd accs) + total g (named_counters ds)"
  using assms(1)
proof (induction ds arbitrary: accs)
  case (Cons d ds)
  have "total f (map snd (fold_counter accs d))
      = total f (map snd accs) + (if as_str (dget ''name'' d) = None then 0 else g d)"
    using Cons.prems
    by (cases "dget ''name'' d")
      (auto simp: fold_counter_def Let_def total_dict_set step zero split: option.splits)
  then show ?case
    using Cons.IH [OF distinct_fold_counter [OF Cons.prems], of d]
    by (simp add: named_counters_def total_def algebra_simps)
qed (simp add: named_counters_def total_def)

text \<open>
  The profile loses nothing: over all operators, the run times, the rows, the pages and the
  partitions add up to those of all named counters in the raw profile, whatever its nesting; the
  summary shows at most forty operators, in falling order of their rounded run time, and none
  that is left out ran longer than one that is shown.
\<close>

theorem profile_totals:
  "total oa_time (map snd (accumulate d)) = total (\<lambda>x. counter_number (dget ''run-time'' x)) (named_counters (operator_counters d))
   \<and> total oa_rows (map snd (accumulate d)) = total (\<lambda>x. counter_int (dget ''cardinality-out'' x)) (named_counters (operator_counters d))
   \<and> total oa_pages (map snd (accumulate d)) = total (\<lambda>x. counter_int (dget ''pages-read'' x)) (named_counters (operator_counters d))
   \<and> total (\<lambda>a. int (oa_partitions a)) (map snd (accumulate d)) = int (length (named_counters (operator_counters d)))
   \<and> (case parse_profile (JDict d) of
        None \<Rightarrow> False
      | Some p \<Rightarrow> length (ps_operators p) \<le> 40
          \<and> sorted (map (\<lambda>a. - round4 (oa_time a)) (ps_operators p))
          \<and> (\<exists>hidden. mset (ps_operators p @ hidden) = mset (map snd (accumulate d))
               \<and> (\<forall>a \<in> set (ps_operators p). \<forall>b \<in> set hidden. round4 (oa_time b) \<le> round4 (oa_time a))))"
proof (intro conjI)
  note fold = total_fold_counter [of "[]", simplified]
  let ?cs = "named_counters (operator_counters d)"
  show "total oa_time (map snd (accumulate d)) = total (\<lambda>x. counter_number (dget ''run-time'' x)) ?cs"
    unfolding accumulate_def by (subst fold) (simp_all add: add_counter_def total_def)
  show "total oa_rows (map snd (accumulate d)) = total (\<lambda>x. counter_int (dget ''cardinality-out'' x)) ?cs"
    unfolding accumulate_def by (subst fold) (simp_all add: add_counter_def total_def)
  show "total oa_pages (map snd (accumulate d)) = total (\<lambda>x. counter_int (dget ''pages-read'' x)) ?cs"
    unfolding accumulate_def by (subst fold) (simp_all add: add_counter_def total_def)
  have "total (\<lambda>a. int (oa_partitions a)) (map snd (accumulate d)) = total (\<lambda>_. 1) ?cs"
    unfolding accumulate_def by (subst fold) (simp_all add: add_counter_def total_def)
  then show "total (\<lambda>a. int (oa_partitions a)) (map snd (accumulate d)) = int (length ?cs)"
    by (simp add: total_def sum_list_triv)
  let ?k = "\<lambda>a. - round4 (oa_time a)" and ?xs = "map snd (accumulate d)"
  have s: "sorted (map ?k (sort_key ?k ?xs))" by simp
  then have app: "sorted (map ?k (take 40 (sort_key ?k ?xs)) @ map ?k (drop 40 (sort_key ?k ?xs)))"
    by (simp flip: map_append)
  have "mset (take 40 (sort_key ?k ?xs) @ drop 40 (sort_key ?k ?xs)) = mset ?xs" by simp
  moreover have "\<forall>a \<in> set (take 40 (sort_key ?k ?xs)). \<forall>b \<in> set (drop 40 (sort_key ?k ?xs)).
      round4 (oa_time b) \<le> round4 (oa_time a)"
    using app unfolding sorted_append by simp
  ultimately show "case parse_profile (JDict d) of
        None \<Rightarrow> False
      | Some p \<Rightarrow> length (ps_operators p) \<le> 40
          \<and> sorted (map ?k (ps_operators p))
          \<and> (\<exists>hidden. mset (ps_operators p @ hidden) = mset ?xs
               \<and> (\<forall>a \<in> set (ps_operators p). \<forall>b \<in> set hidden. round4 (oa_time b) \<le> round4 (oa_time a)))"
    using app unfolding sorted_append parse_profile_def max_operators_def
    by (simp del: append_take_drop_id) blast
qed

theorem profile_totals_witness:
  "total oa_rows (map snd (accumulate [(''joblets'', JList [JDict [(''tasks'', JList [JDict [(''counters'',
       JList [JDict [(''name'', JStr ''scan''), (''cardinality-out'', JInt 4)],
              JDict [(''name'', JStr ''scan''), (''cardinality-out'', JInt 3)]])]])]])])) = 7"
proof -
  let ?d = "[(''joblets'', JList [JDict [(''tasks'', JList [JDict [(''counters'',
       JList [JDict [(''name'', JStr ''scan''), (''cardinality-out'', JInt 4)],
              JDict [(''name'', JStr ''scan''), (''cardinality-out'', JInt 3)]])]])]])]"
  have "total (\<lambda>x. counter_int (dget ''cardinality-out'' x)) (named_counters (operator_counters ?d)) = 7"
    by code_simp
  with profile_totals [of ?d] show ?thesis by simp
qed

section \<open>Only an authorised statement is profiled\<close>

lemma profile_denied:
  assumes "fst (authorize_statement c s (normalize_statement (ka_statement a) (min (max most 1) 1000))
             (ka_dataverse a) (ka_ccid s a new_uuid) t) = Inl (GatewayExc e)"
    and "check_unsupported_functions (ka_statement a) = None"
  shows "\<exists>t'. run_profile_query c s a most new_uuid t = (Inr (tool_error e), t')
           \<and> t' = snd (authorize_statement c s (normalize_statement (ka_statement a) (min (max most 1) 1000))
                         (ka_dataverse a) (ka_ccid s a new_uuid) t)"
  using assms
  by (cases "authorize_statement c s (normalize_statement (ka_statement a) (min (max most 1) 1000))
        (ka_dataverse a) (ka_ccid s a new_uuid) t")
    (simp add: run_profile_query_def Let_def io_bind_def io_catch_def)

end
