(* ===== verification/Okf_Walk.thy ===== *)
theory Okf_Walk
  imports Memory_Write
begin

text \<open>
  The catalog walk (\<open>okf_walk.py\<close>): concept documents the engine derives from the catalog are
  reconciled into the memory store. A bundle and the current rows are dictionaries from subjects
  to rows, in insertion order.
\<close>

definition pipeline_marker :: string where
  "pipeline_marker = ''/*okf*/''"

definition walk_args :: "string option \<Rightarrow> string" where
  "walk_args dataverse =
     json_dumps (JStr (case dataverse of None \<Rightarrow> [] | Some d \<Rightarrow> d)) @ '', '' @ json_dumps (JStr pipeline_marker)"

definition walk_query :: "string option \<Rightarrow> string" where
  "walk_query dataverse =
     ''SET `import-private-functions` '' @ [CHR 0x22] @ ''true'' @ [CHR 0x22]
     @ ''; SELECT VALUE c FROM okf_catalog('' @ walk_args dataverse @ '') c;''"

definition current_rows_query :: string where
  "current_rows_query =
     ''SELECT VALUE m FROM '' @ memory_dataset @ '' m WHERE m.kind = '' @ [CHR 0x22] @ ''semantic'' @ [CHR 0x22]
     @ '' AND m.valid_to IS UNKNOWN AND '' @ scope_clause ''m'' @ '';''"

section \<open>Layers\<close>

abbreviation is_newline :: "char \<Rightarrow> bool" where
  "is_newline c \<equiv> c = CHR 0x0A"

definition newline :: string where
  "newline = [CHR 0x0A]"

definition merge_layers :: "string \<Rightarrow> string \<Rightarrow> string" where
  "merge_layers core overlay =
     (if overlay = [] then core
      else strip_right_by is_newline core @ newline @ newline @ strip_right_by is_newline overlay @ newline)"

definition backtick :: char where
  "backtick = CHR 0x60"

definition backticked_re :: re where
  "backticked_re =
     seqs [Cls (\<lambda>c. c = backtick), Cap 1 (Plus (Cls (\<lambda>c. c \<noteq> backtick))), Cls (\<lambda>c. c = backtick)]"

definition line_is_stale :: "string \<Rightarrow> string \<Rightarrow> string \<Rightarrow> bool" where
  "line_is_stale old_core new_core line \<longleftrightarrow>
     (\<exists>m \<in> set (re_finditer backticked_re line).
        contains (group_text 1 m) old_core \<and> \<not> contains (group_text 1 m) new_core)"

definition reground_overlay :: "string \<Rightarrow> string \<Rightarrow> string \<Rightarrow> string \<times> string list" where
  "reground_overlay overlay old_core new_core =
     (if overlay = [] then ([], [])
      else let lines = split_lines overlay;
               kept = filter (\<lambda>l. \<not> line_is_stale old_core new_core l) lines;
               body = strip_by is_newline (join newline kept)
           in (if body = [] then [] else body @ newline, filter (line_is_stale old_core new_core) lines))"

section \<open>Reconciling\<close>

type_synonym rows_by_subject = "(string \<times> dict) list"

definition in_scope :: "string \<Rightarrow> string \<Rightarrow> bool" where
  "in_scope subject dataverse \<longleftrightarrow>
     subject = dataverse \<or> starts_with subject (dataverse @ ''.'') \<or> starts_with subject (dataverse @ ''/'')"

definition new_core_of :: "dict \<Rightarrow> string" where
  "new_core_of doc = py_str (dget_or ''core'' (dget_or ''text'' (JStr []) doc) doc)"

definition old_core_of :: "dict \<Rightarrow> string" where
  "old_core_of existing = py_str (py_or (dget ''core'' existing) (dget_or ''text'' (JStr []) existing))"

definition old_overlay_of :: "dict \<Rightarrow> string" where
  "old_overlay_of existing = py_str (py_or (dget ''overlay'' existing) (JStr []))"

definition overlay_for :: "dict option \<Rightarrow> dict \<Rightarrow> string" where
  "overlay_for existing doc =
     (case existing of
        None \<Rightarrow> py_str (py_or (dget ''overlay'' doc) (JStr []))
      | Some e \<Rightarrow>
          if dget ''overlay'' doc = JNull
          then fst (reground_overlay (old_overlay_of e) (old_core_of e) (new_core_of doc))
          else py_str (dget ''overlay'' doc))"

definition closed_row :: "string \<Rightarrow> dict \<Rightarrow> dict" where
  "closed_row now existing = dict_set ''valid_to'' (JStr now) existing"

definition concept_row :: "string \<Rightarrow> string \<Rightarrow> dict \<Rightarrow> string \<Rightarrow> dict" where
  "concept_row now subject doc overlay =
     (let row = dict_merge (filter (\<lambda>p. fst p \<notin> {''core'', ''overlay'', ''text''}) doc)
            [(''id'', row_id subject now), (''kind'', JStr ''semantic''), (''valid_from'', JStr now),
             (''core'', JStr (new_core_of doc)), (''text'', JStr (merge_layers (new_core_of doc) overlay))]
      in if overlay = [] then row else dict_set ''overlay'' (JStr overlay) row)"

definition doc_unchanged :: "dict option \<Rightarrow> dict \<Rightarrow> bool" where
  "doc_unchanged existing doc \<longleftrightarrow>
     (case existing of
        None \<Rightarrow> False
      | Some e \<Rightarrow> new_core_of doc = old_core_of e \<and> overlay_for existing doc = old_overlay_of e)"

definition vanished :: "rows_by_subject \<Rightarrow> string option \<Rightarrow> string \<times> dict \<Rightarrow> bool" where
  "vanished bundle scope p \<longleftrightarrow>
     map_of bundle (fst p) = None \<and> is_walk_owned (snd p)
     \<and> (case scope of None \<Rightarrow> True | Some dv \<Rightarrow> in_scope (fst p) dv)"

text \<open>The rows to insert, the rows to supersede and the number of unchanged documents.\<close>

definition reconcile_walked ::
  "rows_by_subject \<Rightarrow> rows_by_subject \<Rightarrow> string \<Rightarrow> string option \<Rightarrow> dict list \<times> dict list \<times> nat" where
  "reconcile_walked bundle current now scope =
     (let changed = filter (\<lambda>p. \<not> doc_unchanged (map_of current (fst p)) (snd p)) bundle
      in (map (\<lambda>p. concept_row now (fst p) (snd p) (overlay_for (map_of current (fst p)) (snd p))) changed,
          List.map_filter (\<lambda>p. map_option (closed_row now) (map_of current (fst p))) changed
            @ map (\<lambda>p. closed_row now (snd p)) (filter (vanished bundle scope) current),
          length bundle - length changed))"

section \<open>The walk\<close>

text \<open>A dictionary comprehension over the rows that carry a subject; a later row replaces an
  earlier one under the same key. A subject that is not a text cannot be a scope's and raises.\<close>

definition rows_keyed :: "dict list \<Rightarrow> rows_by_subject" where
  "rows_keyed rows =
     foldl (\<lambda>d r. case dget ''subject'' r of JStr s \<Rightarrow> dict_set s r d | _ \<Rightarrow> d) [] rows"

definition text_subjects :: "dict list \<Rightarrow> exn + dict list" where
  "text_subjects rows =
     (let named = filter (\<lambda>r. map_of r ''subject'' \<noteq> None) rows
      in if list_all (\<lambda>r. as_str (dget ''subject'' r) \<noteq> None) named then Inr named
         else Inl (PyExc ''AttributeError''))"

definition fetch_bundle :: "cc_client \<Rightarrow> string \<Rightarrow> rows_by_subject io" where
  "fetch_bundle c ccid =
     io_bind (execute c (walk_query None) (query_defaults ccid)) (\<lambda>envelope.
     io_bind (io_lift (sum_bind (plain_rows envelope) text_subjects)) (\<lambda>rows.
     io_return (filter (\<lambda>p. \<not> in_scope (fst p) self_dataverse) (rows_keyed rows))))"

definition fetch_current_rows :: "cc_client \<Rightarrow> string \<Rightarrow> rows_by_subject io" where
  "fetch_current_rows c ccid =
     io_bind (execute_memory_read c current_rows_query ccid []) (\<lambda>envelope.
     io_bind (io_lift (plain_rows envelope)) (\<lambda>rows. io_return (rows_keyed rows)))"

fun write_all :: "cc_client \<Rightarrow> string \<Rightarrow> string \<Rightarrow> dict list \<Rightarrow> unit io" where
  "write_all c statement ccid [] = io_return ()"
| "write_all c statement ccid (row # rows) =
     io_bind (execute_memory_write c statement ccid [(''row'', JDict row)])
       (\<lambda>_. write_all c statement ccid rows)"

fun bootstrap_all :: "cc_client \<Rightarrow> string \<Rightarrow> string list \<Rightarrow> unit io" where
  "bootstrap_all c ccid [] = io_return ()"
| "bootstrap_all c ccid (st # sts) =
     io_bind (execute_memory_write c st ccid []) (\<lambda>_. bootstrap_all c ccid sts)"

definition bootstrap_store :: "cc_client \<Rightarrow> string \<Rightarrow> unit io" where
  "bootstrap_store c ccid = bootstrap_all c ccid bootstrap_statements"

record walk_counts =
  wk_concepts :: nat
  wk_inserted :: nat
  wk_superseded :: nat
  wk_unchanged :: nat

definition run_walk :: "cc_client \<Rightarrow> settings \<Rightarrow> string \<Rightarrow> string \<Rightarrow> walk_counts io" where
  "run_walk c s new_uuid now =
     (let ccid = make_client_context_id (agent_session_id s) (Some ''okf_walk'') new_uuid
      in io_bind (fetch_bundle c ccid) (\<lambda>bundle.
         io_bind (fetch_current_rows c ccid) (\<lambda>current.
         case reconcile_walked bundle current now None of
           (inserts, superseded, unchanged) \<Rightarrow>
             io_bind (write_all c upsert_row ccid superseded) (\<lambda>_.
             io_bind (write_all c insert_row ccid inserts) (\<lambda>_.
             io_return \<lparr>wk_concepts = length bundle, wk_inserted = length inserts,
                        wk_superseded = length superseded, wk_unchanged = unchanged\<rparr>)))))"

section \<open>Re-grounding is stable\<close>

lemma join_lines_go:
  "\<forall>c \<in> set t. line_break c \<longrightarrow> is_newline c \<Longrightarrow>
   lines_go acc (t @ newline) \<noteq> [] \<and> join newline (lines_go acc (t @ newline)) = rev acc @ t"
proof (induction t arbitrary: acc)
  case Nil
  have "line_break (CHR 0x0A)" by code_simp
  then show ?case by (simp add: newline_def)
next
  case (Cons c t)
  have IH: "lines_go acc' (t @ newline) \<noteq> []" "join newline (lines_go acc' (t @ newline)) = rev acc' @ t" for acc'
    using Cons by simp_all
  show ?case
  proof (cases "line_break c")
    case True
    then have c: "c = CHR 0x0A" using Cons.prems by simp
    then have "code c \<noteq> 13" by (simp add: code_def)
    then have "lines_go acc ((c # t) @ newline) = rev acc # lines_go [] (t @ newline)"
      using True by simp
    moreover obtain y ys where "lines_go [] (t @ newline) = y # ys" using IH(1) by (cases "lines_go [] (t @ newline)") auto
    ultimately show ?thesis using IH(2) [of "[]"] c by (simp add: newline_def)
  next
    case False
    then show ?thesis using IH [of "c # acc"] by simp
  qed
qed

lemma lines_go_clean:
  "\<forall>c \<in> set acc. \<not> line_break c \<Longrightarrow> \<forall>l \<in> set (lines_go acc s). \<forall>c \<in> set l. \<not> line_break c"
proof (induction "length s" arbitrary: acc s rule: less_induct)
  case less
  show ?case
  proof (cases s)
    case Nil
    then show ?thesis using less.prems by simp
  next
    case (Cons c cs)
    have rec: "\<forall>l \<in> set (lines_go [] (tl cs)). \<forall>c \<in> set l. \<not> line_break c"
      "\<forall>l \<in> set (lines_go [] cs). \<forall>c \<in> set l. \<not> line_break c"
      using Cons by (intro less.hyps; simp)+
    show ?thesis
    proof (cases "line_break c")
      case True
      then show ?thesis using Cons less.prems rec by simp
    next
      case False
      have "\<forall>l \<in> set (lines_go (c # acc) cs). \<forall>c \<in> set l. \<not> line_break c"
        using Cons less.prems False by (intro less.hyps) simp_all
      then show ?thesis using Cons False by simp
    qed
  qed
qed

lemma set_join_lines: "set (join sep xs) \<subseteq> set sep \<union> (\<Union>x \<in> set xs. set x)"
  by (induction sep xs rule: join.induct) auto

text \<open>Text that is stripped of newlines and holds no other line break.\<close>

definition overlay_body :: "string \<Rightarrow> bool" where
  "overlay_body t \<longleftrightarrow> t \<noteq> [] \<and> strip_by is_newline t = t \<and> (\<forall>c \<in> set t. line_break c \<longrightarrow> is_newline c)"

lemma reground_normal:
  assumes "fst (reground_overlay overlay old_core new_core) \<noteq> []"
  shows "\<exists>t. overlay_body t \<and> fst (reground_overlay overlay old_core new_core) = t @ newline"
proof -
  let ?kept = "filter (\<lambda>l. \<not> line_is_stale old_core new_core l) (split_lines overlay)"
  let ?t = "strip_by is_newline (join newline ?kept)"
  have t: "fst (reground_overlay overlay old_core new_core) = ?t @ newline" "?t \<noteq> []"
    using assms by (auto simp: reground_overlay_def Let_def split: if_splits)
  have "\<not> line_break c" if "l \<in> set ?kept" "c \<in> set l" for l c
    using lines_go_clean [of "[]" overlay] that by (auto simp: split_lines_def)
  then have "is_newline c" if "c \<in> set (join newline ?kept)" "line_break c" for c
    using set_join_lines [of newline ?kept] that by (auto simp: newline_def)
  then have "\<forall>c \<in> set ?t. line_break c \<longrightarrow> is_newline c"
    using set_strip_by [of is_newline "join newline ?kept"] by auto
  then show ?thesis using t by (intro exI [of _ ?t]) (simp add: overlay_body_def)
qed

lemma reground_same_core:
  assumes "overlay = [] \<or> (\<exists>t. overlay_body t \<and> overlay = t @ newline)"
  shows "fst (reground_overlay overlay core core) = overlay"
proof (cases "overlay = []")
  case False
  then obtain t where t: "overlay_body t" "overlay = t @ newline" using assms by blast
  have "filter (\<lambda>l. \<not> line_is_stale core core l) (split_lines overlay) = split_lines overlay"
    by (simp add: line_is_stale_def)
  moreover have "join newline (split_lines overlay) = t"
    using join_lines_go [of t "[]"] t by (simp add: overlay_body_def split_lines_def)
  ultimately show ?thesis using t False by (simp add: reground_overlay_def overlay_body_def)
qed (simp add: reground_overlay_def)

section \<open>A second walk over the same catalog\<close>

text \<open>The current rows once a reconciliation has been written.\<close>

definition current_after :: "rows_by_subject \<Rightarrow> rows_by_subject \<Rightarrow> string \<Rightarrow> rows_by_subject" where
  "current_after bundle current now =
     (let changed = filter (\<lambda>p. \<not> doc_unchanged (map_of current (fst p)) (snd p)) bundle
      in filter (\<lambda>p. \<not> vanished bundle None p \<and> fst p \<notin> fst ` set changed) current
         @ map (\<lambda>p. (fst p, concept_row now (fst p) (snd p) (overlay_for (map_of current (fst p)) (snd p)))) changed)"

definition walk_doc :: "dict \<Rightarrow> bool" where
  "walk_doc doc \<longleftrightarrow> dget ''overlay'' doc = JNull \<and> new_core_of doc \<noteq> []"

lemma concept_row_layers:
  "dget ''core'' (concept_row now subject doc overlay) = JStr (new_core_of doc)"
  "dget ''overlay'' (concept_row now subject doc overlay) = (if overlay = [] then JNull else JStr overlay)"
proof -
  have none: "map_of (filter (\<lambda>p. fst p \<notin> {''core'', ''overlay'', ''text''}) doc) ''overlay'' = None"
    by (auto simp: map_of_eq_None_iff)
  show "dget ''core'' (concept_row now subject doc overlay) = JStr (new_core_of doc)"
    by (simp add: concept_row_def Let_def)
  show "dget ''overlay'' (concept_row now subject doc overlay) = (if overlay = [] then JNull else JStr overlay)"
    using none by (simp add: concept_row_def Let_def dget_def)
qed

lemma overlay_for_normal:
  assumes "walk_doc doc"
  shows "overlay_for e doc = [] \<or> (\<exists>t. overlay_body t \<and> overlay_for e doc = t @ newline)"
  using assms reground_normal by (cases e) (auto simp: overlay_for_def walk_doc_def py_or_def)

lemma written_doc_unchanged:
  assumes "walk_doc doc"
  shows "doc_unchanged (Some (concept_row now subject doc (overlay_for e doc))) doc"
proof -
  let ?r = "concept_row now subject doc (overlay_for e doc)"
  have core: "old_core_of ?r = new_core_of doc"
    using assms concept_row_layers(1) by (simp add: old_core_of_def py_or_def walk_doc_def)
  have overlay: "old_overlay_of ?r = overlay_for e doc"
    using concept_row_layers(2) [of now subject doc "overlay_for e doc"] by (simp add: old_overlay_of_def py_or_def)
  have "fst (reground_overlay (old_overlay_of ?r) (old_core_of ?r) (new_core_of doc)) = overlay_for e doc"
    unfolding core overlay by (rule reground_same_core) (rule overlay_for_normal [OF assms])
  then show ?thesis
    using assms core overlay by (simp add: doc_unchanged_def overlay_for_def [of "Some ?r"] walk_doc_def)
qed

lemma map_of_filter_keep: "(\<And>v. P (k, v)) \<Longrightarrow> map_of (filter P d) k = map_of d k"
  by (induction d) auto

lemma current_after_unchanged:
  assumes "distinct (map fst bundle)" and "p \<in> set bundle" and "walk_doc (snd p)"
  shows "doc_unchanged (map_of (current_after bundle current now) (fst p)) (snd p)"
proof -
  let ?changed = "filter (\<lambda>p. \<not> doc_unchanged (map_of current (fst p)) (snd p)) bundle"
  let ?kept = "filter (\<lambda>p. \<not> vanished bundle None p \<and> fst p \<notin> fst ` set ?changed) current"
  let ?new = "map (\<lambda>p. (fst p, concept_row now (fst p) (snd p) (overlay_for (map_of current (fst p)) (snd p)))) ?changed"
  have bundled: "map_of bundle (fst p) = Some (snd p)"
    using assms(1,2) by (cases p) (simp add: map_of_is_SomeI)
  have cur: "current_after bundle current now = ?kept @ ?new" by (simp add: current_after_def)
  have keys: "fst ` set ?new = fst ` set ?changed" by force
  show ?thesis
  proof (cases "p \<in> set ?changed")
    case True
    then have "map_of ?kept (fst p) = None" by (auto simp: map_of_eq_None_iff)
    moreover have "distinct (map fst ?new)"
      using assms(1) by (simp add: o_def distinct_map_filter)
    then have "map_of ?new (fst p) = Some (concept_row now (fst p) (snd p) (overlay_for (map_of current (fst p)) (snd p)))"
      using True by (intro map_of_is_SomeI) auto
    ultimately have look: "map_of (?kept @ ?new) (fst p)
        = Some (concept_row now (fst p) (snd p) (overlay_for (map_of current (fst p)) (snd p)))"
      by (simp only: map_of_append map_add_def option.case)
    show ?thesis unfolding cur look by (rule written_doc_unchanged [OF assms(3)])
  next
    case False
    then have same: "doc_unchanged (map_of current (fst p)) (snd p)" using assms(2) by simp
    have notin: "fst p \<notin> fst ` set ?changed"
    proof
      assume "fst p \<in> fst ` set ?changed"
      then obtain q where q: "q \<in> set ?changed" "fst q = fst p" by auto
      have "q \<in> set bundle" using q(1) by simp
      then have "(fst q, snd q) \<in> set bundle" by simp
      then have "map_of bundle (fst q) = Some (snd q)" by (rule map_of_is_SomeI [OF assms(1)])
      then have "q = p" using q(2) bundled by (cases p, cases q) simp
      then show False using q(1) False by blast
    qed
    then have "map_of ?new (fst p) = None" unfolding map_of_eq_None_iff keys .
    moreover have "map_of ?kept (fst p) = map_of current (fst p)"
      using notin bundled by (intro map_of_filter_keep) (simp add: vanished_def)
    ultimately have look: "map_of (?kept @ ?new) (fst p) = map_of current (fst p)"
      by (simp only: map_of_append map_add_def) (simp split: option.split)
    show ?thesis unfolding cur look by (rule same)
  qed
qed

lemma nothing_vanishes:
  "filter (vanished bundle None) (current_after bundle current now) = []"
proof -
  have "\<not> vanished bundle None (fst p, r)" if "p \<in> set bundle" for p r
    using that by (cases p) (auto simp: vanished_def map_of_eq_None_iff dest: image_eqI [where f = fst])
  then show ?thesis by (auto simp: current_after_def Let_def filter_empty_conv)
qed

text \<open>
  C27. An unchanged catalog writes nothing: after one reconciliation of a bundle of walk documents
  has been written to a store with one current row for each subject, reconciling the same bundle again, at any time, inserts and supersedes
  nothing and counts every document as unchanged, whatever the store held before.
\<close>

theorem walk_idempotent:
  assumes "distinct (map fst bundle)" and "\<forall>p \<in> set bundle. walk_doc (snd p)"
  shows "reconcile_walked bundle (current_after bundle current now) later None = ([], [], length bundle)"
proof -
  have "filter (\<lambda>p. \<not> doc_unchanged (map_of (current_after bundle current now) (fst p)) (snd p)) bundle = []"
    using current_after_unchanged [OF assms(1)] assms(2) by (simp add: filter_empty_conv)
  then show ?thesis
    using nothing_vanishes [of "bundle" "current" now] by (simp only: reconcile_walked_def Let_def) simp
qed

theorem walk_idempotent_witness:
  "let bundle = [(''Yelp.Business'', [(''subject'', JStr ''Yelp.Business''), (''type'', JStr ''AsterixDB Dataset''),
                   (''text'', JStr ''fields: `name`'')])];
       current = [(''Yelp.Business'', [(''subject'', JStr ''Yelp.Business''), (''type'', JStr ''AsterixDB Dataset''),
                   (''core'', JStr ''fields: `stars`''), (''overlay'', JStr ''`stars` is 1 to 5'')])]
   in reconcile_walked bundle (current_after bundle current ''t1'') ''t2'' None = ([], [], 1)"
proof -
  let ?b = "[(''Yelp.Business'', [(''subject'', JStr ''Yelp.Business''), (''type'', JStr ''AsterixDB Dataset''),
                   (''text'', JStr ''fields: `name`'')])]"
  have "distinct (map fst ?b)" "\<forall>p \<in> set ?b. walk_doc (snd p)" by code_simp+
  from walk_idempotent [OF this] show ?thesis by simp
qed

text \<open>A standalone note on a subject the catalog comes to emit is closed, and its text is not carried over.\<close>

lemma walk_swallows_note:
  "let doc = [(''subject'', JStr ''D.s''), (''type'', JStr ''AsterixDB Dataset''), (''text'', JStr ''core'')];
       stored = [(''id'', JStr ''D.s@0''), (''type'', JStr ''Note''), (''kind'', JStr ''semantic''),
                 (''text'', JStr ''beds are counts'')];
       (inserts, superseded, n) = reconcile_walked [(''D.s'', doc)] [(''D.s'', stored)] ''t'' None
   in superseded = [closed_row ''t'' stored] \<and> map (dget ''text'') inserts = [JStr ''core'']"
  by code_simp

section \<open>What the walk may change\<close>

text \<open>
  C26. The walk keeps history and leaves what it does not own: every superseded row is a current
  row in which only \<open>valid_to\<close> changed, every inserted row is a document of the bundle, and a
  current row the catalog does not emit is superseded only if the walk owns it.
\<close>

theorem walk_keeps_history:
  assumes "reconcile_walked bundle current now scope = (inserts, superseded, n)"
  shows "(\<forall>r \<in> set superseded. \<exists>subject old. (subject, old) \<in> set current \<and> r = closed_row now old
           \<and> (map_of bundle subject = None \<longrightarrow> is_walk_owned old))
     \<and> (\<forall>r \<in> set inserts. \<exists>subject doc. (subject, doc) \<in> set bundle
           \<and> dget ''id'' r = JStr (subject @ ''@'' @ now) \<and> dget ''core'' r = JStr (new_core_of doc))
     \<and> length inserts + n = length bundle"
proof -
  let ?changed = "filter (\<lambda>p. \<not> doc_unchanged (map_of current (fst p)) (snd p)) bundle"
  have ins: "inserts = map (\<lambda>p. concept_row now (fst p) (snd p) (overlay_for (map_of current (fst p)) (snd p))) ?changed"
    and sup: "superseded = List.map_filter (\<lambda>p. map_option (closed_row now) (map_of current (fst p))) ?changed
            @ map (\<lambda>p. closed_row now (snd p)) (filter (vanished bundle scope) current)"
    and n: "n = length bundle - length ?changed"
    using assms by (auto simp: reconcile_walked_def Let_def)
  have id: "dget ''id'' (concept_row now k d ov) = JStr (k @ ''@'' @ now)" for k d ov
    by (simp add: concept_row_def Let_def row_id_def)
  have "\<exists>subject old. (subject, old) \<in> set current \<and> r = closed_row now old
           \<and> (map_of bundle subject = None \<longrightarrow> is_walk_owned old)" if "r \<in> set superseded" for r
  proof -
    have "r \<in> set (List.map_filter (\<lambda>p. map_option (closed_row now) (map_of current (fst p))) ?changed)
        \<or> r \<in> (\<lambda>p. closed_row now (snd p)) ` set (filter (vanished bundle scope) current)"
      using that unfolding sup by simp
    then consider p where "p \<in> set ?changed" "map_option (closed_row now) (map_of current (fst p)) = Some r"
      | p where "p \<in> set current" "vanished bundle scope p" "r = closed_row now (snd p)"
      unfolding in_map_filter by (elim disjE bexE imageE) auto
    then show ?thesis
    proof cases
      case 1
      then obtain old where old: "map_of current (fst p) = Some old" "r = closed_row now old" by auto
      have "map_of bundle (fst p) \<noteq> None" using 1(1) unfolding map_of_eq_None_iff by force
      then show ?thesis using old map_of_SomeD [OF old(1)]
        by (intro exI [of _ "fst p"] exI [of _ old]) (simp del: not_None_eq)
    next
      case 2
      have "(fst p, snd p) \<in> set current" using 2(1) by simp
      then show ?thesis using 2(2,3)
        by (intro exI [of _ "fst p"] exI [of _ "snd p"]) (simp add: vanished_def)
    qed
  qed
  moreover have "\<exists>subject doc. (subject, doc) \<in> set bundle
           \<and> dget ''id'' r = JStr (subject @ ''@'' @ now) \<and> dget ''core'' r = JStr (new_core_of doc)"
    if "r \<in> set inserts" for r
  proof -
    obtain p where p: "p \<in> set bundle"
      and r: "r = concept_row now (fst p) (snd p) (overlay_for (map_of current (fst p)) (snd p))"
      using \<open>r \<in> set inserts\<close> unfolding ins by auto
    have "(fst p, snd p) \<in> set bundle" using p by simp
    then show ?thesis
      by (intro exI [of _ "fst p"] exI [of _ "snd p"] conjI) (simp_all only: r id concept_row_layers(1))
  qed
  moreover have "length inserts + n = length bundle" unfolding ins n by (simp add: length_filter_le)
  ultimately show ?thesis by blast
qed

theorem walk_keeps_history_witness:
  "let bundle = [(''D.s'', [(''type'', JStr ''AsterixDB Dataset''), (''text'', JStr ''core'')])];
       current = [(''D.t'', [(''type'', JStr ''AsterixDB Dataset'')]), (''D.u'', [(''type'', JStr ''Note'')])]
   in \<forall>r \<in> set (fst (snd (reconcile_walked bundle current ''t'' None))).
        \<exists>subject old. (subject, old) \<in> set current \<and> r = closed_row ''t'' old \<and> is_walk_owned old"
proof -
  let ?b = "[(''D.s'', [(''type'', JStr ''AsterixDB Dataset''), (''text'', JStr ''core'')])]"
  let ?c = "[(''D.t'', [(''type'', JStr ''AsterixDB Dataset'')]), (''D.u'', [(''type'', JStr ''Note'')])]"
  obtain inserts superseded n where r: "reconcile_walked ?b ?c ''t'' None = (inserts, superseded, n)"
    by (rule prod_cases3)
  have none: "map_of ?b subject = None" if "(subject, old) \<in> set ?c" for subject old using that by auto
  have "\<forall>x \<in> set superseded. \<exists>subject old. (subject, old) \<in> set ?c \<and> x = closed_row ''t'' old \<and> is_walk_owned old"
    using walk_keeps_history [OF r] none by meson
  then show ?thesis by (simp only: Let_def r fst_conv snd_conv)
qed

section \<open>What housekeeping may send\<close>

text \<open>
  A read of the own tenant's rows, one of the four statements that are read as they are (the
  inventory, the catalog walk, the searches for rows without an owner), the bootstrap of the
  store, or the guarded write of one row.
\<close>

definition upkeep_statements :: "string list" where
  "upkeep_statements = [inventory_query, walk_query None, unowned_memory_query, unowned_event_query]"

definition upkeep_request :: "cc_client \<Rightarrow> request \<Rightarrow> bool" where
  "upkeep_request c r \<longleftrightarrow>
     (\<exists>st. own_read c st r)
     \<or> (\<exists>st \<in> set upkeep_statements. catalog_request c st r)
     \<or> (\<exists>st \<in> set bootstrap_statements. own_write c st [] r)
     \<or> (\<exists>st row. own_write c st [(''row'', JDict row)] r)"

lemma upkeep_write [emits_intro]: "emits (upkeep_request c) (execute_memory_write c st ccid [(''row'', JDict row)])"
  by (rule emits_mono [OF memory_write_own]) (auto simp: upkeep_request_def)

lemma upkeep_read:
  "st \<in> set upkeep_statements \<Longrightarrow> emits (upkeep_request c) (execute c st (query_defaults ccid))"
  by (rule emits_mono [OF execute_plain]) (auto simp: upkeep_request_def query_defaults_def)

lemma upkeep_memory_read [emits_intro]:
  "distinct (map fst params) \<Longrightarrow> emits (upkeep_request c) (execute_memory_read c st ccid params)"
  by (rule memory_read_own) (auto simp: upkeep_request_def)

lemma write_all_emits [emits_intro]: "emits (upkeep_request c) (write_all c st ccid rows)"
  by (induction rows) (simp_all only: write_all.simps emits_return emits_bind upkeep_write)

lemma bootstrap_all_emits:
  "set sts \<subseteq> set bootstrap_statements \<Longrightarrow> emits (upkeep_request c) (bootstrap_all c ccid sts)"
proof (induction sts)
  case (Cons st sts)
  have "emits (upkeep_request c) (execute_memory_write c st ccid [])"
    by (rule emits_mono [OF memory_write_own]) (use Cons.prems in \<open>auto simp: upkeep_request_def\<close>)
  with Cons show ?case unfolding bootstrap_all.simps by (intro emits_bind) simp_all
qed (simp only: bootstrap_all.simps emits_return)

lemma bootstrap_emits [emits_intro]: "emits (upkeep_request c) (bootstrap_store c ccid)"
  unfolding bootstrap_store_def by (rule bootstrap_all_emits) (rule subset_refl)

lemma run_walk_emits [emits_intro]: "emits (upkeep_request c) (run_walk c s new_uuid now)"
  unfolding run_walk_def fetch_bundle_def fetch_current_rows_def Let_def case_prod_unfold
  by (intro emits_bind emits_return emits_lift upkeep_read upkeep_memory_read write_all_emits)
    (simp_all add: upkeep_statements_def)

end
