(* ===== verification/Upkeep.thy ===== *)
theory Upkeep
  imports Okf_Walk Memory_Capture
begin

text \<open>
  Housekeeping of the memory store: replaying the proofs of grounded notes (\<open>revalidate.py\<close>),
  archiving notes nobody recalled (\<open>decay.py\<close>) and adopting rows without an owner
  (\<open>migrate.py\<close>). The present as a text and the age of a time stamp are arguments.
\<close>

section \<open>Revalidation\<close>

definition revalidate_limit :: nat where "revalidate_limit = 50"
definition archived_reason_len :: nat where "archived_reason_len = 500"

definition dq :: string where "dq = [CHR 0x22]"

definition grounded_query :: string where
  "grounded_query =
     ''SELECT VALUE m FROM '' @ memory_dataset @ '' m WHERE m.valid_to IS UNKNOWN AND m.`type` = ''
     @ dq @ ''Note'' @ dq @ '' AND m.source_query IS NOT UNKNOWN AND '' @ scope_clause ''m''
     @ '' LIMIT '' @ show_nat revalidate_limit @ '';''"

definition is_replayable :: "dict \<Rightarrow> bool" where
  "is_replayable row \<longleftrightarrow>
     dget ''valid_to'' row = JNull \<and> dget ''type'' row = JStr ''Note'' \<and> truthy (dget ''source_query'' row)"

record reval_counts =
  rv_checked :: nat
  rv_retired :: nat
  rv_unprovable :: nat

definition run_proof :: "cc_client \<Rightarrow> string \<Rightarrow> string \<Rightarrow> json list option io" where
  "run_proof c ccid source_query =
     io_catch
       (io_bind (execute c source_query (query_defaults ccid)) (\<lambda>envelope.
        io_return (as_list (dget ''results'' envelope))))
       (\<lambda>_. io_return None)"

definition retired_row :: "string \<Rightarrow> dict \<Rightarrow> string list \<Rightarrow> dict" where
  "retired_row now row conflicts =
     dict_set ''archived_reason''
       (JStr (take archived_reason_len (''refuted by its own source_query: '' @ join ''; '' conflicts)))
       (dict_set ''valid_to'' (JStr now) row)"

text \<open>What a replay makes of a note: nothing, a suspect marker, or its retirement.\<close>

datatype replay_verdict = Unprovable | Stands | Refuted "string list"

definition replay_verdict :: "dict \<Rightarrow> json list option \<Rightarrow> replay_verdict" where
  "replay_verdict row res =
     (case res of
        None \<Rightarrow> Unprovable
      | Some rows \<Rightarrow>
          if rows = [] then Stands
          else let conflicts = note_conflicts (py_str (dget_or ''text'' (JStr []) row)) rows False
               in if conflicts = [] then Stands else Refuted conflicts)"

definition write_quietly :: "cc_client \<Rightarrow> string \<Rightarrow> dict \<Rightarrow> unit io" where
  "write_quietly c ccid row =
     io_catch (io_bind (execute_memory_write c upsert_row ccid [(''row'', JDict row)]) (\<lambda>_. io_return ()))
       (\<lambda>_. io_return ())"

definition replay_one :: "cc_client \<Rightarrow> string \<Rightarrow> string \<Rightarrow> dict \<Rightarrow> reval_counts \<Rightarrow> reval_counts io" where
  "replay_one c ccid now row n =
     io_bind (run_proof c ccid (py_str (dget ''source_query'' row))) (\<lambda>res.
     case replay_verdict row res of
       Unprovable \<Rightarrow>
         io_bind (write_quietly c ccid (flag_suspect now row [''its proving query no longer runs'']))
           (\<lambda>_. io_return (n\<lparr>rv_unprovable := rv_unprovable n + 1\<rparr>))
     | Stands \<Rightarrow> io_return n
     | Refuted conflicts \<Rightarrow>
         io_bind (write_quietly c ccid (retired_row now row conflicts))
           (\<lambda>_. io_return (n\<lparr>rv_retired := rv_retired n + 1\<rparr>)))"

definition no_replays :: reval_counts where
  "no_replays = \<lparr>rv_checked = 0, rv_retired = 0, rv_unprovable = 0\<rparr>"

definition replay_row :: "cc_client \<Rightarrow> string \<Rightarrow> string \<Rightarrow> reval_counts \<Rightarrow> dict \<Rightarrow> reval_counts io" where
  "replay_row c ccid now n row =
     (if is_replayable row then replay_one c ccid now row (n\<lparr>rv_checked := rv_checked n + 1\<rparr>)
      else io_return n)"

definition run_revalidation :: "cc_client \<Rightarrow> settings \<Rightarrow> string \<Rightarrow> string \<Rightarrow> reval_counts io" where
  "run_revalidation c s new_uuid now =
     (if \<not> memory_write_enabled s then io_return no_replays
      else
        let ccid = make_client_context_id (agent_session_id s) (Some ''revalidate'') new_uuid
        in io_bind (io_catch (io_bind (execute_memory_read c grounded_query ccid []) (\<lambda>v. io_return (Some v)))
                      (\<lambda>_. io_return None)) (\<lambda>found.
           case found of
             None \<Rightarrow> io_return no_replays
           | Some envelope \<Rightarrow>
               io_bind (io_lift (plain_rows envelope)) (\<lambda>rows.
               io_fold (replay_row c ccid now) no_replays rows)))"

section \<open>Decay\<close>

definition decay_after_days :: rat where "decay_after_days = 30"
definition candidate_scan_limit :: nat where "candidate_scan_limit = 10000"

definition decay_query :: string where
  "decay_query =
     ''SELECT VALUE m FROM '' @ memory_dataset @ '' m WHERE m.valid_to IS UNKNOWN AND m.`type` = ''
     @ dq @ ''Note'' @ dq @ '' AND '' @ scope_clause ''m'' @ '' LIMIT '' @ show_nat candidate_scan_limit @ '';''"

definition is_decay_candidate :: "(string \<Rightarrow> rat option) \<Rightarrow> dict \<Rightarrow> exn + bool" where
  "is_decay_candidate age row =
     (if dget ''type'' row \<noteq> JStr ''Note'' \<or> truthy (dget ''source_query'' row) then Inr False
      else sum_bind (to_int (py_or (dget ''recall_count'' row) (JInt 0))) (\<lambda>n.
        if 0 < n then Inr False
        else Inr (case age (py_str (py_or (dget ''last_recalled_at'' row) (dget ''valid_from'' row))) of
                    None \<Rightarrow> False | Some days \<Rightarrow> decay_after_days < days)))"

definition decayed_row :: "string \<Rightarrow> dict \<Rightarrow> dict" where
  "decayed_row now row =
     dict_set ''archived_reason'' (JStr ''unverified and never recalled within 30 days'')
       (dict_set ''valid_to'' (JStr now) row)"

definition decay_one ::
  "cc_client \<Rightarrow> string \<Rightarrow> clock \<Rightarrow> nat \<Rightarrow> dict \<Rightarrow> nat io" where
  "decay_one c ccid ck archived row =
     io_bind (io_lift (is_decay_candidate (ck_age ck) row)) (\<lambda>due.
     if \<not> due then io_return archived
     else io_bind (execute_memory_write c upsert_row ccid [(''row'', JDict (decayed_row (ck_now ck) row))])
            (\<lambda>_. io_return (Suc archived)))"

definition run_decay :: "cc_client \<Rightarrow> settings \<Rightarrow> clock \<Rightarrow> string \<Rightarrow> (nat \<times> nat) io" where
  "run_decay c s ck new_uuid =
     (let ccid = make_client_context_id (agent_session_id s) (Some ''decay'') new_uuid
      in io_bind (execute_memory_read c decay_query ccid []) (\<lambda>envelope.
         io_bind (io_lift (plain_rows envelope)) (\<lambda>rows.
         io_bind (io_fold (decay_one c ccid ck) 0 rows) (\<lambda>archived.
         io_return (length rows, archived)))))"

section \<open>Adoption\<close>

definition event_upsert :: string where
  "event_upsert = ''UPSERT INTO '' @ session_event_dataset @ '' ([$row]);''"

definition adopt :: "cc_client \<Rightarrow> string \<Rightarrow> string \<Rightarrow> string \<Rightarrow> nat io" where
  "adopt c ccid query upsert =
     io_bind (execute c query (query_defaults ccid)) (\<lambda>envelope.
     io_bind (io_lift (plain_rows envelope)) (\<lambda>rows.
     io_bind (write_all c upsert ccid rows) (\<lambda>_. io_return (length rows))))"

definition backfill_principals :: "cc_client \<Rightarrow> settings \<Rightarrow> string \<Rightarrow> (nat \<times> nat) io" where
  "backfill_principals c s new_uuid =
     (if \<not> memory_write_enabled s then io_return (0, 0)
      else
        let ccid = make_client_context_id (agent_session_id s) (Some ''backfill'') new_uuid
        in io_bind (adopt c ccid unowned_memory_query upsert_row) (\<lambda>concepts.
           io_bind (adopt c ccid unowned_event_query event_upsert) (\<lambda>events.
           io_return (concepts, events))))"

section \<open>A note is retired only by its own proof\<close>

lemma retired_fields:
  "dget k (retired_row now row conflicts) =
     (if k = ''archived_reason''
      then JStr (take archived_reason_len (''refuted by its own source_query: '' @ join ''; '' conflicts))
      else if k = ''valid_to'' then JStr now else dget k row)"
  by (simp add: retired_row_def)

definition proof_of :: "dict \<Rightarrow> string" where
  "proof_of row = py_str (dget ''source_query'' row)"

text \<open>
  A row that this pass read: the read of the grounded notes, made after the history t, returned it
  before the history h was reached. A proof that was replayed returned its rows in the same sense.
\<close>

definition read_in_pass :: "cc_client \<Rightarrow> string \<Rightarrow> trace \<Rightarrow> trace \<Rightarrow> dict \<Rightarrow> bool" where
  "read_in_pass c ccid t h row \<longleftrightarrow>
     (\<exists>h0 envelope h1 rows. prefix t h0 \<and> execute_memory_read c grounded_query ccid [] h0 = (Inr envelope, h1)
        \<and> prefix h1 h \<and> plain_rows envelope = Inr rows \<and> row \<in> set rows \<and> is_replayable row)"

definition replayed_in_pass :: "cc_client \<Rightarrow> string \<Rightarrow> trace \<Rightarrow> trace \<Rightarrow> dict \<Rightarrow> json list option \<Rightarrow> bool" where
  "replayed_in_pass c ccid t h row res \<longleftrightarrow>
     (\<exists>h0 h1. prefix t h0 \<and> run_proof c ccid (proof_of row) h0 = (Inr res, h1) \<and> prefix h1 h)"

definition verdict_row :: "string \<Rightarrow> dict \<Rightarrow> replay_verdict \<Rightarrow> dict option" where
  "verdict_row now row verdict =
     (case verdict of
        Unprovable \<Rightarrow> Some (flag_suspect now row [''its proving query no longer runs''])
      | Stands \<Rightarrow> None
      | Refuted conflicts \<Rightarrow> Some (retired_row now row conflicts))"

text \<open>The requests of a pass, each with the history before it.\<close>

definition reval_request :: "cc_client \<Rightarrow> string \<Rightarrow> string \<Rightarrow> trace \<Rightarrow> trace \<Rightarrow> request \<Rightarrow> bool" where
  "reval_request c ccid now t h r \<longleftrightarrow>
     own_read c grounded_query r
     \<or> (\<exists>row. read_in_pass c ccid t h row
          \<and> (catalog_request c (proof_of row) r
             \<or> (\<exists>res row'. replayed_in_pass c ccid t h row res
                   \<and> verdict_row now row (replay_verdict row res) = Some row'
                   \<and> own_write c upsert_row [(''row'', JDict row')] r)))"

lemma run_proof_emits: "emits (catalog_request c q) (run_proof c ccid q)"
  unfolding run_proof_def
  by (intro emits_catch emits_bind emits_return execute_plain) (simp add: query_defaults_def)

lemma write_quietly_emits: "emits (own_write c upsert_row [(''row'', JDict row)]) (write_quietly c ccid row)"
  unfolding write_quietly_def by (intro emits_catch emits_bind emits_return memory_write_own)

lemma read_in_pass_mono: "read_in_pass c ccid t h row \<Longrightarrow> prefix h h' \<Longrightarrow> read_in_pass c ccid t h' row"
  unfolding read_in_pass_def by (meson prefix_order.trans)

lemma replay_row_traced:
  assumes "is_replayable row \<Longrightarrow> read_in_pass c ccid t u row" and "prefix t u"
  shows "traced (reval_request c ccid now t) (replay_row c ccid now n row) u"
proof (cases "is_replayable row")
  case False
  then show ?thesis by (simp add: replay_row_def traced_return)
next
  case True
  have row: "read_in_pass c ccid t h row" if "prefix u h" for h
    using read_in_pass_mono assms(1) [OF True] that by blast
  have wrote: "traced (reval_request c ccid now t) (io_bind (write_quietly c ccid row') (\<lambda>_. io_return n')) u'"
    if res: "run_proof c ccid (proof_of row) u = (Inr res, u')" and after: "prefix u u'"
      and row': "verdict_row now row (replay_verdict row res) = Some row'" for res u' row' n'
  proof (intro traced_bind traced_return traced_emits [OF write_quietly_emits])
    fix h q
    assume h: "prefix u' h" and q: "own_write c upsert_row [(''row'', JDict row')] q"
    have "replayed_in_pass c ccid t h row res" using assms(2) res h by (auto simp: replayed_in_pass_def)
    moreover have "read_in_pass c ccid t h row" using row after h by (meson prefix_order.trans)
    ultimately show "reval_request c ccid now t h q" using row' q by (auto simp: reval_request_def)
  qed
  have "traced (reval_request c ccid now t) (run_proof c ccid (proof_of row)) u"
    by (rule traced_emits [OF run_proof_emits]) (auto simp: reval_request_def intro: row)
  moreover have "traced (reval_request c ccid now t) (case replay_verdict row res of
       Unprovable \<Rightarrow>
         io_bind (write_quietly c ccid (flag_suspect now row [''its proving query no longer runs''])) (\<lambda>_. io_return n1)
     | Stands \<Rightarrow> io_return n2
     | Refuted conflicts \<Rightarrow> io_bind (write_quietly c ccid (retired_row now row conflicts)) (\<lambda>_. io_return n3)) u'"
    if "run_proof c ccid (proof_of row) u = (Inr res, u')" "prefix u u'" for res u' n1 n2 n3
  proof (cases "replay_verdict row res")
    case Unprovable
    have "traced (reval_request c ccid now t)
        (io_bind (write_quietly c ccid (flag_suspect now row [''its proving query no longer runs''])) (\<lambda>_. io_return n1)) u'"
      by (rule wrote [OF that]) (simp add: verdict_row_def Unprovable)
    then show ?thesis by (simp add: Unprovable del: io_run)
  next
    case (Refuted conflicts)
    have "traced (reval_request c ccid now t)
        (io_bind (write_quietly c ccid (retired_row now row conflicts)) (\<lambda>_. io_return n3)) u'"
      by (rule wrote [OF that]) (simp add: verdict_row_def Refuted)
    then show ?thesis by (simp add: Refuted del: io_run)
  qed (simp add: traced_return)
  ultimately show ?thesis
    using True unfolding replay_row_def replay_one_def proof_of_def [symmetric] if_P [OF True] by (intro traced_bind)
qed

lemma revalidation_traced:
  "traced (\<lambda>h r. memory_write_enabled s
        \<and> reval_request c (make_client_context_id (agent_session_id s) (Some ''revalidate'') new_uuid) now t h r)
     (run_revalidation c s new_uuid now) t"
proof (cases "memory_write_enabled s")
  case True
  let ?ccid = "make_client_context_id (agent_session_id s) (Some ''revalidate'') new_uuid"
  let ?read = "io_catch (io_bind (execute_memory_read c grounded_query ?ccid []) (\<lambda>v. io_return (Some v))) (\<lambda>_. io_return None)"
  have "emits (own_read c grounded_query) (execute_memory_read c grounded_query ?ccid [])"
    by (rule memory_read_own) simp_all
  then have "emits (own_read c grounded_query) ?read"
    by (intro emits_catch emits_bind emits_return)
  then have read: "traced (reval_request c ?ccid now t) ?read t"
    by (rule traced_emits) (simp add: reval_request_def)
  have found: "execute_memory_read c grounded_query ?ccid [] t = (Inr envelope, u)"
    if "?read t = (Inr (Some envelope), u)" for envelope u
    using that by (auto simp: io_catch_def io_bind_def split: prod.splits sum.splits exn.splits)
  have pass: "traced (reval_request c ?ccid now t) (io_bind (io_lift (plain_rows envelope)) (\<lambda>rows.
      io_fold (replay_row c ?ccid now) no_replays rows)) u"
    if envelope: "?read t = (Inr (Some envelope), u)" and u: "prefix t u" for envelope u
  proof (intro traced_bind traced_lift traced_fold replay_row_traced)
    fix rows u' and row :: dict and u''
    assume rows: "io_lift (plain_rows envelope) u = (Inr rows, u')" and row: "row \<in> set rows" "is_replayable row"
      and u'': "prefix u' u''"
    then show "read_in_pass c ?ccid t u'' row"
      using found [OF envelope] by (auto simp: read_in_pass_def)
  next
    fix rows u' u''
    assume "prefix u u'" "prefix u' u''"
    then show "prefix t u''" using u by (meson prefix_order.trans)
  qed
  have after: "traced (reval_request c ?ccid now t)
      (case out of None \<Rightarrow> io_return no_replays
        | Some envelope \<Rightarrow> io_bind (io_lift (plain_rows envelope)) (\<lambda>rows. io_fold (replay_row c ?ccid now) no_replays rows)) u"
    if "?read t = (Inr out, u)" "prefix t u" for out u
    using that pass by (cases out) (simp_all add: traced_return del: io_run)
  have "traced (reval_request c ?ccid now t) (run_revalidation c s new_uuid now) t"
    using True unfolding run_revalidation_def Let_def by (simp only: not_True_eq_False if_False) (intro traced_bind read after)
  then show ?thesis by (rule traced_mono) (simp add: True)
qed (simp add: run_revalidation_def traced_return)

text \<open>
  C28. A note is retired only when its own proof refutes it. With memory writes off a revalidation
  pass sends nothing. Otherwise every request of the pass is the read of the own tenant's grounded
  notes, the read-only replay of the source query of a current note which that read returned
  earlier in the pass, or the guarded own-tenant upsert of such a note, after its source query was
  replayed in the pass: closed with the conflicts, when the rows that this replay returned
  contradict the text of the note, or marked as suspect, when the query no longer ran. A replay
  that returns no rows, or rows that agree, writes nothing, and a closed note keeps all its fields
  but \<open>valid_to\<close> and the reason.
\<close>

theorem revalidation_needs_proof:
  "traced (\<lambda>h r. memory_write_enabled s
        \<and> reval_request c (make_client_context_id (agent_session_id s) (Some ''revalidate'') new_uuid) now t h r)
     (run_revalidation c s new_uuid now) t
   \<and> (replay_verdict row res = Unprovable \<longleftrightarrow> res = None)
   \<and> (replay_verdict row res = Refuted conflicts \<longleftrightarrow>
        (\<exists>rows. res = Some rows \<and> conflicts \<noteq> []
           \<and> conflicts = note_conflicts (py_str (dget_or ''text'' (JStr []) row)) rows False))
   \<and> (verdict_row now row (replay_verdict row res) = None \<longleftrightarrow>
        (\<exists>rows. res = Some rows \<and> note_conflicts (py_str (dget_or ''text'' (JStr []) row)) rows False = []))
   \<and> dget k (retired_row now row conflicts) =
     (if k = ''archived_reason''
      then JStr (take archived_reason_len (''refuted by its own source_query: '' @ join ''; '' conflicts))
      else if k = ''valid_to'' then JStr now else dget k row)"
proof (intro conjI revalidation_traced retired_fields)
  have empty: "note_conflicts t [] w = []" for t w by (simp add: note_conflicts_def)
  show "replay_verdict row res = Refuted conflicts \<longleftrightarrow>
        (\<exists>rows. res = Some rows \<and> conflicts \<noteq> []
           \<and> conflicts = note_conflicts (py_str (dget_or ''text'' (JStr []) row)) rows False)"
    using empty by (auto simp: replay_verdict_def Let_def split: option.splits)
  show "verdict_row now row (replay_verdict row res) = None \<longleftrightarrow>
        (\<exists>rows. res = Some rows \<and> note_conflicts (py_str (dget_or ''text'' (JStr []) row)) rows False = [])"
    using empty by (auto simp: verdict_row_def replay_verdict_def Let_def split: option.splits)
qed (auto simp: replay_verdict_def Let_def split: option.splits)

section \<open>Only what never earned its keep is archived\<close>

lemma decay_candidate_iff:
  "is_decay_candidate age row = Inr True \<longleftrightarrow>
     dget ''type'' row = JStr ''Note'' \<and> \<not> truthy (dget ''source_query'' row)
     \<and> (\<exists>n. to_int (py_or (dget ''recall_count'' row) (JInt 0)) = Inr n \<and> n \<le> 0)
     \<and> (\<exists>days. age (py_str (py_or (dget ''last_recalled_at'' row) (dget ''valid_from'' row))) = Some days
          \<and> 30 < days)"
  by (auto simp: is_decay_candidate_def sum_bind_def decay_after_days_def split: sum.splits option.splits)

definition decay_write :: "cc_client \<Rightarrow> clock \<Rightarrow> request \<Rightarrow> bool" where
  "decay_write c ck r \<longleftrightarrow>
     (\<exists>row. is_decay_candidate (ck_age ck) row = Inr True
        \<and> own_write c upsert_row [(''row'', JDict (decayed_row (ck_now ck) row))] r)"

lemma decay_emits: "emits (\<lambda>r. own_read c decay_query r \<or> decay_write c ck r) (run_decay c s ck new_uuid)"
proof -
  have "emits (\<lambda>r. own_read c decay_query r \<or> decay_write c ck r) (decay_one c ccid ck n row)" for ccid n row
  proof (cases "is_decay_candidate (ck_age ck) row = Inr True")
    case True
    have "emits (\<lambda>r. own_read c decay_query r \<or> decay_write c ck r)
        (execute_memory_write c upsert_row ccid [(''row'', JDict (decayed_row (ck_now ck) row))])"
      by (rule emits_mono [OF memory_write_own]) (use True in \<open>auto simp: decay_write_def\<close>)
    then show ?thesis
      using True by (simp add: decay_one_def emits_bind emits_return)
  next
    case False
    then show ?thesis
      by (cases "is_decay_candidate (ck_age ck) row")
        (simp_all only: decay_one_def io_bind_simps emits_return emits_raise if_True if_False not_True_eq_False
          not_False_eq_True split: if_split, auto)
  qed
  moreover have "emits (\<lambda>r. own_read c decay_query r \<or> decay_write c ck r) (execute_memory_read c decay_query ccid [])" for ccid
    by (rule memory_read_own) simp_all
  ultimately show ?thesis
    unfolding run_decay_def Let_def by (intro emits_bind emits_lift emits_return emits_fold)
qed

text \<open>
  Decay archives only dead weight: every row the pass writes is a standalone note without
  evidence that was never recalled and whose last stamp parses and is more than thirty days old;
  the written row differs from it in \<open>valid_to\<close> and the reason only.
\<close>

theorem decay_archives_dead_weight:
  "emits (\<lambda>r. own_read c decay_query r \<or> decay_write c ck r) (run_decay c s ck new_uuid)
   \<and> (is_decay_candidate age row = Inr True \<longleftrightarrow>
        dget ''type'' row = JStr ''Note'' \<and> \<not> truthy (dget ''source_query'' row)
        \<and> (\<exists>n. to_int (py_or (dget ''recall_count'' row) (JInt 0)) = Inr n \<and> n \<le> 0)
        \<and> (\<exists>days. age (py_str (py_or (dget ''last_recalled_at'' row) (dget ''valid_from'' row))) = Some days
             \<and> 30 < days))
   \<and> dget k (decayed_row now row) =
       (if k = ''valid_to'' then JStr now
        else if k = ''archived_reason'' then JStr ''unverified and never recalled within 30 days''
        else dget k row)"
  by (simp add: decay_emits decay_candidate_iff decayed_row_def)

section \<open>The requests of the other passes\<close>

lemma upkeep_mono: "(\<And>r. P r \<Longrightarrow> upkeep_request c r) \<Longrightarrow> emits P m \<Longrightarrow> emits (upkeep_request c) m"
  by (rule emits_mono)

lemma backfill_emits [emits_intro]: "emits (upkeep_request c) (backfill_principals c s new_uuid)"
  unfolding backfill_principals_def adopt_def Let_def
  by (intro emits_if emits_return emits_bind emits_lift upkeep_read write_all_emits) (simp_all add: upkeep_statements_def)

lemma decay_upkeep [emits_intro]: "emits (upkeep_request c) (run_decay c s ck new_uuid)"
  by (rule emits_mono [OF decay_emits]) (auto simp: upkeep_request_def decay_write_def)

lemma flush_emits [emits_intro]:
  "emits (upkeep_request c) (flush_buffered_events parse uuid_of c s new_uuid b)"
proof -
  have ins: "emits (upkeep_request c) (insert_event c s new_uuid event)" for event
    unfolding insert_event_def by (intro emits_bind upkeep_write emits_return)
  have "emits (upkeep_request c) (replay_lines parse uuid_of c s new_uuid ls)" for ls
  proof (induction ls)
    case (Cons line ls)
    then show ?case by (auto simp: Let_def intro!: emits_bind ins split: option.split json.split)
  qed (simp only: replay_lines.simps emits_return)
  then show ?thesis
    unfolding flush_buffered_events_def flush_one_buffer_def by (auto intro!: emits_intro)
qed

end
