(* ===== verification/Distill.thy ===== *)
theory Distill
  imports Upkeep
begin

text \<open>
  Distillation of session events into notes (\<open>distill.py\<close>). Dictionaries of lists are grouped
  association lists, sets of sessions the distinct entries of a group. The present in seconds,
  the clock of the writes and the fresh identifiers are arguments.
\<close>

definition min_sessions_default :: nat where "min_sessions_default = 2"
definition min_failures_default :: nat where "min_failures_default = 3"
definition min_slow_occurrences_default :: nat where "min_slow_occurrences_default = 3"
definition slow_ms_default :: rat where "slow_ms_default = 5000"
definition event_scan_limit :: nat where "event_scan_limit = 20000"
definition seconds_per_day :: rat where "seconds_per_day = 86400"

definition events_query :: string where
  "events_query =
     ''SELECT VALUE e FROM '' @ session_event_dataset @ '' e WHERE e.ts > $since AND '' @ scope_clause ''e''
     @ '' LIMIT '' @ show_nat event_scan_limit @ '';''"

section \<open>Identity of events\<close>

text \<open>Equal numbers are equal keys whatever their type; a list or an object is no key.\<close>

definition as_key :: "json \<Rightarrow> json" where
  "as_key v = (case as_number v of Some r \<Rightarrow> JReal r | None \<Rightarrow> v)"

definition event_key :: "dict \<Rightarrow> exn + json" where
  "event_key event =
     (let parts = (if truthy (dget ''id'' event) then [dget ''id'' event]
                   else [dget ''session'' event, dget ''ts'' event, dget ''statement'' event])
      in if list_all hashable parts then Inr (JList (map as_key parts)) else Inl (PyExc ''TypeError''))"

fun dedupe_go :: "json list \<Rightarrow> dict list \<Rightarrow> exn + dict list" where
  "dedupe_go seen [] = Inr []"
| "dedupe_go seen (event # events) =
     sum_bind (event_key event) (\<lambda>k.
       if k \<in> set seen then dedupe_go seen events
       else sum_bind (dedupe_go (k # seen) events) (\<lambda>rest. Inr (event # rest)))"

definition dedupe_events :: "dict list \<Rightarrow> exn + dict list" where
  "dedupe_events events = dedupe_go [] events"

section \<open>Patterns in the events\<close>

definition event_statement :: "dict \<Rightarrow> string" where
  "event_statement event = py_str (dget_or ''statement'' (JStr []) event)"

definition succeeded :: "dict \<Rightarrow> bool" where
  "succeeded event \<longleftrightarrow> dget ''outcome'' event = JStr ''success''"

definition subjects_of_event :: "dict \<Rightarrow> string list" where
  "subjects_of_event event = subjects_from_statement (event_statement event) None"

section \<open>The three kinds of lessons\<close>

definition success_pairs :: "dict list \<Rightarrow> ((string \<times> string) \<times> string) list" where
  "success_pairs events =
     concat (map (\<lambda>e. map (\<lambda>s. ((s, event_statement e), py_str (dget_or ''session'' (JStr []) e))) (subjects_of_event e))
       (filter succeeded events))"

definition proven_note :: "nat \<Rightarrow> string \<Rightarrow> string" where
  "proven_note n statement = ''Proven query, used successfully in '' @ show_nat n @ '' sessions: '' @ statement"

definition proven_queries :: "dict list \<Rightarrow> nat \<Rightarrow> (string \<times> string \<times> string) list" where
  "proven_queries events min_sessions =
     map (\<lambda>((subject, statement), sessions). (subject, proven_note (length (remdups sessions)) statement, statement))
       (filter (\<lambda>g. min_sessions \<le> length (remdups (snd g))) (sort_key fst (grouped (success_pairs events))))"

definition failure_pairs :: "dict list \<Rightarrow> ((string \<times> string) \<times> unit) list" where
  "failure_pairs events =
     concat (map (\<lambda>e. map (\<lambda>s. ((s, py_str (dget_or ''error'' (JStr []) e)), ())) (subjects_of_event e))
       (filter (\<lambda>e. \<not> succeeded e) events))"

definition resolved_subjects :: "dict list \<Rightarrow> string list" where
  "resolved_subjects events = concat (map subjects_of_event (filter succeeded events))"

definition failure_note :: "nat \<Rightarrow> string \<Rightarrow> string" where
  "failure_note n error = ''Caution: queries on this dataset failed '' @ show_nat n @ '' times with '' @ error @ ''.''"

definition recurring_failures :: "dict list \<Rightarrow> nat \<Rightarrow> (string \<times> string) list" where
  "recurring_failures events min_failures =
     map (\<lambda>((subject, error), hits). (subject, failure_note (length hits) error))
       (filter (\<lambda>g. min_failures \<le> length (snd g) \<and> fst (fst g) \<notin> set (resolved_subjects events))
         (sort_key fst (grouped (failure_pairs events))))"

text \<open>\<open>{x:.1f}\<close> of a number that is not negative, a tie to the even digit.\<close>

definition one_decimal :: "rat \<Rightarrow> string" where
  "one_decimal x =
     (let y = x * 10; n = \<lfloor>y\<rfloor>; r = y - of_int n;
          k = (if r < 1 / 2 then n else if 1 / 2 < r then n + 1 else if even n then n else n + 1)
      in show_int (k div 10) @ ''.'' @ show_int (k mod 10))"

definition timing_pairs :: "dict list \<Rightarrow> ((string \<times> string) \<times> rat) list" where
  "timing_pairs events =
     concat (map (\<lambda>e. case as_number (dget ''elapsed_ms'' e) of
         None \<Rightarrow> []
       | Some ms \<Rightarrow> map (\<lambda>s. ((s, event_statement e), ms)) (subjects_of_event e)) (filter succeeded events))"

definition mean :: "rat list \<Rightarrow> rat" where
  "mean xs = sum_list xs / of_nat (length xs)"

definition slow_note :: "rat list \<Rightarrow> string \<Rightarrow> string" where
  "slow_note samples statement =
     ''Slow pattern: this query averaged '' @ one_decimal (mean samples / 1000) @ ''s over ''
     @ show_nat (length samples) @ '' runs '' @ em_dash @ '' consider restructuring before reuse: '' @ statement"

definition slow_patterns :: "dict list \<Rightarrow> nat \<Rightarrow> rat \<Rightarrow> (string \<times> string) list" where
  "slow_patterns events min_occurrences slow_ms =
     map (\<lambda>((subject, statement), samples). (subject, slow_note samples statement))
       (filter (\<lambda>g. min_occurrences \<le> length (snd g) \<and> slow_ms < mean (snd g))
         (sort_key fst (grouped (timing_pairs events))))"

section \<open>A pass\<close>

definition fetch_cluster_events :: "cc_client \<Rightarrow> string \<Rightarrow> settings \<Rightarrow> rat \<Rightarrow> dict list io" where
  "fetch_cluster_events c ccid s now =
     memory_rows c ccid events_query [(''since'', JReal (now - event_retention_days s * seconds_per_day))]"

text \<open>A lesson to write: the subject, the note and the query that proves it, if any.\<close>

type_synonym lesson = "string \<times> string \<times> string option"

definition count_action :: "string \<Rightarrow> (string \<times> nat) list \<Rightarrow> (string \<times> nat) list" where
  "count_action action summary =
     dict_set action ((case map_of summary action of None \<Rightarrow> 0 | Some n \<Rightarrow> n) + 1) summary"

definition write_distilled ::
  "clock \<Rightarrow> cc_client \<Rightarrow> settings \<Rightarrow> string \<Rightarrow> (string \<times> nat) list \<Rightarrow> lesson \<Rightarrow> (string \<times> nat) list io" where
  "write_distilled ck c s new_uuid summary l =
     (case l of (subject, body, source_query) \<Rightarrow>
        io_bind (run_memory_write ck c s new_uuid subject body [] [''distilled''] source_query None None) (\<lambda>r.
        io_return (count_action (if tr_is_error r then ''failed'' else py_str (dget ''action'' (tr_structured r))) summary)))"

definition lessons :: "dict list \<Rightarrow> nat \<Rightarrow> nat \<Rightarrow> nat \<Rightarrow> rat \<Rightarrow> lesson list" where
  "lessons events min_sessions min_failures min_slow slow_ms =
     map (\<lambda>(subject, body, q). (subject, body, Some q)) (proven_queries events min_sessions)
     @ map (\<lambda>(subject, body). (subject, body, None)) (recurring_failures events min_failures)
     @ map (\<lambda>(subject, body). (subject, body, None)) (slow_patterns events min_slow slow_ms)"

definition run_distill ::
  "clock \<Rightarrow> rat \<Rightarrow> cc_client \<Rightarrow> settings \<Rightarrow> string \<Rightarrow> nat \<Rightarrow> nat \<Rightarrow> nat \<Rightarrow> rat \<Rightarrow> (string \<times> nat) list io" where
  "run_distill ck now c s new_uuid min_sessions min_failures min_slow slow_ms =
     (let ccid = make_client_context_id (agent_session_id s) (Some ''distill'') new_uuid
      in io_bind (fetch_cluster_events c ccid s now) (\<lambda>rows.
         io_bind (io_lift (dedupe_events rows)) (\<lambda>events.
         io_fold (write_distilled ck c s new_uuid) [(''events'', length events)]
           (lessons events min_sessions min_failures min_slow slow_ms))))"

section \<open>Proofs and failures\<close>

text \<open>The sessions in which a statement on a dataset succeeded, and how often a failure occurred.\<close>

definition proving_sessions :: "dict list \<Rightarrow> string \<Rightarrow> string \<Rightarrow> string set" where
  "proving_sessions events subject statement =
     {py_str (dget_or ''session'' (JStr []) e) | e.
        e \<in> set events \<and> succeeded e \<and> event_statement e = statement \<and> subject \<in> set (subjects_of_event e)}"

lemma success_values:
  "set (map snd (filter (\<lambda>p. fst p = (subject, statement)) (success_pairs events)))
     = proving_sessions events subject statement"
  by (auto simp: success_pairs_def proving_sessions_def image_iff)

lemma in_proven_queries:
  "(subject, body, statement) \<in> set (proven_queries events m) \<longleftrightarrow>
     (let vs = map snd (filter (\<lambda>p. fst p = (subject, statement)) (success_pairs events))
      in vs \<noteq> [] \<and> m \<le> length (remdups vs) \<and> body = proven_note (length (remdups vs)) statement)"
proof -
  have "(subject, body, statement) \<in> set (proven_queries events m) \<longleftrightarrow>
      (\<exists>vs. ((subject, statement), vs) \<in> set (grouped (success_pairs events)) \<and> m \<le> length (remdups vs)
         \<and> body = proven_note (length (remdups vs)) statement)"
    unfolding proven_queries_def by (force simp: case_prod_unfold)
  then show ?thesis unfolding in_grouped Let_def by (simp only: conj_assoc ex_simps) blast
qed

text \<open>
  Only corroborated statements are distilled: a statement becomes a proven query of a dataset
  exactly when successful events of at least the required number of different sessions ran that
  very statement on the dataset; the note states that number, and the statement itself is handed
  on as the evidence.
\<close>

theorem proven_iff_corroborated:
  assumes "1 \<le> min_sessions"
  shows "(subject, body, statement) \<in> set (proven_queries events min_sessions) \<longleftrightarrow>
     min_sessions \<le> card (proving_sessions events subject statement)
     \<and> body = proven_note (card (proving_sessions events subject statement)) statement"
proof -
  let ?vs = "map snd (filter (\<lambda>p. fst p = (subject, statement)) (success_pairs events))"
  have card: "length (remdups ?vs) = card (proving_sessions events subject statement)"
    unfolding success_values [symmetric] by (simp add: length_remdups_card_conv)
  have "?vs \<noteq> []" if "min_sessions \<le> length (remdups ?vs)" using that assms by auto
  then have "(subject, body, statement) \<in> set (proven_queries events min_sessions) \<longleftrightarrow>
      min_sessions \<le> length (remdups ?vs) \<and> body = proven_note (length (remdups ?vs)) statement"
    unfolding in_proven_queries Let_def by metis
  then show ?thesis unfolding card .
qed

theorem proven_iff_corroborated_witness:
  "let e = (\<lambda>session. [(''session'', JStr session), (''outcome'', JStr ''success''),
                       (''statement'', JStr ''FROM D.s x;'')])
   in card (proving_sessions [e ''a'', e ''b'', e ''a''] ''D.s'' ''FROM D.s x;'') = 2"
proof -
  let ?q = "''FROM D.s x;''"
  let ?e = "\<lambda>session. [(''session'', JStr session), (''outcome'', JStr ''success''), (''statement'', JStr ?q)]"
  have one: "(1 :: nat) \<le> 2" by simp
  have subject: "subjects_from_statement ?q None = [''D.s'']" by code_simp
  have pairs: "success_pairs [?e ''a'', ?e ''b'', ?e ''a''] = map (Pair (''D.s'', ?q)) [''a'', ''b'', ''a'']"
    by (simp add: success_pairs_def succeeded_def subjects_of_event_def event_statement_def dget_def dget_or_def subject)
  have "(''D.s'', proven_note 2 ?q, ?q) \<in> set (proven_queries [?e ''a'', ?e ''b'', ?e ''a''] 2)"
    unfolding in_proven_queries pairs by (simp add: numeral_2_eq_2)
  then have at_least: "2 \<le> card (proving_sessions [?e ''a'', ?e ''b'', ?e ''a''] ''D.s'' ?q)"
    using proven_iff_corroborated [OF one] by blast
  have "proving_sessions [?e ''a'', ?e ''b'', ?e ''a''] ''D.s'' ?q \<subseteq> {''a'', ''b''}"
    by (auto simp: proving_sessions_def dget_or_def)
  from card_mono [OF _ this] at_least show ?thesis by (simp add: Let_def)
qed

lemma failures_iff:
  "(subject, body) \<in> set (recurring_failures events m) \<longleftrightarrow>
     (\<exists>error. let n = length (filter (\<lambda>p. fst p = (subject, error)) (failure_pairs events))
        in m \<le> n \<and> 0 < n \<and> subject \<notin> set (resolved_subjects events) \<and> body = failure_note n error)"
  by (auto simp: recurring_failures_def in_grouped Let_def image_iff Bex_def split_paired_Ex)

section \<open>What a pass sends\<close>

lemma run_distill_emits [emits_intro]:
  "emits (upkeep_request c) (run_distill ck now c s new_uuid ms mf msl sl)"
proof -
  have "emits (upkeep_request c) (run_memory_write ck c s new_uuid subject body [] tags q None author)"
    for subject body tags q author
    by (rule emits_mono [OF run_memory_write_emits]) (auto simp: upkeep_request_def upkeep_statements_def write_request_def)
  then show ?thesis
    unfolding run_distill_def fetch_cluster_events_def memory_rows_def write_distilled_def Let_def case_prod_unfold
    by (auto intro!: emits_intro)
qed

end
