(* ===== verification/Identity.thy ===== *)
theory Identity
  imports Memory_Capture Preferences Catalog
begin

text \<open>
  Who is asking, and on which connection (\<open>identity.py\<close>, \<open>scopes.py\<close>), and the one-shot
  briefing (\<open>tools/briefing.py\<close>). A session object is a number, its identity; the weak
  dictionaries are association lists from which a finished connection removes its key. The
  verified token of a call and fresh identifiers are arguments.
\<close>

section \<open>The tenant\<close>

definition max_principal_len :: nat where "max_principal_len = 80"
definition local_principal :: string where "local_principal = ''local''"
definition shared_bearer_principal :: string where "shared_bearer_principal = ''shared-bearer''"
definition orphan_session :: string where "orphan_session = ''orphan''"

text \<open>The first argument is the client id of the verified access token, if there is a token.\<close>

definition resolve_principal :: "string option \<Rightarrow> settings \<Rightarrow> string" where
  "resolve_principal token s =
     (let client_id = (case token of None \<Rightarrow> [] | Some t \<Rightarrow> strip t)
      in if client_id \<noteq> [] then take max_principal_len client_id
         else if auth_mode_of s = Auth_Bearer then shared_bearer_principal
         else local_principal)"

section \<open>The connection\<close>

text \<open>
  What a call context offers: no session object, one that is not hashable or cannot be held
  weakly, or a session object.
\<close>

datatype connection = No_Session | Unkeyable | Session nat

record identity =
  id_principal :: string
  id_session :: string

definition session_key :: "connection \<Rightarrow> string \<Rightarrow> (nat \<times> string) list \<Rightarrow> string \<times> (nat \<times> string) list" where
  "session_key conn new_uuid keys =
     (case conn of
        Session n \<Rightarrow> (case map_of keys n of
            Some k \<Rightarrow> (k, keys)
          | None \<Rightarrow> (new_uuid, dict_set n new_uuid keys))
      | _ \<Rightarrow> (orphan_session, keys))"

definition resolve_identity ::
  "connection \<Rightarrow> string option \<Rightarrow> settings \<Rightarrow> string \<Rightarrow> (nat \<times> string) list \<Rightarrow> identity \<times> (nat \<times> string) list" where
  "resolve_identity conn token s new_uuid keys =
     (case session_key conn new_uuid keys of (k, keys') \<Rightarrow>
        (\<lparr>id_principal = resolve_principal token s, id_session = k\<rparr>, keys'))"

section \<open>Private state per connection\<close>

text \<open>The three mutable objects of a scope; the briefing flag tells whether it was delivered.\<close>

record private_state =
  ps_capture :: capture_state
  ps_recall :: recall_state
  ps_briefed :: bool

definition fresh_state :: private_state where
  "fresh_state = \<lparr>ps_capture = [], ps_recall = new_recall, ps_briefed = False\<rparr>"

record session_scope =
  sc_identity :: identity
  sc_state :: private_state

record scope_registry =
  sr_keys :: "(nat \<times> string) list"
  sr_by_session :: "(nat \<times> session_scope) list"
  sr_connectionless :: "(string \<times> session_scope) list"

definition new_registry :: scope_registry where
  "new_registry = \<lparr>sr_keys = [], sr_by_session = [], sr_connectionless = []\<rparr>"

definition session_object :: "connection \<Rightarrow> nat option" where
  "session_object conn = (case conn of Session n \<Rightarrow> Some n | _ \<Rightarrow> None)"

definition for_call ::
  "connection \<Rightarrow> string option \<Rightarrow> settings \<Rightarrow> string \<Rightarrow> scope_registry \<Rightarrow> session_scope \<times> scope_registry" where
  "for_call conn token s new_uuid reg =
     (case resolve_identity conn token s new_uuid (sr_keys reg) of (who, keys) \<Rightarrow>
        let reg' = reg\<lparr>sr_keys := keys\<rparr>; created = \<lparr>sc_identity = who, sc_state = fresh_state\<rparr>
        in case session_object conn of
             None \<Rightarrow> (case map_of (sr_connectionless reg) (id_principal who) of
                 Some scope \<Rightarrow> (scope, reg')
               | None \<Rightarrow> (created, reg'\<lparr>sr_connectionless := dict_set (id_principal who) created (sr_connectionless reg)\<rparr>))
           | Some n \<Rightarrow> (case map_of (sr_by_session reg) n of
                 Some scope \<Rightarrow>
                   if id_principal (sc_identity scope) = id_principal who then (scope, reg')
                   else (created, reg'\<lparr>sr_by_session := dict_set n created (sr_by_session reg)\<rparr>)
               | None \<Rightarrow> (created, reg'\<lparr>sr_by_session := dict_set n created (sr_by_session reg)\<rparr>)))"

definition live_count :: "scope_registry \<Rightarrow> nat" where
  "live_count reg = length (sr_by_session reg) + length (sr_connectionless reg)"

definition tracked_session_count :: "scope_registry \<Rightarrow> nat" where
  "tracked_session_count reg = length (sr_keys reg)"

text \<open>A call that changes its private state in place, and the end of a connection.\<close>

definition call_with ::
  "connection \<Rightarrow> string option \<Rightarrow> settings \<Rightarrow> string \<Rightarrow> (private_state \<Rightarrow> private_state) \<Rightarrow> scope_registry \<Rightarrow> scope_registry" where
  "call_with conn token s new_uuid f reg =
     (case for_call conn token s new_uuid reg of (scope, reg') \<Rightarrow>
        let scope' = scope\<lparr>sc_state := f (sc_state scope)\<rparr>
        in case session_object conn of
             None \<Rightarrow> reg'\<lparr>sr_connectionless := dict_set (resolve_principal token s) scope' (sr_connectionless reg')\<rparr>
           | Some n \<Rightarrow> reg'\<lparr>sr_by_session := dict_set n scope' (sr_by_session reg')\<rparr>)"

definition end_session :: "nat \<Rightarrow> scope_registry \<Rightarrow> scope_registry" where
  "end_session n reg = reg\<lparr>sr_keys := dict_pop n (sr_keys reg), sr_by_session := dict_pop n (sr_by_session reg)\<rparr>"

section \<open>The briefing\<close>

definition max_dataverses_listed :: nat where "max_dataverses_listed = 12"

definition static_rules :: "string list" where
  "static_rules =
    [''project the columns you need instead of SELECT * (essential on COLUMNAR datasets)'',
     ''quote reserved words and names with special characters in backticks'',
     ''add a WHERE filter so a secondary index can be used instead of a full scan'']"

definition columnar_count :: "dict list \<Rightarrow> nat" where
  "columnar_count rows =
     length (filter (\<lambda>r. dget ''format'' (extract_dataset_format_info r) = JStr ''COLUMNAR'') rows)"

definition render_briefing :: "dict list \<Rightarrow> string list \<Rightarrow> string" where
  "render_briefing dataset_rows preferences =
     (let user_rows = filter (\<lambda>r. dget ''DataverseName'' r \<noteq> JStr ''Metadata'') dataset_rows;
          dataverses = dataverse_names user_rows;
          shown = take max_dataverses_listed dataverses;
          hidden = length dataverses - length shown;
          columnar = columnar_count user_rows
      in if user_rows = [] then []
         else join [CHR 0x0A]
           ([''Session briefing (shown once):'',
             ''- Dataverses ('' @ show_nat (length dataverses) @ ''): '' @ join '', '' shown
               @ (if 0 < hidden then '', +'' @ show_nat hidden @ '' more'' else []),
             ''- Datasets: '' @ show_nat (length user_rows)
               @ (if 0 < columnar then '' ('' @ show_nat columnar @ '' COLUMNAR '' @ em_dash @ '' project columns)'' else []),
             ''- Query rules: '' @ join ''; '' static_rules]
            @ (if preferences \<noteq> [] then [''- Preferences: '' @ join ''; '' preferences] else [])
            @ [''Per-dataset schema and learned notes attach automatically when you query or inspect a dataset.'']))"

definition build_briefing :: "cc_client \<Rightarrow> string \<Rightarrow> string io" where
  "build_briefing c ccid =
     io_bind (io_catch (io_bind (fetch_dataset_rows c ccid) (\<lambda>rows. io_return (Some rows))) (\<lambda>_. io_return None))
       (\<lambda>r. case r of
          None \<Rightarrow> io_return []
        | Some rows \<Rightarrow> io_bind (fetch_active_preferences c ccid [global_scope])
            (\<lambda>preferences. io_return (render_briefing rows preferences)))"

definition maybe_attach_briefing ::
  "cc_client \<Rightarrow> settings \<Rightarrow> string \<Rightarrow> bool \<Rightarrow> tool_result \<Rightarrow> (tool_result \<times> bool) io" where
  "maybe_attach_briefing c s new_uuid delivered r =
     (if \<not> memory_enabled s \<or> delivered then io_return (r, delivered)
      else io_bind (build_briefing c (make_client_context_id (agent_session_id s) (Some ''briefing'') new_uuid))
        (\<lambda>briefing. io_return
           (if briefing = [] then (r, delivered)
            else (r\<lparr>tr_text := briefing @ [CHR 0x0A, CHR 0x0A] @ tr_text r\<rparr>, True))))"


section \<open>Tenants\<close>

lemma resolve_principal_bounds:
  "resolve_principal token s \<noteq> []" "length (resolve_principal token s) \<le> max_principal_len"
  by (auto simp: resolve_principal_def Let_def local_principal_def shared_bearer_principal_def
      max_principal_len_def)

text \<open>
  A client id equal to the owner of rows that everybody reads makes its bearer that owner, and two
  client ids that agree on their first eighty characters are one tenant.
\<close>

lemma star_is_global: "resolve_principal (Some ''*'') s = global_principal"
  by (simp add: resolve_principal_def global_principal_def strip_by_def strip_left_by_def
      strip_right_by_def py_space_def code_def max_principal_len_def)

lemma long_principals_merge:
  assumes "strip x = x" "strip y = y" "x \<noteq> []" "y \<noteq> []" "take 80 x = take 80 y"
  shows "resolve_principal (Some x) s = resolve_principal (Some y) s"
  using assms by (simp add: resolve_principal_def max_principal_len_def)

section \<open>Scopes are private\<close>

text \<open>
  A history of calls, each with its connection, token, fresh identifier and change of the private
  state, and of ends of connections.
\<close>

datatype scope_event =
    Called connection "string option" string "private_state \<Rightarrow> private_state"
  | Ended nat

definition scope_event_step :: "settings \<Rightarrow> scope_registry \<Rightarrow> scope_event \<Rightarrow> scope_registry" where
  "scope_event_step s reg ev =
     (case ev of Called conn token u f \<Rightarrow> call_with conn token s u f reg | Ended n \<Rightarrow> end_session n reg)"

text \<open>
  What the history means to one caller, without any registry: its own changes on its own
  connection, and the points at which it starts afresh. No change of another tenant or of another
  connection occurs in it.
\<close>

datatype own_step = Own "private_state \<Rightarrow> private_state" | Afresh

definition own_step_of :: "settings \<Rightarrow> connection \<Rightarrow> string \<Rightarrow> scope_event \<Rightarrow> own_step option" where
  "own_step_of s conn who ev =
     (case ev of
        Called c token _ f \<Rightarrow>
          if session_object c \<noteq> session_object conn then None
          else if resolve_principal token s = who then Some (Own f)
          else if session_object conn = None then None else Some Afresh
      | Ended n \<Rightarrow> if session_object conn = Some n then Some Afresh else None)"

definition own_state :: "own_step list \<Rightarrow> private_state" where
  "own_state steps = foldl (\<lambda>st step. case step of Own f \<Rightarrow> f st | Afresh \<Rightarrow> fresh_state) fresh_state steps"

definition held_state :: "connection \<Rightarrow> string \<Rightarrow> scope_registry \<Rightarrow> private_state" where
  "held_state conn who reg =
     (case (case session_object conn of
              None \<Rightarrow> map_of (sr_connectionless reg) who
            | Some n \<Rightarrow> map_of (sr_by_session reg) n) of
        None \<Rightarrow> fresh_state
      | Some scope \<Rightarrow> if id_principal (sc_identity scope) = who then sc_state scope else fresh_state)"

definition registry_ok :: "scope_registry \<Rightarrow> bool" where
  "registry_ok reg \<longleftrightarrow>
     (\<forall>who scope. map_of (sr_connectionless reg) who = Some scope \<longrightarrow>
        id_principal (sc_identity scope) = who \<and> id_session (sc_identity scope) = orphan_session)
     \<and> (\<forall>n scope. map_of (sr_by_session reg) n = Some scope \<longrightarrow>
        map_of (sr_keys reg) n = Some (id_session (sc_identity scope)))"

lemma call_with_ok: "registry_ok reg \<Longrightarrow> registry_ok (call_with conn token s u f reg)"
  by (cases conn) (auto simp: registry_ok_def call_with_def for_call_def resolve_identity_def session_key_def
      session_object_def Let_def split: option.splits)

lemma end_session_ok: "registry_ok reg \<Longrightarrow> registry_ok (end_session n reg)"
  by (simp add: registry_ok_def end_session_def)

lemma for_call_state:
  assumes "registry_ok reg"
  shows "sc_state (fst (for_call conn token s u reg)) = held_state conn (resolve_principal token s) reg"
    and "id_principal (sc_identity (fst (for_call conn token s u reg))) = resolve_principal token s"
  using assms by (cases conn; auto simp: registry_ok_def for_call_def held_state_def resolve_identity_def session_key_def
      session_object_def Let_def split: option.splits)+

lemma some_update: "\<exists>x. m = m(k := x)"
  by (rule exI [of _ "m k"]) simp

lemma call_with_maps:
  assumes "registry_ok reg"
  shows "session_object c = None \<Longrightarrow> sr_by_session (call_with c token s u f reg) = sr_by_session reg
      \<and> (\<exists>sc. map_of (sr_connectionless (call_with c token s u f reg)) = (map_of (sr_connectionless reg))(resolve_principal token s \<mapsto> sc)
            \<and> id_principal (sc_identity sc) = resolve_principal token s
            \<and> sc_state sc = f (held_state c (resolve_principal token s) reg))"
    and "session_object c = Some n \<Longrightarrow> sr_connectionless (call_with c token s u f reg) = sr_connectionless reg
      \<and> (\<exists>sc. map_of (sr_by_session (call_with c token s u f reg)) = (map_of (sr_by_session reg))(n \<mapsto> sc)
            \<and> id_principal (sc_identity sc) = resolve_principal token s
            \<and> sc_state sc = f (held_state c (resolve_principal token s) reg))"
proof -
  obtain sc reg' where r: "for_call c token s u reg = (sc, reg')" by (cases "for_call c token s u reg")
  have sc: "sc_state sc = held_state c (resolve_principal token s) reg" "id_principal (sc_identity sc) = resolve_principal token s"
    using for_call_state [OF assms, of c token s u] r by simp_all
  have none: "sr_by_session reg' = sr_by_session reg
      \<and> (\<exists>x. map_of (sr_connectionless reg') = (map_of (sr_connectionless reg))(resolve_principal token s := x))"
    if "session_object c = None"
    using r that by (auto simp: for_call_def resolve_identity_def Let_def update_conv' some_update
        split: prod.splits option.splits)
  have some: "sr_connectionless reg' = sr_connectionless reg
      \<and> (\<exists>x. map_of (sr_by_session reg') = (map_of (sr_by_session reg))(n := x))" if "session_object c = Some n"
    using r that by (auto simp: for_call_def resolve_identity_def Let_def update_conv' some_update
        split: prod.splits option.splits if_splits)
  show "session_object c = None \<Longrightarrow> sr_by_session (call_with c token s u f reg) = sr_by_session reg
      \<and> (\<exists>sc. map_of (sr_connectionless (call_with c token s u f reg)) = (map_of (sr_connectionless reg))(resolve_principal token s \<mapsto> sc)
            \<and> id_principal (sc_identity sc) = resolve_principal token s
            \<and> sc_state sc = f (held_state c (resolve_principal token s) reg))"
    using none sc by (auto simp: call_with_def r update_conv')
  show "session_object c = Some n \<Longrightarrow> sr_connectionless (call_with c token s u f reg) = sr_connectionless reg
      \<and> (\<exists>sc. map_of (sr_by_session (call_with c token s u f reg)) = (map_of (sr_by_session reg))(n \<mapsto> sc)
            \<and> id_principal (sc_identity sc) = resolve_principal token s
            \<and> sc_state sc = f (held_state c (resolve_principal token s) reg))"
    using some sc by (auto simp: call_with_def r update_conv')
qed

lemma held_state_cong: "session_object c = session_object conn \<Longrightarrow> held_state c = held_state conn"
  by (simp add: held_state_def fun_eq_iff)

lemma held_after_call:
  assumes "registry_ok reg"
  shows "held_state conn who (call_with c token s u f reg) =
    (case own_step_of s conn who (Called c token u f) of
       None \<Rightarrow> held_state conn who reg | Some (Own g) \<Rightarrow> g (held_state conn who reg) | Some Afresh \<Rightarrow> fresh_state)"
proof (cases "session_object c = session_object conn")
  case True
  note held = held_state_cong [OF True]
  show ?thesis
  proof (cases "session_object c")
    case None
    from call_with_maps(1) [OF assms this, of token s u f] None True show ?thesis
      unfolding held by (auto simp: held_state_def own_step_of_def)
  next
    case (Some n)
    from call_with_maps(2) [OF assms this, of token s u f] Some True show ?thesis
      unfolding held by (auto simp: held_state_def own_step_of_def)
  qed
next
  case False
  show ?thesis
  proof (cases "session_object c")
    case None
    from call_with_maps(1) [OF assms this, of token s u f] None False show ?thesis
      by (auto simp: held_state_def own_step_of_def split: option.splits)
  next
    case (Some n)
    from call_with_maps(2) [OF assms this, of token s u f] Some False show ?thesis
      by (cases "session_object conn") (auto simp: held_state_def own_step_of_def)
  qed
qed

lemma held_after_end:
  "held_state conn who (end_session n reg) =
    (case own_step_of s conn who (Ended n) of
       None \<Rightarrow> held_state conn who reg | Some (Own g) \<Rightarrow> g (held_state conn who reg) | Some Afresh \<Rightarrow> fresh_state)"
  by (cases conn) (simp_all add: end_session_def held_state_def own_step_of_def session_object_def)

lemma scope_history:
  defines "run \<equiv> \<lambda>s evs. foldl (scope_event_step s) new_registry evs"
  shows "registry_ok (run s evs)
    \<and> held_state conn who (run s evs) = own_state (List.map_filter (own_step_of s conn who) evs)"
proof (induction evs rule: rev_induct)
  case Nil
  show ?case
    by (cases conn) (simp_all add: run_def registry_ok_def new_registry_def held_state_def own_state_def
        session_object_def map_filter_simps)
next
  case (snoc ev evs)
  then show ?case
    by (cases ev) (auto simp: run_def scope_event_step_def call_with_ok end_session_ok held_after_call
        held_after_end [where s = s] map_filter_append map_filter_simps own_state_def
        split: option.splits own_step.splits)
qed

text \<open>
  C16. Private state never crosses tenants or connections: whatever calls on whatever connections
  came before, by whomever, and whichever connections ended, the scope handed to a call belongs to
  the caller's verified tenant, and its capture, recall and briefing state is the result of that
  tenant's own changes on that very connection since it last began afresh, and of nothing else.
\<close>

theorem scopes_private:
  "let reg = foldl (scope_event_step s) new_registry history;
       scope = fst (for_call conn token s u reg);
       who = resolve_principal token s
   in id_principal (sc_identity scope) = who
      \<and> sc_state scope = own_state (List.map_filter (own_step_of s conn who) history)"
  using scope_history [of s history conn "resolve_principal token s"] by (simp add: Let_def for_call_state)

text \<open>The key of a connection stays the same while it lives, and live connections have different keys.\<close>

lemma session_key_stable:
  "session_key conn u keys = (k, keys') \<Longrightarrow> session_key conn u' keys' = (k, keys')"
  by (auto simp: session_key_def split: connection.splits option.splits)

lemma session_keys_distinct:
  assumes "session_key (Session n) u keys = (k, keys')" and "u \<notin> ran (map_of keys)"
    and "inj_on (map_of keys) (dom (map_of keys))"
  shows "inj_on (map_of keys') (dom (map_of keys'))"
proof (cases "map_of keys n")
  case None
  then have "map_of keys' = (map_of keys)(n \<mapsto> u)"
    using assms(1) by (auto simp: session_key_def update_conv')
  moreover have "map_of keys x \<noteq> Some u" for x using assms(2) by (auto simp: ran_def)
  ultimately show ?thesis using assms(3) by (auto simp: inj_on_def)
qed (use assms in \<open>simp add: session_key_def\<close>)

section \<open>The briefing is delivered once\<close>

lemma active_preferences_read_only [emits_intro]: "emits read_only (fetch_active_preferences c ccid scopes)"
  unfolding fetch_active_preferences_def Let_def
  by (auto intro!: emits_if emits_return emits_bind memory_rows_emits own_read_is_read_only)

lemma briefing_read_only [emits_intro]:
  "emits read_only (maybe_attach_briefing c s u delivered r)"
  unfolding maybe_attach_briefing_def build_briefing_def
  by (auto intro!: emits_intro split: option.splits)

lemma briefing_once:
  assumes "maybe_attach_briefing c s u delivered r t = (Inr (r', delivered'), t')"
  shows "(delivered \<or> \<not> memory_enabled s \<longrightarrow> r' = r \<and> delivered' = delivered \<and> t' = t)
    \<and> (r' = r \<and> delivered' = delivered
       \<or> delivered' \<and> (\<exists>briefing. briefing \<noteq> [] \<and> r' = r\<lparr>tr_text := briefing @ [CHR 0x0A, CHR 0x0A] @ tr_text r\<rparr>))"
proof (cases "\<not> memory_enabled s \<or> delivered")
  case False
  have "yields (\<lambda>p. p = (r, delivered) \<or> snd p
      \<and> (\<exists>b. b \<noteq> [] \<and> fst p = r\<lparr>tr_text := b @ [CHR 0x0A, CHR 0x0A] @ tr_text r\<rparr>)) (maybe_attach_briefing c s u delivered r)"
    using False unfolding maybe_attach_briefing_def by (auto intro!: yields_bind_any yields_return)
  from yieldsD [OF this assms] False show ?thesis by auto
qed (use assms in \<open>auto simp: maybe_attach_briefing_def\<close>)

end
