(* ===== verification/Maintenance.thy ===== *)
theory Maintenance
  imports Distill Identity
begin

text \<open>
  Startup maintenance (\<open>maintenance.py\<close>): the single-flight lock, first as one process sees it,
  then as the system calls of many processes interleave, and the pass that runs under it. The
  lock file is its creator and its time of modification; the creator is not read by the code.
\<close>

section \<open>The lock, as one process uses it\<close>

definition maintenance_timeout_s :: rat where "maintenance_timeout_s = 60"
definition lock_stale_s :: rat where "lock_stale_s = 600"

definition lock_path :: "(string \<Rightarrow> string) \<Rightarrow> string \<Rightarrow> settings \<Rightarrow> string" where
  "lock_path sha256_hex tmp s =
     tmp @ ''/asterixdb-mcp-maintenance-'' @ take 12 (sha256_hex (cc_base_url s)) @ ''.lock''"

record lock_file =
  lf_owner :: nat
  lf_mtime :: rat

text \<open>
  The first argument is the error of a directory in which no file can be created or removed, if
  there is one. An existing file is reported before that error.
\<close>

definition try_create :: "exn option \<Rightarrow> nat \<Rightarrow> rat \<Rightarrow> lock_file option \<Rightarrow> exn + bool \<times> lock_file option" where
  "try_create blocked me now file =
     (case file of
        Some f \<Rightarrow> Inr (False, file)
      | None \<Rightarrow> (case blocked of
          Some e \<Rightarrow> Inl e
        | None \<Rightarrow> Inr (True, Some \<lparr>lf_owner = me, lf_mtime = now\<rparr>)))"

definition lock_is_stale :: "rat \<Rightarrow> lock_file option \<Rightarrow> bool" where
  "lock_is_stale now file = (case file of None \<Rightarrow> True | Some f \<Rightarrow> lock_stale_s < now - lf_mtime f)"

definition release_lock :: "exn option \<Rightarrow> lock_file option \<Rightarrow> lock_file option" where
  "release_lock blocked file = (case blocked of None \<Rightarrow> None | Some _ \<Rightarrow> file)"

definition acquire_lock :: "exn option \<Rightarrow> nat \<Rightarrow> rat \<Rightarrow> lock_file option \<Rightarrow> exn + bool \<times> lock_file option" where
  "acquire_lock blocked me now file =
     sum_bind (try_create blocked me now file) (\<lambda>(taken, file').
       if taken then Inr (True, file')
       else if \<not> lock_is_stale now file' then Inr (False, file')
       else try_create blocked me now (release_lock blocked file'))"

section \<open>The lock, with many processes\<close>

text \<open>
  Where a process is: before its first create, before the look at an existing file, before the
  removal of a file it found stale, before the second create, or through.
\<close>

datatype lock_phase = Starting | Checking | Breaking | Retrying | Holding | Skipped | Finished | Crashed

text \<open>The number of lock files that were removed as stale is counted for the statements only.\<close>

record lock_state =
  ls_now :: rat
  ls_file :: "lock_file option"
  ls_phases :: "lock_phase list"
  ls_breaks :: nat

datatype lock_event = Act nat | Crash nat | Tick rat

abbreviation phase_of :: "lock_state \<Rightarrow> nat \<Rightarrow> lock_phase option" where
  "phase_of st i \<equiv> (if i < length (ls_phases st) then Some (ls_phases st ! i) else None)"

definition move :: "nat \<Rightarrow> lock_phase \<Rightarrow> lock_file option \<Rightarrow> lock_state \<Rightarrow> lock_state" where
  "move i p file st = st\<lparr>ls_phases := (ls_phases st)[i := p], ls_file := file\<rparr>"

definition count_break :: "lock_state \<Rightarrow> lock_state" where
  "count_break st = st\<lparr>ls_breaks := ls_breaks st + (if ls_file st = None then 0 else 1)\<rparr>"

inductive lock_step :: "lock_state \<Rightarrow> lock_event \<Rightarrow> lock_state \<Rightarrow> bool" where
  create: "phase_of st i = Some Starting \<Longrightarrow> try_create None i (ls_now st) (ls_file st) = Inr (True, file) \<Longrightarrow>
     lock_step st (Act i) (move i Holding file st)"
| create_exists: "phase_of st i = Some Starting \<Longrightarrow> try_create None i (ls_now st) (ls_file st) = Inr (False, file) \<Longrightarrow>
     lock_step st (Act i) (move i Checking file st)"
| found_stale: "phase_of st i = Some Checking \<Longrightarrow> lock_is_stale (ls_now st) (ls_file st) \<Longrightarrow>
     lock_step st (Act i) (move i Breaking (ls_file st) st)"
| found_fresh: "phase_of st i = Some Checking \<Longrightarrow> \<not> lock_is_stale (ls_now st) (ls_file st) \<Longrightarrow>
     lock_step st (Act i) (move i Skipped (ls_file st) st)"
| remove_stale: "phase_of st i = Some Breaking \<Longrightarrow>
     lock_step st (Act i) (move i Retrying (release_lock None (ls_file st)) (count_break st))"
| recreate: "phase_of st i = Some Retrying \<Longrightarrow> try_create None i (ls_now st) (ls_file st) = Inr (True, file) \<Longrightarrow>
     lock_step st (Act i) (move i Holding file st)"
| recreate_exists: "phase_of st i = Some Retrying \<Longrightarrow> try_create None i (ls_now st) (ls_file st) = Inr (False, file) \<Longrightarrow>
     lock_step st (Act i) (move i Skipped file st)"
| release: "phase_of st i = Some Holding \<Longrightarrow>
     lock_step st (Act i) (move i Finished (release_lock None (ls_file st)) st)"
| crash: "phase_of st i = Some p \<Longrightarrow> lock_step st (Crash i) (move i Crashed (ls_file st) st)"
| tick: "0 \<le> d \<Longrightarrow> lock_step st (Tick d) (st\<lparr>ls_now := ls_now st + d\<rparr>)"

inductive_cases lock_actE: "lock_step st (Act i) st'"
inductive_cases lock_stepE: "lock_step st ev st'"

inductive lock_steps :: "lock_state \<Rightarrow> lock_event list \<Rightarrow> lock_state \<Rightarrow> bool" where
  lock_done: "lock_steps st [] st"
| lock_more: "lock_step st ev st' \<Longrightarrow> lock_steps st' evs st'' \<Longrightarrow> lock_steps st (ev # evs) st''"

definition lock_start :: "nat \<Rightarrow> rat \<Rightarrow> lock_file option \<Rightarrow> lock_state" where
  "lock_start n now file = \<lparr>ls_now = now, ls_file = file, ls_phases = replicate n Starting, ls_breaks = 0\<rparr>"

definition holders :: "lock_state \<Rightarrow> nat" where
  "holders st = length (filter (\<lambda>p. p = Holding) (ls_phases st))"

text \<open>The steps as a function, to run them.\<close>

definition lock_next :: "lock_state \<Rightarrow> lock_event \<Rightarrow> lock_state option" where
  "lock_next st ev =
     (case ev of
        Tick d \<Rightarrow> if 0 \<le> d then Some (st\<lparr>ls_now := ls_now st + d\<rparr>) else None
      | Crash i \<Rightarrow> if i < length (ls_phases st) then Some (move i Crashed (ls_file st) st) else None
      | Act i \<Rightarrow> if length (ls_phases st) \<le> i then None
          else case ls_phases st ! i of
            Starting \<Rightarrow> (case try_create None i (ls_now st) (ls_file st) of
                Inr (taken, file) \<Rightarrow> Some (move i (if taken then Holding else Checking) file st) | Inl _ \<Rightarrow> None)
          | Checking \<Rightarrow> Some (move i (if lock_is_stale (ls_now st) (ls_file st) then Breaking else Skipped) (ls_file st) st)
          | Breaking \<Rightarrow> Some (move i Retrying (release_lock None (ls_file st)) (count_break st))
          | Retrying \<Rightarrow> (case try_create None i (ls_now st) (ls_file st) of
                Inr (taken, file) \<Rightarrow> Some (move i (if taken then Holding else Skipped) file st) | Inl _ \<Rightarrow> None)
          | Holding \<Rightarrow> Some (move i Finished (release_lock None (ls_file st)) st)
          | _ \<Rightarrow> None)"

lemma lock_step_next: "lock_step st ev st' \<longleftrightarrow> lock_next st ev = Some st'"
proof
  show "lock_step st ev st' \<Longrightarrow> lock_next st ev = Some st'"
    by (erule lock_step.cases) (auto simp: lock_next_def split: if_splits)
  assume after: "lock_next st ev = Some st'"
  show "lock_step st ev st'"
  proof (cases ev)
    case (Act i)
    then show ?thesis using after
      by (auto simp: lock_next_def split: if_splits lock_phase.splits sum.splits prod.splits
          intro: lock_step.intros)
  qed (use after in \<open>auto simp: lock_next_def split: if_splits intro: lock_step.intros\<close>)
qed

fun lock_run :: "lock_state \<Rightarrow> lock_event list \<Rightarrow> lock_state option" where
  "lock_run st [] = Some st"
| "lock_run st (ev # evs) = (case lock_next st ev of None \<Rightarrow> None | Some st' \<Rightarrow> lock_run st' evs)"

inductive_simps lock_steps_simps: "lock_steps st [] st'" "lock_steps st (ev # evs) st'"

lemma lock_steps_run: "lock_steps st evs st' \<longleftrightarrow> lock_run st evs = Some st'"
  by (induction evs arbitrary: st) (auto simp: lock_steps_simps lock_step_next split: option.splits)

section \<open>The pass\<close>

text \<open>One step of the pass: a gateway error is logged, any other exception ends the pass.\<close>

definition maintenance_step :: "unit io \<Rightarrow> unit io" where
  "maintenance_step m = io_catch m (\<lambda>_. io_return ())"

fun maintenance_run :: "unit io list \<Rightarrow> unit io" where
  "maintenance_run [] = io_return ()"
| "maintenance_run (m # ms) = io_bind (maintenance_step m) (\<lambda>_. maintenance_run ms)"

definition io_ignore :: "'a io \<Rightarrow> unit io" where
  "io_ignore m = io_bind m (\<lambda>_. io_return ())"

text \<open>What the steps take from outside: JSON parsing, identifiers, the clocks, the event buffer.\<close>

record upkeep_env =
  ue_parse :: "string \<Rightarrow> json option"
  ue_uuid_of :: "string \<Rightarrow> string"
  ue_uuid :: string
  ue_clock :: clock
  ue_now_s :: rat
  ue_buffer :: event_buffer

definition maintenance_client :: "network \<Rightarrow> settings \<Rightarrow> cc_client" where
  "maintenance_client net s =
     for_principal \<lparr>cc_settings = s, cc_http = net, cc_principal = None\<rparr> (resolve_principal None s)"

definition maintenance_steps :: "cc_client \<Rightarrow> settings \<Rightarrow> upkeep_env \<Rightarrow> unit io list" where
  "maintenance_steps c s e =
    (let u = ue_uuid e; ccid = make_client_context_id (agent_session_id s) (Some ''maintenance'') u
     in [bootstrap_store c ccid,
         io_ignore (backfill_principals c s u),
         io_ignore (flush_buffered_events (ue_parse e) (ue_uuid_of e) c s u (ue_buffer e)),
         io_ignore (run_walk c s u (ck_now (ue_clock e))),
         io_ignore (run_revalidation c s u (ck_now (ue_clock e))),
         io_ignore (run_decay c s (ue_clock e) u),
         io_ignore (run_distill (ue_clock e) (ue_now_s e) c s u min_sessions_default min_failures_default
                      min_slow_occurrences_default slow_ms_default)])"

definition maintenance_pass :: "network \<Rightarrow> settings \<Rightarrow> upkeep_env \<Rightarrow> unit io" where
  "maintenance_pass net s e = maintenance_run (maintenance_steps (maintenance_client net s) s e)"

text \<open>
  \<open>asyncio.wait_for\<close>: when the time is up while the computation waits for its k-th request (if
  it gets that far), it is abandoned there; what it already sent stays sent, and the
  cancellation is no exception its handlers catch.
\<close>

definition wait_for :: "nat option \<Rightarrow> 'a io \<Rightarrow> 'a io" where
  "wait_for limit m = (\<lambda>t. case m t of (r, t') \<Rightarrow>
     (case limit of
        None \<Rightarrow> (r, t')
      | Some k \<Rightarrow> if k < length t' - length t then (Inl (PyExc ''TimeoutError''), take (length t + Suc k) t')
                  else (r, t')))"

definition maintenance_enabled :: "settings \<Rightarrow> bool" where
  "maintenance_enabled s \<longleftrightarrow> memory_enabled s \<and> memory_write_enabled s \<and> auto_maintenance_enabled s"

text \<open>The whole of it returns the lock file it leaves behind.\<close>

definition run_startup_maintenance ::
  "network \<Rightarrow> settings \<Rightarrow> upkeep_env \<Rightarrow> nat option \<Rightarrow> exn option \<Rightarrow> nat \<Rightarrow> rat \<Rightarrow> lock_file option \<Rightarrow> lock_file option io" where
  "run_startup_maintenance net s e limit blocked me now file =
     (if \<not> maintenance_enabled s then io_return file
      else io_bind (io_lift (acquire_lock blocked me now file)) (\<lambda>(taken, file').
        if \<not> taken then io_return file'
        else io_bind (io_catch_all (wait_for limit (maintenance_pass net s e)) (\<lambda>_. io_return ()))
               (\<lambda>_. io_return (release_lock blocked file'))))"

section \<open>How many processes run the pass at once\<close>

lemma holders_update:
  assumes "i < length (ls_phases st)"
  shows "holders (st\<lparr>ls_phases := (ls_phases st)[i := p]\<rparr>) + (if ls_phases st ! i = Holding then 1 else 0)
     = holders st + (if p = Holding then 1 else 0)"
proof -
  have "length (filter Q (xs[j := p])) + (if Q (xs ! j) then 1 else 0) = length (filter Q xs) + (if Q p then 1 else 0)"
    if "j < length xs" for Q :: "lock_phase \<Rightarrow> bool" and xs j
    using that
  proof (induction xs arbitrary: j)
    case (Cons x xs)
    show ?case
    proof (cases j)
      case (Suc k)
      with Cons.prems Cons.IH [of k] show ?thesis by auto
    qed auto
  qed simp
  from this [OF assms, of "\<lambda>p. p = Holding"] show ?thesis by (simp add: holders_def)
qed

lemma holders_move:
  assumes "i < length (ls_phases st)"
  shows "holders (move i p file st) + (if ls_phases st ! i = Holding then 1 else 0)
     = holders st + (if p = Holding then 1 else 0)"
  using holders_update [OF assms, of p] by (simp add: move_def holders_def)

lemma lock_fields [simp]:
  "ls_file (move i p file st) = file" "ls_breaks (move i p file st) = ls_breaks st" "ls_now (move i p file st) = ls_now st"
  "ls_phases (move i p file st) = (ls_phases st)[i := p]"
  "ls_phases (count_break st) = ls_phases st" "ls_file (count_break st) = ls_file st"
  "holders (count_break st) = holders st" "holders (st\<lparr>ls_breaks := b\<rparr>) = holders st"
  by (simp_all add: move_def count_break_def holders_def)

definition lock_accounted :: "lock_state \<Rightarrow> bool" where
  "lock_accounted st \<longleftrightarrow> holders st \<le> ls_breaks st + (if ls_file st = None then 0 else 1)"

lemma try_create_cases [simp]:
  "try_create None me now file = Inr (True, file') \<longleftrightarrow> file = None \<and> file' = Some \<lparr>lf_owner = me, lf_mtime = now\<rparr>"
  "try_create None me now file = Inr (False, file') \<longleftrightarrow> file \<noteq> None \<and> file' = file"
  by (auto simp: try_create_def split: option.splits)

lemma lock_step_accounted:
  assumes "lock_step st ev st'" and "lock_accounted st"
  shows "lock_accounted st'"
  using assms(1)
proof cases
  case (tick d)
  then show ?thesis using assms(2) by (simp add: lock_accounted_def holders_def)
next
  case (remove_stale i)
  then show ?thesis using assms(2) holders_move [of i "count_break st" Retrying "release_lock None (ls_file st)"]
    by (auto simp: lock_accounted_def count_break_def release_lock_def split: if_splits)
next
  case (release i)
  then show ?thesis using assms(2) holders_move [of i st Finished "release_lock None (ls_file st)"]
    by (auto simp: lock_accounted_def release_lock_def split: if_splits)
next
  case (crash i p)
  then show ?thesis using assms(2) holders_move [of i st Crashed "ls_file st"]
    by (auto simp: lock_accounted_def split: if_splits)
next
  case (create i f)
  then show ?thesis using assms(2) holders_move [of i st Holding f]
    by (auto simp: lock_accounted_def split: if_splits)
next
  case (recreate i f)
  then show ?thesis using assms(2) holders_move [of i st Holding f]
    by (auto simp: lock_accounted_def split: if_splits)
next
  case (create_exists i f)
  then show ?thesis using assms(2) holders_move [of i st Checking f]
    by (auto simp: lock_accounted_def split: if_splits)
next
  case (recreate_exists i f)
  then show ?thesis using assms(2) holders_move [of i st Skipped f]
    by (auto simp: lock_accounted_def split: if_splits)
next
  case (found_stale i)
  then show ?thesis using assms(2) holders_move [of i st Breaking "ls_file st"]
    by (auto simp: lock_accounted_def split: if_splits)
next
  case (found_fresh i)
  then show ?thesis using assms(2) holders_move [of i st Skipped "ls_file st"]
    by (auto simp: lock_accounted_def split: if_splits)
qed

lemma lock_steps_accounted: "lock_steps st evs st' \<Longrightarrow> lock_accounted st \<Longrightarrow> lock_accounted st'"
  by (induction rule: lock_steps.induct) (auto intro: lock_step_accounted)

text \<open>
  C19. Single flight, up to broken locks: however the system calls of any number of processes,
  crashes and the passing of time interleave, and whatever lock file was there at the start, the
  number of processes inside the pass never exceeds one more than the number of lock files that
  were removed as stale. As long as none was removed, at most one process runs the pass.
\<close>

theorem single_flight_unless_broken:
  assumes "lock_steps (lock_start n now file) evs st"
  shows "holders st \<le> ls_breaks st + 1 \<and> (ls_file st = None \<longrightarrow> holders st \<le> ls_breaks st)"
proof -
  have "lock_accounted (lock_start n now file)"
    by (simp add: lock_accounted_def lock_start_def holders_def)
  from lock_steps_accounted [OF assms this] show ?thesis by (auto simp: lock_accounted_def split: if_splits)
qed

theorem single_flight_unless_broken_witness:
  "\<exists>st. lock_steps (lock_start 2 0 None) [Act 0, Act 1, Act 1] st \<and> holders st = 1 \<and> ls_breaks st = 0"
proof -
  have "case lock_run (lock_start 2 0 None) [Act 0, Act 1, Act 1] of
      None \<Rightarrow> False | Some st \<Rightarrow> 1 \<le> holders st \<and> ls_breaks st = 0"
    by code_simp
  then obtain st where run: "lock_steps (lock_start 2 0 None) [Act 0, Act 1, Act 1] st"
    and "1 \<le> holders st" "ls_breaks st = 0"
    by (auto simp: lock_steps_run split: option.splits)
  with single_flight_unless_broken [OF run] show ?thesis by auto
qed

text \<open>
  The lock can be broken under a running pass without any crash and without time passing: a
  process that finds the file gone takes it for stale, and removes the file that a third process
  created meanwhile; two processes are then inside the pass. A leaked lock gives the same to two
  processes that both found it stale.
\<close>

theorem lock_race:
  "(\<exists>st. lock_steps (lock_start 3 0 None) [Act 0, Act 1, Act 0, Act 1, Act 2, Act 1, Act 1] st
       \<and> ls_phases st = [Finished, Holding, Holding] \<and> ls_now st = 0)
   \<and> (\<exists>st. lock_steps (lock_start 2 1000 (Some \<lparr>lf_owner = 7, lf_mtime = 0\<rparr>))
              [Act 0, Act 1, Act 0, Act 1, Act 0, Act 0, Act 1, Act 1] st
       \<and> ls_phases st = [Holding, Holding] \<and> ls_now st = 1000)"
proof
  have "case lock_run (lock_start 3 0 None) [Act 0, Act 1, Act 0, Act 1, Act 2, Act 1, Act 1] of
      None \<Rightarrow> False | Some st \<Rightarrow> ls_phases st = [Finished, Holding, Holding] \<and> ls_now st = 0"
    by code_simp
  then show "\<exists>st. lock_steps (lock_start 3 0 None) [Act 0, Act 1, Act 0, Act 1, Act 2, Act 1, Act 1] st
       \<and> ls_phases st = [Finished, Holding, Holding] \<and> ls_now st = 0"
    by (auto simp: lock_steps_run split: option.splits)
  have "case lock_run (lock_start 2 1000 (Some \<lparr>lf_owner = 7, lf_mtime = 0\<rparr>))
              [Act 0, Act 1, Act 0, Act 1, Act 0, Act 0, Act 1, Act 1] of
      None \<Rightarrow> False | Some st \<Rightarrow> ls_phases st = [Holding, Holding] \<and> ls_now st = 1000"
    by code_simp
  then show "\<exists>st. lock_steps (lock_start 2 1000 (Some \<lparr>lf_owner = 7, lf_mtime = 0\<rparr>))
              [Act 0, Act 1, Act 0, Act 1, Act 0, Act 0, Act 1, Act 1] st
       \<and> ls_phases st = [Holding, Holding] \<and> ls_now st = 1000"
    by (auto simp: lock_steps_run split: option.splits)
qed

text \<open>Undisturbed, the system calls of one process do what \<^const>\<open>acquire_lock\<close> says.\<close>

lemma acquire_lock_refined:
  assumes "i < length (ls_phases st)" and "ls_phases st ! i = Starting"
    and "acquire_lock None i (ls_now st) (ls_file st) = Inr (taken, file)"
  shows "\<exists>k st'. lock_steps st (replicate k (Act i)) st' \<and> ls_file st' = file \<and> ls_now st' = ls_now st
           \<and> ls_phases st' = (ls_phases st)[i := if taken then Holding else Skipped]"
proof -
  have found: ?thesis if "lock_run st (replicate k (Act i)) = Some st'" "ls_file st' = file" "ls_now st' = ls_now st"
      "ls_phases st' = (ls_phases st)[i := if taken then Holding else Skipped]" for k st'
    using that unfolding lock_steps_run by blast
  show ?thesis
  proof (cases "ls_file st")
  case None
  with assms have run: "lock_run st (replicate 1 (Act i)) = Some (move i Holding file st)" and "taken"
    by (auto simp: lock_next_def acquire_lock_def try_create_def sum_bind_def)
  then show ?thesis by (intro found [OF run]) (auto simp: move_def count_break_def)
next
  case (Some f)
  show ?thesis
  proof (cases "lock_is_stale (ls_now st) (ls_file st)")
    case False
    then have res: "file = Some f" "\<not> taken"
      using assms(3) Some by (auto simp: acquire_lock_def try_create_def sum_bind_def)
    have run: "lock_run st (replicate 2 (Act i)) = Some (move i Skipped (Some f) (move i Checking (Some f) st))"
      using assms(1,2) Some False by (simp add: numeral_2_eq_2 lock_next_def try_create_def)
    show ?thesis using res by (intro found [OF run]) (auto simp: move_def)
  next
    case True
    then have res: "file = Some \<lparr>lf_owner = i, lf_mtime = ls_now st\<rparr>" "taken"
      using assms(3) Some by (auto simp: acquire_lock_def try_create_def release_lock_def sum_bind_def)
    let ?st = "move i Retrying None (count_break (move i Breaking (Some f) (move i Checking (Some f) st)))"
    have now: "ls_now (count_break x) = ls_now x" for x by (simp add: count_break_def)
    have run: "lock_run st (replicate 4 (Act i)) = Some (move i Holding file ?st)"
      using assms(1,2) Some True res
      by (simp add: numeral_eq_Suc lock_next_def try_create_def release_lock_def now)
    show ?thesis using res by (intro found [OF run]) (auto simp: now)
  qed
  qed
qed

section \<open>The pass is best effort\<close>

lemma traced_wait_for: "traced P m t \<Longrightarrow> traced P (wait_for limit m) t"
proof (cases "m t")
  case (Pair r u)
  assume "traced P m t"
  then obtain sent where sent: "u = t @ sent" "sent_ok P t sent" using Pair by (rule tracedE)
  then show ?thesis using Pair sent_ok_take [of P t sent]
    by (auto simp: traced_def wait_for_def split: option.split)
qed

lemma traced_ignore: "traced P m t \<Longrightarrow> traced P (io_ignore m) t"
  unfolding io_ignore_def by (rule traced_bind [OF _ traced_return])

lemma maintenance_run_traced:
  "(\<And>m u. m \<in> set ms \<Longrightarrow> prefix t u \<Longrightarrow> traced P m u) \<Longrightarrow> traced P (maintenance_run ms) t"
proof (induction ms arbitrary: t)
  case (Cons m ms)
  have "traced P (maintenance_run ms) u" if "prefix t u" for u
    using Cons.prems that by (intro Cons.IH) (auto intro: prefix_order.trans)
  then show ?case
    unfolding maintenance_run.simps maintenance_step_def using Cons.prems
    by (intro traced_bind traced_catch traced_return) simp_all
qed (simp only: maintenance_run.simps traced_return)

text \<open>
  The requests of a pass from the history t on, each with the history before it: one of the
  requests of housekeeping, or the replay of the source query of a note that this pass read.
\<close>

definition maintenance_request :: "cc_client \<Rightarrow> string \<Rightarrow> trace \<Rightarrow> trace \<Rightarrow> request \<Rightarrow> bool" where
  "maintenance_request c ccid t h r \<longleftrightarrow>
     upkeep_request c r \<or> (\<exists>row. read_in_pass c ccid t h row \<and> catalog_request c (proof_of row) r)"

definition revalidate_id :: "settings \<Rightarrow> upkeep_env \<Rightarrow> string" where
  "revalidate_id s e = make_client_context_id (agent_session_id s) (Some ''revalidate'') (ue_uuid e)"

lemma revalidation_maintains:
  assumes "prefix t u"
  shows "traced (maintenance_request c (revalidate_id s e) t) (run_revalidation c s (ue_uuid e) now) u"
proof (rule traced_mono [OF revalidation_traced])
  fix h q
  assume "memory_write_enabled s \<and>
    reval_request c (make_client_context_id (agent_session_id s) (Some ''revalidate'') (ue_uuid e)) now u h q"
  then have "own_read c grounded_query q \<or> (\<exists>row. read_in_pass c (revalidate_id s e) u h row
      \<and> (catalog_request c (proof_of row) q \<or> (\<exists>row'. own_write c upsert_row [(''row'', JDict row')] q)))"
    unfolding reval_request_def revalidate_id_def by blast
  moreover have "read_in_pass c (revalidate_id s e) t h row" if "read_in_pass c (revalidate_id s e) u h row" for row
    using that prefix_order.trans [OF assms] unfolding read_in_pass_def by blast
  ultimately show "maintenance_request c (revalidate_id s e) t h q"
    unfolding maintenance_request_def upkeep_request_def by blast
qed

lemma upkeep_maintains: "emits (upkeep_request c) m \<Longrightarrow> traced (maintenance_request c ccid t) m u"
  by (erule traced_emits) (simp add: maintenance_request_def)

lemma upkeep_step: "emits (upkeep_request c) m \<Longrightarrow> traced (maintenance_request c ccid t) (io_ignore m) u"
  by (rule traced_ignore [OF upkeep_maintains])

lemma maintenance_pass_traced:
  "traced (maintenance_request (maintenance_client net s) (revalidate_id s e) t) (maintenance_pass net s e) t"
  unfolding maintenance_pass_def
proof (rule maintenance_run_traced)
  fix m u
  assume "m \<in> set (maintenance_steps (maintenance_client net s) s e)" and u: "prefix t u"
  then show "traced (maintenance_request (maintenance_client net s) (revalidate_id s e) t) m u"
    unfolding maintenance_steps_def Let_def
    by (auto intro!: traced_ignore [OF revalidation_maintains] upkeep_maintains [OF bootstrap_emits]
        upkeep_step [OF backfill_emits] upkeep_step [OF flush_emits] upkeep_step [OF run_walk_emits]
        upkeep_step [OF decay_upkeep] upkeep_step [OF run_distill_emits])
qed

text \<open>Steps run in order, each whether or not the cluster failed an earlier one.\<close>

lemma maintenance_run_append:
  "maintenance_run (ms @ ms') = io_bind (maintenance_run ms) (\<lambda>_. maintenance_run ms')"
  by (induction ms) (simp_all only: append.simps maintenance_run.simps io_bind_assoc io_bind_simps)

lemma maintenance_run_goes_on:
  assumes "\<And>m t. m \<in> set ms \<Longrightarrow> (case fst (m t) of Inl (PyExc _) \<Rightarrow> False | _ \<Rightarrow> True)"
  shows "fst (maintenance_run ms t) = Inr ()"
  using assms
proof (induction ms arbitrary: t)
  case (Cons m ms)
  obtain r u where m: "m t = (r, u)" by (cases "m t")
  then have "fst (maintenance_step m t) = Inr ()"
    using Cons.prems [of m t] by (auto simp: maintenance_step_def io_catch_def split: sum.splits exn.splits)
  then obtain u' where "maintenance_step m t = (Inr (), u')" by (cases "maintenance_step m t") auto
  with Cons show ?case by (simp add: io_bind_Inr)
qed simp

text \<open>
  C40. Maintenance is gated, owned and best effort: whatever the cluster answers, wherever the time
  limit strikes and whatever a step raises, a start of the gateway goes on with the lock file
  removed if it was taken and untouched otherwise. Requests are sent only when the memory store,
  memory writes and maintenance are all enabled and the lock was taken, and each of them is a read
  of rows of the deployment's own tenant, one of four fixed statements that are read as they are
  (the inventory, the catalog walk and the two searches for rows without an owner), the read-only
  replay of the source query of a note that the pass read before, the bootstrap of the store, or
  the guarded write of one row, stamped as the deployment's own tenant's.
\<close>

theorem maintenance_best_effort:
  assumes "acquire_lock blocked me now file = Inr (taken, file')"
  shows "(let run = run_startup_maintenance net s e limit blocked me now file;
              works = maintenance_enabled s \<and> taken
          in fst (run t) = Inr (if works then release_lock blocked file' else if maintenance_enabled s then file' else file)
             \<and> traced (\<lambda>h r. works \<and> maintenance_request (maintenance_client net s) (revalidate_id s e) t h r) run t)"
proof -
  let ?ok = "maintenance_request (maintenance_client net s) (revalidate_id s e) t"
  have pass: "traced ?ok (io_catch_all (wait_for limit (maintenance_pass net s e)) (\<lambda>_. io_return ())) t"
    by (intro traced_catch_all traced_wait_for maintenance_pass_traced traced_return)
  have total: "\<exists>u. io_catch_all (wait_for limit (maintenance_pass net s e)) (\<lambda>_. io_return ()) t = (Inr (), u)"
    by (cases "wait_for limit (maintenance_pass net s e) t") (auto simp: io_catch_all_def split: sum.splits)
  show ?thesis
  proof (cases "maintenance_enabled s \<and> taken")
    case True
    then have run: "run_startup_maintenance net s e limit blocked me now file
        = io_bind (io_catch_all (wait_for limit (maintenance_pass net s e)) (\<lambda>_. io_return ()))
            (\<lambda>_. io_return (release_lock blocked file'))"
      using assms by (simp add: run_startup_maintenance_def del: io_run)
    have "traced ?ok (run_startup_maintenance net s e limit blocked me now file) t"
      unfolding run by (rule traced_bind [OF pass traced_return])
    with True total show ?thesis
      by (auto simp: Let_def run io_bind_Inr)
  next
    case False
    then show ?thesis
      using assms by (auto simp: Let_def run_startup_maintenance_def traced_def sent_ok_def)
  qed
qed

theorem maintenance_best_effort_witness:
  "fst (run_startup_maintenance (\<lambda>_. Timeout ''t'') (default_settings\<lparr>memory_write_enabled := True\<rparr>)
     \<lparr>ue_parse = (\<lambda>_. None), ue_uuid_of = id, ue_uuid = ''u'',
      ue_clock = \<lparr>ck_now = ''now'', ck_age = (\<lambda>_. None), ck_log1p = (\<lambda>x. x)\<rparr>, ue_now_s = 0,
      ue_buffer = \<lparr>eb_files = [], eb_reported = False\<rparr>\<rparr> (Some 2) None 1 0 None []) = Inr None"
proof -
  have "acquire_lock None 1 0 None = Inr (True, Some \<lparr>lf_owner = 1, lf_mtime = 0\<rparr>)" by code_simp
  from maintenance_best_effort [OF this] show ?thesis
    by (simp add: Let_def maintenance_enabled_def default_settings_def release_lock_def)
qed

text \<open>
  The lock itself is taken outside of the handlers: in a directory where no file can be created
  the exception leaves the function, and with it the start of the gateway.
\<close>

lemma blocked_directory_raises:
  assumes "maintenance_enabled s"
  shows "run_startup_maintenance net s e limit (Some err) me now None t = (Inl err, t)"
  using assms by (simp add: run_startup_maintenance_def acquire_lock_def try_create_def sum_bind_def)

end
