(* ===== verification/Http_Gate.thy ===== *)
theory Http_Gate
  imports Maintenance
begin

text \<open>
  The HTTP side: startup checks and the DNS-rebinding allowlist (\<open>http_security.py\<close>), token
  verification (\<open>auth.py\<close>), the bearer gate, the artifact download and the distillation loop
  (\<open>http_app.py\<close>). The ASGI framework, the validity of URLs and the decoding of signed tokens
  are arguments.
\<close>

section \<open>Startup checks (http\_security.py)\<close>

definition loopback_hosts :: "string list" where
  "loopback_hosts = [''127.0.0.1'', ''localhost'', ''::1'']"

definition is_loopback_host :: "string \<Rightarrow> bool" where
  "is_loopback_host host \<longleftrightarrow> host \<in> set loopback_hosts"

definition hostport :: "string \<Rightarrow> int \<Rightarrow> string" where
  "hostport host port =
     (if 2 \<le> length (filter (\<lambda>c. c = CHR '':'') host) \<and> \<not> starts_with host ''[''
      then ''['' @ host @ '']:'' @ show_int port else host @ '':'' @ show_int port)"

record transport_security =
  ts_protection :: bool
  ts_hosts :: "string list"
  ts_origins :: "string list"

definition base_hosts :: "settings \<Rightarrow> string list" where
  "base_hosts s = map (\<lambda>h. hostport h (http_port s)) (http_host s # loopback_hosts)"

definition build_transport_security :: "settings \<Rightarrow> transport_security" where
  "build_transport_security s =
     \<lparr>ts_protection = True,
      ts_hosts = sort (remdups (base_hosts s @ http_allowed_hosts s)),
      ts_origins = sort (remdups (concat (map (\<lambda>h. [''http://'' @ h, ''https://'' @ h]) (base_hosts s))
                       @ http_allowed_origins s))\<rparr>"

definition value_error :: exn where "value_error = PyExc ''ValueError''"

definition validate_bearer :: "settings \<Rightarrow> exn + unit" where
  "validate_bearer s =
     (case api_key s of
        None \<Rightarrow> Inl value_error
      | Some k \<Rightarrow> if k = [] \<or> length k < min_api_key_length then Inl value_error else Inr ())"

definition oauth_fields :: "settings \<Rightarrow> (string \<times> string) list" where
  "oauth_fields s =
     [(''ASTERIXDB_MCP_OAUTH_ISSUER'', oauth_issuer s), (''ASTERIXDB_MCP_OAUTH_AUDIENCE'', oauth_audience s),
      (''ASTERIXDB_MCP_OAUTH_JWKS_URI'', oauth_jwks_uri s)]"

definition require_http_url :: "(string \<Rightarrow> bool) \<Rightarrow> string \<Rightarrow> exn + unit" where
  "require_http_url valid_url url = (if valid_url url then Inr () else Inl value_error)"

definition validate_oauth :: "(string \<Rightarrow> bool) \<Rightarrow> settings \<Rightarrow> exn + unit" where
  "validate_oauth valid_url s =
     (if \<exists>p \<in> set (oauth_fields s). snd p = [] then Inl value_error
      else if oauth_algorithms s = [] then Inl value_error
      else if \<exists>a \<in> set (oauth_algorithms s). lower a = ''none'' then Inl value_error
      else foldr (\<lambda>p rest. sum_bind (require_http_url valid_url (snd p)) (\<lambda>_. rest)) (oauth_fields s) (Inr ()))"

definition validate_http_security :: "(string \<Rightarrow> bool) \<Rightarrow> settings \<Rightarrow> exn + unit" where
  "validate_http_security valid_url s =
     (case auth_mode_of s of
        Auth_None \<Rightarrow> if is_loopback_host (http_host s) then Inr () else Inl value_error
      | Auth_Bearer \<Rightarrow> validate_bearer s
      | Auth_OAuth \<Rightarrow> validate_oauth valid_url s)"

section \<open>Access tokens (auth.py)\<close>

text \<open>What \<open>jwt.decode\<close> is given besides the token and the key, and what becomes of the claims.\<close>

record token_verifier =
  tv_issuer :: string
  tv_audience :: string
  tv_required_scopes :: "string list"
  tv_algorithms :: "string list"

record access_token =
  at_token :: string
  at_client_id :: string
  at_scopes :: "string list"
  at_expires_at :: "int option"
  at_resource :: string

definition required_claims :: "string list" where
  "required_claims = [''exp'', ''iss'', ''aud'']"

definition extract_scopes :: "dict \<Rightarrow> string list" where
  "extract_scopes claims =
     (case dget ''scope'' claims of
        JStr raw \<Rightarrow> remdups (words raw)
      | _ \<Rightarrow> (case dget ''scp'' claims of JList items \<Rightarrow> remdups (map py_str items) | _ \<Rightarrow> []))"

definition token_client_id :: "dict \<Rightarrow> string" where
  "token_client_id claims =
     py_str (py_or (py_or (py_or (dget ''client_id'' claims) (dget ''azp'' claims)) (dget ''sub'' claims)) (JStr []))"

definition token_expiry :: "json \<Rightarrow> int option" where
  "token_expiry v =
     (case v of JInt n \<Rightarrow> Some n
      | JReal r \<Rightarrow> Some (if 0 \<le> r then \<lfloor>r\<rfloor> else \<lceil>r\<rceil>)
      | _ \<Rightarrow> None)"

text \<open>
  The first argument resolves the signing key and decodes: issuer, audience, algorithms, the
  claims that must be present, the token; \<open>None\<close> is any exception.
\<close>

type_synonym jwt_decode = "string \<Rightarrow> string \<Rightarrow> string list \<Rightarrow> string list \<Rightarrow> string \<Rightarrow> dict option"

definition verify_token :: "jwt_decode \<Rightarrow> token_verifier \<Rightarrow> string \<Rightarrow> access_token option" where
  "verify_token decode v token =
     (case decode (tv_issuer v) (tv_audience v) (tv_algorithms v) required_claims token of
        None \<Rightarrow> None
      | Some claims \<Rightarrow>
          let scopes = extract_scopes claims
          in if \<not> set (tv_required_scopes v) \<subseteq> set scopes then None
             else Some \<lparr>at_token = token, at_client_id = token_client_id claims, at_scopes = sort scopes,
                        at_expires_at = token_expiry (dget ''exp'' claims), at_resource = tv_audience v\<rparr>)"

definition build_token_verifier :: "settings \<Rightarrow> token_verifier" where
  "build_token_verifier s =
     \<lparr>tv_issuer = oauth_issuer s, tv_audience = oauth_audience s,
      tv_required_scopes = oauth_required_scopes s, tv_algorithms = oauth_algorithms s\<rparr>"

definition build_auth :: "(string \<Rightarrow> bool) \<Rightarrow> settings \<Rightarrow> exn + token_verifier option" where
  "build_auth valid_url s =
     (if auth_mode_of s \<noteq> Auth_OAuth then Inr None
      else sum_bind (require_http_url valid_url (oauth_issuer s)) (\<lambda>_.
           sum_bind (require_http_url valid_url (oauth_audience s)) (\<lambda>_.
             Inr (Some (build_token_verifier s)))))"

section \<open>The bearer gate (http\_app.py)\<close>

definition bearer_scheme :: string where "bearer_scheme = ''bearer''"

definition is_ascii :: "string \<Rightarrow> bool" where
  "is_ascii t = list_all (\<lambda>c. code c < 128) t"

text \<open>\<open>hmac.compare_digest\<close> of two texts, which must be ASCII.\<close>

definition compare_digest :: "string \<Rightarrow> string \<Rightarrow> exn + bool" where
  "compare_digest a b = (if is_ascii a \<and> is_ascii b then Inr (a = b) else Inl (PyExc ''TypeError''))"

definition is_authorized :: "string option \<Rightarrow> string \<Rightarrow> exn + bool" where
  "is_authorized header key =
     (case header of
        None \<Rightarrow> Inr False
      | Some h \<Rightarrow> if h = [] then Inr False
          else (case partition_on '' '' h of (scheme, _, token) \<Rightarrow>
            if lower scheme \<noteq> bearer_scheme \<or> token = [] then Inr False else compare_digest token key))"

record asgi_scope =
  sc_type :: string
  sc_path :: string
  sc_headers :: "(string \<times> string) list"

definition authorization_header :: "asgi_scope \<Rightarrow> string option" where
  "authorization_header sc = map_of (sc_headers sc) ''authorization''"

text \<open>What the gate makes of a request: it reaches the application, gets a 401, or an exception.\<close>

datatype 'r gated = Passed 'r | Unauthorized | Broken exn

definition bearer_gate :: "(asgi_scope \<Rightarrow> 'r) \<Rightarrow> string \<Rightarrow> string list \<Rightarrow> asgi_scope \<Rightarrow> 'r gated" where
  "bearer_gate app key exempt_paths sc =
     (if sc_type sc \<noteq> ''http'' \<or> sc_path sc \<in> set exempt_paths then Passed (app sc)
      else case is_authorized (authorization_header sc) key of
             Inl e \<Rightarrow> Broken e
           | Inr ok \<Rightarrow> if ok then Passed (app sc) else Unauthorized)"

section \<open>Downloads\<close>

text \<open>A saved artifact as its name, its media type and its text, or a 404.\<close>

datatype download = Not_Found | File_Response string string string

definition artifact_media_type :: "string \<Rightarrow> string" where
  "artifact_media_type name =
     (if ends_with name ''.json'' then ''application/json''
      else if ends_with name ''.txt'' then ''text/plain; charset=utf-8''
      else ''application/octet-stream'')"

definition serve_artifact :: "settings \<Rightarrow> rat \<Rightarrow> artifact_dir \<Rightarrow> string \<Rightarrow> download" where
  "serve_artifact s now dir artifact_id =
     (case resolve_artifact_file s now dir artifact_id of
        None \<Rightarrow> Not_Found
      | Some f \<Rightarrow> File_Response (sf_name f) (artifact_media_type (sf_name f)) (sf_body f))"

section \<open>Assembling the application\<close>

definition exempt_paths :: "string list" where "exempt_paths = [health_path]"

record http_app_config =
  ha_security :: transport_security
  ha_idle_timeout :: "rat option"
  ha_distill :: bool
  ha_api_key :: "string option"

definition build_http_app :: "settings \<Rightarrow> http_app_config" where
  "build_http_app s =
     \<lparr>ha_security = build_transport_security s,
      ha_idle_timeout = (if session_idle_timeout_s s = 0 then None else Some (session_idle_timeout_s s)),
      ha_distill = (0 < distill_interval_s s \<and> memory_enabled s \<and> memory_write_enabled s),
      ha_api_key = (if auth_mode_of s = Auth_Bearer then api_key s else None)\<rparr>"

text \<open>The application as a request meets it: behind the bearer gate if there is one.\<close>

definition http_front :: "http_app_config \<Rightarrow> (asgi_scope \<Rightarrow> 'r) \<Rightarrow> asgi_scope \<Rightarrow> 'r gated" where
  "http_front cfg app sc =
     (case ha_api_key cfg of
        None \<Rightarrow> Passed (app sc)
      | Some key \<Rightarrow> bearer_gate app key exempt_paths sc)"

text \<open>
  The loop that distils: a failed pass is logged and survived. The client is the one the lifespan
  makes; each pass has its own clock readings and identifiers.
\<close>

definition distill_client :: "network \<Rightarrow> settings \<Rightarrow> cc_client" where
  "distill_client net s = \<lparr>cc_settings = s, cc_http = net, cc_principal = None\<rparr>"

definition distill_pass :: "network \<Rightarrow> settings \<Rightarrow> upkeep_env \<Rightarrow> (string \<times> nat) list option io" where
  "distill_pass net s e =
     io_catch_all
       (io_bind (run_distill (ue_clock e) (ue_now_s e) (distill_client net s) s (ue_uuid e) min_sessions_default
                   min_failures_default min_slow_occurrences_default slow_ms_default)
          (\<lambda>summary. io_return (Some summary)))
       (\<lambda>_. io_return None)"

definition distill_loop :: "network \<Rightarrow> settings \<Rightarrow> upkeep_env list \<Rightarrow> (string \<times> nat) list option list io" where
  "distill_loop net s passes = io_map_list (distill_pass net s) passes"

section \<open>Who gets past the gate\<close>

lemma partition_go_char:
  "partition_go [d] acc s =
     (rev acc @ takeWhile (\<lambda>c. c \<noteq> d) s, if d \<in> set s then [d] else [], tl (dropWhile (\<lambda>c. c \<noteq> d) s))"
  by (induction s arbitrary: acc) auto

lemma partition_char:
  "partition_on [d] s = (takeWhile (\<lambda>c. c \<noteq> d) s, if d \<in> set s then [d] else [], tl (dropWhile (\<lambda>c. c \<noteq> d) s))"
  by (simp add: partition_on_def partition_go_char)

lemma lower_no_space: "lower scheme = bearer_scheme \<Longrightarrow> CHR '' '' \<notin> set scheme"
proof
  assume l: "lower scheme = bearer_scheme" and "CHR '' '' \<in> set scheme"
  then have "lower_char (CHR '' '') \<in> set (lower scheme)" by (metis imageI list.set_map lower_def)
  moreover have "lower_char (CHR '' '') = CHR '' ''" by code_simp
  ultimately show False using l by (simp add: bearer_scheme_def)
qed

lemma is_authorized_iff:
  assumes "key \<noteq> []"
  shows "is_authorized header key = Inr True \<longleftrightarrow>
    is_ascii key \<and> (\<exists>scheme. header = Some (scheme @ '' '' @ key) \<and> lower scheme = bearer_scheme)"
proof
  assume auth: "is_authorized header key = Inr True"
  then obtain h where h: "header = Some h" "h \<noteq> []" by (auto simp: is_authorized_def split: option.splits if_splits)
  let ?scheme = "takeWhile (\<lambda>c. c \<noteq> CHR '' '') h" and ?rest = "dropWhile (\<lambda>c. c \<noteq> CHR '' '') h"
  have ok: "lower ?scheme = bearer_scheme" "tl ?rest = key" "is_ascii key"
    using auth h by (auto simp: is_authorized_def partition_char compare_digest_def split: if_splits)
  have rest: "?rest \<noteq> []" using ok(2) assms by (metis list.sel(2))
  have blank: "hd ?rest = CHR '' ''" using hd_dropWhile [OF rest] by simp
  have "?rest = hd ?rest # tl ?rest" using rest by simp
  then have "?rest = '' '' @ key" unfolding blank ok(2) by simp
  then have "h = ?scheme @ '' '' @ key" using takeWhile_dropWhile_id [of "\<lambda>c. c \<noteq> CHR '' ''" h] by simp
  then show "is_ascii key \<and> (\<exists>scheme. header = Some (scheme @ '' '' @ key) \<and> lower scheme = bearer_scheme)"
    using h ok by metis
next
  assume "is_ascii key \<and> (\<exists>scheme. header = Some (scheme @ '' '' @ key) \<and> lower scheme = bearer_scheme)"
  then obtain scheme where s: "header = Some (scheme @ '' '' @ key)" "lower scheme = bearer_scheme" "is_ascii key" by blast
  have "\<forall>c \<in> set scheme. c \<noteq> CHR '' ''" using lower_no_space [OF s(2)] by auto
  then have "partition_on '' '' (scheme @ '' '' @ key) = (scheme, '' '', key)"
    by (simp add: partition_char takeWhile_append dropWhile_append)
  then show "is_authorized header key = Inr True"
    using s assms by (simp add: is_authorized_def compare_digest_def)
qed

lemma validated_bearer:
  assumes "validate_http_security valid_url s = Inr ()" and "auth_mode_of s = Auth_Bearer"
  obtains key where "api_key s = Some key" and "min_api_key_length \<le> length key"
  using assms by (auto simp: validate_http_security_def validate_bearer_def split: option.splits if_splits)

text \<open>
  C17. Nobody passes the bearer gate without the key: with a configuration that passed the startup
  checks, an HTTP request for anything but the health probe reaches the application exactly when
  the key, which has at least 16 characters, is all ASCII and the Authorization header is the
  scheme, one blank and that key; a request that is not let through never runs the application.
\<close>

theorem bearer_gate_closed:
  assumes "validate_http_security valid_url s = Inr ()" and "auth_mode_of s = Auth_Bearer"
    and "sc_type sc = ''http''" and "sc_path sc \<noteq> health_path"
  shows "\<exists>key. api_key s = Some key \<and> 16 \<le> length key
    \<and> (http_front (build_http_app s) app sc = Passed (app sc) \<longleftrightarrow>
         is_ascii key \<and> (\<exists>scheme. authorization_header sc = Some (scheme @ '' '' @ key) \<and> lower scheme = ''bearer''))
    \<and> (http_front (build_http_app s) app sc \<noteq> Passed (app sc) \<longrightarrow>
         http_front (build_http_app s) app sc \<in> {Unauthorized, Broken (PyExc ''TypeError'')})"
proof -
  obtain key where key: "api_key s = Some key" "min_api_key_length \<le> length key"
    using validated_bearer [OF assms(1,2)] .
  then have len: "16 \<le> length key" "key \<noteq> []" by (auto simp: min_api_key_length_def)
  have front: "http_front (build_http_app s) app sc =
      (case is_authorized (authorization_header sc) key of
         Inl e \<Rightarrow> Broken e | Inr ok \<Rightarrow> if ok then Passed (app sc) else Unauthorized)"
    using assms key by (simp add: http_front_def build_http_app_def bearer_gate_def exempt_paths_def)
  have err: "is_authorized h key = Inl e \<Longrightarrow> e = PyExc ''TypeError''" for h e
    by (auto simp: is_authorized_def compare_digest_def split: option.splits prod.splits if_splits)
  have "http_front (build_http_app s) app sc = Passed (app sc) \<longleftrightarrow> is_authorized (authorization_header sc) key = Inr True"
    unfolding front by (auto split: sum.splits)
  then show ?thesis
    using key(1) len front err is_authorized_iff [OF len(2), of "authorization_header sc"]
    by (auto simp: bearer_scheme_def split: sum.splits)
qed

theorem bearer_gate_closed_witness:
  "let s = default_settings\<lparr>auth_mode_of := Auth_Bearer, api_key := Some ''0123456789abcdef''\<rparr>;
       sc = \<lparr>sc_type = ''http'', sc_path = ''/mcp'', sc_headers = [(''authorization'', ''Bearer 0123456789abcdef'')]\<rparr>
   in http_front (build_http_app s) sc_path sc = Passed ''/mcp''"
proof -
  let ?s = "default_settings\<lparr>auth_mode_of := Auth_Bearer, api_key := Some ''0123456789abcdef''\<rparr>"
  let ?sc = "\<lparr>sc_type = ''http'', sc_path = ''/mcp'', sc_headers = [(''authorization'', ''Bearer 0123456789abcdef'')]\<rparr>"
  have valid: "validate_http_security (\<lambda>_. True) ?s = Inr ()" by code_simp
  have ascii: "is_ascii ''0123456789abcdef''" and "lower ''Bearer'' = ''bearer''" by code_simp+
  then have "\<exists>scheme. authorization_header ?sc = Some (scheme @ '' '' @ ''0123456789abcdef'') \<and> lower scheme = ''bearer''"
    by (intro exI [of _ "''Bearer''"]) (simp add: authorization_header_def)
  with bearer_gate_closed [OF valid, of ?sc sc_path] ascii show ?thesis
    by (auto simp: Let_def health_path_def default_settings_def)
qed

text \<open>
  A token outside of ASCII is not refused: the comparison raises, and the request ends as a server
  error instead of a 401.
\<close>

lemma non_ascii_token_breaks:
  "bearer_gate app ''0123456789abcdef'' exempt_paths
     \<lparr>sc_type = ''http'', sc_path = ''/mcp'', sc_headers = [(''authorization'', ''Bearer '' @ [CHR 0xE9])]\<rparr>
   = Broken (PyExc ''TypeError'')"
proof -
  have "is_authorized (Some (''Bearer '' @ [CHR 0xE9])) ''0123456789abcdef'' = Inl (PyExc ''TypeError'')"
    by code_simp
  then show ?thesis by (simp add: bearer_gate_def exempt_paths_def health_path_def authorization_header_def)
qed

section \<open>Startup checks\<close>

lemma oauth_urls_checked:
  "foldr (\<lambda>p rest. sum_bind (require_http_url valid_url (snd p)) (\<lambda>_. rest)) fs (Inr ()) = Inr ()
     \<longleftrightarrow> (\<forall>p \<in> set fs. valid_url (snd p))"
  by (induction fs) (auto simp: require_http_url_def sum_bind_def)

text \<open>
  The startup checks refuse every unsafe configuration and no other: HTTP without
  authentication is served on loopback only; bearer mode needs a key of at least 16 characters;
  OAuth mode needs issuer, audience and key set as valid URLs and at least one algorithm, none of
  them \<open>none\<close> in any case. The only error is a \<open>ValueError\<close>.
\<close>

theorem startup_checks_exact:
  "(validate_http_security valid_url s = Inr () \<longleftrightarrow>
     (case auth_mode_of s of
        Auth_None \<Rightarrow> http_host s \<in> {''127.0.0.1'', ''localhost'', ''::1''}
      | Auth_Bearer \<Rightarrow> (\<exists>key. api_key s = Some key \<and> 16 \<le> length key)
      | Auth_OAuth \<Rightarrow> (\<forall>url \<in> {oauth_issuer s, oauth_audience s, oauth_jwks_uri s}. url \<noteq> [] \<and> valid_url url)
          \<and> oauth_algorithms s \<noteq> [] \<and> (\<forall>a \<in> set (oauth_algorithms s). lower a \<noteq> ''none'')))
   \<and> validate_http_security valid_url s \<in> {Inr (), Inl (PyExc ''ValueError'')}"
proof -
  have err: "foldr (\<lambda>p rest. sum_bind (require_http_url valid_url (snd p)) (\<lambda>_. rest)) fs (Inr ())
      \<in> {Inr (), Inl (PyExc ''ValueError'')}" for fs :: "(string \<times> string) list"
    by (induction fs) (auto simp: require_http_url_def sum_bind_def value_error_def)
  have oauth: "validate_oauth valid_url s = Inr () \<longleftrightarrow>
      (\<forall>url \<in> {oauth_issuer s, oauth_audience s, oauth_jwks_uri s}. url \<noteq> [] \<and> valid_url url)
      \<and> oauth_algorithms s \<noteq> [] \<and> (\<forall>a \<in> set (oauth_algorithms s). lower a \<noteq> ''none'')"
    unfolding validate_oauth_def using oauth_urls_checked [of valid_url "oauth_fields s"]
    by (auto simp: oauth_fields_def value_error_def)
  have "validate_oauth valid_url s \<in> {Inr (), Inl (PyExc ''ValueError'')}"
    unfolding validate_oauth_def using err [of "oauth_fields s"] by (simp add: value_error_def)
  then show ?thesis
    unfolding validate_http_security_def using oauth
    by (cases "auth_mode_of s")
      (auto simp: is_loopback_host_def loopback_hosts_def validate_bearer_def value_error_def min_api_key_length_def
        split: option.splits)
qed

theorem startup_checks_exact_witness:
  "validate_http_security (\<lambda>_. True) (default_settings\<lparr>http_host := ''0.0.0.0''\<rparr>) = Inl (PyExc ''ValueError'')"
proof -
  have "auth_mode_of (default_settings\<lparr>http_host := ''0.0.0.0''\<rparr>) = Auth_None" by (simp add: default_settings_def)
  with startup_checks_exact [of "\<lambda>_. True" "default_settings\<lparr>http_host := ''0.0.0.0''\<rparr>"]
  show ?thesis by auto
qed

text \<open>An extra allowed host never becomes an allowed origin, and protection is always on.\<close>

lemma origins_not_widened:
  "ts_protection (build_transport_security s)
   \<and> (origin \<in> set (ts_origins (build_transport_security s)) \<longleftrightarrow>
       origin \<in> set (http_allowed_origins s)
       \<or> (\<exists>h \<in> set (http_host s # loopback_hosts). \<exists>scheme \<in> {''http://'', ''https://''}.
            origin = scheme @ hostport h (http_port s)))"
proof -
  have "set (ts_origins (build_transport_security s)) =
      (\<Union>h \<in> set (http_host s # loopback_hosts). {''http://'' @ hostport h (http_port s), ''https://'' @ hostport h (http_port s)})
      \<union> set (http_allowed_origins s)"
    by (simp only: build_transport_security_def base_hosts_def transport_security.simps set_sort set_remdups set_append
        set_concat set_map image_image list.set Un_insert_right)
  then show ?thesis by (simp only: build_transport_security_def transport_security.simps) blast
qed

text \<open>The host allowlist names loopback IPv6 in brackets.\<close>

lemma hostport_ipv6: "hostport ''::1'' 19200 = ''[::1]:19200''"
  by code_simp

section \<open>Access tokens\<close>

text \<open>
  A token is accepted only as verified: the verifier answers with an access token exactly when
  decoding under the configured issuer, audience, algorithms and required claims succeeded and
  every required scope was granted; it carries the presented token and the granted scopes, each
  once and in order, and its tenant comes from the verified claims alone, never empty and never
  longer than 80 characters.
\<close>

theorem token_verified:
  "(verify_token decode (build_token_verifier s) token = Some a \<longleftrightarrow>
      (\<exists>claims. decode (oauth_issuer s) (oauth_audience s) (oauth_algorithms s) [''exp'', ''iss'', ''aud''] token = Some claims
        \<and> set (oauth_required_scopes s) \<subseteq> set (extract_scopes claims)
        \<and> a = \<lparr>at_token = token, at_client_id = token_client_id claims, at_scopes = sort (extract_scopes claims),
               at_expires_at = token_expiry (dget ''exp'' claims), at_resource = oauth_audience s\<rparr>))
   \<and> distinct (extract_scopes d)
   \<and> resolve_principal (Some (at_client_id a)) s \<noteq> []
   \<and> length (resolve_principal (Some (at_client_id a)) s) \<le> 80"
proof (intro conjI)
  show "verify_token decode (build_token_verifier s) token = Some a \<longleftrightarrow>
      (\<exists>claims. decode (oauth_issuer s) (oauth_audience s) (oauth_algorithms s) [''exp'', ''iss'', ''aud''] token = Some claims
        \<and> set (oauth_required_scopes s) \<subseteq> set (extract_scopes claims)
        \<and> a = \<lparr>at_token = token, at_client_id = token_client_id claims, at_scopes = sort (extract_scopes claims),
               at_expires_at = token_expiry (dget ''exp'' claims), at_resource = oauth_audience s\<rparr>)"
    unfolding verify_token_def build_token_verifier_def required_claims_def token_verifier.simps Let_def
    by (cases "decode (oauth_issuer s) (oauth_audience s) (oauth_algorithms s) [''exp'', ''iss'', ''aud''] token") auto
  show "distinct (extract_scopes d)"
    unfolding extract_scopes_def by (simp split: json.split)
qed (use resolve_principal_bounds [of "Some (at_client_id a)" s] in \<open>simp_all add: max_principal_len_def\<close>)

section \<open>The distillation loop learns nothing\<close>

lemma unbound_memory_rows:
  assumes "cc_principal c = None"
  shows "memory_rows c ccid statement params = io_return []"
  unfolding memory_rows_def execute_memory_read_def assms
  by (simp only: option.case io_catch_simps io_bind_simps)

text \<open>
  The loop of the HTTP gateway is idle: it distils with a client that belongs to no tenant, and
  the store's reads refuse such a client, so whatever the cluster holds, every pass reports zero
  events, sends no request and writes no note.
\<close>

theorem auto_distill_idle:
  "distill_loop net s passes t = (Inr (map (\<lambda>_. Some [(''events'', 0)]) passes), t)"
proof -
  have none: "lessons [] a b c d = []" for a b c d
    by (simp add: lessons_def proven_queries_def success_pairs_def grouped_def recurring_failures_def
        failure_pairs_def slow_patterns_def timing_pairs_def)
  have pass: "distill_pass net s e t = (Inr (Some [(''events'', 0)]), t)" for e
  proof -
    have "run_distill ck now (distill_client net s) s u a b d f = io_return [(''events'', 0)]" for ck now u a b d f
      unfolding run_distill_def fetch_cluster_events_def Let_def
      by (simp only: unbound_memory_rows distill_client_def cc_client.simps io_bind_simps dedupe_events_def
          dedupe_go.simps list.size none io_fold.simps)
    then show ?thesis by (simp add: distill_pass_def io_catch_all_def)
  qed
  show ?thesis unfolding distill_loop_def
    by (induction passes) (simp_all add: io_bind_Inr pass)
qed

end
