(* ===== verification/Schema_Tools.thy ===== *)
theory Schema_Tools
  imports Execute_Query Introspect
begin

text \<open>
  The schema tools: \<open>tools/get_schema.py\<close>, \<open>tools/list_dataverses.py\<close>,
  \<open>tools/list_datasets.py\<close>, \<open>tools/describe_dataverse.py\<close> and \<open>tools/sample_dataset.py\<close>. Each reads
  the metadata catalog through the client and shapes what it found; the clock of the notes, the
  artifact environment and the fresh identifiers are arguments.
\<close>

definition newline_text :: string where "newline_text = [CHR 0x0A]"

text \<open>A tool whose requests are made inside one \<open>try ... except GatewayError\<close>.\<close>

definition tool_try :: "'a io \<Rightarrow> ('a \<Rightarrow> tool_result io) \<Rightarrow> tool_result io" where
  "tool_try m k =
     io_bind (io_catch (io_bind m (\<lambda>x. io_return (Inr x))) (\<lambda>e. io_return (Inl e)))
       (\<lambda>r. case r of Inl e \<Rightarrow> io_return (tool_error e) | Inr x \<Rightarrow> k x)"

lemma tool_try_emits [emits_intro]: "emits P m \<Longrightarrow> (\<And>x. emits P (k x)) \<Longrightarrow> emits P (tool_try m k)"
  unfolding tool_try_def by (intro emits_bind emits_catch emits_return emits_sum)

lemma tool_try_InrE:
  assumes "tool_try m k t = (Inr r, t')" and "\<not> tr_is_error r"
  obtains x u where "m t = (Inr x, u)" and "k x u = (Inr r, t')"
proof (cases "m t")
  case (Pair out u)
  show thesis
  proof (cases out)
    case (Inl e)
    then show ?thesis
      using assms Pair by (cases e) (auto simp: tool_try_def io_bind_def io_catch_def tool_error_def)
  next
    case (Inr x)
    then show ?thesis using assms(1) Pair that by (simp add: tool_try_def io_bind_def io_catch_def)
  qed
qed

lemma tool_try_yields [yields_intro]:
  "(\<And>e. Q (tool_error e)) \<Longrightarrow> (\<And>x. yields Q (k x)) \<Longrightarrow> yields Q (tool_try m k)"
  unfolding tool_try_def by (intro yields_bind_any) (simp add: yields_return split: sum.split)

lemma tool_try_Inr: "m t = (Inr x, t') \<Longrightarrow> tool_try m k t = k x t'"
  by (simp add: tool_try_def io_bind_def io_catch_def)

lemma tool_try_Gateway: "m t = (Inl (GatewayExc e), t') \<Longrightarrow> tool_try m k t = (Inr (tool_error e), t')"
  by (simp add: tool_try_def io_bind_def io_catch_def)

section \<open>get\_schema\<close>

definition have_notes_hint :: string where
  "have_notes_hint =
     ''If you discover a durable finding the notes above do not cover, persist it with memory_write and include the proving query as source_query.''"

definition no_notes_hint :: "string \<Rightarrow> string" where
  "no_notes_hint subject =
     ''No learned notes exist for '' @ subject @ '' yet '' @ em_dash
     @ '' persist durable findings (field formats, gotchas, proven query patterns) with memory_write.''"

definition about_notes :: "dict list \<Rightarrow> string list \<Rightarrow> string" where
  "about_notes notes contradictions =
     newline_text @ newline_text @ ''Learned notes from memory about this dataset:'' @ newline_text
     @ render_notes notes @ render_warning contradictions @ newline_text @ newline_text @ have_notes_hint"

definition schema_document :: "string \<Rightarrow> json \<Rightarrow> dict \<Rightarrow> dict \<Rightarrow> dict list \<Rightarrow> dict" where
  "schema_document dataverse dataset record datatype indexes =
     [(''status'', JStr ''success''), (''dataverse'', JStr dataverse), (''dataset'', dataset),
      (''datatypeName'', dget ''DatatypeName'' record),
      (''primaryKey'', JList (map JStr (extract_primary_key record))),
      (''fields'', JList (map JDict (extract_record_fields datatype))),
      (''secondaryIndexes'', JList (map JDict (summarize_secondary_indexes indexes))),
      (''datasetFormatInfo'', JDict (extract_dataset_format_info record))]"

definition schema_summary :: "string \<Rightarrow> string \<Rightarrow> dict \<Rightarrow> string" where
  "schema_summary dataverse dataset d =
     ''Schema for '' @ dataverse @ ''.'' @ dataset @ '': ''
     @ show_nat (length (list_or_empty (dget ''fields'' d))) @ '' declared field(s), ''
     @ show_nat (length (list_or_empty (dget ''secondaryIndexes'' d))) @ '' secondary index(es), storage format ''
     @ py_str (jget ''format'' (dget ''datasetFormatInfo'' d)) @ ''.''"

definition schema_reads :: "cc_client \<Rightarrow> string \<Rightarrow> string \<Rightarrow> string \<Rightarrow> (dict \<times> dict \<times> dict list) io" where
  "schema_reads c ccid dataverse dataset =
     (let wanted = [(''dataverse'', JStr dataverse), (''dataset'', JStr dataset)]
      in io_bind (fetch_one c ccid dataset_query wanted) (\<lambda>found.
         case found of
           None \<Rightarrow> io_bind (not_found_hint c ccid dataverse dataset) (\<lambda>h.
             io_fail NOT_FOUND (''Dataset '' @ dataverse @ ''.'' @ dataset @ '' was not found in Metadata.'' @ h))
         | Some record \<Rightarrow>
             io_bind (fetch_one c ccid datatype_query
                [(''dataverse'', dget_or ''DatatypeDataverseName'' (JStr dataverse) record),
                 (''datatype'', dget_or ''DatatypeName'' (JStr []) record)]) (\<lambda>datatype.
             io_bind (fetch_rows c ccid index_query wanted) (\<lambda>indexes.
             io_return (record, (case datatype of None \<Rightarrow> [] | Some d \<Rightarrow> d), indexes)))))"

definition run_get_schema :: "clock \<Rightarrow> cc_client \<Rightarrow> settings \<Rightarrow> string \<Rightarrow> string \<Rightarrow> string \<Rightarrow> tool_result io" where
  "run_get_schema ck c s new_uuid dataverse dataset =
     (let ccid = make_client_context_id (agent_session_id s) (Some ''get_schema'') new_uuid
      in tool_try (schema_reads c ccid dataverse dataset) (\<lambda>(record, datatype, indexes).
           let d = schema_document dataverse (JStr dataset) record datatype indexes;
               text = schema_summary dataverse dataset d;
               subject = dataverse @ ''.'' @ dataset
           in if \<not> memory_enabled s then io_return (tool_ok text d)
              else io_bind (fetch_memory_notes ck c ccid [subject, dataverse]) (\<lambda>notes. io_return (
                if notes = [] then tool_ok (text @ newline_text @ newline_text @ no_notes_hint subject) d
                else tool_ok (text @ about_notes notes []) (dict_set ''learnedNotes'' (JList (map JDict notes)) d)))))"

section \<open>list\_dataverses\<close>

definition dataverses_query :: string where
  "dataverses_query = ''SELECT VALUE dv FROM Metadata.`Dataverse` dv ORDER BY dv.DataverseName;''"

definition run_list_dataverses :: "cc_client \<Rightarrow> settings \<Rightarrow> string \<Rightarrow> tool_result io" where
  "run_list_dataverses c s new_uuid =
     (let ccid = make_client_context_id (agent_session_id s) (Some ''list_dataverses'') new_uuid
      in tool_try (execute c dataverses_query (query_defaults ccid)) (\<lambda>envelope.
         io_bind (io_lift (result_rows envelope)) (\<lambda>rows.
           let names = map (\<lambda>r. py_str (dget ''DataverseName'' r)) rows;
               listed = join '', '' names
           in io_return (tool_ok
                (show_nat (length rows) @ '' dataverse(s): '' @ (if listed = [] then ''none'' else listed) @ ''.'')
                [(''status'', JStr ''success''), (''count'', JInt (int (length rows))),
                 (''dataverses'', JList (map (\<lambda>r. JDict [(''dataverse'', dget ''DataverseName'' r),
                                                           (''dataFormat'', dget ''DataFormat'' r)]) rows))]))))"

section \<open>list\_datasets\<close>

definition max_list_limit :: int where "max_list_limit = 500"
definition max_empty_probes :: nat where "max_empty_probes = 20"
definition max_names_in_text :: nat where "max_names_in_text = 30"

definition list_query :: "string option \<Rightarrow> string \<times> dict" where
  "list_query dataverse =
     (let base = ''SELECT VALUE d FROM Metadata.`Dataset` d'';
          order = '' ORDER BY d.DataverseName, d.DatasetName;''
      in case dataverse of
           Some dv \<Rightarrow> if dv = [] then (base @ order, [])
             else (base @ '' WHERE d.DataverseName = $dataverse'' @ order, [(''dataverse'', JStr dv)])
         | None \<Rightarrow> (base @ order, []))"

definition dataset_line :: "dict \<Rightarrow> dict" where
  "dataset_line record =
     [(''dataverse'', dget ''DataverseName'' record), (''dataset'', dget ''DatasetName'' record),
      (''datatypeName'', dget ''DatatypeName'' record), (''datasetType'', dget ''DatasetType'' record),
      (''format'', dget ''format'' (extract_dataset_format_info record))]"

text \<open>How often a name occurs among all rows of the listing.\<close>

definition name_occurrences :: "dict list \<Rightarrow> string \<Rightarrow> nat" where
  "name_occurrences rows name = length (filter (\<lambda>r. dget ''DatasetName'' r = JStr name) rows)"

definition probe_statement :: "string \<Rightarrow> string" where
  "probe_statement table = replace_all ''__TABLE__'' table ''SELECT VALUE 1 FROM __TABLE__ LIMIT 1;''"

definition table_name :: "string \<Rightarrow> string \<Rightarrow> exn + string" where
  "table_name dataverse dataset =
     sum_bind (quote_identifier dataverse) (\<lambda>d. sum_bind (quote_identifier dataset) (\<lambda>t. Inr (d @ ''.'' @ t)))"

definition probe_empty :: "cc_client \<Rightarrow> string \<Rightarrow> json \<Rightarrow> string \<Rightarrow> bool option io" where
  "probe_empty c ccid dataverse dataset =
     (case dataverse of
        JStr dv \<Rightarrow>
          io_bind
            (io_catch
              (io_bind (io_lift (table_name dv dataset)) (\<lambda>table.
               io_bind (execute c (probe_statement table) (query_defaults ccid)) (\<lambda>envelope. io_return (Some envelope))))
              (\<lambda>_. io_return None))
            (\<lambda>found. case found of
               None \<Rightarrow> io_return None
             | Some envelope \<Rightarrow> (case iter_or_empty (dget ''results'' envelope) of
                 None \<Rightarrow> io_raise (PyExc ''TypeError'')
               | Some xs \<Rightarrow> io_return (Some (xs = []))))
      | _ \<Rightarrow> io_return None)"

text \<open>Colliding names are flagged; the first twenty of them on the page are probed.\<close>

fun annotate_collisions ::
  "cc_client \<Rightarrow> string \<Rightarrow> (string \<Rightarrow> nat) \<Rightarrow> nat \<Rightarrow> dict list \<Rightarrow> dict list io" where
  "annotate_collisions c ccid count probes [] = io_return []"
| "annotate_collisions c ccid count probes (line # rest) =
     (case dget ''dataset'' line of
        JStr name \<Rightarrow>
          if count name \<le> 1 then
            io_bind (annotate_collisions c ccid count probes rest) (\<lambda>ls. io_return (line # ls))
          else
            let flagged = dict_set ''nameCollision'' (JBool True) line
            in if max_empty_probes \<le> probes then
                 io_bind (annotate_collisions c ccid count probes rest) (\<lambda>ls. io_return (flagged # ls))
               else
                 io_bind (probe_empty c ccid (dget ''dataverse'' line) name) (\<lambda>empty.
                 io_bind (annotate_collisions c ccid count (Suc probes) rest) (\<lambda>ls.
                   io_return ((case empty of None \<Rightarrow> flagged
                               | Some b \<Rightarrow> dict_set ''isEmpty'' (JBool b) flagged) # ls)))
      | _ \<Rightarrow> io_bind (annotate_collisions c ccid count probes rest) (\<lambda>ls. io_return (line # ls)))"

definition listed_name :: "bool \<Rightarrow> dict \<Rightarrow> string" where
  "listed_name qualify line =
     (if qualify \<and> truthy (dget ''dataverse'' line)
      then py_str (dget ''dataverse'' line) @ ''.'' @ py_str (dget ''dataset'' line)
      else py_str (dget ''dataset'' line))"

definition name_list :: "bool \<Rightarrow> dict list \<Rightarrow> string" where
  "name_list qualify ds =
     join '', '' (map (listed_name qualify) (take max_names_in_text ds))
     @ (if max_names_in_text < length ds then '', +'' @ show_nat (length ds - max_names_in_text) @ '' more'' else [])"

definition list_summary :: "string option \<Rightarrow> nat \<Rightarrow> bool \<Rightarrow> nat \<Rightarrow> dict list \<Rightarrow> string" where
  "list_summary dataverse n_all further collisions ds =
     (let scope = (case dataverse of
            Some dv \<Rightarrow> if dv = [] then ''across all Dataverses'' else ''in Dataverse '' @ dv
          | None \<Rightarrow> ''across all Dataverses'');
          suffix = (if further then '' (more available, page with offset)'' else []);
          collision = (if collisions \<noteq> 0 then '' '' @ show_nat collisions @ '' name(s) span multiple dataverses ''
            @ em_dash @ '' check isEmpty.'' else []);
          head = show_nat (length ds) @ '' of '' @ show_nat n_all @ '' dataset(s) '' @ scope
      in if ds = [] then head @ suffix @ ''.'' @ collision
         else head @ suffix @ '': '' @ name_list (dataverse = None) ds @ ''.'' @ collision)"

definition list_page :: "int \<Rightarrow> int \<Rightarrow> 'a list \<Rightarrow> 'a list" where
  "list_page offset limit rows = take (nat limit) (drop (nat offset) rows)"

definition run_list_datasets ::
  "cc_client \<Rightarrow> settings \<Rightarrow> string \<Rightarrow> string option \<Rightarrow> int \<Rightarrow> int \<Rightarrow> tool_result io" where
  "run_list_datasets c s new_uuid dataverse offset_arg limit_arg =
     (let offset = max offset_arg 0; limit = min (max limit_arg 1) max_list_limit;
          ccid = make_client_context_id (agent_session_id s) (Some ''list_datasets'') new_uuid;
          (statement, params) = list_query dataverse
      in tool_try (execute c statement (with_params ccid params)) (\<lambda>envelope.
         io_bind (io_lift (result_rows envelope)) (\<lambda>rows.
         io_bind (annotate_collisions c ccid (name_occurrences rows) 0 (map dataset_line (list_page offset limit rows))) (\<lambda>ds.
           let collisions = length (filter (\<lambda>d. truthy (dget ''nameCollision'' d)) ds);
               further = offset + limit < int (length rows)
           in io_return (tool_ok (list_summary dataverse (length rows) further collisions ds)
                [(''status'', JStr ''success''),
                 (''dataverseFilter'', opt_str dataverse),
                 (''totalDatasets'', JInt (int (length rows))), (''offset'', JInt offset), (''limit'', JInt limit),
                 (''moreAvailable'', JBool further), (''nameCollisions'', JInt (int collisions)),
                 (''datasets'', JList (map JDict ds))])))))"

section \<open>describe\_dataverse\<close>

definition max_describe :: nat where "max_describe = 50"
definition max_lines_in_text :: nat where "max_lines_in_text = 20"

definition datatypes_query :: string where
  "datatypes_query = ''SELECT VALUE t FROM Metadata.`Datatype` t WHERE t.DataverseName = $dv;''"

definition indexes_query :: string where
  "indexes_query = ''SELECT VALUE i FROM Metadata.`Index` i WHERE i.DataverseName = $dv;''"

text \<open>The records keyed by a name; of several with one name the last one counts.\<close>

definition datatype_by_name :: "dict list \<Rightarrow> string \<Rightarrow> dict" where
  "datatype_by_name datatypes name =
     (case filter (\<lambda>t. dget ''DatatypeName'' t = JStr name) datatypes of
        [] \<Rightarrow> []
      | ts \<Rightarrow> last ts)"

definition datatype_of :: "dict list \<Rightarrow> json \<Rightarrow> exn + dict" where
  "datatype_of datatypes name =
     (case name of
        JStr n \<Rightarrow> Inr (if n = [] then [] else datatype_by_name datatypes n)
      | JList xs \<Rightarrow> if xs = [] then Inr [] else Inl (PyExc ''TypeError'')
      | JDict d \<Rightarrow> if d = [] then Inr [] else Inl (PyExc ''TypeError'')
      | _ \<Rightarrow> Inr [])"

definition indexes_of :: "dict list \<Rightarrow> json \<Rightarrow> dict list" where
  "indexes_of indexes dataset =
     (case dataset of JStr n \<Rightarrow> filter (\<lambda>i. dget ''DatasetName'' i = JStr n) indexes | _ \<Rightarrow> [])"

definition assemble :: "string \<Rightarrow> dict list \<Rightarrow> dict list \<Rightarrow> dict \<Rightarrow> exn + dict" where
  "assemble dataverse datatypes indexes record =
     sum_bind (datatype_of datatypes (dget ''DatatypeName'' record)) (\<lambda>datatype.
       Inr (schema_document dataverse (dget ''DatasetName'' record) record datatype
              (indexes_of indexes (dget ''DatasetName'' record))))"

definition described_line :: "dict \<Rightarrow> string" where
  "described_line d =
     (let keys = join '', '' (map py_str (list_or_empty (dget ''primaryKey'' d)))
      in ''  - '' @ py_str (dget ''dataset'' d) @ '': PK ['' @ (if keys = [] then ''none'' else keys) @ '']; ''
         @ show_nat (length (list_or_empty (dget ''secondaryIndexes'' d))) @ '' secondary index(es); ''
         @ py_str (jget ''format'' (dget ''datasetFormatInfo'' d)))"

definition describe_summary :: "string \<Rightarrow> nat \<Rightarrow> dict list \<Rightarrow> string" where
  "describe_summary dataverse n_all ds =
     ''Dataverse '' @ dataverse @ '': described '' @ show_nat (length ds) @ '' of '' @ show_nat n_all @ '' dataset(s)''
     @ (if max_describe < n_all then '' (truncated)'' else []) @ ''.'' @ newline_text
     @ join newline_text (map described_line (take max_lines_in_text ds)
         @ (if max_lines_in_text < length ds
            then [''  '' @ ellipsis_mark @ ''and '' @ show_nat (length ds - max_lines_in_text)
                  @ '' more (see structuredContent).''] else []))"

definition did_you_mean :: "string list \<Rightarrow> string" where
  "did_you_mean suggestions =
     (if suggestions = [] then [] else '' Did you mean: '' @ join '', '' suggestions @ ''?'')"

definition describe_reads :: "cc_client \<Rightarrow> string \<Rightarrow> string \<Rightarrow> (string \<times> dict list \<times> dict list \<times> dict list) io" where
  "describe_reads c ccid dataverse =
     io_bind (fetch_dataset_rows c ccid) (\<lambda>rows.
       case resolve dataverse (dataverse_names rows) of
         (None, suggestions) \<Rightarrow>
           io_fail NOT_FOUND (''Dataverse '' @ repr_str dataverse @ '' was not found.'' @ did_you_mean suggestions)
       | (Some canonical, _) \<Rightarrow>
           io_bind (fetch_rows c ccid datatypes_query [(''dv'', JStr canonical)]) (\<lambda>datatypes.
           io_bind (fetch_rows c ccid indexes_query [(''dv'', JStr canonical)]) (\<lambda>indexes.
           io_return (canonical, rows, datatypes, indexes))))"

definition run_describe_dataverse :: "cc_client \<Rightarrow> settings \<Rightarrow> string \<Rightarrow> string \<Rightarrow> tool_result io" where
  "run_describe_dataverse c s new_uuid dataverse =
     (let ccid = make_client_context_id (agent_session_id s) (Some ''describe_dataverse'') new_uuid
      in tool_try (describe_reads c ccid dataverse) (\<lambda>(canonical, rows, datatypes, indexes).
           let records = filter (\<lambda>r. dget ''DataverseName'' r = JStr canonical) rows
           in io_bind (io_lift (sum_map_list (assemble canonical datatypes indexes) (take max_describe records))) (\<lambda>ds.
              io_return (tool_ok (describe_summary canonical (length records) ds)
                [(''status'', JStr ''success''), (''dataverse'', JStr canonical),
                 (''datasetCount'', JInt (int (length records))), (''describedCount'', JInt (int (length ds))),
                 (''truncated'', JBool (max_describe < length records)), (''datasets'', JList (map JDict ds))]))))"

section \<open>sample\_dataset\<close>

definition max_sample_size :: int where "max_sample_size = 100"

text \<open>The two replacements run one after the other over the whole text.\<close>

definition sample_statement :: "string \<Rightarrow> int \<Rightarrow> string" where
  "sample_statement table n =
     replace_all ''__N__'' (show_int n)
       (replace_all ''__TABLE__'' table ''SELECT VALUE d FROM __TABLE__ AS d LIMIT __N__;'')"

definition miss_message :: "string \<Rightarrow> string \<Rightarrow> string list \<Rightarrow> string" where
  "miss_message what name suggestions = what @ '' '' @ repr_str name @ '' was not found.'' @ did_you_mean suggestions"

definition resolve_dataset :: "cc_client \<Rightarrow> string \<Rightarrow> string \<Rightarrow> string \<Rightarrow> (string \<times> string) io" where
  "resolve_dataset c ccid dataverse dataset =
     io_bind (fetch_dataset_rows c ccid) (\<lambda>rows.
       case resolve dataverse (dataverse_names rows) of
         (None, suggestions) \<Rightarrow> io_fail NOT_FOUND (miss_message ''Dataverse'' dataverse suggestions)
       | (Some dv, _) \<Rightarrow>
           (case resolve dataset (dataset_names rows dv) of
              (None, suggestions) \<Rightarrow> io_fail NOT_FOUND (miss_message (''Dataset in '' @ dv) dataset suggestions)
            | (Some ds, _) \<Rightarrow> io_return (dv, ds)))"

definition sample_reads :: "cc_client \<Rightarrow> string \<Rightarrow> string \<Rightarrow> string \<Rightarrow> int \<Rightarrow> (string \<times> string \<times> dict) io" where
  "sample_reads c ccid dataverse dataset n =
     io_bind (resolve_dataset c ccid dataverse dataset) (\<lambda>(dv, ds).
     io_bind (io_lift (table_name dv ds)) (\<lambda>table.
     io_bind (execute c (sample_statement table n) (query_defaults ccid)) (\<lambda>envelope.
     io_return (dv, ds, envelope))))"

text \<open>The window of the sample, its egress record and the artifacts afterwards.\<close>

definition sampled_rows ::
  "artifact_env \<Rightarrow> settings \<Rightarrow> artifact_format option \<Rightarrow> dict \<Rightarrow> artifact_dir \<Rightarrow> json list \<times> dict \<times> artifact_dir" where
  "sampled_rows env s fmt envelope d =
     (let rows = envelope_rows envelope;
          (shown, meta) = bound_rows_for_llm rows (max_rows_to_llm s) (max_bytes_to_llm s) (max_field_chars s);
          (artifact, d') = overflow_artifact_payload env s rows (truthy (dget ''truncated'' meta)) fmt d
      in (shown, with_artifact artifact meta, d'))"

definition run_sample_dataset ::
  "exec_env \<Rightarrow> cc_client \<Rightarrow> settings \<Rightarrow> string \<Rightarrow> string \<Rightarrow> string \<Rightarrow> int \<Rightarrow> artifact_format option
     \<Rightarrow> recall_state option \<Rightarrow> artifact_dir \<Rightarrow> (tool_result \<times> recall_state option \<times> artifact_dir) io" where
  "run_sample_dataset env c s new_uuid dataverse dataset n_arg fmt recall d =
     (let n = min (max n_arg 1) max_sample_size;
          ccid = make_client_context_id (agent_session_id s) (Some ''sample_dataset'') new_uuid
      in io_bind (io_catch (io_bind (sample_reads c ccid dataverse dataset n) (\<lambda>x. io_return (Inr x)))
                    (\<lambda>e. io_return (Inl e))) (\<lambda>r.
         case r of
           Inl e \<Rightarrow> io_return (tool_error e, recall, d)
         | Inr (dv, ds, envelope) \<Rightarrow>
             (case sampled_rows (xe_artifacts env) s fmt envelope d of (shown, egress, d') \<Rightarrow>
              let structured = [(''status'', JStr ''success''), (''dataverse'', JStr dv), (''dataset'', JStr ds),
                     (''sampleSize'', JInt n), (''rowsReturned'', JInt (int (length shown))),
                     (''results'', JList shown), (''egress'', JDict egress)];
                  text = ''Sampled '' @ show_nat (length shown) @ '' row(s) from '' @ dv @ ''.'' @ ds @ ''.''
              in if \<not> memory_enabled s then io_return (tool_ok text structured, recall, d')
                 else io_bind (deliver_notes (xe_clock env) c ccid [dv @ ''.'' @ ds, dv] shown True (Some s) recall)
                   (\<lambda>(notes, contradictions, recall'). io_return
                     (if notes = []
                      then (tool_ok (text @ newline_text @ newline_text @ no_notes_hint (dv @ ''.'' @ ds)) structured, recall', d')
                      else (tool_ok (text @ about_notes notes contradictions)
                              (let learned = dict_set ''learnedNotes'' (JList (map JDict notes)) structured
                               in if contradictions = [] then learned
                                  else dict_set ''staleNotes'' (JList (map JStr contradictions)) learned),
                            map_option (recall_mark (marked_subjects notes)) recall', d'))))))"

text \<open>The row count of a sample replaces the placeholder wherever it stands, also in a name.\<close>

lemma sample_name_rewritten:
  "table_name ''D'' ''a__N__b'' = Inr ''`D`.`a__N__b`''
   \<and> sample_statement ''`D`.`a__N__b`'' 10 = ''SELECT VALUE d FROM `D`.`a10b` AS d LIMIT 10;''"
proof
  show "table_name ''D'' ''a__N__b'' = Inr ''`D`.`a__N__b`''" by code_simp
  show "sample_statement ''`D`.`a__N__b`'' 10 = ''SELECT VALUE d FROM `D`.`a10b` AS d LIMIT 10;''" by code_simp
qed

section \<open>Pages and collisions\<close>

lemma pages_cover:
  "1 \<le> limit \<Longrightarrow> concat (map (\<lambda>k. list_page (int k * limit) limit rows) [0..<n]) = take (nat (int n * limit)) rows"
proof (induction n)
  case (Suc n)
  have "nat (int (Suc n) * limit) = nat (int n * limit) + nat limit"
    using Suc.prems by (simp add: distrib_right nat_add_distrib)
  then show ?case using Suc by (simp add: list_page_def take_add)
qed simp

definition annotated :: "(string \<Rightarrow> nat) \<Rightarrow> dict \<Rightarrow> dict \<Rightarrow> bool" where
  "annotated count line line' \<longleftrightarrow>
     (\<forall>k. k \<noteq> ''nameCollision'' \<longrightarrow> k \<noteq> ''isEmpty'' \<longrightarrow> dget k line' = dget k line)
     \<and> (dget ''nameCollision'' line = JNull \<longrightarrow>
          (dget ''nameCollision'' line' = JBool True \<longleftrightarrow> (\<exists>name. dget ''dataset'' line = JStr name \<and> 1 < count name)))"

lemma annotate_yields: "yields (list_all2 (annotated count) ls) (annotate_collisions c ccid count probes ls)"
proof (induction ls arbitrary: probes)
  case Nil
  show ?case by (simp only: annotate_collisions.simps yields_return list.rel_inject)
next
  case (Cons l ls)
  have step: "yields (list_all2 (annotated count) (l # ls))
      (io_bind (annotate_collisions c ccid count p ls) (\<lambda>x. io_return (f # x)))" if "annotated count l f" for p f
    by (rule yields_bind [OF Cons.IH], rule yields_return) (simp add: that)
  have plain: ?case if "\<nexists>name. dget ''dataset'' l = JStr name"
  proof -
    have "annotated count l l" using that by (auto simp: annotated_def)
    from step [OF this, of probes] that show ?thesis by (cases "dget ''dataset'' l") simp_all
  qed
  show ?case
  proof (cases "dget ''dataset'' l")
    case (JStr name)
    show ?thesis
    proof (cases "count name \<le> 1")
      case True
      then have "annotated count l l" using JStr by (auto simp: annotated_def)
      from step [OF this] show ?thesis using JStr True by simp
    next
      case False
      then have flagged: "annotated count l (dict_set ''nameCollision'' (JBool True) l)"
        "annotated count l (dict_set ''isEmpty'' b (dict_set ''nameCollision'' (JBool True) l))" for b
        using JStr by (auto simp: annotated_def)
      have probed: "yields (list_all2 (annotated count) (l # ls))
          (io_bind (annotate_collisions c ccid count (Suc probes) ls) (\<lambda>x. io_return
            ((case b of None \<Rightarrow> dict_set ''nameCollision'' (JBool True) l
              | Some b \<Rightarrow> dict_set ''isEmpty'' (JBool b) (dict_set ''nameCollision'' (JBool True) l)) # x)))" for b
        by (rule step) (simp add: flagged split: option.split)
      show ?thesis
        using JStr False step [OF flagged(1)]
        by (simp add: Let_def yields_bind_any [OF probed])
    qed
  qed (use plain in auto)
qed

text \<open>
  C36. A listing is faithful to the catalog and collisions are exact. The rows are those that the
  reply to the catalog query of this call holds, for the dataverse that was asked for; the page is
  their slice from the offset on, at most the limit long, and every line describes its row; a line
  is flagged as a collision exactly when its name is the name of more than one row of the whole
  reply, not only of the page; the total counts the whole reply, and more is announced exactly
  when rows follow the page.
\<close>

theorem list_datasets_complete:
  assumes "run_list_datasets c s u filter_arg offset limit t = (Inr r, t')" and "\<not> tr_is_error r"
  shows "\<exists>envelope t1 rows ds.
      execute c (fst (list_query filter_arg))
        (with_params (make_client_context_id (agent_session_id s) (Some ''list_datasets'') u) (snd (list_query filter_arg))) t
        = (Inr envelope, t1)
    \<and> result_rows envelope = Inr rows
    \<and> dget ''datasets'' (tr_structured r) = JList (map JDict ds)
    \<and> list_all2 (\<lambda>row line. (\<forall>k. k \<noteq> ''nameCollision'' \<longrightarrow> k \<noteq> ''isEmpty'' \<longrightarrow> dget k line = dget k (dataset_line row))
          \<and> (dget ''nameCollision'' line = JBool True \<longleftrightarrow>
               (\<exists>name. dget ''DatasetName'' row = JStr name \<and> 1 < name_occurrences rows name)))
        (take (nat (min (max limit 1) 500)) (drop (nat (max offset 0)) rows)) ds
    \<and> dget ''totalDatasets'' (tr_structured r) = JInt (int (length rows))
    \<and> dget ''moreAvailable'' (tr_structured r) = JBool (max offset 0 + min (max limit 1) 500 < int (length rows))"
proof -
  let ?o = "max offset 0" and ?l = "min (max limit 1) max_list_limit"
  let ?ccid = "make_client_context_id (agent_session_id s) (Some ''list_datasets'') u"
  let ?read = "execute c (fst (list_query filter_arg)) (with_params ?ccid (snd (list_query filter_arg)))"
  let ?page = "\<lambda>rows. list_page ?o ?l rows"
  define Q where "Q rows r \<longleftrightarrow> (\<exists>ds. dget ''datasets'' (tr_structured r) = JList (map JDict ds)
      \<and> list_all2 (annotated (name_occurrences rows)) (map dataset_line (?page rows)) ds
      \<and> dget ''totalDatasets'' (tr_structured r) = JInt (int (length rows))
      \<and> dget ''moreAvailable'' (tr_structured r) = JBool (?o + ?l < int (length rows)))" for rows :: "dict list" and r :: tool_result
  let ?answer = "\<lambda>rows. io_bind (annotate_collisions c ?ccid (name_occurrences rows) 0 (map dataset_line (?page rows))) (\<lambda>ds.
        io_return (tool_ok (list_summary filter_arg (length rows) (?o + ?l < int (length rows))
              (length (filter (\<lambda>d. truthy (dget ''nameCollision'' d)) ds)) ds)
            [(''status'', JStr ''success''),
             (''dataverseFilter'', opt_str filter_arg),
             (''totalDatasets'', JInt (int (length rows))), (''offset'', JInt ?o), (''limit'', JInt ?l),
             (''moreAvailable'', JBool (?o + ?l < int (length rows))),
             (''nameCollisions'', JInt (int (length (filter (\<lambda>d. truthy (dget ''nameCollision'' d)) ds)))),
             (''datasets'', JList (map JDict ds))]))"
  have run: "run_list_datasets c s u filter_arg offset limit
      = tool_try ?read (\<lambda>envelope. io_bind (io_lift (result_rows envelope)) ?answer)"
    by (simp add: run_list_datasets_def Let_def case_prod_unfold)
  obtain envelope t1 where read: "?read t = (Inr envelope, t1)"
    and after: "io_bind (io_lift (result_rows envelope)) ?answer t1 = (Inr r, t')"
    using tool_try_InrE [OF assms(1) [unfolded run] assms(2)] .
  obtain rows where rows: "result_rows envelope = Inr rows" and answer: "?answer rows t1 = (Inr r, t')"
    using after by (cases "result_rows envelope") simp_all
  have "yields (Q rows) (?answer rows)"
    by (rule yields_bind [OF annotate_yields], rule yields_return) (auto simp: Q_def tool_ok_def)
  from yieldsD [OF this answer] obtain ds
    where d: "dget ''datasets'' (tr_structured r) = JList (map JDict ds)"
      and l: "list_all2 (annotated (name_occurrences rows)) (map dataset_line (?page rows)) ds"
      and n: "dget ''totalDatasets'' (tr_structured r) = JInt (int (length rows))"
      and m: "dget ''moreAvailable'' (tr_structured r) = JBool (?o + ?l < int (length rows))"
    by (auto simp: Q_def)
  have line: "dget ''nameCollision'' (dataset_line row) = JNull" "dget ''dataset'' (dataset_line row) = dget ''DatasetName'' row" for row
    by (simp_all add: dataset_line_def)
  have "list_all2 (\<lambda>row line. (\<forall>k. k \<noteq> ''nameCollision'' \<longrightarrow> k \<noteq> ''isEmpty'' \<longrightarrow> dget k line = dget k (dataset_line row))
          \<and> (dget ''nameCollision'' line = JBool True \<longleftrightarrow>
               (\<exists>name. dget ''DatasetName'' row = JStr name \<and> 1 < name_occurrences rows name))) (?page rows) ds"
    using l unfolding list.rel_map(1) by (rule list_all2_mono) (simp add: annotated_def line)
  then show ?thesis using read rows d n m unfolding max_list_limit_def list_page_def by blast
qed

theorem list_datasets_complete_witness:
  "\<exists>r t'. run_list_datasets
       (answering_client default_settings (Some ''alice'')
          [(''results'', JList [JDict [(''DataverseName'', JStr ''A''), (''DatasetName'', JStr ''users'')],
                                JDict [(''DataverseName'', JStr ''B''), (''DatasetName'', JStr ''users'')]])])
       default_settings ''u'' None 0 1 [] = (Inr r, t')
     \<and> dget ''moreAvailable'' (tr_structured r) = JBool True"
proof -
  let ?run = "run_list_datasets
       (answering_client default_settings (Some ''alice'')
          [(''results'', JList [JDict [(''DataverseName'', JStr ''A''), (''DatasetName'', JStr ''users'')],
                                JDict [(''DataverseName'', JStr ''B''), (''DatasetName'', JStr ''users'')]])])
       default_settings ''u'' None 0 1 []"
  have "case fst ?run of Inr r \<Rightarrow> \<not> tr_is_error r \<and> dget ''totalDatasets'' (tr_structured r) = JInt 2 | Inl _ \<Rightarrow> False"
    by code_simp
  then obtain r t' where run: "?run = (Inr r, t')" and ok: "\<not> tr_is_error r"
    and two: "dget ''totalDatasets'' (tr_structured r) = JInt 2"
    by (cases ?run) (auto split: sum.splits)
  from list_datasets_complete [OF run ok] two have "dget ''moreAvailable'' (tr_structured r) = JBool True" by auto
  with run show ?thesis by blast
qed

section \<open>One dataset in both overviews\<close>

text \<open>
  What \<open>describe_dataverse\<close> says of a dataset is what \<open>get_schema\<close> says when its datatype is in the
  same dataverse; a datatype of another dataverse is not found by the former, which then reports
  no fields.
\<close>

lemma describe_agrees:
  assumes "dget ''DatatypeName'' record = JStr ty" and "dget ''DatasetName'' record = JStr ds"
    and "filter (\<lambda>t. dget ''DatatypeName'' t = JStr ty) datatypes = [datatype]" and "ty \<noteq> []"
  shows "assemble dv datatypes indexes record =
     Inr (schema_document dv (JStr ds) record datatype (filter (\<lambda>i. dget ''DatasetName'' i = JStr ds) indexes))"
  using assms by (simp add: assemble_def datatype_of_def datatype_by_name_def indexes_of_def)

lemma foreign_datatype_lost:
  assumes "dget ''DatatypeName'' record = JStr ty" and "\<forall>t \<in> set datatypes. dget ''DatatypeName'' t \<noteq> JStr ty"
    and "assemble dv datatypes indexes record = Inr d"
  shows "dget ''fields'' d = JList []"
  using assms by (auto simp: assemble_def datatype_of_def datatype_by_name_def filter_empty_conv schema_document_def
      extract_record_fields_def list_or_empty_def dicts_of_def map_filter_simps split: if_splits)

end
