(* ===== verification/Metadata_Search.thy ===== *)
theory Metadata_Search
  imports Schema_Tools "HOL-Library.Multiset"
begin

text \<open>
  Sizes and names in the catalog: the statistics of an ANALYZE sample (\<open>sample_stats.py\<close>,
  \<open>tools/dataset_stats.py\<close>) and the fuzzy search over the names of the catalog
  (\<open>tools/search_metadata.py\<close>). The last section says what all the schema tools may send.
\<close>

section \<open>Statistics (sample\_stats.py, dataset\_stats.py)\<close>

definition dataset_stats_query :: string where
  "dataset_stats_query =
     ''SELECT i.DataverseName AS dataverse, i.DatasetName AS dataset, i.SourceCardinality AS rowCount, i.SourceAvgItemSize AS avgItemSize, i.SampleCardinalityTarget AS sampleTarget FROM Metadata.`Index` i WHERE i.IndexStructure = ''
     @ [CHR 0x27] @ ''SAMPLE'' @ [CHR 0x27] @ '' AND i.DataverseName = $dv AND i.DatasetName = $ds LIMIT 1;''"

definition analyzed_datasets_query :: string where
  "analyzed_datasets_query =
     ''SELECT i.DataverseName AS dataverse, i.DatasetName AS dataset FROM Metadata.`Index` i WHERE i.IndexStructure = ''
     @ [CHR 0x27] @ ''SAMPLE'' @ [CHR 0x27]"

text \<open>The numbers keep their Python type: a \<open>bool\<close> passes as it is.\<close>

record dataset_stats =
  dst_dataverse :: json
  dst_dataset :: json
  dst_row_count :: json
  dst_avg_item_size :: json
  dst_sample_target :: json

definition stat_int :: "json \<Rightarrow> json" where
  "stat_int v = (if as_int v = None then JInt 0 else v)"

definition int_value :: "json \<Rightarrow> int" where
  "int_value v = (case as_int v of Some n \<Rightarrow> n | None \<Rightarrow> 0)"

definition estimated_size_bytes :: "dataset_stats \<Rightarrow> int" where
  "estimated_size_bytes st = int_value (dst_row_count st) * int_value (dst_avg_item_size st)"

definition stats_dict :: "dataset_stats \<Rightarrow> dict" where
  "stats_dict st =
     [(''rowCountEstimate'', dst_row_count st), (''avgItemSizeBytes'', dst_avg_item_size st),
      (''estimatedSizeBytes'', JInt (estimated_size_bytes st)), (''sampleTarget'', dst_sample_target st)]"

definition parse_sample_row :: "json \<Rightarrow> dataset_stats option" where
  "parse_sample_row row =
     (case row of
        JDict d \<Rightarrow> Some \<lparr>dst_dataverse = dget ''dataverse'' d, dst_dataset = dget ''dataset'' d,
            dst_row_count = stat_int (dget ''rowCount'' d), dst_avg_item_size = stat_int (dget ''avgItemSize'' d),
            dst_sample_target = stat_int (dget ''sampleTarget'' d)\<rparr>
      | _ \<Rightarrow> None)"

definition fetch_dataset_stats :: "cc_client \<Rightarrow> string \<Rightarrow> string \<Rightarrow> string \<Rightarrow> dataset_stats option io" where
  "fetch_dataset_stats c ccid dataverse dataset =
     io_bind (fetch_parsed c ccid dataset_stats_query [(''dv'', JStr dataverse), (''ds'', JStr dataset)] parse_sample_row)
       (\<lambda>found. io_return (case found of [] \<Rightarrow> None | st # _ \<Rightarrow> Some st))"

definition analyzed_pair :: "json \<Rightarrow> (string \<times> string) option" where
  "analyzed_pair row =
     (case (jget ''dataverse'' row, jget ''dataset'' row) of (JStr dv, JStr ds) \<Rightarrow> Some (dv, ds) | _ \<Rightarrow> None)"

definition fetch_analyzed_datasets :: "cc_client \<Rightarrow> string \<Rightarrow> string option \<Rightarrow> (string \<times> string) list io" where
  "fetch_analyzed_datasets c ccid dataverse =
     (case dataverse of
        None \<Rightarrow> fetch_parsed c ccid (analyzed_datasets_query @ '';'') [] analyzed_pair
      | Some dv \<Rightarrow> fetch_parsed c ccid (analyzed_datasets_query @ '' AND i.DataverseName = $dv;'')
                     [(''dv'', JStr dv)] analyzed_pair)"

definition not_analyzed_note :: "string \<Rightarrow> string" where
  "not_analyzed_note name =
     name @ '' has no sample statistics: it has either never been analyzed or does not exist. Row-count and size estimates are unavailable, and the cost-based optimizer (and recommend_indexes) plans this dataset without statistics. Run the analyzeStatement to populate them (the gateway is read-only and will not run it).''"

definition run_get_dataset_statistics ::
  "cc_client \<Rightarrow> settings \<Rightarrow> string \<Rightarrow> string \<Rightarrow> string \<Rightarrow> string option \<Rightarrow> tool_result io" where
  "run_get_dataset_statistics c s new_uuid dataverse dataset user_tag =
     (let dv = strip dataverse; ds = strip dataset; name = dv @ ''.'' @ ds;
          ccid = make_client_context_id (agent_session_id s) user_tag new_uuid;
          base = (\<lambda>analyzed. [(''status'', JStr ''success''), (''dataverse'', JStr dv), (''dataset'', JStr ds),
                              (''analyzed'', JBool analyzed)])
      in if dv = [] \<or> ds = []
         then io_return (tool_error (gerr INVALID_PARAMETER ''Provide both a dataverse and a dataset name.''))
         else io_bind (fetch_dataset_stats c ccid dv ds) (\<lambda>found. io_return (
           case found of
             None \<Rightarrow> tool_ok (name @ '' has no sample statistics (not analyzed).'')
               (base False @ [(''analyzeStatement'', JStr (''ANALYZE DATASET '' @ name @ '';'')),
                              (''note'', JStr (not_analyzed_note name))])
           | Some st \<Rightarrow> tool_ok
               (name @ '': ~'' @ py_str (dst_row_count st) @ '' rows, ~'' @ show_int (estimated_size_bytes st)
                @ '' bytes (avg '' @ py_str (dst_avg_item_size st) @ '' B/doc) from the ANALYZE sample.'')
               (base True @ [(''statistics'', JDict (stats_dict st))]))))"

section \<open>search\_metadata\<close>

definition max_search_limit :: int where "max_search_limit = 100"
definition max_name_query_len :: nat where "max_name_query_len = 200"
definition exact_score :: int where "exact_score = 100"
definition prefix_score :: int where "prefix_score = 80"
definition substring_score :: int where "substring_score = 60"
definition similarity_weight :: rat where "similarity_weight = 50"

record collection =
  cl_kind :: string
  cl_table :: string
  cl_name_field :: string

definition collections :: "collection list" where
  "collections =
     map (\<lambda>(k, t, f). \<lparr>cl_kind = k, cl_table = t, cl_name_field = f\<rparr>)
       [(''dataset'', ''Dataset'', ''DatasetName''), (''datatype'', ''Datatype'', ''DatatypeName''),
        (''index'', ''Index'', ''IndexName''), (''function'', ''Function'', ''Name''),
        (''synonym'', ''Synonym'', ''SynonymName''), (''feed'', ''Feed'', ''FeedName'')]"

definition candidate_query :: "collection \<Rightarrow> string" where
  "candidate_query k = replace_all ''__TABLE__'' (cl_table k) ''SELECT VALUE c FROM Metadata.`__TABLE__` c;''"

definition candidate_of :: "collection \<Rightarrow> json \<Rightarrow> dict option" where
  "candidate_of k row =
     (case row of
        JDict d \<Rightarrow> (case dget (cl_name_field k) d of
            JStr name \<Rightarrow> Some ([(''kind'', JStr (cl_kind k)), (''dataverse'', dget ''DataverseName'' d), (''name'', JStr name)]
                @ (if cl_kind k = ''index'' then [(''dataset'', dget ''DatasetName'' d)] else []))
          | _ \<Rightarrow> None)
      | _ \<Rightarrow> None)"

definition candidates :: "cc_client \<Rightarrow> string \<Rightarrow> collection \<Rightarrow> dict list io" where
  "candidates c ccid k = fetch_parsed c ccid (candidate_query k) [] (candidate_of k)"

definition name_score :: "string \<Rightarrow> string \<Rightarrow> int" where
  "name_score needle_lower name =
     (let n = lower name in
      if n = needle_lower then exact_score
      else if starts_with n needle_lower then prefix_score
      else if contains needle_lower n then substring_score
      else \<lfloor>sequence_ratio needle_lower n * similarity_weight\<rfloor>)"

definition candidate_name :: "dict \<Rightarrow> string" where
  "candidate_name d = py_str (dget ''name'' d)"

text \<open>The scored candidates, best first; ties by kind and name, then in the order fetched.\<close>

definition rank_candidates :: "string \<Rightarrow> dict list \<Rightarrow> (int \<times> dict) list" where
  "rank_candidates needle_lower cs =
     sort_key (\<lambda>p. (- fst p, py_str (dget ''kind'' (snd p)), candidate_name (snd p)))
       (filter (\<lambda>p. 0 < fst p) (map (\<lambda>d. (name_score needle_lower (candidate_name d), d)) cs))"

definition run_search_metadata :: "cc_client \<Rightarrow> settings \<Rightarrow> string \<Rightarrow> string \<Rightarrow> int \<Rightarrow> tool_result io" where
  "run_search_metadata c s new_uuid query limit_arg =
     (let needle = strip query; limit = min (max limit_arg 1) max_search_limit;
          ccid = make_client_context_id (agent_session_id s) (Some ''search_metadata'') new_uuid
      in if needle = [] then io_return (tool_error (gerr INVALID_PARAMETER ''Provide a non-empty search query.''))
         else if max_name_query_len < length needle
         then io_return (tool_error (gerr INVALID_PARAMETER
                (''Search query is too long (max '' @ show_nat max_name_query_len @ '' characters).'')))
         else io_bind (io_map_list (candidates c ccid) collections) (\<lambda>found.
           let ranked = rank_candidates (lower needle) (concat found);
               shown = map (\<lambda>(score, d). dict_set ''score'' (JInt score) d) (take (nat limit) ranked)
           in io_return (tool_ok
                (show_nat (length shown) @ '' match(es) for '' @ repr_str needle @ '' across the metadata catalog.'')
                [(''status'', JStr ''success''), (''query'', JStr needle), (''totalMatches'', JInt (int (length ranked))),
                 (''limit'', JInt limit), (''matches'', JList (map JDict shown))])))"

section \<open>Ranking\<close>

lemma rank_set: "set (rank_candidates needle cs) =
    {(name_score needle (candidate_name d), d) | d. d \<in> set cs \<and> 0 < name_score needle (candidate_name d)}"
  by (auto simp: rank_candidates_def)

lemma rank_sorted: "sorted_wrt (\<lambda>p q. fst q \<le> fst p) (rank_candidates needle cs)"
proof -
  let ?key = "\<lambda>p. (- fst p, py_str (dget ''kind'' (snd p)), candidate_name (snd p)) :: int \<times> string \<times> string"
  have "sorted (map ?key (rank_candidates needle cs))" by (simp add: rank_candidates_def)
  then have "sorted_wrt (\<lambda>p q. ?key p \<le> ?key q) (rank_candidates needle cs)" by (simp add: sorted_wrt_map)
  then show ?thesis by (rule sorted_wrt_mono_rel [rotated]) (auto simp: less_eq_prod_def)
qed

lemma rank_length: "length (rank_candidates needle cs) = length (filter (\<lambda>d. 0 < name_score needle (candidate_name d)) cs)"
  by (simp add: rank_candidates_def filter_map o_def)

lemma common_prefix_le: "common_prefix a b \<le> length a \<and> common_prefix a b \<le> length b"
  by (induction a b rule: common_prefix.induct) auto

lemma best_block_in: "best_block m ms = m \<or> best_block m ms \<in> set ms"
  by (induction m ms rule: best_block.induct) auto

lemma longest_match_fits:
  assumes "longest_match a b = (i, j, k)"
  shows "i + k \<le> length a \<and> j + k \<le> length b"
proof -
  have "(i, j, k) = (0, 0, 0) \<or> (i, j, k) \<in> set (all_blocks a b)"
    using best_block_in [of "(0, 0, 0)" "all_blocks a b"] assms by (simp add: longest_match_def)
  then show ?thesis
  proof
    assume "(i, j, k) \<in> set (all_blocks a b)"
    then have "i < length a" "j < length b" "k = common_prefix (drop i a) (drop j b)"
      by (auto simp: all_blocks_def)
    then show ?thesis using common_prefix_le [of "drop i a" "drop j b"] by simp linarith
  qed simp
qed

lemma matched_length_le: "matched_length fuel a b \<le> length a \<and> matched_length fuel a b \<le> length b"
proof (induction fuel a b rule: matched_length.induct)
  case (2 fuel a b)
  obtain i j k where m: "longest_match a b = (i, j, k)" by (rule prod_cases3)
  show ?case
  proof (cases "k = 0")
    case False
    with 2(1) [OF m [symmetric] refl False] 2(2) [OF m [symmetric] refl False] longest_match_fits [OF m] m
    show ?thesis by simp linarith
  qed (simp add: m)
qed simp

text \<open>The length of the first text is enough fuel: more of it changes nothing.\<close>

lemma matched_length_fuel: "length a < f \<Longrightarrow> length a < g \<Longrightarrow> matched_length f a b = matched_length g a b"
proof (induction f a b arbitrary: g rule: matched_length.induct)
  case (2 f a b)
  obtain h where g: "g = Suc h" using "2.prems"(2) by (cases g) auto
  obtain i j k where m: "longest_match a b = (i, j, k)" by (rule prod_cases3)
  show ?case
  proof (cases "k = 0")
    case False
    have "i + k \<le> length a" using longest_match_fits [OF m] by simp
    then have "i < f" "i < h" "length a - (i + k) < f" "length a - (i + k) < h"
      using "2.prems" g False by linarith+
    then have "length (take i a) < f" "length (take i a) < h" "length (drop (i + k) a) < f" "length (drop (i + k) a) < h"
      by simp_all
    then show ?thesis
      using "2.IH"(1) [OF m [symmetric] refl False, of h] "2.IH"(2) [OF m [symmetric] refl False, of h] m g by simp
  qed (simp add: m g)
qed simp

lemma sequence_ratio_bounds: "0 \<le> sequence_ratio a b" "sequence_ratio a b \<le> 1"
proof -
  have "2 * matched_length (Suc (length a)) a b \<le> length a + length b"
    using matched_length_le [of "Suc (length a)" a b] by linarith
  then have le: "(of_nat (2 * matched_length (Suc (length a)) a b) :: rat) \<le> of_nat (length a + length b)"
    by (simp only: of_nat_le_iff)
  show "0 \<le> sequence_ratio a b" by (simp add: sequence_ratio_def)
  show "sequence_ratio a b \<le> 1"
    using le by (auto simp: sequence_ratio_def divide_le_eq_1 simp del: of_nat_mult of_nat_add)
qed

lemma similarity_tail: "0 \<le> \<lfloor>sequence_ratio a b * similarity_weight\<rfloor>" "\<lfloor>sequence_ratio a b * similarity_weight\<rfloor> \<le> 50"
  using sequence_ratio_bounds [of a b] by (simp_all add: similarity_weight_def floor_le_iff)

lemma name_score_classes:
  "(name_score needle name = 100 \<longleftrightarrow> lower name = needle)
   \<and> (name_score needle name = 80 \<longleftrightarrow> lower name \<noteq> needle \<and> starts_with (lower name) needle)
   \<and> (name_score needle name = 60 \<longleftrightarrow> \<not> starts_with (lower name) needle \<and> contains needle (lower name))
   \<and> (contains needle (lower name) \<or> 0 \<le> name_score needle name \<and> name_score needle name \<le> 50)"
proof -
  have "contains needle (lower name)" if "starts_with (lower name) needle"
    using that by (auto simp: contains_iff prefix_def intro: exI [of _ "[]"])
  moreover obtain z where "\<lfloor>sequence_ratio needle (lower name) * similarity_weight\<rfloor> = z" "0 \<le> z" "z \<le> 50"
    using similarity_tail [of needle "lower name"] by blast
  ultimately show ?thesis
    by (auto simp: name_score_def Let_def exact_score_def prefix_score_def substring_score_def)
qed

text \<open>
  C38. The search ranks by how well a name matches. The candidates are those of all six collections
  as this call fetched them; each of them with a positive score is ranked, once, in descending
  order of score; the matches shown are the first of that ranking, as many as the limit, which is
  held between one and a hundred. An exact match scores 100, a name that begins with the query 80,
  one that contains it 60 and any other at most 50, so no merely similar name ever stands before
  one that contains the query.
\<close>

theorem search_metadata_ranked:
  assumes "run_search_metadata c s u query limit t = (Inr r, t')" and "\<not> tr_is_error r"
  shows "\<exists>found ranked.
      io_map_list (candidates c (make_client_context_id (agent_session_id s) (Some ''search_metadata'') u)) collections t
        = (Inr found, t')
    \<and> dget ''matches'' (tr_structured r)
        = JList (map (\<lambda>(score, d). JDict (dict_set ''score'' (JInt score) d)) (take (nat (min (max limit 1) 100)) ranked))
    \<and> dget ''totalMatches'' (tr_structured r) = JInt (int (length ranked))
    \<and> sorted_wrt (\<lambda>p q. fst q \<le> fst p) ranked
    \<and> mset ranked = mset (filter (\<lambda>p. 0 < fst p)
          (map (\<lambda>d. (name_score (lower (strip query)) (candidate_name d), d)) (concat found)))
    \<and> (\<forall>(score, d) \<in> set ranked.
          (score = 100 \<longleftrightarrow> lower (candidate_name d) = lower (strip query))
          \<and> (score \<in> {100, 80} \<longleftrightarrow> starts_with (lower (candidate_name d)) (lower (strip query)))
          \<and> (60 \<le> score \<longleftrightarrow> contains (lower (strip query)) (lower (candidate_name d))))"
proof -
  let ?needle = "lower (strip query)"
  let ?ccid = "make_client_context_id (agent_session_id s) (Some ''search_metadata'') u"
  obtain found where fetched: "io_map_list (candidates c ?ccid) collections t = (Inr found, t')"
    and m: "dget ''matches'' (tr_structured r)
        = JList (map (\<lambda>(score, d). JDict (dict_set ''score'' (JInt score) d))
            (take (nat (min (max limit 1) 100)) (rank_candidates ?needle (concat found))))"
    and n: "dget ''totalMatches'' (tr_structured r) = JInt (int (length (rank_candidates ?needle (concat found))))"
    using assms unfolding run_search_metadata_def Let_def
    by (auto simp: tool_error_def tool_ok_def max_search_limit_def case_prod_unfold o_def
        split: if_splits elim!: io_bind_InrE)
  have "(score = 100 \<longleftrightarrow> lower (candidate_name d) = ?needle)
          \<and> (score \<in> {100, 80} \<longleftrightarrow> starts_with (lower (candidate_name d)) ?needle)
          \<and> (60 \<le> score \<longleftrightarrow> contains ?needle (lower (candidate_name d)))"
    if "(score, d) \<in> set (rank_candidates ?needle (concat found))" for score d
  proof -
    have s: "score = name_score ?needle (candidate_name d)" using that by (auto simp: rank_set)
    have "contains ?needle (lower (candidate_name d))" if "starts_with (lower (candidate_name d)) ?needle"
      using that by (auto simp: contains_iff prefix_def intro: exI [of _ "[]"])
    with name_score_classes [of ?needle "candidate_name d"] s show ?thesis by auto
  qed
  moreover have "mset (rank_candidates ?needle (concat found)) = mset (filter (\<lambda>p. 0 < fst p)
      (map (\<lambda>d. (name_score ?needle (candidate_name d), d)) (concat found)))"
    by (simp add: rank_candidates_def)
  ultimately show ?thesis
    using fetched m n rank_sorted by (intro exI [of _ found] exI [of _ "rank_candidates ?needle (concat found)"]) blast
qed

theorem search_metadata_ranked_witness:
  "\<exists>r t'. run_search_metadata
       (answering_client default_settings (Some ''alice'') [(''results'', JList [JDict [(''DatasetName'', JStr ''Users'')]])])
       default_settings ''u'' '' users '' 5 [] = (Inr r, t')
     \<and> (\<exists>ms. dget ''matches'' (tr_structured r) = JList ms)"
proof -
  let ?run = "run_search_metadata
       (answering_client default_settings (Some ''alice'') [(''results'', JList [JDict [(''DatasetName'', JStr ''Users'')]])])
       default_settings ''u'' '' users '' 5 []"
  have "case fst ?run of Inr r \<Rightarrow> \<not> tr_is_error r \<and> dget ''totalMatches'' (tr_structured r) = JInt 1 | Inl _ \<Rightarrow> False"
    by code_simp
  then obtain r t' where run: "?run = (Inr r, t')" and ok: "\<not> tr_is_error r"
    by (cases ?run) (auto split: sum.splits)
  from search_metadata_ranked [OF run ok] run show ?thesis by blast
qed

section \<open>What the schema tools may send\<close>

definition metadata_statements :: "string list" where
  "metadata_statements =
     [inventory_query, dataset_query, datatype_query, index_query, dataverses_query, fst (list_query None),
      fst (list_query (Some ''D'')), datatypes_query, indexes_query, dataset_stats_query,
      analyzed_datasets_query @ '';'', analyzed_datasets_query @ '' AND i.DataverseName = $dv;'']
     @ map candidate_query collections"

definition schema_request :: "cc_client \<Rightarrow> settings \<Rightarrow> request \<Rightarrow> bool" where
  "schema_request c s r \<longleftrightarrow>
     (\<exists>st \<in> set metadata_statements. catalog_request c st r)
     \<or> (\<exists>dv ds table. table_name dv ds = Inr table
          \<and> (catalog_request c (probe_statement table) r
             \<or> (\<exists>n. 1 \<le> n \<and> n \<le> max_sample_size \<and> catalog_request c (sample_statement table n) r)))
     \<or> recall_request c (Some s) r"

lemma metadata_request:
  "st \<in> set metadata_statements \<Longrightarrow> emits (schema_request c s) (execute c st (with_params ccid params))"
  by (rule emits_mono [OF execute_catalog]) (auto simp: schema_request_def)

lemma plain_params: "query_defaults ccid = with_params ccid []"
  by (simp add: with_params_def query_defaults_def)

lemma metadata_rows: "st \<in> set metadata_statements \<Longrightarrow> emits (schema_request c s) (fetch_rows c ccid st params)"
  unfolding fetch_rows_def by (intro emits_bind emits_lift metadata_request)

lemma metadata_parsed:
  "st \<in> set metadata_statements \<Longrightarrow> emits (schema_request c s) (fetch_parsed c ccid st params parse)"
  unfolding fetch_parsed_def
  by (intro emits_bind emits_catch emits_return emits_option emits_raise metadata_request)

lemma in_metadata:
  "inventory_query \<in> set metadata_statements" "dataset_query \<in> set metadata_statements"
  "datatype_query \<in> set metadata_statements" "index_query \<in> set metadata_statements"
  "dataverses_query \<in> set metadata_statements" "fst (list_query dv) \<in> set metadata_statements"
  "datatypes_query \<in> set metadata_statements" "indexes_query \<in> set metadata_statements"
  "dataset_stats_query \<in> set metadata_statements"
  "k \<in> set collections \<Longrightarrow> candidate_query k \<in> set metadata_statements"
proof -
  have "fst (list_query dv) \<in> {fst (list_query None), fst (list_query (Some ''D''))}"
    by (cases dv) (simp_all add: list_query_def Let_def)
  then show "fst (list_query dv) \<in> set metadata_statements" by (auto simp: metadata_statements_def)
qed (auto simp: metadata_statements_def)

lemma emits_map_list_in: "(\<And>x. x \<in> set xs \<Longrightarrow> emits P (f x)) \<Longrightarrow> emits P (io_map_list f xs)"
  by (induction xs) (simp_all only: io_map_list.simps emits_return emits_bind list.set_intros)

lemma recall_is_schema: "emits (recall_request c (Some s)) m \<Longrightarrow> emits (schema_request c s) m"
  by (erule emits_mono) (simp add: schema_request_def)

lemma inventory_rows: "emits (schema_request c s) (fetch_dataset_rows c ccid)"
  unfolding fetch_dataset_rows_def by (intro metadata_rows in_metadata)

lemma not_found_emits: "emits (schema_request c s) (not_found_hint c ccid dataverse dataset)"
  unfolding not_found_hint_def by (intro emits_bind emits_return inventory_rows)

lemma one_row: "st \<in> set metadata_statements \<Longrightarrow> emits (schema_request c s) (fetch_one c ccid st params)"
  unfolding fetch_one_def by (intro emits_bind emits_return metadata_rows)

lemma probe_emits: "emits (schema_request c s) (probe_empty c ccid dataverse dataset)"
proof -
  have probe: "emits (schema_request c s) (execute c (probe_statement table) (query_defaults ccid))"
    if "table_name dv dataset = Inr table" for dv table
    unfolding plain_params by (rule emits_mono [OF execute_catalog]) (use that in \<open>auto simp: schema_request_def\<close>)
  have "emits (schema_request c s) (io_bind (io_lift (table_name dv dataset)) (\<lambda>table.
      io_bind (execute c (probe_statement table) (query_defaults ccid)) (\<lambda>envelope. io_return (Some envelope))))" for dv
    by (rule emits_lift_bind) (intro emits_bind emits_return probe)
  note asked = this
  show ?thesis
  proof (cases dataverse)
    case (JStr dv)
    show ?thesis unfolding probe_empty_def JStr json.case
      by (rule emits_bind, rule emits_catch, rule asked, rule emits_return)
        (intro emits_option emits_return emits_raise)
  qed (simp_all only: probe_empty_def json.case emits_return)
qed

lemma annotate_emits: "emits (schema_request c s) (annotate_collisions c ccid occ probes ls)"
proof (induction ls arbitrary: probes)
  case (Cons l ls)
  have lift: "emits (schema_request c s) (io_bind (annotate_collisions c ccid occ p ls) (\<lambda>x. io_return (f x)))" for p f
    by (intro emits_bind emits_return Cons.IH)
  show ?case
    by (cases "dget ''dataset'' l")
      (auto simp: Let_def intro!: lift emits_bind probe_emits emits_return simp del: emits_return)
qed (simp only: annotate_collisions.simps emits_return)

lemma sample_reads_emits:
  assumes "1 \<le> n" "n \<le> max_sample_size"
  shows "emits (schema_request c s) (sample_reads c ccid dataverse dataset n)"
proof -
  have sample: "emits (schema_request c s) (execute c (sample_statement table n) (query_defaults ccid))"
    if "table_name dv ds = Inr table" for dv ds table
    unfolding plain_params by (rule emits_mono [OF execute_catalog]) (use that assms in \<open>auto simp: schema_request_def\<close>)
  have "emits (schema_request c s) (io_bind (io_lift (table_name dv ds)) (\<lambda>table.
      io_bind (execute c (sample_statement table n) (query_defaults ccid)) (\<lambda>envelope. io_return (dv, ds, envelope))))" for dv ds
    by (rule emits_lift_bind) (intro emits_bind emits_return sample)
  moreover have "emits (schema_request c s) (resolve_dataset c ccid dataverse dataset)"
    unfolding resolve_dataset_def
    by (intro emits_bind inventory_rows) (simp add: case_prod_unfold emits_raise emits_return split: option.split)
  ultimately show ?thesis unfolding sample_reads_def by (intro emits_bind) auto
qed

section \<open>The requests of each tool\<close>

lemma get_schema_emits [emits_intro]: "emits (schema_request c s) (run_get_schema ck c s u dataverse dataset)"
proof -
  have learned: "emits (schema_request c s) (fetch_memory_notes ck c ccid subjects)" for ccid subjects
    unfolding fetch_memory_notes_def
    by (intro emits_bind emits_return recall_is_schema fetch_note_rows_emits)
  have reads: "emits (schema_request c s) (schema_reads c ccid dataverse dataset)" for ccid
    unfolding schema_reads_def Let_def
    by (intro emits_bind emits_option emits_raise emits_return one_row metadata_rows not_found_emits in_metadata)
  show ?thesis
    unfolding run_get_schema_def Let_def case_prod_unfold
    by (intro tool_try_emits reads emits_if emits_bind emits_return learned)
qed

lemma list_dataverses_emits [emits_intro]: "emits (schema_request c s) (run_list_dataverses c s u)"
  unfolding run_list_dataverses_def Let_def plain_params
  by (intro tool_try_emits emits_bind emits_lift emits_return metadata_request in_metadata)

lemma list_datasets_emits [emits_intro]: "emits (schema_request c s) (run_list_datasets c s u filter_arg offset limit)"
  unfolding run_list_datasets_def Let_def case_prod_unfold
  by (intro tool_try_emits emits_bind emits_lift emits_return metadata_request annotate_emits in_metadata)

lemma describe_emits [emits_intro]: "emits (schema_request c s) (run_describe_dataverse c s u dataverse)"
proof -
  have describe: "emits (schema_request c s) (describe_reads c ccid dataverse)" for ccid
    unfolding describe_reads_def case_prod_unfold
    by (intro emits_bind inventory_rows emits_option emits_raise emits_return metadata_rows in_metadata)
  show ?thesis
    unfolding run_describe_dataverse_def Let_def case_prod_unfold
    by (intro tool_try_emits describe emits_bind emits_lift emits_return)
qed

lemma sample_emits [emits_intro]: "emits (schema_request c s) (run_sample_dataset env c s u dataverse dataset n fmt recall d)"
proof -
  have clamp: "1 \<le> min (max n 1) max_sample_size" "min (max n 1) max_sample_size \<le> max_sample_size"
    by (simp_all add: max_sample_size_def)
  have deliver: "emits (schema_request c s) (deliver_notes ck c ccid subjects rows whole (Some s) r)"
    for ck ccid subjects rows whole r
    by (rule recall_is_schema, rule deliver_emits)
  show ?thesis
    unfolding run_sample_dataset_def Let_def case_prod_unfold
    by (intro emits_bind emits_catch emits_return emits_sum emits_if sample_reads_emits clamp deliver)
qed

lemma dataset_statistics_emits [emits_intro]: "emits (schema_request c s) (run_get_dataset_statistics c s u dataverse dataset user_tag)"
  unfolding run_get_dataset_statistics_def fetch_dataset_stats_def Let_def
  by (intro emits_if emits_bind emits_return metadata_parsed in_metadata)

lemma search_metadata_emits [emits_intro]: "emits (schema_request c s) (run_search_metadata c s u query limit)"
  unfolding run_search_metadata_def candidates_def Let_def
  by (intro emits_if emits_bind emits_return emits_map_list_in metadata_parsed in_metadata)

text \<open>
  C24. The schema tools cannot be steered by the names they are given: whatever names, limits and
  sizes the caller passes and whatever the cluster answers, every request of the seven tools is a
  read-only post of one of the fixed metadata statements, with the names bound as parameters, or
  of the probe or sample template filled with two quoted identifiers and a number of at most 100
  rows, or a read or guarded upsert of the caller's own notes.
\<close>

theorem schema_tools_no_injection:
  "emits (schema_request c s) (run_get_schema ck c s u dataverse dataset)
   \<and> emits (schema_request c s) (run_list_dataverses c s u)
   \<and> emits (schema_request c s) (run_list_datasets c s u filter_arg offset limit)
   \<and> emits (schema_request c s) (run_describe_dataverse c s u dataverse)
   \<and> emits (schema_request c s) (run_sample_dataset env c s u dataverse dataset n fmt recall d)
   \<and> emits (schema_request c s) (run_get_dataset_statistics c s u dataverse dataset user_tag)
   \<and> emits (schema_request c s) (run_search_metadata c s u query limit)"
  by (intro conjI get_schema_emits list_dataverses_emits list_datasets_emits describe_emits sample_emits dataset_statistics_emits search_metadata_emits)

end
