(* ===== verification/Index_Advice.thy ===== *)
theory Index_Advice
  imports Metadata_Search
begin

text \<open>
  Index recommendations for a workload (\<open>tools/recommend_indexes.py\<close>): the engine's own advisor
  first, a scan of the compiled plans where it gives nothing. Client context ids are numbered:
  0 is the one of the catalog reads, the statement at position k uses \<open>2 k + 1\<close> and \<open>2 k + 2\<close>.
\<close>

section \<open>Constants and patterns\<close>

definition max_statements :: nat where "max_statements = 25"
definition max_recommendations :: nat where "max_recommendations = 20"
definition full_scan_weight :: nat where "full_scan_weight = 2"
definition indexed_scan_weight :: nat where "indexed_scan_weight = 1"

definition but :: "string \<Rightarrow> re" where
  "but stops = Plus (Cls (\<lambda>c. c \<notin> set stops))"

definition field_access_re :: re where
  "field_access_re = seqs
     [lit ''field-access-by-name('', but '',()'', lit '','', Star Space,
      Alt (seqs [lit ''AString:'', Star Space, lit ''{'', Cap 1 (but ''}''), lit ''}''])
          (seqs [lit [CHR 0x22], Cap 2 (but [CHR 0x22]), lit [CHR 0x22]]),
      lit '')'']"

definition advise_ddl_re :: re where
  "advise_ddl_re = seqs
     [lit ''ON'', Plus Space, lit ''`'', but ''`'', lit ''`.`'', Cap 1 (but ''`''), lit ''`.`'', Cap 2 (but ''`''),
      lit ''`'', Star Space, lit ''('', Cap 3 (Star (Cls (\<lambda>c. c \<noteq> CHR '')''))), lit '')'']"

section \<open>Skipped statements\<close>

definition skip_record :: "string \<Rightarrow> error_type \<Rightarrow> json \<Rightarrow> dict" where
  "skip_record statement kind message =
     (let p = strip statement in
      [(''statement'', JStr (if 120 < length p then take 117 p @ ''...'' else p)),
       (''errorType'', JStr (error_name kind)), (''reason'', message)])"

definition guard_statement :: "string \<Rightarrow> dict option" where
  "guard_statement statement =
     (let cleaned = strip_set_prefix statement in
      if strip cleaned = [] then Some (skip_record statement INVALID_PARAMETER (JStr ''Empty statement.''))
      else map_option (\<lambda>e. skip_record statement INVALID_PARAMETER (ge_message e)) (check_unsupported_functions cleaned))"

section \<open>The native advisor\<close>

record advice =
  ad_recommended :: "string list"
  ad_current :: "string list"

definition index_statements :: "json \<Rightarrow> string list" where
  "index_statements entries =
     map strip (List.map_filter (\<lambda>e. as_str (jget ''index_statement'' e)) (list_or_empty entries))"

definition advise_info :: "json \<Rightarrow> dict option" where
  "advise_info row = as_dict (jget ''adviseinfo'' (jget ''advice'' row))"

definition parse_advise :: "json \<Rightarrow> advice option" where
  "parse_advise results =
     (case List.map_filter advise_info (list_or_empty results) of
        [] \<Rightarrow> None
      | info # _ \<Rightarrow> Some
          \<lparr>ad_recommended = index_statements (jget ''indexes'' (dget ''recommended_indexes'' info)),
           ad_current = index_statements (dget ''current_indexes'' info)\<rparr>)"

definition advise_statement ::
  "cc_client \<Rightarrow> settings \<Rightarrow> string \<Rightarrow> string \<Rightarrow> string option \<Rightarrow> string option \<Rightarrow> advice option io" where
  "advise_statement c s new_uuid statement dataverse user_tag =
     (let ccid = make_client_context_id (agent_session_id s) user_tag new_uuid in
      io_catch
        (io_bind (execute c (''ADVISE '' @ strip_set_prefix statement) ((query_defaults ccid)\<lparr>qa_dataverse := dataverse\<rparr>))
           (\<lambda>envelope. io_return (parse_advise (dget ''results'' envelope))))
        (\<lambda>_. io_return None))"

definition parse_advise_ddl :: "string \<Rightarrow> string option \<times> string option \<times> string option" where
  "parse_advise_ddl ddl =
     (case re_search advise_ddl_re ddl of
        None \<Rightarrow> (None, None, None)
      | Some m \<Rightarrow>
          let keys = (case match_group 3 m of None \<Rightarrow> [] | Some k \<Rightarrow> k);
              first = strip_by (\<lambda>c. c = CHR ''`'') (strip (hd (split_on '','' keys)))
          in (match_group 1 m, match_group 2 m, if first = [] then None else Some first))"

record native_index =
  nx_dataverse :: "string option"
  nx_dataset :: "string option"
  nx_field :: "string option"
  nx_ddl :: string
  nx_support :: nat

definition accumulate_native :: "(string \<times> native_index) list \<Rightarrow> string \<Rightarrow> (string \<times> native_index) list" where
  "accumulate_native native ddl =
     (let r = (case map_of native ddl of
          Some r \<Rightarrow> r
        | None \<Rightarrow> (let (dv, ds, f) = parse_advise_ddl ddl in
            \<lparr>nx_dataverse = dv, nx_dataset = ds, nx_field = f,
             nx_ddl = (if ends_with ddl '';'' then ddl else ddl @ '';''), nx_support = 0\<rparr>))
      in dict_set ddl (r\<lparr>nx_support := nx_support r + 1\<rparr>) native)"

definition native_dict :: "native_index \<Rightarrow> dict" where
  "native_dict r =
     [(''source'', JStr ''advise''), (''confidence'', JStr ''high''), (''dataverse'', opt_str (nx_dataverse r)),
      (''dataset'', opt_str (nx_dataset r)), (''field'', opt_str (nx_field r)), (''recommendedDDL'', JStr (nx_ddl r)),
      (''supportingStatements'', JInt (int (nx_support r))),
      (''rationale'', JStr (''AsterixDB'' @ [CHR 0x27] @ ''s cost-based advisor (ADVISE) recommends this index for ''
         @ show_nat (nx_support r) @ '' workload statement(s).''))]"

definition native_recommendations :: "(string \<times> native_index) list \<Rightarrow> dict list" where
  "native_recommendations native =
     map native_dict (sort_key (\<lambda>r. (- int (nx_support r), nx_ddl r)) (map snd native))"

section \<open>The scan of a plan\<close>

record observation =
  ob_dataverse :: string
  ob_dataset :: string
  ob_full_scan :: bool
  ob_fields :: "string list"
  ob_predicates :: "string list"

definition accessed_field :: "re_match \<Rightarrow> string" where
  "accessed_field m =
     (case match_group 1 m of
        Some f \<Rightarrow> f
      | None \<Rightarrow> (case match_group 2 m of Some f \<Rightarrow> f | None \<Rightarrow> []))"

definition extract_fields_from_predicates :: "string list \<Rightarrow> string list" where
  "extract_fields_from_predicates predicates =
     dedup_from [] (filter (\<lambda>f. f \<noteq> []) (concat (map (\<lambda>p. map accessed_field (re_finditer field_access_re p)) predicates)))"

text \<open>The stack of the walk, its top first: the last input of an operator is visited next.\<close>

function stack_walk :: "plan_operator list \<Rightarrow> plan_operator list" where
  "stack_walk [] = []"
| "stack_walk (op # stack) = op # stack_walk (rev (po_inputs op) @ stack)"
  by pat_completeness auto
termination
proof (relation "measure (\<lambda>st. sum_list (map size st))")
  fix op :: plan_operator and stack
  have "sum_list (map size (po_inputs op)) < size op"
    by (cases op) (simp add: size_list_conv_sum_list)
  then have "sum_list (map size (rev (po_inputs op) @ stack)) < sum_list (map size (op # stack))"
    by (simp add: rev_map [symmetric])
  then show "(rev (po_inputs op) @ stack, op # stack) \<in> measure (\<lambda>st. sum_list (map size st))" by simp
qed simp

definition all_predicates :: "parsed_plan \<Rightarrow> string list" where
  "all_predicates p = dedup_from [] (concat (map po_predicates (stack_walk [pl_root p])))"

definition scans_fully :: "parsed_plan \<Rightarrow> bool" where
  "scans_fully p \<longleftrightarrow> map_of (pl_counts p) ''data-scan'' \<noteq> None \<and> map_of (pl_counts p) ''unnest-map'' = None"

definition observe :: "parsed_plan \<Rightarrow> parsed_plan option \<Rightarrow> string option \<Rightarrow> observation list" where
  "observe optimized unoptimized dataverse =
     (let datasets = datasets_from_sources (pl_sources optimized) dataverse;
          predicates = all_predicates (case unoptimized of None \<Rightarrow> optimized | Some u \<Rightarrow> u);
          accessed = (if length datasets = 1 then extract_fields_from_predicates predicates else [])
      in map (\<lambda>(dv, ds). \<lparr>ob_dataverse = dv, ob_dataset = ds, ob_full_scan = scans_fully optimized,
                ob_fields = accessed, ob_predicates = predicates\<rparr>) datasets)"

definition analyze_statement ::
  "cc_client \<Rightarrow> settings \<Rightarrow> string \<Rightarrow> string \<Rightarrow> string option \<Rightarrow> string option \<Rightarrow> (dict + observation list) io" where
  "analyze_statement c s new_uuid statement dataverse user_tag =
     (let ccid = make_client_context_id (agent_session_id s) user_tag new_uuid;
          a = (query_defaults ccid)\<lparr>qa_dataverse := dataverse, qa_emit_plan := True, qa_emit_unoptimized := True\<rparr>
      in io_bind (io_catch (io_bind (compile_query c (strip_set_prefix statement) a) (\<lambda>v. io_return (Inr v)))
                   (\<lambda>e. io_return (Inl e))) (\<lambda>compiled.
         case compiled of
           Inl e \<Rightarrow> io_return (Inl (skip_record statement (ge_type e) (ge_message e)))
         | Inr envelope \<Rightarrow> io_bind (io_lift (compile_error envelope)) (\<lambda>problem.
             case problem of
               Some e \<Rightarrow> io_return (Inl (skip_record statement (ge_type e) (ge_message e)))
             | None \<Rightarrow>
                 let plans = dget ''plans'' envelope in
                 io_return (case parse_optimized_plan plans of
                     None \<Rightarrow> Inl (skip_record statement INTERNAL (JStr ''No optimized plan returned.''))
                   | Some optimized \<Rightarrow> Inr (observe optimized (parse_plan plans unoptimized_plan_key) dataverse)))))"

section \<open>Candidates\<close>

record candidate =
  hc_dataverse :: string
  hc_dataset :: string
  hc_field :: "string option"
  hc_score :: nat
  hc_support :: nat
  hc_full_scan :: bool
  hc_predicates :: "string list"

type_synonym candidate_key = "string \<times> string \<times> string option"

type_synonym covered_keys = "((json \<times> json) \<times> string) list"

definition covered_first_keys :: "secondary_index list \<Rightarrow> exn + covered_keys" where
  "covered_first_keys indexes =
     (let leading = filter (\<lambda>i. si_dataverse i \<noteq> JNull \<and> si_dataset i \<noteq> JNull \<and> si_key_fields i \<noteq> []) indexes in
      if list_all (\<lambda>i. hashable (si_dataverse i) \<and> hashable (si_dataset i)) leading
      then Inr (map (\<lambda>i. ((si_dataverse i, si_dataset i), hd (si_key_fields i))) leading)
      else Inl (PyExc ''TypeError''))"

definition is_covered :: "covered_keys \<Rightarrow> string \<Rightarrow> string \<Rightarrow> string \<Rightarrow> bool" where
  "is_covered covered dv ds f \<longleftrightarrow> ((JStr dv, JStr ds), f) \<in> set covered"

definition scan_weight :: "bool \<Rightarrow> nat" where
  "scan_weight full = (if full then full_scan_weight else indexed_scan_weight)"

definition accumulate_candidate ::
  "observation \<Rightarrow> (candidate_key \<times> candidate) list \<Rightarrow> string option \<Rightarrow> (candidate_key \<times> candidate) list" where
  "accumulate_candidate ob cands f =
     (let key = (ob_dataverse ob, ob_dataset ob, f);
          r = (case map_of cands key of
              Some r \<Rightarrow> r
            | None \<Rightarrow> \<lparr>hc_dataverse = ob_dataverse ob, hc_dataset = ob_dataset ob, hc_field = f, hc_score = 0,
                hc_support = 0, hc_full_scan = False, hc_predicates = []\<rparr>)
      in dict_set key (r\<lparr>hc_score := hc_score r + scan_weight (ob_full_scan ob), hc_support := hc_support r + 1,
           hc_full_scan := hc_full_scan r \<or> ob_full_scan ob,
           hc_predicates := hc_predicates r @ dedup_from (hc_predicates r) (ob_predicates ob)\<rparr>) cands)"

definition aggregate_one ::
  "covered_keys \<Rightarrow> (candidate_key \<times> candidate) list \<Rightarrow> observation \<Rightarrow> (candidate_key \<times> candidate) list" where
  "aggregate_one covered cands ob =
     (let novel = filter (\<lambda>f. \<not> is_covered covered (ob_dataverse ob) (ob_dataset ob) f) (ob_fields ob) in
      if novel \<noteq> [] then foldl (accumulate_candidate ob) cands (map Some novel)
      else if ob_full_scan ob \<and> ob_fields ob = [] then accumulate_candidate ob cands None
      else cands)"

definition aggregate :: "observation list \<Rightarrow> covered_keys \<Rightarrow> (candidate_key \<times> candidate) list" where
  "aggregate observations covered = foldl (aggregate_one covered) [] observations"

definition index_name :: "string \<Rightarrow> string \<Rightarrow> string" where
  "index_name dataset f =
     (let safe = strip_by (\<lambda>c. c = CHR ''_'') (re_sub (Plus (Cls (\<lambda>c. \<not> is_digit c \<and> \<not> is_alpha_ascii c))) ''_'' f)
      in ''idx_'' @ dataset @ ''_'' @ (if safe = [] then ''field'' else safe))"

definition finalize :: "candidate \<Rightarrow> dict" where
  "finalize r =
     (let place = hc_dataverse r @ ''.'' @ hc_dataset r in
      [(''source'', JStr ''heuristic''), (''dataverse'', JStr (hc_dataverse r)), (''dataset'', JStr (hc_dataset r)),
       (''field'', opt_str (hc_field r)), (''score'', JInt (int (hc_score r))),
       (''supportingStatements'', JInt (int (hc_support r))), (''usesFullScan'', JBool (hc_full_scan r)),
       (''predicates'', JList (map JStr (hc_predicates r)))]
      @ (case hc_field r of
           Some f \<Rightarrow>
             [(''recommendedDDL'', JStr (''CREATE INDEX '' @ index_name (hc_dataset r) f @ '' ON '' @ place @ ''('' @ f @ '');'')),
              (''rationale'', JStr (f @ '' is filtered by '' @ show_nat (hc_support r) @ '' workload statement(s) on '' @ place
                 @ '' with no covering secondary index''
                 @ (if hc_full_scan r then ''; those queries fall back to a full scan.'' else ''.''))),
              (''confidence'', JStr (if hc_full_scan r then ''high'' else ''medium''))]
         | None \<Rightarrow>
             [(''recommendedDDL'', JNull),
              (''rationale'', JStr (place @ '' is full-scanned by '' @ show_nat (hc_support r)
                 @ '' workload statement(s) but no filter field could be attributed from the plan. Inspect the WHERE clause and index the most selective equality/range field.'')),
              (''confidence'', JStr ''low'')]))"

definition rank_heuristic :: "(candidate_key \<times> candidate) list \<Rightarrow> dict list" where
  "rank_heuristic cands =
     map finalize
       (sort_key (\<lambda>r. (- int (hc_score r), hc_dataverse r, hc_dataset r,
                       case hc_field r of Some f \<Rightarrow> (if f = [] then ''~'' else f) | None \<Rightarrow> ''~''))
          (map snd cands))"

definition merge_recommendations :: "(string \<times> native_index) list \<Rightarrow> dict list \<Rightarrow> dict list" where
  "merge_recommendations native heuristic = take max_recommendations (native_recommendations native @ heuristic)"

section \<open>The tool\<close>

definition mark_one :: "(string \<times> string) list \<Rightarrow> dict \<Rightarrow> dict" where
  "mark_one analyzed d =
     (case (dget ''dataverse'' d, dget ''dataset'' d) of
        (JStr dv, JStr ds) \<Rightarrow> dict_set ''analyzed'' (JBool ((dv, ds) \<in> set analyzed)) d
      | _ \<Rightarrow> d)"

definition unanalyzed_of :: "(string \<times> string) list \<Rightarrow> dict list \<Rightarrow> string list" where
  "unanalyzed_of analyzed ds =
     List.map_filter (\<lambda>d. case (dget ''dataverse'' d, dget ''dataset'' d) of
        (JStr dv, JStr n) \<Rightarrow> if (dv, n) \<in> set analyzed then None else Some (dv @ ''.'' @ n)
      | _ \<Rightarrow> None) ds"

record advice_state =
  av_native :: "(string \<times> native_index) list"
  av_current :: "string list"
  av_observations :: "observation list"
  av_analyzed :: nat
  av_native_used :: nat
  av_skipped :: "dict list"

definition advice_start :: advice_state where
  "advice_start = \<lparr>av_native = [], av_current = [], av_observations = [], av_analyzed = 0, av_native_used = 0,
     av_skipped = []\<rparr>"

definition advise_step ::
  "cc_client \<Rightarrow> settings \<Rightarrow> (nat \<Rightarrow> string) \<Rightarrow> string option \<Rightarrow> string option \<Rightarrow> advice_state \<Rightarrow> nat \<times> string \<Rightarrow> advice_state io" where
  "advise_step c s uuids dataverse user_tag st p =
     (case guard_statement (snd p) of
        Some sk \<Rightarrow> io_return (st\<lparr>av_skipped := av_skipped st @ [sk]\<rparr>)
      | None \<Rightarrow>
          io_bind (advise_statement c s (uuids (2 * fst p + 1)) (snd p) dataverse user_tag) (\<lambda>given.
          case given of
            Some a \<Rightarrow> io_return (st\<lparr>av_analyzed := av_analyzed st + 1, av_native_used := av_native_used st + 1,
                av_current := av_current st @ ad_current a,
                av_native := foldl accumulate_native (av_native st) (ad_recommended a)\<rparr>)
          | None \<Rightarrow>
              io_bind (analyze_statement c s (uuids (2 * fst p + 2)) (snd p) dataverse user_tag) (\<lambda>outcome.
              io_return (case outcome of
                  Inl sk \<Rightarrow> st\<lparr>av_skipped := av_skipped st @ [sk]\<rparr>
                | Inr obs \<Rightarrow> st\<lparr>av_analyzed := av_analyzed st + 1, av_observations := av_observations st @ obs\<rparr>))))"

definition advice_method :: "nat \<Rightarrow> nat \<Rightarrow> string" where
  "advice_method native_used analyzed =
     (if native_used = analyzed \<and> analyzed \<noteq> 0 then ''advise'' else if native_used = 0 then ''heuristic'' else ''mixed'')"

definition advice_summary :: "nat \<Rightarrow> nat \<Rightarrow> nat \<Rightarrow> string \<Rightarrow> string" where
  "advice_summary n analyzed submitted m =
     (let via = (if m = ''advise'' then ''the native ADVISE advisor'' else if m = ''heuristic'' then ''a heuristic plan scan''
                 else ''the native advisor with a heuristic fallback'');
          from_part = '' from '' @ show_nat analyzed @ ''/'' @ show_nat submitted @ '' analyzed statement(s) via '' @ via
      in if n = 0
         then ''No index recommendations'' @ from_part @ '': existing indexes already cover the workload'' @ [CHR 0x27] @ ''s filters.''
         else show_nat n @ '' index recommendation(s)'' @ from_part
              @ ''. Each recommendedDDL is advice '' @ em_dash @ '' the gateway will not run it.'')"

definition statistics_note :: string where
  "statistics_note =
     ''Some recommended datasets have no ANALYZE sample, so the advisor and the cost-based optimizer planned them without statistics ''
     @ em_dash @ '' treat their advice as lower-confidence. Run ANALYZE DATASET on each, then re-run. Check any dataset with get_dataset_statistics.''"

definition advice_result ::
  "string option \<Rightarrow> nat \<Rightarrow> nat \<Rightarrow> covered_keys \<Rightarrow> (string \<times> string) list \<Rightarrow> advice_state \<Rightarrow> tool_result" where
  "advice_result dataverse submitted known covered analyzed_datasets st =
     (let merged = merge_recommendations (av_native st) (rank_heuristic (aggregate (av_observations st) covered));
          gaps = unanalyzed_of analyzed_datasets merged;
          m = advice_method (av_native_used st) (av_analyzed st)
      in tool_ok (advice_summary (length merged) (av_analyzed st) submitted m)
           ([(''status'', JStr ''success''), (''method'', JStr m), (''dataverseFilter'', opt_str dataverse),
             (''statementsSubmitted'', JInt (int submitted)), (''statementsAnalyzed'', JInt (int (av_analyzed st))),
             (''nativeAdviseStatements'', JInt (int (av_native_used st))), (''indexesKnown'', JInt (int known)),
             (''currentIndexes'', JList (map JStr (sort (remdups (av_current st))))),
             (''recommendationCount'', JInt (int (length merged))),
             (''recommendations'', JList (map (\<lambda>d. JDict (mark_one analyzed_datasets d)) merged)),
             (''skipped'', JList (map JDict (av_skipped st)))]
            @ (if gaps = [] then []
               else [(''unanalyzedDatasets'', JList (map JStr (sort (remdups gaps)))),
                     (''statisticsNote'', JStr statistics_note)])))"

definition run_recommend_indexes ::
  "cc_client \<Rightarrow> settings \<Rightarrow> (nat \<Rightarrow> string) \<Rightarrow> string list \<Rightarrow> string option \<Rightarrow> string option \<Rightarrow> tool_result io" where
  "run_recommend_indexes c s uuids statements dataverse user_tag =
     (if statements = [] then io_return (tool_error (gerr INVALID_PARAMETER
           ''Provide at least one SQL++ SELECT statement in `statements`.''))
      else if max_statements < length statements then io_return (tool_error (gerr INVALID_PARAMETER
           (''Too many statements ('' @ show_nat (length statements) @ ''); pass at most '' @ show_nat max_statements @ ''.'')))
      else
        let ccid = make_client_context_id (agent_session_id s) user_tag (uuids 0) in
        io_bind (fetch_secondary_indexes c ccid dataverse) (\<lambda>indexes.
        io_bind (io_lift (covered_first_keys indexes)) (\<lambda>covered.
        io_bind (io_fold (advise_step c s uuids dataverse user_tag) advice_start (enumerate 0 statements)) (\<lambda>st.
        io_bind (fetch_analyzed_datasets c ccid dataverse) (\<lambda>analyzed_datasets.
        io_return (advice_result dataverse (length statements) (length indexes) covered analyzed_datasets st))))))"

section \<open>Support counts of the advisor\<close>

definition native_count :: "(string \<times> native_index) list \<Rightarrow> string \<Rightarrow> nat" where
  "native_count native ddl = (case map_of native ddl of None \<Rightarrow> 0 | Some r \<Rightarrow> nx_support r)"

text \<open>
  The support of an index is the number of times the advisor named it: a statement whose advice
  lists an index twice counts as two supporting statements.
\<close>

lemma native_support_counts_ddls:
  "native_count (foldl accumulate_native native ddls) ddl = native_count native ddl + count_list ddls ddl"
proof (induction ddls arbitrary: native)
  case (Cons d ddls)
  have "native_count (accumulate_native native d) ddl = native_count native ddl + (if ddl = d then 1 else 0)"
    by (simp add: native_count_def accumulate_native_def Let_def case_prod_unfold split: option.split)
  then show ?case using Cons.IH by simp
qed simp

section \<open>Scores of the candidates\<close>

text \<open>What one observation contributes: its uncovered fields, or the bare dataset.\<close>

definition contributions :: "covered_keys \<Rightarrow> observation \<Rightarrow> string option list" where
  "contributions covered ob =
     (let novel = filter (\<lambda>f. \<not> is_covered covered (ob_dataverse ob) (ob_dataset ob) f) (ob_fields ob) in
      if novel \<noteq> [] then map Some novel else if ob_full_scan ob \<and> ob_fields ob = [] then [None] else [])"

lemma aggregate_one_contributions:
  "aggregate_one covered cands ob = foldl (accumulate_candidate ob) cands (contributions covered ob)"
  by (simp add: aggregate_one_def contributions_def Let_def)

type_synonym contribution = "observation \<times> string option"

definition contribution_key :: "contribution \<Rightarrow> candidate_key" where
  "contribution_key e = (ob_dataverse (fst e), ob_dataset (fst e), snd e)"

definition tally :: "contribution list \<Rightarrow> candidate option \<Rightarrow> bool" where
  "tally es found \<longleftrightarrow>
     (case found of
        None \<Rightarrow> es = []
      | Some r \<Rightarrow> es \<noteq> [] \<and> hc_support r = length es
          \<and> hc_score r = sum_list (map (\<lambda>e. scan_weight (ob_full_scan (fst e))) es)
          \<and> (hc_full_scan r \<longleftrightarrow> (\<exists>e \<in> set es. ob_full_scan (fst e))))"

definition tallied :: "(candidate_key \<times> candidate) list \<Rightarrow> contribution list \<Rightarrow> bool" where
  "tallied cands es \<longleftrightarrow> (\<forall>key. tally (filter (\<lambda>e. contribution_key e = key) es) (map_of cands key))"

lemma tallied_step: "tallied cands es \<Longrightarrow> tallied (accumulate_candidate ob cands f) (es @ [(ob, f)])"
  unfolding tallied_def
proof
  fix key
  assume "\<forall>key. tally (filter (\<lambda>e. contribution_key e = key) es) (map_of cands key)"
  then have t: "tally (filter (\<lambda>e. contribution_key e = key) es) (map_of cands key)" ..
  show "tally (filter (\<lambda>e. contribution_key e = key) (es @ [(ob, f)])) (map_of (accumulate_candidate ob cands f) key)"
  proof (cases "contribution_key (ob, f) = key")
    case True
    then have key: "(ob_dataverse ob, ob_dataset ob, f) = key" by (simp add: contribution_key_def)
    define before where "before = filter (\<lambda>e. contribution_key e = key) es"
    have "tally before (map_of cands key)" using t by (simp add: before_def)
    then have "tally (before @ [(ob, f)]) (map_of (accumulate_candidate ob cands f) key)"
      by (cases "map_of cands key") (auto simp: tally_def accumulate_candidate_def Let_def key)
    then show ?thesis using True by (simp add: before_def)
  next
    case False
    then have "map_of (accumulate_candidate ob cands f) key = map_of cands key"
      by (auto simp: accumulate_candidate_def contribution_key_def Let_def)
    then show ?thesis using t False by simp
  qed
qed

lemma tallied_foldl:
  "tallied cands es \<Longrightarrow> tallied (foldl (accumulate_candidate ob) cands fs) (es @ map (Pair ob) fs)"
proof (induction fs arbitrary: cands es)
  case (Cons f fs)
  from Cons.IH [OF tallied_step [OF Cons.prems]] show ?case by simp
qed simp

definition contributed :: "covered_keys \<Rightarrow> observation list \<Rightarrow> contribution list" where
  "contributed covered obs = concat (map (\<lambda>ob. map (Pair ob) (contributions covered ob)) obs)"

lemma tallied_aggregate: "tallied (aggregate obs covered) (contributed covered obs)"
proof -
  have "tallied cands es \<Longrightarrow> tallied (foldl (aggregate_one covered) cands obs) (es @ contributed covered obs)" for cands es
  proof (induction obs arbitrary: cands es)
    case (Cons ob obs)
    from Cons.IH [OF tallied_foldl [OF Cons.prems]]
    show ?case by (simp add: contributed_def aggregate_one_contributions)
  qed (simp add: contributed_def)
  from this [of "[]" "[]"] show ?thesis by (simp add: aggregate_def tallied_def tally_def)
qed

text \<open>
  When a compiled statement asks for an index: it touches one dataset only, its predicates access
  the field by name, and no secondary index on the dataset leads with that field.
\<close>

definition wants_index ::
  "covered_keys \<Rightarrow> string option \<Rightarrow> string \<Rightarrow> string \<Rightarrow> string \<Rightarrow> parsed_plan \<times> parsed_plan option \<Rightarrow> bool" where
  "wants_index covered dflt dv ds f p \<longleftrightarrow>
     datasets_from_sources (pl_sources (fst p)) dflt = [(dv, ds)]
     \<and> f \<in> set (extract_fields_from_predicates (all_predicates (case snd p of None \<Rightarrow> fst p | Some u \<Rightarrow> u)))
     \<and> \<not> is_covered covered dv ds f"

lemma filter_eq_distinct: "distinct xs \<Longrightarrow> filter (\<lambda>x. x = a) xs = (if a \<in> set xs then [a] else [])"
  by (induction xs) auto

lemma contributions_some:
  "filter (\<lambda>g. g = Some f) (contributions covered ob) =
     map Some (filter (\<lambda>g. g = f) (filter (\<lambda>g. \<not> is_covered covered (ob_dataverse ob) (ob_dataset ob) g) (ob_fields ob)))"
proof -
  let ?novel = "filter (\<lambda>g. \<not> is_covered covered (ob_dataverse ob) (ob_dataset ob) g) (ob_fields ob)"
  have "contributions covered ob = map Some ?novel \<or> ?novel = [] \<and> set (contributions covered ob) \<subseteq> {None}"
    by (auto simp: contributions_def Let_def)
  then show ?thesis
  proof
    assume "?novel = [] \<and> set (contributions covered ob) \<subseteq> {None}"
    then show ?thesis by (auto simp: filter_empty_conv)
  qed (simp add: filter_map o_def)
qed

lemma wanting_contributions:
  "map (\<lambda>e. ob_full_scan (fst e)) (filter (\<lambda>e. contribution_key e = (dv, ds, Some f)) (contributed covered (observe o1 u1 dflt)))
   = (if wants_index covered dflt dv ds f (o1, u1) then [scans_fully o1] else [])"
proof (cases "\<exists>pair. datasets_from_sources (pl_sources o1) dflt = [pair]")
  case True
  then obtain a b where ab: "datasets_from_sources (pl_sources o1) dflt = [(a, b)]" by auto
  let ?fs = "extract_fields_from_predicates (all_predicates (case u1 of None \<Rightarrow> o1 | Some u \<Rightarrow> u))"
  let ?novel = "filter (\<lambda>g. \<not> is_covered covered a b g) ?fs"
  have one: "filter (\<lambda>g. g = f) ?novel = (if f \<in> set ?novel then [f] else [])"
    by (rule filter_eq_distinct) (simp add: extract_fields_from_predicates_def)
  show ?thesis
  proof (cases "(a, b) = (dv, ds)")
    case True
    define ob where "ob = \<lparr>ob_dataverse = a, ob_dataset = b, ob_full_scan = scans_fully o1, ob_fields = ?fs,
        ob_predicates = all_predicates (case u1 of None \<Rightarrow> o1 | Some u \<Rightarrow> u)\<rparr>"
    have "contributed covered (observe o1 u1 dflt) = map (Pair ob) (contributions covered ob)"
      by (simp add: observe_def ab contributed_def Let_def ob_def)
    moreover have "contribution_key (ob, g) = (dv, ds, Some f) \<longleftrightarrow> g = Some f" for g
      using True by (simp add: contribution_key_def ob_def)
    ultimately have "filter (\<lambda>e. contribution_key e = (dv, ds, Some f)) (contributed covered (observe o1 u1 dflt))
        = map (Pair ob) (filter (\<lambda>g. g = Some f) (contributions covered ob))"
      by (simp add: filter_map o_def)
    also have "\<dots> = map (Pair ob) (map Some (if f \<in> set ?novel then [f] else []))"
      using one by (simp only: contributions_some) (simp add: ob_def)
    finally show ?thesis using True by (simp add: wants_index_def ab ob_def cong: option.case_cong)
  next
    case False
    then show ?thesis
      by (auto simp: observe_def ab contributed_def contributions_def contribution_key_def Let_def wants_index_def
          filter_empty_conv)
  qed
next
  case False
  then have "length (datasets_from_sources (pl_sources o1) dflt) \<noteq> 1"
    by (auto simp: length_Suc_conv)
  then have "\<forall>e \<in> set (contributed covered (observe o1 u1 dflt)). snd e = None"
    by (auto simp: observe_def contributed_def contributions_def Let_def)
  then have "filter (\<lambda>e. contribution_key e = (dv, ds, Some f)) (contributed covered (observe o1 u1 dflt)) = []"
    by (auto simp: filter_empty_conv contribution_key_def)
  then show ?thesis using False by (auto simp: wants_index_def)
qed

definition workload_observations ::
  "string option \<Rightarrow> (parsed_plan \<times> parsed_plan option) list \<Rightarrow> observation list" where
  "workload_observations dflt plans = concat (map (\<lambda>p. observe (fst p) (snd p) dflt) plans)"

lemma contributed_append: "contributed covered (a @ b) = contributed covered a @ contributed covered b"
  by (simp add: contributed_def)

lemma wanting_plans:
  "map (\<lambda>e. ob_full_scan (fst e)) (filter (\<lambda>e. contribution_key e = (dv, ds, Some f))
       (contributed covered (workload_observations dflt plans)))
   = map (\<lambda>p. scans_fully (fst p)) (filter (wants_index covered dflt dv ds f) plans)"
proof (induction plans)
  case (Cons p plans)
  show ?case using Cons.IH wanting_contributions [of dv ds f covered "fst p" "snd p" dflt]
    by (simp add: workload_observations_def contributed_append)
qed (simp add: workload_observations_def contributed_def)

text \<open>
  C33. A field index is recommended from plans exactly when it is wanted. Over any workload of
  compiled statements and any catalog of indexes, the candidate on a field of a dataset exists
  if and only if some statement touches only that dataset, accesses that field by name in its
  predicates, and no secondary index of the dataset leads with it. Its support is the number of
  such statements, its score counts a full scan twice, and it is marked as a full scan exactly
  when one of them scans the dataset without an index.
\<close>

theorem index_candidates_exact:
  "let wanting = filter (wants_index covered dflt dv ds f) plans in
   case map_of (aggregate (workload_observations dflt plans) covered) (dv, ds, Some f) of
     None \<Rightarrow> wanting = []
   | Some r \<Rightarrow> wanting \<noteq> [] \<and> hc_support r = length wanting
       \<and> hc_score r = length wanting + length (filter (\<lambda>p. scans_fully (fst p)) wanting)
       \<and> (hc_full_scan r \<longleftrightarrow> (\<exists>p \<in> set wanting. scans_fully (fst p)))"
proof -
  let ?w = "filter (wants_index covered dflt dv ds f) plans"
  let ?es = "filter (\<lambda>e. contribution_key e = (dv, ds, Some f)) (contributed covered (workload_observations dflt plans))"
  have scans: "map (\<lambda>e. ob_full_scan (fst e)) ?es = map (\<lambda>p. scans_fully (fst p)) ?w" by (rule wanting_plans)
  have len: "length ?es = length ?w" using arg_cong [OF scans, of length] by simp
  have weights: "sum_list (map scan_weight bs) = length bs + length (filter id bs)" for bs
    by (induction bs) (simp_all add: scan_weight_def full_scan_weight_def indexed_scan_weight_def)
  have "map (\<lambda>e. scan_weight (ob_full_scan (fst e))) ?es = map scan_weight (map (\<lambda>e. ob_full_scan (fst e)) ?es)"
    by simp
  also have "\<dots> = map scan_weight (map (\<lambda>p. scans_fully (fst p)) ?w)" by (simp only: scans)
  finally have score: "sum_list (map (\<lambda>e. scan_weight (ob_full_scan (fst e))) ?es)
      = length ?w + length (filter (\<lambda>p. scans_fully (fst p)) ?w)"
    by (simp only: weights) (simp add: filter_map o_def)
  have full: "(\<exists>e \<in> set ?es. ob_full_scan (fst e)) \<longleftrightarrow> (\<exists>p \<in> set ?w. scans_fully (fst p))"
  proof -
    have "True \<in> set (map (\<lambda>e. ob_full_scan (fst e)) ?es) \<longleftrightarrow> True \<in> set (map (\<lambda>p. scans_fully (fst p)) ?w)"
      by (simp only: scans)
    then show ?thesis by auto
  qed
  have "tally ?es (map_of (aggregate (workload_observations dflt plans) covered) (dv, ds, Some f))"
    using tallied_aggregate [of "workload_observations dflt plans" covered] by (simp add: tallied_def)
  then show ?thesis using len score full
    by (auto simp: tally_def Let_def split: option.splits)
qed

section \<open>The report accounts for every statement\<close>

lemma yields_fold_counted:
  assumes "\<And>k st x. P k st \<Longrightarrow> yields (P (Suc k)) (f st x)" and "P k st"
  shows "yields (P (k + length xs)) (io_fold f st xs)"
  using assms(2)
proof (induction xs arbitrary: k st)
  case (Cons x xs)
  show ?case
    unfolding io_fold.simps
  proof (rule yields_bind)
    show "yields (P (Suc k)) (f st x)" using Cons.prems by (rule assms(1))
  next
    fix st' assume "P (Suc k) st'"
    from Cons.IH [OF this] show "yields (P (k + length (x # xs))) (io_fold f st' xs)" by simp
  qed
qed (simp add: yields_return)

definition accounted :: "nat \<Rightarrow> advice_state \<Rightarrow> bool" where
  "accounted k st \<longleftrightarrow> av_analyzed st + length (av_skipped st) = k \<and> av_native_used st \<le> av_analyzed st
     \<and> (av_native_used st = 0 \<longrightarrow> av_native st = []) \<and> (av_native_used st = av_analyzed st \<longrightarrow> av_observations st = [])"

lemma advise_step_accounted:
  assumes "accounted k st"
  shows "yields (accounted (Suc k)) (advise_step c s uuids dataverse user_tag st x)"
proof -
  have skip: "accounted (Suc k) (st\<lparr>av_skipped := av_skipped st @ [sk]\<rparr>)" for sk
    using assms by (simp add: accounted_def)
  have native: "accounted (Suc k) (st\<lparr>av_analyzed := av_analyzed st + 1, av_native_used := av_native_used st + 1,
      av_current := cur, av_native := nat\<rparr>)" for cur nat
    using assms by (simp add: accounted_def)
  have scan: "accounted (Suc k) (st\<lparr>av_analyzed := Suc (av_analyzed st), av_observations := obs\<rparr>)" for obs
    using assms by (simp add: accounted_def)
  show ?thesis
    unfolding advise_step_def
    by (intro yields_option yields_bind_any yields_return skip native)
      (auto intro: skip scan split: sum.split)
qed

lemma aggregate_Nil: "aggregate [] covered = []"
  by (simp add: aggregate_def)

lemma native_sources:
  "d \<in> set (native_recommendations native) \<Longrightarrow> dget ''source'' d = JStr ''advise''"
  by (auto simp: native_recommendations_def native_dict_def)

lemma heuristic_sources: "d \<in> set (rank_heuristic cands) \<Longrightarrow> dget ''source'' d = JStr ''heuristic''"
  by (auto simp: rank_heuristic_def finalize_def Let_def)

lemma native_support_sorted:
  "sorted_wrt (\<lambda>d e. \<exists>m n. dget ''supportingStatements'' d = JInt m \<and> dget ''supportingStatements'' e = JInt n \<and> n \<le> m)
     (native_recommendations native)"
proof -
  let ?key = "\<lambda>r. (- int (nx_support r), nx_ddl r)"
  have "sorted (map ?key (sort_key ?key (map snd native)))" by simp
  then have "sorted_wrt (\<lambda>p q. ?key p \<le> ?key q) (sort_key ?key (map snd native))" by (simp add: sorted_wrt_map)
  then have "sorted_wrt (\<lambda>p q. nx_support q \<le> nx_support p) (sort_key ?key (map snd native))"
    by (rule sorted_wrt_mono_rel [rotated]) (auto simp: less_eq_prod_def)
  then show ?thesis by (simp add: native_recommendations_def sorted_wrt_map native_dict_def)
qed

lemma mark_one_keeps: "k \<noteq> ''analyzed'' \<Longrightarrow> dget k (mark_one analyzed d) = dget k d"
  by (simp add: mark_one_def split: prod.split json.split)

text \<open>What a report promises about a workload of \<open>n\<close> statements.\<close>

definition advice_report :: "nat \<Rightarrow> dict \<Rightarrow> bool" where
  "advice_report n d \<longleftrightarrow>
     (\<exists>natives scanned analyzed native_used skipped.
        dget ''recommendations'' d = JList (map JDict (natives @ scanned))
      \<and> dget ''recommendationCount'' d = JInt (int (length natives + length scanned))
      \<and> length natives + length scanned \<le> max_recommendations
      \<and> (\<forall>r \<in> set natives. dget ''source'' r = JStr ''advise'')
      \<and> (\<forall>r \<in> set scanned. dget ''source'' r = JStr ''heuristic'')
      \<and> sorted_wrt (\<lambda>d e. \<exists>m n. dget ''supportingStatements'' d = JInt m
            \<and> dget ''supportingStatements'' e = JInt n \<and> n \<le> m) natives
      \<and> dget ''statementsSubmitted'' d = JInt (int n)
      \<and> dget ''statementsAnalyzed'' d = JInt (int analyzed)
      \<and> dget ''nativeAdviseStatements'' d = JInt (int native_used)
      \<and> dget ''skipped'' d = JList (map JDict skipped)
      \<and> analyzed + length skipped = n \<and> native_used \<le> analyzed
      \<and> (native_used = 0 \<longrightarrow> natives = []) \<and> (native_used = analyzed \<longrightarrow> scanned = [])
      \<and> dget ''method'' d = JStr (advice_method native_used analyzed))"

lemma advice_result_report:
  assumes "accounted n st"
  shows "\<not> tr_is_error (advice_result dataverse n known covered analyzed st)
    \<and> advice_report n (tr_structured (advice_result dataverse n known covered analyzed st))"
proof -
  let ?native = "native_recommendations (av_native st)"
  let ?heuristic = "rank_heuristic (aggregate (av_observations st) covered)"
  let ?natives = "map (mark_one analyzed) (take max_recommendations ?native)"
  let ?scanned = "map (mark_one analyzed) (take (max_recommendations - length ?native) ?heuristic)"
  let ?d = "tr_structured (advice_result dataverse n known covered analyzed st)"
  have recs: "dget ''recommendations'' ?d = JList (map JDict (?natives @ ?scanned))"
    by (simp add: advice_result_def Let_def tool_ok_def merge_recommendations_def o_def)
  have len: "length ?natives + length ?scanned = length (merge_recommendations (av_native st) ?heuristic)"
    by (simp add: merge_recommendations_def)
  have sorted: "sorted_wrt (\<lambda>d e. \<exists>m n. dget ''supportingStatements'' d = JInt m
        \<and> dget ''supportingStatements'' e = JInt n \<and> n \<le> m) ?natives"
    using native_support_sorted by (simp add: sorted_wrt_map mark_one_keeps sorted_wrt_take)
  have sources: "\<forall>r \<in> set ?natives. dget ''source'' r = JStr ''advise''"
    "\<forall>r \<in> set ?scanned. dget ''source'' r = JStr ''heuristic''"
    using native_sources heuristic_sources by (auto simp: mark_one_keeps dest!: in_set_takeD)
  have none: "av_native_used st = 0 \<longrightarrow> ?natives = []" "av_native_used st = av_analyzed st \<longrightarrow> ?scanned = []"
    using assms by (auto simp: accounted_def native_recommendations_def aggregate_Nil rank_heuristic_def)
  have "advice_report n ?d"
    unfolding advice_report_def
  proof (rule exI [where x = "?natives"], rule exI [where x = "?scanned"], rule exI [where x = "av_analyzed st"],
      rule exI [where x = "av_native_used st"], rule exI [where x = "av_skipped st"], intro conjI recs sources sorted none)
    show "dget ''recommendationCount'' ?d = JInt (int (length ?natives + length ?scanned))"
      unfolding len by (simp add: advice_result_def Let_def tool_ok_def)
    show "length ?natives + length ?scanned \<le> max_recommendations"
      unfolding len by (simp add: merge_recommendations_def)
    show "av_analyzed st + length (av_skipped st) = n" "av_native_used st \<le> av_analyzed st"
      using assms by (simp_all add: accounted_def)
  qed (simp_all add: advice_result_def Let_def tool_ok_def)
  then show ?thesis by (simp add: advice_result_def Let_def tool_ok_def)
qed

text \<open>
  C34. The report on a workload accounts for every statement. Whatever the cluster answers, the
  tool is refused exactly for an empty or an oversized workload; otherwise each statement is
  either analysed or listed as skipped, at most 20 indexes are recommended, those of the engine's
  advisor first and by falling support, and the named method tells which of the two paths were
  taken.
\<close>

theorem recommend_indexes_accounted:
  "yields (\<lambda>r. if statements = [] \<or> max_statements < length statements
       then tr_is_error r \<and> dget ''errorType'' (tr_structured r) = JStr (error_name INVALID_PARAMETER)
       else \<not> tr_is_error r \<and> advice_report (length statements) (tr_structured r))
     (run_recommend_indexes c s uuids statements dataverse user_tag)"
proof (cases "statements = [] \<or> max_statements < length statements")
  case True
  then show ?thesis
    by (auto simp: run_recommend_indexes_def tool_error_def to_structured_def intro!: yields_return)
next
  case False
  have start: "accounted 0 advice_start" by (simp add: accounted_def advice_start_def)
  have loop: "yields (accounted (length statements))
      (io_fold (advise_step c s uuids dataverse user_tag) advice_start (enumerate 0 statements))"
    using yields_fold_counted [where P = accounted and f = "advise_step c s uuids dataverse user_tag"
        and xs = "enumerate 0 statements", OF advise_step_accounted start] by simp
  have "yields (\<lambda>r. \<not> tr_is_error r \<and> advice_report (length statements) (tr_structured r))
     (run_recommend_indexes c s uuids statements dataverse user_tag)"
    unfolding run_recommend_indexes_def Let_def
    using False by (simp, intro yields_bind_any yields_bind [OF loop] yields_return advice_result_report)
  then show ?thesis by (rule yields_mono) (use False in simp)
qed

section \<open>What the tool sends\<close>

definition advice_request :: "cc_client \<Rightarrow> string list \<Rightarrow> request \<Rightarrow> bool" where
  "advice_request c statements r \<longleftrightarrow>
     (\<exists>q. catalog_request c q r \<and> (starts_with q ''SELECT VALUE i FROM Metadata.`Index`''
         \<or> starts_with q analyzed_datasets_query))
     \<or> (\<exists>st \<in> set statements. guard_statement st = None
          \<and> (catalog_request c (''ADVISE '' @ strip_set_prefix st) r \<or> compile_request c (strip_set_prefix st) r))"

lemma advise_step_emits:
  assumes "snd p \<in> set statements"
  shows "emits (advice_request c statements) (advise_step c s uuids dataverse user_tag st p)"
proof (cases "guard_statement (snd p)")
  case None
  have advise: "emits (advice_request c statements) (advise_statement c s u (snd p) dataverse user_tag)" for u
    unfolding advise_statement_def Let_def
    by (intro emits_catch emits_bind emits_return emits_mono [OF execute_plain])
      (use None assms in \<open>auto simp: query_defaults_def advice_request_def\<close>)
  have scan: "emits (advice_request c statements) (analyze_statement c s u (snd p) dataverse user_tag)" for u
    unfolding analyze_statement_def Let_def
    by (intro emits_bind emits_catch emits_return emits_lift emits_sum emits_option emits_mono [OF compile_query_emits])
      (use None assms in \<open>auto simp: advice_request_def\<close>)
  show ?thesis
    unfolding advise_step_def by (intro emits_option emits_bind emits_return advise scan)
qed (simp add: advise_step_def del: io_run, rule emits_return)

lemma emits_fold_in:
  "(\<And>st x. x \<in> set xs \<Longrightarrow> emits P (f st x)) \<Longrightarrow> emits P (io_fold f st xs)"
  by (induction xs arbitrary: st) (auto intro!: emits_bind emits_return simp del: io_run)

lemma recommend_indexes_emits: "emits (advice_request c statements) (run_recommend_indexes c s uuids statements dataverse user_tag)"
proof -
  have catalog: "emits (advice_request c statements) (fetch_parsed c ccid q params parse)"
    if "starts_with q ''SELECT VALUE i FROM Metadata.`Index`'' \<or> starts_with q analyzed_datasets_query" for ccid q params parse
    unfolding fetch_parsed_def
    by (intro emits_bind emits_catch emits_return emits_option emits_raise emits_mono [OF execute_catalog])
      (use that in \<open>auto simp: advice_request_def\<close>)
  have indexes: "emits (advice_request c statements) (fetch_secondary_indexes c ccid dataverse)" for ccid
    unfolding fetch_secondary_indexes_def
    by (intro emits_option catalog) (simp_all add: all_secondary_indexes_query_def)
  have analyzed: "emits (advice_request c statements) (fetch_analyzed_datasets c ccid dataverse)" for ccid
    unfolding fetch_analyzed_datasets_def
    by (intro emits_option catalog) (simp_all add: prefix_def)
  have steps: "emits (advice_request c statements)
      (io_fold (advise_step c s uuids dataverse user_tag) advice_start (enumerate 0 statements))"
    by (intro emits_fold_in advise_step_emits) (metis enumerate_eq_zip set_zip_rightD prod.collapse)
  show ?thesis
    unfolding run_recommend_indexes_def Let_def
    by (intro emits_if emits_bind emits_return emits_lift indexes analyzed steps)
qed

text \<open>
  Recommending never changes the cluster: every request is a read-only post of one of the
  catalog queries, of \<open>ADVISE\<close> in front of a submitted statement that passed the guard, or of such
  a statement for compilation only. No recommended DDL is ever sent.
\<close>

theorem recommend_indexes_reads:
  "emits (\<lambda>r. advice_request c statements r \<and> read_only r)
     (run_recommend_indexes c s uuids statements dataverse user_tag)"
  by (rule emits_mono [OF recommend_indexes_emits])
    (auto simp: advice_request_def catalog_request_def dest: compile_request_read_only)


end
