(* ===== verification/Health_Check.thy ===== *)
theory Health_Check
  imports Schema_Tools
begin

text \<open>
  The advisory scan of the catalog (\<open>tools/health_check.py\<close>): duplicate indexes, indexes that are
  a key prefix of another one, and row datasets that could be stored by columns. Rows are grouped
  by the dataverse and dataset they name; a name that cannot be a key raises.
\<close>

definition system_dataverse :: string where "system_dataverse = ''Metadata''"

definition checks :: "string list" where
  "checks = [''DUPLICATE_INDEX'', ''REDUNDANT_INDEX'', ''ROW_DATASET_COLUMNAR_CANDIDATE'']"

definition all_indexes_query :: string where
  "all_indexes_query = ''SELECT VALUE i FROM Metadata.`Index` i WHERE '' @ exclude_sample_sql @ '';''"

definition fetch_index_rows :: "cc_client \<Rightarrow> string \<Rightarrow> dict list io" where
  "fetch_index_rows c ccid =
     io_bind (execute c all_indexes_query (query_defaults ccid)) (\<lambda>envelope. io_lift (result_rows envelope))"

definition in_health_scope :: "string option \<Rightarrow> dict \<Rightarrow> bool" where
  "in_health_scope dataverse row \<longleftrightarrow>
     dget ''DataverseName'' row \<noteq> JStr system_dataverse
     \<and> (case dataverse of None \<Rightarrow> True | Some dv \<Rightarrow> dget ''DataverseName'' row = JStr dv)"

section \<open>Secondary indexes by dataset\<close>

record index_entry =
  ie_name :: json
  ie_structure :: string
  ie_keys :: "string list"

type_synonym dataset_key = "json \<times> json"

definition index_entry_of :: "dict \<Rightarrow> (dataset_key \<times> index_entry) option" where
  "index_entry_of row =
     (let keys = normalize_search_key (dget ''SearchKey'' row) in
      if truthy (dget ''IsPrimary'' row) \<or> keys = [] then None
      else Some ((dget ''DataverseName'' row, dget ''DatasetName'' row),
        \<lparr>ie_name = dget ''IndexName'' row, ie_structure = py_str (dget_or ''IndexStructure'' (JStr []) row),
         ie_keys = keys\<rparr>))"

definition group_secondary_indexes :: "dict list \<Rightarrow> exn + (dataset_key \<times> index_entry list) list" where
  "group_secondary_indexes rows =
     (let entries = List.map_filter index_entry_of rows in
      if list_all (\<lambda>p. hashable (fst (fst p)) \<and> hashable (snd (fst p))) entries
      then Inr (grouped entries) else Inl (PyExc ''TypeError''))"

definition key_list :: "string list \<Rightarrow> json" where
  "key_list keys = JList (map JStr keys)"

definition place_of :: "dataset_key \<Rightarrow> string" where
  "place_of k = py_str (fst k) @ ''.'' @ py_str (snd k)"

section \<open>The checks\<close>

definition duplicate_finding :: "dataset_key \<Rightarrow> string \<times> string list \<Rightarrow> string list \<Rightarrow> dict" where
  "duplicate_finding k sig names =
     [(''check'', JStr ''DUPLICATE_INDEX''), (''severity'', JStr ''high''), (''dataverse'', fst k), (''dataset'', snd k),
      (''indexes'', JList (map JStr names)), (''indexType'', JStr (fst sig)), (''keyFields'', key_list (snd sig)),
      (''message'', JStr (''Indexes '' @ join '', '' names @ '' on '' @ place_of k @ '' are duplicates ('' @ fst sig
         @ '' on '' @ py_str (key_list (snd sig)) @ ''). Keep one and drop the rest to cut write and storage cost.''))]"

text \<open>The names of one signature are sorted and joined: two or more must all be texts.\<close>

definition duplicates_of_signature ::
  "dataset_key \<Rightarrow> (string \<times> string list) \<times> json list \<Rightarrow> exn + dict list" where
  "duplicates_of_signature k g =
     (if length (snd g) < 2 then Inr []
      else if list_all (\<lambda>v. as_str v \<noteq> None) (snd g)
           then Inr [duplicate_finding k (fst g) (sort (List.map_filter as_str (snd g)))]
           else Inl (PyExc ''TypeError''))"

definition signatures :: "index_entry list \<Rightarrow> ((string \<times> string list) \<times> json list) list" where
  "signatures es = grouped (map (\<lambda>e. ((ie_structure e, ie_keys e), ie_name e)) es)"

definition find_duplicate_indexes :: "dict list \<Rightarrow> exn + dict list" where
  "find_duplicate_indexes rows =
     sum_bind (group_secondary_indexes rows) (\<lambda>groups.
     sum_bind (sum_map_list (\<lambda>g. sum_bind (sum_map_list (duplicates_of_signature (fst g)) (signatures (snd g)))
                                   (\<lambda>fs. Inr (concat fs))) groups) (\<lambda>fs. Inr (concat fs)))"

definition covers_entry :: "index_entry \<Rightarrow> index_entry \<Rightarrow> bool" where
  "covers_entry shorter other \<longleftrightarrow>
     ie_name other \<noteq> ie_name shorter \<and> ie_structure other = ie_structure shorter
     \<and> length (ie_keys shorter) < length (ie_keys other)
     \<and> take (length (ie_keys shorter)) (ie_keys other) = ie_keys shorter"

definition prefix_cover :: "index_entry \<Rightarrow> index_entry list \<Rightarrow> index_entry option" where
  "prefix_cover shorter es = List.find (covers_entry shorter) es"

definition redundant_finding :: "dataset_key \<Rightarrow> index_entry \<Rightarrow> index_entry \<Rightarrow> dict" where
  "redundant_finding k shorter other =
     [(''check'', JStr ''REDUNDANT_INDEX''), (''severity'', JStr ''medium''), (''dataverse'', fst k), (''dataset'', snd k),
      (''index'', ie_name shorter), (''coveredBy'', ie_name other), (''indexType'', JStr (ie_structure shorter)),
      (''keyFields'', key_list (ie_keys shorter)),
      (''message'', JStr (''Index '' @ py_str (ie_name shorter) @ '' on '' @ place_of k @ '' (''
         @ py_str (key_list (ie_keys shorter)) @ '') is a key-prefix of '' @ py_str (ie_name other) @ '' (''
         @ py_str (key_list (ie_keys other))
         @ ''); the longer index can serve the same prefix lookups, so the shorter one may be redundant.''))]"

definition redundant_in :: "dataset_key \<times> index_entry list \<Rightarrow> dict list" where
  "redundant_in g =
     List.map_filter (\<lambda>shorter. map_option (redundant_finding (fst g) shorter) (prefix_cover shorter (snd g))) (snd g)"

definition find_redundant_indexes :: "dict list \<Rightarrow> exn + dict list" where
  "find_redundant_indexes rows =
     sum_bind (group_secondary_indexes rows) (\<lambda>groups. Inr (concat (map redundant_in groups)))"

definition is_row_dataset :: "dict \<Rightarrow> bool" where
  "is_row_dataset row \<longleftrightarrow>
     upper (py_str (dget_or ''DatasetType'' (JStr []) row)) = ''INTERNAL''
     \<and> dget ''format'' (extract_dataset_format_info row) = JStr ''ROW''"

definition columnar_finding :: "dict \<Rightarrow> dict" where
  "columnar_finding row =
     (let k = (dget ''DataverseName'' row, dget ''DatasetName'' row) in
      [(''check'', JStr ''ROW_DATASET_COLUMNAR_CANDIDATE''), (''severity'', JStr ''low''),
       (''dataverse'', fst k), (''dataset'', snd k),
       (''message'', JStr (place_of k
          @ '' is stored ROW. If it is queried with analytical scans over a few columns, COLUMNAR storage can cut I/O. Advisory only ''
          @ em_dash @ '' weigh it against point-lookup and write patterns before recreating the dataset.''))])"

definition find_columnar_candidates :: "dict list \<Rightarrow> dict list" where
  "find_columnar_candidates datasets = map columnar_finding (filter is_row_dataset datasets)"

definition severity_rank :: "json \<Rightarrow> nat" where
  "severity_rank severity =
     (if severity = JStr ''high'' then 0 else if severity = JStr ''medium'' then 1
      else if severity = JStr ''low'' then 2 else 99)"

definition finding_order :: "dict \<Rightarrow> nat \<times> string \<times> string \<times> string" where
  "finding_order f =
     (severity_rank (dget ''severity'' f), py_str (dget ''dataverse'' f), py_str (dget ''dataset'' f),
      py_str (dget ''check'' f))"

definition assemble_findings :: "dict list \<Rightarrow> dict list \<Rightarrow> exn + dict list" where
  "assemble_findings datasets indexes =
     sum_bind (find_duplicate_indexes indexes) (\<lambda>duplicates.
     sum_bind (find_redundant_indexes indexes) (\<lambda>redundant.
     Inr (sort_key finding_order (duplicates @ redundant @ find_columnar_candidates datasets))))"

section \<open>The tool\<close>

definition health_summary :: "string option \<Rightarrow> nat \<Rightarrow> nat \<Rightarrow> nat \<Rightarrow> string" where
  "health_summary dataverse findings datasets indexes =
     (let scope = (case dataverse of None \<Rightarrow> ''all dataverses'' | Some dv \<Rightarrow> (if dv = [] then ''all dataverses'' else dv));
          scanned = show_nat datasets @ '' dataset(s) and '' @ show_nat indexes @ '' index(es)''
      in ''Health check on '' @ scope @ '': ''
         @ (if findings = 0 then ''no schema-level issues found across '' @ scanned @ ''.''
            else show_nat findings @ '' finding(s) across '' @ scanned @ ''. See findings for severity and fixes.''))"

definition run_database_health_check :: "cc_client \<Rightarrow> settings \<Rightarrow> string \<Rightarrow> string option \<Rightarrow> tool_result io" where
  "run_database_health_check c s new_uuid dataverse =
     (let ccid = make_client_context_id (agent_session_id s) (Some ''database_health_check'') new_uuid in
      tool_try (io_bind (fetch_dataset_rows c ccid) (\<lambda>ds. io_bind (fetch_index_rows c ccid) (\<lambda>ix. io_return (ds, ix))))
        (\<lambda>(dataset_rows, index_rows).
          let datasets = filter (in_health_scope dataverse) dataset_rows;
              indexes = filter (in_health_scope dataverse) index_rows
          in io_bind (io_lift (assemble_findings datasets indexes)) (\<lambda>findings.
             io_return (tool_ok (health_summary dataverse (length findings) (length datasets) (length indexes))
               [(''status'', JStr ''success''), (''dataverseFilter'', opt_str dataverse),
                (''datasetsScanned'', JInt (int (length datasets))), (''indexesScanned'', JInt (int (length indexes))),
                (''findingsCount'', JInt (int (length findings))), (''checks'', JList (map JStr checks)),
                (''findings'', JList (map JDict findings))]))))"

section \<open>Every finding is justified and every problem is found\<close>

text \<open>The secondary indexes of a dataset, read directly off the rows.\<close>

definition entries_on :: "dict list \<Rightarrow> dataset_key \<Rightarrow> index_entry list" where
  "entries_on rows k = map snd (filter (\<lambda>p. fst p = k) (List.map_filter index_entry_of rows))"

lemma group_entries:
  "group_secondary_indexes rows = Inr groups \<Longrightarrow> (k, es) \<in> set groups \<longleftrightarrow> es = entries_on rows k \<and> es \<noteq> []"
  by (auto simp: group_secondary_indexes_def Let_def entries_on_def in_grouped split: if_splits)

definition okset :: "exn + 'a list \<Rightarrow> 'a set" where
  "okset r = (case r of Inl _ \<Rightarrow> {} | Inr xs \<Rightarrow> set xs)"

lemma okset_Inr [simp]: "okset (Inr xs) = set xs"
  by (simp add: okset_def)

lemma sum_map_list_concat:
  "sum_bind (sum_map_list f xs) (\<lambda>ys. Inr (concat ys)) = Inr zs \<Longrightarrow>
     (\<forall>x \<in> set xs. \<exists>y. f x = Inr y) \<and> set zs = (\<Union>x \<in> set xs. okset (f x))"
proof (induction xs arbitrary: zs)
  case (Cons x xs)
  then obtain y ys where y: "f x = Inr y" and ys: "sum_map_list f xs = Inr ys" and zs: "zs = y @ concat ys"
    by (auto simp: sum_bind_def split: sum.splits)
  have "sum_bind (sum_map_list f xs) (\<lambda>ys. Inr (concat ys)) = Inr (concat ys)" using ys by (simp add: sum_bind_def)
  from Cons.IH [OF this] show ?case using y zs by simp
qed (simp add: sum_bind_def)

lemma signature_names:
  "(sg, names) \<in> set (signatures es) \<longleftrightarrow>
     names = map ie_name (filter (\<lambda>e. (ie_structure e, ie_keys e) = sg) es) \<and> names \<noteq> []"
  by (simp add: signatures_def in_grouped filter_map o_def)

definition same_signature :: "index_entry \<Rightarrow> index_entry \<Rightarrow> bool" where
  "same_signature a b \<longleftrightarrow> ie_structure a = ie_structure b \<and> ie_keys a = ie_keys b"

lemma all_texts: "list_all (\<lambda>v. as_str v \<noteq> None) vs \<longleftrightarrow> (\<exists>names. vs = map JStr names)"
proof (induction vs)
  case (Cons v vs)
  then show ?case by (cases v) (auto simp: Cons_eq_map_conv)
qed simp

lemma map_JStr_eq: "map JStr xs = map JStr ys \<longleftrightarrow> xs = ys"
  by (rule inj_map_eq_map) (simp add: inj_on_def)

lemma texts_back: "List.map_filter as_str (map JStr names) = names"
  by (induction names) (simp_all add: map_filter_simps)

lemma duplicates_of_one:
  "okset (duplicates_of_signature k g) =
     {f. \<exists>names. snd g = map JStr names \<and> 2 \<le> length names \<and> f = duplicate_finding k (fst g) (sort names)}"
proof (cases "\<exists>names. snd g = map JStr names")
  case True
  then show ?thesis
    using all_texts [of "snd g"] by (auto simp: duplicates_of_signature_def texts_back map_JStr_eq simp del: not_None_eq)
next
  case False
  then show ?thesis
    using all_texts [of "snd g"] by (auto simp: duplicates_of_signature_def okset_def simp del: not_None_eq)
qed

lemma signature_of_entry:
  "map ie_name (filter (same_signature e) es) = map ie_name (filter (\<lambda>x. (ie_structure x, ie_keys x) = (ie_structure e, ie_keys e)) es)"
  by (rule arg_cong [where f = "map ie_name"], rule filter_cong) (auto simp: same_signature_def)

lemma duplicates_found:
  assumes "find_duplicate_indexes rows = Inr fs"
  shows "f \<in> set fs \<longleftrightarrow> (\<exists>k e names. e \<in> set (entries_on rows k)
      \<and> map JStr names = map ie_name (filter (same_signature e) (entries_on rows k))
      \<and> 2 \<le> length names \<and> f = duplicate_finding k (ie_structure e, ie_keys e) (sort names))"
proof -
  obtain groups where g: "group_secondary_indexes rows = Inr groups"
    using assms by (auto simp: find_duplicate_indexes_def sum_bind_def split: sum.splits)
  define per where "per = (\<lambda>g. sum_bind (sum_map_list (duplicates_of_signature (fst g)) (signatures (snd g)))
      (\<lambda>fs. Inr (concat fs)) :: exn + dict list)"
  have "sum_bind (sum_map_list per groups) (\<lambda>fs. Inr (concat fs)) = Inr fs"
    using assms by (simp add: find_duplicate_indexes_def g per_def)
  from sum_map_list_concat [OF this]
  have ok: "\<And>g. g \<in> set groups \<Longrightarrow> \<exists>y. per g = Inr y" and fs: "set fs = (\<Union>g \<in> set groups. okset (per g))" by auto
  have per: "okset (per g) = (\<Union>sg \<in> set (signatures (snd g)). okset (duplicates_of_signature (fst g) sg))"
    if g: "g \<in> set groups" for g
  proof -
    obtain y where "per g = Inr y" using ok [OF g] by blast
    then show ?thesis using sum_map_list_concat [of "duplicates_of_signature (fst g)" "signatures (snd g)" y]
      by (simp add: per_def)
  qed
  have "f \<in> set fs \<longleftrightarrow> (\<exists>k es sg vs. (k, es) \<in> set groups \<and> (sg, vs) \<in> set (signatures es)
      \<and> (\<exists>names. vs = map JStr names \<and> 2 \<le> length names \<and> f = duplicate_finding k sg (sort names)))"
  proof -
    have "set fs = (\<Union>g \<in> set groups. \<Union>sg \<in> set (signatures (snd g)). okset (duplicates_of_signature (fst g) sg))"
      unfolding fs using per by simp
    then show ?thesis by (simp add: duplicates_of_one Bex_def split_paired_Ex)
  qed
  also have "\<dots> \<longleftrightarrow> (\<exists>k e names. e \<in> set (entries_on rows k)
      \<and> map JStr names = map ie_name (filter (same_signature e) (entries_on rows k))
      \<and> 2 \<le> length names \<and> f = duplicate_finding k (ie_structure e, ie_keys e) (sort names))" (is "?l \<longleftrightarrow> ?r")
  proof
    assume ?l
    then obtain k es sg vs names where "(k, es) \<in> set groups" "(sg, vs) \<in> set (signatures es)" "vs = map JStr names"
      and names: "2 \<le> length names" "f = duplicate_finding k sg (sort names)" by blast
    then have n: "map JStr names = map ie_name (filter (\<lambda>x. (ie_structure x, ie_keys x) = sg) (entries_on rows k))"
      "2 \<le> length names" "f = duplicate_finding k sg (sort names)"
      by (simp_all add: group_entries [OF g] signature_names)
    then have "filter (\<lambda>x. (ie_structure x, ie_keys x) = sg) (entries_on rows k) \<noteq> []" by auto
    then obtain e where e: "e \<in> set (entries_on rows k)" "sg = (ie_structure e, ie_keys e)"
      by (auto simp: filter_empty_conv)
    show ?r using n e(1) unfolding e(2) signature_of_entry by blast
  next
    assume ?r
    then obtain k e names where e: "e \<in> set (entries_on rows k)"
      and n: "map JStr names = map ie_name (filter (\<lambda>x. (ie_structure x, ie_keys x) = (ie_structure e, ie_keys e)) (entries_on rows k))"
      "2 \<le> length names" "f = duplicate_finding k (ie_structure e, ie_keys e) (sort names)"
      unfolding signature_of_entry by blast
    have "entries_on rows k \<noteq> []" "map JStr names \<noteq> []" using e n(2) by auto
    then have "(k, entries_on rows k) \<in> set groups"
      "((ie_structure e, ie_keys e), map JStr names) \<in> set (signatures (entries_on rows k))"
      using n(1) by (simp_all add: group_entries [OF g] signature_names)
    then show ?l using n(2,3) by blast
  qed
  finally show ?thesis .
qed

lemma redundant_found:
  assumes "find_redundant_indexes rows = Inr fs"
  shows "f \<in> set fs \<longleftrightarrow> (\<exists>k e other. e \<in> set (entries_on rows k)
      \<and> prefix_cover e (entries_on rows k) = Some other \<and> f = redundant_finding k e other)"
proof -
  obtain groups where g: "group_secondary_indexes rows = Inr groups" and fs: "fs = concat (map redundant_in groups)"
    using assms by (auto simp: find_redundant_indexes_def sum_bind_def split: sum.splits)
  have "f \<in> set fs \<longleftrightarrow> (\<exists>k es. (k, es) \<in> set groups \<and> f \<in> set (redundant_in (k, es)))"
    unfolding fs by (auto simp: Bex_def)
  also have "\<dots> \<longleftrightarrow> (\<exists>k. f \<in> set (redundant_in (k, entries_on rows k)))"
  proof -
    have "f \<in> set (redundant_in (k, es)) \<Longrightarrow> es \<noteq> []" for k es by (auto simp: redundant_in_def map_filter_simps)
    then show ?thesis unfolding group_entries [OF g] by blast
  qed
  finally show ?thesis by (auto simp: redundant_in_def in_map_filter)
qed


text \<open>What may be reported: the three kinds of finding, each with its ground.\<close>

definition duplicate_ground :: "dict list \<Rightarrow> dict \<Rightarrow> bool" where
  "duplicate_ground indexes f \<longleftrightarrow>
     (\<exists>k e names. e \<in> set (entries_on indexes k)
        \<and> map JStr names = map ie_name (filter (same_signature e) (entries_on indexes k))
        \<and> 2 \<le> length names \<and> f = duplicate_finding k (ie_structure e, ie_keys e) (sort names))"

definition redundant_ground :: "dict list \<Rightarrow> dict \<Rightarrow> bool" where
  "redundant_ground indexes f \<longleftrightarrow>
     (\<exists>k e other before after. e \<in> set (entries_on indexes k)
        \<and> entries_on indexes k = before @ other # after \<and> (\<forall>o1 \<in> set before. \<not> covers_entry e o1)
        \<and> ie_name other \<noteq> ie_name e \<and> ie_structure other = ie_structure e
        \<and> strict_prefix (ie_keys e) (ie_keys other) \<and> f = redundant_finding k e other)"

definition columnar_ground :: "dict list \<Rightarrow> dict \<Rightarrow> bool" where
  "columnar_ground datasets f \<longleftrightarrow> (\<exists>row \<in> set datasets. is_row_dataset row \<and> f = columnar_finding row)"

lemma covers_entry_prefix:
  "covers_entry e other \<longleftrightarrow> ie_name other \<noteq> ie_name e \<and> ie_structure other = ie_structure e
     \<and> strict_prefix (ie_keys e) (ie_keys other)"
proof -
  have "length a < length b \<and> take (length a) b = a \<longleftrightarrow> strict_prefix a b" for a b :: "string list"
  proof
    assume "length a < length b \<and> take (length a) b = a"
    then have "b = a @ drop (length a) b" "drop (length a) b \<noteq> []" by (metis append_take_drop_id, simp)
    then show "strict_prefix a b" by (metis prefixI strict_prefixI append_self_conv)
  next
    assume "strict_prefix a b"
    then show "length a < length b \<and> take (length a) b = a"
      by (auto simp: strict_prefix_def prefix_def)
  qed
  then show ?thesis by (auto simp: covers_entry_def)
qed

lemma prefix_cover_split:
  "prefix_cover e es = Some other \<longleftrightarrow>
     (\<exists>before after. es = before @ other # after \<and> covers_entry e other \<and> (\<forall>o1 \<in> set before. \<not> covers_entry e o1))"
proof
  show "\<exists>before after. es = before @ other # after \<and> covers_entry e other \<and> (\<forall>o1 \<in> set before. \<not> covers_entry e o1)"
    if "prefix_cover e es = Some other"
    using that unfolding prefix_cover_def
  proof (induction es)
    case (Cons x es)
    show ?case
    proof (cases "covers_entry e x")
      case True
      then show ?thesis using Cons.prems by (intro exI [where x = "[]"] exI [where x = es]) simp
    next
      case False
      then obtain before after where "es = before @ other # after" "covers_entry e other"
        "\<forall>o1 \<in> set before. \<not> covers_entry e o1" using Cons by auto
      then show ?thesis using False by (intro exI [where x = "x # before"] exI [where x = after]) simp
    qed
  qed simp
next
  have "List.find (covers_entry e) (before @ other # after) = Some other"
    if "covers_entry e other" "\<forall>o1 \<in> set before. \<not> covers_entry e o1" for before after
    using that by (induction before) auto
  then show "prefix_cover e es = Some other"
    if "\<exists>before after. es = before @ other # after \<and> covers_entry e other \<and> (\<forall>o1 \<in> set before. \<not> covers_entry e o1)"
    using that unfolding prefix_cover_def by blast
qed

lemma group_error: "group_secondary_indexes rows = Inl x \<Longrightarrow> x = PyExc ''TypeError''"
  by (auto simp: group_secondary_indexes_def Let_def split: if_splits)

lemma sum_map_error: "sum_map_list f xs = Inl e \<Longrightarrow> \<exists>x \<in> set xs. f x = Inl e"
  by (induction xs) (auto simp: sum_bind_def split: sum.splits)

lemma duplicates_error:
  assumes "find_duplicate_indexes rows = Inl e" shows "e = PyExc ''TypeError''"
proof (cases "group_secondary_indexes rows")
  case (Inl x)
  then show ?thesis using assms group_error by (simp add: find_duplicate_indexes_def)
next
  case (Inr groups)
  then obtain g where "sum_map_list (duplicates_of_signature (fst g)) (signatures (snd g)) = Inl e"
    using assms by (auto simp: find_duplicate_indexes_def sum_bind_def split: sum.splits dest!: sum_map_error)
  from sum_map_error [OF this] show ?thesis by (auto simp: duplicates_of_signature_def split: if_splits)
qed

lemma findings_error: "assemble_findings datasets indexes = Inl e \<Longrightarrow> e = PyExc ''TypeError''"
  using duplicates_error group_error
  by (auto simp: assemble_findings_def find_redundant_indexes_def sum_bind_def split: sum.splits)

text \<open>
  C35. The health check reports every problem the metadata can prove, nothing else, and the worst
  first. For any rows of the catalog, a finding is listed if and only if it is a group of two or
  more secondary indexes of one dataset with the same structure and key fields, an index whose
  keys are a strict prefix of those of another index of the same structure on that dataset, or an
  internal dataset stored by rows; the list is ordered by severity, then place, then kind of check.
\<close>

theorem health_findings_exact:
  "case assemble_findings datasets indexes of
     Inl e \<Rightarrow> e = PyExc ''TypeError''
   | Inr fs \<Rightarrow> sorted (map finding_order fs)
       \<and> set fs = {f. duplicate_ground indexes f \<or> redundant_ground indexes f \<or> columnar_ground datasets f}"
proof (cases "assemble_findings datasets indexes")
  case (Inl e)
  then show ?thesis using findings_error by simp
next
  case (Inr fs)
  then obtain ds rs where ds: "find_duplicate_indexes indexes = Inr ds" and rs: "find_redundant_indexes indexes = Inr rs"
    and fs: "fs = sort_key finding_order (ds @ rs @ find_columnar_candidates datasets)"
    by (auto simp: assemble_findings_def sum_bind_def split: sum.splits)
  have "f \<in> set ds \<longleftrightarrow> duplicate_ground indexes f" for f
    unfolding duplicates_found [OF ds] duplicate_ground_def ..
  moreover have "f \<in> set rs \<longleftrightarrow> redundant_ground indexes f" for f
    unfolding redundant_found [OF rs] redundant_ground_def prefix_cover_split covers_entry_prefix by blast
  moreover have "f \<in> set (find_columnar_candidates datasets) \<longleftrightarrow> columnar_ground datasets f" for f
    by (auto simp: find_columnar_candidates_def columnar_ground_def)
  ultimately show ?thesis using Inr fs by auto
qed

text \<open>The system catalog is never reported on.\<close>

lemma health_skips_system:
  "row \<in> set (filter (in_health_scope dataverse) rows) \<Longrightarrow> dget ''DataverseName'' row \<noteq> JStr ''Metadata''"
  by (simp add: in_health_scope_def system_dataverse_def)

end
