(* ===== verification/Reference_Data.thy ===== *)
theory Reference_Data
  imports Py_Value
begin

text \<open>
  The curated reference texts shipped inside the gateway (\<open>resources/reference.py\<close>) with the subset
  of built-in functions they list (\<open>builtins_catalog.py\<close>).
\<close>

definition reference_version :: string where "reference_version = ''1.0''"

definition wrap_reference :: "string \<Rightarrow> dict \<Rightarrow> dict" where
  "wrap_reference kind payload =
     dict_merge [(''reference'', JStr kind), (''version'', JStr reference_version)] payload"

record builtin_function =
  bf_name :: string
  bf_category :: string
  bf_summary :: string

definition all_builtins :: "builtin_function list" where
  "all_builtins =
     map (\<lambda>(n, k, d). \<lparr>bf_name = n, bf_category = k, bf_summary = d\<rparr>)
       [(''count'', ''aggregate'', ''Count of non-null items in a group.''),
        (''sum'', ''aggregate'', ''Sum of numeric items.''),
        (''avg'', ''aggregate'', ''Arithmetic mean of numeric items.''),
        (''min'', ''aggregate'', ''Minimum item.''),
        (''max'', ''aggregate'', ''Maximum item.''),
        (''stddev_samp'', ''aggregate'', ''Sample standard deviation.''),
        (''stddev_pop'', ''aggregate'', ''Population standard deviation.''),
        (''var_samp'', ''aggregate'', ''Sample variance.''),
        (''var_pop'', ''aggregate'', ''Population variance.''),
        (''array_agg'', ''aggregate'', ''Collect group items into an array.''),
        (''length'', ''string'', ''Length of a string.''),
        (''lowercase'', ''string'', ''Lowercase a string.''),
        (''uppercase'', ''string'', ''Uppercase a string.''),
        (''substr'', ''string'', ''Substring by position/length.''),
        (''trim'', ''string'', ''Trim surrounding whitespace/characters.''),
        (''contains'', ''string'', ''Whether a string contains a substring.''),
        (''string_concat'', ''string'', ''Concatenate an array of strings.''),
        (''split'', ''string'', ''Split a string into an array on a separator.''),
        (''regexp_contains'', ''string'', ''Whether a string matches a regex.''),
        (''abs'', ''numeric'', ''Absolute value.''),
        (''ceil'', ''numeric'', ''Ceiling.''),
        (''floor'', ''numeric'', ''Floor.''),
        (''round'', ''numeric'', ''Round to nearest.''),
        (''sqrt'', ''numeric'', ''Square root.''),
        (''power'', ''numeric'', ''Raise to a power.''),
        (''current_datetime'', ''datetime'', ''Current datetime.''),
        (''datetime'', ''datetime'', ''Construct a datetime from a string.''),
        (''get_year'', ''datetime'', ''Year component of a date/datetime.''),
        (''get_month'', ''datetime'', ''Month component of a date/datetime.''),
        (''get_day'', ''datetime'', ''Day component of a date/datetime.''),
        (''array_length'', ''array'', ''Length of an array.''),
        (''array_sort'', ''array'', ''Sort an array.''),
        (''array_distinct'', ''array'', ''Distinct items of an array.''),
        (''array_contains'', ''array'', ''Whether an array contains a value.''),
        (''object_names'', ''object'', ''Field names of an object.''),
        (''object_values'', ''object'', ''Field values of an object.''),
        (''object_remove'', ''object'', ''Object without a named field.''),
        (''is_null'', ''type'', ''Whether a value is null.''),
        (''is_missing'', ''type'', ''Whether a value is missing.''),
        (''is_unknown'', ''type'', ''Whether a value is null or missing.''),
        (''coalesce'', ''conditional'', ''First non-null/non-missing argument.''),
        (''if_null'', ''conditional'', ''Second argument when the first is null.''),
        (''to_string'', ''type'', ''Cast a value to string.''),
        (''to_number'', ''type'', ''Cast a value to number.'')]"

definition read_builtin_functions :: dict where
  "read_builtin_functions = wrap_reference ''builtin-functions''
     [(''note'', JStr ''Curated subset of AsterixDB built-ins. Use list_functions for UDFs.''),
      (''functions'', JList (map (\<lambda>b. JDict [(''name'', JStr (bf_name b)), (''category'', JStr (bf_category b)),
         (''summary'', JStr (bf_summary b))]) all_builtins))]"

definition read_sqlpp_syntax :: dict where
  "read_sqlpp_syntax = wrap_reference ''sqlpp-syntax''
     [(''rules'', JList [JStr ''Qualify datasets as Dataverse.Dataset (do not backtick the whole dotted name).'',
        JStr (''Backtick reserved-word identifiers, including field names and aliases '' @ em_dash @ '' e.g. d.`time`, d.`type`, AS `value`. Common reserved words: value, type, time, order, group, user, '' @ ''key.''),
        JStr ''SELECT VALUE expr returns bare values; SELECT a, b returns objects.'',
        JStr ''Always include a LIMIT on exploratory SELECTs.'',
        JStr ''Nested fields use dot-notation: d.address.city.'',
        JStr ''Flatten arrays with UNNEST: FROM ds AS d UNNEST d.arr AS item.'',
        JStr ''GROUP BY groups rows; filter groups with HAVING, rows with WHERE.'',
        JStr ''Use named parameters ($name) instead of splicing literals.'',
        JStr ''Pass tuning knobs via the compilerParameters argument, never a SET prefix.'']),
      (''clauseOrder'', JStr ''SELECT ... FROM ... [UNNEST] ... WHERE ... GROUP BY ... HAVING ... ORDER BY ... LIMIT ... OFFSET ...'')]"

definition read_index_types :: dict where
  "read_index_types = wrap_reference ''index-types''
     [(''indexes'', JList [JDict [(''type'', JStr ''BTREE''),
          (''use'', JStr ''Equality and range predicates on scalar fields.'')],
        JDict [(''type'', JStr ''RTREE''),
          (''use'', JStr ''Spatial predicates on geometry/point fields.'')],
        JDict [(''type'', JStr ''KEYWORD / NGRAM (inverted)''),
          (''use'', JStr ''Full-text / fuzzy string search (contains, similarity).'')],
        JDict [(''type'', JStr ''PRIMARY''),
          (''use'', JStr ''Implicit on the primary key; point lookups by key.'')]]),
      (''hint'', JStr ''Use check_index_usage to see whether a query uses an available index.'')]"

definition read_type_system :: dict where
  "read_type_system = wrap_reference ''type-system''
     [(''primitives'', JList [JStr ''boolean'',
        JStr ''tinyint'',
        JStr ''smallint'',
        JStr ''integer'',
        JStr ''bigint'',
        JStr ''float'',
        JStr ''double'',
        JStr ''string'',
        JStr ''date'',
        JStr ''time'',
        JStr ''datetime'',
        JStr ''duration'',
        JStr ''interval'',
        JStr ''uuid'',
        JStr ''binary'']),
      (''collections'', JList [JStr ''array ([...])'',
        JStr ''multiset ({{...}})'',
        JStr ''object ({...})'']),
      (''openVsClosed'', JStr (''CLOSED types fix the fields; OPEN types allow extra undeclared fields. Sample the data to discover undeclared '' @ ''fields on OPEN datasets.'')),
      (''unknowns'', JStr ''MISSING (absent field) and NULL differ; MISSING = MISSING is never true.'')]"

definition read_error_codes :: dict where
  "read_error_codes = wrap_reference ''error-codes''
     [(''codes'', JList [JDict [(''code'', JStr ''ASX1001/ASX1002''),
          (''meaning'', JStr ''Syntax / parse error.'')],
        JDict [(''code'', JStr ''ASX1063''),
          (''meaning'', JStr ''A readonly query cannot contain a DML statement.'')],
        JDict [(''code'', JStr ''ASX1073''),
          (''meaning'', JStr ''Type mismatch in an expression.'')],
        JDict [(''code'', JStr ''ASX1074''),
          (''meaning'', JStr ''Ambiguous alias reference; qualify columns.'')],
        JDict [(''code'', JStr ''ASX1077''),
          (''meaning'', JStr ''Cannot find dataset/dataverse by that name.'')],
        JDict [(''code'', JStr ''ASX1081''),
          (''meaning'', JStr ''Cannot find a function with that signature.'')]]),
      (''hint'', JStr ''Use the explain_error prompt for a cause-and-fix walkthrough.'')]"

definition read_query_hints :: dict where
  "read_query_hints = wrap_reference ''query-hints''
     [(''note'', JStr (''Inline hints are /*+ name */ comments placed just before the clause or predicate they steer. They are '' @ ''advisory; the optimizer may ignore one and raises a warning when it does.'')),
      (''hints'', JList [JDict [(''name'', JStr ''indexnl''),
          (''syntax'', JStr ''FROM a, b WHERE /*+ indexnl */ a.k = b.k''),
          (''use'', JStr (''Force an index nested-loop join (probe the inner side'' @ [CHR 0x27] @ ''s index) instead of a hash join.''))],
        JDict [(''name'', JStr ''hashjoin''),
          (''syntax'', JStr ''FROM a, b WHERE /*+ hashjoin build (a) */ a.k = b.k''),
          (''use'', JStr ''Force a hash join and name the build (smaller) input.'')],
        JDict [(''name'', JStr ''hash-bcast''),
          (''syntax'', JStr ''FROM a, b WHERE /*+ hash-bcast */ a.k = b.k''),
          (''use'', JStr ''Broadcast one join input to every partition; use only when that side is small.'')],
        JDict [(''name'', JStr ''use-index''),
          (''syntax'', JStr ''WHERE /*+ use-index(idx_name) */ a.field = $v''),
          (''use'', JStr ''Direct the optimizer to a specific secondary index.'')],
        JDict [(''name'', JStr ''skip-index''),
          (''syntax'', JStr ''WHERE /*+ skip-index */ a.field = $v''),
          (''use'', JStr ''Disable index access for a predicate and force a scan.'')],
        JDict [(''name'', JStr ''hash (group by)''),
          (''syntax'', JStr ''GROUP BY /*+ hash */ a.city''),
          (''use'', JStr ''Force hash-based aggregation rather than a sort-based group by.'')]]),
      (''hint'', JStr ''explain_query flags full scans and broadcast joins; pick a hint here to act.'')]"

definition read_query_examples :: dict where
  "read_query_examples = wrap_reference ''query-examples''
     [(''examples'', JList [JDict [(''title'', JStr ''Projected filter''),
          (''sql'', JStr (''SELECT b.name, b.city FROM Shop.Business AS b WHERE b.state = '' @ [CHR 0x27] @ ''NV'' @ [CHR 0x27] @ '' LIMIT 20;''))],
        JDict [(''title'', JStr ''Grouped aggregation''),
          (''sql'', JStr (''SELECT b.city AS city, COUNT('' @ ''*) AS n FROM Shop.Business AS b GROUP BY b.city ORDER BY n DESC LIMIT 20;''))],
        JDict [(''title'', JStr ''Join two datasets''),
          (''sql'', JStr (''SELECT b.name, r.stars FROM Shop.Business AS b JOIN Shop.Review AS r ON b.business_id = r.business_id '' @ ''LIMIT 20;''))],
        JDict [(''title'', JStr ''Unnest a nested array''),
          (''sql'', JStr ''SELECT d.id, tag FROM Shop.Business AS d UNNEST d.tags AS tag LIMIT 20;'')]])]"

text \<open>The catalog names no function twice.\<close>

lemma builtin_names_distinct: "distinct (map bf_name all_builtins)"
  by (simp add: all_builtins_def)

lemma wrap_reference_fields:
  "k \<notin> fst ` set payload \<Longrightarrow> dget k (wrap_reference kind payload) =
     (if k = ''reference'' then JStr kind else if k = ''version'' then JStr reference_version else JNull)"
  by (simp add: wrap_reference_def dget_merge_notin)

end
