(* ===== verification/Reference_Tools.thy ===== *)
theory Reference_Tools
  imports Metadata_Search Reference_Data "HOL-Library.Multiset"
begin

text \<open>
  Grounding tools: the function catalog (\<open>tools/functions.py\<close>), the reference topics
  (\<open>tools/get_reference.py\<close>) and argument completion (\<open>completions.py\<close>).
\<close>

section \<open>Functions\<close>

definition max_function_limit :: int where "max_function_limit = 200"

definition languages :: "string list" where
  "languages = [''INTERNAL'', ''SQL++'', ''JAVA'', ''PYTHON'']"

definition external_languages :: "string list" where
  "external_languages = [''JAVA'', ''PYTHON'']"

definition categories :: "string list" where
  "categories = [''window'', ''aggregate'', ''aggregate-scalar'', ''unnest'', ''datasource'', ''scalar'']"

definition builtin_list_query :: string where
  "builtin_list_query = ''SELECT VALUE f FROM function_metadata() f WHERE f.private = false ORDER BY f.name;''"

definition builtin_get_query :: string where
  "builtin_get_query =
     ''SELECT VALUE f FROM function_metadata() f WHERE f.private = false AND (lowercase(f.name) = $name OR array_contains(f.aliases, $name)) LIMIT 1;''"

definition udf_list_query :: string where
  "udf_list_query = ''SELECT VALUE f FROM Metadata.`Function` f ORDER BY f.DataverseName, f.Name;''"

definition udf_get_query :: string where
  "udf_get_query = ''SELECT VALUE f FROM Metadata.`Function` f WHERE f.Name = $name''"

definition normalize_language :: "json \<Rightarrow> string" where
  "normalize_language raw =
     (case raw of
        JStr s \<Rightarrow>
          let up = upper (strip s)
          in if up = ''SQLPP'' \<or> up = ''SQL++'' then ''SQL++'' else if up = [] then ''SQL++'' else up
      | _ \<Rightarrow> ''SQL++'')"

definition builtin_record :: "json \<Rightarrow> dict option" where
  "builtin_record row =
     (case row of
        JDict d \<Rightarrow> (case dget ''name'' d of
            JStr n \<Rightarrow> Some [(''name'', JStr n), (''language'', JStr ''INTERNAL''), (''dataverse'', JNull),
              (''category'', dget ''category'' d), (''arity'', dget ''arity'' d)]
          | _ \<Rightarrow> None)
      | _ \<Rightarrow> None)"

definition udf_record :: "json \<Rightarrow> dict option" where
  "udf_record row =
     (case row of
        JDict d \<Rightarrow> (case dget ''Name'' d of
            JStr n \<Rightarrow> Some [(''name'', JStr n), (''language'', JStr (normalize_language (dget ''Language'' d))),
              (''dataverse'', dget ''DataverseName'' d), (''arity'', dget ''Arity'' d)]
          | _ \<Rightarrow> None)
      | _ \<Rightarrow> None)"

definition builtin_records :: "cc_client \<Rightarrow> settings \<Rightarrow> string \<Rightarrow> dict list io" where
  "builtin_records c s new_uuid =
     fetch_parsed c (make_client_context_id (agent_session_id s) (Some ''list_functions_builtins'') new_uuid)
       builtin_list_query [] builtin_record"

definition udf_records :: "cc_client \<Rightarrow> settings \<Rightarrow> string \<Rightarrow> dict list io" where
  "udf_records c s new_uuid =
     fetch_parsed c (make_client_context_id (agent_session_id s) (Some ''list_functions'') new_uuid)
       udf_list_query [] udf_record"

definition function_matches :: "string option \<Rightarrow> string option \<Rightarrow> string \<Rightarrow> dict \<Rightarrow> bool" where
  "function_matches language category needle r \<longleftrightarrow>
     (case language of None \<Rightarrow> True | Some l \<Rightarrow> dget ''language'' r = JStr l)
     \<and> (case category of None \<Rightarrow> True | Some k \<Rightarrow> dget ''category'' r = JStr k)
     \<and> (needle = [] \<or> contains needle (lower (py_str (dget ''name'' r))))"

definition unknown_value :: "string \<Rightarrow> string \<Rightarrow> string list \<Rightarrow> tool_result" where
  "unknown_value what given known =
     tool_error (gerr INVALID_PARAMETER
       (''Unknown '' @ what @ '' '' @ repr_str given @ ''. Use one of: '' @ join '', '' known @ ''.''))"

definition run_list_functions ::
  "cc_client \<Rightarrow> settings \<Rightarrow> string \<Rightarrow> string \<Rightarrow> string option \<Rightarrow> string option \<Rightarrow> string option \<Rightarrow> int \<Rightarrow> int \<Rightarrow> tool_result io" where
  "run_list_functions c s u1 u2 language category name_contains offset_arg limit_arg =
     (if (case language of None \<Rightarrow> False | Some l \<Rightarrow> l \<notin> set languages)
      then io_return (unknown_value ''language'' (the language) languages)
      else if (case category of None \<Rightarrow> False | Some k \<Rightarrow> k \<notin> set categories)
      then io_return (unknown_value ''category'' (the category) categories)
      else
        let offset = max offset_arg 0; limit = min (max limit_arg 1) max_function_limit;
            needle = lower (strip (case name_contains of None \<Rightarrow> [] | Some n \<Rightarrow> n))
        in io_bind (builtin_records c s u1) (\<lambda>builtins.
           io_bind (udf_records c s u2) (\<lambda>udfs.
             let matching = filter (function_matches language category needle) (builtins @ udfs);
                 shown = list_page offset limit matching
             in io_return (tool_ok (show_nat (length shown) @ '' of '' @ show_nat (length matching) @ '' function(s).'')
                  [(''status'', JStr ''success''), (''total'', JInt (int (length matching))), (''offset'', JInt offset),
                   (''limit'', JInt limit), (''moreAvailable'', JBool (offset + limit < int (length matching))),
                   (''functions'', JList (map JDict shown))]))))"

definition udf_detail :: "dict \<Rightarrow> dict" where
  "udf_detail row =
     (let language = normalize_language (dget ''Language'' row) in
      [(''name'', dget ''Name'' row), (''dataverse'', dget ''DataverseName'' row), (''arity'', dget ''Arity'' row),
       (''language'', JStr language), (''params'', dget ''Params'' row), (''returnType'', dget ''ReturnType'' row),
       (''definition'', dget ''Definition'' row)]
      @ (if language \<in> set external_languages
         then [(''safetyWarning'', JStr (''This is an external '' @ language
                 @ '' UDF: its body runs arbitrary code on the cluster. Review it before trusting its output.''))]
         else []))"

definition get_udf :: "cc_client \<Rightarrow> settings \<Rightarrow> string \<Rightarrow> string \<Rightarrow> string option \<Rightarrow> string option \<Rightarrow> tool_result io" where
  "get_udf c s new_uuid name dataverse user_tag =
     (let ccid = make_client_context_id (agent_session_id s) user_tag new_uuid;
          statement = udf_get_query @ (case dataverse of None \<Rightarrow> [] | Some _ \<Rightarrow> '' AND f.DataverseName = $dv'') @ '';'';
          params = [(''name'', JStr name)] @ (case dataverse of None \<Rightarrow> [] | Some dv \<Rightarrow> [(''dv'', JStr dv)])
      in tool_try (execute c statement (with_params ccid params)) (\<lambda>envelope.
         io_bind (io_lift (result_rows envelope)) (\<lambda>rows.
         io_return (case rows of
             [] \<Rightarrow> tool_error (gerr NOT_FOUND (''No function named '' @ repr_str name
                @ '' found. Call list_functions to discover exact names, or check the dataverse for a user-defined function.''))
           | row # _ \<Rightarrow>
               let r = udf_detail row in
               tool_ok (py_str (dget ''name'' r) @ '' ('' @ py_str (dget ''language'' r) @ '' UDF), arity ''
                        @ py_str (dget ''arity'' r) @ ''.''
                        @ (case dget ''safetyWarning'' r of JStr w \<Rightarrow> '' '' @ w | _ \<Rightarrow> []))
                 ([(''status'', JStr ''success''), (''scope'', JStr ''udf'')] @ r)))))"

text \<open>\<open>rows[0]\<close> and the attribute lookups on it fail unless the rows are a list of objects.\<close>

definition first_row :: "json \<Rightarrow> exn + dict option" where
  "first_row v =
     (if \<not> truthy v then Inr None
      else case v of
        JList (JDict d # _) \<Rightarrow> Inr (Some d)
      | JList _ \<Rightarrow> Inl (PyExc ''AttributeError'')
      | JStr _ \<Rightarrow> Inl (PyExc ''AttributeError'')
      | JDict _ \<Rightarrow> Inl (PyExc ''KeyError'')
      | _ \<Rightarrow> Inl (PyExc ''TypeError''))"

definition get_builtin_live :: "cc_client \<Rightarrow> settings \<Rightarrow> string \<Rightarrow> string \<Rightarrow> tool_result option io" where
  "get_builtin_live c s new_uuid name =
     (let ccid = make_client_context_id (agent_session_id s) (Some ''get_function_builtin'') new_uuid in
      io_bind (io_catch (io_bind (execute c builtin_get_query (with_params ccid [(''name'', JStr name)]))
                  (\<lambda>envelope. io_return (Some envelope))) (\<lambda>_. io_return None)) (\<lambda>found.
      case found of
        None \<Rightarrow> io_return None
      | Some envelope \<Rightarrow>
          io_bind (io_lift (first_row (dget ''results'' envelope))) (\<lambda>row.
          io_return (map_option (\<lambda>d.
            let live = dget_or ''name'' (JStr name) d in
            tool_ok (py_str live @ '' '' @ em_dash @ '' built-in '' @ py_str (dget ''category'' d) @ '' function.'')
              [(''status'', JStr ''success''), (''scope'', JStr ''builtin''), (''name'', live), (''language'', JStr ''INTERNAL''),
               (''category'', dget ''category'' d), (''arity'', dget ''arity'' d)]) row))))"

definition run_get_function ::
  "cc_client \<Rightarrow> settings \<Rightarrow> string \<Rightarrow> string \<Rightarrow> string \<Rightarrow> string option \<Rightarrow> string option \<Rightarrow> tool_result io" where
  "run_get_function c s u1 u2 name dataverse user_tag =
     (let clean = strip name in
      if clean = [] then io_return (tool_error (gerr INVALID_PARAMETER ''Provide a function name.''))
      else io_bind (if dataverse = None then get_builtin_live c s u1 (lower clean) else io_return None) (\<lambda>live.
        case live of
          Some r \<Rightarrow> io_return r
        | None \<Rightarrow> get_udf c s u2 clean dataverse user_tag))"

section \<open>Reference topics\<close>

definition readers :: "(string \<times> dict) list" where
  "readers =
     [(''sqlpp-syntax'', read_sqlpp_syntax), (''type-system'', read_type_system), (''index-types'', read_index_types),
      (''query-examples'', read_query_examples), (''query-hints'', read_query_hints),
      (''error-codes'', read_error_codes), (''builtin-functions'', read_builtin_functions)]"

definition valid_topics :: "string list" where
  "valid_topics = map fst readers @ [''all'']"

definition run_get_reference :: "string \<Rightarrow> tool_result" where
  "run_get_reference topic =
     (let normalized = lower (strip topic) in
      if normalized = ''all''
      then tool_ok (''All '' @ show_nat (length readers) @ '' reference topics: '' @ join '', '' (map fst readers) @ ''.'')
             [(''status'', JStr ''success''), (''topic'', JStr ''all''), (''topics'', JList (map (\<lambda>r. JDict (snd r)) readers))]
      else case map_of readers normalized of
        None \<Rightarrow> tool_error (gerr INVALID_PARAMETER
            (''Unknown reference topic '' @ repr_str topic @ ''. Valid topics: '' @ join '', '' valid_topics @ ''.''))
      | Some payload \<Rightarrow>
          tool_ok (''Reference topic '' @ repr_str normalized @ '' (version '' @ py_str (dget ''version'' payload) @ '').'')
            (dict_merge [(''status'', JStr ''success''), (''topic'', JStr normalized)] payload))"

section \<open>Completion\<close>

definition max_completion_values :: nat where "max_completion_values = 100"
definition max_partial_len :: nat where "max_partial_len = 256"

record completion =
  cv_values :: "string list"
  cv_total :: nat
  cv_has_more :: bool

definition empty_completion :: completion where
  "empty_completion = \<lparr>cv_values = [], cv_total = 0, cv_has_more = False\<rparr>"

definition match_score :: "string \<Rightarrow> string \<Rightarrow> nat option" where
  "match_score name_lower needle =
     (if needle = [] then Some 0
      else if name_lower = needle then Some 3
      else if starts_with name_lower needle then Some 2
      else if contains needle name_lower then Some 1
      else None)"

definition completion_needle :: "string option \<Rightarrow> string" where
  "completion_needle partial_value =
     take max_partial_len (lower (strip (case partial_value of None \<Rightarrow> [] | Some p \<Rightarrow> p)))"

definition best_add :: "string \<Rightarrow> (string \<times> nat) list \<Rightarrow> json \<Rightarrow> (string \<times> nat) list" where
  "best_add needle best raw =
     (if \<not> truthy raw then best
      else let name = py_str raw in
        case match_score (lower name) needle of
          None \<Rightarrow> best
        | Some sc \<Rightarrow>
            (case map_of best name of
               None \<Rightarrow> dict_set name sc best
             | Some old \<Rightarrow> if old < sc then dict_set name sc best else best))"

definition rank_completions :: "json list \<Rightarrow> string option \<Rightarrow> completion" where
  "rank_completions raws partial_value =
     (let best = foldl (best_add (completion_needle partial_value)) [] raws;
          names = map fst (sort_key (\<lambda>p. (- int (snd p), fst p)) best);
          shown = take max_completion_values names
      in \<lparr>cv_values = shown, cv_total = length names, cv_has_more = length shown < length names\<rparr>)"

definition resolved_arg :: "(string \<times> string) list option \<Rightarrow> string \<Rightarrow> string option" where
  "resolved_arg context_arguments name =
     (case context_arguments of
        None \<Rightarrow> None
      | Some d \<Rightarrow> (case map_of d name of Some v \<Rightarrow> (if v = [] then None else Some v) | None \<Rightarrow> None))"

definition completed_from :: "string \<Rightarrow> string \<Rightarrow> string option \<Rightarrow> tool_result \<Rightarrow> completion" where
  "completed_from rows_key name_key partial_value r =
     (if tr_is_error r then empty_completion
      else rank_completions (map (jget name_key) (list_or_empty (dget rows_key (tr_structured r)))) partial_value)"

definition complete_argument ::
  "clock \<Rightarrow> cc_client \<Rightarrow> settings \<Rightarrow> string \<Rightarrow> string \<Rightarrow> string option \<Rightarrow> (string \<times> string) list option \<Rightarrow> completion option io" where
  "complete_argument ck c s new_uuid argument_name partial_value context_arguments =
     (let dataverse = resolved_arg context_arguments ''dataverse''; dataset = resolved_arg context_arguments ''dataset'' in
      if argument_name = ''dataverse''
      then io_bind (run_list_dataverses c s new_uuid) (\<lambda>r.
             io_return (Some (completed_from ''dataverses'' ''dataverse'' partial_value r)))
      else if argument_name = ''dataset''
      then io_bind (run_list_datasets c s new_uuid dataverse 0 50) (\<lambda>r.
             io_return (Some (completed_from ''datasets'' ''dataset'' partial_value r)))
      else if argument_name = ''group_by'' \<or> argument_name = ''metric''
      then (case (dataverse, dataset) of
              (Some dv, Some ds) \<Rightarrow>
                io_bind (run_get_schema ck c s new_uuid dv ds) (\<lambda>r.
                  io_return (Some (completed_from ''fields'' ''name'' partial_value r)))
            | _ \<Rightarrow> io_return (Some empty_completion))
      else io_return None)"

section \<open>The ranking of completions\<close>

text \<open>The names among the candidates that match, and how well one matches.\<close>

definition matching_names :: "string \<Rightarrow> json list \<Rightarrow> string set" where
  "matching_names needle raws =
     {py_str r | r. r \<in> set raws \<and> truthy r \<and> match_score (lower (py_str r)) needle \<noteq> None}"

definition completion_order :: "string \<Rightarrow> string \<Rightarrow> int \<times> string" where
  "completion_order needle name =
     (case match_score (lower name) needle of None \<Rightarrow> 1 | Some sc \<Rightarrow> - int sc, name)"

definition best_ok :: "string \<Rightarrow> json list \<Rightarrow> (string \<times> nat) list \<Rightarrow> bool" where
  "best_ok needle raws best \<longleftrightarrow>
     distinct (map fst best) \<and> set best = {(n, sc). n \<in> matching_names needle raws \<and> match_score (lower n) needle = Some sc}"

lemma matching_names_snoc:
  "matching_names needle (raws @ [r]) = matching_names needle raws \<union>
     (if truthy r \<and> match_score (lower (py_str r)) needle \<noteq> None then {py_str r} else {})"
  by (auto simp: matching_names_def)

lemma best_add_ok:
  assumes "best_ok needle raws best"
  shows "best_ok needle (raws @ [r]) (best_add needle best r)"
proof (cases "truthy r \<and> match_score (lower (py_str r)) needle \<noteq> None")
  case False
  then show ?thesis using assms by (auto simp: best_add_def best_ok_def matching_names_snoc Let_def split: option.split)
next
  case True
  then obtain sc where sc: "match_score (lower (py_str r)) needle = Some sc" by auto
  have d: "distinct (map fst best)" using assms by (simp add: best_ok_def)
  show ?thesis
  proof (cases "map_of best (py_str r)")
    case None
    then have "py_str r \<notin> fst ` set best" by (simp add: map_of_eq_None_iff)
    then have "dict_set (py_str r) sc best = best @ [(py_str r, sc)]" by (induction best) auto
    then show ?thesis
      using assms None True sc \<open>py_str r \<notin> fst ` set best\<close>
      by (auto simp: best_add_def best_ok_def matching_names_snoc)
  next
    case (Some old)
    then have m: "(py_str r, old) \<in> set best" by (rule map_of_SomeD)
    then have "old = sc" "py_str r \<in> matching_names needle raws" using assms sc by (auto simp: best_ok_def)
    moreover have "matching_names needle (raws @ [r]) = matching_names needle raws"
      using calculation(2) by (auto simp: matching_names_snoc)
    ultimately show ?thesis using assms Some True sc by (simp add: best_add_def best_ok_def)
  qed
qed

lemma best_ok_all: "best_ok needle raws (foldl (best_add needle) [] raws)"
proof (induction raws rule: rev_induct)
  case Nil
  then show ?case by (simp add: best_ok_def matching_names_def)
next
  case (snoc r raws)
  then show ?case using best_add_ok by simp
qed

lemma completion_order_inj: "inj_on (completion_order needle) A"
  by (auto simp: inj_on_def completion_order_def)

lemma ranked_names:
  fixes raws typed
  defines "needle \<equiv> completion_needle typed"
  defines "best \<equiv> foldl (best_add needle) [] raws"
  shows "map fst (sort_key (\<lambda>p. (- int (snd p), fst p)) best)
      = sort_key (completion_order needle) (sorted_list_of_set (matching_names needle raws))" (is "?l = ?r")
    and "length best = card (matching_names needle raws)"
proof -
  let ?key = "\<lambda>p. (- int (snd p), fst p) :: int \<times> string"
  have ok: "best_ok needle raws best" unfolding best_def by (rule best_ok_all)
  have fin: "finite (matching_names needle raws)" by (simp add: matching_names_def)
  have "\<exists>sc. match_score (lower n) needle = Some sc" if "n \<in> matching_names needle raws" for n
    using that by (auto simp: matching_names_def)
  moreover have "set best = {(n, sc). n \<in> matching_names needle raws \<and> match_score (lower n) needle = Some sc}"
    using ok by (simp add: best_ok_def)
  ultimately have names: "fst ` set best = matching_names needle raws" by (auto simp: image_iff)
  have dist: "distinct (map fst best)" using ok by (simp add: best_ok_def)
  have order: "completion_order needle (fst p) = ?key p" if "p \<in> set best" for p
    using ok that by (auto simp: best_ok_def completion_order_def)
  have "map (completion_order needle) ?l = map ?key (sort_key ?key best)"
    using order by (auto intro!: map_cong)
  moreover have "sorted (map ?key (sort_key ?key best))" by simp
  ultimately have sorted: "sorted (map (completion_order needle) ?l)" by (simp only:)
  have "mset (map fst best) = mset (sorted_list_of_set (matching_names needle raws))"
  proof -
    have "set (map fst best) = set (sorted_list_of_set (matching_names needle raws))" using fin names by simp
    then show ?thesis using set_eq_iff_mset_eq_distinct [OF dist distinct_sorted_list_of_set] by blast
  qed
  then have "mset (sorted_list_of_set (matching_names needle raws)) = mset ?l" by simp
  from sort_key_inj_key_eq [OF this completion_order_inj sorted] show "?l = ?r" by simp
  show "length best = card (matching_names needle raws)"
    using distinct_card [OF dist] names by simp
qed

lemma rank_total:
  "cv_total (rank_completions raws typed) = card (matching_names (completion_needle typed) raws)"
  "cv_has_more (rank_completions raws typed) \<longleftrightarrow> max_completion_values < card (matching_names (completion_needle typed) raws)"
  using ranked_names(2) [of typed raws] by (auto simp: rank_completions_def Let_def)

lemma max_completion_values_le: "n \<le> 50 \<Longrightarrow> \<not> max_completion_values < n"
  by (simp add: max_completion_values_def)

text \<open>
  C37. Completions are ranked exactly. For any candidates and any typed text, the offered names
  are the first hundred of the distinct names that match its first 256 characters without regard
  to case, exact matches first, then prefixes, then other occurrences, each class in alphabetical
  order; the total is the number of matching names, and more are announced exactly when the list
  was cut.
\<close>

theorem completions_ranked:
  "rank_completions raws typed =
     (let needle = completion_needle typed; matching = matching_names needle raws;
          names = sort_key (completion_order needle) (sorted_list_of_set matching)
      in \<lparr>cv_values = take max_completion_values names, cv_total = card matching,
          cv_has_more = max_completion_values < card matching\<rparr>)"
  using ranked_names [of typed raws] by (auto simp: rank_completions_def Let_def)

section \<open>Completion sees one page\<close>

lemma matching_card: "card (matching_names needle raws) \<le> length raws"
proof -
  have "matching_names needle raws \<subseteq> py_str ` set raws" by (auto simp: matching_names_def)
  then have "card (matching_names needle raws) \<le> card (py_str ` set raws)" by (intro card_mono) simp_all
  also have "\<dots> \<le> card (set raws)" by (intro card_image_le) simp
  also have "\<dots> \<le> length raws" by (rule card_length)
  finally show ?thesis .
qed

lemma listed_page:
  "yields (\<lambda>r. tr_is_error r \<or> length (list_or_empty (dget ''datasets'' (tr_structured r))) \<le> 50)
     (run_list_datasets c s u dv 0 50)"
proof -
  have "yields (\<lambda>ds. length ds \<le> 50) (annotate_collisions c ccid count 0 (map dataset_line (list_page 0 50 rows)))"
    for ccid count rows
    by (rule yields_mono [OF annotate_yields]) (auto simp: list_page_def dest!: list_all2_lengthD)
  then have "yields (\<lambda>ds. length ds \<le> 50)
      (annotate_collisions c ccid count 0 (map dataset_line (list_page (max 0 0) (min (max 50 1) max_list_limit) rows)))"
    for ccid count rows by (simp add: max_list_limit_def)
  note annotated = yields_bind [OF this]
  show ?thesis
    unfolding run_list_datasets_def Let_def case_prod_unfold
    by (intro tool_try_yields yields_bind_any annotated yields_return)
      (simp_all add: tool_error_def tool_ok_def list_or_empty_def)
qed

text \<open>
  Dataset names are completed from the first page of the listing only: of a dataverse with more
  than fifty datasets the others are never offered, whatever was typed, and the answer says that
  there is nothing more.
\<close>

lemma dataset_completion_first_page:
  "yields (\<lambda>v. case v of None \<Rightarrow> False | Some w \<Rightarrow> cv_total w \<le> 50 \<and> \<not> cv_has_more w)
     (complete_argument ck c s u ''dataset'' typed context_arguments)"
proof -
  have page: "cv_total (completed_from ''datasets'' ''dataset'' typed r) \<le> 50
      \<and> \<not> cv_has_more (completed_from ''datasets'' ''dataset'' typed r)"
    if "tr_is_error r \<or> length (list_or_empty (dget ''datasets'' (tr_structured r))) \<le> 50" for r
  proof (cases "tr_is_error r")
    case False
    let ?raws = "map (jget ''dataset'') (list_or_empty (dget ''datasets'' (tr_structured r)))"
    have "length ?raws \<le> 50" using that False by simp
    then have "card (matching_names (completion_needle typed) ?raws) \<le> 50"
      using matching_card [of "completion_needle typed" ?raws] by linarith
    then have "cv_total (rank_completions ?raws typed) \<le> 50 \<and> \<not> cv_has_more (rank_completions ?raws typed)"
      by (simp add: rank_total max_completion_values_le)
    then show ?thesis using False by (simp add: completed_from_def)
  qed (simp add: completed_from_def empty_completion_def)
  show ?thesis
    unfolding complete_argument_def Let_def
    by (simp, rule yields_bind [OF listed_page], rule yields_return) (simp add: page)
qed

end
