(* ===== verification/Cluster_Tools.thy ===== *)
theory Cluster_Tools
  imports Metadata_Search Compiler_Params
begin

text \<open>
  The state of the cluster as tools and as resources (\<open>tools/get_cluster_status.py\<close>,
  \<open>tools/get_node_details.py\<close> and the readers under \<open>resources/\<close>). The protocol revision of the
  SDK is an argument.
\<close>

section \<open>Cluster status\<close>

definition node_summaries :: "json \<Rightarrow> dict list" where
  "node_summaries ncs =
     map (\<lambda>e. [(''nodeId'', py_or (dget ''node_id'' e) (dget ''nodeId'' e)), (''state'', dget ''state'' e)])
       (dicts_of (list_or_empty ncs))"

definition cluster_version :: "dict \<Rightarrow> json" where
  "cluster_version version = py_or (dget ''Git revision'' version) (dget ''version'' version)"

definition run_get_cluster_status :: "cc_client \<Rightarrow> tool_result io" where
  "run_get_cluster_status c =
     tool_try (io_bind (admin_version c) (\<lambda>v. io_bind (admin_cluster c) (\<lambda>k. io_return (v, k)))) (\<lambda>(version, cluster).
       let nodes = node_summaries (dget ''ncs'' cluster);
           ids = join '', '' (map (\<lambda>n. py_str (dget ''nodeId'' n)) nodes)
       in io_return (tool_ok
            (''Cluster state '' @ py_repr (dget ''state'' cluster) @ '', '' @ show_nat (length nodes) @ '' node(s): ''
             @ (if ids = [] then ''none'' else ids) @ ''. Pass a nodeId to get_node_details for per-node stats.'')
            [(''status'', JStr ''success''), (''version'', cluster_version version), (''state'', dget ''state'' cluster),
             (''nodeCount'', JInt (int (length nodes))), (''nodes'', JList (map JDict nodes))]))"

section \<open>One node\<close>

definition node_id_char :: "char \<Rightarrow> bool" where
  "node_id_char c \<longleftrightarrow> is_digit c \<or> is_alpha_ascii c \<or> c \<in> {CHR ''_'', CHR ''.'', CHR ''-''}"

definition node_id_re :: re where
  "node_id_re = seqs [Bol, Plus (Cls node_id_char), Eol]"

definition node_not_found :: "string \<Rightarrow> gateway_error" where
  "node_not_found node_id =
     gerr NOT_FOUND (''No node named '' @ repr_str node_id @ '' was found. Call get_cluster_status for the list of node ids.'')"

definition run_get_node_details :: "cc_client \<Rightarrow> settings \<Rightarrow> string \<Rightarrow> tool_result io" where
  "run_get_node_details c s node =
     (let node_id = strip node in
      if node_id = [] then io_return (tool_error (gerr INVALID_PARAMETER ''Provide a node id.''))
      else if re_match node_id_re node_id = None
      then io_return (tool_error (gerr INVALID_PARAMETER (''Invalid node id '' @ repr_str node_id
             @ ''. Node ids contain only letters, digits, '' @ repr_str ''_'' @ '', '' @ repr_str ''-'' @ '', and '' @ repr_str ''.''
             @ ''. Call get_cluster_status for valid node ids.'')))
      else io_bind (io_catch (io_bind (admin_node_detail c node_id) (\<lambda>d. io_return (Inr d))) (\<lambda>e. io_return (Inl e))) (\<lambda>r.
        io_return (case r of
            Inl e \<Rightarrow> tool_error (if ge_type e = INTERNAL \<or> ge_type e = NOT_FOUND then node_not_found node_id else e)
          | Inr detail \<Rightarrow> tool_ok (''Node '' @ node_id @ '' statistics retrieved.'')
              [(''status'', JStr ''success''), (''node'', JStr node_id), (''details'', JDict detail)])))"

section \<open>Resources\<close>

definition gateway_version :: string where "gateway_version = ''0.1.0''"

definition gateway_block :: "string \<Rightarrow> json" where
  "gateway_block protocol = JDict [(''version'', JStr gateway_version), (''protocolVersion'', JStr protocol)]"

definition read_version :: "cc_client \<Rightarrow> string \<Rightarrow> dict io" where
  "read_version c protocol =
     io_catch (io_bind (admin_version c) (\<lambda>raw. io_return
         [(''asterixdb'', JDict [(''reachable'', JBool True), (''version'', cluster_version raw), (''raw'', JDict raw)]),
          (''gateway'', gateway_block protocol)]))
       (\<lambda>e. io_return [(''asterixdb'', JDict [(''reachable'', JBool False), (''error'', JDict (to_structured e))]),
                       (''gateway'', gateway_block protocol)])"

definition read_cluster_status :: "cc_client \<Rightarrow> dict io" where
  "read_cluster_status c =
     io_catch (io_bind (admin_cluster c) (\<lambda>raw. io_return
         [(''reachable'', JBool True), (''state'', dget ''state'' raw), (''ncs'', dget ''ncs'' raw), (''cc'', dget ''cc'' raw),
          (''raw'', JDict raw)]))
       (\<lambda>e. io_return [(''reachable'', JBool False), (''error'', JDict (to_structured e))])"

definition read_cluster_diagnostics :: "cc_client \<Rightarrow> dict io" where
  "read_cluster_diagnostics c = admin_diagnostics c"

definition read_config_parameters :: "settings \<Rightarrow> dict" where
  "read_config_parameters s =
     [(''compilerParameters'', JList (map JDict describe_allowlist)),
      (''limits'', JDict [(''maxTimeMs'', JInt (max_time_ms s)), (''maxBytesPerQuery'', JInt (max_bytes_per_query s)),
         (''maxWaitMs'', JInt (max_wait_ms s)), (''waitPollIntervalMs'', JInt (wait_poll_interval_ms s)),
         (''resultDefaultLimit'', JInt (xa_limit (exec_defaults []))), (''resultMaxLimit'', JInt exec_max_limit)]),
      (''concurrency'', JDict [(''syncPermits'', JInt (sync_permits s)), (''asyncPermits'', JInt (async_permits s)),
         (''maxConcurrentWaits'', JInt (max_concurrent_waits s))])]"

definition read_dataverses :: "cc_client \<Rightarrow> string \<Rightarrow> string \<Rightarrow> dict io" where
  "read_dataverses c session_id new_uuid =
     (let ccid = make_client_context_id session_id (Some ''dataverses'') new_uuid in
      io_bind (execute c dataverses_query (query_defaults ccid)) (\<lambda>envelope.
      io_bind (io_lift (result_rows envelope)) (\<lambda>rows.
      io_return [(''status'', JStr ''success''), (''count'', JInt (int (length rows))),
        (''dataverses'', JList (map (\<lambda>r. JDict [(''dataverse'', dget ''DataverseName'' r),
                                                  (''dataFormat'', dget ''DataFormat'' r)]) rows))])))"

text \<open>The templates return the structured part of the tool's result as JSON, errors included.\<close>

definition structured_text :: "tool_result \<Rightarrow> string" where
  "structured_text r = json_dumps (JDict (tr_structured r))"

definition resource_text :: "tool_result io \<Rightarrow> string io" where
  "resource_text m = io_bind m (\<lambda>r. io_return (structured_text r))"

definition read_dataset_schema :: "clock \<Rightarrow> cc_client \<Rightarrow> settings \<Rightarrow> string \<Rightarrow> string \<Rightarrow> string \<Rightarrow> string io" where
  "read_dataset_schema ck c s new_uuid dataverse dataset = resource_text (run_get_schema ck c s new_uuid dataverse dataset)"

definition read_dataverse_schema :: "cc_client \<Rightarrow> settings \<Rightarrow> string \<Rightarrow> string \<Rightarrow> string io" where
  "read_dataverse_schema c s new_uuid dataverse = resource_text (run_describe_dataverse c s new_uuid dataverse)"

definition read_dataset_sample ::
  "exec_env \<Rightarrow> cc_client \<Rightarrow> settings \<Rightarrow> string \<Rightarrow> string \<Rightarrow> string \<Rightarrow> artifact_dir \<Rightarrow> (string \<times> artifact_dir) io" where
  "read_dataset_sample env c s new_uuid dataverse dataset d =
     io_bind (run_sample_dataset env c s new_uuid dataverse dataset 10 None None d) (\<lambda>(r, _, d').
       io_return (structured_text r, d'))"

definition read_dataverse_datasets :: "cc_client \<Rightarrow> settings \<Rightarrow> string \<Rightarrow> string \<Rightarrow> string io" where
  "read_dataverse_datasets c s new_uuid dataverse = resource_text (run_list_datasets c s new_uuid (Some dataverse) 0 50)"

definition indexes_document :: "string \<Rightarrow> string option \<Rightarrow> index_detail list \<Rightarrow> string" where
  "indexes_document dataverse dataset indexes =
     json_dumps (JDict ([(''status'', JStr ''success''), (''dataverse'', JStr dataverse)]
       @ (case dataset of None \<Rightarrow> [] | Some ds \<Rightarrow> [(''dataset'', JStr ds)])
       @ [(''indexCount'', JInt (int (length indexes))), (''indexes'', JList (map (\<lambda>i. JDict (index_detail_dict i)) indexes))]))"

definition read_dataset_indexes :: "cc_client \<Rightarrow> settings \<Rightarrow> string \<Rightarrow> string \<Rightarrow> string \<Rightarrow> string io" where
  "read_dataset_indexes c s new_uuid dataverse dataset =
     io_bind (fetch_indexes_detailed c (make_client_context_id (agent_session_id s) (Some ''indexes_resource'') new_uuid)
        dataverse (Some dataset)) (\<lambda>indexes. io_return (indexes_document dataverse (Some dataset) indexes))"

definition read_dataverse_indexes :: "cc_client \<Rightarrow> settings \<Rightarrow> string \<Rightarrow> string \<Rightarrow> string io" where
  "read_dataverse_indexes c s new_uuid dataverse =
     io_bind (fetch_indexes_detailed c (make_client_context_id (agent_session_id s) (Some ''indexes_resource'') new_uuid)
        dataverse None) (\<lambda>indexes. io_return (indexes_document dataverse None indexes))"

section \<open>The path of a node\<close>

lemma newline_not_node: "\<not> node_id_char (CHR 0x0A)"
  by code_simp

definition node_request :: "cc_client \<Rightarrow> request \<Rightarrow> bool" where
  "node_request c r \<longleftrightarrow>
     (\<exists>i. i \<noteq> [] \<and> (\<forall>x \<in> set i. node_id_char x) \<and> r = GetPath (''/admin/cluster/node/'' @ i) [] (headers c))"

text \<open>An accepted node id is one path segment of letters, digits and \<open>_.-\<close>: it holds no slash.\<close>

lemma node_details_confined: "emits (node_request c) (run_get_node_details c s node)"
proof (cases "strip node \<noteq> [] \<and> re_match node_id_re (strip node) \<noteq> None")
  case True
  then obtain w where w: "w \<noteq> []" "\<forall>c \<in> set w. node_id_char c" "strip node = w \<or> strip node = w @ [CHR 0x0A]"
    using whole_class_match [of node_id_char "strip node", OF newline_not_node] by (auto simp: node_id_re_def)
  have "strip node \<noteq> w @ [CHR 0x0A]"
  proof
    assume "strip node = w @ [CHR 0x0A]"
    moreover have "py_space (CHR 0x0A)" by code_simp
    ultimately show False using last_strip_right_by [of py_space "strip_left_by py_space node"] by (simp add: strip_by_def)
  qed
  then have "strip node = w" using w(3) by simp
  then have "emits (node_request c) (admin_node_detail c (strip node))"
    unfolding admin_node_detail_def using w(1,2) by (intro emits_get_json) (auto simp: node_request_def)
  then show ?thesis
    unfolding run_get_node_details_def Let_def by (intro emits_if emits_return emits_bind emits_catch)
next
  case False
  then consider "strip node = []" | "strip node \<noteq> []" "re_match node_id_re (strip node) = None" by blast
  then show ?thesis
    by cases (simp_all add: run_get_node_details_def emits_return del: io_run not_None_eq)
qed

text \<open>
  The ids \<open>.\<close> and \<open>..\<close> are among them, so a request path can end in a dot segment, which leads out
  of the path of the nodes.
\<close>

lemma node_dots_admitted: "re_match node_id_re (strip ''..'') \<noteq> None"
  by code_simp

end
