(* ===== verification/Prompts.thy ===== *)
theory Prompts
  imports Schema_Tools
begin

text \<open>
  The prompts (\<open>prompts/\<close>): texts that scaffold a workflow. Only \<open>analyze_dataverse\<close> reads from the
  cluster; the others fill a template.
\<close>

abbreviation nl :: string where "nl \<equiv> newline_text"

definition given_or :: "string option \<Rightarrow> string \<Rightarrow> string" where
  "given_or v dflt = (case v of None \<Rightarrow> dflt | Some s \<Rightarrow> if s = [] then dflt else s)"

definition storage_format_block :: string where
  "storage_format_block =
     ''## Storage-Format Awareness'' @ nl @ nl @
     ''Each Dataset reports a `datasetFormatInfo.format` field.'' @ nl @ nl @
     ''If format == '' @ [CHR 0x22] @ ''COLUMNAR'' @ [CHR 0x22] @ '':'' @ nl @
     ''1. NEVER write SELECT *. Always project explicit fields.'' @ nl @
     ''2. Prefer queries that touch the fewest column groups. Fields in the same group'' @ nl @
     ''   are cheap together; spanning groups is expensive.'' @ nl @
     ''3. Aggregations on a single numeric column are ~10-100x cheaper than ROW.'' @ nl @
     ''   Lean into wide aggregations.'' @ nl @
     ''4. Predicate pushdown matters more: `WHERE eventType = '' @ [CHR 0x27] @ ''click'' @ [CHR 0x27] @ ''` evaluated in'' @ nl @
     ''   the column group avoids fetching unrelated columns.'' @ nl @ nl @
     ''If format == '' @ [CHR 0x22] @ ''ROW'' @ [CHR 0x22] @ '':'' @ nl @
     ''1. Projection still helps but less dramatically (~1.5-3x).'' @ nl @
     ''2. Index usage dominates cost; prefer indexed predicates.'' @ nl @
     ''3. Wide row reads (SELECT *) are acceptable when you genuinely need all fields.'' @ nl @ nl @
     ''Default to columnar-aware behavior unless the format is confirmed ROW.''"

section \<open>Templates\<close>

definition build_aggregation_template :: string where
  "build_aggregation_template =
     ''# Build an aggregation over __DATAVERSE__.__DATASET__'' @ nl @ nl @
     ''Goal: produce a correct, columnar-aware GROUP BY query.'' @ nl @ nl @
     ''Steps:'' @ nl @
     ''1. Call get_schema for __DATAVERSE__.__DATASET__ and copy exact field names'' @ nl @
     ''   (casing matters). Note `datasetFormatInfo.format`. If a field name is a'' @ nl @
     ''   reserved word (e.g. time, type, value, order, group), wrap it in backticks'' @ nl @
     ''   everywhere it appears: g.`time`.'' @ nl @
     ''2. Project only the grouping key(s) and the aggregate '' @ em_dash @ '' never select every column.'' @ nl @
     ''3. Use AsterixDB aggregate names: COUNT, SUM, AVG, MIN, MAX, STDDEV_SAMP,'' @ nl @
     ''   STDDEV_POP, VAR_SAMP, VAR_POP, ARRAY_AGG. Do NOT nest one aggregate inside'' @ nl @
     ''   another in the same projection.'' @ nl @
     ''4. Filter post-aggregation with HAVING, not WHERE.'' @ nl @
     ''5. Validate with validate_syntax before running; then execute_query with a LIMIT.'' @ nl @ nl @
     ''Template (fill the placeholders):'' @ nl @
     ''```sql'' @ nl @
     ''SELECT g.__GROUP__ AS grp, __METRIC__ AS metric_value'' @ nl @
     ''FROM __DATAVERSE__.__DATASET__ AS g'' @ nl @
     ''WHERE <row-level predicate>          -- optional, prunes rows before grouping'' @ nl @
     ''GROUP BY g.__GROUP__'' @ nl @
     ''HAVING __METRIC__ > <threshold>      -- optional, filters groups'' @ nl @
     ''ORDER BY metric_value DESC'' @ nl @
     ''LIMIT 20;'' @ nl @
     ''```''"

definition compose_build_aggregation_query ::
  "string option \<Rightarrow> string option \<Rightarrow> string option \<Rightarrow> string option \<Rightarrow> string" where
  "compose_build_aggregation_query dataverse dataset group_by metric =
     replace_all ''__METRIC__'' (given_or metric ''<the metric, e.g. COUNT('' @ ''*), AVG(field)>'')
       (replace_all ''__GROUP__'' (given_or group_by ''<the grouping field>'')
         (replace_all ''__DATASET__'' (given_or dataset ''<dataset>'')
           (replace_all ''__DATAVERSE__'' (given_or dataverse ''<dataverse>'') build_aggregation_template)))
     @ nl @ nl @ storage_format_block"

definition compose_analyze_query_performance :: "string option \<Rightarrow> string" where
  "compose_analyze_query_performance statement =
     (let target = (if given_or statement [] = [] then []
        else nl @ nl @ ''Query under analysis:'' @ nl @ ''```sql'' @ nl @ given_or statement [] @ nl @ ''```'')
      in
     ''# Analyze query performance'' @ nl @ nl @
     ''Steps:'' @ nl @
     ''1. Run the query with execute_query and `profile=true` (or submit_async_query for'' @ nl @
     ''   a long one). Read the returned `metrics` block.'' @ nl @
     ''2. Interpret:'' @ nl @
     ''   - `processedObjects` high but `resultCount` low -> a full scan with a late'' @ nl @
     ''     filter; tighten the WHERE or add an index (see recommend_indexes).'' @ nl @
     ''   - `elapsedTime` >> `executionTime` -> queueing or result transport, not compute.'' @ nl @
     ''   - large `resultSize` -> projecting too many columns; project fewer.'' @ nl @
     ''3. Cross-check access paths with explain_query and check_index_usage.'' @ nl @
     ''4. Re-run after each change and compare metrics; change one thing at a time.'' @ target)"

definition compose_recommend_indexes :: "string option \<Rightarrow> string option \<Rightarrow> string" where
  "compose_recommend_indexes dataverse_arg dataset_arg =
     (let dataverse = given_or dataverse_arg ''<dataverse>''; dataset = given_or dataset_arg ''<dataset>'' in
     ''# Recommend indexes for '' @ dataverse @ ''.'' @ dataset @ nl @ nl @
     ''Steps:'' @ nl @
     ''1. Take the slow query. Call check_index_usage with it.'' @ nl @
     ''2. If `usesFullScan` is true or `availableButUnused` lists no helpful index, the'' @ nl @
     ''   query has no selective index for its predicate.'' @ nl @
     ''3. Identify the most selective equality/range field(s) in the WHERE clause from'' @ nl @
     ''   get_schema.'' @ nl @
     ''4. Recommend (do NOT execute '' @ em_dash @ '' this gateway is read-only) a DDL like:'' @ nl @
     ''   ```sql'' @ nl @
     ''   CREATE INDEX idx_'' @ dataset @ ''_<field> ON '' @ dataverse @ ''.'' @ dataset @ ''(<field>);'' @ nl @
     ''   ```'' @ nl @
     ''5. Explain the expected effect: an indexed predicate turns a full scan into a'' @ nl @
     ''   point/range lookup. Re-run check_index_usage mentally against the new index.'' @ nl @ nl @
     ''Only recommend an index a real predicate would use; do not suggest indexes'' @ nl @
     ''speculatively.'')"

definition explore_nested_template :: string where
  "explore_nested_template =
     ''# Explore nested data in __DATAVERSE__.__DATASET__'' @ nl @ nl @
     ''Steps:'' @ nl @
     ''1. Call sample_dataset for __DATAVERSE__.__DATASET__ to see real document shapes,'' @ nl @
     ''   including nested objects and arrays not in the declared schema.'' @ nl @
     ''2. Discover object fields dynamically with OBJECT_NAMES(doc).'' @ nl @
     ''3. Flatten arrays with UNNEST:'' @ nl @
     ''   ```sql'' @ nl @
     ''   SELECT d.id, item'' @ nl @
     ''   FROM __DATAVERSE__.__DATASET__ AS d'' @ nl @
     ''   UNNEST d.<arrayField> AS item'' @ nl @
     ''   LIMIT 20;'' @ nl @
     ''   ```'' @ nl @
     ''4. Reach into nested objects with dot-notation: `d.address.city`. Backtick any'' @ nl @
     ''   path segment that is a reserved word: d.`time`, d.payload.`type`.'' @ nl @
     ''5. Always keep a LIMIT while exploring; nested UNNEST can multiply row counts.''"

definition compose_explore_nested_data :: "string option \<Rightarrow> string option \<Rightarrow> string" where
  "compose_explore_nested_data dataverse dataset =
     replace_all ''__DATASET__'' (given_or dataset ''<dataset>'')
       (replace_all ''__DATAVERSE__'' (given_or dataverse ''<dataverse>'') explore_nested_template)
     @ nl @ nl @ storage_format_block"

definition compose_explain_error :: "string option \<Rightarrow> string" where
  "compose_explain_error error_arg =
     (let error = given_or error_arg ''<paste the AsterixDB error code or message here>'' in
     ''# Explain and fix this error'' @ nl @ nl @
     ''Reported error:'' @ nl @
     ''```'' @ nl @
     error @ nl @
     ''```'' @ nl @ nl @
     ''How to resolve:'' @ nl @
     ''1. Read the error class:'' @ nl @
     ''   - ASX1077 '' @ [CHR 0x22] @ ''Cannot find dataset'' @ [CHR 0x22] @ '' -> the name or its dataverse is wrong; call'' @ nl @
     ''     list_datasets / search_metadata and copy the exact name and casing.'' @ nl @
     ''   - ASX1073/'' @ [CHR 0x22] @ ''type mismatch'' @ [CHR 0x22] @ '' -> a field or literal has an unexpected type; sample'' @ nl @
     ''     the data and cast explicitly (to_number/to_string).'' @ nl @
     ''   - ASX1081 '' @ [CHR 0x22] @ ''Cannot find function'' @ [CHR 0x22] @ '' -> wrong function name; call list_functions.'' @ nl @
     ''     Standard deviation is STDDEV_SAMP/STDDEV_POP (there is no STDEV).'' @ nl @
     ''   - ASX1001/ASX1002 syntax/parse -> malformed SQL++; validate_syntax shows where.'' @ nl @
     ''   - ASX1074 '' @ [CHR 0x22] @ ''ambiguous alias'' @ [CHR 0x22] @ '' -> qualify columns with their alias and do not nest'' @ nl @
     ''     an aggregate inside another aggregate.'' @ nl @
     ''2. Apply the fix, then re-check cheaply with validate_syntax before re-running.'' @ nl @
     ''3. If the cause is unclear, call explain_query to see how the statement compiles.'')"

section \<open>Exploring a dataverse\<close>

definition selection_threshold :: int where "selection_threshold = 10"

text \<open>\<open>json.dumps(..., indent=2)\<close>; the argument is the depth of the value.\<close>

fun pretty_json :: "nat \<Rightarrow> json \<Rightarrow> string" where
  "pretty_json n (JList xs) =
     (if xs = [] then ''[]''
      else ''['' @ indent (Suc n) @ join ('','' @ indent (Suc n)) (map (pretty_json (Suc n)) xs) @ indent n @ '']'')"
| "pretty_json n (JDict d) =
     (if d = [] then ''{}''
      else ''{'' @ indent (Suc n)
           @ join ('','' @ indent (Suc n)) (map (\<lambda>p. json_quote (fst p) @ '': '' @ pretty_json (Suc n) (snd p)) d)
           @ indent n @ ''}'')"
| "pretty_json n v = json_dumps v"

definition format_name_list :: "json list \<Rightarrow> string" where
  "format_name_list names =
     (let rendered = map (\<lambda>n. ''- `'' @ py_str n @ ''`'') (filter truthy names)
      in if rendered = [] then ''- (none)'' else join nl rendered)"

definition needs_dataverse_text :: string where
  "needs_dataverse_text =
     ''# Explore a Dataverse'' @ nl @ nl
     @ ''No `dataverse` was provided. Call list_dataverses to see what exists, then re-invoke analyze_dataverse with a `dataverse` argument (and optionally a `dataset`) to embed its inventory and schema.''"

definition listing_error_text :: "string \<Rightarrow> dict \<Rightarrow> string" where
  "listing_error_text dataverse d =
     ''# Exploring Dataverse `'' @ dataverse @ ''`'' @ nl @ nl
     @ ''Could not list datasets: '' @ py_str (dget_or ''errorMessage'' (JStr ''unknown error'') d) @ nl @ nl
     @ ''Verify the Dataverse name and that the cluster is reachable (read asterixdb://cluster/status).''"

definition compose_analyze_dataverse :: "string \<Rightarrow> json list \<Rightarrow> json \<Rightarrow> json option \<Rightarrow> bool \<Rightarrow> string" where
  "compose_analyze_dataverse dataverse names n_total schema needs_selection =
     join nl
       ([''# Exploring Dataverse `'' @ dataverse @ ''`'', [],
         ''This Dataverse contains '' @ py_str n_total @ '' dataset(s):'', format_name_list names, [],
         storage_format_block, [], ''## Safety Contract'',
         ''- All queries are READ-ONLY; mutations are rejected by the database.'',
         ''- Always include a LIMIT clause (start with LIMIT 20).'',
         ''- Call get_schema before composing a query so you respect the storage format.'',
         ''- Use validate_syntax for unfamiliar queries before spending an execution slot.'']
        @ (if needs_selection
           then [[], ''## Next Step'',
             ''This Dataverse has more than '' @ show_int selection_threshold
             @ '' datasets. Re-invoke this prompt with a specific `dataset` argument to embed its full schema, or call get_schema directly on the dataset you care about.'']
           else (case schema of
               None \<Rightarrow> []
             | Some d \<Rightarrow> [[], ''## Embedded Schema'', ''```json'', pretty_json 0 d, ''```''])))"

definition above_threshold :: "json \<Rightarrow> bool" where
  "above_threshold n_total \<longleftrightarrow> (case n_total of JInt n \<Rightarrow> selection_threshold < n | _ \<Rightarrow> False)"

definition run_analyze_dataverse ::
  "clock \<Rightarrow> cc_client \<Rightarrow> settings \<Rightarrow> string \<Rightarrow> string \<Rightarrow> string option \<Rightarrow> string option \<Rightarrow> string io" where
  "run_analyze_dataverse ck c s u1 u2 dataverse_arg dataset_arg =
     (let dataverse = given_or dataverse_arg []; dataset = given_or dataset_arg [] in
      if dataverse = [] then io_return needs_dataverse_text
      else io_bind (run_list_datasets c s u1 (Some dataverse) 0 50) (\<lambda>listing.
        let d = tr_structured listing; names = map (jget ''dataset'') (list_or_empty (dget ''datasets'' d));
            n_total = dget_or ''totalDatasets'' (JInt (int (length names))) d
        in if tr_is_error listing then io_return (listing_error_text dataverse d)
           else if above_threshold n_total \<and> dataset = []
           then io_return (compose_analyze_dataverse dataverse names n_total None True)
           else if dataset = [] then io_return (compose_analyze_dataverse dataverse names n_total None False)
           else io_bind (run_get_schema ck c s u2 dataverse dataset) (\<lambda>r.
             io_return (compose_analyze_dataverse dataverse names n_total
               (Some (if tr_is_error r then JDict [(''error'', JDict (tr_structured r))] else JDict (tr_structured r))) False))))"

section \<open>The placeholders are filled one after another\<close>

text \<open>
  A value that spells a later placeholder is rewritten by it: a dataverse named after the
  placeholder of the dataset becomes the dataset.
\<close>

lemma placeholder_rewritten:
  "replace_all ''__DATASET__'' ''Orders'' (replace_all ''__DATAVERSE__'' ''__DATASET__'' ''FROM __DATAVERSE__.__DATASET__'')
     = ''FROM Orders.Orders''"
  by code_simp

text \<open>Without a dataverse nothing is sent; the texts never are an error.\<close>

lemma analyze_without_dataverse:
  "given_or dataverse [] = [] \<Longrightarrow> run_analyze_dataverse ck c s u1 u2 dataverse dataset t = (Inr needs_dataverse_text, t)"
  by (simp add: run_analyze_dataverse_def)

end
