(* ===== verification/Output_Schemas.thy ===== *)
theory Output_Schemas
  imports Plan_Parser
begin

text \<open>
  The output schemas advertised for the tools (\<open>output_schemas.py\<close>), as the JSON documents a
  client receives, and what it means for a value to conform to one, for the keywords they use:
  \<open>type\<close>, \<open>properties\<close>, \<open>required\<close> and \<open>items\<close>. Every schema is open for further properties.
\<close>

section \<open>Building schemas\<close>

definition string_schema :: json where "string_schema = JDict [(''type'', JStr ''string'')]"
definition int_schema :: json where "int_schema = JDict [(''type'', JStr ''integer'')]"
definition bool_schema :: json where "bool_schema = JDict [(''type'', JStr ''boolean'')]"
definition object_schema :: json where
  "object_schema = JDict [(''type'', JStr ''object''), (''additionalProperties'', JBool True)]"

definition array_of_objects :: json where
  "array_of_objects = JDict [(''type'', JStr ''array''),
     (''items'', JDict [(''type'', JStr ''object''), (''additionalProperties'', JBool True)])]"

definition rows_schema :: json where "rows_schema = JDict [(''type'', JStr ''array'')]"

definition obj_schema :: "dict \<Rightarrow> string list \<Rightarrow> string \<Rightarrow> json" where
  "obj_schema properties required description =
     JDict ([(''type'', JStr ''object''), (''properties'', JDict properties), (''additionalProperties'', JBool True)]
       @ (if required \<noteq> [] then [(''required'', JList (map JStr required))] else [])
       @ (if description \<noteq> [] then [(''description'', JStr description)] else []))"

section \<open>The schemas\<close>

definition execute_query_schema :: json where
  "execute_query_schema = obj_schema
     [(''learnedNotes'', array_of_objects),
       (''staleNotes'', JDict [(''type'', JStr ''array''),
         (''items'', string_schema)]),
       (''status'', string_schema),
       (''results'', rows_schema),
       (''rowsReturned'', int_schema),
       (''rowsAvailableInResponse'', int_schema),
       (''moreAvailable'', bool_schema),
       (''offset'', int_schema),
       (''limit'', int_schema),
       (''clientContextID'', string_schema),
       (''egress'', object_schema),
       (''metrics'', object_schema)]
     [''status'', ''results'']
     ''Rows from a synchronous read-only query, with paging and egress metadata.''"

definition get_schema_schema :: json where
  "get_schema_schema = obj_schema
     [(''status'', string_schema),
       (''dataverse'', string_schema),
       (''dataset'', string_schema),
       (''datatypeName'', string_schema),
       (''primaryKey'', JDict [(''type'', JStr ''array'')]),
       (''fields'', array_of_objects),
       (''secondaryIndexes'', array_of_objects),
       (''datasetFormatInfo'', obj_schema
         [(''format'', string_schema)]
         []
         []),
       (''learnedNotes'', array_of_objects)]
     [''dataset'', ''fields'', ''datasetFormatInfo'']
     ''Declared schema of one dataset, including ROW vs COLUMNAR storage format.''"

definition list_dataverses_schema :: json where
  "list_dataverses_schema = obj_schema
     [(''status'', string_schema),
       (''count'', int_schema),
       (''dataverses'', array_of_objects)]
     [''dataverses'']
     ''Every dataverse (namespace) on the cluster.''"

definition list_datasets_schema :: json where
  "list_datasets_schema = obj_schema
     [(''status'', string_schema),
       (''dataverseFilter'', JDict [(''type'', JList [JStr ''string'',
           JStr ''null''])]),
       (''totalDatasets'', int_schema),
       (''offset'', int_schema),
       (''limit'', int_schema),
       (''moreAvailable'', bool_schema),
       (''datasets'', array_of_objects),
       (''nameCollisions'', int_schema)]
     [''datasets'']
     ''Paginated dataset summaries, optionally scoped to one dataverse.''"

definition describe_dataverse_schema :: json where
  "describe_dataverse_schema = obj_schema
     [(''status'', string_schema),
       (''dataverse'', string_schema),
       (''datasetCount'', int_schema),
       (''describedCount'', int_schema),
       (''truncated'', bool_schema),
       (''datasets'', array_of_objects)]
     [''dataverse'', ''datasets'']
     ''Full schema of every dataset in one dataverse.''"

definition sample_dataset_schema :: json where
  "sample_dataset_schema = obj_schema
     [(''learnedNotes'', array_of_objects),
       (''staleNotes'', JDict [(''type'', JStr ''array''),
         (''items'', string_schema)]),
       (''status'', string_schema),
       (''dataverse'', string_schema),
       (''dataset'', string_schema),
       (''sampleSize'', int_schema),
       (''rowsReturned'', int_schema),
       (''results'', rows_schema),
       (''egress'', object_schema)]
     [''results'']
     ''A small bounded sample of real documents from a dataset.''"

definition submit_async_query_schema :: json where
  "submit_async_query_schema = obj_schema
     [(''status'', string_schema),
       (''clientContextID'', string_schema),
       (''queryStatus'', string_schema),
       (''done'', bool_schema)]
     [''clientContextID'']
     ''Handle for an async query; the clientContextID drives the whole lifecycle.''"

definition wait_on_async_query_schema :: json where
  "wait_on_async_query_schema = obj_schema
     [(''status'', string_schema),
       (''clientContextID'', string_schema),
       (''done'', bool_schema),
       (''failed'', bool_schema),
       (''timeout'', bool_schema),
       (''cancelled'', bool_schema),
       (''fatal'', bool_schema),
       (''queryStatus'', string_schema)]
     [''clientContextID'', ''done'']
     ''Completion state of an async query; done:true means results are ready.''"

definition fetch_query_result_schema :: json where
  "fetch_query_result_schema = obj_schema
     [(''status'', string_schema),
       (''clientContextID'', string_schema),
       (''results'', rows_schema),
       (''rowsReturned'', int_schema),
       (''rowsAvailableInResponse'', int_schema),
       (''moreAvailable'', bool_schema),
       (''offset'', int_schema),
       (''limit'', int_schema),
       (''egress'', object_schema)]
     [''clientContextID'', ''results'']
     ''A page of rows from a completed async query.''"

definition cancel_query_schema :: json where
  "cancel_query_schema = obj_schema
     [(''status'', string_schema),
       (''clientContextID'', string_schema),
       (''cancelled'', bool_schema)]
     [''clientContextID'']
     ''Result of cancelling an in-flight async query.''"

definition validate_syntax_schema :: json where
  "validate_syntax_schema = obj_schema
     [(''status'', string_schema),
       (''valid'', bool_schema),
       (''errorType'', string_schema),
       (''errorMessage'', string_schema)]
     [''valid'']
     ''Whether a statement compiles; valid:false distinguishes syntax vs semantics.''"

definition explain_query_schema :: json where
  "explain_query_schema = obj_schema
     [(''status'', string_schema),
       (''valid'', bool_schema),
       (''plan'', object_schema),
       (''warnings'', JDict [(''type'', JStr ''array'')]),
       (''hints'', array_of_objects)]
     [''plan'']
     ''The optimized logical plan, optimizer warnings, and directional hints.''"

definition explain_physical_plan_schema :: json where
  "explain_physical_plan_schema = obj_schema
     [(''status'', string_schema),
       (''job'', object_schema)]
     [''job'']
     ''The physical Hyracks job: operator/connector DAG, counts, and parallelism.''"

definition check_index_usage_schema :: json where
  "check_index_usage_schema = obj_schema
     [(''status'', string_schema),
       (''datasetsAnalyzed'', int_schema),
       (''used'', array_of_objects),
       (''availableButUnused'', array_of_objects),
       (''usesFullScan'', bool_schema)]
     [''used'', ''availableButUnused'', ''usesFullScan'']
     (''Which secondary indexes a query'' @ [CHR 0x27] @ ''s plan uses, ignores, or scans past.'')"

definition list_functions_schema :: json where
  "list_functions_schema = obj_schema
     [(''status'', string_schema),
       (''total'', int_schema),
       (''offset'', int_schema),
       (''limit'', int_schema),
       (''moreAvailable'', bool_schema),
       (''functions'', array_of_objects)]
     [''functions'']
     ''Built-in and user-defined SQL++ functions, paginated and filterable.''"

definition get_function_schema :: json where
  "get_function_schema = obj_schema
     [(''status'', string_schema),
       (''name'', string_schema),
       (''dataverse'', string_schema),
       (''category'', string_schema),
       (''summary'', string_schema),
       (''language'', string_schema),
       (''params'', JDict [(''type'', JStr ''array'')]),
       (''returnType'', string_schema),
       (''definition'', string_schema),
       (''arity'', int_schema),
       (''scope'', string_schema)]
     [''name'']
     (''One function'' @ [CHR 0x27] @ ''s signature and details (built-in summary or UDF body).'')"

definition memory_search_schema :: json where
  "memory_search_schema = obj_schema
     [(''status'', string_schema),
       (''query'', string_schema),
       (''subject'', JDict [(''type'', JList [JStr ''string'',
           JStr ''null''])]),
       (''limit'', int_schema),
       (''matches'', array_of_objects)]
     [''matches'']
     ''Current OKF memory concepts matched by subject key, full text, and link hop.''"

definition memory_write_schema :: json where
  "memory_write_schema = obj_schema
     [(''status'', string_schema),
       (''subject'', string_schema),
       (''action'', string_schema),
       (''id'', JDict [(''type'', JList [JStr ''string'',
           JStr ''null''])]),
       (''retired'', int_schema),
       (''verified'', JDict [(''type'', JStr ''boolean'')])]
     [''action'']
     ''Outcome of one bi-temporal memory write: created, annotated, superseded, or unchanged, with the new row id when one was inserted and the count of outdated lines retired via `replaces`.''"

definition remember_preference_schema :: json where
  "remember_preference_schema = obj_schema
     [(''status'', string_schema),
       (''scope'', string_schema),
       (''action'', string_schema),
       (''id'', JDict [(''type'', JList [JStr ''string'',
           JStr ''null''])])]
     [''action'']
     ''Outcome of recording a query-writing preference: created (with the new row id) or unchanged when the same rule was already present for that scope.''"

definition search_metadata_schema :: json where
  "search_metadata_schema = obj_schema
     [(''status'', string_schema),
       (''query'', string_schema),
       (''totalMatches'', int_schema),
       (''limit'', int_schema),
       (''matches'', array_of_objects)]
     [''matches'']
     ''Fuzzy name matches across datasets, types, indexes, functions, and feeds.''"

definition get_cluster_status_schema :: json where
  "get_cluster_status_schema = obj_schema
     [(''status'', string_schema),
       (''version'', JDict [(''type'', JList [JStr ''string'',
           JStr ''null''])]),
       (''state'', string_schema),
       (''nodeCount'', int_schema),
       (''nodes'', array_of_objects)]
     [''nodes'']
     ''Cluster version, overall state, and the per-node roster.''"

definition get_node_details_schema :: json where
  "get_node_details_schema = obj_schema
     [(''status'', string_schema),
       (''node'', string_schema),
       (''details'', object_schema)]
     [''details'']
     ''Per-node-controller statistics for one node id.''"

definition get_reference_schema :: json where
  "get_reference_schema = obj_schema
     [(''status'', string_schema),
       (''topic'', string_schema),
       (''topics'', object_schema),
       (''all'', bool_schema)]
     []
     ''Curated in-gateway SQL++ reference content for one topic or all topics.''"

definition database_health_check_schema :: json where
  "database_health_check_schema = obj_schema
     [(''status'', string_schema),
       (''dataverseFilter'', JDict [(''type'', JList [JStr ''string'',
           JStr ''null''])]),
       (''datasetsScanned'', int_schema),
       (''indexesScanned'', int_schema),
       (''findingsCount'', int_schema),
       (''checks'', JDict [(''type'', JStr ''array'')]),
       (''findings'', array_of_objects)]
     [''findings'', ''findingsCount'']
     ''Schema-level health findings (duplicate/redundant indexes, columnar hints).''"

definition get_query_history_schema :: json where
  "get_query_history_schema = obj_schema
     [(''status'', string_schema),
       (''limit'', int_schema),
       (''failuresOnly'', bool_schema),
       (''count'', int_schema),
       (''queries'', array_of_objects)]
     [''queries'', ''count'']
     ''Recent session queries with outcome and classified error, newest first.''"

definition recommend_indexes_schema :: json where
  "recommend_indexes_schema = obj_schema
     [(''status'', string_schema),
       (''method'', string_schema),
       (''dataverseFilter'', JDict [(''type'', JList [JStr ''string'',
           JStr ''null''])]),
       (''statementsSubmitted'', int_schema),
       (''statementsAnalyzed'', int_schema),
       (''nativeAdviseStatements'', int_schema),
       (''indexesKnown'', int_schema),
       (''currentIndexes'', JDict [(''type'', JStr ''array'')]),
       (''recommendationCount'', int_schema),
       (''recommendations'', array_of_objects),
       (''skipped'', array_of_objects)]
     [''recommendations'', ''recommendationCount'']
     (''Ranked CREATE INDEX recommendations from AsterixDB'' @ [CHR 0x27] @ ''s native ADVISE advisor (heuristic plan-scan fallback).'')"

definition get_dataset_statistics_schema :: json where
  "get_dataset_statistics_schema = obj_schema
     [(''status'', string_schema),
       (''dataverse'', string_schema),
       (''dataset'', string_schema),
       (''analyzed'', bool_schema),
       (''statistics'', obj_schema
         [(''rowCountEstimate'', int_schema),
           (''avgItemSizeBytes'', int_schema),
           (''estimatedSizeBytes'', int_schema),
           (''sampleTarget'', int_schema)]
         []
         []),
       (''analyzeStatement'', string_schema),
       (''note'', string_schema)]
     [''dataverse'', ''dataset'', ''analyzed'']
     (''A dataset'' @ [CHR 0x27] @ ''s sampled row-count/size estimates and whether it has been ANALYZEd; analyzed:false means the optimizer has no statistics for it.'')"

definition list_running_queries_schema :: json where
  "list_running_queries_schema = obj_schema
     [(''status'', string_schema),
       (''count'', int_schema),
       (''statementsRedacted'', bool_schema),
       (''queries'', array_of_objects)]
     [''count'', ''queries'']
     ''The requests the cluster is currently running; statement text is redacted unless includeStatements is set.''"

definition profile_query_schema :: json where
  "profile_query_schema = obj_schema
     [(''status'', string_schema),
       (''clientContextID'', string_schema),
       (''effectiveStatement'', string_schema),
       (''metrics'', object_schema),
       (''profile'', obj_schema
         [(''operatorCount'', int_schema),
           (''operators'', array_of_objects),
           (''jobId'', string_schema)]
         []
         [])]
     [''clientContextID'']
     ''Runtime actuals from executing a query with profiling: per-operator run time and output cardinality, plus execution metrics (no result rows).''"

definition output_schemas :: "(string \<times> json) list" where
  "output_schemas =
     [(''execute_query'', execute_query_schema),
      (''get_schema'', get_schema_schema),
      (''list_dataverses'', list_dataverses_schema),
      (''list_datasets'', list_datasets_schema),
      (''describe_dataverse'', describe_dataverse_schema),
      (''sample_dataset'', sample_dataset_schema),
      (''submit_async_query'', submit_async_query_schema),
      (''wait_on_async_query'', wait_on_async_query_schema),
      (''fetch_query_result'', fetch_query_result_schema),
      (''cancel_query'', cancel_query_schema),
      (''validate_syntax'', validate_syntax_schema),
      (''explain_query'', explain_query_schema),
      (''explain_physical_plan'', explain_physical_plan_schema),
      (''check_index_usage'', check_index_usage_schema),
      (''list_functions'', list_functions_schema),
      (''get_function'', get_function_schema),
      (''memory_search'', memory_search_schema),
      (''memory_write'', memory_write_schema),
      (''remember_preference'', remember_preference_schema),
      (''search_metadata'', search_metadata_schema),
      (''get_cluster_status'', get_cluster_status_schema),
      (''get_node_details'', get_node_details_schema),
      (''get_reference'', get_reference_schema),
      (''database_health_check'', database_health_check_schema),
      (''get_query_history'', get_query_history_schema),
      (''recommend_indexes'', recommend_indexes_schema),
      (''get_dataset_statistics'', get_dataset_statistics_schema),
      (''list_running_queries'', list_running_queries_schema),
      (''profile_query'', profile_query_schema)]"

section \<open>Conformance\<close>

definition is_integral :: "rat \<Rightarrow> bool" where
  "is_integral r \<longleftrightarrow> r = of_int \<lfloor>r\<rfloor>"

definition has_type :: "string \<Rightarrow> json \<Rightarrow> bool" where
  "has_type name v \<longleftrightarrow>
     (case v of
        JNull \<Rightarrow> name = ''null''
      | JBool _ \<Rightarrow> name = ''boolean''
      | JInt _ \<Rightarrow> name = ''integer'' \<or> name = ''number''
      | JReal r \<Rightarrow> name = ''number'' \<or> name = ''integer'' \<and> is_integral r
      | JStr _ \<Rightarrow> name = ''string''
      | JList _ \<Rightarrow> name = ''array''
      | JDict _ \<Rightarrow> name = ''object'')"

definition type_admits :: "json \<Rightarrow> json \<Rightarrow> bool" where
  "type_admits t v \<longleftrightarrow>
     (case t of
        JStr name \<Rightarrow> has_type name v
      | JList ts \<Rightarrow> list_ex (\<lambda>t. case t of JStr name \<Rightarrow> has_type name v | _ \<Rightarrow> False) ts
      | _ \<Rightarrow> True)"

definition required_keys :: "json \<Rightarrow> string list" where
  "required_keys schema = List.map_filter as_str (list_or_empty (jget ''required'' schema))"

definition property_schemas :: "json \<Rightarrow> dict" where
  "property_schemas schema = dict_or_empty (jget ''properties'' schema)"

lemma jget_size: "jget k v \<noteq> JNull \<Longrightarrow> size (jget k v) < size v"
proof (cases v)
  case (JDict d)
  assume "jget k v \<noteq> JNull"
  then have "map_of d k = Some (dget k d)" using JDict by (auto simp: dget_def split: option.splits)
  from size_dget [OF this] show ?thesis using JDict by simp
qed simp_all

lemma property_size: "p \<in> set (property_schemas schema) \<Longrightarrow> size (snd p) < size schema"
proof -
  assume p: "p \<in> set (property_schemas schema)"
  then obtain d where d: "jget ''properties'' schema = JDict d" "p \<in> set d"
    by (cases "jget ''properties'' schema") (auto simp: property_schemas_def dict_or_empty_def)
  have "size (snd p) < size (JDict d)" using d(2) by (induction d) (auto simp: size_prod_simp)
  also have "\<dots> < size schema" using jget_size [of "''properties''" schema] d(1) by simp
  finally show ?thesis .
qed

function conforms :: "json \<Rightarrow> json \<Rightarrow> bool" where
  "conforms schema v \<longleftrightarrow>
     type_admits (jget ''type'' schema) v
     \<and> (case v of
          JDict d \<Rightarrow>
            (\<forall>p \<in> set (property_schemas schema).
               case map_of d (fst p) of None \<Rightarrow> True | Some x \<Rightarrow> conforms (snd p) x)
            \<and> list_all (\<lambda>k. map_of d k \<noteq> None) (required_keys schema)
        | JList xs \<Rightarrow>
            (if jget ''items'' schema = JNull then True else \<forall>x \<in> set xs. conforms (jget ''items'' schema) x)
        | _ \<Rightarrow> True)"
  by pat_completeness auto
termination
  by (relation "measure (\<lambda>(schema, v). size schema)") (auto simp: property_size jget_size)

declare conforms.simps [simp del]

named_theorems conform \<open>conformance to the schemas\<close>

lemma conforms_leaf [conform]:
  "conforms string_schema v \<longleftrightarrow> (\<exists>s. v = JStr s)"
  "conforms bool_schema v \<longleftrightarrow> (\<exists>b. v = JBool b)"
  "conforms int_schema v \<longleftrightarrow> (\<exists>i. v = JInt i) \<or> (\<exists>r. v = JReal r \<and> is_integral r)"
  "conforms object_schema v \<longleftrightarrow> (\<exists>d. v = JDict d)"
  "conforms rows_schema v \<longleftrightarrow> (\<exists>xs. v = JList xs)"
  "conforms (JDict [(''type'', JStr ''array'')]) v \<longleftrightarrow> (\<exists>xs. v = JList xs)"
  "conforms (JDict [(''type'', JStr ''boolean'')]) v \<longleftrightarrow> (\<exists>b. v = JBool b)"
  "conforms (JDict [(''type'', JList [JStr ''string'', JStr ''null''])]) v \<longleftrightarrow> v = JNull \<or> (\<exists>s. v = JStr s)"
  by (cases v; subst conforms.simps; simp add: string_schema_def bool_schema_def int_schema_def object_schema_def
      rows_schema_def type_admits_def has_type_def property_schemas_def dict_or_empty_def required_keys_def
      list_or_empty_def map_filter_simps)+

lemma conforms_objects [conform]: "conforms array_of_objects (JList xs) \<longleftrightarrow> list_all is_dict xs"
proof -
  have "conforms (JDict [(''type'', JStr ''object''), (''additionalProperties'', JBool True)]) x \<longleftrightarrow> is_dict x" for x
    using conforms_leaf(4) [of x] by (cases x) (simp_all add: object_schema_def)
  then show ?thesis
    by (subst conforms.simps) (simp add: array_of_objects_def type_admits_def has_type_def list_all_iff)
qed

lemma conforms_strings [conform]:
  "conforms (JDict [(''type'', JStr ''array''), (''items'', string_schema)]) (JList xs) \<longleftrightarrow> list_all (\<lambda>x. \<exists>s. x = JStr s) xs"
proof -
  have "string_schema \<noteq> JNull" by (simp add: string_schema_def)
  then show ?thesis
    by (subst conforms.simps) (simp add: type_admits_def has_type_def list_all_iff conform)
qed

text \<open>
  An object conforms if every field of it that the schema describes does and the required ones
  are there; a value of another kind does not.
\<close>

definition fields_conform :: "dict \<Rightarrow> dict \<Rightarrow> bool" where
  "fields_conform properties d \<longleftrightarrow>
     list_all (\<lambda>p. case map_of properties (fst p) of None \<Rightarrow> True | Some s \<Rightarrow> conforms s (snd p)) d"

lemma fields_conform_simps [conform]:
  "fields_conform properties []"
  "fields_conform properties ((k, v) # d) \<longleftrightarrow>
     (case map_of properties k of None \<Rightarrow> True | Some s \<Rightarrow> conforms s v) \<and> fields_conform properties d"
  "fields_conform properties (d @ e) \<longleftrightarrow> fields_conform properties d \<and> fields_conform properties e"
  by (simp_all add: fields_conform_def cong: option.case_cong)

lemma conforms_object:
  assumes "distinct (map fst properties)"
    and "fields_conform properties d" and "list_all (\<lambda>k. k \<in> fst ` set d) required"
  shows "conforms (obj_schema properties required description) (JDict d)"
proof -
  let ?s = "obj_schema properties required description"
  have parts: "jget ''type'' ?s = JStr ''object''" "property_schemas ?s = properties" "required_keys ?s = required"
  proof -
    have "List.map_filter as_str (map JStr required) = required" by (induction required) (simp_all add: map_filter_simps)
    then show "required_keys ?s = required"
      by (simp add: required_keys_def obj_schema_def list_or_empty_def map_filter_simps)
  qed (simp_all add: obj_schema_def property_schemas_def dict_or_empty_def)
  have "case map_of d (fst p) of None \<Rightarrow> True | Some x \<Rightarrow> conforms (snd p) x" if "p \<in> set properties" for p
  proof (cases "map_of d (fst p)")
    case (Some x)
    then have "(fst p, x) \<in> set d" by (rule map_of_SomeD)
    moreover have "map_of properties (fst p) = Some (snd p)" using that assms(1) by simp
    ultimately have "conforms (snd p) x" using assms(2) by (force simp: fields_conform_def list_all_iff)
    then show ?thesis using Some by simp
  qed simp
  moreover have "list_all (\<lambda>k. map_of d k \<noteq> None) required"
    using assms(3) by (simp add: list_all_iff map_of_eq_None_iff)
  ultimately show ?thesis
    by (subst conforms.simps) (simp add: parts type_admits_def has_type_def)
qed

lemma conforms_obj_only_objects:
  assumes "conforms (obj_schema properties required description) v"
  shows "\<exists>d. v = JDict d"
proof -
  have "type_admits (jget ''type'' (obj_schema properties required description)) v"
    using assms by (subst (asm) conforms.simps) simp
  then show ?thesis by (cases v) (simp_all add: obj_schema_def type_admits_def has_type_def)
qed

end
