(* ===== verification/Tool_Surface.thy ===== *)
theory Tool_Surface
  imports Output_Schemas Artifacts
begin

text \<open>
  What a client sees of a tool: the behavioural hints (\<open>tool_annotations.py\<close>), the advertised
  output schemas (\<open>apply_output_schemas\<close>) and the reply to a call, which \<open>server.py\<close> builds from
  the result of a tool (\<open>_to_call_tool_result\<close> and its helpers).
\<close>

section \<open>Hints\<close>

record tool_annotations =
  ta_title :: string
  ta_read_only :: bool
  ta_destructive :: bool
  ta_idempotent :: bool
  ta_open_world :: bool

definition live_read_only_titles :: "(string \<times> string) list" where
  "live_read_only_titles =
     [(''execute_query'', ''Execute Read-Only SQL++ Query''),
      (''get_schema'', ''Get Dataset Schema''),
      (''list_dataverses'', ''List Dataverses''),
      (''list_datasets'', ''List Datasets''),
      (''describe_dataverse'', ''Describe Dataverse''),
      (''sample_dataset'', ''Sample Dataset Documents''),
      (''wait_on_async_query'', ''Wait on Async Query''),
      (''fetch_query_result'', ''Fetch Async Query Result''),
      (''validate_syntax'', ''Validate SQL++ Syntax''),
      (''explain_query'', ''Explain Query Plan''),
      (''explain_physical_plan'', ''Explain Physical Plan''),
      (''check_index_usage'', ''Check Index Usage''),
      (''list_functions'', ''List SQL++ Functions''),
      (''get_function'', ''Get Function Details''),
      (''search_metadata'', ''Search Metadata Catalog''),
      (''memory_search'', ''Search Agent Memory''),
      (''get_cluster_status'', ''Get Cluster Status''),
      (''get_node_details'', ''Get Node Details''),
      (''database_health_check'', ''Database Health Check''),
      (''recommend_indexes'', ''Recommend Indexes''),
      (''get_dataset_statistics'', ''Get Dataset Statistics''),
      (''list_running_queries'', ''List Running Queries''),
      (''profile_query'', ''Profile Query Runtime'')]"

definition live_read_only :: "string \<Rightarrow> tool_annotations" where
  "live_read_only title =
     \<lparr>ta_title = title, ta_read_only = True, ta_destructive = False, ta_idempotent = True, ta_open_world = True\<rparr>"

definition tool_annotations_table :: "(string \<times> tool_annotations) list" where
  "tool_annotations_table =
     map (\<lambda>(name, title). (name, live_read_only title)) live_read_only_titles
     @ [(''submit_async_query'', (live_read_only ''Submit Async SQL++ Query'')\<lparr>ta_idempotent := False\<rparr>),
        (''cancel_query'', (live_read_only ''Cancel Async Query'')\<lparr>ta_read_only := False\<rparr>),
        (''memory_write'', (live_read_only ''Write Agent Memory'')\<lparr>ta_read_only := False\<rparr>),
        (''remember_preference'', (live_read_only ''Remember Query Preference'')\<lparr>ta_read_only := False\<rparr>),
        (''get_reference'', (live_read_only ''Read SQL++ Reference'')\<lparr>ta_open_world := False\<rparr>),
        (''get_query_history'', (live_read_only ''Get Query History'')\<lparr>ta_open_world := False\<rparr>)]"

section \<open>Advertising the schemas\<close>

definition memory_tool_names :: "string list" where
  "memory_tool_names = [''memory_search'', ''memory_write'', ''remember_preference'']"

text \<open>The registered names in, the schema of each of them out; a schema without a tool raises.\<close>

definition apply_output_schemas :: "string list \<Rightarrow> string list \<Rightarrow> exn + (string \<times> json) list" where
  "apply_output_schemas registered exclude =
     (let advertised = filter (\<lambda>(name, schema). name \<notin> set exclude) output_schemas
      in if list_all (\<lambda>(name, schema). name \<in> set registered) advertised then Inr advertised
         else Inl (PyExc ''KeyError''))"

section \<open>The reply to a call\<close>

record call_result =
  cr_text :: string
  cr_link :: "dict option"
  cr_structured :: "dict option"
  cr_is_error :: bool

text \<open>\<open>json.dumps(..., ensure_ascii=False, separators=(",", ":"))\<close>.\<close>

fun compact_dumps :: "json \<Rightarrow> string" where
  "compact_dumps (JList xs) = ''['' @ join '','' (map compact_dumps xs) @ '']''"
| "compact_dumps (JDict d) =
     ''{'' @ join '','' (map (\<lambda>p. wide_quote (fst p) @ '':'' @ compact_dumps (snd p)) d) @ ''}''"
| "compact_dumps v = wide_dumps v"

definition text_with_payload :: "tool_result \<Rightarrow> string" where
  "text_with_payload r =
     (if tr_structured r = [] then tr_text r
      else tr_text r @ [CHR 0x0A, CHR 0x0A] @ ''```json'' @ [CHR 0x0A]
        @ compact_dumps (JDict (tr_structured r)) @ [CHR 0x0A] @ ''```'')"

text \<open>
  The link to an overflow artifact. An \<open>artifact\<close> field that is neither absent nor an object has
  no \<open>get\<close>.
\<close>

definition artifact_link_block :: "tool_result \<Rightarrow> exn + dict option" where
  "artifact_link_block r =
     (case dget ''egress'' (tr_structured r) of
        JDict egress \<Rightarrow> (case dget ''artifact'' egress of
            JDict payload \<Rightarrow> Inr (artifact_link payload)
          | v \<Rightarrow> if truthy v then Inl (PyExc ''AttributeError'') else Inr None)
      | _ \<Rightarrow> Inr None)"

definition to_call_tool_result :: "tool_result \<Rightarrow> exn + call_result" where
  "to_call_tool_result r =
     (if tr_is_error r
      then Inr \<lparr>cr_text = tr_text r, cr_link = None, cr_structured = None, cr_is_error = True\<rparr>
      else sum_bind (artifact_link_block r) (\<lambda>link.
        Inr \<lparr>cr_text = text_with_payload r, cr_link = link, cr_structured = Some (tr_structured r), cr_is_error = False\<rparr>))"

section \<open>The name of the client\<close>

definition max_client_identity_len :: nat where "max_client_identity_len = 80"

text \<open>Name and version of the handshake, if the call has a connection whose client sent them.\<close>

definition client_identity :: "(string \<times> string) option \<Rightarrow> string option" where
  "client_identity info =
     (case info of None \<Rightarrow> None
      | Some (name, version) \<Rightarrow>
          if strip name = [] then None
          else Some (take max_client_identity_len
            (if strip version = [] then strip name else strip name @ ''/'' @ strip version)))"

lemma client_identity_bounds:
  assumes "client_identity info = Some name"
  shows "name \<noteq> []" "length name \<le> max_client_identity_len"
  using assms by (auto simp: client_identity_def max_client_identity_len_def split: option.splits if_splits)

section \<open>What every reply satisfies\<close>

lemma error_reply:
  "tr_is_error r \<Longrightarrow> to_call_tool_result r =
     Inr \<lparr>cr_text = tr_text r, cr_link = None, cr_structured = None, cr_is_error = True\<rparr>"
  by (simp add: to_call_tool_result_def)

lemma reply_fields:
  assumes "to_call_tool_result r = Inr reply"
  shows "cr_is_error reply = tr_is_error r"
    and "cr_structured reply = (if tr_is_error r then None else Some (tr_structured r))"
  using assms by (auto simp: to_call_tool_result_def sum_bind_def split: if_splits sum.splits)

lemma payload_mirrored:
  assumes "to_call_tool_result r = Inr reply" and "\<not> tr_is_error r" and "tr_structured r \<noteq> []"
  shows "contains (compact_dumps (JDict (tr_structured r))) (cr_text reply)"
proof -
  have "cr_text reply = text_with_payload r"
    using assms by (auto simp: to_call_tool_result_def sum_bind_def split: if_splits sum.splits)
  then have "cr_text reply = (tr_text r @ [CHR 0x0A, CHR 0x0A] @ ''```json'' @ [CHR 0x0A])
      @ compact_dumps (JDict (tr_structured r)) @ ([CHR 0x0A] @ ''```'')"
    using assms(3) by (simp add: text_with_payload_def del: compact_dumps.simps)
  then show ?thesis unfolding contains_iff by blast
qed

end
