(* ===== verification/Gateway_Server.thy ===== *)
theory Gateway_Server
  imports Tool_Surface Http_Gate Cluster_Tools Prompts Index_Advice Health_Check Async_Query Job_Parser
    Profile_Parser Reference_Tools Metadata_Search
begin

text \<open>
  The server (\<open>server.py\<close>): the state that the tools share, one definition per registered tool,
  resource and prompt, and the dispatch of a call. A call is atomic in this model. What other calls
  in flight do to it is its environment: the permit pools as they leave them. Clock readings, fresh
  identifiers, the verified token and the connection of the call are in the environment, too.
\<close>

section \<open>State\<close>

record gateway =
  gw_settings :: settings
  gw_http :: network

record server_state =
  sv_scopes :: scope_registry
  sv_audit :: audit_log
  sv_artifacts :: artifact_dir
  sv_events :: event_buffer

record call_env =
  ce_connection :: connection
  ce_token :: "string option"
  ce_client_info :: "(string \<times> string) option"
  ce_uuid :: "nat \<Rightarrow> string"
  ce_now :: rat
  ce_clock :: clock
  ce_artifacts :: artifact_env
  ce_event :: event_env
  ce_start :: rat
  ce_reads :: "nat \<Rightarrow> rat"
  ce_pools :: permit_pools

definition exec_env_of :: "call_env \<Rightarrow> exec_env" where
  "exec_env_of env = \<lparr>xe_clock = ce_clock env, xe_artifacts = ce_artifacts env, xe_uuid = ce_uuid env 1\<rparr>"

definition async_env_of :: "call_env \<Rightarrow> async_env" where
  "async_env_of env = \<lparr>ay_now = ce_now env, ay_uuid = ce_uuid env 1, ay_start = ce_start env, ay_reads = ce_reads env,
     ay_clock = ce_clock env, ay_event = ce_event env\<rparr>"

text \<open>
  The one client all tools share is bound to nobody; \<open>_client(ctx)\<close> binds it to the tenant of the
  call. The scope of a call is looked up several times by the code; it is the same each time.
\<close>

definition holder_client :: "gateway \<Rightarrow> cc_client" where
  "holder_client gw = \<lparr>cc_settings = gw_settings gw, cc_http = gw_http gw, cc_principal = None\<rparr>"

definition call_scope :: "call_env \<Rightarrow> gateway \<Rightarrow> server_state \<Rightarrow> session_scope" where
  "call_scope env gw st =
     fst (for_call (ce_connection env) (ce_token env) (gw_settings gw) (ce_uuid env 0) (sv_scopes st))"

definition call_principal :: "call_env \<Rightarrow> gateway \<Rightarrow> server_state \<Rightarrow> string" where
  "call_principal env gw st = id_principal (sc_identity (call_scope env gw st))"

definition call_client :: "call_env \<Rightarrow> gateway \<Rightarrow> server_state \<Rightarrow> cc_client" where
  "call_client env gw st = for_principal (holder_client gw) (call_principal env gw st)"

text \<open>The private state of the scope after the call, and the registry a lookup leaves behind.\<close>

definition keep_scope :: "call_env \<Rightarrow> gateway \<Rightarrow> private_state \<Rightarrow> server_state \<Rightarrow> server_state" where
  "keep_scope env gw p st =
     st\<lparr>sv_scopes := call_with (ce_connection env) (ce_token env) (gw_settings gw) (ce_uuid env 0) (\<lambda>_. p) (sv_scopes st)\<rparr>"

definition looked_up :: "call_env \<Rightarrow> gateway \<Rightarrow> server_state \<Rightarrow> server_state" where
  "looked_up env gw st = keep_scope env gw (sc_state (call_scope env gw st)) st"

section \<open>Replies\<close>

definition reply_with :: "tool_result \<Rightarrow> server_state \<Rightarrow> (call_result \<times> server_state) io" where
  "reply_with r st = io_bind (io_lift (to_call_tool_result r)) (\<lambda>reply. io_return (reply, st))"

definition plain_tool :: "tool_result io \<Rightarrow> server_state \<Rightarrow> (call_result \<times> server_state) io" where
  "plain_tool m st = io_bind m (\<lambda>r. reply_with r st)"

text \<open>The three discovery tools read with the unbound client and may carry the briefing.\<close>

definition briefed_tool ::
  "call_env \<Rightarrow> gateway \<Rightarrow> tool_result io \<Rightarrow> server_state \<Rightarrow> (call_result \<times> server_state) io" where
  "briefed_tool env gw m st =
     io_bind m (\<lambda>r.
       let p = sc_state (call_scope env gw st)
       in io_bind (maybe_attach_briefing (call_client env gw st) (gw_settings gw) (ce_uuid env 3) (ps_briefed p) r)
            (\<lambda>(r', briefed). reply_with r' (keep_scope env gw (p\<lparr>ps_briefed := briefed\<rparr>) st)))"

definition recall_or :: "recall_state \<Rightarrow> recall_state option \<Rightarrow> recall_state" where
  "recall_or old given = (case given of None \<Rightarrow> old | Some x \<Rightarrow> x)"

section \<open>The tools\<close>

text \<open>\<open>(result.structured or {}).get("metrics")\<close>, read by the capture only when memory is on.\<close>

definition captured_metrics :: "settings \<Rightarrow> tool_result \<Rightarrow> exn + dict" where
  "captured_metrics s r =
     (if \<not> memory_enabled s then Inr []
      else case dget ''metrics'' (tr_structured r) of
        JDict d \<Rightarrow> Inr d
      | v \<Rightarrow> if truthy v then Inl (PyExc ''AttributeError'') else Inr [])"

definition permitted_execution ::
  "call_env \<Rightarrow> gateway \<Rightarrow> exec_args \<Rightarrow> server_state \<Rightarrow> (tool_result \<times> recall_state option \<times> artifact_dir) io" where
  "permitted_execution env gw a st =
     (let recall = ps_recall (sc_state (call_scope env gw st))
      in io_catch
           (under_permit (pools_sync (ce_pools env)) (Some (call_principal env gw st))
              (run_execute_query (exec_env_of env) (call_client env gw st) (gw_settings gw) a (Some recall) (sv_artifacts st)))
           (\<lambda>e. io_return (tool_error e, Some recall, sv_artifacts st)))"

definition serve_execute_query ::
  "call_env \<Rightarrow> gateway \<Rightarrow> exec_args \<Rightarrow> server_state \<Rightarrow> (call_result \<times> server_state) io" where
  "serve_execute_query env gw a st =
     (let s = gw_settings gw; scope = call_scope env gw st; p = sc_state scope
      in io_bind (permitted_execution env gw a st) (\<lambda>(r, recall, d).
         let al = record_query s (ce_now env) (ce_uuid env 2) ''execute_query'' (xa_statement a) (xa_dataverse a) r (sv_audit st)
         in io_bind (io_lift (capture_error_signal r)) (\<lambda>signal.
            io_bind (io_lift (captured_metrics s r)) (\<lambda>metrics.
            io_bind (capture_query_outcome (ce_clock env) (ce_event env) (call_client env gw st) s (ce_uuid env 3)
                       (ps_capture p) (sv_events st) (xa_statement a) signal (client_identity (ce_client_info env))
                       metrics (Some (id_session (sc_identity scope)))) (\<lambda>(capture, events).
            reply_with r
              (keep_scope env gw (p\<lparr>ps_capture := capture, ps_recall := recall_or (ps_recall p) recall\<rparr>)
                 (st\<lparr>sv_audit := al, sv_artifacts := d, sv_events := events\<rparr>)))))))"

definition serve_get_schema ::
  "call_env \<Rightarrow> gateway \<Rightarrow> string \<Rightarrow> string \<Rightarrow> server_state \<Rightarrow> (call_result \<times> server_state) io" where
  "serve_get_schema env gw dataverse dataset st =
     briefed_tool env gw
       (run_get_schema (ce_clock env) (holder_client gw) (gw_settings gw) (ce_uuid env 1) dataverse dataset) st"

definition serve_list_dataverses :: "call_env \<Rightarrow> gateway \<Rightarrow> server_state \<Rightarrow> (call_result \<times> server_state) io" where
  "serve_list_dataverses env gw st =
     briefed_tool env gw (run_list_dataverses (holder_client gw) (gw_settings gw) (ce_uuid env 1)) st"

definition serve_list_datasets ::
  "call_env \<Rightarrow> gateway \<Rightarrow> string option \<Rightarrow> int \<Rightarrow> int \<Rightarrow> server_state \<Rightarrow> (call_result \<times> server_state) io" where
  "serve_list_datasets env gw dataverse offset limit st =
     briefed_tool env gw
       (run_list_datasets (holder_client gw) (gw_settings gw) (ce_uuid env 1) dataverse offset limit) st"

definition serve_describe_dataverse ::
  "call_env \<Rightarrow> gateway \<Rightarrow> string \<Rightarrow> server_state \<Rightarrow> (call_result \<times> server_state) io" where
  "serve_describe_dataverse env gw dataverse =
     plain_tool (run_describe_dataverse (holder_client gw) (gw_settings gw) (ce_uuid env 1) dataverse)"

definition serve_sample_dataset ::
  "call_env \<Rightarrow> gateway \<Rightarrow> string \<Rightarrow> string \<Rightarrow> int \<Rightarrow> artifact_format option \<Rightarrow> server_state
     \<Rightarrow> (call_result \<times> server_state) io" where
  "serve_sample_dataset env gw dataverse dataset n fmt st =
     (let p = sc_state (call_scope env gw st)
      in io_bind (run_sample_dataset (exec_env_of env) (call_client env gw st) (gw_settings gw) (ce_uuid env 1)
                    dataverse dataset n fmt (Some (ps_recall p)) (sv_artifacts st)) (\<lambda>(r, recall, d).
         reply_with r (keep_scope env gw (p\<lparr>ps_recall := recall_or (ps_recall p) recall\<rparr>) (st\<lparr>sv_artifacts := d\<rparr>))))"

definition serve_submit_async_query ::
  "call_env \<Rightarrow> gateway \<Rightarrow> submit_args \<Rightarrow> server_state \<Rightarrow> (call_result \<times> server_state) io" where
  "serve_submit_async_query env gw a st =
     io_bind (run_submit_async_query (async_env_of env) (call_client env gw st) (gw_settings gw)
                (pools_async (ce_pools env)) a (sv_audit st)) (\<lambda>(r, al).
     reply_with r (looked_up env gw (st\<lparr>sv_audit := al\<rparr>)))"

definition serve_wait_on_async_query ::
  "call_env \<Rightarrow> gateway \<Rightarrow> string \<Rightarrow> int option \<Rightarrow> server_state \<Rightarrow> trace
     \<Rightarrow> ((exn + (call_result \<times> server_state)) \<times> trace) option" where
  "serve_wait_on_async_query env gw ccid timeout_ms st t =
     (let p = sc_state (call_scope env gw st)
      in map_option
           (\<lambda>(outcome, t'). io_bind (io_lift outcome) (\<lambda>(r, al, cap).
              case cap of
                None \<Rightarrow> reply_with r (looked_up env gw (st\<lparr>sv_audit := al\<rparr>))
              | Some (capture, events) \<Rightarrow>
                  reply_with r (keep_scope env gw (p\<lparr>ps_capture := capture\<rparr>) (st\<lparr>sv_audit := al, sv_events := events\<rparr>))) t')
           (run_wait_on_async_query (async_env_of env) (call_client env gw st) (gw_settings gw)
              (pools_waits (ce_pools env)) ccid timeout_ms (client_identity (ce_client_info env)) (sv_audit st)
              (Some (ps_capture p, sv_events st)) t))"

definition serve_fetch_query_result ::
  "call_env \<Rightarrow> gateway \<Rightarrow> string \<Rightarrow> int \<Rightarrow> int \<Rightarrow> artifact_format option \<Rightarrow> server_state
     \<Rightarrow> (call_result \<times> server_state) io" where
  "serve_fetch_query_result env gw ccid offset limit fmt st =
     io_bind (run_fetch_query_result (ce_artifacts env) (ce_now env) (holder_client gw) (gw_settings gw) ccid offset limit
                fmt (sv_audit st) (sv_artifacts st)) (\<lambda>(r, al, d).
     reply_with r (st\<lparr>sv_audit := al, sv_artifacts := d\<rparr>))"

definition serve_cancel_query ::
  "call_env \<Rightarrow> gateway \<Rightarrow> string \<Rightarrow> server_state \<Rightarrow> (call_result \<times> server_state) io" where
  "serve_cancel_query env gw ccid st =
     io_bind (run_cancel_query (holder_client gw) (gw_settings gw) ccid (sv_audit st)) (\<lambda>(r, al).
     reply_with r (st\<lparr>sv_audit := al\<rparr>))"

section \<open>Calls\<close>

text \<open>A call of a tool with its arguments, in the order of their registration.\<close>

datatype tool_call =
    Execute_Query string "string option" int int "dict option" bool bool int "artifact_format option"
  | Get_Schema string string
  | List_Dataverses
  | List_Datasets "string option" int int
  | Describe_Dataverse string
  | Sample_Dataset string string int "artifact_format option"
  | Submit_Async_Query string "string option" "dict option"
  | Wait_On_Async_Query string "int option"
  | Fetch_Query_Result string int int "artifact_format option"
  | Cancel_Query string
  | Validate_Syntax string "string option"
  | Explain_Query string "string option"
  | Explain_Physical_Plan string "string option"
  | Check_Index_Usage string "string option"
  | List_Functions "string option" "string option" "string option" int int
  | Get_Function string "string option"
  | Memory_Search string "string option" "string option" int bool int
  | Memory_Write string string "string list option" "string list option" "string option" "string option"
  | Remember_Preference string string
  | Search_Metadata string int
  | Get_Cluster_Status
  | Get_Node_Details string
  | Get_Reference string
  | Database_Health_Check "string option"
  | Get_Query_History int bool
  | Recommend_Indexes "string list" "string option"
  | Get_Dataset_Statistics string string
  | List_Running_Queries bool
  | Profile_Query string "string option" int

fun tool_name :: "tool_call \<Rightarrow> string" where
  "tool_name (Execute_Query _ _ _ _ _ _ _ _ _) = ''execute_query''"
| "tool_name (Get_Schema _ _) = ''get_schema''"
| "tool_name List_Dataverses = ''list_dataverses''"
| "tool_name (List_Datasets _ _ _) = ''list_datasets''"
| "tool_name (Describe_Dataverse _) = ''describe_dataverse''"
| "tool_name (Sample_Dataset _ _ _ _) = ''sample_dataset''"
| "tool_name (Submit_Async_Query _ _ _) = ''submit_async_query''"
| "tool_name (Wait_On_Async_Query _ _) = ''wait_on_async_query''"
| "tool_name (Fetch_Query_Result _ _ _ _) = ''fetch_query_result''"
| "tool_name (Cancel_Query _) = ''cancel_query''"
| "tool_name (Validate_Syntax _ _) = ''validate_syntax''"
| "tool_name (Explain_Query _ _) = ''explain_query''"
| "tool_name (Explain_Physical_Plan _ _) = ''explain_physical_plan''"
| "tool_name (Check_Index_Usage _ _) = ''check_index_usage''"
| "tool_name (List_Functions _ _ _ _ _) = ''list_functions''"
| "tool_name (Get_Function _ _) = ''get_function''"
| "tool_name (Memory_Search _ _ _ _ _ _) = ''memory_search''"
| "tool_name (Memory_Write _ _ _ _ _ _) = ''memory_write''"
| "tool_name (Remember_Preference _ _) = ''remember_preference''"
| "tool_name (Search_Metadata _ _) = ''search_metadata''"
| "tool_name Get_Cluster_Status = ''get_cluster_status''"
| "tool_name (Get_Node_Details _) = ''get_node_details''"
| "tool_name (Get_Reference _) = ''get_reference''"
| "tool_name (Database_Health_Check _) = ''database_health_check''"
| "tool_name (Get_Query_History _ _) = ''get_query_history''"
| "tool_name (Recommend_Indexes _ _) = ''recommend_indexes''"
| "tool_name (Get_Dataset_Statistics _ _) = ''get_dataset_statistics''"
| "tool_name (List_Running_Queries _) = ''list_running_queries''"
| "tool_name (Profile_Query _ _ _) = ''profile_query''"

text \<open>The bounds and the literals that the signatures declare; the SDK refuses other arguments.\<close>

definition reference_topics :: "string list" where
  "reference_topics = [''sqlpp-syntax'', ''type-system'', ''index-types'', ''query-examples'', ''error-codes'',
     ''builtin-functions'', ''all'']"

definition in_bounds :: "int \<Rightarrow> int \<Rightarrow> int \<Rightarrow> bool" where
  "in_bounds lo hi i \<longleftrightarrow> lo \<le> i \<and> i \<le> hi"

definition literal_or_none :: "string list \<Rightarrow> string option \<Rightarrow> bool" where
  "literal_or_none allowed x = (case x of None \<Rightarrow> True | Some v \<Rightarrow> v \<in> set allowed)"

fun call_accepted :: "tool_call \<Rightarrow> bool" where
  "call_accepted (Execute_Query _ _ offset limit _ _ _ warnings _) \<longleftrightarrow> 0 \<le> offset \<and> in_bounds 1 1000 limit \<and> in_bounds 0 100 warnings"
| "call_accepted (List_Datasets _ offset limit) \<longleftrightarrow> 0 \<le> offset \<and> in_bounds 1 500 limit"
| "call_accepted (Sample_Dataset _ _ n _) \<longleftrightarrow> in_bounds 1 100 n"
| "call_accepted (Wait_On_Async_Query _ timeout_ms) \<longleftrightarrow> (case timeout_ms of None \<Rightarrow> True | Some ms \<Rightarrow> 0 \<le> ms)"
| "call_accepted (Fetch_Query_Result _ offset limit _) \<longleftrightarrow> 0 \<le> offset \<and> in_bounds 1 1000 limit"
| "call_accepted (List_Functions language category _ offset limit) \<longleftrightarrow>
     literal_or_none [''INTERNAL'', ''SQL++'', ''JAVA'', ''PYTHON''] language
     \<and> literal_or_none [''window'', ''aggregate'', ''aggregate-scalar'', ''unnest'', ''datasource'', ''scalar''] category
     \<and> 0 \<le> offset \<and> in_bounds 1 200 limit"
| "call_accepted (Memory_Search _ _ _ limit _ hops) \<longleftrightarrow> in_bounds 1 50 limit \<and> in_bounds 1 2 hops"
| "call_accepted (Search_Metadata _ limit) \<longleftrightarrow> in_bounds 1 100 limit"
| "call_accepted (Get_Reference topic) \<longleftrightarrow> topic \<in> set reference_topics"
| "call_accepted (Get_Query_History limit _) \<longleftrightarrow> in_bounds 1 100 limit"
| "call_accepted (Profile_Query _ _ limit) \<longleftrightarrow> in_bounds 1 1000 limit"
| "call_accepted _ \<longleftrightarrow> True"

text \<open>The names in the order of their registration; without memory its three tools are taken out.\<close>

definition declared_tools :: "string list" where
  "declared_tools =
     [''execute_query'', ''get_schema'', ''list_dataverses'', ''list_datasets'', ''describe_dataverse'', ''sample_dataset'',
      ''submit_async_query'', ''wait_on_async_query'', ''fetch_query_result'', ''cancel_query'', ''validate_syntax'',
      ''explain_query'', ''explain_physical_plan'', ''check_index_usage'', ''list_functions'', ''get_function'',
      ''memory_search'', ''memory_write'', ''remember_preference'', ''search_metadata'', ''get_cluster_status'',
      ''get_node_details'', ''get_reference'', ''database_health_check'', ''get_query_history'', ''recommend_indexes'',
      ''get_dataset_statistics'', ''list_running_queries'', ''profile_query'']"

definition registered_tools :: "settings \<Rightarrow> string list" where
  "registered_tools s =
     (if memory_enabled s then declared_tools else filter (\<lambda>name. name \<notin> set memory_tool_names) declared_tools)"

section \<open>Building and serving\<close>

text \<open>The server as it starts: its state, its permit pools and the schemas it advertises.\<close>

record built_server =
  bs_state :: server_state
  bs_pools :: permit_pools
  bs_schemas :: "(string \<times> json) list"
  bs_verifier :: "token_verifier option"

definition build_server :: "(string \<Rightarrow> bool) \<Rightarrow> settings \<Rightarrow> event_buffer \<Rightarrow> artifact_dir \<Rightarrow> exn + built_server" where
  "build_server valid_url s events artifacts =
     sum_bind (new_audit_log (audit_log_ttl_s s)) (\<lambda>al.
     sum_bind (pools_from_settings s) (\<lambda>pools.
     sum_bind (if transport_kind s = Http
               then sum_bind (validate_http_security valid_url s) (\<lambda>_. build_auth valid_url s)
               else Inr None) (\<lambda>verifier.
     sum_bind (apply_output_schemas (registered_tools s) (if memory_enabled s then [] else memory_tool_names)) (\<lambda>schemas.
       Inr \<lparr>bs_state = \<lparr>sv_scopes = new_registry, sv_audit = al, sv_artifacts = artifacts, sv_events = events\<rparr>,
            bs_pools = pools, bs_schemas = schemas, bs_verifier = verifier\<rparr>))))"

definition compile_args_of :: "string \<Rightarrow> string option \<Rightarrow> compile_args" where
  "compile_args_of statement dataverse = \<lparr>ka_statement = statement, ka_dataverse = dataverse, ka_user_tag = None\<rparr>"

definition serve_profile_query ::
  "call_env \<Rightarrow> gateway \<Rightarrow> string \<Rightarrow> string option \<Rightarrow> int \<Rightarrow> server_state \<Rightarrow> (call_result \<times> server_state) io" where
  "serve_profile_query env gw statement dataverse limit st =
     plain_tool
       (io_catch
          (under_permit (pools_sync (ce_pools env)) (Some (call_principal env gw st))
             (run_profile_query (call_client env gw st) (gw_settings gw) (compile_args_of statement dataverse) limit (ce_uuid env 1)))
          (\<lambda>e. io_return (tool_error e))) (looked_up env gw st)"

definition serve_memory_write ::
  "call_env \<Rightarrow> gateway \<Rightarrow> string \<Rightarrow> string \<Rightarrow> string list option \<Rightarrow> string list option \<Rightarrow> string option
     \<Rightarrow> string option \<Rightarrow> server_state \<Rightarrow> (call_result \<times> server_state) io" where
  "serve_memory_write env gw subject text_arg links tags source_query replaces st =
     plain_tool
       (run_memory_write (ce_clock env) (call_client env gw st) (gw_settings gw) (ce_uuid env 1) subject text_arg
          (case links of None \<Rightarrow> [] | Some xs \<Rightarrow> xs) (case tags of None \<Rightarrow> [] | Some xs \<Rightarrow> xs)
          source_query replaces (client_identity (ce_client_info env))) (looked_up env gw st)"

definition serve_get_query_history ::
  "call_env \<Rightarrow> int \<Rightarrow> bool \<Rightarrow> server_state \<Rightarrow> (call_result \<times> server_state) io" where
  "serve_get_query_history env limit failures_only st =
     (case run_get_query_history (ce_now env) limit failures_only (sv_audit st) of
        (r, al) \<Rightarrow> reply_with r (st\<lparr>sv_audit := al\<rparr>))"

definition serve_validate_syntax ::
  "call_env \<Rightarrow> gateway \<Rightarrow> string \<Rightarrow> string option \<Rightarrow> server_state \<Rightarrow> (call_result \<times> server_state) io" where
  "serve_validate_syntax env gw statement dataverse =
     plain_tool (run_validate_syntax (holder_client gw) (gw_settings gw) (compile_args_of statement dataverse) (ce_uuid env 1))"

definition serve_explain_query ::
  "call_env \<Rightarrow> gateway \<Rightarrow> string \<Rightarrow> string option \<Rightarrow> server_state \<Rightarrow> (call_result \<times> server_state) io" where
  "serve_explain_query env gw statement dataverse =
     plain_tool (run_explain_query (holder_client gw) (gw_settings gw) (compile_args_of statement dataverse) (ce_uuid env 1))"

definition serve_explain_physical_plan ::
  "call_env \<Rightarrow> gateway \<Rightarrow> string \<Rightarrow> string option \<Rightarrow> server_state \<Rightarrow> (call_result \<times> server_state) io" where
  "serve_explain_physical_plan env gw statement dataverse =
     plain_tool (run_explain_physical_plan (holder_client gw) (gw_settings gw) (compile_args_of statement dataverse) (ce_uuid env 1))"

definition serve_check_index_usage ::
  "call_env \<Rightarrow> gateway \<Rightarrow> string \<Rightarrow> string option \<Rightarrow> server_state \<Rightarrow> (call_result \<times> server_state) io" where
  "serve_check_index_usage env gw statement dataverse =
     plain_tool (run_check_index_usage (holder_client gw) (gw_settings gw) (compile_args_of statement dataverse) (ce_uuid env 1))"

definition serve_list_functions ::
  "call_env \<Rightarrow> gateway \<Rightarrow> string option \<Rightarrow> string option \<Rightarrow> string option \<Rightarrow> int \<Rightarrow> int \<Rightarrow> server_state \<Rightarrow> (call_result \<times> server_state) io" where
  "serve_list_functions env gw language category name_contains offset limit =
     plain_tool (run_list_functions (holder_client gw) (gw_settings gw) (ce_uuid env 1) (ce_uuid env 2) language category name_contains offset limit)"

definition serve_get_function ::
  "call_env \<Rightarrow> gateway \<Rightarrow> string \<Rightarrow> string option \<Rightarrow> server_state \<Rightarrow> (call_result \<times> server_state) io" where
  "serve_get_function env gw name dataverse =
     plain_tool (run_get_function (holder_client gw) (gw_settings gw) (ce_uuid env 1) (ce_uuid env 2) name dataverse None)"

definition serve_memory_search ::
  "call_env \<Rightarrow> gateway \<Rightarrow> string \<Rightarrow> string option \<Rightarrow> string option \<Rightarrow> int \<Rightarrow> bool \<Rightarrow> int \<Rightarrow> server_state \<Rightarrow> (call_result \<times> server_state) io" where
  "serve_memory_search env gw query subject dataverse limit follow hops st =
     plain_tool
       (run_memory_search (call_client env gw st) (gw_settings gw) (ce_uuid env 1) query subject dataverse limit follow hops) (looked_up env gw st)"

definition serve_remember_preference ::
  "call_env \<Rightarrow> gateway \<Rightarrow> string \<Rightarrow> string \<Rightarrow> server_state \<Rightarrow> (call_result \<times> server_state) io" where
  "serve_remember_preference env gw text_arg scope_arg st =
     plain_tool
       (run_remember_preference (ck_now (ce_clock env)) (call_client env gw st) (gw_settings gw) (ce_uuid env 1) text_arg scope_arg
        (client_identity (ce_client_info env))) (looked_up env gw st)"

definition serve_search_metadata ::
  "call_env \<Rightarrow> gateway \<Rightarrow> string \<Rightarrow> int \<Rightarrow> server_state \<Rightarrow> (call_result \<times> server_state) io" where
  "serve_search_metadata env gw query limit =
     plain_tool (run_search_metadata (holder_client gw) (gw_settings gw) (ce_uuid env 1) query limit)"

definition serve_get_cluster_status ::
  "gateway \<Rightarrow> server_state \<Rightarrow> (call_result \<times> server_state) io" where
  "serve_get_cluster_status gw =
     plain_tool (run_get_cluster_status (holder_client gw))"

definition serve_get_node_details ::
  "gateway \<Rightarrow> string \<Rightarrow> server_state \<Rightarrow> (call_result \<times> server_state) io" where
  "serve_get_node_details gw node =
     plain_tool (run_get_node_details (holder_client gw) (gw_settings gw) node)"

definition serve_database_health_check ::
  "call_env \<Rightarrow> gateway \<Rightarrow> string option \<Rightarrow> server_state \<Rightarrow> (call_result \<times> server_state) io" where
  "serve_database_health_check env gw dataverse =
     plain_tool (run_database_health_check (holder_client gw) (gw_settings gw) (ce_uuid env 1) dataverse)"

definition serve_recommend_indexes ::
  "call_env \<Rightarrow> gateway \<Rightarrow> string list \<Rightarrow> string option \<Rightarrow> server_state \<Rightarrow> (call_result \<times> server_state) io" where
  "serve_recommend_indexes env gw statements dataverse =
     plain_tool (run_recommend_indexes (holder_client gw) (gw_settings gw) (\<lambda>k. ce_uuid env (Suc k)) statements dataverse None)"

definition serve_get_dataset_statistics ::
  "call_env \<Rightarrow> gateway \<Rightarrow> string \<Rightarrow> string \<Rightarrow> server_state \<Rightarrow> (call_result \<times> server_state) io" where
  "serve_get_dataset_statistics env gw dataverse dataset =
     plain_tool (run_get_dataset_statistics (holder_client gw) (gw_settings gw) (ce_uuid env 1) dataverse dataset None)"

definition serve_list_running_queries ::
  "gateway \<Rightarrow> bool \<Rightarrow> server_state \<Rightarrow> (call_result \<times> server_state) io" where
  "serve_list_running_queries gw statements =
     plain_tool (run_list_running_queries (holder_client gw) statements)"

definition serve_get_reference :: "string \<Rightarrow> server_state \<Rightarrow> (call_result \<times> server_state) io" where
  "serve_get_reference topic = reply_with (run_get_reference topic)"

text \<open>The bindings that only pass their arguments on.\<close>

lemmas thin_tools = serve_validate_syntax_def serve_explain_query_def
  serve_explain_physical_plan_def serve_check_index_usage_def serve_list_functions_def serve_get_function_def
  serve_memory_search_def serve_remember_preference_def serve_search_metadata_def serve_get_cluster_status_def
  serve_get_node_details_def serve_database_health_check_def serve_recommend_indexes_def
  serve_get_dataset_statistics_def serve_list_running_queries_def serve_get_reference_def

text \<open>
  The tools that answer within one computation; the wait may poll for ever and stands apart.
  \<open>None\<close> is the wait.
\<close>

definition serve_at_once ::
  "call_env \<Rightarrow> gateway \<Rightarrow> tool_call \<Rightarrow> server_state \<Rightarrow> (call_result \<times> server_state) io option" where
  "serve_at_once env gw call st =
     (case call of
        Execute_Query statement dataverse offset limit compiler profile signature warnings fmt \<Rightarrow>
          Some (serve_execute_query env gw \<lparr>xa_statement = statement, xa_dataverse = dataverse, xa_offset = offset,
            xa_limit = limit, xa_compiler = compiler, xa_profile = profile, xa_signature = signature,
            xa_max_warnings = warnings, xa_user_tag = None, xa_format = fmt\<rparr> st)
      | Get_Schema dataverse dataset \<Rightarrow> Some (serve_get_schema env gw dataverse dataset st)
      | List_Dataverses \<Rightarrow> Some (serve_list_dataverses env gw st)
      | List_Datasets dataverse offset limit \<Rightarrow> Some (serve_list_datasets env gw dataverse offset limit st)
      | Describe_Dataverse dataverse \<Rightarrow> Some (serve_describe_dataverse env gw dataverse st)
      | Sample_Dataset dataverse dataset n fmt \<Rightarrow> Some (serve_sample_dataset env gw dataverse dataset n fmt st)
      | Submit_Async_Query statement dataverse compiler \<Rightarrow>
          Some (serve_submit_async_query env gw \<lparr>sa_statement = statement, sa_dataverse = dataverse,
            sa_compiler = compiler, sa_user_tag = None\<rparr> st)
      | Wait_On_Async_Query _ _ \<Rightarrow> None
      | Fetch_Query_Result ccid offset limit fmt \<Rightarrow> Some (serve_fetch_query_result env gw ccid offset limit fmt st)
      | Cancel_Query ccid \<Rightarrow> Some (serve_cancel_query env gw ccid st)
      | Validate_Syntax statement dataverse \<Rightarrow> Some (serve_validate_syntax env gw statement dataverse st)
      | Explain_Query statement dataverse \<Rightarrow> Some (serve_explain_query env gw statement dataverse st)
      | Explain_Physical_Plan statement dataverse \<Rightarrow> Some (serve_explain_physical_plan env gw statement dataverse st)
      | Check_Index_Usage statement dataverse \<Rightarrow> Some (serve_check_index_usage env gw statement dataverse st)
      | List_Functions language category name_contains offset limit \<Rightarrow> Some (serve_list_functions env gw language category name_contains offset limit st)
      | Get_Function name dataverse \<Rightarrow> Some (serve_get_function env gw name dataverse st)
      | Memory_Search query subject dataverse limit follow hops \<Rightarrow> Some (serve_memory_search env gw query subject dataverse limit follow hops st)
      | Memory_Write subject text_arg links tags source_query replaces \<Rightarrow>
          Some (serve_memory_write env gw subject text_arg links tags source_query replaces st)
      | Remember_Preference text_arg scope_arg \<Rightarrow> Some (serve_remember_preference env gw text_arg scope_arg st)
      | Search_Metadata query limit \<Rightarrow> Some (serve_search_metadata env gw query limit st)
      | Get_Cluster_Status \<Rightarrow> Some (serve_get_cluster_status gw st)
      | Get_Node_Details node \<Rightarrow> Some (serve_get_node_details gw node st)
      | Get_Reference topic \<Rightarrow> Some (serve_get_reference topic st)
      | Database_Health_Check dataverse \<Rightarrow> Some (serve_database_health_check env gw dataverse st)
      | Get_Query_History limit failures_only \<Rightarrow> Some (serve_get_query_history env limit failures_only st)
      | Recommend_Indexes statements dataverse \<Rightarrow> Some (serve_recommend_indexes env gw statements dataverse st)
      | Get_Dataset_Statistics dataverse dataset \<Rightarrow> Some (serve_get_dataset_statistics env gw dataverse dataset st)
      | List_Running_Queries statements \<Rightarrow> Some (serve_list_running_queries gw statements st)
      | Profile_Query statement dataverse limit \<Rightarrow> Some (serve_profile_query env gw statement dataverse limit st))"

text \<open>
  A call as the client makes it. The SDK refuses a tool that is not registered and arguments
  outside of the declared bounds; nothing of the gateway runs then.
\<close>

definition serve ::
  "call_env \<Rightarrow> gateway \<Rightarrow> tool_call \<Rightarrow> server_state \<Rightarrow> trace
     \<Rightarrow> ((exn + (call_result \<times> server_state)) \<times> trace) option" where
  "serve env gw call st t =
     (if tool_name call \<notin> set (registered_tools (gw_settings gw)) \<or> \<not> call_accepted call
      then Some (Inl (PyExc ''ToolError''), t)
      else case serve_at_once env gw call st of
        Some m \<Rightarrow> Some (m t)
      | None \<Rightarrow> (case call of
            Wait_On_Async_Query ccid timeout_ms \<Rightarrow> serve_wait_on_async_query env gw ccid timeout_ms st t
          | _ \<Rightarrow> None))"

section \<open>Resources, prompts and completions\<close>

text \<open>The SDK hands resources, prompts and completions no context: all of them use the unbound client.\<close>

datatype resource =
    Version_Resource
  | Cluster_Status_Resource
  | Config_Parameters_Resource
  | Dataverses_Resource
  | Cluster_Diagnostics_Resource
  | Artifact_Resource string
  | Dataset_Schema_Resource string string
  | Dataverse_Schema_Resource string
  | Dataset_Sample_Resource string string
  | Dataverse_Datasets_Resource string
  | Dataset_Indexes_Resource string string
  | Dataverse_Indexes_Resource string
  | Reference_Resource string

definition json_text :: "dict io \<Rightarrow> string io" where
  "json_text m = io_bind m (\<lambda>d. io_return (json_dumps (JDict d)))"

definition static_references :: "(string \<times> dict) list" where
  "static_references =
     [(''sqlpp-syntax'', read_sqlpp_syntax), (''builtin-functions'', read_builtin_functions),
      (''index-types'', read_index_types), (''type-system'', read_type_system), (''error-codes'', read_error_codes),
      (''query-examples'', read_query_examples), (''query-hints'', read_query_hints)]"

definition read_resource ::
  "call_env \<Rightarrow> gateway \<Rightarrow> string \<Rightarrow> resource \<Rightarrow> server_state \<Rightarrow> (string \<times> server_state) io" where
  "read_resource env gw protocol res st =
     (let c = holder_client gw; s = gw_settings gw; u = ce_uuid env 1;
          keep = (\<lambda>m. io_bind m (\<lambda>body. io_return (body, st)))
      in case res of
        Version_Resource \<Rightarrow> keep (json_text (read_version c protocol))
      | Cluster_Status_Resource \<Rightarrow> keep (json_text (read_cluster_status c))
      | Config_Parameters_Resource \<Rightarrow> keep (json_text (io_return (read_config_parameters s)))
      | Dataverses_Resource \<Rightarrow> keep (json_text (read_dataverses c (agent_session_id s) u))
      | Cluster_Diagnostics_Resource \<Rightarrow> keep (json_text (read_cluster_diagnostics c))
      | Artifact_Resource i \<Rightarrow> keep (io_lift (read_artifact s (ae_now (ce_artifacts env)) (sv_artifacts st) i))
      | Dataset_Schema_Resource dv ds \<Rightarrow> keep (read_dataset_schema (ce_clock env) c s u dv ds)
      | Dataverse_Schema_Resource dv \<Rightarrow> keep (read_dataverse_schema c s u dv)
      | Dataset_Sample_Resource dv ds \<Rightarrow>
          io_bind (read_dataset_sample (exec_env_of env) c s u dv ds (sv_artifacts st)) (\<lambda>(body, d).
          io_return (body, st\<lparr>sv_artifacts := d\<rparr>))
      | Dataverse_Datasets_Resource dv \<Rightarrow> keep (read_dataverse_datasets c s u dv)
      | Dataset_Indexes_Resource dv ds \<Rightarrow> keep (read_dataset_indexes c s u dv ds)
      | Dataverse_Indexes_Resource dv \<Rightarrow> keep (read_dataverse_indexes c s u dv)
      | Reference_Resource topic \<Rightarrow>
          (case map_of static_references topic of
             None \<Rightarrow> io_raise (PyExc ''ResourceError'')
           | Some d \<Rightarrow> keep (json_text (io_return d))))"

datatype prompt =
    Analyze_Dataverse_Prompt "string option" "string option"
  | Build_Aggregation_Query_Prompt "string option" "string option" "string option" "string option"
  | Analyze_Query_Performance_Prompt "string option"
  | Recommend_Indexes_Prompt "string option" "string option"
  | Explore_Nested_Data_Prompt "string option" "string option"
  | Explain_Error_Prompt "string option"

definition serve_prompt :: "call_env \<Rightarrow> gateway \<Rightarrow> prompt \<Rightarrow> string io" where
  "serve_prompt env gw p =
     (case p of
        Analyze_Dataverse_Prompt dv ds \<Rightarrow>
          run_analyze_dataverse (ce_clock env) (holder_client gw) (gw_settings gw) (ce_uuid env 1) (ce_uuid env 2) dv ds
      | Build_Aggregation_Query_Prompt dv ds by_field metric \<Rightarrow> io_return (compose_build_aggregation_query dv ds by_field metric)
      | Analyze_Query_Performance_Prompt statement \<Rightarrow> io_return (compose_analyze_query_performance statement)
      | Recommend_Indexes_Prompt dv ds \<Rightarrow> io_return (compose_recommend_indexes dv ds)
      | Explore_Nested_Data_Prompt dv ds \<Rightarrow> io_return (compose_explore_nested_data dv ds)
      | Explain_Error_Prompt e \<Rightarrow> io_return (compose_explain_error e))"

definition serve_completion ::
  "call_env \<Rightarrow> gateway \<Rightarrow> string \<Rightarrow> string \<Rightarrow> (string \<times> string) list option \<Rightarrow> completion option io" where
  "serve_completion env gw argument partial_value context_arguments =
     complete_argument (ce_clock env) (holder_client gw) (gw_settings gw) (ce_uuid env 1) argument (Some partial_value)
       context_arguments"

section \<open>Looking the scope up again\<close>

text \<open>Within a call the scope is the same at every lookup, and a lookup changes the registry once.\<close>

lemma call_scope_stable:
  assumes "registry_ok reg"
  shows "for_call conn token s u' (snd (for_call conn token s u reg)) = for_call conn token s u reg"
  using assms by (cases conn)
    (auto simp: registry_ok_def for_call_def resolve_identity_def session_key_def session_object_def Let_def
      split: option.splits)

end
