(* ===== verification/Served_Calls.thy ===== *)
theory Served_Calls
  imports Gateway_Server
begin

text \<open>
  What holds of a call whichever tool it names: the requests it may send, the state it may touch
  and the reply when the gateway is full. The pieces are the lemmas of the tools.
\<close>

section \<open>The requests of a call\<close>

text \<open>A read, or one of the four memory statements with a row stamped as the client's tenant's.\<close>

definition tenant_request :: "cc_client \<Rightarrow> request \<Rightarrow> bool" where
  "tenant_request c r \<longleftrightarrow> read_only r
     \<or> (\<exists>st row. st \<in> {event_insert, upsert_row, insert_row, reinforce_upsert} \<and> own_write c st [(''row'', JDict row)] r)"

lemma read_only_tenant: "read_only r \<Longrightarrow> tenant_request c r"
  and capture_tenant: "capture_request c r \<Longrightarrow> tenant_request c r"
  and write_tenant: "write_request c r \<Longrightarrow> tenant_request c r"
  and recall_tenant: "recall_request c s r \<Longrightarrow> tenant_request c r"
  unfolding tenant_request_def capture_request_def write_request_def recall_request_def
  by (auto dest: own_read_is_read_only catalog_request_reads)

lemma schema_tenant: "schema_request c s r \<Longrightarrow> tenant_request c r"
  unfolding schema_request_def
  by (elim disjE bexE exE conjE; (erule recall_tenant | rule read_only_tenant, erule catalog_request_reads))

lemma unbound_never_writes: "cc_principal c = None \<Longrightarrow> tenant_request c r \<longleftrightarrow> read_only r"
  by (auto simp: tenant_request_def own_write_def)

lemma reads_tenant [emits_intro]: "emits read_only m \<Longrightarrow> emits (tenant_request c) m"
  by (erule emits_mono, erule read_only_tenant)

lemma compile_tenant: "compile_request c' st r \<Longrightarrow> tenant_request c r"
  by (rule read_only_tenant) (rule compile_request_read_only)

section \<open>Every tool\<close>

lemma execute_query_emits: "emits (tenant_request c) (run_execute_query env c s a recall d)"
proof -
  have learned: "emits (tenant_request c) (attach_statement_notes ck c ccid statement r re first (Some s) dv)"
    for ck ccid statement r re first dv
    by (rule emits_mono [OF attach_emits]) (erule recall_tenant)
  have run: "emits (tenant_request c) (authorized_execution c s a ccid)" for ccid
    unfolding authorized_execution_def by (intro reads_tenant emits_intro)
  show ?thesis
    unfolding run_execute_query_def Let_def case_prod_unfold
    by (intro emits_option emits_return emits_bind emits_catch emits_sum emits_lift run learned)
qed

lemma capture_emits: "emits (tenant_request c) (capture_query_outcome ck env c s u st b statement e name metrics session)"
  by (rule emits_mono [OF capture_outcome_emits]) (erule capture_tenant)

lemma submit_emits: "emits read_only (run_submit_async_query env c s p a al)"
  unfolding run_submit_async_query_def submission_def under_permit_def Let_def case_prod_unfold
  by (intro emits_intro)

lemma fetch_emits: "emits read_only (run_fetch_query_result env now c s ccid offset most fmt al d)"
  unfolding run_fetch_query_result_def fetch_result_def Let_def case_prod_unfold
  by (auto intro!: emits_intro simp del: io_run split: prod.split)

lemma cancel_emits: "emits (\<lambda>r. r = cancel_request c ccid) (run_cancel_query c s ccid al)"
  unfolding run_cancel_query_def by (intro emits_intro cancel_emits_delete)

lemma introspection_emits:
  "emits read_only (run_validate_syntax c s a u)"
  "emits read_only (run_explain_query c s a u)"
  "emits read_only (run_explain_physical_plan c s a u)"
  unfolding run_validate_syntax_def run_explain_query_def run_explain_physical_plan_def
  by (intro compiled_or_emits emits_return; erule compile_request_read_only)+

lemma check_index_usage_emits: "emits read_only (run_check_index_usage c s a u)"
proof -
  have "emits read_only (analyze_usage c ccid dv env)" for ccid dv env
    unfolding analyze_usage_def Let_def
    by (intro emits_option emits_return emits_bind emits_map_list emits_mono [OF secondary_indexes_emits])
      (simp add: catalog_request_def, elim exE conjE, simp)
  then show ?thesis
    unfolding run_check_index_usage_def Let_def
    by (intro emits_if emits_return emits_option compiled_or_emits) (auto dest: compile_request_read_only)
qed

lemma reference_tools_emits:
  "emits read_only (run_list_functions c s u1 u2 language category name_contains offset limit)"
  "emits read_only (run_get_function c s u1 u2 name dataverse user_tag)"
  unfolding run_list_functions_def run_get_function_def builtin_records_def udf_records_def fetch_parsed_def
    get_builtin_live_def get_udf_def Let_def case_prod_unfold
  by (intro emits_intro)+

lemma memory_search_emits: "emits read_only (run_memory_search c s u query subject dataverse limit follow hops)"
proof -
  have search: "emits read_only (search_fetch c ccid st)" for ccid st
    unfolding search_fetch_def by (rule memory_rows_emits) (simp_all add: own_read_is_read_only)
  have links: "emits read_only (follow_hops c ccid n hop frontier st)" for ccid n hop frontier st
    by (rule emits_mono [OF follow_hops_emits]) (auto simp: search_request_def own_read_is_read_only)
  show ?thesis
    unfolding run_memory_search_def subject_pass_def fulltext_pass_def Let_def
    by (intro emits_option emits_return emits_bind emits_if emits_lift search links)
qed

lemma status_emits:
  "emits read_only (run_get_cluster_status c)"
  "emits read_only (run_get_node_details c s node)"
  "emits read_only (run_list_running_queries c statements)"
  unfolding run_get_cluster_status_def run_get_node_details_def run_list_running_queries_def Let_def
  by (intro emits_intro)+

lemma health_emits: "emits read_only (run_database_health_check c s u dataverse)"
  unfolding run_database_health_check_def fetch_index_rows_def Let_def case_prod_unfold
  by (intro emits_intro)

lemma profile_emits: "emits read_only (run_profile_query c s a most u)"
  unfolding run_profile_query_def Let_def by (intro emits_intro)

lemma advice_emits: "emits read_only (run_recommend_indexes c s uuids statements dataverse user_tag)"
  by (rule emits_mono [OF recommend_indexes_emits])
    (auto simp: advice_request_def catalog_request_def dest: compile_request_read_only)

section \<open>Reads, unless it is a memory tool or the cancellation\<close>

text \<open>The tools whose calls may write to the memory store of the caller.\<close>

definition memory_writing_tools :: "string list" where
  "memory_writing_tools =
     [''execute_query'', ''sample_dataset'', ''wait_on_async_query'', ''memory_write'', ''remember_preference'']"

definition call_request :: "call_env \<Rightarrow> gateway \<Rightarrow> tool_call \<Rightarrow> server_state \<Rightarrow> request \<Rightarrow> bool" where
  "call_request env gw call st r \<longleftrightarrow> read_only r
     \<or> (\<exists>ccid. call = Cancel_Query ccid \<and> r = cancel_request (holder_client gw) ccid)
     \<or> tool_name call \<in> set memory_writing_tools \<and> tenant_request (call_client env gw st) r"

lemma reply_emits [emits_intro]: "emits P (reply_with r st)"
  unfolding reply_with_def by (intro emits_bind emits_lift emits_return)

lemma plain_emits: "emits P m \<Longrightarrow> emits P (plain_tool m st)"
  unfolding plain_tool_def by (intro emits_bind reply_emits)

lemma briefed_emits: "emits read_only m \<Longrightarrow> emits read_only (briefed_tool env gw m st)"
  unfolding briefed_tool_def Let_def case_prod_unfold by (intro emits_bind reply_emits briefing_read_only)

lemma under_permit_emits: "emits P m \<Longrightarrow> emits P (under_permit p who m)"
  unfolding under_permit_def by (intro emits_sum emits_raise)

lemma unbound_schema: "emits (schema_request (holder_client gw) s) m \<Longrightarrow> emits read_only m"
  by (erule emits_mono) (use unbound_never_writes [of "holder_client gw"] schema_tenant in \<open>auto simp: holder_client_def\<close>)

lemma serve_execute_emits: "emits (tenant_request (call_client env gw st)) (serve_execute_query env gw a st)"
  unfolding serve_execute_query_def permitted_execution_def Let_def case_prod_unfold
  by (intro emits_bind emits_catch emits_return emits_lift reply_emits under_permit_emits execute_query_emits capture_emits)

lemma serve_sample_emits: "emits (tenant_request (call_client env gw st)) (serve_sample_dataset env gw dataverse dataset n fmt st)"
  unfolding serve_sample_dataset_def Let_def case_prod_unfold
  by (intro emits_bind reply_emits emits_mono [OF sample_emits]) (erule schema_tenant)

lemma serve_write_emits:
  "emits (tenant_request (call_client env gw st)) (serve_memory_write env gw subject text_arg links tags source_query replaces st)"
  unfolding serve_memory_write_def
  by (intro plain_emits emits_mono [OF run_memory_write_emits]) (erule write_tenant)

lemma serve_preference_emits:
  "emits (tenant_request c) (plain_tool (run_remember_preference now c s u text_arg scope_arg author) st)"
  by (intro plain_emits emits_mono [OF remember_preference_requests]) (auto intro: write_tenant)

lemma serve_submit_emits: "emits read_only (serve_submit_async_query env gw a st)"
  unfolding serve_submit_async_query_def case_prod_unfold by (intro emits_bind reply_emits submit_emits)

lemma serve_fetch_emits: "emits read_only (serve_fetch_query_result env gw ccid offset limit fmt st)"
  unfolding serve_fetch_query_result_def case_prod_unfold by (intro emits_bind reply_emits fetch_emits)

lemma serve_cancel_emits: "emits (\<lambda>r. r = cancel_request (holder_client gw) ccid) (serve_cancel_query env gw ccid st)"
  unfolding serve_cancel_query_def case_prod_unfold by (intro emits_bind reply_emits cancel_emits)

lemma serve_profile_emits: "emits read_only (serve_profile_query env gw statement dataverse limit st)"
  unfolding serve_profile_query_def by (intro plain_emits emits_catch emits_return under_permit_emits profile_emits)

lemma serve_history_emits: "emits read_only (serve_get_query_history env limit failures_only st)"
  unfolding serve_get_query_history_def case_prod_unfold by (rule reply_emits)

lemma serve_discovery_emits:
  "emits read_only (serve_get_schema env gw dataverse dataset st)"
  "emits read_only (serve_list_dataverses env gw st)"
  "emits read_only (serve_list_datasets env gw filter_arg offset limit st)"
  "emits read_only (serve_describe_dataverse env gw dataverse st)"
  unfolding serve_get_schema_def serve_list_dataverses_def serve_list_datasets_def serve_describe_dataverse_def
  by (intro briefed_emits plain_emits unbound_schema [OF get_schema_emits] unbound_schema [OF list_dataverses_emits]
      unbound_schema [OF list_datasets_emits] unbound_schema [OF describe_emits])+

lemmas plain_reads =
  introspection_emits [THEN plain_emits] check_index_usage_emits [THEN plain_emits]
  reference_tools_emits [THEN plain_emits] memory_search_emits [THEN plain_emits] status_emits [THEN plain_emits]
  health_emits [THEN plain_emits] advice_emits [THEN plain_emits]
  search_metadata_emits [THEN unbound_schema, THEN plain_emits]
  dataset_statistics_emits [THEN unbound_schema, THEN plain_emits]

lemmas served_reads =
  serve_submit_emits serve_fetch_emits serve_profile_emits serve_history_emits
  serve_discovery_emits plain_reads reply_emits

lemma serve_at_once_emits:
  assumes "serve_at_once env gw call st = Some m"
  shows "emits (call_request env gw call st) m"
proof -
  have wr: "emits (call_request env gw call st) m"
    if "tool_name call \<in> set memory_writing_tools" "emits (tenant_request (call_client env gw st)) m"
    using that(2) by (rule emits_mono) (simp add: call_request_def that(1))
  have rd: "emits (call_request env gw call st) m" if "emits read_only m"
    using that by (rule emits_mono) (simp add: call_request_def)
  show ?thesis
  proof (cases "tool_name call \<in> set memory_writing_tools")
    case True
    then have "emits (tenant_request (call_client env gw st)) m"
      using assms by (cases call)
        (auto simp: memory_writing_tools_def serve_at_once_def thin_tools intro: serve_execute_emits serve_sample_emits
          serve_write_emits serve_preference_emits)
    with True show ?thesis by (rule wr)
  next
    case False
    show ?thesis
    proof (cases "\<exists>ccid. call = Cancel_Query ccid")
      case True
      then obtain ccid where call: "call = Cancel_Query ccid" ..
      then have "m = serve_cancel_query env gw ccid st"
        using assms by (auto simp: serve_at_once_def thin_tools)
      then show ?thesis using call by (auto intro: emits_mono [OF serve_cancel_emits] simp: call_request_def)
    next
      case reads: False
      then have "emits read_only m"
        using assms False by (cases call)
          (auto simp: memory_writing_tools_def serve_at_once_def thin_tools intro: served_reads)
      then show ?thesis by (rule rd)
    qed
  qed
qed

section \<open>The wait\<close>

lemma poll_from_reads:
  assumes "poll_from c handle deadline reads k t = Some out"
  shows "\<exists>sent. snd out = t @ sent \<and> (\<forall>q \<in> set sent. read_only q)"
proof (rule poll_from.raw_induct [OF _ assms])
  fix rec c handle deadline reads k t out
  assume IH: "\<And>c handle deadline reads k t out. rec c handle deadline reads k t = Some out \<Longrightarrow>
      \<exists>sent. snd out = t @ sent \<and> (\<forall>q \<in> set sent. read_only q)"
    and out: "(case poll_status c handle t of (Inl e, t') \<Rightarrow> Some (Inl e, t')
      | (Inr envelope, t') \<Rightarrow>
          if status_of envelope \<in> set terminal_statuses then Some (Inr (Finished envelope (status_of envelope)), t')
          else if deadline \<le> reads k then Some (Inr (StillRunning (status_of envelope)), t')
          else rec c handle deadline reads (Suc k) t') = Some out"
  obtain p u where p: "poll_status c handle t = (p, u)" by (cases "poll_status c handle t") auto
  have "emits read_only (poll_status c handle)" unfolding poll_status_def by (intro emits_intro) simp
  from emitsE [OF this p] obtain s1 where s1: "u = t @ s1" "\<forall>q \<in> set s1. read_only q" .
  show "\<exists>sent. snd out = t @ sent \<and> (\<forall>q \<in> set sent. read_only q)"
  proof (cases "\<exists>envelope. p = Inr envelope \<and> \<not> (status_of envelope \<in> set terminal_statuses \<or> deadline \<le> reads k)")
    case True
    then have "rec c handle deadline reads (Suc k) u = Some out" using out p by auto
    from IH [OF this] s1 show ?thesis by auto
  next
    case False
    then have "snd out = u" using out p by (cases p) (auto split: if_splits)
    then show ?thesis using s1 by blast
  qed
qed

lemma finish_wait_emits: "emits (tenant_request c) (finish_wait env c s al entry client_name cap outcome)"
  unfolding finish_wait_def capture_terminal_def case_prod_unfold
  by (cases outcome) (simp_all del: io_run add: emits_return split: option.split,
    auto simp: case_prod_unfold simp del: io_run intro!: emits_bind emits_return capture_emits)

text \<open>A computation that was handed the outcome of another one and goes on from there.\<close>

lemma sent_on:
  assumes "emits P m" and "t' = t @ s1" "\<forall>q \<in> set s1. P q" and "m t' = (r, u)"
  shows "\<exists>sent. u = t @ sent \<and> (\<forall>q \<in> set sent. P q)"
proof -
  obtain s2 where "u = t' @ s2" "\<forall>q \<in> set s2. P q" using emitsE [OF assms(1,4)] .
  then have "u = t @ (s1 @ s2) \<and> (\<forall>q \<in> set (s1 @ s2). P q)" using assms(2,3) by auto
  then show ?thesis by blast
qed

lemma run_wait_sent:
  assumes "run_wait_on_async_query env c s p ccid timeout_ms client_name al cap t = Some (r, t')"
  shows "\<exists>sent. t' = t @ sent \<and> (\<forall>q \<in> set sent. tenant_request c q)"
proof (cases "t' = t")
  case False
  then obtain entry al' handle polled t1 where
    polled: "poll_from c handle (wait_deadline env s timeout_ms) (ay_reads env) 0 t = Some (polled, t1)"
    and fin: "io_catch (io_bind (io_lift polled) (finish_wait env c s al' entry client_name cap))
                (\<lambda>e. io_return (tool_error e, al', cap)) t1 = (r, t')"
    using assms by (fastforce simp: run_wait_on_async_query_def split: option.splits prod.splits sum.splits)
  obtain s1 where "t1 = t @ s1" "\<forall>q \<in> set s1. read_only q" using poll_from_reads [OF polled] by auto
  let ?m = "io_catch (io_bind (io_lift polled) (finish_wait env c s al' entry client_name cap))
                (\<lambda>e. io_return (tool_error e, al', cap))"
  have "emits (tenant_request c) ?m" by (intro emits_catch emits_bind emits_lift emits_return finish_wait_emits)
  moreover have "t1 = t @ s1" "\<forall>q \<in> set s1. tenant_request c q"
    using \<open>t1 = t @ s1\<close> \<open>\<forall>q \<in> set s1. read_only q\<close> read_only_tenant by blast+
  ultimately show ?thesis using fin by (rule sent_on)
qed auto

lemma serve_wait_sent:
  assumes "serve_wait_on_async_query env gw ccid timeout_ms st t = Some (r, t')"
  shows "\<exists>sent. t' = t @ sent \<and> (\<forall>q \<in> set sent. tenant_request (call_client env gw st) q)"
proof -
  let ?p = "sc_state (call_scope env gw st)"
  let ?k = "\<lambda>outcome. io_bind (io_lift outcome) (\<lambda>(r, al, cap).
      case cap of None \<Rightarrow> reply_with r (looked_up env gw (st\<lparr>sv_audit := al\<rparr>))
      | Some (capture, events) \<Rightarrow>
          reply_with r (keep_scope env gw (?p\<lparr>ps_capture := capture\<rparr>) (st\<lparr>sv_audit := al, sv_events := events\<rparr>)))"
  obtain outcome t1 where
    w: "run_wait_on_async_query (async_env_of env) (call_client env gw st) (gw_settings gw) (pools_waits (ce_pools env)) ccid
          timeout_ms (client_identity (ce_client_info env)) (sv_audit st) (Some (ps_capture ?p, sv_events st)) t = Some (outcome, t1)"
    and k: "?k outcome t1 = (r, t')"
    using assms unfolding serve_wait_on_async_query_def Let_def by (auto simp only: map_option_eq_Some split_paired_Ex prod.case)
  have "emits (\<lambda>_. False) (?k outcome)"
    unfolding case_prod_unfold by (intro emits_bind emits_lift emits_option reply_emits)
  then have "snd (?k outcome t1) = t1" by (simp only: emits_none_iff)
  then have t': "t' = t1" using k by (simp only: snd_conv)
  show ?thesis using run_wait_sent [OF w] t' by simp
qed

text \<open>
  C4. The gateway only reads, except for the memory of the caller and a cancellation the caller
  asks for. Whatever tool is called with whatever arguments, in whatever state of the server and
  whatever the cluster answers, every request of the call is read-only (a fetch, or a query posted
  as read-only); or, for a call of \<open>cancel_query\<close> and no other, the deletion of the running request
  with exactly the id of that call; or, for the five tools that may learn, an insert or upsert of
  one of four fixed statements into the memory store: only while memory writes are enabled, and
  with the row stamped as belonging to the tenant of the call. A refused call sends nothing.
\<close>

theorem served_calls_read_only:
  assumes "serve env gw call st t = Some (r, t')"
  shows "\<exists>sent. t' = t @ sent \<and> (\<forall>q \<in> set sent. read_only q
      \<or> (\<exists>ccid. call = Cancel_Query ccid
           \<and> q = DeletePath ''/admin/requests/running'' [(''client_context_id'', ccid)] (headers (holder_client gw)))
      \<or> tool_name call \<in> set memory_writing_tools \<and> memory_write_enabled (gw_settings gw)
        \<and> (\<exists>stmt row form. stmt \<in> {event_insert, upsert_row, insert_row, reinforce_upsert}
             \<and> q = QueryPost form (headers (holder_client gw)) \<and> map_of form ''statement'' = Some stmt
             \<and> map_of form ''$row'' = Some (json_dumps (JDict (tag row (call_principal env gw st))))))"
proof -
  have own: "\<exists>stmt row form. stmt \<in> {event_insert, upsert_row, insert_row, reinforce_upsert}
             \<and> q = QueryPost form (headers (holder_client gw)) \<and> map_of form ''statement'' = Some stmt
             \<and> map_of form ''$row'' = Some (json_dumps (JDict (tag row (call_principal env gw st))))"
    and on: "memory_write_enabled (gw_settings gw)"
    if "tenant_request (call_client env gw st) q" "\<not> read_only q" for q
    using that by (auto simp: tenant_request_def own_write_def call_client_def for_principal_def holder_client_def headers_def)
  have sent: "\<exists>sent. t' = t @ sent \<and> (\<forall>q \<in> set sent. call_request env gw call st q)"
  proof (cases "tool_name call \<notin> set (registered_tools (gw_settings gw)) \<or> \<not> call_accepted call")
    case True
    then show ?thesis using assms by (simp add: serve_def)
  next
    case False
    note running = this
    show ?thesis
    proof (cases "serve_at_once env gw call st")
      case (Some m)
      then have "m t = (r, t')" using assms running by (simp add: serve_def)
      then show ?thesis using emitsE [OF serve_at_once_emits [OF Some]] by metis
    next
      case None
      then obtain ccid timeout_ms where call: "call = Wait_On_Async_Query ccid timeout_ms"
        by (cases call) (auto simp: serve_at_once_def thin_tools)
      then have "serve_wait_on_async_query env gw ccid timeout_ms st t = Some (r, t')"
        using assms running None by (simp add: serve_def)
      then show ?thesis
        using serve_wait_sent call by (fastforce simp: call_request_def memory_writing_tools_def)
    qed
  qed
  have "read_only q
      \<or> (\<exists>ccid. call = Cancel_Query ccid
           \<and> q = DeletePath ''/admin/requests/running'' [(''client_context_id'', ccid)] (headers (holder_client gw)))
      \<or> tool_name call \<in> set memory_writing_tools \<and> memory_write_enabled (gw_settings gw)
        \<and> (\<exists>stmt row form. stmt \<in> {event_insert, upsert_row, insert_row, reinforce_upsert}
             \<and> q = QueryPost form (headers (holder_client gw)) \<and> map_of form ''statement'' = Some stmt
             \<and> map_of form ''$row'' = Some (json_dumps (JDict (tag row (call_principal env gw st)))))"
    if "call_request env gw call st q" for q
    using that own [of q] on [of q] unfolding call_request_def cancel_request_def by blast
  with sent show ?thesis by blast
qed

section \<open>A concrete server\<close>

text \<open>A server over the quiet network, one place in each pool, and a call by a named tenant.\<close>

definition quiet_gateway :: "settings \<Rightarrow> gateway" where
  "quiet_gateway s = \<lparr>gw_settings = s, gw_http = cc_http (quiet_client s None)\<rparr>"

definition pool_of_one :: "int \<Rightarrow> permit_pool" where
  "pool_of_one used = \<lparr>pp_capacity = 1, pp_name = ''synchronous query'', pp_share = 1, pp_in_use = used, pp_held = []\<rparr>"

definition quiet_env :: "nat \<Rightarrow> string \<Rightarrow> int \<Rightarrow> call_env" where
  "quiet_env n who used =
     \<lparr>ce_connection = Session n, ce_token = Some who, ce_client_info = Some (''cli'', ''1''), ce_uuid = (\<lambda>k. ''u'' @ show_nat k),
      ce_now = 100, ce_clock = \<lparr>ck_now = ''now'', ck_age = (\<lambda>_. None), ck_log1p = (\<lambda>x. x)\<rparr>,
      ce_artifacts = \<lparr>ae_tmp = ''/tmp'', ae_now = 100, ae_uuid = ''0'', ae_iso = (\<lambda>_. ''t'')\<rparr>,
      ce_event = \<lparr>ev_id_time = 100, ev_time = 100, ev_uuid = ''e''\<rparr>, ce_start = 0, ce_reads = of_nat,
      ce_pools = \<lparr>pools_sync = pool_of_one used, pools_async = pool_of_one used, pools_waits = pool_of_one used\<rparr>\<rparr>"

definition writing_settings :: settings where
  "writing_settings = default_settings\<lparr>memory_write_enabled := True\<rparr>"

definition started :: "settings \<Rightarrow> server_state" where
  "started s = \<lparr>sv_scopes = new_registry, sv_audit = \<lparr>al_ttl = audit_log_ttl_s s, al_entries = []\<rparr>, sv_artifacts = [],
     sv_events = \<lparr>eb_files = [], eb_reported = False\<rparr>\<rparr>"

definition orders_call :: tool_call where
  "orders_call = Execute_Query ''SELECT VALUE o FROM shop.orders o;'' None 0 20 None False False 5 None"

definition orders_query :: exec_args where
  "orders_query = exec_defaults ''SELECT VALUE o FROM shop.orders o;''"

lemma serve_orders:
  "serve env (quiet_gateway default_settings) orders_call st t
     = Some (serve_execute_query env (quiet_gateway default_settings) orders_query st t)"
proof -
  have "''execute_query'' \<in> set (registered_tools default_settings)"
    by (simp add: registered_tools_def declared_tools_def memory_tool_names_def)
  then show ?thesis
    by (simp add: serve_def serve_at_once_def orders_call_def orders_query_def exec_defaults_def quiet_gateway_def
        in_bounds_def Let_def)
qed

lemma served_calls_read_only_witness:
  "\<exists>sent. snd (serve_execute_query (quiet_env 1 ''alice'' 0) (quiet_gateway default_settings) orders_query (started default_settings) []) = sent
     \<and> (\<forall>q \<in> set sent. read_only q)"
proof -
  let ?m = "serve_execute_query (quiet_env 1 ''alice'' 0) (quiet_gateway default_settings) orders_query (started default_settings)"
  obtain r sent where run: "?m [] = (r, sent)" by (cases "?m []") auto
  have off: "\<not> memory_write_enabled (gw_settings (quiet_gateway default_settings))"
    by (simp add: quiet_gateway_def default_settings_def)
  have "\<forall>q \<in> set sent. read_only q"
    using served_calls_read_only [of "quiet_env 1 ''alice'' 0" "quiet_gateway default_settings" orders_call "started default_settings"
        "[]" r sent, unfolded serve_orders run] off by (auto simp: orders_call_def)
  then show ?thesis using run by simp
qed

end
