(* ===== verification/Server_State.thy ===== *)
theory Server_State
  imports Served_Calls
begin

text \<open>
  The state of the server over time: what every history of calls and ended connections keeps, what
  one caller's calls leave untouched of another's state, and what a full gateway does.
\<close>

section \<open>The audit log holds this process's queries\<close>

definition audit_own :: "settings \<Rightarrow> audit_log \<Rightarrow> bool" where
  "audit_own s al \<longleftrightarrow> audit_ok al \<and> (\<forall>p \<in> set (al_entries al). ae_session (snd p) = agent_session_id s)"

lemma audit_own_prune [simp]: "audit_own s al \<Longrightarrow> audit_own s (prune now al)"
  by (auto simp: audit_own_def)

lemma audit_own_forget [simp]: "audit_own s al \<Longrightarrow> audit_own s (audit_forget k al)"
  by (auto simp: audit_own_def)

lemma audit_own_record [simp]:
  assumes "audit_own s al" and "ae_session e = agent_session_id s"
  shows "audit_own s (audit_record now e al)"
proof -
  have "set (al_entries (audit_record now e al)) \<subseteq> insert (ae_ccid e, e) (set (al_entries al))"
    using set_dict_set_subset [of "ae_ccid e" e "al_entries (prune now al)"] by (auto simp: audit_record_def Let_def)
  then show ?thesis using assms by (auto simp: audit_own_def)
qed

lemma audit_own_get:
  assumes "audit_own s al" and "audit_get now k al = (found, al')"
  shows "audit_own s al' \<and> (\<forall>e. found = Some e \<longrightarrow> ae_session e = agent_session_id s)"
  using assms map_of_SomeD [of "al_entries al" k] audit_own_forget [of s al k]
  by (fastforce simp: audit_get_def audit_own_def split: option.splits if_splits)

lemma audit_own_record_query [simp]:
  "audit_own s al \<Longrightarrow> audit_own s (record_query s now u tool statement dataverse r al)"
  unfolding record_query_def Let_def by (rule audit_own_record) (simp_all add: new_entry_def)

lemma audit_own_history [simp]:
  "audit_own s al \<Longrightarrow> audit_own s (snd (run_get_query_history now most failures_only al))"
  by (simp add: run_get_query_history_def audit_recent_def Let_def)

section \<open>What a call moves\<close>

text \<open>The scope registry is as before or has the call's own scope replaced; the log stays in order.\<close>

definition moved :: "call_env \<Rightarrow> gateway \<Rightarrow> server_state \<Rightarrow> server_state \<Rightarrow> bool" where
  "moved env gw st st' \<longleftrightarrow>
     (sv_scopes st' = sv_scopes st
      \<or> (\<exists>p. sv_scopes st' = call_with (ce_connection env) (ce_token env) (gw_settings gw) (ce_uuid env 0) (\<lambda>_. p) (sv_scopes st)))
     \<and> (audit_own (gw_settings gw) (sv_audit st) \<longrightarrow> audit_own (gw_settings gw) (sv_audit st'))"

lemma moved_keep:
  "sv_scopes st1 = sv_scopes st \<Longrightarrow> (audit_own (gw_settings gw) (sv_audit st) \<Longrightarrow> audit_own (gw_settings gw) (sv_audit st1)) \<Longrightarrow>
   moved env gw st (keep_scope env gw p st1)"
  by (auto simp: moved_def keep_scope_def)

lemma moved_same:
  "sv_scopes st1 = sv_scopes st \<Longrightarrow> (audit_own (gw_settings gw) (sv_audit st) \<Longrightarrow> audit_own (gw_settings gw) (sv_audit st1)) \<Longrightarrow>
   moved env gw st st1"
  by (simp add: moved_def)

lemma moved_lookup:
  "sv_scopes st1 = sv_scopes st \<Longrightarrow> (audit_own (gw_settings gw) (sv_audit st) \<Longrightarrow> audit_own (gw_settings gw) (sv_audit st1)) \<Longrightarrow>
   moved env gw st (looked_up env gw st1)"
  unfolding looked_up_def by (rule moved_keep)

lemma reply_moves: "Q st \<Longrightarrow> yields (\<lambda>out. Q (snd out)) (reply_with r st)"
  unfolding reply_with_def by (intro yields_bind_any yields_return) simp

lemma plain_moves: "Q st \<Longrightarrow> yields (\<lambda>out. Q (snd out)) (plain_tool m st)"
  unfolding plain_tool_def by (intro yields_bind_any reply_moves)

lemma briefed_moves: "yields (\<lambda>out. moved env gw st (snd out)) (briefed_tool env gw m st)"
  unfolding briefed_tool_def Let_def case_prod_unfold
  by (intro yields_bind_any reply_moves moved_keep) simp_all

lemma submit_audit:
  "yields (\<lambda>(r, al'). audit_own s al \<longrightarrow> audit_own s al') (run_submit_async_query env c s p a al)"
  unfolding run_submit_async_query_def Let_def case_prod_unfold
  by (intro yields_option yields_return yields_catch yields_bind_any)
    (simp_all add: submitted_entry_def new_entry_def)

lemma fetch_audit:
  "yields (\<lambda>(r, al', d). audit_own s al \<longrightarrow> audit_own s al') (run_fetch_query_result env now c s ccid offset most fmt al d)"
  unfolding run_fetch_query_result_def
  by (cases "audit_get now ccid al") (auto simp: audit_own_get split: option.split sum.split prod.split
      simp del: io_run intro!: yields_option yields_return yields_bind_any)

lemma cancel_audit: "yields (\<lambda>(r, al'). audit_own s al \<longrightarrow> audit_own s al') (run_cancel_query c s ccid al)"
  unfolding run_cancel_query_def by (intro yields_option yields_return yields_catch yields_bind_any) simp_all

lemma finish_wait_audit:
  "audit_own s al \<Longrightarrow> ae_session entry = agent_session_id s \<Longrightarrow>
   yields (\<lambda>(r, al', cap'). audit_own s al') (finish_wait env c s al entry client_name cap outcome)"
  unfolding finish_wait_def
  by (cases outcome) (auto simp: terminal_result_def with_result_handle_def Let_def simp del: io_run
      intro!: yields_bind_any yields_return split: option.split)

lemma wait_audit:
  assumes "run_wait_on_async_query env c s p ccid timeout_ms client_name al cap t = Some (Inr (r, al', cap'), t')"
    and "audit_own s al"
  shows "audit_own s al'"
proof (cases "check_ownership s ccid")
  case (Some e)
  then show ?thesis using assms by (simp add: run_wait_on_async_query_def)
next
  case None
  obtain found al1 where got: "audit_get (ay_now env) ccid al = (found, al1)" by fastforce
  note own = audit_own_get [OF assms(2) got]
  show ?thesis
  proof (cases "\<exists>entry handle. found = Some entry \<and> ae_handle entry = Some handle
      \<and> (\<exists>q. take_permit p (permit_holder (cc_principal c)) = Inr q)")
    case False
    then show ?thesis using assms(1) None got own
      by (auto simp: run_wait_on_async_query_def split: option.splits sum.splits)
  next
    case True
    then obtain entry handle where entry: "found = Some entry" "ae_handle entry = Some handle" by blast
    then obtain polled t1 where fin: "io_catch (io_bind (io_lift polled) (finish_wait env c s al1 entry client_name cap))
                (\<lambda>e. io_return (tool_error e, al1, cap)) t1 = (Inr (r, al', cap'), t')"
      using assms(1) None got True by (auto simp: run_wait_on_async_query_def split: sum.splits)
    have "yields (\<lambda>(r, al', cap'). audit_own s al') (io_catch (io_bind (io_lift polled) (finish_wait env c s al1 entry client_name cap))
                (\<lambda>e. io_return (tool_error e, al1, cap)))"
      using own entry by (intro yields_catch yields_bind_any finish_wait_audit yields_return) simp_all
    from yieldsD [OF this fin] show ?thesis by simp
  qed
qed

section \<open>Every call\<close>

lemma serve_at_once_moves:
  assumes "serve_at_once env gw call st = Some m"
  shows "yields (\<lambda>out. moved env gw st (snd out)) m"
proof -
  note answers = reply_moves plain_moves briefed_moves moved_same moved_keep moved_lookup
  have execute: "yields (\<lambda>out. moved env gw st (snd out)) (serve_execute_query env gw a st)" for a
    unfolding serve_execute_query_def Let_def case_prod_unfold
    by (intro yields_bind_any reply_moves moved_keep) simp_all
  have sample: "yields (\<lambda>out. moved env gw st (snd out)) (serve_sample_dataset env gw dv ds n fmt st)" for dv ds n fmt
    unfolding serve_sample_dataset_def Let_def case_prod_unfold
    by (intro yields_bind_any reply_moves moved_keep) simp_all
  have submit: "yields (\<lambda>out. moved env gw st (snd out)) (serve_submit_async_query env gw a st)" for a
    unfolding serve_submit_async_query_def
    by (rule yields_bind [OF submit_audit [where al = "sv_audit st"]]) (auto intro!: reply_moves moved_lookup)
  have fetch: "yields (\<lambda>out. moved env gw st (snd out)) (serve_fetch_query_result env gw ccid offset limit fmt st)"
    for ccid offset limit fmt
    unfolding serve_fetch_query_result_def
    by (rule yields_bind [OF fetch_audit [where al = "sv_audit st" and s = "gw_settings gw"]])
      (auto intro!: reply_moves moved_same)
  have cancel: "yields (\<lambda>out. moved env gw st (snd out)) (serve_cancel_query env gw ccid st)" for ccid
    unfolding serve_cancel_query_def
    by (rule yields_bind [OF cancel_audit [where al = "sv_audit st"]]) (auto intro!: reply_moves moved_same)
  have history: "yields (\<lambda>out. moved env gw st (snd out)) (serve_get_query_history env limit failures_only st)"
    for limit failures_only
    unfolding serve_get_query_history_def case_prod_unfold by (intro reply_moves moved_same) simp_all
  have discovery: "yields (\<lambda>out. moved env gw st (snd out)) (serve_get_schema env gw dv ds st)"
    "yields (\<lambda>out. moved env gw st (snd out)) (serve_list_dataverses env gw st)"
    "yields (\<lambda>out. moved env gw st (snd out)) (serve_list_datasets env gw fa offset limit st)" for dv ds fa offset limit
    unfolding serve_get_schema_def serve_list_dataverses_def serve_list_datasets_def by (rule briefed_moves)+
  have plain: "yields (\<lambda>out. moved env gw st (snd out)) (plain_tool m st)"
    "yields (\<lambda>out. moved env gw st (snd out)) (plain_tool m (looked_up env gw st))"
    "yields (\<lambda>out. moved env gw st (snd out)) (reply_with r st)" for m r
    by (intro plain_moves reply_moves moved_same moved_lookup; simp)+
  show ?thesis
    using assms by (cases call)
      (auto simp: serve_at_once_def thin_tools serve_describe_dataverse_def serve_memory_write_def serve_profile_query_def
        intro: execute sample submit fetch cancel history discovery plain)
qed

lemma serve_wait_moves:
  assumes "serve_wait_on_async_query env gw ccid timeout_ms st t = Some (Inr (reply, st'), t')"
  shows "moved env gw st st'"
proof -
  let ?p = "sc_state (call_scope env gw st)"
  let ?k = "\<lambda>(r, al, cap). case cap of None \<Rightarrow> reply_with r (looked_up env gw (st\<lparr>sv_audit := al\<rparr>))
      | Some (capture, events) \<Rightarrow>
          reply_with r (keep_scope env gw (?p\<lparr>ps_capture := capture\<rparr>) (st\<lparr>sv_audit := al, sv_events := events\<rparr>))"
  obtain outcome t1 where
    w: "run_wait_on_async_query (async_env_of env) (call_client env gw st) (gw_settings gw) (pools_waits (ce_pools env)) ccid
          timeout_ms (client_identity (ce_client_info env)) (sv_audit st) (Some (ps_capture ?p, sv_events st)) t = Some (outcome, t1)"
    and k: "io_bind (io_lift outcome) ?k t1 = (Inr (reply, st'), t')"
    using assms unfolding serve_wait_on_async_query_def Let_def by (auto simp only: map_option_eq_Some split_paired_Ex prod.case)
  then obtain r al cap where out: "outcome = Inr (r, al, cap)" and reply: "?k (r, al, cap) t1 = (Inr (reply, st'), t')"
    by (cases outcome) auto
  have "audit_own (gw_settings gw) (sv_audit st) \<Longrightarrow> audit_own (gw_settings gw) al"
    using wait_audit w out by blast
  then have "yields (\<lambda>out. moved env gw st (snd out)) (?k (r, al, cap))"
    by (auto intro!: reply_moves moved_keep moved_lookup split: option.split)
  from yieldsD [OF this reply] show ?thesis by simp
qed

lemma serve_moves:
  assumes "serve env gw call st t = Some (Inr (reply, st'), t')"
  shows "moved env gw st st'"
proof (cases "serve_at_once env gw call st")
  case (Some m)
  then have "m t = (Inr (reply, st'), t')" using assms by (auto simp: serve_def split: if_splits)
  then show ?thesis using yieldsD [OF serve_at_once_moves [OF Some]] by fastforce
next
  case None
  then obtain ccid timeout_ms where call: "call = Wait_On_Async_Query ccid timeout_ms"
    by (cases call) (auto simp: serve_at_once_def thin_tools)
  then show ?thesis using assms None serve_wait_moves by (auto simp: serve_def split: if_splits)
qed

section \<open>Histories\<close>

text \<open>
  The server over time: a call that is answered, and the end of a connection. A call that raises
  leaves the state of the model alone.
\<close>

inductive server_step :: "gateway \<Rightarrow> server_state \<Rightarrow> server_state \<Rightarrow> bool" for gw where
  answered: "serve env gw call st t = Some (Inr (reply, st'), t') \<Longrightarrow> server_step gw st st'"
| disconnected: "server_step gw st (st\<lparr>sv_scopes := end_session n (sv_scopes st)\<rparr>)"

inductive_cases server_stepE: "server_step gw st st'"

definition server_ok :: "gateway \<Rightarrow> server_state \<Rightarrow> bool" where
  "server_ok gw st \<longleftrightarrow> registry_ok (sv_scopes st) \<and> audit_own (gw_settings gw) (sv_audit st)"

lemma moved_ok: "moved env gw st st' \<Longrightarrow> server_ok gw st \<Longrightarrow> server_ok gw st'"
  by (auto simp: moved_def server_ok_def call_with_ok)

lemma server_step_ok: "server_step gw st st' \<Longrightarrow> server_ok gw st \<Longrightarrow> server_ok gw st'"
  by (elim server_stepE) (auto simp: server_ok_def end_session_ok dest: serve_moves moved_ok [unfolded server_ok_def])

lemma built_ok:
  assumes "build_server valid_url s events artifacts = Inr b" and "gw_settings gw = s"
  shows "server_ok gw (bs_state b)"
proof -
  obtain al where al: "new_audit_log (audit_log_ttl_s s) = Inr al" and b: "sv_audit (bs_state b) = al" "sv_scopes (bs_state b) = new_registry"
    using assms(1) by (auto simp: build_server_def sum_bind_def split: sum.splits)
  have "al_entries al = []" using al by (auto simp: new_audit_log_def split: if_splits)
  then have "audit_own s al" using audit_ok_new [OF al] by (simp add: audit_own_def)
  then show ?thesis using b assms(2) by (simp add: server_ok_def registry_ok_def new_registry_def)
qed

lemma reachable_ok:
  assumes "build_server valid_url (gw_settings gw) events artifacts = Inr b" and "(server_step gw)\<^sup>*\<^sup>* (bs_state b) st"
  shows "server_ok gw st"
  using assms(2) by (induction rule: rtranclp_induct) (auto intro: built_ok [OF assms(1)] server_step_ok)

text \<open>
  C6. Whatever calls the server answers, in whatever order, for whatever tenants and on whatever
  connections that come and go: every scope it keeps for a connection carries the session key
  recorded for that connection, every scope kept without one is filed under its own tenant, and
  the audit log holds at most one entry per identifier, filed under it and minted by this process.
\<close>

theorem server_invariant:
  assumes "build_server valid_url (gw_settings gw) events artifacts = Inr b" and "(server_step gw)\<^sup>*\<^sup>* (bs_state b) st"
  shows "(\<forall>n scope. map_of (sr_by_session (sv_scopes st)) n = Some scope \<longrightarrow>
            map_of (sr_keys (sv_scopes st)) n = Some (id_session (sc_identity scope)))
    \<and> (\<forall>who scope. map_of (sr_connectionless (sv_scopes st)) who = Some scope \<longrightarrow> id_principal (sc_identity scope) = who)
    \<and> distinct (map fst (al_entries (sv_audit st)))
    \<and> (\<forall>(k, e) \<in> set (al_entries (sv_audit st)). ae_ccid e = k \<and> ae_session e = agent_session_id (gw_settings gw))"
  using reachable_ok [OF assms] by (auto simp: server_ok_def registry_ok_def audit_own_def audit_ok_def)

section \<open>One caller's calls leave another's state alone\<close>

lemma call_principal_is:
  "registry_ok (sv_scopes st) \<Longrightarrow> call_principal env gw st = resolve_principal (ce_token env) (gw_settings gw)"
  by (simp add: call_principal_def call_scope_def for_call_state)

lemma kept_state:
  assumes "registry_ok (sv_scopes st)"
  shows "held_state (ce_connection env) (call_principal env gw st) (sv_scopes (keep_scope env gw p st)) = p"
  unfolding keep_scope_def call_principal_is [OF assms] using assms by (simp add: held_after_call own_step_of_def)


section \<open>A full gateway\<close>

lemma capture_failure_yields:
  assumes "memory_enabled s" and "memory_write_enabled s"
  shows "yields (\<lambda>out. fst out = snd (capture_record statement (Some e) st))
     (capture_query_outcome ck ev c s u st b statement (Some e) client_name metrics session)"
  unfolding capture_query_outcome_def using assms capture_pairs [of statement st "[]" e]
  by (auto simp: case_prod_unfold Let_def simp del: io_run intro!: yields_bind_any yields_return split: prod.split)

lemma pending_after_failure:
  "subject \<in> set (subjects_from_statement statement None) \<Longrightarrow>
   map_of (snd (capture_record statement (Some e) st)) subject = Some \<lparr>pf_error = e, pf_statement = statement\<rparr>"
  using capture_pairs [of statement st subject e] by simp

text \<open>A call that finds the pool full: its outcome is recorded and captured, nothing else runs.\<close>

definition shed_error :: "call_env \<Rightarrow> gateway_error" where
  "shed_error env = gerr NOT_READY (at_capacity_message (pools_sync (ce_pools env)))"

definition shed_capture :: "call_env \<Rightarrow> gateway \<Rightarrow> string \<Rightarrow> server_state \<Rightarrow> (capture_state \<times> event_buffer) io" where
  "shed_capture env gw statement st =
     capture_query_outcome (ce_clock env) (ce_event env) (call_client env gw st) (gw_settings gw) (ce_uuid env 3)
       (ps_capture (sc_state (call_scope env gw st))) (sv_events st) statement (Some ''NOT_READY'')
       (client_identity (ce_client_info env)) [] (Some (id_session (sc_identity (call_scope env gw st))))"

definition shed_state :: "call_env \<Rightarrow> gateway \<Rightarrow> exec_args \<Rightarrow> server_state \<Rightarrow> capture_state \<Rightarrow> event_buffer \<Rightarrow> server_state" where
  "shed_state env gw a st capture events =
     keep_scope env gw ((sc_state (call_scope env gw st))\<lparr>ps_capture := capture\<rparr>)
       (st\<lparr>sv_audit := record_query (gw_settings gw) (ce_now env) (ce_uuid env 2) ''execute_query'' (xa_statement a)
             (xa_dataverse a) (tool_error (shed_error env)) (sv_audit st), sv_events := events\<rparr>)"

lemma shed_run:
  assumes "pp_capacity (pools_sync (ce_pools env)) \<le> pp_in_use (pools_sync (ce_pools env))"
  shows "serve_execute_query env gw a st = io_bind (shed_capture env gw (xa_statement a) st)
     (\<lambda>(capture, events). reply_with (tool_error (shed_error env)) (shed_state env gw a st capture events))"
proof -
  have shed: "permitted_execution env gw a st =
      io_return (tool_error (shed_error env), Some (ps_recall (sc_state (call_scope env gw st))), sv_artifacts st)"
    using assms by (simp add: permitted_execution_def under_permit_def take_permit_def shed_error_def Let_def fun_eq_iff)
  have signal: "capture_error_signal (tool_error (shed_error env)) = Inr (Some ''NOT_READY'')"
    "captured_metrics (gw_settings gw) (tool_error (shed_error env)) = Inr []"
    by (simp_all add: capture_error_signal_def captured_metrics_def tool_error_def to_structured_def shed_error_def)
  show ?thesis
    unfolding serve_execute_query_def shed Let_def shed_capture_def shed_state_def
    by (simp add: signal recall_or_def)
qed

lemma shed_reply:
  "reply_with (tool_error e) st =
     io_return (\<lparr>cr_text = tr_text (tool_error e), cr_link = None, cr_structured = None, cr_is_error = True\<rparr>, st)"
  by (simp add: reply_with_def to_call_tool_result_def tool_error_def fun_eq_iff)

lemma shed_kept:
  assumes "registry_ok (sv_scopes st)"
  shows "held_state (ce_connection env) (call_principal env gw st) (sv_scopes (shed_state env gw a st capture events))
    = (sc_state (call_scope env gw st))\<lparr>ps_capture := capture\<rparr>"
proof -
  let ?st = "st\<lparr>sv_audit := record_query (gw_settings gw) (ce_now env) (ce_uuid env 2) ''execute_query'' (xa_statement a)
             (xa_dataverse a) (tool_error (shed_error env)) (sv_audit st), sv_events := events\<rparr>"
  have "call_principal env gw ?st = call_principal env gw st" by (simp add: call_principal_def call_scope_def)
  then show ?thesis using kept_state [of ?st env gw] assms by (simp add: shed_state_def)
qed


section \<open>The concrete server runs\<close>

text \<open>Only the capture can keep a shed call from being answered, and over the quiet network it does not.\<close>

lemma capture_failure_returns:
  assumes "record_session_event ev c s u statement (Some e) client_name metrics session b t = (Inr b', t')"
  shows "\<exists>x. capture_query_outcome ck ev c s u st b statement (Some e) client_name metrics session t = (Inr x, snd
    (capture_query_outcome ck ev c s u st b statement (Some e) client_name metrics session t))"
  using assms capture_pairs [of statement st "[]" e]
  by (auto simp: capture_query_outcome_def io_bind_Inr case_prod_unfold Let_def)

lemma quiet_event:
  "s \<in> {default_settings, writing_settings} \<Longrightarrow>
   case fst (record_session_event \<lparr>ev_id_time = 100, ev_time = 100, ev_uuid = ''e''\<rparr> (quiet_client s (Some ''alice'')) s
      ''u3'' ''SELECT VALUE o FROM shop.orders o;'' (Some ''NOT_READY'') (Some ''cli/1'') [] (Some ''u0'')
      \<lparr>eb_files = [], eb_reported = False\<rparr> []) of Inl _ \<Rightarrow> False | Inr _ \<Rightarrow> True"
  by (elim insertE emptyE; hypsubst; code_simp)

lemma quiet_scope:
  "resolve_principal (Some ''alice'') s = ''alice''" "client_identity (Some (''cli'', ''1'')) = Some ''cli/1''"
  "''u'' @ show_nat 0 = ''u0''" "''u'' @ show_nat 3 = ''u3''"
proof -
  have "strip ''alice'' = ''alice''" by code_simp
  then show "resolve_principal (Some ''alice'') s = ''alice''" by (simp add: resolve_principal_def max_principal_len_def)
qed code_simp+

lemma full_call_answered:
  assumes "s \<in> {default_settings, writing_settings}"
  shows "\<exists>reply st' t'. serve_execute_query (quiet_env 1 ''alice'' 1) (quiet_gateway s) orders_query (started s) []
     = (Inr (reply, st'), t')"
proof -
  let ?env = "quiet_env 1 ''alice'' 1" and ?gw = "quiet_gateway s" and ?st = "started s"
  have full: "pp_capacity (pools_sync (ce_pools ?env)) \<le> pp_in_use (pools_sync (ce_pools ?env))"
    by (simp add: quiet_env_def pool_of_one_def)
  have scope: "sc_identity (call_scope ?env ?gw ?st) = \<lparr>id_principal = ''alice'', id_session = ''u0''\<rparr>"
    using quiet_scope by (simp add: call_scope_def for_call_def resolve_identity_def session_key_def session_object_def
        quiet_env_def quiet_gateway_def started_def new_registry_def Let_def)
  have client: "call_client ?env ?gw ?st = quiet_client s (Some ''alice'')"
    using scope by (simp add: call_client_def call_principal_def holder_client_def for_principal_def quiet_gateway_def quiet_client_def)
  obtain b' t' where "record_session_event \<lparr>ev_id_time = 100, ev_time = 100, ev_uuid = ''e''\<rparr> (quiet_client s (Some ''alice'')) s
      ''u3'' ''SELECT VALUE o FROM shop.orders o;'' (Some ''NOT_READY'') (Some ''cli/1'') [] (Some ''u0'')
      \<lparr>eb_files = [], eb_reported = False\<rparr> [] = (Inr b', t')"
    using quiet_event [OF assms] by (auto split: sum.splits) (metis prod.collapse)
  note event = capture_failure_returns [OF this]
  have "\<exists>x. shed_capture ?env ?gw (xa_statement orders_query) ?st [] = (Inr x, snd (shed_capture ?env ?gw (xa_statement orders_query) ?st []))"
    unfolding shed_capture_def client scope
    using event quiet_scope by (simp add: quiet_env_def quiet_gateway_def started_def orders_query_def exec_defaults_def)
  then show ?thesis unfolding shed_run [OF full] by (auto simp: io_bind_Inr shed_reply)
qed

lemma started_server:
  "\<exists>b. build_server (\<lambda>_. True) (gw_settings (quiet_gateway default_settings)) \<lparr>eb_files = [], eb_reported = False\<rparr> [] = Inr b
     \<and> bs_state b = started default_settings"
proof -
  have "case build_server (\<lambda>_. True) default_settings \<lparr>eb_files = [], eb_reported = False\<rparr> [] of
      Inl _ \<Rightarrow> False | Inr b \<Rightarrow> True"
    by code_simp
  then obtain b where b: "build_server (\<lambda>_. True) default_settings \<lparr>eb_files = [], eb_reported = False\<rparr> [] = Inr b"
    by (auto split: sum.splits)
  then have "bs_state b = started default_settings"
    by (auto simp: build_server_def new_audit_log_def started_def sum_bind_def split: sum.splits if_splits)
  with b show ?thesis by (auto simp: quiet_gateway_def)
qed

lemma server_invariant_witness:
  "\<exists>st. (server_step (quiet_gateway default_settings))\<^sup>*\<^sup>* (started default_settings) st
     \<and> distinct (map fst (al_entries (sv_audit st)))"
proof -
  let ?gw = "quiet_gateway default_settings"
  obtain b where b: "build_server (\<lambda>_. True) (gw_settings ?gw) \<lparr>eb_files = [], eb_reported = False\<rparr> [] = Inr b"
    "bs_state b = started default_settings"
    using started_server by blast
  obtain reply st' t' where "serve_execute_query (quiet_env 1 ''alice'' 1) ?gw orders_query (started default_settings) []
      = (Inr (reply, st'), t')"
    using full_call_answered [of default_settings] by blast
  then have "server_step ?gw (started default_settings) st'" using server_step.answered serve_orders by metis
  then have "(server_step ?gw)\<^sup>*\<^sup>* (bs_state b) st'" using b(2) by auto
  from server_invariant [OF b(1) this] this b(2) show ?thesis by auto
qed



end
