(* ===== verification/Result_Types.thy ===== *)
theory Result_Types
  imports Gateway_Server
begin

text \<open>
  The types of the answers: every successful reply of a tool conforms to the output schema that
  the server advertises for it, provided the few fields that are copied from the cluster as they
  are have their documented types; two tools are the exception.
\<close>

section \<open>What is copied from the cluster\<close>

definition copied :: "string \<Rightarrow> dict" where
  "copied name = (case map_of
     [(''execute_query'', [(''metrics'', object_schema)]),
      (''get_schema'', [(''datatypeName'', string_schema)]),
      (''validate_syntax'', [(''errorMessage'', string_schema)]),
      (''explain_query'', [(''warnings'', JDict [(''type'', JStr ''array'')])]),
      (''get_function'', [(''name'', string_schema), (''dataverse'', string_schema), (''category'', string_schema),
         (''params'', JDict [(''type'', JStr ''array'')]), (''returnType'', string_schema),
         (''definition'', string_schema), (''arity'', int_schema)]),
      (''get_cluster_status'', [(''version'', JDict [(''type'', JList [JStr ''string'', JStr ''null''])]),
         (''state'', string_schema)]),
      (''get_dataset_statistics'', [(''statistics'', obj_schema
         [(''rowCountEstimate'', int_schema), (''avgItemSizeBytes'', int_schema), (''estimatedSizeBytes'', int_schema),
          (''sampleTarget'', int_schema)] [] [])]),
      (''profile_query'', [(''metrics'', object_schema)])] name of
     None \<Rightarrow> [] | Some ps \<Rightarrow> ps)"

lemma copied_simps [simp]:
  "copied ''execute_query'' = [(''metrics'', object_schema)]"
  "copied ''get_schema'' = [(''datatypeName'', string_schema)]"
  "copied ''validate_syntax'' = [(''errorMessage'', string_schema)]"
  "copied ''explain_query'' = [(''warnings'', JDict [(''type'', JStr ''array'')])]"
  "copied ''get_function'' = [(''name'', string_schema), (''dataverse'', string_schema), (''category'', string_schema),
     (''params'', JDict [(''type'', JStr ''array'')]), (''returnType'', string_schema), (''definition'', string_schema), (''arity'', int_schema)]"
  "copied ''get_cluster_status'' =
     [(''version'', JDict [(''type'', JList [JStr ''string'', JStr ''null''])]), (''state'', string_schema)]"
  "copied ''get_dataset_statistics'' = [(''statistics'', obj_schema
     [(''rowCountEstimate'', int_schema), (''avgItemSizeBytes'', int_schema), (''estimatedSizeBytes'', int_schema),
      (''sampleTarget'', int_schema)] [] [])]"
  "copied ''profile_query'' = [(''metrics'', object_schema)]"
  by (simp_all add: copied_def)

definition schema_of :: "string \<Rightarrow> json" where
  "schema_of name = (case map_of output_schemas name of None \<Rightarrow> JNull | Some schema \<Rightarrow> schema)"

definition typed_answer :: "string \<Rightarrow> tool_result \<Rightarrow> bool" where
  "typed_answer name r \<longleftrightarrow>
     tr_is_error r \<or> (fields_conform (copied name) (tr_structured r) \<longrightarrow> conforms (schema_of name) (JDict (tr_structured r)))"

lemma typed_error [simp]: "typed_answer name (tool_error e)"
  by (simp add: typed_answer_def tool_error_def)

lemma typed_ok:
  assumes "schema_of name = obj_schema properties required description" and "distinct (map fst properties)"
    and "fields_conform (copied name) d \<Longrightarrow> fields_conform properties d" and "list_all (\<lambda>k. k \<in> fst ` set d) required"
  shows "typed_answer name (tool_ok text_arg d)"
  using conforms_object [OF assms(2) _ assms(4)] assms(3) by (simp add: typed_answer_def tool_ok_def assms(1))

lemma is_dict_JDict [conform]: "list_all is_dict (map (\<lambda>x. JDict (f x)) xs)"
  by (induction xs) simp_all

lemma every_schema: "list_all (\<lambda>(name, schema). schema_of name = schema) output_schemas"
proof -
  have "distinct (map fst output_schemas)" by (simp add: output_schemas_def)
  then show ?thesis by (auto simp: list_all_iff schema_of_def)
qed

lemma advertised:
  "schema_of ''execute_query'' = execute_query_schema"
  "schema_of ''get_schema'' = get_schema_schema"
  "schema_of ''list_dataverses'' = list_dataverses_schema"
  "schema_of ''list_datasets'' = list_datasets_schema"
  "schema_of ''describe_dataverse'' = describe_dataverse_schema"
  "schema_of ''sample_dataset'' = sample_dataset_schema"
  "schema_of ''submit_async_query'' = submit_async_query_schema"
  "schema_of ''wait_on_async_query'' = wait_on_async_query_schema"
  "schema_of ''fetch_query_result'' = fetch_query_result_schema"
  "schema_of ''cancel_query'' = cancel_query_schema"
  "schema_of ''validate_syntax'' = validate_syntax_schema"
  "schema_of ''explain_query'' = explain_query_schema"
  "schema_of ''explain_physical_plan'' = explain_physical_plan_schema"
  "schema_of ''check_index_usage'' = check_index_usage_schema"
  "schema_of ''list_functions'' = list_functions_schema"
  "schema_of ''get_function'' = get_function_schema"
  "schema_of ''memory_search'' = memory_search_schema"
  "schema_of ''memory_write'' = memory_write_schema"
  "schema_of ''remember_preference'' = remember_preference_schema"
  "schema_of ''search_metadata'' = search_metadata_schema"
  "schema_of ''get_cluster_status'' = get_cluster_status_schema"
  "schema_of ''get_node_details'' = get_node_details_schema"
  "schema_of ''get_reference'' = get_reference_schema"
  "schema_of ''database_health_check'' = database_health_check_schema"
  "schema_of ''get_query_history'' = get_query_history_schema"
  "schema_of ''recommend_indexes'' = recommend_indexes_schema"
  "schema_of ''get_dataset_statistics'' = get_dataset_statistics_schema"
  "schema_of ''list_running_queries'' = list_running_queries_schema"
  "schema_of ''profile_query'' = profile_query_schema"
  using every_schema unfolding output_schemas_def list.pred_inject prod.case by - (elim conjE, assumption)+

lemma conforms_bool [conform]: "conforms bool_schema (JBool b)"
  by (auto simp: conforms_leaf)

section \<open>The tools\<close>

lemma list_dataverses_typed: "yields (typed_answer ''list_dataverses'') (run_list_dataverses c s u)"
  unfolding run_list_dataverses_def Let_def
  by (intro yields_intro typed_error yields_bind_any yields_return typed_ok [OF advertised(3) [unfolded list_dataverses_schema_def]])
    (simp_all add: conform)

lemma list_datasets_typed: "yields (typed_answer ''list_datasets'') (run_list_datasets c s u filter_arg offset limit)"
  unfolding run_list_datasets_def Let_def case_prod_unfold
  by (intro yields_intro typed_error yields_bind_any yields_return typed_ok [OF advertised(4) [unfolded list_datasets_schema_def]])
    (simp_all add: conform opt_str_def split: option.split)

lemma describe_typed: "yields (typed_answer ''describe_dataverse'') (run_describe_dataverse c s u dataverse)"
  unfolding run_describe_dataverse_def Let_def case_prod_unfold
  by (intro yields_intro typed_error yields_bind_any yields_return typed_ok [OF advertised(5) [unfolded describe_dataverse_schema_def]])
    (simp_all add: conform)

lemma search_metadata_typed: "yields (typed_answer ''search_metadata'') (run_search_metadata c s u query limit)"
  unfolding run_search_metadata_def Let_def
  by (intro yields_if typed_error yields_bind_any yields_return typed_ok [OF advertised(20) [unfolded search_metadata_schema_def]])
    (auto simp: conform case_prod_unfold list_all_iff)

lemma list_functions_typed:
  "yields (typed_answer ''list_functions'') (run_list_functions c s u1 u2 language category name_contains offset limit)"
  unfolding run_list_functions_def unknown_value_def Let_def
  by (intro yields_if yields_option yields_catch typed_error yields_bind_any yields_return
      typed_ok [OF advertised(15) [unfolded list_functions_schema_def]])
    (simp_all add: conform)

lemma health_typed: "yields (typed_answer ''database_health_check'') (run_database_health_check c s u dataverse)"
  unfolding run_database_health_check_def Let_def case_prod_unfold
  by (intro yields_intro typed_error yields_bind_any yields_return typed_ok [OF advertised(24) [unfolded database_health_check_schema_def]])
    (simp_all add: conform opt_str_def split: option.split)

lemma node_typed: "yields (typed_answer ''get_node_details'') (run_get_node_details c s node)"
  unfolding run_get_node_details_def Let_def
  by (intro yields_if yields_bind_any yields_return)
    (auto simp: conform split: sum.split intro!: typed_ok [OF advertised(22) [unfolded get_node_details_schema_def]])

lemma status_typed: "yields (typed_answer ''get_cluster_status'') (run_get_cluster_status c)"
  unfolding run_get_cluster_status_def Let_def case_prod_unfold
  by (intro yields_intro typed_error yields_bind_any yields_return typed_ok [OF advertised(21) [unfolded get_cluster_status_schema_def]])
    (simp_all add: conform)

lemma running_typed: "yields (typed_answer ''list_running_queries'') (run_list_running_queries c statements)"
  unfolding run_list_running_queries_def Let_def
  by (intro yields_catch yields_bind_any yields_return typed_error typed_ok [OF advertised(28) [unfolded list_running_queries_schema_def]])
    (simp_all add: conform list_all_iff)

lemma compiled_typed:
  "(\<And>e. typed_answer name (on_error e)) \<Longrightarrow> (\<And>v. yields (typed_answer name) (continue_with v)) \<Longrightarrow>
   yields (typed_answer name) (compiled_or c statement a on_error continue_with)"
  unfolding compiled_or_def
  by (intro yields_bind_any) (auto intro!: yields_bind_any yields_return split: sum.split option.split simp del: io_run)

lemma validate_typed: "yields (typed_answer ''validate_syntax'') (run_validate_syntax c s a u)"
  unfolding run_validate_syntax_def invalid_result_def
  by (intro compiled_typed yields_return typed_ok [OF advertised(11) [unfolded validate_syntax_schema_def]]) (auto simp: conform)

lemma explain_typed: "yields (typed_answer ''explain_query'') (run_explain_query c s a u)"
  unfolding run_explain_query_def explain_result_def hints_payload_def Let_def
  by (intro compiled_typed yields_return typed_error)
    (auto simp: conform split: option.split intro!: typed_ok [OF advertised(12) [unfolded explain_query_schema_def]])

lemma physical_typed: "yields (typed_answer ''explain_physical_plan'') (run_explain_physical_plan c s a u)"
  unfolding run_explain_physical_plan_def
  by (intro compiled_typed yields_return typed_error)
    (auto simp: conform split: option.split intro!: typed_ok [OF advertised(13) [unfolded explain_physical_plan_schema_def]])

lemma profile_typed: "yields (typed_answer ''profile_query'') (run_profile_query c s a most u)"
proof -
  have counters: "conforms (obj_schema [(''operatorCount'', int_schema), (''operators'', array_of_objects), (''jobId'', string_schema)] [] [])
      (JDict (profile_dict p))" for p
    by (rule conforms_object) (auto simp: profile_dict_def conform split: option.split)
  show ?thesis
    unfolding run_profile_query_def profile_result_def Let_def
    by (intro yields_option yields_return yields_catch yields_bind_any typed_error)
      (auto simp: conform counters split: option.split intro!: typed_ok [OF advertised(29) [unfolded profile_query_schema_def]])
qed

lemma function_typed: "yields (typed_answer ''get_function'') (run_get_function c s u1 u2 name dataverse user_tag)"
proof -
  have udf: "yields (typed_answer ''get_function'') (get_udf c s u2 n dataverse user_tag)" for n
    unfolding get_udf_def udf_detail_def Let_def
    by (intro tool_try_yields yields_bind_any yields_return typed_error)
      (auto simp: conform split: list.split option.split intro!: typed_ok [OF advertised(16) [unfolded get_function_schema_def]])
  have builtin: "yields (\<lambda>found. \<forall>r. found = Some r \<longrightarrow> typed_answer ''get_function'' r) (get_builtin_live c s u1 n)" for n
    unfolding get_builtin_live_def Let_def
    by (intro yields_bind_any yields_option yields_return)
      (auto simp: conform split: option.split intro!: typed_ok [OF advertised(16) [unfolded get_function_schema_def]])
  show ?thesis
    unfolding run_get_function_def Let_def
    by (intro yields_if yields_return typed_error yields_bind [where R = "\<lambda>found. \<forall>r. found = Some r \<longrightarrow> typed_answer ''get_function'' r"])
      (auto simp del: io_run intro!: builtin udf yields_return split: option.split)
qed

lemma preference_typed:
  "yields (typed_answer ''remember_preference'') (run_remember_preference now c s u text_arg scope_arg author)"
  unfolding run_remember_preference_def preference_result_def Let_def
  by (intro yields_option yields_catch yields_if yields_return yields_bind_any typed_error)
    (auto simp: conform preference_row_def row_id_def intro!: typed_ok [OF advertised(19) [unfolded remember_preference_schema_def]])

lemma submit_typed: "yields (\<lambda>out. typed_answer ''submit_async_query'' (fst out)) (run_submit_async_query env c s p a al)"
  unfolding run_submit_async_query_def submitted_result_def Let_def case_prod_unfold
  by (intro yields_option yields_return yields_catch yields_bind_any)
    (auto simp: conform split: option.split intro!: typed_ok [OF advertised(7) [unfolded submit_async_query_schema_def]])

lemma fetch_typed:
  "yields (\<lambda>out. typed_answer ''fetch_query_result'' (fst out)) (run_fetch_query_result env now c s ccid offset most fmt al d)"
proof -
  have "typed_answer ''fetch_query_result'' (fst (fetched_result env s entry ccid o' m' fmt envelope d))" for entry o' m' envelope
    unfolding fetched_result_def Let_def case_prod_unfold fst_conv
    by (rule typed_ok [OF advertised(9) [unfolded fetch_query_result_schema_def]]) (auto simp: conform split: option.split)
  then show ?thesis
    unfolding run_fetch_query_result_def case_prod_unfold
    by (auto simp del: io_run split: option.split sum.split intro!: yields_bind_any yields_return)
qed

lemma statistics_typed:
  "yields (typed_answer ''get_dataset_statistics'') (run_get_dataset_statistics c s u dataverse dataset user_tag)"
  unfolding run_get_dataset_statistics_def Let_def
  by (intro yields_if yields_bind_any yields_return typed_error)
    (auto simp: conform split: option.split intro!: typed_ok [OF advertised(27) [unfolded get_dataset_statistics_schema_def]])

lemma advice_typed:
  "yields (typed_answer ''recommend_indexes'') (run_recommend_indexes c s uuids statements dataverse user_tag)"
  unfolding run_recommend_indexes_def advice_result_def Let_def
  by (intro yields_if yields_bind_any yields_return typed_error typed_ok [OF advertised(26) [unfolded recommend_indexes_schema_def]])
    (simp_all add: conform opt_str_def split: option.split)

lemma search_typed:
  "yields (typed_answer ''memory_search'') (run_memory_search c s u query subject dataverse limit follow hops)"
  unfolding run_memory_search_def search_result_def Let_def
  by (intro yields_option yields_if yields_bind_any yields_return typed_error)
    (auto simp: conform opt_str_def split: option.split intro!: typed_ok [OF advertised(17) [unfolded memory_search_schema_def]])

lemma history_typed: "typed_answer ''get_query_history'' (fst (run_get_query_history now most failures_only al))"
  unfolding run_get_query_history_def Let_def case_prod_unfold fst_conv
  by (rule typed_ok [OF advertised(25) [unfolded get_query_history_schema_def]]) (simp_all add: conform)

lemma cancel_typed: "yields (\<lambda>out. typed_answer ''cancel_query'' (fst out)) (run_cancel_query c s ccid al)"
  unfolding run_cancel_query_def
  by (intro yields_option yields_catch yields_bind_any yields_return)
    (auto simp: conform intro!: typed_ok [OF advertised(10) [unfolded cancel_query_schema_def]])

lemma schema_typed: "yields (typed_answer ''get_schema'') (run_get_schema ck c s u dataverse dataset)"
proof -
  have format: "conforms (obj_schema [(''format'', string_schema)] [] []) (JDict (extract_dataset_format_info r))" for r
    by (rule conforms_object) (auto simp: extract_dataset_format_info_def conform)
  show ?thesis
    unfolding run_get_schema_def schema_document_def Let_def case_prod_unfold
    by (intro tool_try_yields typed_error yields_if yields_return yields_bind_any)
      (auto simp: conform format intro!: typed_ok [OF advertised(2) [unfolded get_schema_schema_def]])
qed

section \<open>Notes that are attached\<close>

lemma fields_conform_set:
  "fields_conform properties d \<Longrightarrow> (case map_of properties k of None \<Rightarrow> True | Some sch \<Rightarrow> conforms sch v) \<Longrightarrow>
   fields_conform properties (dict_set k v d)"
  by (induction d) (auto simp: conform)

lemma fields_conform_unset: "map_of properties k = None \<Longrightarrow> fields_conform properties (dict_set k v d) = fields_conform properties d"
  by (induction d) (auto simp: conform)

lemma typed_with_notes:
  assumes "schema_of name = obj_schema properties required description" and "distinct (map fst properties)"
    and "fields_conform (copied name) d \<Longrightarrow> fields_conform properties d" and "list_all (\<lambda>k. k \<in> fst ` set d) required"
    and "map_of properties ''learnedNotes'' = Some array_of_objects"
    and "map_of properties ''staleNotes'' = Some (JDict [(''type'', JStr ''array''), (''items'', string_schema)])"
    and "map_of (copied name) ''learnedNotes'' = None" and "map_of (copied name) ''staleNotes'' = None"
  shows "typed_answer name (with_notes learned contradictions (tool_ok text_arg d))"
proof (cases "learned = [] \<and> contradictions = []")
  case True
  then show ?thesis using typed_ok [OF assms(1-4)] by (simp add: with_notes_def)
next
  case False
  let ?d = "tr_structured (with_notes learned contradictions (tool_ok text_arg d))"
  have "fields_conform (copied name) ?d \<Longrightarrow> fields_conform properties ?d"
    using assms by (auto simp: with_notes_def tool_ok_def Let_def fields_conform_unset conform list_all_iff
        intro!: fields_conform_set)
  moreover have "fst ` set d \<subseteq> fst ` set ?d"
    by (auto simp: with_notes_def tool_ok_def Let_def dom_update)
  then have "list_all (\<lambda>k. k \<in> fst ` set ?d) required" using assms(4) by (auto simp: list_all_iff)
  ultimately show ?thesis using conforms_object [OF assms(2)] by (auto simp: typed_answer_def assms(1))
qed

lemma attach_yields_notes:
  "yields (\<lambda>out. \<exists>learned contradictions. fst out = with_notes learned contradictions r)
     (attach_statement_notes ck c ccid statement r recall first_use_only s dataverse)"
proof -
  have "with_notes [] [] r = r" by (simp add: with_notes_def)
  then have "yields (\<lambda>out. \<exists>learned contradictions. fst out = with_notes learned contradictions r) (io_return (r, recall))"
    by (intro yields_return exI [where x = "[]"]) simp
  moreover have "yields (\<lambda>out. \<exists>learned contradictions. fst out = with_notes learned contradictions r)
      (io_return (with_notes learned contradictions r, re))" for learned contradictions and re :: "recall_state option"
    by (intro yields_return exI [where x = learned] exI [where x = contradictions]) simp
  ultimately show ?thesis
    unfolding attach_statement_notes_def Let_def case_prod_unfold
    by (intro yields_if yields_bind_any yields_option)
qed

lemma execute_typed: "yields (\<lambda>out. typed_answer ''execute_query'' (fst out)) (run_execute_query env c s a recall d)"
proof -
  have window: "yields (\<lambda>out. typed_answer ''execute_query'' (fst out)) (attach_statement_notes ck c ccid statement
      (fst (shape_result aenv s a i advisory envelope d)) re first dv_s dv)" for ck ccid statement aenv i advisory envelope re first dv_s dv
  proof (rule yields_mono [OF attach_yields_notes])
    fix out :: "tool_result \<times> recall_state option"
    define shaped where "shaped = fst (shape_result aenv s a i advisory envelope d)"
    have base: "typed_answer ''execute_query'' (with_notes learned contradictions shaped)" for learned contradictions
      unfolding shaped_def shape_result_def optional_fields_of_def Let_def case_prod_unfold fst_conv
      by (rule typed_with_notes [OF advertised(1) [unfolded execute_query_schema_def]]; auto simp: conform split: option.split)
    assume "\<exists>learned contradictions. fst out = with_notes learned contradictions (fst (shape_result aenv s a i advisory envelope d))"
    then show "typed_answer ''execute_query'' (fst out)" using base unfolding shaped_def by auto
  qed
  have failure: "yields (\<lambda>out. typed_answer ''execute_query'' (fst out)) (attach_statement_notes ck c ccid statement (tool_error e) re first dv_s dv)"
    for ck ccid statement e re first dv_s dv
    by (rule yields_mono [OF attach_yields_notes]) (auto simp: typed_answer_def tool_error_def with_notes_def Let_def)
  show ?thesis
    unfolding run_execute_query_def Let_def case_prod_unfold
    by (intro yields_option yields_return yields_bind_any)
      (auto split: sum.split simp del: io_run intro!: yields_bind_any yields_return yields_bind [OF window] yields_bind [OF failure])
qed

lemma sample_typed:
  "yields (\<lambda>out. typed_answer ''sample_dataset'' (fst out)) (run_sample_dataset env c s u dataverse dataset n fmt recall d)"
  unfolding run_sample_dataset_def Let_def case_prod_unfold
  by (intro yields_bind_any) (auto split: sum.split simp: conform list_all_iff simp del: io_run intro!: yields_bind_any yields_return
      yields_if typed_ok [OF advertised(6) [unfolded sample_dataset_schema_def]])

lemma finish_typed:
  "yields (\<lambda>out. typed_answer ''wait_on_async_query'' (fst out)) (finish_wait env c s al entry client_name cap outcome)"
  unfolding finish_wait_def
  by (cases outcome) (auto simp: terminal_result_def still_running_result_def finished_result_def Let_def conform ex_bool_eq simp del: io_run
      intro!: yields_bind_any yields_return typed_ok [OF advertised(8) [unfolded wait_on_async_query_schema_def]])

lemma reconciled_id:
  assumes "reconcile existing subject note now links tags sq replaces = (action, row, retired)" and "action \<noteq> ''unchanged''"
  shows "dget ''id'' (with_author author action row) = JStr (subject @ ''@'' @ now)"
proof -
  have other: "''id'' \<notin> fst ` set (fresh_fields now @ optional_fields links tags sq)"
    using optional_keys [of links tags sq] by (auto simp: fresh_fields_def)
  have merged: "map_of (dict_merge e (fresh_fields now @ optional_fields links tags sq)) ''id'' = map_of e ''id''" for e
    by (rule map_of_dict_merge_notin [OF other])
  have "map_of row ''id'' = Some (row_id subject now)"
    using assms overlay_row_fields(2)
    by (auto simp: reconcile_def reconcile_walk_def Let_def case_prod_unfold merged simp del: map_of_dict_merge
        split: option.splits if_splits)
  then show ?thesis by (simp add: with_author_def dget_def row_id_def)
qed

lemma reconciled_row_id:
  "fst (reconcile existing subject note now links tags sq replaces) \<noteq> ''unchanged'' \<Longrightarrow>
   \<exists>i. dget ''id'' (with_author author (fst (reconcile existing subject note now links tags sq replaces))
     (fst (snd (reconcile existing subject note now links tags sq replaces)))) = JStr i"
  by (cases "reconcile existing subject note now links tags sq replaces") (auto dest: reconciled_id)

lemma write_typed:
  "yields (typed_answer ''memory_write'') (run_memory_write ck c s u subject text_arg links tags source_query replaces author)"
proof -
  have leaf: "typed_answer ''memory_write'' (duplicate_result a b o' g)" "typed_answer ''memory_write'' (unchanged_result a o')"
    "typed_answer ''memory_write'' (written_result action a o' row retired sq conflicts)" if "\<exists>i. dget ''id'' row = JStr i"
    for a b o' g action row retired sq conflicts
    using that unfolding duplicate_result_def unchanged_result_def written_result_def canonicalized_field_def Let_def
    by (intro typed_ok [OF advertised(18) [unfolded memory_write_schema_def]]; auto simp: conform dom_update intro!: fields_conform_set)+
  have plain: "typed_answer ''memory_write'' (duplicate_result a b o' g)" "typed_answer ''memory_write'' (unchanged_result a o')"
    for a b o' g using leaf(1,2) [of "[(''id'', JStr [])]"] by simp_all
  show ?thesis
    unfolding run_memory_write_def write_note_def Let_def case_prod_unfold
    by (intro yields_option yields_return typed_error yields_bind_any yields_catch yields_if plain leaf(3) reconciled_row_id)
qed

lemma reference_fields:
  "list_all (\<lambda>r. list_all (\<lambda>p. fst p \<notin> {''status'', ''topic'', ''topics'', ''all''}) (snd r)) readers"
  by code_simp

lemma reference_typed: "lower (strip topic) \<noteq> ''all'' \<Longrightarrow> typed_answer ''get_reference'' (run_get_reference topic)"
proof -
  let ?props = "[(''status'', string_schema), (''topic'', string_schema), (''topics'', object_schema), (''all'', bool_schema)]"
  have payload: "list_all (\<lambda>p. map_of ?props (fst p) = None) d" if "map_of readers k = Some d" for k d
    using reference_fields map_of_SomeD [OF that] by (auto simp: list_all_iff split: if_splits)
  have merged: "fields_conform ?props (dict_merge base d)"
    if "fields_conform ?props base" "list_all (\<lambda>p. map_of ?props (fst p) = None) d" for base d
    using that by (induction d arbitrary: base) (auto simp: fields_conform_unset simp del: map_of.simps)
  assume "lower (strip topic) \<noteq> ''all''"
  then show ?thesis
    unfolding run_get_reference_def Let_def
    by (auto split: option.split intro!: typed_ok [OF advertised(23) [unfolded get_reference_schema_def]] merged payload simp: conform)
qed

end
