(* ===== verification/Served_Types.thy ===== *)
theory Served_Types
  imports Result_Types Server_State
begin

text \<open>
  The replies of the server are typed: the lemmas of the tools carried through the dispatch, and
  the two tools whose successful replies break the schema that is advertised for them.
\<close>

section \<open>Replies\<close>

definition typed_reply :: "string \<Rightarrow> call_result \<Rightarrow> bool" where
  "typed_reply name reply \<longleftrightarrow>
     (if cr_is_error reply then cr_structured reply = None
      else \<exists>d. cr_structured reply = Some d
        \<and> (fields_conform (copied name) d \<longrightarrow> conforms (schema_of name) (JDict d)))"

lemma reply_typed: "typed_answer name r \<Longrightarrow> yields (\<lambda>out. typed_reply name (fst out)) (reply_with r st)"
  unfolding reply_with_def
  by (intro yields_bind [where R = "typed_reply name"] yields_lift yields_return)
    (auto simp: typed_reply_def typed_answer_def reply_fields)

lemma plain_typed: "yields (typed_answer name) m \<Longrightarrow> yields (\<lambda>out. typed_reply name (fst out)) (plain_tool m st)"
  unfolding plain_tool_def by (erule yields_bind) (rule reply_typed)

lemma briefing_keeps:
  "yields (\<lambda>out. tr_structured (fst out) = tr_structured r \<and> tr_is_error (fst out) = tr_is_error r)
     (maybe_attach_briefing c s u delivered r)"
  unfolding maybe_attach_briefing_def by (intro yields_if yields_bind_any yields_return) auto

lemma briefed_typed:
  assumes "yields (typed_answer name) m"
  shows "yields (\<lambda>out. typed_reply name (fst out)) (briefed_tool env gw m st)"
proof -
  have "yields (\<lambda>out. typed_reply name (fst out)) (io_bind (maybe_attach_briefing c s u delivered r)
      (\<lambda>(r', briefed). reply_with r' (k briefed)))" if "typed_answer name r" for c s u delivered r k
    by (rule yields_bind [OF briefing_keeps]) (use that in \<open>auto simp: typed_answer_def case_prod_unfold intro!: reply_typed\<close>)
  then show ?thesis unfolding briefed_tool_def Let_def by (intro yields_bind [OF assms])
qed

section \<open>Dispatch\<close>

lemma served_typed:
  assumes "serve_at_once env gw call st = Some m" and "tool_name call \<noteq> ''check_index_usage''"
    and "\<forall>topic. call = Get_Reference topic \<longrightarrow> lower (strip topic) \<noteq> ''all''"
  shows "yields (\<lambda>out. typed_reply (tool_name call) (fst out)) m"
proof -
  have execute: "yields (\<lambda>out. typed_reply ''execute_query'' (fst out)) (serve_execute_query env gw a st)" for a
    unfolding serve_execute_query_def permitted_execution_def under_permit_def Let_def case_prod_unfold
    by (intro yields_bind [where R = "\<lambda>out. typed_answer ''execute_query'' (fst out)"] yields_catch yields_bind_any reply_typed yields_return)
      (auto split: sum.split simp del: io_run intro: execute_typed yields_raise)
  have sample: "yields (\<lambda>out. typed_reply ''sample_dataset'' (fst out)) (serve_sample_dataset env gw dv ds n fmt st)" for dv ds n fmt
    unfolding serve_sample_dataset_def Let_def case_prod_unfold
    by (rule yields_bind [OF sample_typed]) (rule reply_typed)
  have submit: "yields (\<lambda>out. typed_reply ''submit_async_query'' (fst out)) (serve_submit_async_query env gw a st)" for a
    unfolding serve_submit_async_query_def case_prod_unfold by (rule yields_bind [OF submit_typed]) (rule reply_typed)
  have fetch: "yields (\<lambda>out. typed_reply ''fetch_query_result'' (fst out)) (serve_fetch_query_result env gw ccid offset limit fmt st)"
    for ccid offset limit fmt
    unfolding serve_fetch_query_result_def case_prod_unfold by (rule yields_bind [OF fetch_typed]) (rule reply_typed)
  have cancel: "yields (\<lambda>out. typed_reply ''cancel_query'' (fst out)) (serve_cancel_query env gw ccid st)" for ccid
    unfolding serve_cancel_query_def case_prod_unfold by (rule yields_bind [OF cancel_typed]) (rule reply_typed)
  have history: "yields (\<lambda>out. typed_reply ''get_query_history'' (fst out)) (serve_get_query_history env limit failures_only st)"
    for limit failures_only
    unfolding serve_get_query_history_def case_prod_unfold by (rule reply_typed) (rule history_typed)
  have profile: "yields (\<lambda>out. typed_reply ''profile_query'' (fst out)) (serve_profile_query env gw statement dv limit st)"
    for statement dv limit
    unfolding serve_profile_query_def under_permit_def
    by (intro plain_typed yields_catch yields_return typed_error) (auto split: sum.split intro: profile_typed yields_raise)
  note discovery = serve_get_schema_def serve_list_dataverses_def serve_list_datasets_def serve_describe_dataverse_def
    serve_memory_write_def
  show ?thesis
    using assms by (cases call)
      (auto simp: serve_at_once_def thin_tools discovery intro: execute sample submit fetch cancel history profile
        briefed_typed schema_typed list_dataverses_typed list_datasets_typed plain_typed describe_typed validate_typed
        explain_typed physical_typed list_functions_typed function_typed search_typed write_typed preference_typed
        search_metadata_typed status_typed node_typed reply_typed reference_typed health_typed advice_typed
        statistics_typed running_typed)
qed

lemma run_wait_typed:
  assumes "run_wait_on_async_query env c s p ccid timeout_ms client_name al cap t = Some (Inr out, t')"
  shows "typed_answer ''wait_on_async_query'' (fst out)"
proof (cases "check_ownership s ccid")
  case (Some e)
  then show ?thesis using assms by (auto simp: run_wait_on_async_query_def)
next
  case None
  obtain found al1 where got: "audit_get (ay_now env) ccid al = (found, al1)" by fastforce
  show ?thesis
  proof (cases "\<exists>entry handle. found = Some entry \<and> ae_handle entry = Some handle
      \<and> (\<exists>q. take_permit p (permit_holder (cc_principal c)) = Inr q)")
    case False
    then show ?thesis using assms None got
      by (auto simp: run_wait_on_async_query_def split: option.splits sum.splits)
  next
    case True
    then obtain entry handle polled t1 where fin: "io_catch (io_bind (io_lift polled) (finish_wait env c s al1 entry client_name cap))
                (\<lambda>e. io_return (tool_error e, al1, cap)) t1 = (Inr out, t')"
      using assms None got by (auto simp: run_wait_on_async_query_def split: sum.splits)
    have "yields (\<lambda>out. typed_answer ''wait_on_async_query'' (fst out))
        (io_catch (io_bind (io_lift polled) (finish_wait env c s al1 entry client_name cap)) (\<lambda>e. io_return (tool_error e, al1, cap)))"
      by (intro yields_catch yields_bind_any finish_typed yields_return) simp
    from yieldsD [OF this fin] show ?thesis .
  qed
qed

lemma wait_typed:
  assumes "serve_wait_on_async_query env gw ccid timeout_ms st t = Some (Inr out, t')"
  shows "typed_reply ''wait_on_async_query'' (fst out)"
proof -
  let ?p = "sc_state (call_scope env gw st)"
  let ?k = "\<lambda>(r, al, cap). case cap of None \<Rightarrow> reply_with r (looked_up env gw (st\<lparr>sv_audit := al\<rparr>))
      | Some (capture, events) \<Rightarrow>
          reply_with r (keep_scope env gw (?p\<lparr>ps_capture := capture\<rparr>) (st\<lparr>sv_audit := al, sv_events := events\<rparr>))"
  obtain outcome t1 where
    w: "run_wait_on_async_query (async_env_of env) (call_client env gw st) (gw_settings gw) (pools_waits (ce_pools env)) ccid
          timeout_ms (client_identity (ce_client_info env)) (sv_audit st) (Some (ps_capture ?p, sv_events st)) t = Some (outcome, t1)"
    and k: "io_bind (io_lift outcome) ?k t1 = (Inr out, t')"
    using assms unfolding serve_wait_on_async_query_def Let_def by (auto simp only: map_option_eq_Some split_paired_Ex prod.case)
  then obtain r al cap where finished: "outcome = Inr (r, al, cap)" and reply: "?k (r, al, cap) t1 = (Inr out, t')"
    by (cases outcome) auto
  have "typed_answer ''wait_on_async_query'' r" using run_wait_typed w finished by fastforce
  then have "yields (\<lambda>out. typed_reply ''wait_on_async_query'' (fst out)) (?k (r, al, cap))"
    by (auto intro!: reply_typed split: option.split)
  from yieldsD [OF this reply] show ?thesis .
qed

section \<open>The two exceptions\<close>

text \<open>
  \<open>check_index_usage\<close> answers with the list of the analysed data sets where its schema has an
  integer, and the request for all reference topics with a list where the schema has an object.
\<close>

lemma conforms_field:
  assumes "conforms (obj_schema props req descr) (JDict d)" and "map_of props k = Some s" and "map_of d k = Some v"
  shows "conforms s v"
proof -
  have "property_schemas (obj_schema props req descr) = props"
    by (simp add: obj_schema_def property_schemas_def dict_or_empty_def)
  then show ?thesis using assms map_of_SomeD [OF assms(2)] by (subst (asm) conforms.simps) fastforce
qed

lemma index_usage_untyped:
  "yields (\<lambda>r. tr_is_error r \<or> \<not> conforms (schema_of ''check_index_usage'') (JDict (tr_structured r)))
     (run_check_index_usage c s a new_uuid)"
proof -
  have "\<not> conforms (schema_of ''check_index_usage'') (JDict (tr_structured (usage_result parsed plans datasets records)))"
    for parsed plans datasets records
    unfolding usage_result_def Let_def advertised check_index_usage_schema_def tool_ok_def
    by (auto dest: conforms_field [where k = "''datasetsAnalyzed''"] simp: conform)
  then show ?thesis
    unfolding run_check_index_usage_def Let_def analyze_usage_def compiled_or_def
    by (auto intro!: yields_return yields_bind_any yields_option yields_catch simp: tool_error_def simp del: io_run
        split: option.split sum.split)
qed

lemma all_topics_untyped:
  "conforms (schema_of ''get_reference'') (JDict (tr_structured (run_get_reference ''all''))) \<longleftrightarrow> False"
proof -
  have "lower (strip ''all'') = ''all''" by code_simp
  then have "map_of (tr_structured (run_get_reference ''all'')) ''topics'' = Some (JList (map (\<lambda>r. JDict (snd r)) readers))"
    by (simp add: run_get_reference_def tool_ok_def)
  then show ?thesis
    unfolding advertised get_reference_schema_def
    by (auto dest: conforms_field [where k = "''topics''"] simp: conform)
qed

section \<open>Every reply\<close>

lemma topics_stay: "topic \<in> set reference_topics \<Longrightarrow> lower (strip topic) = topic"
proof -
  have "list_all (\<lambda>topic. lower (strip topic) = topic) reference_topics" by code_simp
  then show "topic \<in> set reference_topics \<Longrightarrow> lower (strip topic) = topic" by (simp add: list_all_iff)
qed

text \<open>
  C5. Replies have the type the server advertises. Whatever tool is called in whatever state and
  whatever the cluster answers, a reply that reports an error carries no structured content, and a
  successful one carries an object that conforms to the output schema advertised for the tool,
  provided the few fields that are copied from the cluster as they are (\<open>copied\<close>) do. The
  exceptions are \<open>check_index_usage\<close> and the request for all reference topics.
\<close>

theorem served_replies_typed:
  assumes "serve env gw call st t = Some (Inr (reply, st'), t')"
    and "tool_name call \<noteq> ''check_index_usage''" and "call \<noteq> Get_Reference ''all''"
  shows "if cr_is_error reply then cr_structured reply = None
    else \<exists>d. cr_structured reply = Some d
      \<and> (fields_conform (copied (tool_name call)) d \<longrightarrow> conforms (schema_of (tool_name call)) (JDict d))"
proof -
  have run: "tool_name call \<in> set (registered_tools (gw_settings gw))" "call_accepted call"
    using assms(1) by (auto simp: serve_def split: if_splits)
  have "typed_reply (tool_name call) reply"
  proof (cases "serve_at_once env gw call st")
    case (Some m)
    then have "m t = (Inr (reply, st'), t')" using assms(1) run by (simp add: serve_def)
    moreover have "lower (strip topic) \<noteq> ''all''" if "call = Get_Reference topic" for topic
      using run(2) assms(3) topics_stay [of topic] that by auto
    ultimately show ?thesis using yieldsD [OF served_typed [OF Some assms(2)]] by fastforce
  next
    case None
    then obtain ccid timeout_ms where call: "call = Wait_On_Async_Query ccid timeout_ms"
      by (cases call) (auto simp: serve_at_once_def thin_tools)
    then show ?thesis using assms(1) run None wait_typed by (fastforce simp: serve_def)
  qed
  then show ?thesis by (simp add: typed_reply_def)
qed

lemma served_replies_typed_witness:
  "\<exists>reply st' t'. serve (quiet_env 1 ''alice'' 1) (quiet_gateway default_settings) orders_call (started default_settings) []
       = Some (Inr (reply, st'), t')
     \<and> (if cr_is_error reply then cr_structured reply = None
        else \<exists>d. cr_structured reply = Some d
          \<and> (fields_conform (copied ''execute_query'') d \<longrightarrow> conforms (schema_of ''execute_query'') (JDict d)))"
proof -
  obtain reply st' t' where "serve_execute_query (quiet_env 1 ''alice'' 1) (quiet_gateway default_settings) orders_query
      (started default_settings) [] = (Inr (reply, st'), t')"
    using full_call_answered [of default_settings] by blast
  then have served: "serve (quiet_env 1 ''alice'' 1) (quiet_gateway default_settings) orders_call (started default_settings) []
      = Some (Inr (reply, st'), t')"
    by (simp add: serve_orders)
  have "tool_name orders_call = ''execute_query''" "orders_call \<noteq> Get_Reference ''all''" by (simp_all add: orders_call_def)
  with served_replies_typed [OF served] served show ?thesis by fastforce
qed

end
