(* ===== verification/Tool_Descriptions.thy ===== *)
theory Tool_Descriptions
  imports Gateway_Server
begin

text \<open>
  The texts a client is steered by (\<open>server.py\<close>): the description of every tool and the
  instructions of the server, with the dash of the source as one character. What they tell a model
  to call can be compared with what the server accepts.
\<close>

section \<open>Texts\<close>

definition execute_query_description :: string where
  "execute_query_description =
     ''Execute a read-only SQL++ query against Apache AsterixDB SYNCHRONOUSLY.'' @ [CHR 0x0A] @ [CHR 0x0A]
     @ ''CRITICAL RULES:'' @ [CHR 0x0A]
     @ ''1. You MUST include a LIMIT clause in every SELECT query. Start with LIMIT 20 and increase ''
     @ ''only if the user explicitly requests more data. Queries without LIMIT may be terminated by ''
     @ ''the server.'' @ [CHR 0x0A]
     @ ''2. This tool is READ-ONLY. All INSERT, UPSERT, DELETE, DROP, CREATE, and LOAD statements will ''
     @ ''be rejected by the database.'' @ [CHR 0x0A]
     @ ''3. Qualify dataset references with their Dataverse name (e.g. `MyDataverse.MyDataset`) unless ''
     @ ''you set the default Dataverse via the `dataverse` parameter.'' @ [CHR 0x0A]
     @ ''4. AsterixDB uses SQL++. Use backticks for reserved-word identifiers, `VALUE` for single-expression ''
     @ ''SELECT, dot-notation for nested fields.'' @ [CHR 0x0A]
     @ ''5. STORAGE FORMAT AWARENESS: call get_schema first. If `datasetFormatInfo.format` is COLUMNAR, ''
     @ ''never write SELECT *; always project explicit fields.'' @ [CHR 0x0A]
     @ ''6. FIELD NAMES: before referencing ANY field in SELECT, WHERE, JOIN, or GROUP BY, call get_schema ''
     @ ''(or describe_dataverse) and copy field names with their EXACT casing. Do not guess or normalize ''
     @ ''casing '' @ em_dash
     @ '' AsterixDB uses the stored name verbatim (e.g. it may be snake_case, not camelCase). A JOIN ''
     @ ''or filter on a misspelled field does NOT error: the field reads as MISSING, and `MISSING = ''
     @ ''MISSING` never matches, so the query silently returns 0 rows. If a query that should match ''
     @ ''returns 0 rows, re-check field names against get_schema before changing anything else.'' @ [CHR 0x0A]
     @ ''7. Do NOT prepend `SET ...` to the statement; pass tuning knobs via `compilerParameters`.'' @ [CHR 0x0A]
     @ ''8. CHECK BEFORE YOU RUN: if the statement is non-trivial (built-in functions you are not certain ''
     @ ''exist, nested or multiple aggregates, JOINs, GROUP BY), call validate_syntax first and fix ''
     @ ''until it returns `valid:true`. validate_syntax is compile-only and near-instant; do NOT use ''
     @ ''execute_query as a syntax checker. Note AsterixDB aggregate names: standard deviation is `STDDEV_SAMP`/`STDDEV_POP`, ''
     @ ''variance is `VAR_SAMP`/`VAR_POP` (there is no `STDEV`). Do not nest an aggregate inside another ''
     @ ''aggregate in the same SELECT.''"

definition get_schema_description :: string where
  "get_schema_description =
     ''Retrieve the declared schema for a SINGLE Dataset within a Dataverse: declared type, primary ''
     @ ''key, field definitions, secondary indexes, and `datasetFormatInfo` (ROW vs COLUMNAR storage). ''
     @ ''Call list_datasets first to discover names. ALWAYS read `datasetFormatInfo.format` before ''
     @ ''writing a SELECT. COLUMNAR datasets require explicit field projection.''"

definition list_dataverses_description :: string where
  "list_dataverses_description =
     ''List every dataverse (namespace) on the cluster. The top-level discovery primitive: call this ''
     @ ''FIRST to learn which dataverses exist before using list_datasets or get_schema. Takes no arguments.''"

definition list_datasets_description :: string where
  "list_datasets_description =
     ''List datasets, optionally scoped to one Dataverse, with offset/limit pagination. Returns a ''
     @ ''cheap summary per dataset (name, datatype, type, storage format). The discovery primitive: ''
     @ ''use it to find Dataset names to pass to get_schema.''"

definition analyze_dataverse_description :: string where
  "analyze_dataverse_description =
     ''Bootstrap a Dataverse exploration session with the dataset inventory, storage-format awareness ''
     @ ''rules, and the read-only safety contract embedded in context.''"

definition describe_dataverse_description :: string where
  "describe_dataverse_description =
     ''Return the full schema of every dataset in a Dataverse in a single call: declared fields, ''
     @ ''primary keys, secondary indexes, and storage format per dataset. Use this to understand or ''
     @ ''explain an entire Dataverse at once instead of calling get_schema repeatedly. The Dataverse ''
     @ ''name is resolved case-insensitively.''"

definition sample_dataset_description :: string where
  "sample_dataset_description =
     ''Retrieve a small sample of real documents from a dataset (a bounded SELECT VALUE ... LIMIT ''
     @ ''N). Use it before writing a filter to see how values are actually stored (encodings, casing, ''
     @ ''formats, units) and to discover undeclared fields on OPEN datasets. Declared types from get_schema ''
     @ ''are authoritative for known fields; sampling reveals the real values. Dataverse and dataset ''
     @ ''names are resolved case-insensitively.''"

definition submit_async_query_description :: string where
  "submit_async_query_description =
     ''Submit a read-only SQL++ query for ASYNCHRONOUS execution and return immediately with a `clientContextID` ''
     @ ''and a status `handle`. Use this for queries you expect to run long (large scans, heavy aggregations) ''
     @ ''instead of blocking on execute_query.'' @ [CHR 0x0A] @ [CHR 0x0A]
     @ ''ALL execute_query rules apply here too '' @ em_dash
     @ '' most importantly, call get_schema on every dataset you reference and copy field names with ''
     @ ''their EXACT casing BEFORE you write the query. A JOIN on a misspelled key silently returns '' @ ''0 rows.''
     @ [CHR 0x0A] @ [CHR 0x0A]
     @ ''CHECK BEFORE YOU SUBMIT: an async submission is expensive. If the statement is non-trivial ''
     @ ''(uncertain function names, nested/multiple aggregates, JOINs, GROUP BY), call validate_syntax ''
     @ ''first and fix until `valid:true` '' @ em_dash
     @ '' it is compile-only and near-instant. Do NOT use submit_async_query to discover syntax errors. ''
     @ ''AsterixDB standard deviation is `STDDEV_SAMP`/`STDDEV_POP` (no `STDEV`); never nest an aggregate ''
     @ ''inside another aggregate in the same SELECT.'' @ [CHR 0x0A] @ [CHR 0x0A]
     @ ''LIFECYCLE (you MUST complete it '' @ em_dash
     @ '' submitting alone is NOT an answer): 1) submit_async_query returns a `clientContextID` '' @ em_dash
     @ '' the ONE id for the whole lifecycle; 2) call wait_on_async_query with that clientContextID, ''
     @ ''and call it again while it returns `done:false`, until `done:true`; 3) call fetch_query_result ''
     @ ''with the SAME clientContextID and report the actual rows. Always pass the clientContextID ''
     @ ''back exactly as returned; never pass a URL or handle. Use cancel_query (same clientContextID) ''
     @ ''only to abort. Pass tuning knobs via `compilerParameters` (validated against asterixdb://config-parameters).''"

definition wait_on_async_query_description :: string where
  "wait_on_async_query_description =
     ''Long-poll a submitted query for up to `timeoutMs` milliseconds (bounded by the gateway). Pass ''
     @ ''the SAME `clientContextID` that submit_async_query returned '' @ em_dash
     @ '' not a URL or handle. Returns `done:true` when the query has succeeded (then call fetch_query_result ''
     @ ''with the same clientContextID), an error when it failed, or `done:false` if it is still running ''
     @ ''(call this again with the same clientContextID to keep waiting). Does not hold a database ''
     @ ''connection open across calls.''"

definition fetch_query_result_description :: string where
  "fetch_query_result_description =
     ''Fetch the rows of a completed async query. Pass the SAME `clientContextID` that submit_async_query ''
     @ ''returned. Supports offset/limit windowing. Call this only after wait_on_async_query has reported ''
     @ ''`done:true` for that clientContextID.''"

definition cancel_query_description :: string where
  "cancel_query_description =
     ''Cancel a still-running query by the same `clientContextID` that submit_async_query returned. ''
     @ ''Returns NOT_FOUND if the query already finished or was already cancelled.''"

definition validate_syntax_description :: string where
  "validate_syntax_description =
     ''Compile a SQL++ statement WITHOUT running it to check whether it is valid. Returns `valid:true` ''
     @ ''on success, or `valid:false` with an errorType that distinguishes a SYNTAX_ERROR (malformed ''
     @ ''SQL++) from a SEMANTIC_ERROR (unknown dataset/field, type mismatch). Use it to check a query ''
     @ ''cheaply before executing it.''"

definition explain_query_description :: string where
  "explain_query_description =
     ''Compile a SQL++ statement WITHOUT running it and return its optimized logical plan as a structured ''
     @ ''operator tree: operator kinds and counts, the datasets scanned, predicates, and plan depth. ''
     @ ''It also passes through any optimizer `warnings` and a directional `hints` block (full scans, ''
     @ ''broadcast joins) pointing at the SQL++ levers that address them '' @ em_dash
     @ '' see the query-hints reference topic. Use it to understand how a query will execute and which ''
     @ ''access paths it uses before paying to run it.''"

definition explain_physical_plan_description :: string where
  "explain_physical_plan_description =
     ''Compile a SQL++ statement WITHOUT running it and return its physical Hyracks job '' @ em_dash
     @ '' the runtime plan the cluster actually executes. Where `explain_query` shows the logical plan ''
     @ ''(what to compute), this shows HOW it runs: the operator DAG with kinds and counts, the connectors ''
     @ ''that move data between operators (which reveal hash repartition vs broadcast), and per-operator ''
     @ ''parallelism (partition counts). Use it to reason about data movement and cost before running ''
     @ ''a query. Read-only and compile-only; pass a complete statement and qualify names or set `dataverse`.''"

definition check_index_usage_description :: string where
  "check_index_usage_description =
     ''Analyze whether a SQL++ query uses the secondary indexes available on the datasets it touches. ''
     @ ''Compile-only and read-only: it returns `used` (indexes the optimized plan actually uses), ''
     @ ''`availableButUnused` (indexes that exist but the plan ignores), and `usesFullScan`. Use it ''
     @ ''to decide whether a slow query needs a different predicate or a new index. Pass a complete ''
     @ ''SELECT; qualify names or set `dataverse`.''"

definition list_functions_description :: string where
  "list_functions_description =
     ''List SQL++ functions '' @ em_dash @ '' both built-ins and user-defined functions (UDFs) '' @ em_dash
     @ '' so you never guess a function name. Built-ins are read live from the engine, so the list ''
     @ ''reflects the running version. Filter by `language` (INTERNAL = built-in, SQL++/JAVA/PYTHON ''
     @ ''= UDF), by `category` for built-ins (window, aggregate, aggregate-scalar, unnest, datasource, ''
     @ ''scalar), and/or a `nameContains` substring, with offset/limit paging. Use `category=window` ''
     @ ''to find window functions and `category=aggregate` for the SQL++ aggregates. Call this before ''
     @ ''using an unfamiliar function; the built-in standard-deviation aggregates are STDDEV_SAMP and ''
     @ ''STDDEV_POP (there is no STDEV).''"

definition get_function_description :: string where
  "get_function_description =
     ''Get one function'' @ [CHR 0x27]
     @ ''s details by `name`: a built-in returns its category and summary; a UDF (give its `dataverse`) ''
     @ ''returns its signature, return type, and body. External Java/Python UDFs are flagged because ''
     @ ''their body runs code on the cluster. Returns NOT_FOUND with guidance if the name is unknown '' @ em_dash
     @ '' call list_functions to discover exact names.''"

definition memory_search_description :: string where
  "memory_search_description =
     ''Search the agentic-memory store of OKF (Open Knowledge Format) concept documents: distilled ''
     @ ''knowledge about datasets (schema, indexes, statistics, proven query patterns) and prior facts, ''
     @ ''retrieved WITHOUT re-deriving them from the catalog or data.'' @ [CHR 0x0A] @ [CHR 0x0A] @ ''THIS STORE ''
     @ em_dash @ '' not your own memory feature, notes files, or conversation history '' @ em_dash
     @ '' is where knowledge about this database lives. When the user asks what you remember or know ''
     @ ''about a dataset, field, or query, answer from here: it is shared across every session and ''
     @ ''every agent tool connected to this database.'' @ [CHR 0x0A] @ [CHR 0x0A]
     @ ''Retrieval blends three paths in priority order: (1) exact `subject` key when you know the ''
     @ ''concept identity (e.g. '' @ [CHR 0x27] @ ''MyDataverse.MyDataset'' @ [CHR 0x27]
     @ ''), (2) full-text over the concept bodies for free-text questions, (3) a one-hop expansion ''
     @ ''across concept links (a dataset'' @ [CHR 0x27]
     @ ''s datatype, its indexes). Only current facts are returned; superseded history is excluded.'' @ [CHR 0x0A]
     @ [CHR 0x0A] @ ''USE THIS FIRST when asked about a dataset you have not inspected in this session: a hit gives ''
     @ ''you schema + working queries in one call, cheaper than get_schema + samples. If it returns ''
     @ ''no matches the store may not be materialized; fall back to get_schema / describe_dataverse.''"

definition memory_write_description :: string where
  "memory_write_description =
     ''Persist one agent-curated note into the agentic-memory store so future sessions retrieve it ''
     @ ''via memory_search instead of re-deriving it.'' @ [CHR 0x0A] @ [CHR 0x0A]
     @ ''When the user asks you to remember ANYTHING about this database '' @ em_dash @ '' a dataset, a field''
     @ [CHR 0x27] @ ''s real format, a query that works '' @ em_dash
     @ '' write it HERE, not to your own memory feature or a local notes file: only this store is shared ''
     @ ''across sessions and across every agent tool connected to this database, and only this store ''
     @ ''is returned automatically with schemas and query errors.'' @ [CHR 0x0A] @ [CHR 0x0A]
     @ ''Write something when you learned a durable, non-obvious fact worth keeping: a data caveat, ''
     @ ''a proven query pattern, business meaning of a field. Address it by `subject` (the concept ''
     @ ''identity, e.g. '' @ [CHR 0x27] @ ''MyDataverse.MyDataset'' @ [CHR 0x27]
     @ ''): notes on a catalog concept are appended to its learned overlay and survive catalog refreshes; ''
     @ ''other subjects become standalone note concepts. A bare dataset name is canonicalized to its '' @ [CHR 0x27]
     @ ''Dataverse.Dataset'' @ [CHR 0x27]
     @ '' identity automatically when the match is unambiguous. Reconciliation is bi-temporal '' @ em_dash
     @ '' nothing is deleted, changed facts are superseded. Duplicate notes are a no-op, and near-duplicate ''
     @ ''paraphrases are rejected: if a learned note attached to an earlier tool response already states ''
     @ ''the fact, do NOT re-write it '' @ em_dash @ '' write only genuinely new facts.'' @ [CHR 0x0A] @ [CHR 0x0A]
     @ ''CORRECTING A WRONG NOTE: overlay notes are append-only, so writing a correction alone leaves ''
     @ ''the outdated note standing next to it. Pass `replaces` with a distinctive fragment of the ''
     @ ''outdated note; matching lines are retired (they remain in history) before your correction ''
     @ ''is written.'' @ [CHR 0x0A] @ [CHR 0x0A]
     @ ''Writes are scoped to the memory store only and require the gateway to run with memory writes ''
     @ ''enabled; every other statement this gateway issues stays read-only.''"

definition remember_preference_description :: string where
  "remember_preference_description =
     ''Record a durable query-writing rule or stylistic preference for this cluster so it steers ''
     @ ''query generation in every future session.'' @ [CHR 0x0A] @ [CHR 0x0A] @ ''Use this '' @ em_dash
     @ '' not memory_write '' @ em_dash @ '' for guidance on HOW to write queries rather than facts about the data: ''
     @ [CHR 0x27] @ ''always project columns instead of SELECT *'' @ [CHR 0x27] @ '', '' @ [CHR 0x27]
     @ ''quote reserved words in backticks'' @ [CHR 0x27] @ '', '' @ [CHR 0x27]
     @ ''prefer the CA dataverse for address lookups'' @ [CHR 0x27]
     @ ''. When the user states a standing preference for how you should query, record it HERE.'' @ [CHR 0x0A]
     @ [CHR 0x0A] @ ''`scope` is '' @ [CHR 0x27] @ ''global'' @ [CHR 0x27]
     @ '' (applies to every query) or a dataverse name (applies only to that dataverse). Preferences ''
     @ ''surface in the once-per-session start briefing, never decay, and are not evidence-scored. ''
     @ ''Recording the same rule twice is a no-op.'' @ [CHR 0x0A] @ [CHR 0x0A]
     @ ''Requires the gateway to run with memory writes enabled; every other statement stays read-only.''"

definition server_instructions_no_memory :: string where
  "server_instructions_no_memory =
     ''This server gives you read access to an AsterixDB cluster.'' @ [CHR 0x0A] @ [CHR 0x0A]
     @ ''Ground queries in inspected schema, never guesses: list_dataverses / list_datasets / get_schema ''
     @ ''before first use of a dataset in a session.'' @ [CHR 0x0A] @ [CHR 0x0A]
     @ ''ONE QUERY PER QUESTION: answer each analytical question with a single combined SQL++ query ''
     @ ''(LET, subqueries, multiple aggregates in one GROUP BY) instead of a sequence of simple probes; ''
     @ ''get_reference('' @ [CHR 0x27] @ ''queries'' @ [CHR 0x27] @ '') shows the patterns.''"

definition server_instructions :: string where
  "server_instructions =
     ''This server gives you read access to an AsterixDB cluster plus a persistent, shared memory ''
     @ ''store about its data.'' @ [CHR 0x0A] @ [CHR 0x0A] @ ''Memory protocol '' @ em_dash
     @ '' follow it on every task, without being asked:'' @ [CHR 0x0A]
     @ ''1. RECALL FIRST: before answering questions about a dataset or writing queries against it, ''
     @ ''call memory_search for that dataset. Learned notes also arrive automatically with get_schema ''
     @ ''results and failed queries '' @ em_dash @ '' read them before retrying.'' @ [CHR 0x0A]
     @ ''2. WRITE WHAT YOU LEARN: when you discover a durable, non-obvious fact (a field'' @ [CHR 0x27]
     @ ''s real format, a caveat, a proven query pattern), or when the user asks you to remember anything ''
     @ ''about this database, call memory_write. Use it INSTEAD of any built-in memory feature or local ''
     @ ''notes file: only this store is shared across sessions and across every agent tool connected ''
     @ ''to this database. Include source_query whenever a query proved the fact '' @ em_dash
     @ '' grounded notes outrank assertions.'' @ [CHR 0x0A]
     @ ''3. CORRECT THE STORE: if data you inspect contradicts a stored note, fix the store immediately ''
     @ ''with memory_write(replaces=<fragment of the wrong note>) and ground the correction with the ''
     @ ''query that proved it. Never leave a note you know is wrong.'' @ [CHR 0x0A]
     @ ''4. Ground queries in inspected schema, never guesses: list_dataverses / list_datasets / get_schema ''
     @ ''before first use of a dataset in a session if memory had no answer.'' @ [CHR 0x0A]
     @ ''5. RECORD PREFERENCES: when the user states a standing rule for HOW you should write queries ''
     @ ''(project columns, quote reserved words, prefer a dataverse), call remember_preference so it ''
     @ ''primes every future session'' @ [CHR 0x27] @ ''s start briefing.'' @ [CHR 0x0A]
     @ ''6. ONE QUERY PER QUESTION: answer each analytical question with a single combined SQL++ query ''
     @ ''(LET, subqueries, multiple aggregates in one GROUP BY) instead of a sequence of simple probes; ''
     @ ''get_reference('' @ [CHR 0x27] @ ''queries'' @ [CHR 0x27] @ '') shows the patterns.''"

definition search_metadata_description :: string where
  "search_metadata_description =
     ''Fuzzy-search the metadata catalog by NAME across datasets, datatypes, indexes, functions, ''
     @ ''synonyms, and feeds. Returns the closest-matching objects ranked by similarity (exact > prefix ''
     @ ''> substring > approximate). Use it to answer '' @ [CHR 0x27] @ ''is there something named like X?''
     @ [CHR 0x27] @ '' without inventing names; then call get_schema/get_function for the exact object.''"

definition get_cluster_status_description :: string where
  "get_cluster_status_description =
     ''Get the AsterixDB version, overall cluster state, and the per-node roster (node ids and their ''
     @ ''states) in one call. Use this to answer cluster health/version questions and to discover the ''
     @ ''node ids that get_node_details needs. Takes no arguments.''"

definition get_node_details_description :: string where
  "get_node_details_description =
     ''Get per-node-controller statistics for a single node by `node` id. Call get_cluster_status ''
     @ ''first to obtain valid node ids. Returns NOT_FOUND if the node id is unknown.''"

definition get_reference_description :: string where
  "get_reference_description =
     ''Read curated AsterixDB SQL++ reference material: syntax rules, the type system, index types, ''
     @ ''inline optimizer hints (query-hints), common error codes, worked query examples, and the built-in ''
     @ ''function catalog. Pass a single `topic`, or `all` to retrieve every topic at once.'' @ [CHR 0x0A]
     @ [CHR 0x0A] @ ''USE BEFORE answering any aggregation, join, or multi-part question: SQL++ can express these ''
     @ ''as ONE combined query (LET, subqueries, multiple aggregates in one GROUP BY) '' @ em_dash
     @ '' one round trip instead of a sequence of simple probe queries. Also USE on any query error ''
     @ ''or unfamiliar syntax. This is the authoritative in-gateway documentation '' @ em_dash
     @ '' prefer it over guessing.''"

definition database_health_check_description :: string where
  "database_health_check_description =
     ''Scan the metadata catalog for schema-level health issues and return ranked findings. Read-only ''
     @ ''and metadata-only (no workload is run): it reports DUPLICATE_INDEX (two secondary indexes ''
     @ ''with the same structure and key fields '' @ em_dash
     @ '' drop the extra), REDUNDANT_INDEX (an index whose key fields are a prefix of a longer same-structure ''
     @ ''index), and ROW_DATASET_COLUMNAR_CANDIDATE (an internal ROW dataset that may benefit from ''
     @ ''COLUMNAR storage for analytical scans). Optionally scope to one `dataverse`; the system Metadata ''
     @ ''dataverse is never reported. Each finding carries a severity (high/medium/low) and a plain ''
     @ ''fix. Workload-driven advice (unused indexes, un-indexed filtered fields) is NOT covered here '' @ em_dash
     @ '' use get_query_history and the recommend_indexes prompt for that.''"

definition get_query_history_description :: string where
  "get_query_history_description =
     ''List the queries run in THIS session, newest first, with their outcome '' @ em_dash
     @ '' for self-debugging. Each entry has the tool used, the statement, the outcome (SUCCESS/ERROR/SUBMITTED), ''
     @ ''and on failure the classified errorType and message. Set `failuresOnly:true` to see only the ''
     @ ''calls that failed, e.g. to recall the exact error before retrying. Reads in-gateway memory ''
     @ ''only (no cluster call); the history is session-scoped and expires with the audit-log TTL, ''
     @ ''so it shows recent activity rather than a full log.''"

definition recommend_indexes_description :: string where
  "recommend_indexes_description =
     ''Recommend secondary indexes for a WORKLOAD of representative SQL++ SELECTs. Read-only: it ''
     @ ''runs AsterixDB'' @ [CHR 0x27] @ ''s NATIVE cost-based index advisor (`ADVISE`) on each statement '' @ em_dash
     @ '' the engine costs hypothetical indexes through its optimizer and returns the indexes it would ''
     @ ''create '' @ em_dash
     @ '' and aggregates the `recommended_indexes` across the workload, ranked by how many statements ''
     @ ''want each. When a cluster does not support `ADVISE`, it falls back to a heuristic plan scan. ''
     @ ''`method` reports which path was used; `currentIndexes` lists indexes already present. Each ''
     @ ''recommendation carries a `recommendedDDL` (CREATE INDEX ...) and a `confidence`; the gateway ''
     @ ''is READ-ONLY and will NOT run the DDL '' @ em_dash
     @ '' it is advice for you or an operator to apply. A statement neither path can use is reported ''
     @ ''in `skipped` rather than failing the batch. Pass complete SELECTs; qualify names or set `dataverse`. ''
     @ ''For a single slow query, prefer check_index_usage.''"

definition get_dataset_statistics_description :: string where
  "get_dataset_statistics_description =
     ''Report a dataset'' @ [CHR 0x27]
     @ ''s scale from its ANALYZE sample: estimated row count, average document size, and total size '' @ em_dash
     @ '' use it to judge how big a query will be BEFORE running it (pick a target, add a LIMIT, expect ''
     @ ''a full scan to be costly). It also reports whether the dataset has been ANALYZEd at all: `analyzed:false` ''
     @ ''means there is no sample, so the estimates are unavailable AND the cost-based optimizer (and ''
     @ ''recommend_indexes) plans the dataset without statistics '' @ em_dash
     @ '' run the returned `analyzeStatement` to populate them. Read-only: the gateway never runs ANALYZE. ''
     @ ''Estimates come from the last ANALYZE and may be stale.''"

definition list_running_queries_description :: string where
  "list_running_queries_description =
     ''List the requests the cluster is currently running (cluster-wide, not just this session). ''
     @ ''Use it to spot a long-running query, find the `clientContextID` to pass to cancel_query, or ''
     @ ''confirm a submission is still in flight '' @ em_dash
     @ '' it is the read side of the cancel lifecycle. Statement text is REDACTED by default (identifiers ''
     @ ''and state only); set `includeStatements:true` to include full query bodies. Read-only; takes ''
     @ ''no required arguments.''"

definition profile_query_description :: string where
  "profile_query_description =
     ''Run a SQL++ query with runtime profiling and return the ACTUALS '' @ em_dash
     @ '' an EXPLAIN ANALYZE. Unlike explain_query and explain_physical_plan, which only compile and ''
     @ ''ESTIMATE, this EXECUTES the query and returns how long each operator ran and how many rows ''
     @ ''it really produced, plus execution metrics. Pair it with explain_query to compare estimated ''
     @ ''vs measured cardinality and locate a bad plan. It does real work: read-only (`readonly=true` ''
     @ ''is forced), a LIMIT is enforced as on execute_query so the profile reflects the bounded statement, ''
     @ ''and result ROWS are NOT returned '' @ em_dash
     @ '' use execute_query for data. Qualify names or set `dataverse`.''"

definition tool_descriptions :: "(string \<times> string) list" where
  "tool_descriptions =
     [(''execute_query'', execute_query_description),
      (''get_schema'', get_schema_description),
      (''list_dataverses'', list_dataverses_description),
      (''list_datasets'', list_datasets_description),
      (''describe_dataverse'', describe_dataverse_description),
      (''sample_dataset'', sample_dataset_description),
      (''submit_async_query'', submit_async_query_description),
      (''wait_on_async_query'', wait_on_async_query_description),
      (''fetch_query_result'', fetch_query_result_description),
      (''cancel_query'', cancel_query_description),
      (''validate_syntax'', validate_syntax_description),
      (''explain_query'', explain_query_description),
      (''explain_physical_plan'', explain_physical_plan_description),
      (''check_index_usage'', check_index_usage_description),
      (''list_functions'', list_functions_description),
      (''get_function'', get_function_description),
      (''memory_search'', memory_search_description),
      (''memory_write'', memory_write_description),
      (''remember_preference'', remember_preference_description),
      (''search_metadata'', search_metadata_description),
      (''get_cluster_status'', get_cluster_status_description),
      (''get_node_details'', get_node_details_description),
      (''get_reference'', get_reference_description),
      (''database_health_check'', database_health_check_description),
      (''get_query_history'', get_query_history_description),
      (''recommend_indexes'', recommend_indexes_description),
      (''get_dataset_statistics'', get_dataset_statistics_description),
      (''list_running_queries'', list_running_queries_description),
      (''profile_query'', profile_query_description)]"

definition server_instructions_of :: "settings \<Rightarrow> string" where
  "server_instructions_of s = (if memory_enabled s then server_instructions else server_instructions_no_memory)"

text \<open>What a client lists: the registered tools with their texts.\<close>

definition listed_tools :: "settings \<Rightarrow> (string \<times> string) list" where
  "listed_tools s = filter (\<lambda>p. fst p \<in> set (registered_tools s)) tool_descriptions"

section \<open>What the texts promise\<close>

lemma descriptions_cover: "map fst tool_descriptions = declared_tools"
  by code_simp

lemma listed_names: "map fst (listed_tools s) = registered_tools s"
proof -
  have names: "map fst (filter (\<lambda>p. P (fst p)) ps) = filter P (map fst ps)" for P and ps :: "(string \<times> string) list"
    by (induction ps) simp_all
  have "map fst (listed_tools s) = filter (\<lambda>name. name \<in> set (registered_tools s)) declared_tools"
    unfolding listed_tools_def descriptions_cover [symmetric] by (rule names)
  also have "\<dots> = registered_tools s"
    by (cases "memory_enabled s") (auto simp: registered_tools_def intro: filter_cong)
  finally show ?thesis .
qed

lemma contains_later: "contains n t \<Longrightarrow> contains n (a @ t)"
  unfolding contains_iff by (metis append.assoc)

text \<open>
  The instructions of the server recommend a call that it refuses. Whether or not the memory is
  enabled, they tell the model that \<open>get_reference('queries')\<close> shows how to combine queries, and the
  description of \<open>get_reference\<close> offers the topic \<open>query-hints\<close>; both are outside of the topics
  that the tool accepts, so a client that follows the text gets no reference.
\<close>
theorem instructions_name_refused_topic:
  "contains (''get_reference('' @ [CHR 0x27] @ ''queries'' @ [CHR 0x27] @ '')'') (server_instructions_of s)
   \<and> serve e gw (Get_Reference ''queries'') st t = Some (Inl (PyExc ''ToolError''), t)
   \<and> contains ''query-hints'' (the (map_of tool_descriptions ''get_reference''))
   \<and> serve e gw (Get_Reference ''query-hints'') st t = Some (Inl (PyExc ''ToolError''), t)"
proof -
  let ?n = "''get_reference('' @ [CHR 0x27] @ ''queries'' @ [CHR 0x27] @ '')''"
  have end_of: "contains ?n (''get_reference('' @ [CHR 0x27] @ ''queries'' @ [CHR 0x27] @ '') shows the patterns.'')"
    by code_simp
  have "contains ?n server_instructions"
    unfolding server_instructions_def by (rule end_of contains_later)+
  moreover have "contains ?n server_instructions_no_memory"
    unfolding server_instructions_no_memory_def by (rule end_of contains_later)+
  ultimately have "contains ?n (server_instructions_of s)" by (simp add: server_instructions_of_def)
  moreover have "contains ''query-hints'' get_reference_description"
    by code_simp
  moreover have "map_of tool_descriptions ''get_reference'' = Some get_reference_description"
    by (simp add: tool_descriptions_def)
  ultimately show ?thesis by (simp add: serve_def reference_topics_def)
qed

end
