(* ===== verification/Gateway_Main.thy ===== *)
theory Gateway_Main
  imports Gateway_Server Maintenance
begin

text \<open>
  The console entry point (\<open>main\<close> and \<open>_serve_http\<close> of \<open>server.py\<close>): the bounded
  maintenance of the start, the build of the server and the choice of the transport. What the
  transport does with a connection is the SDK's.
\<close>

datatype serving =
    Serve_Stdio
  | Serve_Uvicorn http_app_config string int

definition serve_http :: "settings \<Rightarrow> serving" where
  "serve_http s = Serve_Uvicorn (build_http_app s) (http_host s) (http_port s)"

definition gateway_main ::
  "network \<Rightarrow> (string \<Rightarrow> bool) \<Rightarrow> settings \<Rightarrow> upkeep_env \<Rightarrow> nat option \<Rightarrow> exn option \<Rightarrow> nat \<Rightarrow> rat \<Rightarrow> lock_file option
     \<Rightarrow> event_buffer \<Rightarrow> artifact_dir \<Rightarrow> (built_server \<times> serving) io" where
  "gateway_main net valid_url s e limit blocked me now file events artifacts =
     io_bind (run_startup_maintenance net s e limit blocked me now file) (\<lambda>_.
     io_bind (io_lift (build_server valid_url s events artifacts)) (\<lambda>server.
     io_return (server, if transport_kind s = Http then serve_http s else Serve_Stdio)))"

text \<open>
  C18. The maintenance of the start does not keep the gateway from serving, with one exception.
  With maintenance switched off, or where the lock can be tried, the outcome of \<open>main\<close> is that of
  \<open>build_server\<close> on the settings: whatever the cluster answers, refuses or delays, and whichever
  process holds the lock, the same server is built for the configured transport, and \<open>main\<close> fails
  only on settings that the build refuses. The exception: maintenance is switched on, no lock file
  is there and none can be created; that error ends \<open>main\<close> before a server exists.
\<close>

theorem gateway_starts:
  "(\<not> maintenance_enabled s \<or> (\<exists>out. acquire_lock blocked me now file = Inr out) \<longrightarrow>
      fst (gateway_main net valid_url s e limit blocked me now file events artifacts t)
        = map_sum id (\<lambda>server. (server, if transport_kind s = Http then serve_http s else Serve_Stdio))
            (build_server valid_url s events artifacts))
   \<and> (maintenance_enabled s \<longrightarrow>
      gateway_main net valid_url s e limit (Some err) me now None events artifacts t = (Inl err, t))"
proof -
  have total: "\<exists>f u. run_startup_maintenance net s e limit blocked me now file t = (Inr f, u)"
    if "\<not> maintenance_enabled s \<or> (\<exists>out. acquire_lock blocked me now file = Inr out)"
  proof -
    have "\<exists>u. io_catch_all m (\<lambda>_. io_return ()) t = (Inr (), u)" for m :: "unit io"
      by (cases "m t") (auto simp: io_catch_all_def split: sum.splits)
    from this [of "wait_for limit (maintenance_pass net s e)"] show ?thesis
      using that by (auto simp: run_startup_maintenance_def io_bind_Inr)
  qed
  show ?thesis
  proof (intro conjI impI)
    assume "\<not> maintenance_enabled s \<or> (\<exists>out. acquire_lock blocked me now file = Inr out)"
    then obtain f u where "run_startup_maintenance net s e limit blocked me now file t = (Inr f, u)" using total by blast
    then show "fst (gateway_main net valid_url s e limit blocked me now file events artifacts t)
        = map_sum id (\<lambda>server. (server, if transport_kind s = Http then serve_http s else Serve_Stdio))
            (build_server valid_url s events artifacts)"
      by (cases "build_server valid_url s events artifacts") (simp_all add: gateway_main_def io_bind_def)
  next
    assume "maintenance_enabled s"
    then show "gateway_main net valid_url s e limit (Some err) me now None events artifacts t = (Inl err, t)"
      by (simp add: gateway_main_def blocked_directory_raises io_bind_def)
  qed
qed

lemma gateway_starts_witness:
  "let s = default_settings\<lparr>memory_write_enabled := True\<rparr>;
       e = \<lparr>ue_parse = (\<lambda>_. None), ue_uuid_of = id, ue_uuid = ''u'',
            ue_clock = \<lparr>ck_now = ''now'', ck_age = (\<lambda>_. None), ck_log1p = (\<lambda>x. x)\<rparr>, ue_now_s = 0,
            ue_buffer = \<lparr>eb_files = [], eb_reported = False\<rparr>\<rparr>;
       main = (\<lambda>blocked s. gateway_main (\<lambda>_. Timeout ''t'') (\<lambda>_. True) s e (Some 2) blocked 1 0 None \<lparr>eb_files = [], eb_reported = False\<rparr> [] []);
       built = (\<lambda>s. map_sum id (\<lambda>server. (server, Serve_Stdio)) (build_server (\<lambda>_. True) s \<lparr>eb_files = [], eb_reported = False\<rparr> []))
   in fst (main None s) = built s
      \<and> fst (main (Some (PyExc ''PermissionError'')) default_settings) = built default_settings
      \<and> main (Some (PyExc ''PermissionError'')) s = (Inl (PyExc ''PermissionError''), [])"
proof -
  have lock: "\<exists>out. acquire_lock None 1 0 None = Inr out" by (intro exI [of _ "(True, Some \<lparr>lf_owner = 1, lf_mtime = 0\<rparr>)"]) code_simp
  have off: "\<not> maintenance_enabled default_settings" by code_simp
  have on: "maintenance_enabled (default_settings\<lparr>memory_write_enabled := True\<rparr>)" by code_simp
  have stdio: "transport_kind default_settings \<noteq> Http" by code_simp
  show ?thesis
    unfolding Let_def
    using gateway_starts [THEN conjunct1, rule_format, OF disjI2, OF lock]
      gateway_starts [THEN conjunct1, rule_format, OF disjI1, OF off]
      gateway_starts [THEN conjunct2, rule_format, OF on] stdio
    by (intro conjI) (auto simp del: One_nat_def)
qed

end
