(* ===== verification/Offline_Refresh.thy ===== *)
theory Offline_Refresh
  imports Okf_Walk Identity
begin

text \<open>
  The refresh script of the operator (\<open>scripts/okf_refresh.py\<close>). It posts to the query service
  itself, without the gateway's client: there is no read-only flag, no byte ceiling and no
  tenancy but what its own statements say. Options, clock and fingerprint are arguments.
\<close>

section \<open>Statements\<close>

definition script_headers :: "(string \<times> string) list" where
  "script_headers = [(''Content-Type'', ''application/x-www-form-urlencoded'')]"

definition script_form :: "string \<Rightarrow> dict \<Rightarrow> form" where
  "script_form statement params = (''statement'', statement) # map (\<lambda>p. (CHR ''$'' # fst p, json_dumps (snd p))) params"

text \<open>The body of an HTTP error is read as the body of any other reply.\<close>

definition script_envelope :: "http_reply \<Rightarrow> exn + dict" where
  "script_envelope reply =
     (case reply of
        Response status body \<Rightarrow>
          (case body_json body of
             Inl msg \<Rightarrow> Inl (PyExc ''JSONDecodeError'')
           | Inr (JDict d) \<Rightarrow> if dget ''status'' d = JStr ''success'' then Inr d else Inl (PyExc ''RuntimeError'')
           | Inr _ \<Rightarrow> Inl (PyExc ''AttributeError''))
      | _ \<Rightarrow> Inl (PyExc ''URLError''))"

definition script_execute :: "network \<Rightarrow> string \<Rightarrow> dict \<Rightarrow> dict io" where
  "script_execute net statement params =
     io_bind (io_send net (QueryPost (script_form statement params) script_headers)) (\<lambda>reply. io_lift (script_envelope reply))"

text \<open>\<open>except RuntimeError\<close>; what else is raised goes on.\<close>

definition on_refusal :: "'a io \<Rightarrow> 'a \<Rightarrow> 'a io" where
  "on_refusal m x = io_catch_all m (\<lambda>e. if e = PyExc ''RuntimeError'' then io_return x else io_raise e)"

fun script_bootstrap :: "network \<Rightarrow> string list \<Rightarrow> unit io" where
  "script_bootstrap net [] = io_return ()"
| "script_bootstrap net (st # sts) = io_bind (script_execute net st []) (\<lambda>_. script_bootstrap net sts)"

definition rows_statement :: "string \<Rightarrow> dict list \<Rightarrow> string" where
  "rows_statement verb rows =
     verb @ '' INTO '' @ memory_dataset @ '' ('' @ json_dumps (JList (map JDict rows)) @ '');''"

section \<open>Reading the bundle and the store\<close>

definition script_bundle :: "network \<Rightarrow> string option \<Rightarrow> rows_by_subject io" where
  "script_bundle net dataverse =
     io_bind (script_execute net (walk_query dataverse) []) (\<lambda>envelope.
     io_bind (io_lift (sum_bind (plain_rows envelope) text_subjects)) (\<lambda>rows.
     io_return (filter (\<lambda>p. \<not> in_scope (fst p) self_dataverse) (rows_keyed rows))))"

definition has_id :: "dict \<Rightarrow> bool" where
  "has_id row \<longleftrightarrow> as_str (dget ''id'' row) \<noteq> None"

definition adopt_unowned :: "network \<Rightarrow> string \<Rightarrow> nat io" where
  "adopt_unowned net who =
     io_bind (script_execute net unowned_memory_query []) (\<lambda>envelope.
     io_bind (io_lift (plain_rows envelope)) (\<lambda>found.
       let rows = filter has_id found
       in io_bind (if rows = [] then io_return []
                   else script_execute net (rows_statement ''UPSERT'' (map (\<lambda>r. tag r who) rows)) []) (\<lambda>_.
          io_return (length rows))))"

definition is_own_row :: "string \<Rightarrow> dict \<Rightarrow> bool" where
  "is_own_row who row \<longleftrightarrow> dget principal_field row = JStr who"

definition script_current :: "network \<Rightarrow> string \<Rightarrow> rows_by_subject io" where
  "script_current net who =
     io_bind (script_execute net current_rows_query [(principal_field, JStr who)]) (\<lambda>envelope.
     io_bind (io_lift (plain_rows envelope)) (\<lambda>rows. io_return (rows_keyed (filter (is_own_row who) rows))))"

definition script_apply :: "network \<Rightarrow> dict list \<Rightarrow> dict list \<Rightarrow> string \<Rightarrow> unit io" where
  "script_apply net inserts superseded who =
     io_bind (if superseded = [] then io_return [] else script_execute net (rows_statement ''UPSERT'' superseded) []) (\<lambda>_.
     io_bind (if inserts = [] then io_return []
              else script_execute net (rows_statement ''INSERT'' (map (\<lambda>r. tag r who) inserts)) []) (\<lambda>_.
     io_return ()))"

section \<open>Grounding\<close>

definition dataset_concept_types :: "string list" where
  "dataset_concept_types = [''AsterixDB Dataset'', ''AsterixDB External Dataset'', ''AsterixDB View'']"

definition max_advised_statements :: nat where "max_advised_statements = 3"

definition marked :: "string \<Rightarrow> string" where
  "marked query = pipeline_marker @ '' '' @ query"

text \<open>\<open>v or []\<close> as a list to iterate over.\<close>

definition iterated :: "json \<Rightarrow> exn + json list" where
  "iterated v = (case iter_or_empty v of None \<Rightarrow> Inl (PyExc ''TypeError'') | Some xs \<Rightarrow> Inr xs)"

text \<open>\<open>results[0]["cnt"]\<close> if it is an integer; a non-empty object has no element 0.\<close>

definition counted_of :: "json \<Rightarrow> exn + json option" where
  "counted_of results =
     (if \<not> truthy results then Inr None
      else case results of
        JList (JDict d # _) \<Rightarrow> Inr (if as_int (dget ''cnt'' d) = None then None else Some (dget ''cnt'' d))
      | JList _ \<Rightarrow> Inr None
      | JStr _ \<Rightarrow> Inr None
      | JDict _ \<Rightarrow> Inl (PyExc ''KeyError'')
      | _ \<Rightarrow> Inl (PyExc ''TypeError''))"

definition grounded_rowcount :: "network \<Rightarrow> dict \<Rightarrow> json option io" where
  "grounded_rowcount net doc =
     io_bind (io_lift (iterated (dget ''profile_queries'' doc))) (\<lambda>queries.
       case queries of
         [] \<Rightarrow> io_return None
       | query # _ \<Rightarrow>
           if \<not> truthy query then io_return None
           else io_bind (on_refusal (io_bind (script_execute net (marked (py_str query)) []) (\<lambda>envelope.
                    io_return (Some (dget_or ''results'' (JList []) envelope)))) None) (\<lambda>results.
                case results of None \<Rightarrow> io_return None | Some v \<Rightarrow> io_lift (counted_of v)))"

definition is_query_text :: "string \<Rightarrow> bool" where
  "is_query_text s \<longleftrightarrow> (let l = lower (lstrip s) in starts_with l ''select'' \<or> starts_with l ''with'' \<or> starts_with l ''from'')"

definition observed_statements :: "dict \<Rightarrow> exn + string list" where
  "observed_statements doc =
     sum_bind (iterated (dget ''observed_queries'' doc)) (\<lambda>xs.
       if list_all (\<lambda>x. as_str x \<noteq> None) xs then Inr (filter is_query_text (List.map_filter as_str xs))
       else Inl (PyExc ''AttributeError''))"

fun collect_recommended :: "bool \<Rightarrow> json \<Rightarrow> string list" where
  "collect_recommended beneath (JDict d) =
     concat (map (\<lambda>p. if fst p = ''index_statement'' \<and> beneath \<and> as_str (snd p) \<noteq> None
                      then map strip (case as_str (snd p) of None \<Rightarrow> [] | Some s \<Rightarrow> [s])
                      else collect_recommended (beneath \<or> contains ''recommended'' (fst p)) (snd p)) d)"
| "collect_recommended beneath (JList xs) = concat (map (collect_recommended beneath) xs)"
| "collect_recommended beneath _ = []"

definition advised :: "network \<Rightarrow> string list \<Rightarrow> string \<Rightarrow> string list io" where
  "advised net found statement =
     on_refusal (io_bind (script_execute net (marked (''ADVISE '' @ statement)) []) (\<lambda>envelope.
       io_return (found @ collect_recommended False (dget_or ''results'' (JList []) envelope)))) found"

definition grounded_advice :: "network \<Rightarrow> dict \<Rightarrow> string list io" where
  "grounded_advice net doc =
     io_bind (io_lift (observed_statements doc)) (\<lambda>statements.
     io_bind (io_fold (advised net) [] (take max_advised_statements statements)) (\<lambda>found.
     io_return (sort (remdups found))))"

definition rowcount_text :: "json \<Rightarrow> string" where
  "rowcount_text n =
     newline @ ''# Grounded statistics'' @ newline @ newline @ ''- Row count (grounded): '' @ py_str n @ newline"

definition advice_text :: "string list \<Rightarrow> string" where
  "advice_text advice =
     newline @ ''# Index advice'' @ newline @ newline @ ''From the native ADVISE advisor over observed queries:''
     @ newline @ newline @ concat (map (\<lambda>ddl. ''- '' @ [backtick] @ ddl @ [backtick] @ newline) advice)"

text \<open>\<open>doc["text"] += ...\<close>: the text has to be there and to be one.\<close>

definition with_text :: "string \<Rightarrow> dict \<Rightarrow> exn + dict" where
  "with_text more_text doc =
     (if more_text = [] then Inr doc
      else case map_of doc ''text'' of
        None \<Rightarrow> Inl (PyExc ''KeyError'')
      | Some (JStr s) \<Rightarrow> Inr (dict_set ''text'' (JStr (s @ more_text)) doc)
      | Some _ \<Rightarrow> Inl (PyExc ''TypeError''))"

definition ground_doc :: "network \<Rightarrow> dict \<Rightarrow> (dict \<times> bool) io" where
  "ground_doc net doc =
     (if dget ''type'' doc \<notin> set (map JStr dataset_concept_types) then io_return (doc, False)
      else io_bind (grounded_rowcount net doc) (\<lambda>n.
           io_bind (grounded_advice net doc) (\<lambda>advice.
             let counted = (case n of None \<Rightarrow> doc | Some v \<Rightarrow> dict_set ''grounded_rowcount'' v doc);
                 noted = (if advice = [] then counted
                          else dict_set ''recommended_indexes'' (JList (map JStr advice)) counted);
                 more_text = (case n of None \<Rightarrow> [] | Some v \<Rightarrow> rowcount_text v)
                   @ (if advice = [] then [] else advice_text advice)
             in io_bind (io_lift (with_text more_text noted)) (\<lambda>grounded.
                io_return (grounded, n \<noteq> None \<or> advice \<noteq> [])))))"

fun ground :: "network \<Rightarrow> rows_by_subject \<Rightarrow> (rows_by_subject \<times> nat) io" where
  "ground net [] = io_return ([], 0)"
| "ground net ((subject, doc) # bundle) =
     io_bind (ground_doc net doc) (\<lambda>(doc', hit).
     io_bind (ground net bundle) (\<lambda>(bundle', n). io_return ((subject, doc') # bundle', (if hit then 1 else 0) + n)))"

section \<open>Revalidation\<close>

record drift =
  df_stale :: "dict list"
  df_stamp :: "dict list"
  df_checked :: nat

definition no_drift :: drift where
  "no_drift = \<lparr>df_stale = [], df_stamp = [], df_checked = 0\<rparr>"

definition drift_verdict :: "string \<Rightarrow> string \<Rightarrow> dict \<Rightarrow> drift \<Rightarrow> drift" where
  "drift_verdict now digest row d =
     (if dget ''grounding_digest'' row = JNull
      then d\<lparr>df_stamp := df_stamp d @ [dict_set ''grounding_digest'' (JStr digest) row]\<rparr>
      else if dget ''grounding_digest'' row \<noteq> JStr digest
      then d\<lparr>df_stale := df_stale d @ [dict_merge row [(''valid_to'', JStr now), (''superseded_by'', JStr ''revalidation'')]]\<rparr>
      else d)"

definition replay_source :: "network \<Rightarrow> (json \<Rightarrow> string) \<Rightarrow> string \<Rightarrow> drift \<Rightarrow> dict \<Rightarrow> drift io" where
  "replay_source net digest_of now d row =
     (case as_str (dget ''source_query'' row) of
        None \<Rightarrow> io_return d
      | Some query \<Rightarrow>
          if strip query = [] then io_return d
          else (let d' = d\<lparr>df_checked := df_checked d + 1\<rparr>
                in io_bind (on_refusal (io_bind (script_execute net (marked query) []) (\<lambda>envelope.
                       io_return (Some (dget_or ''results'' (JList []) envelope)))) None) (\<lambda>results.
                   io_return (case results of None \<Rightarrow> d' | Some v \<Rightarrow> drift_verdict now (digest_of v) row d'))))"

definition script_revalidate :: "network \<Rightarrow> (json \<Rightarrow> string) \<Rightarrow> string \<Rightarrow> dict list \<Rightarrow> drift io" where
  "script_revalidate net digest_of now rows = io_fold (replay_source net digest_of now) no_drift rows"

section \<open>The refresh\<close>

record refresh_options =
  ro_dataverse :: "string option"
  ro_principal :: "string option"
  ro_ground :: bool
  ro_revalidate :: bool

record refresh_report =
  rr_concepts :: nat
  rr_inserted :: nat
  rr_superseded :: nat
  rr_unchanged :: nat
  rr_grounded :: nat
  rr_adopted :: nat

definition refresh_principal :: "settings \<Rightarrow> refresh_options \<Rightarrow> string" where
  "refresh_principal s o' =
     (case ro_principal o' of None \<Rightarrow> resolve_principal None s
      | Some p \<Rightarrow> if p = [] then resolve_principal None s else p)"

text \<open>The identifiers of the stale rows as a set; every row of the store has one.\<close>

definition stale_ids :: "dict list \<Rightarrow> exn + json list" where
  "stale_ids rows =
     (if \<not> list_all (\<lambda>r. map_of r ''id'' \<noteq> None) rows then Inl (PyExc ''KeyError'')
      else if \<not> list_all (\<lambda>r. hashable (dget ''id'' r)) rows then Inl (PyExc ''TypeError'')
      else Inr (map (dget ''id'') rows))"

definition revalidated ::
  "network \<Rightarrow> (json \<Rightarrow> string) \<Rightarrow> string \<Rightarrow> string \<Rightarrow> rows_by_subject \<Rightarrow> rows_by_subject \<Rightarrow> rows_by_subject io" where
  "revalidated net digest_of now who bundle current =
     io_bind (script_revalidate net digest_of now (map snd (filter (\<lambda>p. map_of bundle (fst p) = None) current))) (\<lambda>d.
     io_bind (script_apply net [] (df_stale d @ df_stamp d) who) (\<lambda>_.
     io_bind (io_lift (stale_ids (df_stale d))) (\<lambda>ids.
     io_return (filter (\<lambda>p. dget ''id'' (snd p) \<notin> set ids) current))))"

text \<open>The steps after the adoption: what is current, whether it still holds, what the walk changes.\<close>

definition settle ::
  "network \<Rightarrow> (json \<Rightarrow> string) \<Rightarrow> string \<Rightarrow> string \<Rightarrow> refresh_options \<Rightarrow> rows_by_subject \<Rightarrow> nat \<Rightarrow> nat
     \<Rightarrow> refresh_report io" where
  "settle net digest_of now who o' bundle hits adopted =
     io_bind (script_current net who) (\<lambda>stored.
     io_bind (if ro_revalidate o' then revalidated net digest_of now who bundle stored else io_return stored) (\<lambda>current.
     case reconcile_walked bundle current now (ro_dataverse o') of
       (inserts, superseded, unchanged) \<Rightarrow>
         io_bind (script_apply net inserts superseded who) (\<lambda>_.
         io_return \<lparr>rr_concepts = length bundle, rr_inserted = length inserts, rr_superseded = length superseded,
                    rr_unchanged = unchanged, rr_grounded = hits, rr_adopted = adopted\<rparr>)))"

definition run_refresh ::
  "network \<Rightarrow> settings \<Rightarrow> (json \<Rightarrow> string) \<Rightarrow> string \<Rightarrow> refresh_options \<Rightarrow> refresh_report io" where
  "run_refresh net s digest_of now o' =
     (let who = refresh_principal s o'
      in io_bind (script_bootstrap net bootstrap_statements) (\<lambda>_.
         io_bind (script_bundle net (ro_dataverse o')) (\<lambda>walked.
         io_bind (if ro_ground o' then ground net walked else io_return (walked, 0)) (\<lambda>(bundle, hits).
         io_bind (adopt_unowned net who) (\<lambda>adopted.
         settle net digest_of now who o' bundle hits adopted)))))"

section \<open>What the refresh sends\<close>

definition script_request :: "string \<Rightarrow> dict \<Rightarrow> request" where
  "script_request statement params = QueryPost (script_form statement params) script_headers"

definition own_rows :: "string \<Rightarrow> dict list \<Rightarrow> bool" where
  "own_rows who rows \<longleftrightarrow> list_all (is_own_row who) rows"

text \<open>A read, a statement out of a document or a row behind the marker, or a write of own rows.\<close>

definition refresh_request :: "string \<Rightarrow> string option \<Rightarrow> request \<Rightarrow> bool" where
  "refresh_request who dataverse r \<longleftrightarrow>
     (\<exists>st \<in> set bootstrap_statements \<union> {walk_query dataverse, unowned_memory_query} \<union> range marked. r = script_request st [])
     \<or> r = script_request current_rows_query [(principal_field, JStr who)]
     \<or> (\<exists>rows verb. rows \<noteq> [] \<and> own_rows who rows \<and> verb \<in> {''UPSERT'', ''INSERT''} \<and> r = script_request (rows_statement verb rows) [])"

lemma emits_bind_yields:
  assumes "emits P m" and "yields R m" and "\<And>x. R x \<Longrightarrow> emits P (f x)"
  shows "emits P (io_bind m f)"
  unfolding emits_def
proof
  fix t
  obtain r u where m: "m t = (r, u)" by (cases "m t") auto
  show "\<exists>sent. snd (io_bind m f t) = t @ sent \<and> (\<forall>q \<in> set sent. P q)"
  proof (cases r)
    case (Inl e)
    then show ?thesis using emitsD [OF assms(1), of t] m by (simp add: io_bind_def)
  next
    case (Inr x)
    obtain s1 where s1: "u = t @ s1" "\<forall>q \<in> set s1. P q" using emitsE [OF assms(1) m] .
    obtain s2 where "snd (f x u) = u @ s2" "\<forall>q \<in> set s2. P q"
      using emitsD [OF assms(3) [OF yieldsD [OF assms(2) m [unfolded Inr]]]] by blast
    then have "snd (io_bind m f t) = t @ (s1 @ s2) \<and> (\<forall>q \<in> set (s1 @ s2). P q)"
      using m s1 Inr by (auto simp: io_bind_def)
    then show ?thesis by blast
  qed
qed

lemma script_execute_emits: "P (script_request st params) \<Longrightarrow> emits P (script_execute net st params)"
  unfolding script_execute_def script_request_def [symmetric]
  by (intro emits_bind emits_send emits_lift)

lemma on_refusal_emits: "emits P m \<Longrightarrow> emits P (on_refusal m x)"
  unfolding on_refusal_def by (intro emits_catch_all emits_if emits_return emits_raise)

lemmas script_emits = script_execute_emits on_refusal_emits emits_bind emits_return emits_lift emits_if

lemma marked_refresh: "refresh_request who dv (script_request (marked q) [])"
  by (auto simp: refresh_request_def)

lemma refresh_bootstrap_emits: "set sts \<subseteq> set bootstrap_statements \<Longrightarrow> emits (refresh_request who dv) (script_bootstrap net sts)"
  by (induction sts) (auto intro!: script_emits simp: refresh_request_def simp del: io_run)

lemma ground_doc_emits: "emits (refresh_request who dv) (ground_doc net doc)"
  unfolding ground_doc_def grounded_rowcount_def grounded_advice_def advised_def Let_def
  by (intro script_emits emits_option emits_list emits_fold marked_refresh)

lemma ground_emits: "emits (refresh_request who dv) (ground net walked)"
proof (induction walked)
  case (Cons p walked)
  then show ?case by (cases p) (auto simp: case_prod_unfold intro!: emits_bind emits_return ground_doc_emits simp del: io_run)
qed (simp add: emits_return del: io_run)

lemma adopt_emits: "emits (refresh_request who dv) (adopt_unowned net who)"
proof -
  have "refresh_request who dv (script_request (rows_statement ''UPSERT'' (map (\<lambda>r. tag r who) rows)) [])"
    if "rows \<noteq> []" for rows
    unfolding refresh_request_def using that
    by (intro disjI2 exI [of _ "map (\<lambda>r. tag r who) rows"] exI [of _ "''UPSERT''"])
      (simp add: own_rows_def is_own_row_def list_all_iff)
  then show ?thesis
    unfolding adopt_unowned_def Let_def by (intro script_emits) (auto simp: refresh_request_def)
qed

lemma apply_emits:
  assumes "own_rows who superseded"
  shows "emits (refresh_request who dv) (script_apply net inserts superseded who)"
proof -
  have "refresh_request who dv (script_request (rows_statement ''UPSERT'' superseded) [])" if "superseded \<noteq> []"
    unfolding refresh_request_def using that assms by blast
  moreover have "refresh_request who dv (script_request (rows_statement ''INSERT'' (map (\<lambda>r. tag r who) inserts)) [])"
    if "inserts \<noteq> []"
    unfolding refresh_request_def using that
    by (intro disjI2 exI [of _ "map (\<lambda>r. tag r who) inserts"] exI [of _ "''INSERT''"])
      (simp add: own_rows_def is_own_row_def list_all_iff)
  ultimately show ?thesis unfolding script_apply_def by (intro script_emits) simp_all
qed

text \<open>What is read as current is the tenant's own, and stays so when it is closed or stamped.\<close>

lemma rows_keyed_from: "snd ` set (rows_keyed rows) \<subseteq> set rows"
proof -
  have "snd ` set (foldl (\<lambda>d r. case dget ''subject'' r of JStr s \<Rightarrow> dict_set s r d | _ \<Rightarrow> d) d rows) \<subseteq> snd ` set d \<union> set rows" for d
  proof (induction rows arbitrary: d)
    case (Cons r rows)
    let ?d = "case dget ''subject'' r of JStr s \<Rightarrow> dict_set s r d | _ \<Rightarrow> d"
    have "snd ` set (dict_set k v d) \<subseteq> insert v (snd ` set d)" for k and v :: dict and d
      by (induction d) auto
    then have "snd ` set ?d \<subseteq> insert r (snd ` set d)" by (cases "dget ''subject'' r") (simp_all add: subset_insertI)
    then show ?case using Cons.IH [of ?d] by (simp only: foldl.simps list.set) blast
  qed simp
  from this [of "[]"] show ?thesis by (simp add: rows_keyed_def)
qed

definition own_current :: "string \<Rightarrow> rows_by_subject \<Rightarrow> bool" where
  "own_current who current \<longleftrightarrow> own_rows who (map snd current)"

lemma own_current_iff: "own_current who current \<longleftrightarrow> (\<forall>p \<in> set current. is_own_row who (snd p))"
  by (auto simp: own_current_def own_rows_def list_all_iff)

lemma current_yields: "yields (own_current who) (script_current net who)"
  unfolding script_current_def
  by (intro yields_bind_any yields_return) (use rows_keyed_from in \<open>fastforce simp: own_current_iff\<close>)

lemma current_emits: "emits (refresh_request who dv) (script_current net who)"
  unfolding script_current_def by (intro script_emits) (simp add: refresh_request_def)

lemma replay_source_emits: "emits (refresh_request who dv) (replay_source net digest_of now d row)"
  unfolding replay_source_def Let_def by (intro script_emits emits_option marked_refresh)

lemma replay_source_own:
  assumes "is_own_row who row" and "own_rows who (df_stale d @ df_stamp d)"
  shows "yields (\<lambda>d'. own_rows who (df_stale d' @ df_stamp d')) (replay_source net digest_of now d row)"
  unfolding replay_source_def Let_def using assms
  by (intro yields_option yields_if yields_bind_any yields_return)
    (auto simp: drift_verdict_def own_rows_def is_own_row_def principal_field_def dict_simps dget_def split: option.split)

lemma revalidate_own:
  assumes "own_rows who rows" and "own_rows who (df_stale d @ df_stamp d)"
  shows "yields (\<lambda>d'. own_rows who (df_stale d' @ df_stamp d')) (io_fold (replay_source net digest_of now) d rows)"
  using assms
proof (induction rows arbitrary: d)
  case (Cons row rows)
  then show ?case
    by (auto simp: own_rows_def simp del: io_run intro!: yields_bind [OF replay_source_own [where who = who]])
qed (simp add: yields_return del: io_run)

lemma revalidated_emits:
  assumes "own_current who current"
  shows "emits (refresh_request who dv) (revalidated net digest_of now who bundle current)"
proof -
  have "own_rows who (map snd (filter (\<lambda>p. map_of bundle (fst p) = None) current))"
    using assms by (auto simp: own_current_def own_rows_def list_all_iff)
  then have "yields (\<lambda>d. own_rows who (df_stale d @ df_stamp d))
      (script_revalidate net digest_of now (map snd (filter (\<lambda>p. map_of bundle (fst p) = None) current)))"
    unfolding script_revalidate_def by (rule revalidate_own) (simp add: no_drift_def own_rows_def)
  then show ?thesis
    unfolding revalidated_def script_revalidate_def
    by (intro emits_bind_yields [where R = "\<lambda>d. own_rows who (df_stale d @ df_stamp d)"] emits_fold replay_source_emits
        emits_bind emits_lift emits_return apply_emits)
qed

lemma revalidated_own:
  assumes "own_current who current"
  shows "yields (own_current who) (revalidated net digest_of now who bundle current)"
  unfolding revalidated_def by (intro yields_bind_any yields_return) (use assms in \<open>auto simp: own_current_iff\<close>)

lemma superseded_own:
  assumes "own_current who current" and "reconcile_walked bundle current now scope = (inserts, superseded, unchanged)"
  shows "own_rows who superseded"
proof -
  have closed: "is_own_row who (closed_row now r)" if "(s, r) \<in> set current" for s r
    using assms(1) that by (auto simp: own_current_iff is_own_row_def closed_row_def principal_field_def)
  have "is_own_row who (closed_row now r)" if "map_of current s = Some r" for s r
    using closed [OF map_of_SomeD [OF that]] .
  with closed show ?thesis
    using assms(2)
    by (auto simp: reconcile_walked_def Let_def own_rows_def list_all_iff in_map_filter)
qed

lemma settle_emits: "emits (refresh_request who (ro_dataverse o')) (settle net digest_of now who o' bundle hits adopted)"
proof -
  let ?P = "refresh_request who (ro_dataverse o')"
  have written: "emits ?P (case reconcile_walked bundle current now scope of (inserts, superseded, unchanged) \<Rightarrow>
      io_bind (script_apply net inserts superseded who) (\<lambda>_. io_return (f inserts superseded unchanged)))"
    if "own_current who current" for current f scope
    using superseded_own [OF that] by (auto intro!: emits_bind apply_emits emits_return simp del: io_run split: prod.split)
  have "emits ?P (if ro_revalidate o' then revalidated net digest_of now who bundle stored else io_return stored)"
    "yields (own_current who) (if ro_revalidate o' then revalidated net digest_of now who bundle stored else io_return stored)"
    if "own_current who stored" for stored
    using revalidated_emits [OF that] revalidated_own [OF that] that by (simp_all add: emits_return yields_return del: io_run)
  then show ?thesis
    unfolding settle_def
    by (intro emits_bind_yields [OF current_emits current_yields] emits_bind_yields [where R = "own_current who"] written)
qed

text \<open>
  C30. The refresh stays with its tenant. Whatever the cluster answers, every request of the script
  is one of the bootstrap statements, the walk, the search for rows without an owner, the read of
  the rows its principal may see, a statement behind the pipeline marker, or the write of a
  non-empty list of rows each of which carries that principal as its owner: no row of another
  tenant or of the shared tier is ever written, closed or adopted.
\<close>

theorem refresh_writes_own_rows:
  "emits (refresh_request (refresh_principal s o') (ro_dataverse o')) (run_refresh net s digest_of now o')"
proof -
  have "emits (refresh_request who dv) (script_bundle net dv)" for who dv
    unfolding script_bundle_def by (intro script_emits) (simp add: refresh_request_def)
  then show ?thesis
    unfolding run_refresh_def Let_def
    by (intro emits_bind emits_prod emits_if emits_return refresh_bootstrap_emits ground_emits adopt_emits settle_emits) simp
qed

section \<open>Replayed queries may write\<close>

definition source_queries :: "dict list \<Rightarrow> string list" where
  "source_queries rows = filter (\<lambda>q. strip q \<noteq> []) (List.map_filter (\<lambda>r. as_str (dget ''source_query'' r)) rows)"

lemma script_execute_run:
  "script_execute net st params t = (script_envelope (net (t @ [script_request st params])), t @ [script_request st params])"
  by (simp add: script_execute_def script_request_def io_bind_def)

lemma replay_source_run:
  assumes "dget ''source_query'' row = JStr q" and "strip q \<noteq> []"
  shows "\<exists>r. replay_source net digest_of now d row t = (r, t @ [script_request (marked q) []])
    \<and> (case r of Inl e \<Rightarrow> e \<noteq> PyExc ''RuntimeError'' | Inr d' \<Rightarrow> df_checked d' = Suc (df_checked d))"
proof -
  have run: "on_refusal (io_bind (script_execute net (marked q) []) f) x t
      = (case script_envelope (net (t @ [script_request (marked q) []])) of
           Inl e \<Rightarrow> if e = PyExc ''RuntimeError'' then (Inr x, t @ [script_request (marked q) []])
                   else (Inl e, t @ [script_request (marked q) []])
         | Inr envelope \<Rightarrow> on_refusal (f envelope) x (t @ [script_request (marked q) []]))" for f x
    by (simp add: on_refusal_def io_catch_all_def io_bind_def script_execute_run split: sum.split)
  show ?thesis
    using assms
    by (cases "script_envelope (net (t @ [script_request (marked q) []]))")
      (auto simp: replay_source_def Let_def io_bind_def [of "on_refusal _ _"] run on_refusal_def [of "io_return _"]
        io_catch_all_def drift_verdict_def)
qed

lemma replay_source_skip:
  "source_queries [row] = [] \<Longrightarrow> replay_source net digest_of now d row = io_return d"
  by (auto simp: replay_source_def source_queries_def map_filter_simps split: option.splits if_splits)

lemma replay_fold_run:
  "case io_fold (replay_source net digest_of now) d rows t of
     (Inr d', t') \<Rightarrow> t' = t @ map (\<lambda>q. script_request (marked q) []) (source_queries rows)
                  \<and> df_checked d' = df_checked d + length (source_queries rows)
   | (Inl e, t') \<Rightarrow> e \<noteq> PyExc ''RuntimeError''
                  \<and> (\<exists>n < length (source_queries rows).
                       t' = t @ map (\<lambda>q. script_request (marked q) []) (take (Suc n) (source_queries rows)))"
proof (induction rows arbitrary: d t)
  case (Cons row rows)
  show ?case
  proof (cases "source_queries [row] = []")
    case True
    then have queries: "source_queries (row # rows) = source_queries rows"
      by (auto simp: source_queries_def map_filter_simps split: option.splits if_splits)
    show ?thesis unfolding queries using Cons.IH [of t d] replay_source_skip [OF True] by simp
  next
    case False
    then obtain q where q: "dget ''source_query'' row = JStr q" "strip q \<noteq> []"
      by (cases "dget ''source_query'' row") (auto simp: source_queries_def map_filter_simps split: if_splits)
    then have queries: "source_queries (row # rows) = q # source_queries rows"
      by (simp add: source_queries_def map_filter_simps)
    obtain r where r: "replay_source net digest_of now d row t = (r, t @ [script_request (marked q) []])"
      and rest: "case r of Inl e \<Rightarrow> e \<noteq> PyExc ''RuntimeError'' | Inr d' \<Rightarrow> df_checked d' = Suc (df_checked d)"
      using replay_source_run [OF q] by blast
    show ?thesis
    proof (cases r)
      case (Inl e)
      then show ?thesis using r rest queries by (auto simp: io_bind_def)
    next
      case (Inr d')
      have tail: "io_fold (replay_source net digest_of now) d (row # rows) t
          = io_fold (replay_source net digest_of now) d' rows (t @ [script_request (marked q) []])"
        using r Inr by (simp add: io_bind_def)
      show ?thesis
        using Cons.IH [of "t @ [script_request (marked q) []]" d'] rest queries Inr unfolding tail
        by (auto split: prod.splits sum.splits)
    qed
  qed
qed (simp add: source_queries_def map_filter_simps)

text \<open>
  C31. Replaying the sources of notes is not read-only. The revalidation pass of the script posts
  every source query that the rows record, one after the other in the order of the rows, each
  exactly as the row carries it behind a comment, and counts them all; an answer that refuses a
  query does not stop the pass, and only another exception (an answer that cannot be read, a
  network that fails) breaks it off, after the query it happened on. Each of these requests carries
  that statement and no field that asks for read-only execution, so a
  query that an agent recorded with a note runs with the rights of the operator's script.
\<close>

theorem source_queries_run_unguarded:
  "(case script_revalidate net digest_of now rows t of
      (Inr d, t') \<Rightarrow> t' = t @ map (\<lambda>q. script_request (marked q) []) (source_queries rows)
                   \<and> df_checked d = length (source_queries rows)
    | (Inl e, t') \<Rightarrow> e \<noteq> PyExc ''RuntimeError''
                   \<and> (\<exists>n < length (source_queries rows).
                        t' = t @ map (\<lambda>q. script_request (marked q) []) (take (Suc n) (source_queries rows))))
   \<and> (\<forall>q. \<exists>form. script_request (marked q) [] = QueryPost form script_headers
          \<and> map_of form ''statement'' = Some (marked q) \<and> map_of form ''readonly'' = None)"
proof
  let ?post = "\<lambda>q. script_request (marked q) []"
  note run = replay_fold_run [where d = no_drift and t = t and rows = rows and net = net and digest_of = digest_of and now = now]
  have zero: "df_checked no_drift = 0" by (simp add: no_drift_def)
  show "case script_revalidate net digest_of now rows t of
      (Inr d, t') \<Rightarrow> t' = t @ map ?post (source_queries rows) \<and> df_checked d = length (source_queries rows)
    | (Inl e, t') \<Rightarrow> e \<noteq> PyExc ''RuntimeError''
                   \<and> (\<exists>n < length (source_queries rows). t' = t @ map ?post (take (Suc n) (source_queries rows)))"
    using run unfolding script_revalidate_def zero add_0 .
  show "\<forall>q. \<exists>form. ?post q = QueryPost form script_headers
          \<and> map_of form ''statement'' = Some (marked q) \<and> map_of form ''readonly'' = None"
    by (simp add: script_request_def script_form_def)
qed

end
