(* ===== verification/Offline_Bundle.thy ===== *)
theory Offline_Bundle
  imports Offline_Refresh "HOL-Library.Multiset"
begin

text \<open>
  Export and import of the store as a directory of markdown files (\<open>scripts/okf_bundle.py\<close>). A
  path is its list of parts as \<open>pathlib\<close> has them, a directory the files written in order. What
  \<open>json.loads\<close> makes of a text is an argument.
\<close>

section \<open>Paths\<close>

type_synonym bundle_path = "string list"

definition path_of :: "string \<Rightarrow> bundle_path" where
  "path_of s =
     (let root = (if starts_with s ''//'' \<and> \<not> starts_with s ''///'' then [''//''] else if starts_with s ''/'' then [''/''] else [])
      in root @ filter (\<lambda>p. p \<noteq> [] \<and> p \<noteq> ''.'') (split_on ''/'' s))"

definition is_absolute :: "bundle_path \<Rightarrow> bool" where
  "is_absolute p \<longleftrightarrow> p \<noteq> [] \<and> hd p \<in> {''/'', ''//''}"

definition path_join :: "bundle_path \<Rightarrow> bundle_path \<Rightarrow> bundle_path" where
  "path_join p q = (if is_absolute q then q else p @ q)"

definition as_posix :: "bundle_path \<Rightarrow> string" where
  "as_posix p =
     (if p = [] then ''.'' else if is_absolute p then hd p @ join ''/'' (tl p) else join ''/'' p)"

definition frontmatter_keys :: "string list" where
  "frontmatter_keys =
     [''type'', ''title'', ''description'', ''resource'', ''tags'', ''timestamp'', ''subject'', ''source_query'', ''links'']"

definition dataverse_type :: string where "dataverse_type = ''AsterixDB Dataverse''"
definition index_type :: string where "index_type = ''AsterixDB Index''"
definition type_type :: string where "type_type = ''AsterixDB Datatype''"

definition export_query :: "string \<Rightarrow> string" where
  "export_query condition =
     ''SELECT VALUE m FROM AgentMemory.Memory m WHERE m.kind = '' @ [CHR 0x22] @ ''semantic'' @ [CHR 0x22]
     @ '' AND m.valid_to '' @ condition @ '';''"

definition dataverse_of :: "string \<Rightarrow> string" where
  "dataverse_of subject = takeWhile (\<lambda>c. c \<noteq> CHR ''.'') (takeWhile (\<lambda>c. c \<noteq> CHR ''/'') subject)"

definition row_subject :: "dict \<Rightarrow> string" where
  "row_subject doc = py_str (dget ''subject'' doc)"

text \<open>What follows the first, or the last, occurrence of a character; without one, an IndexError.\<close>

definition after_first :: "char \<Rightarrow> string \<Rightarrow> exn + string" where
  "after_first c s = (if c \<in> set s then Inr (tl (dropWhile (\<lambda>x. x \<noteq> c) s)) else Inl (PyExc ''IndexError''))"

definition after_last :: "char \<Rightarrow> string \<Rightarrow> exn + string" where
  "after_last c s = (if c \<in> set s then Inr (rev (takeWhile (\<lambda>x. x \<noteq> c) (rev s))) else Inl (PyExc ''IndexError''))"

definition concept_path :: "dict \<Rightarrow> exn + bundle_path" where
  "concept_path doc =
     (let subject = row_subject doc; concept = py_str (dget_or ''type'' (JStr []) doc);
          place = (\<lambda>folder name. path_join (path_join (path_of (dataverse_of subject)) [folder]) (path_of (name @ ''.md'')))
      in if concept = dataverse_type
         then Inr (path_join (path_of (dataverse_of subject)) (path_of (dataverse_of subject @ ''.md'')))
         else if concept = index_type
         then (case partition_on ''/index/'' subject of (part, _, index) \<Rightarrow>
                 sum_bind (after_first (CHR ''.'') part) (\<lambda>dataset. Inr (place ''indexes'' (dataset @ ''.'' @ index))))
         else if concept = type_type
         then sum_bind (after_last (CHR ''/'') subject) (\<lambda>name. Inr (place ''types'' name))
         else sum_bind (after_first (CHR ''.'') subject) (\<lambda>name. Inr (place ''datasets'' name)))"

section \<open>One document\<close>

definition frontmatter_line :: "dict \<Rightarrow> string \<Rightarrow> string" where
  "frontmatter_line doc k = k @ '': '' @ json_dumps (dget k doc)"

definition fence :: string where "fence = ''---''"

definition render_frontmatter :: "dict \<Rightarrow> string" where
  "render_frontmatter doc =
     join newline (fence # map (frontmatter_line doc) (filter (\<lambda>k. dget k doc \<noteq> JNull) frontmatter_keys) @ [fence])"

definition parse_line :: "(string \<Rightarrow> json option) \<Rightarrow> dict \<Rightarrow> string \<Rightarrow> dict" where
  "parse_line loads meta line =
     (case partition_on '':'' line of (key, sep, val) \<Rightarrow>
        if sep = [] then meta
        else dict_set (strip key) (case loads (strip val) of Some v \<Rightarrow> v | None \<Rightarrow> JStr (strip val)) meta)"

definition parse_frontmatter :: "(string \<Rightarrow> json option) \<Rightarrow> string \<Rightarrow> dict \<times> string" where
  "parse_frontmatter loads raw =
     (if \<not> starts_with raw (fence @ newline) then ([], raw)
      else case partition_on (newline @ fence @ newline) (drop 4 raw) of (header, _, body) \<Rightarrow>
        (foldl (parse_line loads) [] (split_lines header), strip_left_by is_newline body))"

type_synonym concept_paths = "(string \<times> bundle_path) list"

definition related_heading :: string where "related_heading = ''# Related''"

definition related_line :: "concept_paths \<Rightarrow> bundle_path \<Rightarrow> json \<Rightarrow> string" where
  "related_line paths own link =
     (let target = (case map_of paths (py_str link) of None \<Rightarrow> [] | Some p \<Rightarrow> p);
          rel = path_join (replicate (length own - 1) ''..'') target
      in ''- ['' @ py_str link @ '']('' @ as_posix rel @ '')'')"

text \<open>A link that is not in the bundle is left out; \<open>links\<close> has to be iterable.\<close>

definition render_concept :: "dict \<Rightarrow> concept_paths \<Rightarrow> exn + string" where
  "render_concept doc paths =
     (case map_of paths (row_subject doc) of
        None \<Rightarrow> Inl (PyExc ''KeyError'')
      | Some own \<Rightarrow>
          sum_bind (iterated (dget_or ''links'' (JList []) doc)) (\<lambda>links.
            let related = filter (\<lambda>l. map_of paths (py_str l) \<noteq> None) links;
                body = rstrip (py_str (dget_or ''text'' (JStr []) doc)) @ newline
            in Inr (render_frontmatter doc @ newline @ newline @ body
                    @ (if related = [] then []
                       else newline @ related_heading @ newline @ newline @ concat (map (\<lambda>l. related_line paths own l @ newline) related)))))"

section \<open>Indexes and the log\<close>

definition index_line :: "dict \<Rightarrow> exn + string" where
  "index_line m =
     sum_bind (concept_path m) (\<lambda>p.
       Inr (''* ['' @ py_str (dget_or ''title'' (dget ''subject'' m) m) @ '']('' @ as_posix (tl p) @ '') - ''
            @ py_str (dget_or ''description'' (JStr []) m)))"

definition render_index :: "string \<Rightarrow> dict list \<Rightarrow> exn + string" where
  "render_index title members =
     sum_bind (sum_map_list index_line (sort_key row_subject members)) (\<lambda>lines.
       Inr (join newline ((''# '' @ title) # [] # lines) @ newline))"

definition render_log :: "dict list \<Rightarrow> string" where
  "render_log history =
     join newline (''# Update history'' # []
       # map (\<lambda>r. ''* '' @ py_str (dget_or ''valid_to'' (JStr ''?'') r) @ '' '' @ em_dash @ '' '' @ [backtick]
           @ py_str (dget ''subject'' r) @ [backtick] @ '' superseded (was current since ''
           @ py_str (dget_or ''valid_from'' (JStr ''?'') r) @ '')'')
         (sort_key (\<lambda>r. py_str (dget_or ''valid_to'' (JStr []) r)) history)) @ newline"

section \<open>Export\<close>

type_synonym written_files = "(bundle_path \<times> string) list"

definition exported_rows :: "string option \<Rightarrow> dict list \<Rightarrow> dict list" where
  "exported_rows dataverse rows =
     filter (\<lambda>r. map_of r ''subject'' \<noteq> None \<and> (case dataverse of None \<Rightarrow> True | Some d \<Rightarrow> dataverse_of (row_subject r) = d)) rows"

definition concept_type :: "dict \<Rightarrow> string" where
  "concept_type doc = py_str (dget_or ''type'' (JStr []) doc)"

definition concept_paths_of :: "dict list \<Rightarrow> exn + concept_paths" where
  "concept_paths_of docs =
     sum_bind (sum_map_list (\<lambda>doc. sum_bind (concept_path doc) (\<lambda>p. Inr (row_subject doc, p))) docs) (\<lambda>ps.
     Inr (dict_merge [] ps))"

definition concept_files :: "dict list \<Rightarrow> concept_paths \<Rightarrow> exn + written_files" where
  "concept_files docs paths =
     sum_map_list (\<lambda>doc. sum_bind (concept_path doc) (\<lambda>p. sum_bind (render_concept doc paths) (\<lambda>text. Inr (p, text)))) docs"

text \<open>The members of each dataverse, in the order of their first appearance, and its own document.\<close>

definition members_by_dataverse :: "dict list \<Rightarrow> (string \<times> dict list) list" where
  "members_by_dataverse docs =
     grouped (map (\<lambda>d. (dataverse_of (row_subject d), d)) (filter (\<lambda>d. concept_type d \<noteq> dataverse_type) docs))"

definition dataverse_docs :: "dict list \<Rightarrow> (string \<times> dict) list" where
  "dataverse_docs docs =
     dict_merge [] (map (\<lambda>d. (row_subject d, d)) (filter (\<lambda>d. concept_type d = dataverse_type) docs))"

definition dataverse_files :: "dict list \<Rightarrow> dict list \<Rightarrow> string \<times> dict list \<Rightarrow> exn + written_files" where
  "dataverse_files docs history g =
     (case g of (name, members) \<Rightarrow>
        let title = (case map_of (dataverse_docs docs) name of None \<Rightarrow> name | Some d \<Rightarrow> row_subject d);
            past = filter (\<lambda>h. dataverse_of (row_subject h) = name) history
        in sum_bind (render_index title members) (\<lambda>index.
           Inr ((path_join (path_of name) [''index.md''], index)
                # (if past = [] then [] else [(path_join (path_of name) [''log.md''], render_log past)]))))"

definition root_index :: "dict list \<Rightarrow> string" where
  "root_index docs =
     join newline (''# Knowledge bundle'' # []
       # map (\<lambda>name. ''* ['' @ name @ '']('' @ name @ ''/index.md) - ''
           @ (case map_of (dataverse_docs docs) name of None \<Rightarrow> [] | Some d \<Rightarrow> py_str (dget_or ''description'' (JStr []) d)))
         (sort (map fst (members_by_dataverse docs)))) @ newline"

text \<open>The files of the bundle in the order in which they are written, below the given directory.\<close>

definition bundle_files :: "bundle_path \<Rightarrow> dict list \<Rightarrow> dict list \<Rightarrow> exn + written_files" where
  "bundle_files out docs history =
     sum_bind (concept_paths_of docs) (\<lambda>paths.
     sum_bind (concept_files docs paths) (\<lambda>concepts.
     sum_bind (sum_map_list (dataverse_files docs history) (members_by_dataverse docs)) (\<lambda>per_dataverse.
     Inr (map (\<lambda>(p, text). (path_join out p, text)) (concepts @ concat per_dataverse @ [([''index.md''], root_index docs)])))))"

definition export_bundle :: "network \<Rightarrow> bundle_path \<Rightarrow> string option \<Rightarrow> (nat \<times> written_files) io" where
  "export_bundle net out dataverse =
     io_bind (script_execute net (export_query ''IS UNKNOWN'') []) (\<lambda>now_envelope.
     io_bind (io_lift (plain_rows now_envelope)) (\<lambda>now_rows.
     io_bind (script_execute net (export_query ''IS NOT UNKNOWN'') []) (\<lambda>past_envelope.
     io_bind (io_lift (plain_rows past_envelope)) (\<lambda>past_rows.
       let docs = exported_rows dataverse now_rows
       in io_bind (io_lift (bundle_files out docs (exported_rows dataverse past_rows))) (\<lambda>files.
          io_return (length docs, files))))))"

section \<open>Import\<close>

definition related_go :: "bool \<times> string list \<Rightarrow> string \<Rightarrow> bool \<times> string list" where
  "related_go st line =
     (case st of (skipping, out) \<Rightarrow>
        if strip line = related_heading then (True, out)
        else let skip = (skipping \<and> \<not> starts_with line ''# '')
             in (skip, if skip then out else out @ [line]))"

definition drop_related_section :: "string \<Rightarrow> string" where
  "drop_related_section body =
     rstrip (join newline (snd (foldl related_go (False, []) (split_lines body)))) @ newline"

text \<open>A file by its path below the directory and its text, in the sorted order of the paths.\<close>

definition file_subject :: "bundle_path \<Rightarrow> string" where
  "file_subject p =
     (let name = last p; stem = take (length name - 3) name
      in as_posix (butlast p @ [if stem = [] then name else stem]))"

definition load_file :: "(string \<Rightarrow> json option) \<Rightarrow> bundle_path \<times> string \<Rightarrow> string \<times> dict" where
  "load_file loads f =
     (case parse_frontmatter loads (snd f) of (meta, body) \<Rightarrow>
        let subject = (if truthy (dget ''subject'' meta) then py_str (dget ''subject'' meta) else file_subject (fst f));
            kept = map (\<lambda>k. (k, dget k meta)) (filter (\<lambda>k. map_of meta k \<noteq> None) frontmatter_keys)
        in (subject, dict_merge kept [(''subject'', JStr subject), (''text'', JStr (drop_related_section body))]))"

definition load_bundle :: "(string \<Rightarrow> json option) \<Rightarrow> written_files \<Rightarrow> rows_by_subject" where
  "load_bundle loads files =
     dict_merge [] (map (load_file loads) (filter (\<lambda>f. last (fst f) \<notin> {''index.md'', ''log.md''}) files))"

definition split_layers :: "string \<Rightarrow> string \<Rightarrow> string \<times> string" where
  "split_layers body stored_core =
     (if stored_core = [] then (body, [])
      else let trimmed = strip_right_by is_newline stored_core
           in if starts_with body trimmed
              then (let remainder = strip_by is_newline (drop (length trimmed) body)
                    in (stored_core, if remainder = [] then [] else remainder @ newline))
              else (let core_lines = split_lines trimmed;
                        overlay = join newline (filter (\<lambda>l. strip l \<noteq> [] \<and> l \<notin> set core_lines) (split_lines body))
                    in (stored_core, if overlay = [] then [] else overlay @ newline)))"

text \<open>
  The import as it runs: \<open>fetch_current\<close> is called without the principal it requires, so that
  Python refuses the call before anything is sent.
\<close>

definition import_bundle :: "(string \<Rightarrow> json option) \<Rightarrow> written_files \<Rightarrow> (nat \<times> nat \<times> nat) io" where
  "import_bundle loads files = (let docs = load_bundle loads files in io_raise (PyExc ''TypeError''))"

section \<open>Lines and partitions\<close>

lemma partition_go_skip:
  "\<forall>c \<in> set w. c \<noteq> hd sep \<Longrightarrow> sep \<noteq> [] \<Longrightarrow> partition_go sep acc (w @ s) = partition_go sep (rev w @ acc) s"
proof (induction w arbitrary: acc)
  case (Cons c w)
  then have "\<not> prefix sep (c # w @ s)" by (cases sep) auto
  then show ?case using Cons by simp
qed simp

lemma partition_by_char: "c \<notin> set a \<Longrightarrow> partition_on [c] (a @ c # b) = (a, [c], b)"
  unfolding partition_on_def by (subst partition_go_skip) auto

lemma line_prefix:
  assumes "CHR 0x0A \<notin> set f" and "CHR 0x0A \<notin> set m"
  shows "prefix (f @ newline) (m @ newline @ x) \<longleftrightarrow> f = m"
proof
  assume "prefix (f @ newline) (m @ newline @ x)"
  then obtain y where both: "m @ newline @ x = f @ newline @ y" by (auto simp: prefix_def)
  have "takeWhile (\<lambda>c. c \<noteq> CHR 0x0A) (w @ newline @ z) = w" if "CHR 0x0A \<notin> set w" for w z
    using that by (subst takeWhile_append2) (auto simp: newline_def)
  from this [OF assms(1), of y] this [OF assms(2), of x] show "f = m" unfolding both by simp
qed (simp add: newline_def)

lemma fence_clean: "CHR 0x0A \<notin> set fence" by (simp add: fence_def)

lemma partition_fence:
  assumes "lines \<noteq> []" and "\<forall>l \<in> set lines. CHR 0x0A \<notin> set l \<and> l \<noteq> fence"
  shows "partition_go (newline @ fence @ newline) acc (join newline lines @ newline @ fence @ newline @ rest)
    = (rev acc @ join newline lines, newline @ fence @ newline, rest)"
  using assms
proof (induction lines arbitrary: acc rule: list_nonempty_induct)
  case (single l)
  then show ?case by (subst partition_go_skip) (auto simp: newline_def)
next
  case (cons l lines)
  obtain m tail_text where first: "join newline lines @ newline @ fence @ newline @ rest = m @ newline @ tail_text" "m \<in> set lines"
    using cons.hyps by (cases lines; cases "tl lines") auto
  have skip: "partition_go (newline @ fence @ newline) acc (l @ newline @ x) = partition_go (newline @ fence @ newline) (rev l @ acc) (newline @ x)" for x
    using cons.prems by (subst partition_go_skip) (auto simp: newline_def)
  have "\<not> prefix (newline @ fence @ newline) (newline @ m @ newline @ tail_text)"
    using line_prefix [OF fence_clean, of m tail_text] cons.prems first(2) by (auto simp: newline_def)
  then have step: "partition_go (newline @ fence @ newline) acc' (newline @ m @ newline @ tail_text)
      = partition_go (newline @ fence @ newline) (newline @ acc') (m @ newline @ tail_text)" for acc'
    by (simp add: newline_def)
  show ?case
    using cons.IH [of "newline @ rev l @ acc"] cons.prems cons.hyps skip step [of "rev l @ acc"] first(1)
    by (simp add: join_Cons newline_def)
qed

lemma lines_go_skip: "\<forall>c \<in> set w. \<not> line_break c \<Longrightarrow> lines_go acc (w @ s) = lines_go (rev w @ acc) s"
  by (induction w arbitrary: acc) simp_all

lemma newline_breaks: "line_break (CHR 0x0A)" "code (CHR 0x0A) \<noteq> 13"
  by (simp_all add: line_break_def code_def)

lemma lines_go_newline: "lines_go acc (newline @ s) = rev acc # lines_go [] s"
  using newline_breaks by (simp add: newline_def)

lemma split_lines_join:
  assumes "lines \<noteq> []" and "\<forall>l \<in> set lines. l \<noteq> [] \<and> (\<forall>c \<in> set l. \<not> line_break c)"
  shows "split_lines (join newline lines) = lines"
  using assms unfolding split_lines_def
proof (induction lines rule: list_nonempty_induct)
  case (single l)
  then show ?case using lines_go_skip [of l "[]" "[]"] by simp
next
  case (cons l lines)
  then show ?case using lines_go_skip [of l "[]" "newline @ join newline lines"] by (simp add: join_Cons lines_go_newline)
qed

lemma split_lines_after:
  assumes "\<forall>c \<in> set s. line_break c \<longrightarrow> is_newline c"
  shows "lines_go acc (s @ newline @ r) = lines_go acc (s @ newline) @ lines_go [] r"
  using assms
proof (induction s arbitrary: acc)
  case Nil
  then show ?case using lines_go_newline [of acc r] lines_go_newline [of acc "[]"] by simp
next
  case (Cons c s)
  then show ?case using newline_breaks(2) by auto
qed

section \<open>Text of values\<close>

text \<open>A JSON text has no control character, and neither of its ends is white space.\<close>

lemma hex_digit_code: "n < 16 \<Longrightarrow> 48 \<le> code (hex_digit n)"
  by (simp add: hex_digit_def code_def)

lemma json_char_plain: "d \<in> set (json_char c) \<Longrightarrow> 32 \<le> code d"
proof -
  have "code c < 256" by (simp add: code_def)
  then have "32 \<le> code d" if "d \<in> set (hex2 (code c))" for d
    using that hex_digit_code [of "code c div 16"] hex_digit_code [of "code c mod 16"]
    by (auto simp: hex2_def less_mult_imp_div_less)
  then show "d \<in> set (json_char c) \<Longrightarrow> 32 \<le> code d"
    by (auto simp: json_char_def code_def split: if_splits)
qed

lemma json_quote_plain: "d \<in> set (json_quote s) \<Longrightarrow> 32 \<le> code d"
  using json_char_plain by (auto simp: json_quote_def code_def)

lemma decimals_digits: "0 \<le> r \<Longrightarrow> r < 1 \<Longrightarrow> \<forall>c \<in> set (decimals n r). is_digit c"
proof (induction n arbitrary: r)
  case (Suc n)
  have "nat \<lfloor>r * 10\<rfloor> < 10" using Suc.prems by (simp add: nat_less_iff floor_less_iff)
  moreover have "\<forall>c \<in> set (decimals n (r * 10 - of_int \<lfloor>r * 10\<rfloor>)). is_digit c"
    by (rule Suc.IH) linarith+
  ultimately show ?case using is_digit_char by auto
qed simp

lemma number_chars:
  "c \<in> set (show_int i) \<Longrightarrow> is_digit c \<or> c = CHR ''-''"
  "c \<in> set (show_real r) \<Longrightarrow> is_digit c \<or> c \<in> {CHR ''-'', CHR ''.''}"
proof -
  show int_chars: "c \<in> set (show_int i) \<Longrightarrow> is_digit c \<or> c = CHR ''-''" for c i
    using show_nat_digits by (auto simp: show_int_def split: if_splits)
  have "is_digit (CHR ''0'')" by code_simp
  moreover have "\<forall>c \<in> set (decimals 17 (\<bar>r\<bar> - of_int \<lfloor>\<bar>r\<bar>\<rfloor>)). is_digit c"
    by (rule decimals_digits) linarith+
  ultimately show "c \<in> set (show_real r) \<Longrightarrow> is_digit c \<or> c \<in> {CHR ''-'', CHR ''.''}"
    using int_chars [of c "\<lfloor>\<bar>r\<bar>\<rfloor>"] by (auto simp: show_real_def Let_def split: if_splits)
qed

lemma number_plain: "is_digit c \<or> c \<in> {CHR ''-'', CHR ''.''} \<Longrightarrow> 32 \<le> code c \<and> \<not> py_space c"
  by (auto simp: is_digit_def code_def py_space_def)

lemma set_join_cases: "c \<in> set (join sep xs) \<Longrightarrow> c \<in> set sep \<or> (\<exists>x \<in> set xs. c \<in> set x)"
  using set_join_lines [of sep xs] by auto

lemma json_plain: "c \<in> set (json_dumps v) \<Longrightarrow> 32 \<le> code c"
proof (induction v arbitrary: c rule: json_dumps.induct)
  case (3 i)
  then show ?case using number_chars(1) [of c i] number_plain by auto
next
  case (4 r)
  then show ?case using number_chars(2) [of c r] number_plain by auto
next
  case (5 s)
  then show ?case using json_quote_plain by simp
next
  case (6 xs)
  then show ?case using set_join_cases [of c "'', ''" "map json_dumps xs"] by (auto simp: code_def)
next
  case (7 d)
  then show ?case
    using set_join_cases [of c "'', ''" "map (\<lambda>p. json_quote (fst p) @ '': '' @ json_dumps (snd p)) d"] json_quote_plain
    by (auto simp: code_def)
qed (auto simp: code_def split: if_splits)

lemma json_ends: "json_dumps v \<noteq> [] \<and> \<not> py_space (hd (json_dumps v)) \<and> \<not> py_space (last (json_dumps v))"
proof -
  have some: "show_int i \<noteq> []" "show_real r \<noteq> []" for i r
    by (auto simp: show_int_def show_real_def Let_def)
  have brackets: "\<not> py_space (CHR 0x22)" "\<not> py_space (CHR ''['')" "\<not> py_space (CHR '']'')" "\<not> py_space (CHR ''{'')"
      "\<not> py_space (CHR ''}'')"
    by code_simp+
  have words: "\<not> py_space (hd w) \<and> \<not> py_space (last w)" if "w \<in> {''null'', ''true'', ''false''}" for w
    using that by (elim insertE emptyE; hypsubst; code_simp)
  have plain: "w \<noteq> [] \<and> \<not> py_space (hd w) \<and> \<not> py_space (last w)"
    if "w \<noteq> []" "\<And>c. c \<in> set w \<Longrightarrow> is_digit c \<or> c \<in> {CHR ''-'', CHR ''.''}" for w
    using that number_plain hd_in_set last_in_set by metis
  show ?thesis
  proof (cases v)
    case (JInt i)
    then show ?thesis using plain [OF some(1) [of i]] number_chars(1) [of _ i] by auto
  next
    case (JReal r)
    then show ?thesis using plain [OF some(2) [of r]] number_chars(2) [of _ r] by simp
  next
    case (JBool b)
    then show ?thesis using words [of "json_dumps v"] by (cases b) simp_all
  next
    case JNull
    then show ?thesis using words [of "json_dumps v"] by simp
  qed (use brackets in \<open>simp_all add: json_quote_def\<close>)
qed

lemma json_strip: "strip (json_dumps v) = json_dumps v" "strip (CHR '' '' # json_dumps v) = json_dumps v"
proof -
  show "strip (json_dumps v) = json_dumps v" using json_ends [of v] by (intro strip_by_id) simp
  moreover have "py_space (CHR '' '')" by code_simp
  ultimately show "strip (CHR '' '' # json_dumps v) = json_dumps v" by (simp add: strip_by_def strip_left_by_def)
qed

section \<open>Front matter\<close>

definition given_keys :: "dict \<Rightarrow> string list" where
  "given_keys doc = filter (\<lambda>k. dget k doc \<noteq> JNull) frontmatter_keys"

lemma key_shape: "k \<in> set frontmatter_keys \<Longrightarrow> CHR '':'' \<notin> set k \<and> strip k = k \<and> k \<noteq> [] \<and> (\<forall>c \<in> set k. \<not> line_break c) \<and> hd k \<noteq> CHR ''-''"
proof -
  have "list_all (\<lambda>k. CHR '':'' \<notin> set k \<and> strip k = k \<and> k \<noteq> [] \<and> list_all (\<lambda>c. \<not> line_break c) k \<and> hd k \<noteq> CHR ''-'') frontmatter_keys"
    by code_simp
  then show "k \<in> set frontmatter_keys \<Longrightarrow> ?thesis" by (simp add: list_all_iff)
qed

lemma plain_no_break: "32 \<le> code c \<Longrightarrow> \<not> line_break c"
  by (auto simp: line_break_def)

lemma line_shape:
  assumes "k \<in> set frontmatter_keys"
  shows "frontmatter_line doc k \<noteq> []" "\<forall>c \<in> set (frontmatter_line doc k). \<not> line_break c"
    "CHR 0x0A \<notin> set (frontmatter_line doc k)" "frontmatter_line doc k \<noteq> fence"
proof -
  have "\<not> line_break (CHR '':'')" "\<not> line_break (CHR '' '')" by code_simp+
  then show breaks: "\<forall>c \<in> set (frontmatter_line doc k). \<not> line_break c"
    using key_shape [OF assms] plain_no_break json_plain by (auto simp: frontmatter_line_def)
  then show "CHR 0x0A \<notin> set (frontmatter_line doc k)" using newline_breaks(1) by blast
  show "frontmatter_line doc k \<noteq> []" "frontmatter_line doc k \<noteq> fence"
    using key_shape [OF assms] by (cases k; simp add: frontmatter_line_def fence_def)+
qed

lemma parsed_line:
  assumes "k \<in> set frontmatter_keys" and "loads (json_dumps (dget k doc)) = Some (dget k doc)"
  shows "parse_line loads meta (frontmatter_line doc k) = dict_set k (dget k doc) meta"
proof -
  have "partition_on '':'' (frontmatter_line doc k) = (k, '':'', '' '' @ json_dumps (dget k doc))"
    using partition_by_char [of "CHR '':''" k] key_shape [OF assms(1)] by (simp add: frontmatter_line_def)
  then show ?thesis using assms(2) key_shape [OF assms(1)] json_strip by (simp add: parse_line_def)
qed

lemma parsed_lines:
  assumes "set ks \<subseteq> set frontmatter_keys" and "\<forall>k \<in> set ks. loads (json_dumps (dget k doc)) = Some (dget k doc)"
  shows "foldl (parse_line loads) meta (map (frontmatter_line doc) ks) = dict_merge meta (map (\<lambda>k. (k, dget k doc)) ks)"
  using assms by (induction ks arbitrary: meta) (simp_all add: parsed_line)

lemma parse_rendered:
  assumes "\<forall>k \<in> set (given_keys doc). loads (json_dumps (dget k doc)) = Some (dget k doc)" and "given_keys doc \<noteq> []"
  shows "parse_frontmatter loads (render_frontmatter doc @ newline @ rest)
    = (dict_merge [] (map (\<lambda>k. (k, dget k doc)) (given_keys doc)), strip_left_by is_newline rest)"
proof -
  let ?lines = "map (frontmatter_line doc) (given_keys doc)"
  have keys: "set (given_keys doc) \<subseteq> set frontmatter_keys" by (auto simp: given_keys_def)
  have raw: "render_frontmatter doc @ newline @ rest = fence @ newline @ join newline ?lines @ newline @ fence @ newline @ rest"
  proof -
    have "join newline (xs @ [fence]) = join newline xs @ newline @ fence" if "xs \<noteq> []" for xs
      using that by (induction xs rule: list_nonempty_induct) (simp_all add: join_Cons)
    from this [of ?lines] assms(2) show ?thesis
      by (simp add: render_frontmatter_def given_keys_def [symmetric] join_Cons)
  qed
  have "partition_on (newline @ fence @ newline) (join newline ?lines @ newline @ fence @ newline @ rest)
      = (join newline ?lines, newline @ fence @ newline, rest)"
    unfolding partition_on_def using assms(2) keys line_shape by (subst partition_fence) auto
  moreover have "split_lines (join newline ?lines) = ?lines"
    using assms(2) keys line_shape by (intro split_lines_join) auto
  moreover have "drop 4 (fence @ newline @ x) = x" for x by (simp add: fence_def newline_def)
  ultimately show ?thesis
    using parsed_lines [OF keys assms(1)] unfolding parse_frontmatter_def raw by (simp del: drop_append)
qed

section \<open>The body\<close>

lemma related_kept:
  assumes "\<forall>l \<in> set lines. strip l \<noteq> related_heading"
  shows "foldl related_go (False, out) lines = (False, out @ lines)"
  using assms by (induction lines arbitrary: out) (simp_all add: related_go_def)

lemma related_skipped:
  assumes "\<forall>l \<in> set lines. \<not> starts_with l ''# '' \<or> strip l = related_heading"
  shows "foldl related_go (True, out) lines = (True, out)"
  using assms by (induction lines arbitrary: out) (auto simp: related_go_def)

text \<open>A text whose lines end in line feeds only and of which none is the heading.\<close>

definition plain_body :: "string \<Rightarrow> bool" where
  "plain_body s \<longleftrightarrow> (\<forall>c \<in> set s. line_break c \<longrightarrow> is_newline c) \<and> (\<forall>l \<in> set (split_lines (s @ newline)). strip l \<noteq> related_heading)"

definition related_block :: "string list \<Rightarrow> string" where
  "related_block lines =
     (if lines = [] then [] else newline @ related_heading @ newline @ newline @ concat (map (\<lambda>l. l @ newline) lines))"

lemma lines_of_concat:
  assumes "\<forall>l \<in> set lines. \<forall>c \<in> set l. \<not> line_break c"
  shows "lines_go [] (concat (map (\<lambda>l. l @ newline) lines)) = lines"
  using assms by (induction lines) (simp_all add: lines_go_skip lines_go_newline)

lemma drop_related_block:
  assumes "plain_body s" and "rstrip s = s"
    and "\<forall>l \<in> set lines. (\<forall>c \<in> set l. \<not> line_break c) \<and> \<not> starts_with l ''# ''"
  shows "drop_related_section (s @ newline @ related_block lines) = s @ newline"
proof -
  let ?L = "lines_go [] (s @ newline)"
  have L: "?L \<noteq> []" "join newline ?L = s"
    using join_lines_go [of s "[]"] assms(1) by (simp_all add: plain_body_def)
  have kept: "foldl related_go (False, []) ?L = (False, ?L)"
    using related_kept [of ?L "[]"] assms(1) by (simp add: plain_body_def split_lines_def)
  have all: "split_lines (s @ newline @ related_block lines) = ?L @ lines_go [] (related_block lines)"
    unfolding split_lines_def using assms(1) by (intro split_lines_after) (simp add: plain_body_def)
  show ?thesis
  proof (cases "lines = []")
    case True
    then show ?thesis using all kept L assms(2) by (simp add: drop_related_section_def related_block_def)
  next
    case False
    have heading: "\<forall>c \<in> set related_heading. \<not> line_break c" "strip related_heading = related_heading" "strip [] \<noteq> related_heading"
      "\<not> starts_with [] ''# ''" unfolding list_all_iff [symmetric] by code_simp+
    have "lines_go [] (related_block lines) = [] # related_heading # [] # lines"
      using False lines_of_concat [of lines] assms(3) heading(1)
      by (simp add: related_block_def lines_go_newline lines_go_skip)
    moreover have "foldl related_go (True, out) ([] # lines) = (True, out)" for out
      using assms(3) heading(4) by (intro related_skipped) auto
    ultimately have "snd (foldl related_go (False, []) (split_lines (s @ newline @ related_block lines))) = ?L @ [[]]"
      using all kept heading by (simp add: related_go_def)
    moreover have "join newline (?L @ [[]]) = s @ newline"
    proof -
      have "join newline (xs @ [[]]) = join newline xs @ newline" if "xs \<noteq> []" for xs
        using that by (induction xs rule: list_nonempty_induct) (simp_all add: join_Cons)
      from this [OF L(1)] L(2) show ?thesis by simp
    qed
    moreover have "rstrip (s @ newline) = rstrip s"
    proof -
      have "py_space (CHR 0x0A)" by code_simp
      then show ?thesis by (simp add: strip_right_by_def newline_def)
    qed
    ultimately show ?thesis using assms(2) by (simp add: drop_related_section_def)
  qed
qed

text \<open>A body that was put together from the two layers is taken apart into them again.\<close>

definition clean_core :: "string \<Rightarrow> bool" where
  "clean_core c \<longleftrightarrow> rstrip c \<noteq> [] \<and> strip_right_by is_newline c = rstrip c \<and> \<not> is_newline (hd c)"

definition clean_overlay :: "string \<Rightarrow> bool" where
  "clean_overlay ov \<longleftrightarrow> ov = [] \<or> (\<exists>t. ov = t @ newline \<and> t \<noteq> [] \<and> strip_by is_newline t = t \<and> rstrip t = t)"

lemma strip_right_end:
  "t \<noteq> [] \<Longrightarrow> \<not> p (last t) \<Longrightarrow> \<forall>c \<in> set w. p c \<Longrightarrow> strip_right_by p (x @ t @ w) = x @ t"
proof (cases t rule: rev_cases)
  case (snoc ys y)
  assume "\<not> p (last t)" "\<forall>c \<in> set w. p c"
  then have "dropWhile p (rev w @ y # rev ys @ rev x) = y # rev ys @ rev x"
    using snoc by (subst dropWhile_append2) simp_all
  then show ?thesis using snoc by (simp add: strip_right_by_def)
qed simp

lemma core_parts:
  assumes "clean_core c"
  shows "strip_right_by is_newline c = rstrip c" "rstrip c \<noteq> []" "\<not> is_newline (hd (rstrip c))" "\<not> py_space (last (rstrip c))"
proof -
  show "strip_right_by is_newline c = rstrip c" and some: "rstrip c \<noteq> []" using assms by (simp_all add: clean_core_def)
  show "\<not> is_newline (hd (rstrip c))"
    using hd_strip_right_by [OF some] assms by (simp add: clean_core_def)
  show "\<not> py_space (last (rstrip c))" by (rule last_strip_right_by [OF some])
qed

lemma split_merged:
  assumes "clean_core c" and "clean_overlay ov"
  shows "split_layers (rstrip (merge_layers c ov) @ newline) c = (c, ov)"
    and "rstrip (merge_layers c ov) \<noteq> []" and "\<not> is_newline (hd (rstrip (merge_layers c ov)))"
proof -
  note c = core_parts [OF assms(1)]
  have "c \<noteq> []" using c(2) by (auto simp: strip_right_by_def)
  have space: "py_space (CHR 0x0A)" by code_simp
  have "split_layers (rstrip (merge_layers c ov) @ newline) c = (c, ov) \<and> rstrip (merge_layers c ov) \<noteq> []
    \<and> \<not> is_newline (hd (rstrip (merge_layers c ov)))"
  proof (cases "ov = []")
    case True
    have "strip_by is_newline newline = []" by code_simp
    then show ?thesis using True c \<open>c \<noteq> []\<close> by (simp add: split_layers_def merge_layers_def Let_def)
  next
    case False
    then obtain t where t: "ov = t @ newline" "t \<noteq> []" "strip_by is_newline t = t" "rstrip t = t"
      using assms(2) by (auto simp: clean_overlay_def)
    have ends: "\<not> is_newline (hd t)" "\<not> is_newline (last t)" "\<not> py_space (last t)"
      using strip_by_ends [of is_newline t] last_strip_right_by [of py_space t] t by simp_all
    have nl: "strip_right_by is_newline (x @ t @ newline) = x @ t" for x
      by (rule strip_right_end [where p = is_newline]) (use t(2) ends(2) in \<open>simp_all add: newline_def\<close>)
    have "strip_right_by is_newline ov = t" using nl [of "[]"] unfolding t(1) by (simp only: append_Nil)
    then have merged: "merge_layers c ov = (rstrip c @ newline @ newline) @ t @ newline"
      using False c(1) by (simp add: merge_layers_def)
    have "\<forall>c \<in> set newline. py_space c" using space by (simp add: newline_def)
    then have body: "rstrip (merge_layers c ov) = rstrip c @ newline @ newline @ t"
      unfolding merged using strip_right_end [of t py_space newline "rstrip c @ newline @ newline"] t(2) ends(3) by simp
    have "strip_left_by is_newline (newline @ newline @ t @ newline) = t @ newline"
      using ends(1) t(2) by (cases t) (simp_all add: strip_left_by_def newline_def)
    then have "strip_by is_newline (newline @ newline @ t @ newline) = t"
      using nl [of "[]"] unfolding strip_by_def by (simp only: append_Nil)
    moreover have "starts_with (rstrip (merge_layers c ov) @ newline) (rstrip c)"
      "drop (length (rstrip c)) (rstrip (merge_layers c ov) @ newline) = newline @ newline @ t @ newline"
      unfolding body by simp_all
    ultimately have "split_layers (rstrip (merge_layers c ov) @ newline) c = (c, ov)"
      using t(2) \<open>c \<noteq> []\<close> unfolding split_layers_def Let_def c(1) t(1) by (simp del: drop_append)
    moreover have "rstrip (merge_layers c ov) \<noteq> [] \<and> \<not> is_newline (hd (rstrip (merge_layers c ov)))"
      using c unfolding body by simp
    ultimately show ?thesis by blast
  qed
  then show "split_layers (rstrip (merge_layers c ov) @ newline) c = (c, ov)"
    and "rstrip (merge_layers c ov) \<noteq> []" and "\<not> is_newline (hd (rstrip (merge_layers c ov)))" by simp_all
qed

section \<open>Lists of results, dictionaries of distinct keys\<close>

lemma sum_map_list_all: "sum_map_list f xs = Inr ys \<Longrightarrow> map f xs = map Inr ys"
  by (induction xs arbitrary: ys) (auto simp: sum_bind_Inr_iff)

lemma dict_set_new: "k \<notin> fst ` set d \<Longrightarrow> dict_set k v d = d @ [(k, v)]"
  by (induction d) auto

lemma dict_merge_distinct: "distinct (map fst (d @ ps)) \<Longrightarrow> dict_merge d ps = d @ ps"
  by (induction ps arbitrary: d) (auto simp: dict_set_new)

section \<open>Import of an export\<close>

text \<open>
  Rows that survive: the text is the merge of two clean layers and holds no stray line break and no
  heading of the exporter, and \<open>json.loads\<close> reads back what the front matter shows of the row.
\<close>

definition portable :: "(string \<Rightarrow> json option) \<Rightarrow> dict \<Rightarrow> bool" where
  "portable loads row \<longleftrightarrow>
     (\<exists>s c. dget ''subject'' row = JStr s \<and> s \<noteq> [] \<and> dget ''core'' row = JStr c \<and> clean_core c
        \<and> clean_overlay (old_overlay_of row) \<and> dget ''text'' row = JStr (merge_layers c (old_overlay_of row))
        \<and> plain_body (rstrip (merge_layers c (old_overlay_of row))))
     \<and> (\<forall>k \<in> set (given_keys row). loads (json_dumps (dget k row)) = Some (dget k row))"

text \<open>Subjects and paths as they are written have no line breaks.\<close>

definition plain_links :: "concept_paths \<Rightarrow> bool" where
  "plain_links paths \<longleftrightarrow>
     (\<forall>s p. (s, p) \<in> set paths \<longrightarrow> (\<forall>c \<in> set s. \<not> line_break c) \<and> (\<forall>x \<in> set p. \<forall>c \<in> set x. \<not> line_break c))"

lemma as_posix_plain:
  assumes "\<forall>x \<in> set p. \<forall>c \<in> set x. \<not> line_break c"
  shows "\<forall>c \<in> set (as_posix p). \<not> line_break c"
proof -
  have "\<not> line_break (CHR ''/'')" "\<not> line_break (CHR ''.'')" by code_simp+
  moreover have "set (join ''/'' xs) \<subseteq> {CHR ''/''} \<union> (\<Union>x \<in> set xs. set x)" for xs
    using set_join_lines [of "''/''" xs] by simp
  ultimately show ?thesis
    using assms unfolding as_posix_def by (auto dest!: subsetD dest: hd_in_set list.set_sel(2))
qed

lemma related_line_plain:
  assumes "plain_links paths" and "map_of paths (py_str l) \<noteq> None"
  shows "(\<forall>c \<in> set (related_line paths own l). \<not> line_break c) \<and> \<not> starts_with (related_line paths own l) ''# ''"
proof -
  obtain p where p: "map_of paths (py_str l) = Some p" using assms(2) by blast
  have plain: "\<forall>c \<in> set (py_str l). \<not> line_break c" "\<forall>x \<in> set p. \<forall>c \<in> set x. \<not> line_break c"
    using assms(1) map_of_SomeD [OF p] by (auto simp: plain_links_def)
  have marks: "\<forall>c \<in> set ''- [](.)''. \<not> line_break c" unfolding list_all_iff [symmetric] by code_simp
  have "\<forall>c \<in> set (as_posix (path_join (replicate (length own - 1) ''..'') p)). \<not> line_break c"
    using plain(2) marks by (intro as_posix_plain) (auto simp: path_join_def)
  then show ?thesis using plain(1) marks by (auto simp: related_line_def p)
qed

lemma load_rendered:
  assumes "portable loads row" and "plain_links paths" and "render_concept row paths = Inr raw"
  shows "load_file loads (f, raw) = (row_subject row, dict_merge (map (\<lambda>k. (k, dget k row)) (given_keys row))
    [(''subject'', JStr (row_subject row)), (''text'', JStr (rstrip (merge_layers (old_core_of row) (old_overlay_of row)) @ newline))])"
proof -
  obtain s c where s: "dget ''subject'' row = JStr s" "s \<noteq> []" and c: "dget ''core'' row = JStr c" "clean_core c"
    and ov: "clean_overlay (old_overlay_of row)" and t: "dget ''text'' row = JStr (merge_layers c (old_overlay_of row))"
    and plain: "plain_body (rstrip (merge_layers c (old_overlay_of row)))"
    and loads: "\<forall>k \<in> set (given_keys row). loads (json_dumps (dget k row)) = Some (dget k row)"
    using assms(1) by (auto simp: portable_def)
  let ?body = "rstrip (merge_layers c (old_overlay_of row))"
  have core: "old_core_of row = c" using c core_parts(2) [OF c(2)] by (auto simp: old_core_of_def py_or_def strip_right_by_def)
  have subject: "''subject'' \<in> set (given_keys row)" using s by (simp add: given_keys_def frontmatter_keys_def)
  have "dget_or ''text'' (JStr []) row = dget ''text'' row" using t by (auto simp: dget_def dget_or_def split: option.splits)
  then obtain own links where own: "map_of paths (row_subject row) = Some own"
    and written: "raw = (let related = filter (\<lambda>l. map_of paths (py_str l) \<noteq> None) links in
        render_frontmatter row @ newline @ newline @ (?body @ newline)
        @ (if related = [] then [] else newline @ related_heading @ newline @ newline @ concat (map (\<lambda>l. related_line paths own l @ newline) related)))"
    using assms(3) t by (cases "map_of paths (row_subject row)") (auto simp: render_concept_def sum_bind_Inr_iff Let_def)
  have raw: "raw = render_frontmatter row @ newline @ newline @ ?body @ newline
      @ related_block (map (related_line paths own) (filter (\<lambda>l. map_of paths (py_str l) \<noteq> None) links))"
    unfolding written by (simp add: related_block_def comp_def Let_def)
  let ?rest = "?body @ newline @ related_block (map (related_line paths own) (filter (\<lambda>l. map_of paths (py_str l) \<noteq> None) links))"
  have "strip_left_by is_newline (newline @ ?rest) = ?rest"
    using split_merged(2,3) [OF c(2) ov] by (cases ?body) (simp_all add: strip_left_by_def newline_def)
  moreover have "given_keys row \<noteq> []" using subject by (cases "given_keys row") simp_all
  ultimately have parsed: "parse_frontmatter loads raw = (dict_merge [] (map (\<lambda>k. (k, dget k row)) (given_keys row)), ?rest)"
    using parse_rendered [OF loads, of "newline @ ?rest"] by (simp add: raw)
  have "distinct frontmatter_keys" by code_simp
  then have distinct: "distinct (given_keys row)" by (simp add: given_keys_def)
  then have pairs: "dict_merge [] (map (\<lambda>k. (k, dget k row)) (given_keys row)) = map (\<lambda>k. (k, dget k row)) (given_keys row)"
    by (subst dict_merge_distinct) (simp_all add: comp_def)
  have meta: "map_of (map (\<lambda>k. (k, dget k row)) (given_keys row)) k = (if k \<in> set (given_keys row) then Some (dget k row) else None)" for k
    by (simp add: map_of_map_restrict restrict_map_def)
  then have read: "dget k (map (\<lambda>k. (k, dget k row)) (given_keys row)) = dget k row" if "k \<in> set (given_keys row)" for k
    using that by (simp add: dget_def [of _ "map _ _"])
  have "filter (\<lambda>k. k \<in> set (given_keys row)) frontmatter_keys = given_keys row"
    unfolding given_keys_def by (auto intro: filter_cong)
  then have kept: "map (\<lambda>k. (k, dget k (map (\<lambda>k. (k, dget k row)) (given_keys row))))
        (filter (\<lambda>k. map_of (map (\<lambda>k. (k, dget k row)) (given_keys row)) k \<noteq> None) frontmatter_keys)
      = map (\<lambda>k. (k, dget k row)) (given_keys row)"
    using read by (simp add: meta cong: map_cong)
  have "drop_related_section ?rest = ?body @ newline"
    using related_line_plain [OF assms(2)] plain
    by (intro drop_related_block) (auto simp: strip_right_by_def)
  then show ?thesis
    using s subject unfolding load_file_def Let_def fst_conv snd_conv parsed pairs prod.case kept
    by (simp add: read row_subject_def core)
qed

text \<open>The document that is read back for one row.\<close>

definition read_back :: "dict \<Rightarrow> dict \<Rightarrow> bool" where
  "read_back row doc \<longleftrightarrow>
     fst ` set doc = insert ''text'' (set (given_keys row))
     \<and> (\<forall>k \<in> set (given_keys row) - {''text''}. dget k doc = dget k row)
     \<and> (let stored = py_str (py_or (dget ''core'' row) (JStr []))
        in split_layers (py_str (dget ''text'' doc)) stored = (stored, old_overlay_of row))"

lemma rendered_read_back:
  assumes "portable loads row" and "plain_links paths" and "render_concept row paths = Inr raw"
  shows "fst (load_file loads (f, raw)) = row_subject row \<and> read_back row (snd (load_file loads (f, raw)))"
proof -
  obtain s c where s: "dget ''subject'' row = JStr s" "s \<noteq> []" and c: "dget ''core'' row = JStr c" "clean_core c"
    and ov: "clean_overlay (old_overlay_of row)"
    using assms(1) by (auto simp: portable_def)
  have core: "old_core_of row = c" "py_str (py_or (dget ''core'' row) (JStr [])) = c"
    using c core_parts(2) [OF c(2)] by (auto simp: old_core_of_def py_or_def strip_right_by_def)
  have subject: "''subject'' \<in> set (given_keys row)" using s by (simp add: given_keys_def frontmatter_keys_def)
  let ?kept = "map (\<lambda>k. (k, dget k row)) (given_keys row)"
  have meta: "map_of ?kept k = (if k \<in> set (given_keys row) then Some (dget k row) else None)" for k
    by (simp add: map_of_map_restrict restrict_map_def)
  let ?doc = "dict_merge ?kept [(''subject'', JStr (row_subject row)), (''text'', JStr (rstrip (merge_layers c (old_overlay_of row)) @ newline))]"
  have "fst ` set ?doc = insert ''text'' (set (given_keys row))"
    using subject by (auto simp: set_dict_set_fst image_image)
  moreover have "dget k ?doc = dget k row" if "k \<in> set (given_keys row)" "k \<noteq> ''text''" for k
    using that s by (cases "k = ''subject''") (simp_all add: dget_def [of _ "dict_set _ _ _"] dget_def [of _ "map _ _"] meta row_subject_def)
  moreover have "split_layers (py_str (dget ''text'' ?doc)) c = (c, old_overlay_of row)"
    using split_merged(1) [OF c(2) ov] by simp
  ultimately show ?thesis
    using load_rendered [OF assms, of f] unfolding read_back_def Let_def core by simp
qed


definition orders_row :: dict where
  "orders_row =
     [(''subject'', JStr ''shop.orders''), (''type'', JStr ''AsterixDB Dataset''), (''core'', JStr (''Orders of the shop'' @ newline)),
      (''overlay'', JStr (''Amounts are in cents'' @ newline)),
      (''text'', JStr (merge_layers (''Orders of the shop'' @ newline) (''Amounts are in cents'' @ newline)))]"

definition reads_back :: "string \<Rightarrow> json option" where
  "reads_back = map_of (map (\<lambda>v. (json_dumps v, v)) [JStr ''shop.orders'', JStr ''AsterixDB Dataset''])"

definition orders_paths :: concept_paths where
  "orders_paths = [(''shop.orders'', [''shop'', ''datasets'', ''orders.md''])]"


section \<open>Where the round trip ends\<close>

text \<open>A data set named like a reserved file is written out but never read back.\<close>

lemma reserved_name_lost:
  "concept_path [(''subject'', JStr ''shop.index''), (''type'', JStr ''AsterixDB Dataset'')] = Inr [''shop'', ''datasets'', ''index.md'']"
  "load_bundle loads [([''shop'', ''datasets'', ''index.md''], raw)] = []"
  by code_simp (simp add: load_bundle_def)

text \<open>A blank at the end of the core makes its last line an overlay.\<close>

lemma trailing_blank_becomes_overlay:
  "split_layers (rstrip (''Orders '' @ newline) @ newline) (''Orders '' @ newline) = (''Orders '' @ newline, ''Orders'' @ newline)"
  by code_simp

text \<open>A note on a whole dataverse ends the export; a subject can lead out of the directory.\<close>

lemma undotted_subject_breaks_export:
  "concept_path [(''subject'', JStr ''shop''), (''type'', JStr ''Note'')] = Inl (PyExc ''IndexError'')"
  by code_simp

lemma subject_leaves_directory:
  "concept_path [(''subject'', JStr ''shop./tmp/x''), (''type'', JStr ''Note'')] = Inr [''/'', ''tmp'', ''x.md'']"
  "path_join [''out''] [''/'', ''tmp'', ''x.md''] = [''/'', ''tmp'', ''x.md'']"
  by code_simp+

text \<open>The import itself never gets as far: whatever the files, it raises before it sends anything.\<close>

lemma import_bundle_raises: "import_bundle loads files t = (Inl (PyExc ''TypeError''), t)"
  by (simp add: import_bundle_def)

end
