(* ===== verification/Offline_Consolidate.thy ===== *)
theory Offline_Consolidate
  imports Offline_Bundle Distill "HOL-Library.Multiset"
begin

text \<open>
  The other scripts that rewrite the store: consolidation (\<open>scripts/okf_consolidate.py\<close>), offline
  distillation (\<open>scripts/memory_distill.py\<close>) and the migration of labels
  (\<open>scripts/memory_migrate_labels.py\<close>). Times are seconds as far as they parse, powers of one half
  are a function of the exponent, \<open>json.loads\<close> is an argument.
\<close>

section \<open>Consolidation\<close>

definition default_trust :: rat where "default_trust = 1"
definition access_half_life_bonus :: rat where "access_half_life_bonus = 1 / 2"

definition fetch_all_current :: "network \<Rightarrow> dict list io" where
  "fetch_all_current net =
     io_bind (script_execute net (export_query ''IS UNKNOWN'') []) (\<lambda>envelope.
     io_bind (io_lift (plain_rows envelope)) (\<lambda>rows. io_return (filter (\<lambda>r. map_of r ''subject'' \<noteq> None) rows)))"

definition valid_from_text :: "dict \<Rightarrow> string" where
  "valid_from_text row = py_str (dget_or ''valid_from'' (JStr []) row)"

definition closed_as :: "string \<Rightarrow> string \<Rightarrow> dict \<Rightarrow> dict" where
  "closed_as now reason row = dict_merge row [(''valid_to'', JStr now), (''superseded_by'', JStr reason)]"

definition dedup_row ::
  "string \<Rightarrow> (string \<times> dict) list \<times> dict list \<Rightarrow> dict \<Rightarrow> (string \<times> dict) list \<times> dict list" where
  "dedup_row now st row =
     (case st of (newest, superseded) \<Rightarrow>
        (case map_of newest (row_subject row) of
           None \<Rightarrow> (dict_set (row_subject row) row newest, superseded)
         | Some rival \<Rightarrow>
             (if valid_from_text row \<le> valid_from_text rival
              then (newest, superseded @ [closed_as now ''consolidation-dedup'' row])
              else (dict_set (row_subject row) row newest, superseded @ [closed_as now ''consolidation-dedup'' rival]))))"

definition dedup :: "dict list \<Rightarrow> string \<Rightarrow> dict list \<times> dict list" where
  "dedup rows now = (case foldl (dedup_row now) ([], []) rows of (newest, superseded) \<Rightarrow> (map snd newest, superseded))"

record decay_env =
  de_time :: "string \<Rightarrow> rat option"
  de_half :: "rat \<Rightarrow> rat"
  de_now :: rat
  de_now_iso :: string
  de_half_life :: rat

definition parse_time :: "decay_env \<Rightarrow> json \<Rightarrow> rat option" where
  "parse_time e v = (case as_str v of None \<Rightarrow> None | Some s \<Rightarrow> de_time e s)"

definition or_else :: "'a option \<Rightarrow> 'a option \<Rightarrow> 'a option" where
  "or_else x y = (case x of None \<Rightarrow> y | Some v \<Rightarrow> Some v)"

definition decayed_trust :: "decay_env \<Rightarrow> dict \<Rightarrow> exn + rat" where
  "decayed_trust e row =
     (let last_used = (case or_else (parse_time e (dget ''last_used'' row)) (parse_time e (dget ''valid_from'' row)) of
            None \<Rightarrow> de_now e | Some t \<Rightarrow> t);
          idle_days = max ((de_now e - last_used) / seconds_per_day) 0;
          accesses = (case as_number (dget ''access_count'' row) of None \<Rightarrow> 0 | Some n \<Rightarrow> n);
          half_life = de_half_life e * (1 + access_half_life_bonus * accesses);
          base = (case as_number (dget ''trust'' row) of None \<Rightarrow> default_trust | Some n \<Rightarrow> n)
      in if half_life = 0 then Inl (PyExc ''ZeroDivisionError'') else Inr (base * de_half e (idle_days / half_life)))"

text \<open>\<open>round(x, 4)\<close>, a tie to the even digit.\<close>

definition round4 :: "rat \<Rightarrow> rat" where
  "round4 x =
     (let y = x * 10000; n = \<lfloor>y\<rfloor>; r = y - of_int n;
          k = (if r < 1 / 2 then n else if 1 / 2 < r then n + 1 else if even n then n else n + 1)
      in of_int k / 10000)"

record consolidation =
  cn_updates :: "dict list"
  cn_superseded :: "dict list"
  cn_exempt :: nat

definition consolidate_row :: "decay_env \<Rightarrow> rat \<Rightarrow> consolidation \<Rightarrow> dict \<Rightarrow> exn + consolidation" where
  "consolidate_row e floor_trust c row =
     (if is_walk_owned row then Inr (c\<lparr>cn_exempt := cn_exempt c + 1\<rparr>)
      else sum_bind (decayed_trust e row) (\<lambda>t.
        let trust = round4 t
        in Inr (if trust < floor_trust
                then c\<lparr>cn_superseded := cn_superseded c @ [closed_as (de_now_iso e) ''consolidation-decay'' row]\<rparr>
                else if as_number (dget ''trust'' row) \<noteq> Some trust
                then c\<lparr>cn_updates := cn_updates c @ [dict_set ''trust'' (JReal trust) row]\<rparr>
                else c)))"

fun consolidate_go :: "decay_env \<Rightarrow> rat \<Rightarrow> consolidation \<Rightarrow> dict list \<Rightarrow> exn + consolidation" where
  "consolidate_go e floor_trust c [] = Inr c"
| "consolidate_go e floor_trust c (row # rows) =
     sum_bind (consolidate_row e floor_trust c row) (\<lambda>c'. consolidate_go e floor_trust c' rows)"

definition consolidate :: "decay_env \<Rightarrow> rat \<Rightarrow> dict list \<Rightarrow> exn + consolidation" where
  "consolidate e floor_trust rows = consolidate_go e floor_trust \<lparr>cn_updates = [], cn_superseded = [], cn_exempt = 0\<rparr> rows"

record consolidation_report =
  cr_rows :: nat
  cr_duplicates :: nat
  cr_trust_updates :: nat
  cr_forgotten :: nat
  cr_walk_owned :: nat

text \<open>
  Without \<open>--dry-run\<close> the result goes to \<open>apply\<close>, which is called without the principal it requires:
  Python refuses the call.
\<close>

definition run_consolidation :: "network \<Rightarrow> decay_env \<Rightarrow> rat \<Rightarrow> bool \<Rightarrow> consolidation_report io" where
  "run_consolidation net e floor_trust dry_run =
     io_bind (script_bootstrap net bootstrap_statements) (\<lambda>_.
     io_bind (fetch_all_current net) (\<lambda>rows.
     case dedup rows (de_now_iso e) of (kept, duplicates) \<Rightarrow>
       io_bind (io_lift (consolidate e floor_trust kept)) (\<lambda>c.
         if dry_run
         then io_return \<lparr>cr_rows = length rows, cr_duplicates = length duplicates, cr_trust_updates = length (cn_updates c),
                cr_forgotten = length (cn_superseded c), cr_walk_owned = cn_exempt c\<rparr>
         else io_raise (PyExc ''TypeError''))))"

section \<open>Distillation\<close>

text \<open>The lines of the session logs, in the order of the files.\<close>

definition load_events :: "(string \<Rightarrow> json option) \<Rightarrow> string list \<Rightarrow> dict list" where
  "load_events loads lines = dicts_of (List.map_filter loads lines)"

text \<open>\<open>except Exception\<close> around the request alone.\<close>

definition load_cluster_events :: "network \<Rightarrow> dict list io" where
  "load_cluster_events net =
     io_bind (io_catch_all (io_bind (script_execute net events_query []) (\<lambda>d. io_return (Some d))) (\<lambda>_. io_return None)) (\<lambda>envelope.
       case envelope of None \<Rightarrow> io_return [] | Some d \<Rightarrow> io_lift (plain_rows d))"

definition offline_note :: "network \<Rightarrow> string \<Rightarrow> string \<Rightarrow> string \<Rightarrow> string option \<Rightarrow> string io" where
  "offline_note net now subject body source_query =
     io_bind (script_execute net (replace_all ''$subject'' ([CHR 0x22] @ subject @ [CHR 0x22]) current_query) []) (\<lambda>envelope.
     io_bind (io_lift (plain_rows envelope)) (\<lambda>rows.
       let existing = (case rows of [] \<Rightarrow> None | r # _ \<Rightarrow> Some r)
       in case reconcile existing subject body now [] [''distilled''] source_query None of (action, row, _) \<Rightarrow>
            if action = ''unchanged'' then io_return action
            else io_bind (case existing of
                     None \<Rightarrow> io_return []
                   | Some e \<Rightarrow> script_execute net (replace_all ''$row'' (json_dumps (JDict (closed_row now e))) upsert_row) []) (\<lambda>_.
                 io_bind (script_execute net (replace_all ''$row'' (json_dumps (JDict row)) insert_row) []) (\<lambda>_.
                 io_return action))))"

definition run_offline_distill ::
  "network \<Rightarrow> string \<Rightarrow> dict list \<Rightarrow> nat \<Rightarrow> nat \<Rightarrow> bool \<Rightarrow> (string \<times> nat) list io" where
  "run_offline_distill net now logged min_sessions min_failures dry_run =
     io_bind (load_cluster_events net) (\<lambda>stored.
     io_bind (io_lift (dedupe_events (stored @ logged))) (\<lambda>events.
       if dry_run then io_return []
       else io_fold (\<lambda>summary l. case l of (subject, body, q) \<Rightarrow>
              io_bind (offline_note net now subject body q) (\<lambda>action. io_return (count_action action summary)))
            [] (map (\<lambda>(subject, body, q). (subject, body, Some q)) (proven_queries events min_sessions)
                @ map (\<lambda>(subject, body). (subject, body, None)) (recurring_failures events min_failures))))"

section \<open>Labels\<close>

definition unverified_label :: string where "unverified_label = ''(unverified)''"
definition capture_marker :: string where "capture_marker = ''| working form:''"
definition distill_marker :: string where "distill_marker = ''Proven query,''"

definition labelled_rows_query :: string where
  "labelled_rows_query =
     ''SELECT VALUE m FROM AgentMemory.Memory m WHERE m.valid_to IS UNKNOWN AND m.`type` LIKE '' @ [CHR 0x22]
     @ ''AsterixDB %'' @ [CHR 0x22] @ '';''"

definition is_labelled :: "string \<Rightarrow> bool" where
  "is_labelled block \<longleftrightarrow>
     starts_with block unverified_label \<or> contains capture_marker block \<or> starts_with block distill_marker"

definition label_block :: "string \<Rightarrow> string" where
  "label_block block = (if is_labelled block then block else unverified_label @ '' '' @ block)"

definition migrate_overlay :: "string \<Rightarrow> string \<times> nat" where
  "migrate_overlay overlay =
     (let blocks = blocks_of overlay
      in if blocks = [] then ([], 0)
         else (join blank_line (map label_block blocks) @ newline, length (filter (\<lambda>b. \<not> is_labelled b) blocks)))"

definition relabelled_row :: "string \<Rightarrow> string \<Rightarrow> dict \<Rightarrow> dict" where
  "relabelled_row now new_overlay row =
     (let core = old_core_of row
      in dict_merge row
           [(''id'', JStr (row_subject row @ ''@'' @ now)), (''valid_from'', JStr now), (''core'', JStr core),
            (''overlay'', JStr new_overlay), (''text'', JStr (strip_right_by is_newline core @ blank_line @ new_overlay)),
            (''last_used'', JStr now)])"

text \<open>A row without a subject raises before anything of it is written.\<close>

definition rewrite_row :: "network \<Rightarrow> string \<Rightarrow> dict \<Rightarrow> string \<Rightarrow> unit io" where
  "rewrite_row net now row new_overlay =
     (if map_of row ''subject'' = None then io_raise (PyExc ''KeyError'')
      else io_bind (script_execute net (replace_all ''$row'' (json_dumps (JDict (closed_row now row))) upsert_row) []) (\<lambda>_.
           io_bind (script_execute net (replace_all ''$row'' (json_dumps (JDict (relabelled_row now new_overlay row))) insert_row) []) (\<lambda>_.
           io_return ())))"

definition migrate_row :: "network \<Rightarrow> string \<Rightarrow> bool \<Rightarrow> nat \<times> nat \<Rightarrow> dict \<Rightarrow> (nat \<times> nat) io" where
  "migrate_row net now dry_run counts row =
     (case counts of (concepts, blocks) \<Rightarrow>
        case migrate_overlay (old_overlay_of row) of (new_overlay, changed) \<Rightarrow>
          if strip (old_overlay_of row) = [] \<or> changed = 0 then io_return counts
          else io_bind (if dry_run then io_return () else rewrite_row net now row new_overlay) (\<lambda>_.
               io_return (concepts + 1, blocks + changed)))"

definition run_label_migration :: "network \<Rightarrow> string \<Rightarrow> bool \<Rightarrow> (nat \<times> nat \<times> nat) io" where
  "run_label_migration net now dry_run =
     io_bind (script_execute net labelled_rows_query []) (\<lambda>envelope.
     io_bind (io_lift (plain_rows envelope)) (\<lambda>rows.
     io_bind (io_fold (migrate_row net now dry_run) (0, 0) rows) (\<lambda>(concepts, blocks).
     io_return (length rows, concepts, blocks))))"

section \<open>Deduplication\<close>

definition subject_key :: "string \<times> dict \<Rightarrow> bool" where
  "subject_key p \<longleftrightarrow> fst p = row_subject (snd p)"

text \<open>
  What holds of the rows read so far: every key has its own row, which is at least as new as each
  row of that subject, and the rows read are those kept and those closed.
\<close>

definition dedup_inv :: "string \<Rightarrow> dict list \<Rightarrow> (string \<times> dict) list \<times> dict list \<Rightarrow> bool" where
  "dedup_inv now rows st \<longleftrightarrow>
     distinct (map fst (fst st)) \<and> list_all subject_key (fst st)
     \<and> (\<forall>r \<in> set rows. \<exists>k. (row_subject r, k) \<in> set (fst st) \<and> valid_from_text r \<le> valid_from_text k)
     \<and> (\<exists>olds. snd st = map (closed_as now ''consolidation-dedup'') olds \<and> mset (map snd (fst st) @ olds) = mset rows)"

lemma mset_dict_set:
  assumes "map_of d k = Some v0"
  shows "add_mset v0 (mset (map snd (dict_set k v d))) = add_mset v (mset (map snd d))"
  using assms by (induction d) (auto split: if_splits)

lemma mset_swapped:
  assumes "add_mset a (mset xs) = add_mset b (mset ys)" and "mset (ys @ zs) = mset ws"
  shows "mset (xs @ zs @ [a]) = mset (ws @ [b])"
proof -
  have "mset (xs @ zs @ [a]) = add_mset a (mset xs) + mset zs" by simp
  also have "\<dots> = add_mset b (mset ys) + mset zs" by (simp only: assms(1))
  also have "\<dots> = mset (ws @ [b])" using assms(2) by simp
  finally show ?thesis .
qed

lemma dict_set_absent: "map_of d k = None \<Longrightarrow> dict_set k v d = d @ [(k, v)]"
  by (induction d) (auto split: if_splits)

lemma in_dict_set: "(k', x) \<in> set d \<Longrightarrow> k' \<noteq> k \<Longrightarrow> (k', x) \<in> set (dict_set k v d)"
  by (induction d) (auto split: if_splits)

lemma dict_set_in: "(k, v) \<in> set (dict_set k v d)"
  by (induction d) auto

lemma dict_set_from: "p \<in> set (dict_set k v d) \<Longrightarrow> p = (k, v) \<or> p \<in> set d"
  by (induction d) (auto split: if_splits)

lemma dedup_row_inv:
  assumes inv: "dedup_inv now rows st"
  shows "dedup_inv now (rows @ [row]) (dedup_row now st row)"
proof -
  obtain newest superseded where st: "st = (newest, superseded)" by (cases st)
  let ?k = "row_subject row"
  let ?close = "closed_as now ''consolidation-dedup''"
  have d: "distinct (map fst newest)" and keys: "list_all subject_key newest"
    and best: "\<forall>r \<in> set rows. \<exists>k. (row_subject r, k) \<in> set newest \<and> valid_from_text r \<le> valid_from_text k"
    using inv st by (simp_all add: dedup_inv_def)
  obtain olds where olds: "superseded = map ?close olds" "mset (map snd newest @ olds) = mset rows"
    using inv st by (auto simp: dedup_inv_def)
  have keyed: "list_all subject_key (dict_set ?k row newest)"
    using keys by (auto simp: list_all_iff subject_key_def dest!: dict_set_from)
  show ?thesis
  proof (cases "map_of newest ?k")
    case None
    then have "dedup_row now st row = (newest @ [(?k, row)], superseded)"
      using st by (simp add: dedup_row_def dict_set_absent)
    then show ?thesis
      using d keys best olds None
      by (auto simp: dedup_inv_def subject_key_def map_of_eq_None_iff intro!: exI [of _ olds])
  next
    case (Some rival)
    have rival: "(?k, rival) \<in> set newest" using map_of_SomeD [OF Some] .
    show ?thesis
    proof (cases "valid_from_text row \<le> valid_from_text rival")
      case True
      then have "dedup_row now st row = (newest, map ?close (olds @ [row]))"
        using st Some olds(1) by (simp add: dedup_row_def)
      then show ?thesis
        using d keys best rival True olds(2) by (auto simp: dedup_inv_def intro!: exI [of _ "olds @ [row]"])
    next
      case False
      have "\<exists>k. (row_subject r, k) \<in> set (dict_set ?k row newest) \<and> valid_from_text r \<le> valid_from_text k"
        if r: "r \<in> set rows" for r
      proof -
        obtain k where k: "(row_subject r, k) \<in> set newest" "valid_from_text r \<le> valid_from_text k"
          using best r by blast
        show ?thesis
        proof (cases "row_subject r = ?k")
          case True
          then have "k = rival" using k(1) d Some by (simp add: map_of_eq_Some_iff)
          moreover have "valid_from_text rival \<le> valid_from_text row" using False by (simp only: linorder_not_le less_imp_le)
          ultimately have "valid_from_text r \<le> valid_from_text row" using k(2) order_trans by blast
          then show ?thesis using True dict_set_in [of ?k row newest] by auto
        next
          case False
          then show ?thesis using in_dict_set [OF k(1)] k(2) by blast
        qed
      qed
      moreover have "dedup_row now st row = (dict_set ?k row newest, map ?close (olds @ [rival]))"
        using st Some olds(1) False by (simp add: dedup_row_def)
      moreover have "mset (map snd (dict_set ?k row newest) @ olds @ [rival]) = mset (rows @ [row])"
        using mset_dict_set [OF Some] olds(2) by (rule mset_swapped)
      ultimately show ?thesis
        using d keyed dict_set_in [of ?k row newest] by (auto simp: dedup_inv_def intro!: exI [of _ "olds @ [rival]"])
    qed
  qed
qed

lemma dedup_inv_all: "dedup_inv now rows (foldl (dedup_row now) ([], []) rows)"
proof (induction rows rule: rev_induct)
  case Nil
  show ?case by (simp add: dedup_inv_def)
next
  case (snoc row rows)
  then show ?case using dedup_row_inv by simp
qed

text \<open>
  C32. Deduplication keeps one newest row per subject and loses none. Of the current rows of the
  store exactly one of every subject is kept, no row of that subject has a later \<open>valid_from\<close>,
  and all the others come back once each, closed at the time of the pass with its reason.
\<close>
theorem dedup_keeps_newest:
  assumes "dedup rows now = (kept, superseded)"
  shows "distinct (map row_subject kept)
    \<and> (\<forall>r \<in> set rows. \<exists>k \<in> set kept. row_subject k = row_subject r \<and> valid_from_text r \<le> valid_from_text k)
    \<and> (\<exists>olds. superseded = map (closed_as now ''consolidation-dedup'') olds \<and> mset (kept @ olds) = mset rows)"
proof -
  obtain newest where fold: "foldl (dedup_row now) ([], []) rows = (newest, superseded)" and kept: "kept = map snd newest"
    using assms by (auto simp: dedup_def split: prod.splits)
  have inv: "dedup_inv now rows (newest, superseded)" using dedup_inv_all [of now rows] fold by simp
  then have keys: "map row_subject kept = map fst newest"
    by (auto simp: dedup_inv_def kept list_all_iff subject_key_def)
  show ?thesis
  proof (intro conjI ballI)
    show "distinct (map row_subject kept)" using inv keys by (simp add: dedup_inv_def)
    show "\<exists>k \<in> set kept. row_subject k = row_subject r \<and> valid_from_text r \<le> valid_from_text k" if "r \<in> set rows" for r
      using inv that by (force simp: dedup_inv_def kept list_all_iff subject_key_def)
    show "\<exists>olds. superseded = map (closed_as now ''consolidation-dedup'') olds \<and> mset (kept @ olds) = mset rows"
      using inv by (simp add: dedup_inv_def kept)
  qed
qed

lemma dedup_keeps_newest_witness:
  "let a = [(''subject'', JStr ''Yelp.Users''), (''valid_from'', JStr ''2025-01-01'')];
       b = [(''subject'', JStr ''Yelp.Users''), (''valid_from'', JStr ''2025-02-01'')]
   in dedup [a, b] ''2025-03-01'' = ([b], [closed_as ''2025-03-01'' ''consolidation-dedup'' a]) \<and> distinct (map row_subject [b])"
proof -
  let ?a = "[(''subject'', JStr ''Yelp.Users''), (''valid_from'', JStr ''2025-01-01'')]"
  let ?b = "[(''subject'', JStr ''Yelp.Users''), (''valid_from'', JStr ''2025-02-01'')]"
  have run: "dedup [?a, ?b] ''2025-03-01'' = ([?b], [closed_as ''2025-03-01'' ''consolidation-dedup'' ?a])" by code_simp
  show ?thesis using run dedup_keeps_newest [OF run] by (simp add: Let_def)
qed

section \<open>The pass writes nothing\<close>

lemma bootstrap_sends:
  "(\<And>st. st \<in> set sts \<Longrightarrow> P (script_request st [])) \<Longrightarrow> emits P (script_bootstrap net sts)"
  by (induction sts) (auto intro!: script_emits simp del: io_run)

text \<open>
  The consolidation never changes the store. Whatever the cluster answers, the script sends its
  bootstrap statements and one read of the current rows, of every tenant; and outside a dry run it
  never reaches a result, since \<open>apply\<close> is called without the principal it requires.
\<close>
theorem consolidation_never_writes:
  "emits (\<lambda>r. \<exists>st \<in> set bootstrap_statements \<union> {export_query ''IS UNKNOWN''}. r = script_request st [])
     (run_consolidation net e floor_trust dry_run)
   \<and> yields (\<lambda>_. dry_run) (run_consolidation net e floor_trust dry_run)"
proof
  let ?P = "\<lambda>r. \<exists>st \<in> set bootstrap_statements \<union> {export_query ''IS UNKNOWN''}. r = script_request st []"
  have "emits ?P (script_bootstrap net bootstrap_statements)"
    by (rule bootstrap_sends) auto
  moreover have "emits ?P (fetch_all_current net)"
    unfolding fetch_all_current_def by (intro script_emits) auto
  ultimately show "emits ?P (run_consolidation net e floor_trust dry_run)"
    unfolding run_consolidation_def by (intro emits_bind emits_prod emits_lift emits_if emits_return emits_raise)
  show "yields (\<lambda>_. dry_run) (run_consolidation net e floor_trust dry_run)"
    unfolding run_consolidation_def
    by (auto intro!: yields_bind_any yields_return yields_raise split: prod.split simp del: io_run)
qed

section \<open>Distilled notes have no owner\<close>

lemma offline_notes_unowned:
  assumes "reconcile None subject body now [] [''distilled''] q None = (action, row, n)"
  shows "action = ''created'' \<and> map_of row principal_field = None"
  using assms by (auto simp: reconcile_def Let_def optional_fields_def fresh_fields_def principal_field_def split: option.splits if_splits)

section \<open>Labelling twice\<close>

text \<open>A piece of a split holds no separator, and neither does what is stripped from it.\<close>

lemma split_go_free:
  assumes "sep \<noteq> []" and "\<And>i. i < length acc \<Longrightarrow> \<not> prefix sep (drop i (rev acc @ s))" and "w \<in> set (split_go sep acc s)"
  shows "\<not> contains sep w"
  using assms
proof (induction sep acc s rule: split_go.induct)
  case (1 sep acc s)
  have whole: "\<not> contains sep (rev acc)"
  proof
    assume "contains sep (rev acc)"
    then obtain a b where ab: "rev acc = a @ sep @ b" by (auto simp: contains_iff)
    have "length acc = length (rev acc)" by simp
    then have "length a < length acc" using ab "1.prems"(1) by (cases sep) simp_all
    moreover have "prefix sep (drop (length a) (rev acc @ s))" by (simp add: ab)
    ultimately show False using "1.prems"(2) by blast
  qed
  show ?case
  proof (cases "prefix sep s")
    case True
    then have "w = rev acc \<or> w \<in> set (split_go sep [] (drop (length sep) s))"
      using "1.prems"(1,3) by (simp add: split_go.simps [of sep acc s])
    then show ?thesis using whole "1.IH"(1) True "1.prems"(1) by auto
  next
    case False
    show ?thesis
    proof (cases s)
      case Nil
      then show ?thesis using whole False "1.prems"(1,3) by (simp add: split_go_end)
    next
      case (Cons c cs)
      have "w \<in> set (split_go sep (c # acc) cs)"
        using "1.prems"(3) False Cons by (simp add: split_go.simps [of sep acc "c # cs"])
      moreover have "\<not> prefix sep (drop i (rev (c # acc) @ cs))" if "i < length (c # acc)" for i
        using that "1.prems"(2) [of i] False Cons by (cases "i = length acc") auto
      ultimately show ?thesis using "1.IH"(2) False Cons "1.prems"(1) by simp
    qed
  qed
qed

definition clean_block :: "string \<Rightarrow> bool" where
  "clean_block b \<longleftrightarrow> b \<noteq> [] \<and> strip b = b \<and> \<not> contains blank_line b"

lemma strip_infix: "\<exists>a b. s = a @ strip_by p s @ b"
proof -
  have left: "s = takeWhile p s @ strip_left_by p s" by (simp add: strip_left_by_def)
  obtain b where "strip_left_by p s = strip_by p s @ b"
    using strip_right_by_prefix [of p "strip_left_by p s"] by (auto simp: strip_by_def prefix_def)
  with left show ?thesis by (intro exI) (erule subst [where P = "\<lambda>x. s = takeWhile p s @ x"])
qed

lemma blocks_clean: "b \<in> set (blocks_of s) \<Longrightarrow> clean_block b"
proof -
  assume "b \<in> set (blocks_of s)"
  then obtain w where w: "w \<in> set (split_on blank_line s)" "b = strip w" "b \<noteq> []" by (auto simp: blocks_of_def)
  have "\<not> contains blank_line w" using split_go_free [of blank_line "[]" s w] w(1) by (simp add: split_on_def blank_line_def)
  then have "\<not> contains blank_line (strip w)" using strip_infix [of w py_space] by (metis append.assoc contains_iff)
  then show ?thesis using w by (simp add: clean_block_def)
qed

lemma split_go_block:
  "\<not> contains blank_line w \<Longrightarrow> w = [] \<or> last w \<noteq> CHR 0x0A \<Longrightarrow> split_go blank_line acc (w @ s) = split_go blank_line (rev w @ acc) s"
proof (induction w arbitrary: acc)
  case (Cons c w)
  have "\<not> prefix blank_line (c # w @ s)"
  proof
    assume p: "prefix blank_line (c # w @ s)"
    then have c: "c = CHR 0x0A" by (simp add: blank_line_def)
    then obtain d v where w: "w = d # v" using Cons.prems(2) by (cases w) auto
    then have "c # w = [] @ blank_line @ v" using p c by (simp add: blank_line_def)
    then show False using Cons.prems(1) by (auto simp: contains_iff)
  qed
  then have "split_go blank_line acc ((c # w) @ s) = split_go blank_line (c # acc) (w @ s)"
    by (subst split_go.simps) simp
  moreover have "\<not> contains blank_line w" using Cons.prems(1) unfolding contains_iff by (metis append_Cons)
  ultimately show ?case using Cons.IH [of "c # acc"] Cons.prems(2) by (auto split: if_splits)
qed simp

lemma clean_last: "clean_block b \<Longrightarrow> last b \<noteq> CHR 0x0A"
proof -
  assume b: "clean_block b"
  then have "\<not> py_space (last b)" using strip_by_ends [of py_space b] by (simp add: clean_block_def)
  moreover have "py_space (CHR 0x0A)" by code_simp
  ultimately show ?thesis by auto
qed

lemma blocks_of_joined:
  assumes "bs \<noteq> []" and "list_all clean_block bs"
  shows "blocks_of (join blank_line bs @ newline) = bs"
proof -
  have space: "py_space (CHR 0x0A)" by code_simp
  have "map strip (split_go blank_line [] (join blank_line bs @ newline)) = bs"
    using assms
  proof (induction bs rule: list_nonempty_induct)
    case (single b)
    then have b: "clean_block b" by simp
    have "split_go blank_line [] (b @ newline) = [b @ newline]"
      using b clean_last [OF b] split_go_block [of b "[]" newline]
      by (subst split_go_block) (simp_all add: clean_block_def split_go.simps blank_line_def newline_def)
    moreover have "strip (b @ newline) = b"
      using b space strip_right_end [of b py_space newline "[]"] strip_by_ends [of py_space b]
      by (simp add: clean_block_def strip_by_def newline_def strip_left_by_id)
    ultimately show ?case by simp
  next
    case (cons b bs)
    then have b: "clean_block b" by simp
    have "split_go blank_line [] (b @ blank_line @ join blank_line bs @ newline)
        = b # split_go blank_line [] (join blank_line bs @ newline)"
      using b clean_last [OF b] split_go_sep [of blank_line "rev b"]
      by (subst split_go_block) (simp_all add: clean_block_def blank_line_def)
    then show ?case using cons b by (simp add: join_Cons clean_block_def)
  qed
  then show ?thesis using assms(2) by (auto simp: blocks_of_def split_on_def list_all_iff clean_block_def intro!: filter_True)
qed

lemma label_clean: "clean_block b \<Longrightarrow> clean_block (label_block b) \<and> is_labelled (label_block b)"
proof -
  assume b: "clean_block b"
  have ends: "\<not> py_space (hd b)" "\<not> py_space (last b)" "b \<noteq> []"
    using b strip_by_ends [of py_space b] by (simp_all add: clean_block_def)
  have label: "\<not> py_space (CHR ''('')" by code_simp
  let ?l = "unverified_label @ '' '' @ b"
  have "strip ?l = ?l" using ends label by (intro strip_by_id disjI2) (simp add: unverified_label_def)
  moreover have "\<not> contains blank_line ?l"
  proof -
    have skip: "\<not> sublist blank_line (c # w)" if "c \<noteq> CHR 0x0A" "\<not> sublist blank_line w" for c w
      using that by (simp add: blank_line_def sublist_Cons_right)
    show ?thesis
      using b unfolding contains_def unverified_label_def clean_block_def append.simps by (intro skip) simp_all
  qed
  ultimately have "clean_block ?l" by (simp add: clean_block_def unverified_label_def)
  then show ?thesis using b by (simp add: label_block_def is_labelled_def)
qed

text \<open>
  C39. The migration of labels is done once. It leaves an overlay of which every block is grounded or
  labelled: a second run finds as many blocks, changes none and returns the same text. Nothing is
  dropped on the way, each block being kept or put behind the label.
\<close>
theorem label_migration_idempotent:
  "migrate_overlay (fst (migrate_overlay overlay)) = (fst (migrate_overlay overlay), 0)
   \<and> blocks_of (fst (migrate_overlay overlay)) = map label_block (blocks_of overlay)"
proof (cases "blocks_of overlay = []")
  case True
  moreover have "blocks_of [] = []"
    by (simp add: blocks_of_def split_on_def split_go_end blank_line_def strip_by_def strip_left_by_def strip_right_by_def)
  ultimately show ?thesis by (simp add: migrate_overlay_def)
next
  case False
  let ?bs = "map label_block (blocks_of overlay)"
  have labelled: "list_all clean_block ?bs" "list_all is_labelled ?bs"
    using blocks_clean label_clean by (auto simp: list_all_iff)
  have again: "blocks_of (join blank_line ?bs @ newline) = ?bs" using False labelled(1) by (intro blocks_of_joined) simp_all
  have kept: "label_block b = b" if "is_labelled b" for b using that by (simp add: label_block_def)
  have "map label_block ?bs = ?bs" "filter (\<lambda>b. \<not> is_labelled b) ?bs = []"
    using labelled(2) kept by (simp_all only: list_all_iff filter_empty_conv map_idI, blast+)
  then have "migrate_overlay (join blank_line ?bs @ newline) = (join blank_line ?bs @ newline, 0)"
    using False by (simp only: migrate_overlay_def Let_def again list.size if_False map_is_Nil_conv)
  then show ?thesis using False again by (simp add: migrate_overlay_def Let_def)
qed

end
