(* ===== verification/Offline_Eval.thy ===== *)
theory Offline_Eval
  imports Offline_Bundle
begin

text \<open>
  The offline evaluation of the store (\<open>scripts/memory_eval.py\<close>): a replay of cases against
  the store through the retrieval of the gateway, scored per axis. Scores are exact rationals,
  \<open>json.loads\<close> of a line is an argument.
\<close>

section \<open>Retrieval\<close>

definition eval_subject_query :: "string \<Rightarrow> string" where
  "eval_subject_query subject =
     ''SELECT VALUE m FROM AgentMemory.Memory m WHERE m.subject = '' @ dquote subject @ '' AND m.valid_to IS UNKNOWN;''"

definition eval_fulltext_query :: "string \<Rightarrow> string" where
  "eval_fulltext_query tokens =
     ''SELECT VALUE m FROM AgentMemory.Memory m WHERE ftcontains(m.`text`, ['' @ tokens @ ''], {'' @ dquote ''mode''
     @ '': '' @ dquote ''any'' @ ''}) AND m.valid_to IS UNKNOWN LIMIT 100;''"

definition store_size_query :: string where
  "store_size_query =
     ''SELECT VALUE SUM(LENGTH(m.`text`)) FROM AgentMemory.Memory m WHERE m.valid_to IS UNKNOWN;''"

text \<open>\<open>ch.isalnum() or ch == "_"\<close> is what \<open>\w\<close> matches.\<close>

definition tokenize :: "string \<Rightarrow> string list" where
  "tokenize query = map lower (words (map (\<lambda>c. if is_word c then c else CHR '' '') query))"

definition eval_score :: "string list \<Rightarrow> dict \<Rightarrow> int" where
  "eval_score tokens doc =
     (let haystack = lower (py_str (dget_or ''text'' (JStr []) doc) @ '' '' @ py_str (dget_or ''subject'' (JStr []) doc))
      in int (sum_list (map (\<lambda>t. count_text t haystack) tokens)))"

definition eval_rank :: "dict list \<Rightarrow> string list \<Rightarrow> int \<Rightarrow> dict list" where
  "eval_rank docs tokens k = py_take k (sort_key (\<lambda>d. - eval_score tokens d) docs)"

definition keep_unseen :: "dict list \<times> string list \<Rightarrow> dict \<Rightarrow> dict list \<times> string list" where
  "keep_unseen st doc =
     (case st of (docs, seen) \<Rightarrow>
        if row_subject doc \<in> set seen then st else (docs @ [doc], seen @ [row_subject doc]))"

definition retrieve :: "network \<Rightarrow> string \<Rightarrow> json \<Rightarrow> int \<Rightarrow> dict list io" where
  "retrieve net query subject k =
     io_bind (if truthy subject
              then io_bind (script_execute net (eval_subject_query (py_str subject)) []) (\<lambda>envelope. io_lift (plain_rows envelope))
              else io_return []) (\<lambda>keyed.
     case foldl keep_unseen ([], []) keyed of (docs, seen) \<Rightarrow>
       let tokens = tokenize query
       in if tokens = [] then io_return (py_take k docs)
          else io_bind (script_execute net (eval_fulltext_query (quoted_list tokens)) []) (\<lambda>envelope.
               io_bind (io_lift (plain_rows envelope)) (\<lambda>rows.
               io_return (py_take k (docs @ eval_rank (filter (\<lambda>d. row_subject d \<notin> set seen) rows) tokens k)))))"

section \<open>Scores\<close>

text \<open>\<open>set(v)\<close> of a value of a case.\<close>

fun py_set :: "json \<Rightarrow> exn + json list" where
  "py_set (JList xs) = (if list_all hashable xs then Inr xs else Inl (PyExc ''TypeError''))"
| "py_set (JStr s) = Inr (map (\<lambda>c. JStr [c]) s)"
| "py_set (JDict d) = Inr (map (\<lambda>p. JStr (fst p)) d)"
| "py_set _ = Inl (PyExc ''TypeError'')"

fun reciprocal_rank :: "json list \<Rightarrow> nat \<Rightarrow> string list \<Rightarrow> rat" where
  "reciprocal_rank expected position [] = 0"
| "reciprocal_rank expected position (subj # rest) =
     (if JStr subj \<in> set expected then 1 / of_nat position else reciprocal_rank expected (position + 1) rest)"

definition score_recall :: "dict \<Rightarrow> dict list \<Rightarrow> exn + rat \<times> rat" where
  "score_recall c retrieved =
     sum_bind (py_set (dget_or ''expect_subjects'' (JList []) c)) (\<lambda>expected.
       let subjects = map row_subject retrieved
       in Inr (if list_ex (\<lambda>s. JStr s \<in> set expected) subjects then 1 else 0, reciprocal_rank expected 1 subjects))"

definition score_forgetting :: "dict \<Rightarrow> dict list \<Rightarrow> exn + rat" where
  "score_forgetting c retrieved =
     sum_bind (py_set (dget_or ''forbid_subjects'' (JList []) c)) (\<lambda>forbidden.
       Inr (of_nat (length (remdups (filter (\<lambda>s. JStr s \<in> set forbidden) (map row_subject retrieved))))))"

definition score_reuse :: "dict \<Rightarrow> dict list \<Rightarrow> rat" where
  "score_reuse c retrieved =
     (let snippet = py_str (dget_or ''expect_snippet'' (JStr []) c)
      in if snippet \<noteq> [] \<and> list_ex (\<lambda>d. contains snippet (py_str (dget_or ''text'' (JStr []) d))) retrieved then 1 else 0)"

definition score_efficiency :: "dict list \<Rightarrow> int \<Rightarrow> rat \<times> rat" where
  "score_efficiency retrieved store_chars =
     (let chars = of_nat (sum_list (map (\<lambda>d. length (py_str (dget_or ''text'' (JStr []) d))) retrieved))
      in (chars, if store_chars = 0 then 0 else chars / of_int store_chars))"

section \<open>Cases and the report\<close>

definition eval_axes :: "string list" where "eval_axes = [''recall'', ''forgetting'', ''reuse'']"

fun load_cases :: "(string \<Rightarrow> json option) \<Rightarrow> dict list \<Rightarrow> string list \<Rightarrow> exn + dict list" where
  "load_cases loads cases [] = Inr cases"
| "load_cases loads cases (line # rest) =
     (if strip line = [] then load_cases loads cases rest
      else case loads line of
        None \<Rightarrow> Inl (PyExc ''JSONDecodeError'')
      | Some (JDict c) \<Rightarrow>
          (if dget ''axis'' c \<notin> set (map JStr eval_axes) then Inl (PyExc ''ValueError'')
           else load_cases loads (cases @ [c]) rest)
      | Some _ \<Rightarrow> Inl (PyExc ''AttributeError''))"

record axis_scores =
  ax_recall :: "(rat \<times> rat) list"
  ax_forgetting :: "rat list"
  ax_reuse :: "rat list"
  ax_efficiency :: "(rat \<times> rat) list"

definition stored_chars :: "dict \<Rightarrow> exn + int" where
  "stored_chars envelope =
     (let rows = dget_or ''results'' (JList []) envelope
      in if \<not> truthy rows then Inr 0
         else case rows of
           JList (x # _) \<Rightarrow> Inr (case as_int x of None \<Rightarrow> 0 | Some n \<Rightarrow> n)
         | JStr _ \<Rightarrow> Inr 0
         | JDict _ \<Rightarrow> Inl (PyExc ''KeyError'')
         | _ \<Rightarrow> Inl (PyExc ''TypeError''))"

text \<open>The lists of the axes are keyed by the axis of the case.\<close>

definition score_case :: "axis_scores \<Rightarrow> dict \<Rightarrow> dict list \<Rightarrow> exn + axis_scores" where
  "score_case sc c retrieved =
     (case map_of c ''axis'' of
        None \<Rightarrow> Inl (PyExc ''KeyError'')
      | Some axis \<Rightarrow>
          if axis = JStr ''recall'' then map_sum id (\<lambda>r. sc\<lparr>ax_recall := ax_recall sc @ [r]\<rparr>) (score_recall c retrieved)
          else if axis = JStr ''forgetting''
          then map_sum id (\<lambda>r. sc\<lparr>ax_forgetting := ax_forgetting sc @ [r]\<rparr>) (score_forgetting c retrieved)
          else if axis = JStr ''reuse'' then Inr (sc\<lparr>ax_reuse := ax_reuse sc @ [score_reuse c retrieved]\<rparr>)
          else Inl (PyExc (if hashable axis then ''KeyError'' else ''TypeError'')))"

definition eval_case :: "network \<Rightarrow> int \<Rightarrow> int \<Rightarrow> axis_scores \<Rightarrow> dict \<Rightarrow> axis_scores io" where
  "eval_case net store_chars k sc c =
     io_bind (retrieve net (py_str (dget_or ''query'' (JStr []) c)) (dget ''subject'' c) k) (\<lambda>retrieved.
       io_lift (score_case (sc\<lparr>ax_efficiency := ax_efficiency sc @ [score_efficiency retrieved store_chars]\<rparr>) c retrieved))"

definition mean :: "rat list \<Rightarrow> rat" where
  "mean xs = sum_list xs / of_nat (length xs)"

record eval_report =
  ev_cases :: nat
  ev_k :: int
  ev_store_chars :: int
  ev_recall :: "(nat \<times> rat \<times> rat) option"
  ev_forgetting :: "(nat \<times> int \<times> rat) option"
  ev_reuse :: "(nat \<times> rat) option"
  ev_efficiency :: "(rat \<times> rat) option"

text \<open>An axis without a case has no entry.\<close>

definition unless_none :: "'a list \<Rightarrow> ('a list \<Rightarrow> 'b) \<Rightarrow> 'b option" where
  "unless_none rows f = (if rows = [] then None else Some (f rows))"

definition report_of :: "nat \<Rightarrow> int \<Rightarrow> int \<Rightarrow> axis_scores \<Rightarrow> eval_report" where
  "report_of cases k store_chars sc =
     \<lparr>ev_cases = cases, ev_k = k, ev_store_chars = store_chars,
      ev_recall = unless_none (ax_recall sc) (\<lambda>rows. (length rows, mean (map fst rows), mean (map snd rows))),
      ev_forgetting = unless_none (ax_forgetting sc) (\<lambda>rows. (length rows, \<lfloor>sum_list rows\<rfloor>, mean rows)),
      ev_reuse = unless_none (ax_reuse sc) (\<lambda>rows. (length rows, mean rows)),
      ev_efficiency = unless_none (ax_efficiency sc) (\<lambda>rows. (mean (map fst rows), mean (map snd rows)))\<rparr>"

definition evaluate :: "network \<Rightarrow> dict list \<Rightarrow> int \<Rightarrow> eval_report io" where
  "evaluate net cases k =
     io_bind (script_execute net store_size_query []) (\<lambda>envelope.
     io_bind (io_lift (stored_chars envelope)) (\<lambda>store_chars.
     io_bind (io_fold (eval_case net store_chars k) \<lparr>ax_recall = [], ax_forgetting = [], ax_reuse = [], ax_efficiency = []\<rparr> cases)
       (\<lambda>sc. io_return (report_of (length cases) k store_chars sc))))"

definition run_eval :: "network \<Rightarrow> (string \<Rightarrow> json option) \<Rightarrow> string list \<Rightarrow> int \<Rightarrow> eval_report io" where
  "run_eval net loads lines k = io_bind (io_lift (load_cases loads [] lines)) (\<lambda>cases. evaluate net cases k)"

section \<open>Facts\<close>

text \<open>The ranking of the harness is the one of the tool, cut at \<open>k\<close>.\<close>

lemma eval_rank_is_rank: "eval_rank docs tokens k = py_take k (rank_docs tokens docs)"
proof -
  have "lower '' '' = '' ''" by code_simp
  then have "eval_score tokens d = score tokens d" for d
    by (simp add: eval_score_def score_def doc_subject_def lower_def Let_def)
  then show ?thesis by (simp add: eval_rank_def rank_docs_def)
qed

lemma reciprocal_bounds: "0 < n \<Longrightarrow> 0 \<le> reciprocal_rank e n xs \<and> reciprocal_rank e n xs \<le> 1"
proof (induction xs arbitrary: n)
  case (Cons x xs)
  have "(1 :: rat) / of_nat n \<le> 1" using Cons.prems by (simp add: field_simps)
  then show ?case using Cons.IH [of "n + 1"] by auto
qed simp

lemma reciprocal_none: "\<not> list_ex (\<lambda>s. JStr s \<in> set e) xs \<Longrightarrow> reciprocal_rank e n xs = 0"
  by (induction xs arbitrary: n) auto

lemma mean_bounds:
  assumes "list_all (\<lambda>x. 0 \<le> f x \<and> f x \<le> g x) xs" and "xs \<noteq> []"
  shows "0 \<le> mean (map f xs) \<and> mean (map f xs) \<le> mean (map g xs)"
proof -
  have "0 \<le> sum_list (map f xs) \<and> sum_list (map f xs) \<le> sum_list (map g xs)"
    using assms(1) by (induction xs) auto
  then show ?thesis by (simp add: mean_def divide_right_mono)
qed

lemma mean_one: "xs \<noteq> [] \<Longrightarrow> mean (map (\<lambda>_. 1) xs) = 1"
  by (simp add: mean_def sum_list_triv)

definition scores_ok :: "axis_scores \<Rightarrow> bool" where
  "scores_ok sc \<longleftrightarrow>
     list_all (\<lambda>r. 0 \<le> snd r \<and> snd r \<le> fst r \<and> 0 \<le> fst r \<and> fst r \<le> 1) (ax_recall sc)
     \<and> list_all (\<lambda>r. 0 \<le> r) (ax_forgetting sc)
     \<and> list_all (\<lambda>r. 0 \<le> r \<and> r \<le> 1) (ax_reuse sc)"

lemma score_case_ok:
  assumes "scores_ok sc" and "score_case sc c retrieved = Inr sc'"
  shows "scores_ok sc' \<and> length (ax_recall sc') + length (ax_forgetting sc') + length (ax_reuse sc')
           = Suc (length (ax_recall sc) + length (ax_forgetting sc) + length (ax_reuse sc))"
  using assms reciprocal_bounds [of 1] reciprocal_none
  by (auto simp: score_case_def score_recall_def score_forgetting_def score_reuse_def scores_ok_def sum_bind_def Let_def
      split: option.splits if_splits sum.splits)

definition report_ok :: "eval_report \<Rightarrow> bool" where
  "report_ok rep \<longleftrightarrow>
     (case ev_recall rep of None \<Rightarrow> True | Some (n, hit_rate, mrr) \<Rightarrow> 0 \<le> mrr \<and> mrr \<le> hit_rate \<and> hit_rate \<le> 1)
     \<and> (case ev_forgetting rep of None \<Rightarrow> True | Some (n, violations, rate) \<Rightarrow> 0 \<le> violations \<and> 0 \<le> rate)
     \<and> (case ev_reuse rep of None \<Rightarrow> True | Some (n, rate) \<Rightarrow> 0 \<le> rate \<and> rate \<le> 1)"

definition scored_cases :: "eval_report \<Rightarrow> nat" where
  "scored_cases rep =
     (case ev_recall rep of None \<Rightarrow> 0 | Some (n, _) \<Rightarrow> n) + (case ev_forgetting rep of None \<Rightarrow> 0 | Some (n, _) \<Rightarrow> n)
     + (case ev_reuse rep of None \<Rightarrow> 0 | Some (n, _) \<Rightarrow> n)"

lemma report_of_ok:
  assumes "scores_ok sc"
  shows "report_ok (report_of n k store_chars sc)"
proof -
  have recall: "list_all (\<lambda>r. 0 \<le> snd r \<and> snd r \<le> fst r) (ax_recall sc)" "list_all (\<lambda>r. 0 \<le> fst r \<and> fst r \<le> (\<lambda>_. 1) r) (ax_recall sc)"
    and reuse: "list_all (\<lambda>r. 0 \<le> id r \<and> id r \<le> (\<lambda>_. 1) r) (ax_reuse sc)"
    using assms by (auto simp: scores_ok_def list_all_iff)
  have "0 \<le> sum_list (ax_forgetting sc)"
    using assms by (auto simp: scores_ok_def list_all_iff intro: sum_list_nonneg)
  then have forgetting: "0 \<le> \<lfloor>sum_list (ax_forgetting sc)\<rfloor>" "0 \<le> mean (ax_forgetting sc)"
    by (simp_all add: mean_def)
  show ?thesis
    using mean_bounds [OF recall(1)] mean_bounds [OF recall(2)] mean_bounds [OF reuse] forgetting
      mean_one [of "ax_recall sc"] mean_one [of "ax_reuse sc"]
    by (simp add: report_ok_def report_of_def unless_none_def)
qed

lemma report_of_counts:
  "ev_cases (report_of n k store_chars sc) = n"
  "scored_cases (report_of n k store_chars sc) = length (ax_recall sc) + length (ax_forgetting sc) + length (ax_reuse sc)"
  by (simp_all add: report_of_def scored_cases_def unless_none_def)

lemma eval_fold_ok:
  assumes "scores_ok sc"
  shows "yields (\<lambda>sc'. scores_ok sc' \<and> length (ax_recall sc') + length (ax_forgetting sc') + length (ax_reuse sc')
           = length cases + (length (ax_recall sc) + length (ax_forgetting sc) + length (ax_reuse sc)))
         (io_fold (eval_case net store_chars k) sc cases)"
  using assms
proof (induction cases arbitrary: sc)
  case (Cons c cases)
  have "scores_ok (sc\<lparr>ax_efficiency := ax_efficiency sc @ [e]\<rparr>)" for e using Cons.prems by (simp add: scores_ok_def)
  then have "yields (\<lambda>sc'. scores_ok sc' \<and> length (ax_recall sc') + length (ax_forgetting sc') + length (ax_reuse sc')
      = Suc (length (ax_recall sc) + length (ax_forgetting sc) + length (ax_reuse sc))) (eval_case net store_chars k sc c)"
    unfolding eval_case_def by (intro yields_bind_any yields_lift) (drule score_case_ok [rotated], simp_all)
  then have "yields (\<lambda>sc'. scores_ok sc' \<and> length (ax_recall sc') + length (ax_forgetting sc') + length (ax_reuse sc')
      = length cases + Suc (length (ax_recall sc) + length (ax_forgetting sc) + length (ax_reuse sc)))
      (io_bind (eval_case net store_chars k sc c) (\<lambda>sc'. io_fold (eval_case net store_chars k) sc' cases))"
    by (rule yields_bind) (use Cons.IH in fastforce)
  then show ?case by simp
qed (simp add: yields_return del: io_run)

text \<open>
  The rates of the evaluation are rates, and every case counts. Whatever the store answers, a
  report of the harness has \<open>0 \<le> mrr \<le> hit rate \<le> 1\<close>, a reuse rate between zero and one and no
  negative count of violations; and each case of the file is scored on exactly one axis.
\<close>
theorem eval_report_bounds:
  "yields (\<lambda>rep. report_ok rep \<and> scored_cases rep = ev_cases rep \<and> ev_cases rep = length cases) (evaluate net cases k)"
proof -
  have start: "scores_ok \<lparr>ax_recall = [], ax_forgetting = [], ax_reuse = [], ax_efficiency = []\<rparr>" by (simp add: scores_ok_def)
  show ?thesis
    unfolding evaluate_def
    by (rule yields_bind_any, rule yields_bind_any, rule yields_bind [OF eval_fold_ok [OF start]])
      (auto intro!: yields_return report_of_ok simp: report_of_counts simp del: io_run)
qed

text \<open>
  What the harness measures is not what a caller sees: it reads the rows of every tenant, and it
  never follows the links of a hit.
\<close>

lemma eval_blind_to_tenants:
  "\<not> contains principal_field (eval_fulltext_query []) \<and> \<not> contains principal_field store_size_query"
  by code_simp

end
