(* ===== verification/Spec2Isabelle.thy ===== *)
theory Spec2Isabelle
  imports CC_Client Context_Id Statement_Guard Naming Egress Compiler_Params Permits Audit_Log
    Plan_Parser Catalog Tenant_Policy Claims Staleness Memory_Search Memory_Notes Memory_Write Preferences
    Artifacts Memory_Capture Execute_Query Async_Query Introspect Job_Parser Profile_Parser
    Okf_Walk Upkeep Distill Identity Maintenance Http_Gate Schema_Tools Metadata_Search Index_Advice
    Health_Check Reference_Data Reference_Tools Cluster_Tools Prompts Tool_Surface Gateway_Server
    Served_Calls Server_State Result_Types Served_Types Tool_Descriptions Gateway_Main
    Offline_Refresh Offline_Bundle Offline_Consolidate Offline_Eval
begin

text \<open>
  A model of the AsterixDB MCP gateway (\<open>src/src/asterixdb_mcp\<close>) and of the operator's scripts around
  it (\<open>src/scripts\<close>), with the theorems that make them correct.

  The program. The gateway is a server between a language model and the cluster controller of an
  AsterixDB cluster. A client calls one of 29 tools, reads a resource, asks for a prompt or for the
  completion of an argument (\<open>server.py\<close>). A call is handed the scope of its connection and tenant
  (\<open>identity.py\<close>, \<open>scopes.py\<close>), runs a tool over the HTTP client (\<open>cc_client.py\<close>) and answers with a
  text and a JSON object. On the way a statement is guarded and limited (\<open>statement_guard.py\<close>), its
  compiled plan is checked against the tenant's allowlist (\<open>tenant_policy.py\<close>), a permit is taken
  (\<open>permits.py\<close>), the rows are cut to what a model can take (\<open>egress.py\<close>) and a complete result that was
  cut is put aside as an artifact (\<open>artifacts.py\<close>). Around the queries there is a memory of notes that
  lives in the cluster itself: notes are searched, written, attached to results, checked against the
  rows that were just read, captured from a failure that found its working form, distilled from
  sessions, walked from the catalog and replayed against the data (\<open>memory_*.py\<close>, \<open>claims.py\<close>,
  \<open>staleness.py\<close>, \<open>distill.py\<close>, \<open>okf_walk.py\<close>, \<open>revalidate.py\<close>, \<open>decay.py\<close>, \<open>maintenance.py\<close>). Every row of the
  memory belongs to a tenant. The scripts do the same work offline.

  How it is modelled. Python values that come from outside are the datatype \<open>json\<close>, a dictionary an
  association list in insertion order, a text a list of Latin-1 characters, \<open>float\<close> a rational number,
  \<open>int\<close> unbounded. Everything a computation does to the outside is an HTTP request, so an effectful
  function is a function from the requests sent so far to a result (an exception or a value) and the
  requests sent after it (\<open>'a io\<close> in Gateway_IO); the network is an arbitrary function of the whole
  history of requests, so no theorem assumes anything of the cluster. Exceptions are values: a
  \<open>GatewayError\<close> with its type, or the name of a Python exception. What the source mutates is passed and
  returned: the audit log, the event buffer, the artifact directory, the registry of scopes.

  Theories, from the bottom.

  \<^item> Shared: Gateway_Prelude (association lists, collections of hints, the interfaces \<open>normaliser\<close> and
    \<open>keyed_store\<close>), Py_Text, Py_Value, Py_Regex (strings, values and \<open>re\<close> as far as the source uses them),
    Gateway_IO (effects; \<open>emits P m\<close>: every request m sends satisfies P; \<open>traced P m t\<close>: from the
    history t on, every request m sends satisfies P together with the history before it, so that P
    can say what an earlier request of the run was answered; \<open>yields Q m\<close>: every value m returns
    satisfies Q).
  \<^item> Foundation: Gateway_Errors (\<open>errors.py\<close>, results of tools), Gateway_Config (\<open>config.py\<close>), Context_Id
    (\<open>context_id.py\<close>), Memory_Store (\<open>memory_store.py\<close>), CC_Client (\<open>cc_client.py\<close>), Egress, Statement_Guard,
    Naming, Compiler_Params, Permits, Audit_Log (\<open>audit_log.py\<close>, \<open>tools/query_history.py\<close>), Artifacts.
  \<^item> Plans and catalog: Plan_Parser (\<open>plan_parser.py\<close>, \<open>hint_deriver.py\<close>), Job_Parser (\<open>job_parser.py\<close>,
    \<open>tools/physical_plan.py\<close>), Profile_Parser (\<open>profile_parser.py\<close>, \<open>tools/profile_query.py\<close>), Catalog
    (\<open>inventory.py\<close>, \<open>index_catalog.py\<close>), Tenant_Policy (\<open>tenant_policy.py\<close>, \<open>plan_guard.py\<close>).
  \<^item> Query tools: Execute_Query, Async_Query, Introspect (\<open>tools/introspect.py\<close>, \<open>check_index_usage.py\<close>,
    \<open>running_queries.py\<close>).
  \<^item> Schema and advice: Schema_Tools, Metadata_Search (\<open>search_metadata.py\<close>, \<open>dataset_stats.py\<close>,
    \<open>sample_stats.py\<close>), Index_Advice (\<open>recommend_indexes.py\<close>), Health_Check, Reference_Data and
    Reference_Tools (functions, references, completions), Cluster_Tools (cluster tools, resources),
    Prompts.
  \<^item> Memory: Claims, Staleness, Memory_Search, Memory_Notes, Memory_Write, Preferences, Memory_Capture,
    Distill, Okf_Walk, Upkeep (\<open>revalidate.py\<close>, \<open>decay.py\<close>, \<open>migrate.py\<close>), Maintenance.
  \<^item> Callers: Identity (\<open>identity.py\<close>, \<open>scopes.py\<close>, \<open>tools/briefing.py\<close>), Http_Gate (\<open>http_app.py\<close>,
    \<open>http_security.py\<close>, \<open>auth.py\<close>).
  \<^item> Server: Output_Schemas, Tool_Surface (\<open>tool_annotations.py\<close>, \<open>_to_call_tool_result\<close>), Gateway_Server
    (\<open>server.py\<close>: its state, one definition per tool, resource, prompt and completion, and \<open>serve\<close>, the
    dispatch of a call with the declared bounds of its arguments), Tool_Descriptions (the texts),
    Gateway_Main (\<open>main\<close>). Over it: Served_Calls (requests of any call), Server_State (histories of
    calls), Result_Types and Served_Types (the types of the answers).
  \<^item> Scripts: Offline_Refresh (\<open>okf_refresh.py\<close>), Offline_Bundle (\<open>okf_bundle.py\<close>), Offline_Consolidate
    (\<open>okf_consolidate.py\<close>, \<open>memory_distill.py\<close>, \<open>memory_migrate_labels.py\<close>), Offline_Eval (\<open>memory_eval.py\<close>).

  What the lemmas show.

  \<^item> Tenancy and write safety: what the client may send (CC_Client), lifted through every tool to any
    call (Served_Calls), the walk, the revalidation, the maintenance and the refresh script; scopes
    refine an abstract store per connection and tenant (Identity), and a call leaves the state of
    other callers alone (Server_State).
  \<^item> Admission: a plan is admitted exactly when all of its sources resolve into the allowlist, nothing
    is executed without admission, ownership of asynchronous ids, permits and their fairness.
  \<^item> Answers: windows and their metadata are truthful, artifacts read back, listings are complete,
    rankings sorted, findings and candidates exact, every reply has its advertised type.
  \<^item> State machines: the permit pool (\<open>permit_step\<close>), the maintenance lock of many processes
    (\<open>lock_step\<close>), the server (\<open>server_step\<close>), each with its invariant by rule induction.
  \<^item> Round trips and idempotence: context ids, artifacts, an export of the store read back, a second
    walk (over the store that the first one leaves, with one current row for a subject), a second
    label migration, the normalisers (interpretations of \<open>normaliser\<close>); the audit log and the
    artifact directory as \<open>keyed_store\<close>.
  \<^item> What the source gets wrong is proved, too, as a lemma on the model: a shed query is stored as a
    failed form, two replies break their schemas, the instructions name a refused topic, recorded
    queries are replayed with the right to write, the lock can be held twice, a consolidation never
    writes, an import ends in a TypeError before it reads the store (so \<open>import_bundle\<close> is modelled up
    to that call, and the round trip of an export is about the functions that it calls).

  Bounds and fuel. The functions are total; recursion that is not structural has a measure. The poll
  loop of a wait is a \<open>partial_function (option)\<close> over the readings of the clock; that it returns, after
  a bounded number of polls, is a theorem. The matching
  of difflib recurses on fuel, the length of the first text, and a lemma says that more changes
  nothing. Where the source cuts (25 or 50 names, 20 recommendations,
  100 completions, 3 advised statements) the model has the same number. The time limit of the
  maintenance is the number of requests after which it strikes, any number or none.

  What the model takes as arguments: the network, readings of the clock, fresh uuids, the verified
  token and the decoder of tokens, \<open>json.loads\<close> of texts, the digest of results, ages and half powers
  and the logarithm of a rank, the event buffer and the artifact directory as the file system has
  them. A call of the server is atomic; what other calls in flight do is in its environment (the
  permit pools as they leave them). When an exception leaves a call, the model keeps no state of it.

  Not modelled: the MCP SDK (transport, routing, validation of types, OAuth middleware) and uvicorn;
  pydantic's reading of the environment; logging and progress notifications, which are advisory;
  difflib's heuristic for long texts; characters beyond Latin-1 and rounding of floats; symbolic
  links in the artifact directory; argument parsing and printing of the scripts; the shell scripts
  that boot a cluster.
\<close>

end
